(* ===== verification/Prelude.thy ===== *)
theory Prelude
  imports Main "HOL-Library.Word"
begin

text \<open>
  Shared vocabulary of the development: the machine integer types of the C sources, the
  collections of simplification rules the component theories add to, and the generic lemmas on
  words, lists and maps that several components use.
\<close>

unbundle bit_operations_syntax

section \<open>Machine integers\<close>

text \<open>
  The program is built for 64-bit Linux: \<open>int\<close> and \<open>unsigned int\<close> have 32 bits, \<open>long\<close>,
  \<open>time_t\<close>, \<open>size_t\<close> and \<open>long long\<close> have 64. Signed values are words read with
  \<^const>\<open>sint\<close>.
\<close>

type_synonym u8 = "8 word"
type_synonym u16 = "16 word"
type_synonym u32 = "32 word"
type_synonym u64 = "64 word"
type_synonym s32 = "32 word"
type_synonym time_t = "64 word"

text \<open>A non-null pointer is a number; \<open>ptr option\<close> is a pointer that may be \<open>NULL\<close>.\<close>

type_synonym ptr = nat

text \<open>
  \<open>c_simps\<close> collects the equations of the C library model, \<open>mce_simps\<close> those of the machine
  check decoders, \<open>heap_simps\<close> the frame rules of the pointer structures.
\<close>

named_theorems c_simps
named_theorems mce_simps
named_theorems heap_simps

abbreviation bit_set :: "'a::len word \<Rightarrow> nat \<Rightarrow> bool" where
  "bit_set w n \<equiv> bit w n"

section \<open>Words\<close>

lemma unat_add_no_wrap:
  fixes a b :: "'a::len word"
  assumes "unat a + unat b < 2 ^ LENGTH('a)"
  shows "unat (a + b) = unat a + unat b"
  using assms by (simp add: unat_word_ariths)

lemma unat_mult_no_wrap:
  fixes a b :: "'a::len word"
  assumes "unat a * unat b < 2 ^ LENGTH('a)"
  shows "unat (a * b) = unat a * unat b"
  using assms by (simp add: unat_word_ariths)

lemma unat_sub_no_wrap:
  fixes a b :: "'a::len word"
  assumes "b \<le> a"
  shows "unat (a - b) = unat a - unat b"
  using assms by (rule unat_sub)

text \<open>
  The test the code uses to see whether a product wrapped: divide it again. It is exact for a
  factor that is not zero.
\<close>

lemma mult_div_check_iff:
  fixes a b :: "'a::len word"
  assumes "a \<noteq> 0"
  shows "(b * a) div a = b \<longleftrightarrow> unat b * unat a < 2 ^ LENGTH('a)"
proof
  assume "unat b * unat a < 2 ^ LENGTH('a)"
  then have "unat (b * a) = unat b * unat a"
    by (rule unat_mult_no_wrap)
  moreover have "unat a \<noteq> 0" using assms by (simp add: unat_eq_0)
  ultimately have "unat ((b * a) div a) = unat b"
    by (simp add: unat_div)
  then show "(b * a) div a = b" by (rule word_unat_eq_iff [THEN iffD2])
next
  assume eq: "(b * a) div a = b"
  have "unat b * unat a = (unat (b * a) div unat a) * unat a"
    using arg_cong [OF eq, of unat] by (simp add: unat_div)
  also have "\<dots> \<le> unat (b * a)" by simp
  also have "\<dots> < 2 ^ LENGTH('a)" by (rule unsigned_less)
  finally show "unat b * unat a < 2 ^ LENGTH('a)" .
qed

lemma unat_u64_less [simp]: "unat (w :: u64) < 18446744073709551616"
  using unsigned_less [of w] by simp

lemma unat_u32_less [simp]: "unat (w :: u32) < 4294967296"
  using unsigned_less [of w] by simp

lemma ucast_ucast_u32:
  fixes w :: u64
  assumes "unat w < 2 ^ 32"
  shows "ucast (ucast w :: u32) = w"
  using assms
  by (simp add: word_unat_eq_iff unsigned_ucast_eq unsigned_take_bit_eq take_bit_nat_eq_self)

lemma word_and_le_mask:
  fixes a b :: "'a::len word"
  shows "unat (a AND b) \<le> unat b"
  by (rule word_and_le1 [THEN word_le_nat_alt [THEN iffD1]])

lemma unat_and_lt:
  fixes a b :: "'a::len word"
  shows "unat b < n \<Longrightarrow> unat (a AND b) < n"
  using word_and_le_mask [of a b] by simp

section \<open>Lists and maps\<close>

text \<open>Reading a table of the sources: an index out of range is undefined behaviour, \<open>None\<close>.\<close>

definition lookup :: "'a list \<Rightarrow> nat \<Rightarrow> 'a option" where
  "lookup xs i = (if i < length xs then Some (xs ! i) else None)"

lemma lookup_Some [simp]: "i < length xs \<Longrightarrow> lookup xs i = Some (xs ! i)"
  by (simp add: lookup_def)

lemma lookup_None_iff: "lookup xs i = None \<longleftrightarrow> length xs \<le> i"
  by (simp add: lookup_def)

lemma sum_list_map_filter_split:
  "sum_list (map f xs) =
     sum_list (map f (filter P xs)) + sum_list (map f (filter (\<lambda>x. \<not> P x) xs))"
  for f :: "'a \<Rightarrow> 'b::ab_group_add"
  by (induction xs) (simp_all add: algebra_simps)

lemma sum_list_takeWhile_dropWhile:
  "sum_list (map f xs) = sum_list (map f (takeWhile P xs)) + sum_list (map f (dropWhile P xs))"
  for f :: "'a \<Rightarrow> 'b::comm_monoid_add"
  by (metis map_append sum_list_append takeWhile_dropWhile_id)

lemma map_upd_other [simp]: "x \<noteq> y \<Longrightarrow> (m(x \<mapsto> v)) y = m y"
  by simp

end
