(* ===== verification/C_Library.thy ===== *)
theory C_Library
  imports Prelude "HOL-Library.Char_ord"
begin

text \<open>
  What the sources use of the C standard library, and the two copy helpers of \<open>types.h\<close>.
  A NUL-terminated C string is the list of its characters without the terminator; a raw buffer
  is a list of characters of its full size, NULs included. Locale-dependent functions are those
  of the C locale. The number parsers follow glibc: a value out of range saturates and raises
  \<open>ERANGE\<close>.
\<close>

section \<open>Characters\<close>

abbreviation NUL :: char where
  "NUL \<equiv> CHR 0x00"

definition code_of :: "char \<Rightarrow> nat" where
  "code_of c = of_char c"

definition isdigit :: "char \<Rightarrow> bool" where
  "isdigit c \<longleftrightarrow> 48 \<le> code_of c \<and> code_of c \<le> 57"

definition isupper :: "char \<Rightarrow> bool" where
  "isupper c \<longleftrightarrow> 65 \<le> code_of c \<and> code_of c \<le> 90"

definition islower :: "char \<Rightarrow> bool" where
  "islower c \<longleftrightarrow> 97 \<le> code_of c \<and> code_of c \<le> 122"

definition isalpha :: "char \<Rightarrow> bool" where
  "isalpha c \<longleftrightarrow> isupper c \<or> islower c"

definition isspace :: "char \<Rightarrow> bool" where
  "isspace c \<longleftrightarrow> code_of c = 32 \<or> (9 \<le> code_of c \<and> code_of c \<le> 13)"

definition tolower :: "char \<Rightarrow> char" where
  "tolower c = (if isupper c then char_of (code_of c + 32) else c)"

definition digit_num :: "char \<Rightarrow> nat" where
  "digit_num c = code_of c - 48"

lemma isdigit_not_alpha [simp]: "isdigit c \<Longrightarrow> \<not> isalpha c"
  by (simp add: isdigit_def isalpha_def isupper_def islower_def)

lemma digit_num_less [simp]: "isdigit c \<Longrightarrow> digit_num c < 10"
  unfolding isdigit_def digit_num_def by linarith

lemma NUL_not_digit [simp]: "\<not> isdigit NUL"
  by (simp add: isdigit_def code_of_def)

section \<open>Comparing and searching\<close>

definition strcasecmp_eq :: "string \<Rightarrow> string \<Rightarrow> bool" where
  "strcasecmp_eq a b \<longleftrightarrow> map tolower a = map tolower b"

text \<open>\<open>strstr\<close> returns the suffix of the haystack that starts with the first occurrence.\<close>

fun prefixb :: "string \<Rightarrow> string \<Rightarrow> bool" where
  "prefixb [] ys = True"
| "prefixb (x # xs) [] = False"
| "prefixb (x # xs) (y # ys) = (x = y \<and> prefixb xs ys)"

fun strstr :: "string \<Rightarrow> string \<Rightarrow> string option" where
  "strstr [] needle = (if needle = [] then Some [] else None)"
| "strstr (c # s) needle = (if prefixb needle (c # s) then Some (c # s) else strstr s needle)"

lemma prefixb_append [simp]: "prefixb xs (xs @ ys)"
  by (induction xs) auto

lemma prefixb_iff: "prefixb xs ys \<longleftrightarrow> (\<exists>zs. ys = xs @ zs)"
  by (induction xs ys rule: prefixb.induct) auto

section \<open>Printing numbers\<close>

definition digit_char :: "nat \<Rightarrow> char" where
  "digit_char d = (if d < 10 then char_of (48 + d) else char_of (87 + d))"

fun to_base :: "nat \<Rightarrow> nat \<Rightarrow> string" where
  "to_base b n =
     (if b < 2 \<or> n < b then [digit_char n] else to_base b (n div b) @ [digit_char (n mod b)])"

declare to_base.simps [simp del]

definition fmt_u :: "'a::len word \<Rightarrow> string" where
  "fmt_u w = to_base 10 (unat w)"

definition fmt_x :: "'a::len word \<Rightarrow> string" where
  "fmt_x w = to_base 16 (unat w)"

definition fmt_int :: "int \<Rightarrow> string" where
  "fmt_int i = (if i < 0 then ''-'' @ to_base 10 (nat (- i)) else to_base 10 (nat i))"

definition fmt_d :: "'a::len word \<Rightarrow> string" where
  "fmt_d w = fmt_int (sint w)"

text \<open>The flags \<open>#\<close> (with \<open>x\<close>) and \<open>0n\<close>.\<close>

definition fmt_alt_x :: "'a::len word \<Rightarrow> string" where
  "fmt_alt_x w = (if w = 0 then ''0'' else ''0x'' @ fmt_x w)"

definition pad0 :: "nat \<Rightarrow> string \<Rightarrow> string" where
  "pad0 n s = replicate (n - length s) (CHR ''0'') @ s"

lemma to_base_nonempty [simp]: "to_base b n \<noteq> []"
  by (subst to_base.simps) simp

lemma length_to_base:
  "2 \<le> b \<Longrightarrow> n < b ^ Suc k \<Longrightarrow> length (to_base b n) \<le> Suc k"
proof (induction k arbitrary: n)
  case 0
  then show ?case by (subst to_base.simps) simp
next
  case (Suc k)
  have "n div b < b ^ Suc k"
    using Suc.prems by (simp add: less_mult_imp_div_less mult.commute)
  then show ?case
    using Suc by (subst to_base.simps) auto
qed

section \<open>Parsing numbers\<close>

definition digit_of :: "nat \<Rightarrow> char \<Rightarrow> nat option" where
  "digit_of b c =
     (let d = (if isdigit c then code_of c - 48
               else if islower c then code_of c - 87
               else if isupper c then code_of c - 55
               else b)
      in if d < b then Some d else None)"

fun scan_digits :: "nat \<Rightarrow> string \<Rightarrow> nat list" where
  "scan_digits b [] = []"
| "scan_digits b (c # s) =
     (case digit_of b c of None \<Rightarrow> [] | Some d \<Rightarrow> d # scan_digits b s)"

definition digits_value :: "nat \<Rightarrow> nat list \<Rightarrow> nat" where
  "digits_value b ds = foldl (\<lambda>v d. b * v + d) 0 ds"

fun skip_space :: "string \<Rightarrow> string" where
  "skip_space [] = []"
| "skip_space (c # s) = (if isspace c then skip_space s else c # s)"

text \<open>An optional sign: whether it is a minus, and the rest.\<close>

fun skip_sign :: "string \<Rightarrow> bool \<times> string" where
  "skip_sign [] = (False, [])"
| "skip_sign (c # s) =
     (if c = CHR ''-'' then (True, s) else if c = CHR ''+'' then (False, s) else (False, c # s))"

text \<open>In base 16 a prefix \<open>0x\<close> or \<open>0X\<close> is skipped when a digit follows.\<close>

fun skip_0x :: "nat \<Rightarrow> string \<Rightarrow> string" where
  "skip_0x b (z # x # c # s) =
     (if b = 16 \<and> z = CHR ''0'' \<and> (x = CHR ''x'' \<or> x = CHR ''X'') \<and> digit_of 16 c \<noteq> None
      then c # s else z # x # c # s)"
| "skip_0x b s = s"

text \<open>
  \<open>strtol\<close> and \<open>strtoul\<close>: the value, the rest of the string from \<open>endptr\<close> on, and whether
  \<open>errno\<close> is set to \<open>ERANGE\<close>. Without a digit the value is 0 and \<open>endptr\<close> is the start.
\<close>

definition strtol :: "nat \<Rightarrow> string \<Rightarrow> int \<times> string \<times> bool" where
  "strtol b s =
     (let (neg, s1) = skip_sign (skip_space s);
          s2 = skip_0x b s1;
          ds = scan_digits b s2;
          v = (if neg then - int (digits_value b ds) else int (digits_value b ds))
      in if ds = [] then (0, s, False)
         else if v > 2 ^ 63 - 1 then (2 ^ 63 - 1, drop (length ds) s2, True)
         else if v < - (2 ^ 63) then (- (2 ^ 63), drop (length ds) s2, True)
         else (v, drop (length ds) s2, False))"

definition strtoul :: "nat \<Rightarrow> string \<Rightarrow> u64 \<times> string \<times> bool" where
  "strtoul b s =
     (let (neg, s1) = skip_sign (skip_space s);
          s2 = skip_0x b s1;
          ds = scan_digits b s2;
          n = digits_value b ds
      in if ds = [] then (0, s, False)
         else if n > 2 ^ 64 - 1 then (- 1, drop (length ds) s2, True)
         else ((if neg then - of_nat n else of_nat n), drop (length ds) s2, False))"

text \<open>\<open>sscanf (s, "%lu", &v)\<close>: the conversion fails when there is no digit.\<close>

definition sscanf_lu :: "string \<Rightarrow> (u64 \<times> bool) option" where
  "sscanf_lu s =
     (let (neg, s1) = skip_sign (skip_space s)
      in if scan_digits 10 s1 = [] then None
         else (case strtoul 10 s of (v, _, erange) \<Rightarrow> Some (v, erange)))"

lemma digits_value_append:
  "digits_value b (xs @ ys) = digits_value b xs * b ^ length ys + digits_value b ys"
proof (induction ys rule: rev_induct)
  case Nil
  then show ?case by (simp add: digits_value_def)
next
  case (snoc y ys)
  have "digits_value b (xs @ ys @ [y]) = b * digits_value b (xs @ ys) + y"
    by (simp add: digits_value_def)
  also have "\<dots> = b * (digits_value b xs * b ^ length ys + digits_value b ys) + y"
    using snoc by simp
  finally show ?case
    by (simp add: digits_value_def algebra_simps)
qed

lemma digits_value_snoc [simp]: "digits_value b (ds @ [d]) = b * digits_value b ds + d"
  by (simp add: digits_value_def)

lemma digits_value_Nil [simp]: "digits_value b [] = 0"
  by (simp add: digits_value_def)

text \<open>The number a string of decimal digits stands for, and the factor of a unit in a table of units.\<close>

definition dec_value :: "string \<Rightarrow> nat" where
  "dec_value s = digits_value 10 (map digit_num s)"

fun unit_factor :: "(string \<times> u64) list \<Rightarrow> string \<Rightarrow> u64 option" where
  "unit_factor [] u = None"
| "unit_factor ((name, factor) # units) u =
     (if strcasecmp_eq u name then Some factor else unit_factor units u)"

lemma dec_value_Cons:
  "dec_value (c # s) = digit_num c * 10 ^ length s + dec_value s"
  using digits_value_append [of 10 "[digit_num c]" "map digit_num s"]
  by (simp add: dec_value_def digits_value_def)

lemma digit_of_10 [c_simps]: "isdigit c \<Longrightarrow> digit_of 10 c = Some (digit_num c)"
  using digit_num_less [of c] by (simp add: digit_of_def digit_num_def Let_def)

lemma digit_of_10_None [c_simps]: "\<not> isdigit c \<Longrightarrow> digit_of 10 c = None"
  by (auto simp: digit_of_def isdigit_def islower_def isupper_def Let_def)

lemma scan_digits_all [c_simps]:
  "list_all isdigit ds \<Longrightarrow> rest = [] \<or> \<not> isdigit (hd rest) \<Longrightarrow>
     scan_digits 10 (ds @ rest) = map digit_num ds"
  by (induction ds) (cases rest; auto simp: c_simps)+

lemma isdigit_not_sign [simp]: "isdigit c \<Longrightarrow> c \<noteq> CHR ''+'' \<and> c \<noteq> CHR ''-'' \<and> \<not> isspace c"
  by (auto simp: isdigit_def code_of_def isspace_def)

lemma skip_0x_10: "skip_0x 10 s = s"
  by (cases "(10 :: nat, s)" rule: skip_0x.cases) auto

text \<open>A string of digits, and what follows it that is not a digit.\<close>

lemma strtoul_digits:
  assumes "ds \<noteq> []" and "list_all isdigit ds" and "rest = [] \<or> \<not> isdigit (hd rest)"
  shows "strtoul 10 (ds @ rest) =
    (if dec_value ds < 2 ^ 64 then (of_nat (dec_value ds), rest, False) else (- 1, rest, True))"
proof -
  obtain c cs where ds: "ds = c # cs" and c: "isdigit c" using assms(1,2) by (cases ds) auto
  have scan: "scan_digits 10 (c # cs @ rest) = map digit_num (c # cs)"
    using scan_digits_all [OF assms(2,3)] ds by simp
  show ?thesis
    using scan unfolding strtoul_def ds
    by (simp add: skip_0x_10 c dec_value_def)
qed

lemma sscanf_lu_digits:
  assumes "ds \<noteq> []" and "list_all isdigit ds" and "rest = [] \<or> \<not> isdigit (hd rest)"
  shows "sscanf_lu (ds @ rest) =
    Some (if dec_value ds < 2 ^ 64 then (of_nat (dec_value ds), False) else (- 1, True))"
proof -
  obtain c cs where ds: "ds = c # cs" and c: "isdigit c" using assms(1,2) by (cases ds) auto
  have "skip_sign (skip_space (ds @ rest)) = (False, ds @ rest)"
    using ds c by simp
  then show ?thesis
    using strtoul_digits [OF assms] scan_digits_all [OF assms(2,3)] assms(1)
    by (simp add: sscanf_lu_def)
qed

section \<open>Printing and parsing again\<close>

lemma code_of_char_of [simp]: "n < 256 \<Longrightarrow> code_of (char_of n) = n"
  by (simp add: code_of_def)

lemma digit_of_digit_char: "d < b \<Longrightarrow> b \<le> 16 \<Longrightarrow> digit_of b (digit_char d) = Some d"
  by (auto simp: digit_of_def digit_char_def isdigit_def islower_def isupper_def Let_def)

lemma scan_digits_append:
  "rest = [] \<or> digit_of b (hd rest) = None \<Longrightarrow> list_all (\<lambda>c. digit_of b c \<noteq> None) s \<Longrightarrow>
     scan_digits b (s @ rest) = map (\<lambda>c. the (digit_of b c)) s"
  by (induction s) (cases rest; auto split: option.splits)+

lemma to_base_digits:
  assumes "2 \<le> b" and "b \<le> 16"
  shows "list_all (\<lambda>c. digit_of b c \<noteq> None) (to_base b n) \<and>
    digits_value b (map (\<lambda>c. the (digit_of b c)) (to_base b n)) = n"
  using assms
proof (induction b n rule: to_base.induct)
  case (1 b n)
  show ?case
  proof (cases "n < b")
    case True
    then show ?thesis
      using 1(2,3) by (subst (1 2) to_base.simps) (simp add: digit_of_digit_char digits_value_def)
  next
    case False
    then have "list_all (\<lambda>c. digit_of b c \<noteq> None) (to_base b (n div b)) \<and>
      digits_value b (map (\<lambda>c. the (digit_of b c)) (to_base b (n div b))) = n div b"
      using 1 by simp
    moreover have "to_base b n = to_base b (n div b) @ [digit_char (n mod b)]"
      using 1(2) False by (subst to_base.simps) simp
    moreover have "digit_of b (digit_char (n mod b)) = Some (n mod b)"
      using 1(2,3) by (intro digit_of_digit_char) simp_all
    ultimately show ?thesis by simp
  qed
qed

text \<open>What is printed in a base is read back in it, up to the first character that is no digit.\<close>

lemma scan_to_base:
  assumes "2 \<le> b" and "b \<le> 16" and "rest = [] \<or> digit_of b (hd rest) = None"
  shows "digits_value b (scan_digits b (to_base b n @ rest)) = n"
    and "drop (length (scan_digits b (to_base b n @ rest))) (to_base b n @ rest) = rest"
    and "scan_digits b (to_base b n @ rest) \<noteq> []"
  using scan_digits_append [OF assms(3)] to_base_digits [OF assms(1,2), of n] by simp_all

lemma to_base_10_digits: "list_all isdigit (to_base 10 n)"
proof -
  have "list_all (\<lambda>c. digit_of 10 c \<noteq> None) (to_base 10 n)"
    using to_base_digits [of 10 n] by simp
  then show ?thesis by (rule list.pred_mono_strong) (metis digit_of_10_None)
qed

lemma strtol_to_base_10:
  assumes "n < 2 ^ 63" and "rest = [] \<or> \<not> isdigit (hd rest)"
  shows "strtol 10 (to_base 10 n @ rest) = (int n, rest, False)"
proof -
  obtain c cs where c: "to_base 10 n = c # cs" by (cases "to_base 10 n") auto
  then have "isdigit c" using to_base_10_digits [of n] by simp
  then have skip: "skip_sign (skip_space (to_base 10 n @ rest)) = (False, to_base 10 n @ rest)"
    using c by simp
  have after: "rest = [] \<or> digit_of 10 (hd rest) = None" using assms(2) by (auto simp: digit_of_10_None)
  have scan: "digits_value 10 (scan_digits 10 (to_base 10 n @ rest)) = n"
    "drop (length (scan_digits 10 (to_base 10 n @ rest))) (to_base 10 n @ rest) = rest"
    "scan_digits 10 (to_base 10 n @ rest) \<noteq> []"
    using scan_to_base [of 10 rest n] after by simp_all
  show ?thesis using assms(1) scan unfolding strtol_def skip skip_0x_10 by simp
qed

lemma digits_value_zeros: "digits_value b (replicate k 0 @ ds) = digits_value b ds"
proof -
  have "digits_value b (replicate k 0) = 0"
  proof (induction k)
    case (Suc k)
    have "replicate (Suc k) (0 :: nat) = replicate k 0 @ [0]" by (simp add: replicate_append_same)
    then show ?case using Suc by simp
  qed simp
  then show ?thesis by (simp add: digits_value_append)
qed

text \<open>A search does not stop in a stretch of digits for what does not start with one.\<close>

lemma strstr_digits:
  "list_all isdigit ds \<Longrightarrow> \<not> isdigit c \<Longrightarrow> strstr (ds @ s) (c # cs) = strstr s (c # cs)"
  by (induction ds) auto

end
