(* ===== verification/String_Copy.thy ===== *)
theory String_Copy
  imports C_Library
begin

text \<open>
  The bounded copies of \<open>types.h\<close>, at the level of bytes: a buffer is the list of the bytes it
  owns, and a write past its end is undefined behaviour, \<open>None\<close>. The specification is stated on
  C strings: what the buffer reads as up to its first NUL.
\<close>

section \<open>The helpers\<close>

text \<open>
  \<open>strscpy (dst, src, dsize)\<close> with \<open>dst\<close> at offset \<open>off\<close> of \<open>buf\<close>, in the state where \<open>i\<close> bytes
  have been copied. The result is the buffer and the \<open>size_t\<close> returned; \<open>E2BIG\<close> is 7.
\<close>

function strscpy_from :: "char list \<Rightarrow> nat \<Rightarrow> char list \<Rightarrow> nat \<Rightarrow> nat \<Rightarrow> (char list \<times> u64) option" where
  "strscpy_from buf off src dsize i =
     (if i < dsize then
        (if length buf \<le> off + i \<or> length src \<le> i then None
         else if src ! i = NUL then Some (buf[off + i := NUL], of_nat i)
         else strscpy_from (buf[off + i := src ! i]) off src dsize (Suc i))
      else
        (let p = (if i = 0 then off else off + i - 1)
         in if length buf \<le> p then None else Some (buf[p := NUL], - 7)))"
  by pat_completeness auto
termination
  by (relation "measure (\<lambda>(buf, off, src, dsize, i). dsize - i)") auto

declare strscpy_from.simps [simp del]

definition strscpy :: "char list \<Rightarrow> nat \<Rightarrow> char list \<Rightarrow> nat \<Rightarrow> (char list \<times> u64) option" where
  "strscpy buf off src dsize = strscpy_from buf off src dsize 0"

text \<open>The first loop of \<open>strscat\<close>: the end of the string in \<open>dst\<close> and the room left.\<close>

fun strscat_end :: "char list \<Rightarrow> nat \<Rightarrow> nat \<Rightarrow> (nat \<times> nat) option" where
  "strscat_end buf i 0 = Some (i, 0)"
| "strscat_end buf i (Suc dsize) =
     (if length buf \<le> i then None
      else if buf ! i = NUL then Some (i, Suc dsize)
      else strscat_end buf (Suc i) dsize)"

text \<open>\<open>i\<close> and \<open>rc\<close> are \<open>int\<close>: the \<open>size_t\<close> of \<open>strscpy\<close> is cut to 32 bits and widened again.\<close>

definition strscat :: "char list \<Rightarrow> char list \<Rightarrow> nat \<Rightarrow> (char list \<times> u64) option" where
  "strscat buf src dsize =
     (case strscat_end buf 0 dsize of
        None \<Rightarrow> None
      | Some (i, left) \<Rightarrow>
          (case strscpy buf i src left of
             None \<Rightarrow> None
           | Some (buf', r) \<Rightarrow>
               (let rc = ucast r :: s32
                in if sint rc < 0 then Some (buf', scast rc)
                   else Some (buf', scast (rc + of_nat i)))))"

section \<open>What they promise\<close>

definition c_str :: "char list \<Rightarrow> string" where
  "c_str buf = takeWhile (\<lambda>c. c \<noteq> NUL) buf"

text \<open>\<open>src\<close> points to memory that holds the C string \<open>s\<close> and its terminator.\<close>

definition holds_str :: "char list \<Rightarrow> string \<Rightarrow> bool" where
  "holds_str src s \<longleftrightarrow> NUL \<notin> set s \<and> (\<exists>rest. src = s @ NUL # rest)"

lemma holds_strD:
  assumes "holds_str src s"
  shows "length s < length src" and "src ! length s = NUL"
    and "i < length s \<Longrightarrow> src ! i = s ! i \<and> src ! i \<noteq> NUL"
proof -
  from assms obtain rest where s: "NUL \<notin> set s" and src: "src = s @ NUL # rest"
    by (auto simp: holds_str_def)
  show "length s < length src" and "src ! length s = NUL"
    by (simp_all add: src)
  assume i: "i < length s"
  then have "s ! i \<in> set s" by (rule nth_mem)
  then have "s ! i \<noteq> NUL" using s by metis
  then show "src ! i = s ! i \<and> src ! i \<noteq> NUL" using i by (simp add: src nth_append)
qed

lemma c_str_prefix: "NUL \<notin> set s \<Longrightarrow> c_str (s @ NUL # rest) = s"
  unfolding c_str_def by (subst takeWhile_append2) auto

lemma list_update_pivot: "length xs = n \<Longrightarrow> (xs @ y # ys)[n := z] = xs @ z # ys"
  by (simp add: list_update_append)

text \<open>
  After \<open>i\<close> steps the first \<open>i\<close> characters of the source are in place; the loop then writes the
  rest, or stops at the last byte of the destination and terminates the string there.
\<close>

lemma strscpy_from_spec:
  assumes "holds_str src s" and "0 < dsize" and "i \<le> length s" and "i \<le> dsize"
    and "length pre = off" and "length mid = dsize - i"
  shows "\<exists>junk. length junk + Suc (length (take (dsize - 1) s)) = dsize \<and>
    strscpy_from (pre @ take i s @ mid @ post) off src dsize i =
      Some (pre @ take (dsize - 1) s @ NUL # junk @ post,
            if length s < dsize then of_nat (length s) else - 7)"
  using assms
proof (induction "dsize - i" arbitrary: i mid)
  case 0
  then have i: "i = dsize" and mid: "mid = []" by auto
  then have take_i: "take i s = take (dsize - 1) s @ [s ! (dsize - 1)]"
    using 0 take_Suc_conv_app_nth [of "dsize - 1" s] by simp
  have "(pre @ take i s @ mid @ post)[off + dsize - 1 := NUL] =
      pre @ take (dsize - 1) s @ NUL # post"
    using 0 i mid take_i list_update_pivot [of "pre @ take (dsize - 1) s" "off + dsize - 1"]
    by simp
  with 0 i mid show ?case
    by (subst strscpy_from.simps) (auto simp: Let_def)
next
  case (Suc k)
  then have lt: "i < dsize" by linarith
  obtain m ms where mid: "mid = m # ms"
    using Suc.prems(6) lt by (cases mid) auto
  have upd: "(pre @ take i s @ mid @ post)[off + i := c] = pre @ take i s @ c # ms @ post" for c
    using Suc.prems mid by (simp add: list_update_append)
  show ?case
  proof (cases "i = length s")
    case True
    have "src ! i = NUL" and "i < length src"
      using Suc.prems(1) True by (auto dest: holds_strD)
    then have "strscpy_from (pre @ take i s @ mid @ post) off src dsize i =
        Some (pre @ s @ NUL # ms @ post, of_nat (length s))"
      using lt upd Suc.prems True by (subst strscpy_from.simps) auto
    moreover have "take (dsize - 1) s = s" using True lt by simp
    ultimately show ?thesis
      using True lt Suc.prems(6) mid by (intro exI [of _ ms]) auto
  next
    case False
    with Suc.prems have i: "i < length s" by simp
    then have src: "src ! i = s ! i" "src ! i \<noteq> NUL" "i < length src"
      using Suc.prems(1) by (auto dest: holds_strD)
    have "strscpy_from (pre @ take i s @ mid @ post) off src dsize i =
        strscpy_from (pre @ take (Suc i) s @ ms @ post) off src dsize (Suc i)"
      using lt upd [of "s ! i"] src Suc.prems i
      by (subst strscpy_from.simps) (auto simp: take_Suc_conv_app_nth)
    moreover have "length ms = dsize - Suc i" using Suc.prems(6) mid lt by simp
    ultimately show ?thesis
      using Suc.hyps(1) [of "Suc i" ms] Suc.hyps(2) Suc.prems i lt by simp
  qed
qed

lemma strscpy_spec:
  assumes "holds_str src s" and "0 < dsize" and "length pre = off" and "length mid = dsize"
  shows "\<exists>junk. length junk + Suc (length (take (dsize - 1) s)) = dsize \<and>
    strscpy (pre @ mid @ post) off src dsize =
      Some (pre @ take (dsize - 1) s @ NUL # junk @ post,
            if length s < dsize then of_nat (length s) else - 7)"
  using strscpy_from_spec [OF assms(1,2), of 0 pre off mid post] assms(3,4)
  by (simp add: strscpy_def)

text \<open>On C strings: the destination reads as what fits of the source.\<close>

lemma strscpy_c_str:
  assumes "holds_str src s" and "0 < dsize" and "dsize \<le> length buf"
  shows "\<exists>buf'. strscpy buf 0 src dsize =
      Some (buf', if length s < dsize then of_nat (length s) else - 7) \<and>
    length buf' = length buf \<and> c_str buf' = take (dsize - 1) s \<and> drop dsize buf' = drop dsize buf"
proof -
  obtain junk where junk: "length junk + Suc (length (take (dsize - 1) s)) = dsize"
    and eq: "strscpy (take dsize buf @ drop dsize buf) 0 src dsize =
      Some (take (dsize - 1) s @ NUL # junk @ drop dsize buf,
            if length s < dsize then of_nat (length s) else - 7)"
    using strscpy_spec [of src s dsize "[]" 0 "take dsize buf" "drop dsize buf"] assms by auto
  have "NUL \<notin> set (take (dsize - 1) s)"
    using assms(1) by (auto simp: holds_str_def dest: in_set_takeD)
  moreover have "drop dsize (take (dsize - 1) s @ NUL # junk @ drop dsize buf) = drop dsize buf"
  proof -
    have "length (take (dsize - 1) s @ NUL # junk) = dsize" using junk by simp
    then have "drop dsize ((take (dsize - 1) s @ NUL # junk) @ drop dsize buf) = drop dsize buf"
      by (metis append_eq_conv_conj)
    then show ?thesis by simp
  qed
  ultimately show ?thesis
    using eq junk assms(3) by (auto simp: c_str_prefix)
qed

lemma strscat_end_spec:
  assumes "NUL \<notin> set t"
  shows "length t < dsize \<Longrightarrow>
    strscat_end (pre @ t @ NUL # rest) (length pre) dsize = Some (length pre + length t, dsize - length t)"
  using assms
proof (induction t arbitrary: pre dsize)
  case Nil
  then show ?case by (cases dsize) auto
next
  case (Cons c t)
  obtain d where d: "dsize = Suc d" using Cons.prems by (cases dsize) auto
  have "strscat_end ((pre @ [c]) @ t @ NUL # rest) (length (pre @ [c])) d =
      Some (length (pre @ [c]) + length t, d - length t)"
    using Cons d by (intro Cons.IH) auto
  then show ?case using Cons.prems d by (auto simp: nth_append)
qed

lemma ucast_small: "n < 2 ^ 31 \<Longrightarrow> ucast (of_nat n :: u64) = (of_nat n :: s32)"
  by (simp add: word_unat_eq_iff unat_of_nat unsigned_ucast_eq take_bit_nat_def)

lemma sint_of_nat_small: "n < 2 ^ 31 \<Longrightarrow> sint (of_nat n :: s32) = int n"
  by (simp add: signed_of_nat signed_take_bit_int_eq_self)

text \<open>
  \<open>strscat\<close> appends what fits, never writes past \<open>dsize\<close> and returns the length of the result, or
  \<open>-E2BIG\<close>.
\<close>

theorem strscat_appends:
  assumes "holds_str src s" and "NUL \<notin> set t" and "buf = t @ NUL # rest"
    and "length t < dsize" and "dsize \<le> length buf" and "dsize < 2 ^ 31"
  shows "\<exists>buf'. strscat buf src dsize =
      Some (buf', if length t + length s < dsize then of_nat (length t + length s) else - 7) \<and>
    length buf' = length buf \<and> c_str buf' = take (dsize - 1) (t @ s)"
proof -
  let ?l = "dsize - length t"
  let ?mid = "take ?l (NUL # rest)" and ?post = "drop ?l (NUL # rest)"
  have buf: "buf = t @ ?mid @ ?post" using assms(3) by (simp only: append_take_drop_id)
  have fin: "strscat_end buf 0 dsize = Some (length t, ?l)"
    using strscat_end_spec [of t dsize "[]" rest] assms by simp
  obtain junk where junk: "length junk + Suc (length (take (?l - 1) s)) = ?l"
    and eq: "strscpy buf (length t) src ?l =
      Some (t @ take (?l - 1) s @ NUL # junk @ ?post,
            if length s < ?l then of_nat (length s) else - 7)"
    using strscpy_spec [of src s ?l t "length t" ?mid ?post] assms buf by auto
  have str: "c_str (t @ take (?l - 1) s @ NUL # junk @ ?post) = take (dsize - 1) (t @ s)"
    using c_str_prefix [of "t @ take (?l - 1) s" "junk @ ?post"] assms(1,2,4)
    by (auto simp: holds_str_def dest: in_set_takeD)
  have len: "length (t @ take (?l - 1) s @ NUL # junk @ ?post) = length buf"
    using junk arg_cong [OF buf, of length] assms by simp
  show ?thesis
  proof (cases "length s < ?l")
    case True
    then have "length s < 2 ^ 31" using assms by simp
    then have rc: "ucast (of_nat (length s) :: u64) = (of_nat (length s) :: s32)"
      and "0 \<le> sint (of_nat (length s) :: s32)"
      by (simp_all add: ucast_small sint_of_nat_small)
    moreover have "scast (of_nat (length s) + of_nat (length t) :: s32) =
        (of_nat (length t + length s) :: u64)"
      using True assms sint_of_nat_small [of "length t + length s"]
      by (simp add: scast_eq add.commute flip: of_nat_add)
    ultimately show ?thesis
      using True assms fin eq str len by (auto simp: strscat_def Let_def)
  next
    case False
    then show ?thesis
      using assms fin eq str len by (auto simp: strscat_def Let_def)
  qed
qed

theorem strscat_appends_witness:
  "\<exists>buf'. strscat (''ab'' @ NUL # ''zzz'') (''cdefgh'' @ [NUL]) 6 = Some (buf', - 7) \<and>
    c_str buf' = ''abcde''"
  using strscat_appends [of "''cdefgh'' @ [NUL]" "''cdefgh''" "''ab''" "''ab'' @ NUL # ''zzz''" "''zzz''" 6]
  by (auto simp: holds_str_def)

end
