(* ===== verification/Rbtree.thy ===== *)
theory Rbtree
  imports Prelude "HOL-Library.Monad_Syntax"
begin

text \<open>
  \<open>rbtree.c\<close> and \<open>rbtree.h\<close>: the red-black tree that indexes the page records, as pointer code over a
  heap of nodes with parent pointers. An access through \<open>NULL\<close> or to an address without a node is
  undefined behaviour, \<open>None\<close>. The proofs relate the heap to a tree of addresses: one lemma says what
  a rotation does to the tree at a position given by a path, the rest is about trees.
\<close>

unbundle bit_operations_syntax

section \<open>Nodes\<close>

text \<open>
  The C node packs the parent pointer and the colour into one word. The model keeps them apart; the
  operations on the packed word are here, and they commute with packing for an aligned pointer.
\<close>

datatype rb_color = RB_RED | RB_BLACK

record rb_node =
  rb_parent :: "ptr option"
  rb_color :: rb_color
  rb_right :: "ptr option"
  rb_left :: "ptr option"

record rb_root =
  rb_heap :: "ptr \<Rightarrow> rb_node option"
  rb_top :: "ptr option"

definition rb_parent_bits :: "u64 \<Rightarrow> u64" where
  "rb_parent_bits w = w AND NOT 3"

definition rb_color_bits :: "u64 \<Rightarrow> u64" where
  "rb_color_bits w = w AND 1"

definition rb_set_red_bits :: "u64 \<Rightarrow> u64" where
  "rb_set_red_bits w = w AND NOT 1"

definition rb_set_black_bits :: "u64 \<Rightarrow> u64" where
  "rb_set_black_bits w = w OR 1"

definition rb_set_parent_bits :: "u64 \<Rightarrow> u64 \<Rightarrow> u64" where
  "rb_set_parent_bits w p = (w AND 3) OR p"

definition rb_set_color_bits :: "u64 \<Rightarrow> u64 \<Rightarrow> u64" where
  "rb_set_color_bits w color = (w AND NOT 1) OR color"

definition color_code :: "rb_color \<Rightarrow> u64" where
  "color_code c = (case c of RB_RED \<Rightarrow> 0 | RB_BLACK \<Rightarrow> 1)"

definition pack :: "u64 \<Rightarrow> rb_color \<Rightarrow> u64" where
  "pack p c = p OR color_code c"

section \<open>The operations\<close>

definition upd_node :: "ptr \<Rightarrow> (rb_node \<Rightarrow> rb_node) \<Rightarrow> rb_root \<Rightarrow> rb_root option" where
  "upd_node p f s =
     (case rb_heap s p of None \<Rightarrow> None | Some n \<Rightarrow> Some (s\<lparr>rb_heap := (rb_heap s)(p \<mapsto> f n)\<rparr>))"

definition rb_set_parent :: "ptr \<Rightarrow> ptr option \<Rightarrow> rb_root \<Rightarrow> rb_root option" where
  "rb_set_parent p q = upd_node p (\<lambda>n. n\<lparr>rb_parent := q\<rparr>)"

definition rb_set_color :: "ptr \<Rightarrow> rb_color \<Rightarrow> rb_root \<Rightarrow> rb_root option" where
  "rb_set_color p c = upd_node p (\<lambda>n. n\<lparr>rb_color := c\<rparr>)"

text \<open>
  The two conditional steps of a rotation: \<open>if (child) rb_set_parent (child, node)\<close>, and putting the
  new child where the parent, or the root, had the old one.
\<close>

definition reparent :: "ptr option \<Rightarrow> ptr \<Rightarrow> rb_root \<Rightarrow> rb_root option" where
  "reparent child node s =
     (case child of None \<Rightarrow> Some s | Some x \<Rightarrow> rb_set_parent x (Some node) s)"

definition relink_left :: "ptr option \<Rightarrow> ptr \<Rightarrow> ptr \<Rightarrow> rb_root \<Rightarrow> rb_root option" where
  "relink_left parent node right s =
     (case parent of
        Some p \<Rightarrow>
          do { pn \<leftarrow> rb_heap s p;
               if Some node = rb_left pn then upd_node p (\<lambda>n. n\<lparr>rb_left := Some right\<rparr>) s
               else upd_node p (\<lambda>n. n\<lparr>rb_right := Some right\<rparr>) s }
      | None \<Rightarrow> Some (s\<lparr>rb_top := Some right\<rparr>))"

definition relink_right :: "ptr option \<Rightarrow> ptr \<Rightarrow> ptr \<Rightarrow> rb_root \<Rightarrow> rb_root option" where
  "relink_right parent node left s =
     (case parent of
        Some p \<Rightarrow>
          do { pn \<leftarrow> rb_heap s p;
               if Some node = rb_right pn then upd_node p (\<lambda>n. n\<lparr>rb_right := Some left\<rparr>) s
               else upd_node p (\<lambda>n. n\<lparr>rb_left := Some left\<rparr>) s }
      | None \<Rightarrow> Some (s\<lparr>rb_top := Some left\<rparr>))"

text \<open>\<open>__rb_rotate_left\<close> and \<open>__rb_rotate_right\<close>.\<close>

definition rb_rotate_left :: "ptr \<Rightarrow> rb_root \<Rightarrow> rb_root option" where
  "rb_rotate_left node s =
     do { n \<leftarrow> rb_heap s node;
          right \<leftarrow> rb_right n;
          r \<leftarrow> rb_heap s right;
          s1 \<leftarrow> upd_node node (\<lambda>n. n\<lparr>rb_right := rb_left r\<rparr>) s;
          s2 \<leftarrow> reparent (rb_left r) node s1;
          s3 \<leftarrow> upd_node right (\<lambda>n. n\<lparr>rb_left := Some node\<rparr>) s2;
          s4 \<leftarrow> rb_set_parent right (rb_parent n) s3;
          s5 \<leftarrow> relink_left (rb_parent n) node right s4;
          rb_set_parent node (Some right) s5 }"

definition rb_rotate_right :: "ptr \<Rightarrow> rb_root \<Rightarrow> rb_root option" where
  "rb_rotate_right node s =
     do { n \<leftarrow> rb_heap s node;
          left \<leftarrow> rb_left n;
          l \<leftarrow> rb_heap s left;
          s1 \<leftarrow> upd_node node (\<lambda>n. n\<lparr>rb_left := rb_right l\<rparr>) s;
          s2 \<leftarrow> reparent (rb_right l) node s1;
          s3 \<leftarrow> upd_node left (\<lambda>n. n\<lparr>rb_right := Some node\<rparr>) s2;
          s4 \<leftarrow> rb_set_parent left (rb_parent n) s3;
          s5 \<leftarrow> relink_right (rb_parent n) node left s4;
          rb_set_parent node (Some left) s5 }"

text \<open>\<open>uncle && rb_is_red (uncle)\<close>\<close>

definition red_ptr :: "ptr option \<Rightarrow> rb_root \<Rightarrow> bool option" where
  "red_ptr p s =
     (case p of None \<Rightarrow> Some False | Some a \<Rightarrow> map_option (\<lambda>n. rb_color n = RB_RED) (rb_heap s a))"

text \<open>The loop of \<open>rb_insert_color\<close>.\<close>

partial_function (option) rb_insert_loop :: "ptr \<Rightarrow> rb_root \<Rightarrow> rb_root option" where
  "rb_insert_loop node s =
     do { n \<leftarrow> rb_heap s node;
          (case rb_parent n of
             None \<Rightarrow> Some s
           | Some parent \<Rightarrow>
               do { p \<leftarrow> rb_heap s parent;
                    if rb_color p = RB_BLACK then Some s
                    else do {
                      gparent \<leftarrow> rb_parent p;
                      g \<leftarrow> rb_heap s gparent;
                      if Some parent = rb_left g then do {
                        red \<leftarrow> red_ptr (rb_right g) s;
                        if red then do {
                          uncle \<leftarrow> rb_right g;
                          s1 \<leftarrow> rb_set_color uncle RB_BLACK s;
                          s2 \<leftarrow> rb_set_color parent RB_BLACK s1;
                          s3 \<leftarrow> rb_set_color gparent RB_RED s2;
                          rb_insert_loop gparent s3 }
                        else do {
                          (s1, parent', node') \<leftarrow>
                            (if rb_right p = Some node
                             then map_option (\<lambda>s1. (s1, node, parent)) (rb_rotate_left parent s)
                             else Some (s, parent, node));
                          s2 \<leftarrow> rb_set_color parent' RB_BLACK s1;
                          s3 \<leftarrow> rb_set_color gparent RB_RED s2;
                          s4 \<leftarrow> rb_rotate_right gparent s3;
                          rb_insert_loop node' s4 } }
                      else do {
                        red \<leftarrow> red_ptr (rb_left g) s;
                        if red then do {
                          uncle \<leftarrow> rb_left g;
                          s1 \<leftarrow> rb_set_color uncle RB_BLACK s;
                          s2 \<leftarrow> rb_set_color parent RB_BLACK s1;
                          s3 \<leftarrow> rb_set_color gparent RB_RED s2;
                          rb_insert_loop gparent s3 }
                        else do {
                          (s1, parent', node') \<leftarrow>
                            (if rb_left p = Some node
                             then map_option (\<lambda>s1. (s1, node, parent)) (rb_rotate_right parent s)
                             else Some (s, parent, node));
                          s2 \<leftarrow> rb_set_color parent' RB_BLACK s1;
                          s3 \<leftarrow> rb_set_color gparent RB_RED s2;
                          s4 \<leftarrow> rb_rotate_left gparent s3;
                          rb_insert_loop node' s4 } } } }) }"

declare rb_insert_loop.simps [code]

definition rb_insert_color :: "ptr \<Rightarrow> rb_root \<Rightarrow> rb_root option" where
  "rb_insert_color node s =
     do { s' \<leftarrow> rb_insert_loop node s;
          t \<leftarrow> rb_top s';
          rb_set_color t RB_BLACK s' }"

text \<open>The place a \<open>struct rb_node **\<close> points to, and \<open>rb_link_node\<close>: colour bit 0 is red.\<close>

datatype rb_slot = Root_Slot | Left_Slot ptr | Right_Slot ptr

fun read_slot :: "rb_slot \<Rightarrow> rb_root \<Rightarrow> ptr option option" where
  "read_slot Root_Slot s = Some (rb_top s)"
| "read_slot (Left_Slot p) s = map_option rb_left (rb_heap s p)"
| "read_slot (Right_Slot p) s = map_option rb_right (rb_heap s p)"

fun write_slot :: "rb_slot \<Rightarrow> ptr option \<Rightarrow> rb_root \<Rightarrow> rb_root option" where
  "write_slot Root_Slot v s = Some (s\<lparr>rb_top := v\<rparr>)"
| "write_slot (Left_Slot p) v s = upd_node p (\<lambda>n. n\<lparr>rb_left := v\<rparr>) s"
| "write_slot (Right_Slot p) v s = upd_node p (\<lambda>n. n\<lparr>rb_right := v\<rparr>) s"

definition rb_link_node :: "ptr \<Rightarrow> ptr option \<Rightarrow> rb_slot \<Rightarrow> rb_root \<Rightarrow> rb_root option" where
  "rb_link_node node parent link s =
     do { s1 \<leftarrow> upd_node node
            (\<lambda>n. \<lparr>rb_parent = parent, rb_color = RB_RED, rb_right = None, rb_left = None\<rparr>) s;
          write_slot link (Some node) s1 }"

section \<open>Trees of addresses\<close>

datatype ptree = PLeaf | PNode rb_color ptree ptr ptree

fun ptop :: "ptree \<Rightarrow> ptr option" where
  "ptop PLeaf = None"
| "ptop (PNode c l a r) = Some a"

fun ptrs :: "ptree \<Rightarrow> ptr list" where
  "ptrs PLeaf = []"
| "ptrs (PNode c l a r) = ptrs l @ a # ptrs r"

fun tree_at :: "(ptr \<Rightarrow> rb_node option) \<Rightarrow> ptr option \<Rightarrow> ptree \<Rightarrow> bool" where
  "tree_at h par PLeaf = True"
| "tree_at h par (PNode c l a r) =
     (h a = Some \<lparr>rb_parent = par, rb_color = c, rb_right = ptop r, rb_left = ptop l\<rparr> \<and>
      tree_at h (Some a) l \<and> tree_at h (Some a) r)"

text \<open>
  A position in a tree is the list of the frames above it, the nearest first: \<open>LeftOf c a r\<close> when the
  position is in the left subtree of the node \<open>a\<close> with the right subtree \<open>r\<close>.
\<close>

datatype frame = LeftOf rb_color ptr ptree | RightOf rb_color ptr ptree

fun plug1 :: "frame \<Rightarrow> ptree \<Rightarrow> ptree" where
  "plug1 (LeftOf c a r) t = PNode c t a r"
| "plug1 (RightOf c a l) t = PNode c l a t"

fun plug :: "frame list \<Rightarrow> ptree \<Rightarrow> ptree" where
  "plug [] t = t"
| "plug (f # fs) t = plug fs (plug1 f t)"

fun frame_ptr :: "frame \<Rightarrow> ptr" where
  "frame_ptr (LeftOf c a r) = a"
| "frame_ptr (RightOf c a l) = a"

fun frame_color :: "frame \<Rightarrow> rb_color" where
  "frame_color (LeftOf c a r) = c"
| "frame_color (RightOf c a l) = c"

fun frame_tree :: "frame \<Rightarrow> ptree" where
  "frame_tree (LeftOf c a r) = r"
| "frame_tree (RightOf c a l) = l"

fun above :: "frame list \<Rightarrow> ptr option" where
  "above [] = None"
| "above (f # fs) = Some (frame_ptr f)"

fun frames_ptrs :: "frame list \<Rightarrow> ptr set" where
  "frames_ptrs [] = {}"
| "frames_ptrs (f # fs) = insert (frame_ptr f) (set (ptrs (frame_tree f)) \<union> frames_ptrs fs)"

fun frame_distinct :: "frame list \<Rightarrow> bool" where
  "frame_distinct [] = True"
| "frame_distinct (f # fs) =
     (distinct (ptrs (frame_tree f)) \<and> frame_ptr f \<notin> set (ptrs (frame_tree f)) \<and>
      frame_ptr f \<notin> frames_ptrs fs \<and> set (ptrs (frame_tree f)) \<inter> frames_ptrs fs = {} \<and>
      frame_distinct fs)"

fun ctx_at :: "rb_root \<Rightarrow> ptr option \<Rightarrow> frame list \<Rightarrow> bool" where
  "ctx_at s q [] = (rb_top s = q)"
| "ctx_at s q (LeftOf c a r # fs) =
     (rb_heap s a = Some \<lparr>rb_parent = above fs, rb_color = c, rb_right = ptop r, rb_left = q\<rparr> \<and>
      tree_at (rb_heap s) (Some a) r \<and> ctx_at s (Some a) fs)"
| "ctx_at s q (RightOf c a l # fs) =
     (rb_heap s a = Some \<lparr>rb_parent = above fs, rb_color = c, rb_right = q, rb_left = ptop l\<rparr> \<and>
      tree_at (rb_heap s) (Some a) l \<and> ctx_at s (Some a) fs)"

text \<open>The heap holds the tree \<open>t\<close> at the position \<open>fs\<close>.\<close>

definition at_pos :: "rb_root \<Rightarrow> frame list \<Rightarrow> ptree \<Rightarrow> bool" where
  "at_pos s fs t \<longleftrightarrow>
     tree_at (rb_heap s) (above fs) t \<and> ctx_at s (ptop t) fs \<and>
     distinct (ptrs t) \<and> frame_distinct fs \<and> set (ptrs t) \<inter> frames_ptrs fs = {}"

definition tree_rep :: "rb_root \<Rightarrow> ptree \<Rightarrow> bool" where
  "tree_rep s t \<longleftrightarrow> at_pos s [] t"

lemma at_pos_step: "at_pos s (f # fs) t \<longleftrightarrow> at_pos s fs (plug1 f t)"
  by (cases f) (auto simp: at_pos_def)

lemma at_pos_plug: "at_pos s fs t \<longleftrightarrow> tree_rep s (plug fs t)"
  by (induction fs arbitrary: t) (simp_all add: tree_rep_def at_pos_step)

lemma ptop_in: "ptop t = Some a \<Longrightarrow> a \<in> set (ptrs t)"
  by (cases t) auto

lemma ptop_neq: "a \<notin> set (ptrs t) \<Longrightarrow> ptop t \<noteq> Some a"
  by (cases t) auto

lemma tree_at_frame [heap_simps]:
  "a \<notin> set (ptrs t) \<Longrightarrow> tree_at (h(a := v)) p t = tree_at h p t"
  by (induction t arbitrary: p) auto

lemma ctx_at_frame [heap_simps]:
  "a \<notin> frames_ptrs fs \<Longrightarrow> ctx_at (s\<lparr>rb_heap := (rb_heap s)(a := v)\<rparr>) q fs = ctx_at s q fs"
  by (induction s q fs rule: ctx_at.induct) (auto simp: heap_simps)

section \<open>Rotations\<close>

lemma ctx_at_heap [heap_simps]:
  "(\<forall>x \<in> frames_ptrs fs. rb_heap s' x = rb_heap s x) \<Longrightarrow> rb_top s' = rb_top s \<Longrightarrow>
     ctx_at s' q fs = ctx_at s q fs"
proof (induction fs arbitrary: q)
  case Nil
  then show ?case by simp
next
  case (Cons f fs)
  have tree: "tree_at (rb_heap s') p t = tree_at (rb_heap s) p t"
    if "set (ptrs t) \<subseteq> frames_ptrs (f # fs)" for p t
    using that Cons.prems by (induction t arbitrary: p) auto
  show ?case
    using Cons tree [of "frame_tree f"] by (cases f) auto
qed

lemma tree_at_heap:
  "(\<forall>x \<in> set (ptrs t). h' x = h x) \<Longrightarrow> tree_at h' p t = tree_at h p t"
  by (induction t arbitrary: p) auto

text \<open>The parts of a rotation: a subtree gets another parent, and the parent another child.\<close>

lemma reparent_at:
  assumes "tree_at (rb_heap s) p t" and "distinct (ptrs t)"
  shows "\<exists>s'. reparent (ptop t) a s = Some s' \<and>
    tree_at (rb_heap s') (Some a) t \<and> rb_top s' = rb_top s \<and> dom (rb_heap s') = dom (rb_heap s) \<and>
    (\<forall>x. ptop t \<noteq> Some x \<longrightarrow> rb_heap s' x = rb_heap s x)"
  using assms by (cases t) (auto simp: reparent_def rb_set_parent_def upd_node_def heap_simps)

lemma relink_left_at:
  assumes "ctx_at s (Some a) fs" and "frame_distinct fs" and "a \<notin> frames_ptrs fs"
  shows "\<exists>s'. relink_left (above fs) a b s = Some s' \<and>
    ctx_at s' (Some b) fs \<and> dom (rb_heap s') = dom (rb_heap s) \<and>
    (\<forall>x. above fs \<noteq> Some x \<longrightarrow> rb_heap s' x = rb_heap s x)"
proof (cases fs)
  case Nil
  then show ?thesis by (simp add: relink_left_def)
next
  case (Cons f fs')
  show ?thesis
  proof (cases f)
    case (LeftOf c p r)
    then show ?thesis using assms Cons by (auto simp: relink_left_def upd_node_def heap_simps)
  next
    case (RightOf c p l)
    then have "ptop l \<noteq> Some a" using assms Cons ptop_in by fastforce
    then show ?thesis using RightOf assms Cons by (auto simp: relink_left_def upd_node_def heap_simps)
  qed
qed

lemma relink_right_at:
  assumes "ctx_at s (Some a) fs" and "frame_distinct fs" and "a \<notin> frames_ptrs fs"
  shows "\<exists>s'. relink_right (above fs) a b s = Some s' \<and>
    ctx_at s' (Some b) fs \<and> dom (rb_heap s') = dom (rb_heap s) \<and>
    (\<forall>x. above fs \<noteq> Some x \<longrightarrow> rb_heap s' x = rb_heap s x)"
proof (cases fs)
  case Nil
  then show ?thesis by (simp add: relink_right_def)
next
  case (Cons f fs')
  show ?thesis
  proof (cases f)
    case (LeftOf c p r)
    then have "ptop r \<noteq> Some a" using assms Cons ptop_in by fastforce
    then show ?thesis using LeftOf assms Cons by (auto simp: relink_right_def upd_node_def heap_simps)
  next
    case (RightOf c p l)
    then show ?thesis using assms Cons by (auto simp: relink_right_def upd_node_def heap_simps)
  qed
qed

lemma above_in: "above fs = Some x \<Longrightarrow> x \<in> frames_ptrs fs"
  by (cases fs) auto

lemma upd_node_Some: "rb_heap s p = Some n \<Longrightarrow> upd_node p f s = Some (s\<lparr>rb_heap := (rb_heap s)(p \<mapsto> f n)\<rparr>)"
  by (simp add: upd_node_def)

lemma rotate_left_at:
  assumes pos: "at_pos s fs (PNode c l a (PNode d m b r))"
  shows "\<exists>s'. rb_rotate_left a s = Some s' \<and> at_pos s' fs (PNode d (PNode c l a m) b r) \<and>
    dom (rb_heap s') = dom (rb_heap s)"
proof -
  let ?n = "\<lparr>rb_parent = above fs, rb_color = c, rb_right = Some b, rb_left = ptop l\<rparr>"
  let ?rn = "\<lparr>rb_parent = Some a, rb_color = d, rb_right = ptop r, rb_left = ptop m\<rparr>"
  have ha: "rb_heap s a = Some ?n" and hb: "rb_heap s b = Some ?rn"
    and tl: "tree_at (rb_heap s) (Some a) l" and tm: "tree_at (rb_heap s) (Some b) m"
    and tr: "tree_at (rb_heap s) (Some b) r" and ctx: "ctx_at s (Some a) fs"
    using pos by (auto simp: at_pos_def)
  have dist: "distinct (ptrs l @ a # ptrs m @ b # ptrs r)" and fd: "frame_distinct fs"
    and out: "set (ptrs l @ a # ptrs m @ b # ptrs r) \<inter> frames_ptrs fs = {}"
    using pos by (auto simp: at_pos_def)
  have ab: "a \<noteq> b" using dist by auto
  have out': "x \<noteq> a" "x \<noteq> b" "x \<notin> set (ptrs l)" "x \<notin> set (ptrs m)" "x \<notin> set (ptrs r)"
    if "x \<in> frames_ptrs fs" for x
    using out that by auto
  have m_in: "ptop m = Some x \<Longrightarrow> x \<in> set (ptrs m)" for x by (rule ptop_in)
  let ?s1 = "s\<lparr>rb_heap := (rb_heap s)(a \<mapsto> ?n\<lparr>rb_right := ptop m\<rparr>)\<rparr>"
  have "tree_at (rb_heap ?s1) (Some b) m" using tm dist by (simp add: heap_simps)
  then obtain s2 where s2: "reparent (ptop m) a ?s1 = Some s2"
    and tm2: "tree_at (rb_heap s2) (Some a) m" and top2: "rb_top s2 = rb_top s"
    and dom2: "dom (rb_heap s2) = dom (rb_heap ?s1)"
    and h2: "\<forall>x. ptop m \<noteq> Some x \<longrightarrow> rb_heap s2 x = rb_heap ?s1 x"
    using reparent_at [of ?s1 "Some b" m a] dist by auto
  have h2': "rb_heap s2 x = rb_heap ?s1 x" if "x \<notin> set (ptrs m)" for x
    using that h2 m_in [of x] by blast
  have "ptop m \<noteq> Some a" and "ptop m \<noteq> Some b" using m_in [of a] m_in [of b] dist by auto
  with h2 hb ab have h2b: "rb_heap s2 b = Some ?rn"
    and h2a: "rb_heap s2 a = Some (?n\<lparr>rb_right := ptop m\<rparr>)" by auto
  let ?s4 = "s2\<lparr>rb_heap := (rb_heap s2)(b \<mapsto> ?rn\<lparr>rb_left := Some a, rb_parent := above fs\<rparr>)\<rparr>"
  have h4: "rb_heap ?s4 x = rb_heap s x" if "x \<noteq> a" "x \<noteq> b" "x \<notin> set (ptrs m)" for x
    using that h2' [of x] by simp
  have "ctx_at ?s4 (Some a) fs = ctx_at s (Some a) fs"
    using h4 out' top2 by (intro ctx_at_heap) simp_all
  with ctx have ctx4: "ctx_at ?s4 (Some a) fs" by simp
  obtain s5 where s5: "relink_left (above fs) a b ?s4 = Some s5"
    and ctx5: "ctx_at s5 (Some b) fs" and dom5: "dom (rb_heap s5) = dom (rb_heap ?s4)"
    and h5: "\<forall>x. above fs \<noteq> Some x \<longrightarrow> rb_heap s5 x = rb_heap ?s4 x"
    using relink_left_at [OF ctx4 fd, of b] out by auto
  have h5': "rb_heap s5 x = rb_heap ?s4 x" if "x \<notin> frames_ptrs fs" for x
    using h5 above_in that by blast
  have h5a: "rb_heap s5 a = Some (?n\<lparr>rb_right := ptop m\<rparr>)"
    using h5' [of a] h2a ab out' by auto
  let ?s6 = "s5\<lparr>rb_heap := (rb_heap s5)(a \<mapsto> ?n\<lparr>rb_right := ptop m, rb_parent := Some b\<rparr>)\<rparr>"
  have run: "rb_rotate_left a s = Some ?s6"
    using s2 s5 h2b h5a ab
    by (simp add: rb_rotate_left_def ha hb upd_node_Some rb_set_parent_def)
  have h6: "rb_heap ?s6 x = rb_heap s x" if "x \<in> set (ptrs l) \<union> set (ptrs r)" for x
  proof -
    have "x \<noteq> a" "x \<noteq> b" "x \<notin> set (ptrs m)" using that dist by auto
    then show ?thesis using that h5' [of x] h4 [of x] out' [of x] by auto
  qed
  have "tree_at (rb_heap ?s6) (Some a) l" and "tree_at (rb_heap ?s6) (Some b) r"
    using tl tr h6 tree_at_heap [of l "rb_heap ?s6" "rb_heap s"] tree_at_heap [of r "rb_heap ?s6" "rb_heap s"]
    by auto
  moreover have "tree_at (rb_heap ?s6) (Some a) m"
  proof -
    have "rb_heap ?s6 x = rb_heap s2 x" if "x \<in> set (ptrs m)" for x
    proof -
      have "x \<noteq> a" "x \<noteq> b" using that dist by auto
      then show ?thesis using that h5' [of x] out' [of x] by auto
    qed
    then show ?thesis using tm2 tree_at_heap [of m "rb_heap ?s6" "rb_heap s2"] by simp
  qed
  moreover have "rb_heap ?s6 b = Some (?rn\<lparr>rb_left := Some a, rb_parent := above fs\<rparr>)"
    using h5' [of b] ab out' by auto
  moreover have "ctx_at ?s6 (Some b) fs = ctx_at s5 (Some b) fs"
    using out' by (intro ctx_at_heap) auto
  ultimately have "at_pos ?s6 fs (PNode d (PNode c l a m) b r)"
    using dist fd out ctx5 by (simp add: at_pos_def)
  moreover have "dom (rb_heap ?s6) = dom (rb_heap s)"
    using dom5 dom2 h2b h5a ha hb by (simp add: domI insert_absorb)
  ultimately show ?thesis using run by blast
qed

lemma rotate_right_at:
  assumes pos: "at_pos s fs (PNode c (PNode d r b m) a l)"
  shows "\<exists>s'. rb_rotate_right a s = Some s' \<and> at_pos s' fs (PNode d r b (PNode c m a l)) \<and>
    dom (rb_heap s') = dom (rb_heap s)"
proof -
  let ?n = "\<lparr>rb_parent = above fs, rb_color = c, rb_right = ptop l, rb_left = Some b\<rparr>"
  let ?rn = "\<lparr>rb_parent = Some a, rb_color = d, rb_right = ptop m, rb_left = ptop r\<rparr>"
  have ha: "rb_heap s a = Some ?n" and hb: "rb_heap s b = Some ?rn"
    and tl: "tree_at (rb_heap s) (Some a) l" and tm: "tree_at (rb_heap s) (Some b) m"
    and tr: "tree_at (rb_heap s) (Some b) r" and ctx: "ctx_at s (Some a) fs"
    using pos by (auto simp: at_pos_def)
  have dist: "distinct (ptrs r @ b # ptrs m @ a # ptrs l)" and fd: "frame_distinct fs"
    and out: "set (ptrs r @ b # ptrs m @ a # ptrs l) \<inter> frames_ptrs fs = {}"
    using pos by (auto simp: at_pos_def)
  have ab: "a \<noteq> b" using dist by auto
  have out': "x \<noteq> a" "x \<noteq> b" "x \<notin> set (ptrs l)" "x \<notin> set (ptrs m)" "x \<notin> set (ptrs r)"
    if "x \<in> frames_ptrs fs" for x
    using out that by auto
  have m_in: "ptop m = Some x \<Longrightarrow> x \<in> set (ptrs m)" for x by (rule ptop_in)
  let ?s1 = "s\<lparr>rb_heap := (rb_heap s)(a \<mapsto> ?n\<lparr>rb_left := ptop m\<rparr>)\<rparr>"
  have "tree_at (rb_heap ?s1) (Some b) m" using tm dist by (simp add: heap_simps)
  then obtain s2 where s2: "reparent (ptop m) a ?s1 = Some s2"
    and tm2: "tree_at (rb_heap s2) (Some a) m" and top2: "rb_top s2 = rb_top s"
    and dom2: "dom (rb_heap s2) = dom (rb_heap ?s1)"
    and h2: "\<forall>x. ptop m \<noteq> Some x \<longrightarrow> rb_heap s2 x = rb_heap ?s1 x"
    using reparent_at [of ?s1 "Some b" m a] dist by auto
  have h2': "rb_heap s2 x = rb_heap ?s1 x" if "x \<notin> set (ptrs m)" for x
    using that h2 m_in [of x] by blast
  have "ptop m \<noteq> Some a" and "ptop m \<noteq> Some b" using m_in [of a] m_in [of b] dist by auto
  with h2 hb ab have h2b: "rb_heap s2 b = Some ?rn"
    and h2a: "rb_heap s2 a = Some (?n\<lparr>rb_left := ptop m\<rparr>)" by auto
  let ?s4 = "s2\<lparr>rb_heap := (rb_heap s2)(b \<mapsto> ?rn\<lparr>rb_right := Some a, rb_parent := above fs\<rparr>)\<rparr>"
  have h4: "rb_heap ?s4 x = rb_heap s x" if "x \<noteq> a" "x \<noteq> b" "x \<notin> set (ptrs m)" for x
    using that h2' [of x] by simp
  have "ctx_at ?s4 (Some a) fs = ctx_at s (Some a) fs"
    using h4 out' top2 by (intro ctx_at_heap) simp_all
  with ctx have ctx4: "ctx_at ?s4 (Some a) fs" by simp
  obtain s5 where s5: "relink_right (above fs) a b ?s4 = Some s5"
    and ctx5: "ctx_at s5 (Some b) fs" and dom5: "dom (rb_heap s5) = dom (rb_heap ?s4)"
    and h5: "\<forall>x. above fs \<noteq> Some x \<longrightarrow> rb_heap s5 x = rb_heap ?s4 x"
    using relink_right_at [OF ctx4 fd, of b] out by auto
  have h5': "rb_heap s5 x = rb_heap ?s4 x" if "x \<notin> frames_ptrs fs" for x
    using h5 above_in that by blast
  have h5a: "rb_heap s5 a = Some (?n\<lparr>rb_left := ptop m\<rparr>)"
    using h5' [of a] h2a ab out' by auto
  let ?s6 = "s5\<lparr>rb_heap := (rb_heap s5)(a \<mapsto> ?n\<lparr>rb_left := ptop m, rb_parent := Some b\<rparr>)\<rparr>"
  have run: "rb_rotate_right a s = Some ?s6"
    using s2 s5 h2b h5a ab
    by (simp add: rb_rotate_right_def ha hb upd_node_Some rb_set_parent_def)
  have h6: "rb_heap ?s6 x = rb_heap s x" if "x \<in> set (ptrs l) \<union> set (ptrs r)" for x
  proof -
    have "x \<noteq> a" "x \<noteq> b" "x \<notin> set (ptrs m)" using that dist by auto
    then show ?thesis using that h5' [of x] h4 [of x] out' [of x] by auto
  qed
  have "tree_at (rb_heap ?s6) (Some a) l" and "tree_at (rb_heap ?s6) (Some b) r"
    using tl tr h6 tree_at_heap [of l "rb_heap ?s6" "rb_heap s"] tree_at_heap [of r "rb_heap ?s6" "rb_heap s"]
    by auto
  moreover have "tree_at (rb_heap ?s6) (Some a) m"
  proof -
    have "rb_heap ?s6 x = rb_heap s2 x" if "x \<in> set (ptrs m)" for x
    proof -
      have "x \<noteq> a" "x \<noteq> b" using that dist by auto
      then show ?thesis using that h5' [of x] out' [of x] by auto
    qed
    then show ?thesis using tm2 tree_at_heap [of m "rb_heap ?s6" "rb_heap s2"] by simp
  qed
  moreover have "rb_heap ?s6 b = Some (?rn\<lparr>rb_right := Some a, rb_parent := above fs\<rparr>)"
    using h5' [of b] ab out' by auto
  moreover have "ctx_at ?s6 (Some b) fs = ctx_at s5 (Some b) fs"
    using out' by (intro ctx_at_heap) auto
  ultimately have "at_pos ?s6 fs (PNode d r b (PNode c m a l))"
    using dist fd out ctx5 by (simp add: at_pos_def)
  moreover have "dom (rb_heap ?s6) = dom (rb_heap s)"
    using dom5 dom2 h2b h5a ha hb by (simp add: domI insert_absorb)
  ultimately show ?thesis using run by blast
qed

section \<open>Insertion on trees\<close>

fun tree_color :: "ptree \<Rightarrow> rb_color" where
  "tree_color PLeaf = RB_BLACK"
| "tree_color (PNode c l a r) = c"

fun paint :: "rb_color \<Rightarrow> ptree \<Rightarrow> ptree" where
  "paint c PLeaf = PLeaf"
| "paint c (PNode d l a r) = PNode c l a r"

fun paint_frame :: "rb_color \<Rightarrow> frame \<Rightarrow> frame" where
  "paint_frame c (LeftOf d a r) = LeftOf c a r"
| "paint_frame c (RightOf d a l) = RightOf c a l"

text \<open>Parent and uncle are red: both become black and the grandparent red.\<close>

fun fix_recolor :: "frame \<Rightarrow> frame \<Rightarrow> ptree \<Rightarrow> ptree" where
  "fix_recolor f g t = plug1 (paint_frame RB_RED (case g of
       LeftOf c a u \<Rightarrow> LeftOf c a (paint RB_BLACK u)
     | RightOf c a u \<Rightarrow> RightOf c a (paint RB_BLACK u))) (plug1 (paint_frame RB_BLACK f) t)"

text \<open>The parent is red and the uncle is not: one or two rotations.\<close>

fun fix_rotate :: "frame \<Rightarrow> frame \<Rightarrow> ptree \<Rightarrow> ptree" where
  "fix_rotate (LeftOf _ p r) (LeftOf _ g u) t = PNode RB_BLACK t p (PNode RB_RED r g u)"
| "fix_rotate (RightOf _ p l) (LeftOf _ g u) (PNode c nl n nr) =
     PNode RB_BLACK (PNode RB_RED l p nl) n (PNode RB_RED nr g u)"
| "fix_rotate (RightOf _ p l) (RightOf _ g u) t = PNode RB_BLACK (PNode RB_RED u g l) p t"
| "fix_rotate (LeftOf _ p r) (RightOf _ g u) (PNode c nl n nr) =
     PNode RB_BLACK (PNode RB_RED u g nl) n (PNode RB_RED nr p r)"
| "fix_rotate f g PLeaf = PLeaf"

fun ins_fix :: "frame list \<Rightarrow> ptree \<Rightarrow> ptree" where
  "ins_fix [] t = t"
| "ins_fix [f] t = plug1 f t"
| "ins_fix (f # g # fs) t =
     (if frame_color f = RB_BLACK then plug (f # g # fs) t
      else if tree_color (frame_tree g) = RB_RED then ins_fix fs (fix_recolor f g t)
      else plug fs (fix_rotate f g t))"

subsection \<open>The loop does this to the heap\<close>

lemma set_color_at:
  assumes "at_pos s fs (PNode c l a r)"
  shows "\<exists>s'. rb_set_color a d s = Some s' \<and> at_pos s' fs (PNode d l a r) \<and>
    dom (rb_heap s') = dom (rb_heap s)"
proof -
  let ?n = "\<lparr>rb_parent = above fs, rb_color = c, rb_right = ptop r, rb_left = ptop l\<rparr>"
  let ?s = "s\<lparr>rb_heap := (rb_heap s)(a \<mapsto> ?n\<lparr>rb_color := d\<rparr>)\<rparr>"
  have ha: "rb_heap s a = Some ?n" using assms by (simp add: at_pos_def)
  then have "rb_set_color a d s = Some ?s" by (simp add: rb_set_color_def upd_node_Some)
  moreover have "at_pos ?s fs (PNode d l a r)"
    using assms by (auto simp: at_pos_def heap_simps)
  moreover have "dom (rb_heap ?s) = dom (rb_heap s)" using ha by auto
  ultimately show ?thesis by blast
qed

lemma red_ptr_at:
  assumes "tree_at (rb_heap s) p t"
  shows "red_ptr (ptop t) s = Some (tree_color t = RB_RED)"
  using assms by (cases t) (auto simp: red_ptr_def)

lemma loop_stop:
  assumes "at_pos s (f # fs) (PNode c l a r)" and "frame_color f = RB_BLACK"
  shows "rb_insert_loop a s = Some s"
  using assms by (cases f) (auto simp: at_pos_def rb_insert_loop.simps [of a s])

lemma loop_root: "at_pos s [] (PNode c l a r) \<Longrightarrow> rb_insert_loop a s = Some s"
  by (simp add: at_pos_def rb_insert_loop.simps [of a s])

text \<open>The nodes the loop reads at a position two levels deep.\<close>

lemma loop_reads:
  assumes "at_pos s (f # g # fs) (PNode c l a r)"
  shows "map_option rb_parent (rb_heap s a) = Some (Some (frame_ptr f))"
    and "map_option rb_color (rb_heap s (frame_ptr f)) = Some (frame_color f)"
    and "map_option rb_parent (rb_heap s (frame_ptr f)) = Some (Some (frame_ptr g))"
  using assms by (cases f; cases g; auto simp: at_pos_def)+

lemma loop_recolor:
  assumes pos: "at_pos s (f # g # fs) (PNode c l a r)" and red: "frame_color f = RB_RED"
    and uncle: "tree_color (frame_tree g) = RB_RED"
  shows "\<exists>s'. rb_insert_loop a s = rb_insert_loop (frame_ptr g) s' \<and>
    at_pos s' fs (fix_recolor f g (PNode c l a r)) \<and> dom (rb_heap s') = dom (rb_heap s)"
proof -
  let ?t = "PNode c l a r"
  obtain ul ua ur where u: "frame_tree g = PNode RB_RED ul ua ur"
    using uncle by (cases "frame_tree g") auto
  define g1 where "g1 = (case g of LeftOf d x y \<Rightarrow> RightOf d x (plug1 f ?t) | RightOf d x y \<Rightarrow> LeftOf d x (plug1 f ?t))"
  define g2 where "g2 = (case g of LeftOf d x y \<Rightarrow> LeftOf d x (paint RB_BLACK y) | RightOf d x y \<Rightarrow> RightOf d x (paint RB_BLACK y))"
  have "at_pos s (g1 # fs) (PNode RB_RED ul ua ur)"
    using pos u by (cases g) (simp_all add: at_pos_step g1_def)
  then obtain s1 where s1: "rb_set_color ua RB_BLACK s = Some s1"
    and p1: "at_pos s1 (g1 # fs) (PNode RB_BLACK ul ua ur)" and d1: "dom (rb_heap s1) = dom (rb_heap s)"
    using set_color_at by blast
  have "at_pos s1 (g2 # fs) (plug1 f ?t)"
    using p1 u by (cases g) (simp_all add: at_pos_step g1_def g2_def)
  then obtain s2 where s2: "rb_set_color (frame_ptr f) RB_BLACK s1 = Some s2"
    and p2: "at_pos s2 (g2 # fs) (plug1 (paint_frame RB_BLACK f) ?t)"
    and d2: "dom (rb_heap s2) = dom (rb_heap s1)"
    using set_color_at by (cases f) fastforce+
  have "at_pos s2 fs (plug1 g2 (plug1 (paint_frame RB_BLACK f) ?t))"
    using p2 by (simp add: at_pos_step)
  then obtain s3 where s3: "rb_set_color (frame_ptr g) RB_RED s2 = Some s3"
    and p3: "at_pos s3 fs (fix_recolor f g ?t)"
    and d3: "dom (rb_heap s3) = dom (rb_heap s2)"
    using set_color_at by (cases g) (fastforce simp: g2_def)+
  have "red_ptr (Some ua) s = Some True"
    using pos u by (cases f; cases g) (auto simp: at_pos_def red_ptr_def)
  then have "rb_insert_loop a s = rb_insert_loop (frame_ptr g) s3"
    using pos red u s1 s2 s3
    by (cases f; cases g) (auto simp: rb_insert_loop.simps [of a s] at_pos_def dest: ptop_in)
  then show ?thesis using p3 d1 d2 d3 by auto
qed

text \<open>Parent black, grandparent red, and a rotation at the grandparent.\<close>

lemma finish_left:
  assumes pos: "at_pos s fs (PNode cg (PNode cp x p y) g u)"
  shows "\<exists>s2 s3 s4. rb_set_color p RB_BLACK s = Some s2 \<and> rb_set_color g RB_RED s2 = Some s3 \<and>
    rb_rotate_right g s3 = Some s4 \<and> at_pos s4 fs (PNode RB_BLACK x p (PNode RB_RED y g u)) \<and>
    dom (rb_heap s4) = dom (rb_heap s)"
proof -
  have "at_pos s (LeftOf cg g u # fs) (PNode cp x p y)" using pos by (simp add: at_pos_step)
  from set_color_at [OF this, of RB_BLACK] obtain s2
    where s2: "rb_set_color p RB_BLACK s = Some s2" "dom (rb_heap s2) = dom (rb_heap s)"
    and p2: "at_pos s2 fs (PNode cg (PNode RB_BLACK x p y) g u)" by (auto simp: at_pos_step)
  from set_color_at [OF p2, of RB_RED] obtain s3
    where s3: "rb_set_color g RB_RED s2 = Some s3" "dom (rb_heap s3) = dom (rb_heap s2)"
    and p3: "at_pos s3 fs (PNode RB_RED (PNode RB_BLACK x p y) g u)" by blast
  from rotate_right_at [OF p3] s2 s3 show ?thesis by auto
qed

lemma finish_right:
  assumes pos: "at_pos s fs (PNode cg u g (PNode cp y p x))"
  shows "\<exists>s2 s3 s4. rb_set_color p RB_BLACK s = Some s2 \<and> rb_set_color g RB_RED s2 = Some s3 \<and>
    rb_rotate_left g s3 = Some s4 \<and> at_pos s4 fs (PNode RB_BLACK (PNode RB_RED u g y) p x) \<and>
    dom (rb_heap s4) = dom (rb_heap s)"
proof -
  have "at_pos s (RightOf cg g u # fs) (PNode cp y p x)" using pos by (simp add: at_pos_step)
  from set_color_at [OF this, of RB_BLACK] obtain s2
    where s2: "rb_set_color p RB_BLACK s = Some s2" "dom (rb_heap s2) = dom (rb_heap s)"
    and p2: "at_pos s2 fs (PNode cg u g (PNode RB_BLACK y p x))" by (auto simp: at_pos_step)
  from set_color_at [OF p2, of RB_RED] obtain s3
    where s3: "rb_set_color g RB_RED s2 = Some s3" "dom (rb_heap s3) = dom (rb_heap s2)"
    and p3: "at_pos s3 fs (PNode RB_RED u g (PNode RB_BLACK y p x))" by blast
  from rotate_left_at [OF p3] s2 s3 show ?thesis by auto
qed

text \<open>What the loop reads before it rotates.\<close>

definition loop_tail :: "bool \<Rightarrow> ptr \<Rightarrow> rb_root \<times> ptr \<times> ptr \<Rightarrow> rb_root option" where
  "loop_tail left g x =
     (case x of (s1, parent', node') \<Rightarrow>
        do { s2 \<leftarrow> rb_set_color parent' RB_BLACK s1;
             s3 \<leftarrow> rb_set_color g RB_RED s2;
             s4 \<leftarrow> (if left then rb_rotate_right g s3 else rb_rotate_left g s3);
             rb_insert_loop node' s4 })"

lemma loop_unfold_left:
  assumes pos: "at_pos s (f # LeftOf cg g u # fs) (PNode c l a r)" and "frame_color f = RB_RED"
    and "tree_color u \<noteq> RB_RED"
  shows "rb_insert_loop a s =
    do { x \<leftarrow> (case f of
           LeftOf _ p _ \<Rightarrow> Some (s, p, a)
         | RightOf _ p _ \<Rightarrow> map_option (\<lambda>s1. (s1, a, p)) (rb_rotate_left p s));
         loop_tail True g x }"
proof -
  have "red_ptr (ptop u) s = Some False"
    using pos assms(3) red_ptr_at [of s "Some g" u] by (cases f) (auto simp: at_pos_def)
  then show ?thesis
    using pos assms(2)
    by (cases f) (auto simp: rb_insert_loop.simps [of a s] at_pos_def loop_tail_def dest: ptop_in)
qed

lemma loop_unfold_right:
  assumes pos: "at_pos s (f # RightOf cg g u # fs) (PNode c l a r)" and "frame_color f = RB_RED"
    and "tree_color u \<noteq> RB_RED"
  shows "rb_insert_loop a s =
    do { x \<leftarrow> (case f of
           RightOf _ p _ \<Rightarrow> Some (s, p, a)
         | LeftOf _ p _ \<Rightarrow> map_option (\<lambda>s1. (s1, a, p)) (rb_rotate_right p s));
         loop_tail False g x }"
proof -
  have "red_ptr (ptop u) s = Some False"
    using pos assms(3) red_ptr_at [of s "Some g" u] by (cases f) (auto simp: at_pos_def)
  moreover have "ptop u \<noteq> Some (frame_ptr f)"
    using pos by (cases f) (auto simp: at_pos_def dest: ptop_in)
  ultimately show ?thesis
    using pos assms(2)
    by (cases f) (auto simp: rb_insert_loop.simps [of a s] at_pos_def loop_tail_def dest: ptop_in)
qed

lemma loop_rotate:
  assumes pos: "at_pos s (f # g # fs) (PNode c l a r)" and red: "frame_color f = RB_RED"
    and uncle: "tree_color (frame_tree g) \<noteq> RB_RED"
  shows "\<exists>s'. rb_insert_loop a s = Some s' \<and> at_pos s' fs (fix_rotate f g (PNode c l a r)) \<and>
    dom (rb_heap s') = dom (rb_heap s)"
proof (cases g)
  case g: (LeftOf cg ga u)
  show ?thesis
  proof (cases f)
    case f: (LeftOf cp p y)
    have "at_pos s fs (PNode cg (PNode cp (PNode c l a r) p y) ga u)"
      using pos f g by (simp add: at_pos_step)
    from finish_left [OF this] obtain s2 s3 s4 where s: "rb_set_color p RB_BLACK s = Some s2"
      "rb_set_color ga RB_RED s2 = Some s3" "rb_rotate_right ga s3 = Some s4"
      and p4: "at_pos s4 fs (PNode RB_BLACK (PNode c l a r) p (PNode RB_RED y ga u))"
      and d: "dom (rb_heap s4) = dom (rb_heap s)" by blast
    have "rb_insert_loop a s4 = Some s4"
      using p4 loop_stop [of s4 "LeftOf RB_BLACK p (PNode RB_RED y ga u)" fs c l a r]
      by (simp add: at_pos_step)
    then show ?thesis
      using loop_unfold_left [of s f cg ga u fs] pos red uncle f g s p4 d
      by (auto simp: loop_tail_def)
  next
    case f: (RightOf cp p y)
    have "at_pos s (LeftOf cg ga u # fs) (PNode cp y p (PNode c l a r))"
      using pos f g by (simp add: at_pos_step)
    from rotate_left_at [OF this] obtain s1 where s1: "rb_rotate_left p s = Some s1"
      and p1: "at_pos s1 fs (PNode cg (PNode c (PNode cp y p l) a r) ga u)"
      and d1: "dom (rb_heap s1) = dom (rb_heap s)" by (auto simp: at_pos_step)
    from finish_left [OF p1] obtain s2 s3 s4 where s: "rb_set_color a RB_BLACK s1 = Some s2"
      "rb_set_color ga RB_RED s2 = Some s3" "rb_rotate_right ga s3 = Some s4"
      and p4: "at_pos s4 fs (PNode RB_BLACK (PNode cp y p l) a (PNode RB_RED r ga u))"
      and d: "dom (rb_heap s4) = dom (rb_heap s1)" by blast
    have "rb_insert_loop p s4 = Some s4"
      using p4 loop_stop [of s4 "LeftOf RB_BLACK a (PNode RB_RED r ga u)" fs cp y p l]
      by (simp add: at_pos_step)
    then show ?thesis
      using loop_unfold_left [of s f cg ga u fs] pos red uncle f g s s1 p4 d d1
      by (auto simp: loop_tail_def)
  qed
next
  case g: (RightOf cg ga u)
  show ?thesis
  proof (cases f)
    case f: (RightOf cp p y)
    have "at_pos s fs (PNode cg u ga (PNode cp y p (PNode c l a r)))"
      using pos f g by (simp add: at_pos_step)
    from finish_right [OF this] obtain s2 s3 s4 where s: "rb_set_color p RB_BLACK s = Some s2"
      "rb_set_color ga RB_RED s2 = Some s3" "rb_rotate_left ga s3 = Some s4"
      and p4: "at_pos s4 fs (PNode RB_BLACK (PNode RB_RED u ga y) p (PNode c l a r))"
      and d: "dom (rb_heap s4) = dom (rb_heap s)" by blast
    have "rb_insert_loop a s4 = Some s4"
      using p4 loop_stop [of s4 "RightOf RB_BLACK p (PNode RB_RED u ga y)" fs c l a r]
      by (simp add: at_pos_step)
    then show ?thesis
      using loop_unfold_right [of s f cg ga u fs] pos red uncle f g s p4 d
      by (auto simp: loop_tail_def)
  next
    case f: (LeftOf cp p y)
    have "at_pos s (RightOf cg ga u # fs) (PNode cp (PNode c l a r) p y)"
      using pos f g by (simp add: at_pos_step)
    from rotate_right_at [OF this] obtain s1 where s1: "rb_rotate_right p s = Some s1"
      and p1: "at_pos s1 fs (PNode cg u ga (PNode c l a (PNode cp r p y)))"
      and d1: "dom (rb_heap s1) = dom (rb_heap s)" by (auto simp: at_pos_step)
    from finish_right [OF p1] obtain s2 s3 s4 where s: "rb_set_color a RB_BLACK s1 = Some s2"
      "rb_set_color ga RB_RED s2 = Some s3" "rb_rotate_left ga s3 = Some s4"
      and p4: "at_pos s4 fs (PNode RB_BLACK (PNode RB_RED u ga l) a (PNode cp r p y))"
      and d: "dom (rb_heap s4) = dom (rb_heap s1)" by blast
    have "rb_insert_loop p s4 = Some s4"
      using p4 loop_stop [of s4 "RightOf RB_BLACK a (PNode RB_RED u ga l)" fs cp r p y]
      by (simp add: at_pos_step)
    then show ?thesis
      using loop_unfold_right [of s f cg ga u fs] pos red uncle f g s s1 p4 d d1
      by (auto simp: loop_tail_def)
  qed
qed

text \<open>
  The loop returns and leaves the tree \<open>ins_fix\<close> computes, if the root of the tree is black (it is
  never reached with a red parent that has no parent).
\<close>

lemma loop_ins_fix:
  assumes "at_pos s fs (PNode c l a r)" and "fs \<noteq> [] \<Longrightarrow> frame_color (last fs) = RB_BLACK"
  shows "\<exists>s'. rb_insert_loop a s = Some s' \<and> tree_rep s' (ins_fix fs (PNode c l a r)) \<and>
    dom (rb_heap s') = dom (rb_heap s)"
  using assms
proof (induction fs "PNode c l a r" arbitrary: s c l a r rule: ins_fix.induct)
  case 1
  then show ?case using loop_root by (fastforce simp: tree_rep_def)
next
  case (2 f)
  then show ?case using loop_stop [of s f "[]"] by (auto simp: at_pos_step tree_rep_def)
next
  case (3 f g fs)
  show ?case
  proof (cases "frame_color f")
    case RB_BLACK
    then show ?thesis
      using loop_stop [OF 3(2)] 3(2) by (simp add: at_pos_step at_pos_plug)
  next
    case RB_RED
    show ?thesis
    proof (cases "tree_color (frame_tree g) = RB_RED")
      case True
      from loop_recolor [OF 3(2) RB_RED True] obtain s1
        where s1: "rb_insert_loop a s = rb_insert_loop (frame_ptr g) s1"
        and p1: "at_pos s1 fs (fix_recolor f g (PNode c l a r))"
        and d1: "dom (rb_heap s1) = dom (rb_heap s)" by blast
      obtain l' r' where t': "fix_recolor f g (PNode c l a r) = PNode RB_RED l' (frame_ptr g) r'"
        by (cases g) auto
      have "fs \<noteq> [] \<Longrightarrow> frame_color (last fs) = RB_BLACK" using 3(3) by simp
      from 3(1) [OF _ True t' p1 [unfolded t'] this] RB_RED
      show ?thesis using True s1 d1 t' by auto
    next
      case False
      from loop_rotate [OF 3(2) RB_RED False] show ?thesis
        using RB_RED False by (auto simp: at_pos_plug)
    qed
  qed
qed

subsection \<open>Order and balance\<close>

fun frames_before :: "frame list \<Rightarrow> ptr list" where
  "frames_before [] = []"
| "frames_before (LeftOf c a r # fs) = frames_before fs"
| "frames_before (RightOf c a l # fs) = frames_before fs @ ptrs l @ [a]"

fun frames_after :: "frame list \<Rightarrow> ptr list" where
  "frames_after [] = []"
| "frames_after (LeftOf c a r # fs) = a # ptrs r @ frames_after fs"
| "frames_after (RightOf c a l # fs) = frames_after fs"

lemma ptrs_plug: "ptrs (plug fs t) = frames_before fs @ ptrs t @ frames_after fs"
proof (induction fs arbitrary: t)
  case Nil
  then show ?case by simp
next
  case (Cons f fs)
  then show ?case by (cases f) auto
qed

lemma ptrs_paint [simp]: "ptrs (paint c t) = ptrs t"
  by (cases t) auto

lemma ptrs_fix_recolor: "ptrs (fix_recolor f g t) = ptrs (plug1 g (plug1 f t))"
  by (cases f; cases g) auto

lemma ptrs_fix_rotate: "ptrs (fix_rotate f g (PNode c l a r)) = ptrs (plug1 g (plug1 f (PNode c l a r)))"
  by (cases f; cases g) auto

lemma fix_recolor_node: "\<exists>l' r'. fix_recolor f g t = PNode RB_RED l' (frame_ptr g) r'"
  by (cases g) auto

lemma ptrs_ins_fix: "ptrs (ins_fix fs (PNode c l a r)) = ptrs (plug fs (PNode c l a r))"
proof (induction fs "PNode c l a r" arbitrary: c l a r rule: ins_fix.induct)
  case (3 f g fs)
  obtain l' r' where t': "fix_recolor f g (PNode c l a r) = PNode RB_RED l' (frame_ptr g) r'"
    using fix_recolor_node by blast
  have "ptrs (plug fs (fix_recolor f g (PNode c l a r))) = ptrs (plug (f # g # fs) (PNode c l a r))"
    using ptrs_fix_recolor [of f g "PNode c l a r"] by (simp add: ptrs_plug del: fix_recolor.simps)
  moreover have "ptrs (plug fs (fix_rotate f g (PNode c l a r))) = ptrs (plug (f # g # fs) (PNode c l a r))"
    by (simp add: ptrs_plug ptrs_fix_rotate)
  ultimately show ?case
    using 3 [OF _ _ t'] t' by (cases "frame_color f") auto
qed simp_all

fun bheight :: "ptree \<Rightarrow> nat" where
  "bheight PLeaf = 0"
| "bheight (PNode c l a r) = bheight l + (if c = RB_BLACK then 1 else 0)"

fun balanced :: "ptree \<Rightarrow> bool" where
  "balanced PLeaf = True"
| "balanced (PNode c l a r) = (bheight l = bheight r \<and> balanced l \<and> balanced r)"

fun no_red_red :: "ptree \<Rightarrow> bool" where
  "no_red_red PLeaf = True"
| "no_red_red (PNode c l a r) =
     ((c = RB_RED \<longrightarrow> tree_color l = RB_BLACK \<and> tree_color r = RB_BLACK) \<and>
      no_red_red l \<and> no_red_red r)"

definition rb_ok :: "ptree \<Rightarrow> bool" where
  "rb_ok t \<longleftrightarrow> balanced t \<and> no_red_red t \<and> tree_color t = RB_BLACK"

fun frames_ok :: "nat \<Rightarrow> frame list \<Rightarrow> bool" where
  "frames_ok n [] = True"
| "frames_ok n (f # fs) =
     (balanced (frame_tree f) \<and> no_red_red (frame_tree f) \<and> bheight (frame_tree f) = n \<and>
      (frame_color f = RB_RED \<longrightarrow>
         tree_color (frame_tree f) = RB_BLACK \<and> (\<forall>g gs. fs = g # gs \<longrightarrow> frame_color g = RB_BLACK)) \<and>
      frames_ok (n + (if frame_color f = RB_BLACK then 1 else 0)) fs)"

lemma not_red_iff [simp]: "c \<noteq> RB_RED \<longleftrightarrow> c = RB_BLACK" "c \<noteq> RB_BLACK \<longleftrightarrow> c = RB_RED"
  by (cases c; simp)+

lemma plug_ok_iff:
  "balanced (plug fs t) \<and> no_red_red (plug fs t) \<longleftrightarrow>
     balanced t \<and> no_red_red t \<and> frames_ok (bheight t) fs \<and>
     (\<forall>g gs. fs = g # gs \<longrightarrow> frame_color g = RB_RED \<longrightarrow> tree_color t = RB_BLACK)"
proof (induction fs arbitrary: t)
  case Nil
  then show ?case by simp
next
  case (Cons f fs)
  then show ?case by (cases f) auto
qed

lemma plug_color: "tree_color (plug fs t) = (if fs = [] then tree_color t else frame_color (last fs))"
proof (induction fs arbitrary: t)
  case Nil
  then show ?case by simp
next
  case (Cons f fs)
  then show ?case by (cases f) auto
qed

lemma bheight_paint: "tree_color t = RB_RED \<Longrightarrow> bheight (paint RB_BLACK t) = Suc (bheight t)"
  by (cases t) auto

lemma paint_ok: "balanced t \<Longrightarrow> no_red_red t \<Longrightarrow> balanced (paint RB_BLACK t) \<and> no_red_red (paint RB_BLACK t)
    \<and> tree_color (paint RB_BLACK t) = RB_BLACK"
  by (cases t) auto

lemma fix_recolor_ok:
  assumes "balanced (PNode RB_RED l a r)" and "no_red_red (PNode RB_RED l a r)"
    and "frames_ok (bheight l) (f # g # fs)" and "frame_color f = RB_RED"
    and "tree_color (frame_tree g) = RB_RED"
    and "fix_recolor f g (PNode RB_RED l a r) = PNode RB_RED l' b r'"
  shows "balanced (PNode RB_RED l' b r') \<and> no_red_red (PNode RB_RED l' b r') \<and> frames_ok (bheight l') fs"
proof -
  have g: "frame_color g = RB_BLACK" using assms(3,4) by simp
  show ?thesis
    using assms g paint_ok [of "frame_tree g"] bheight_paint [of "frame_tree g"]
    by (cases f; cases g) auto
qed

lemma fix_rotate_ok:
  assumes "balanced (PNode RB_RED l a r)" and "no_red_red (PNode RB_RED l a r)"
    and "frames_ok (bheight l) (f # g # fs)" and "frame_color f = RB_RED"
    and "tree_color (frame_tree g) \<noteq> RB_RED"
  shows "balanced (plug fs (fix_rotate f g (PNode RB_RED l a r))) \<and>
    no_red_red (plug fs (fix_rotate f g (PNode RB_RED l a r)))"
proof -
  have g: "frame_color g = RB_BLACK" using assms(3,4) by simp
  show ?thesis using assms g by (cases f; cases g) (auto simp: plug_ok_iff)
qed

lemma ins_fix_ok:
  assumes "balanced (PNode RB_RED l a r)" and "no_red_red (PNode RB_RED l a r)"
    and "frames_ok (bheight l) fs" and "fs \<noteq> [] \<Longrightarrow> frame_color (last fs) = RB_BLACK"
  shows "balanced (ins_fix fs (PNode RB_RED l a r)) \<and> no_red_red (ins_fix fs (PNode RB_RED l a r))"
  using assms
proof (induction fs "PNode RB_RED l a r" arbitrary: l a r rule: ins_fix.induct)
  case 1
  then show ?case by simp
next
  case (2 f)
  then show ?case by (cases f) auto
next
  case (3 f g fs)
  show ?case
  proof (cases "frame_color f")
    case RB_BLACK
    then show ?thesis using 3(2-5) plug_ok_iff [of "f # g # fs" "PNode RB_RED l a r"] by simp
  next
    case RB_RED
    show ?thesis
    proof (cases "tree_color (frame_tree g) = RB_RED")
      case True
      obtain l' r' where t': "fix_recolor f g (PNode RB_RED l a r) = PNode RB_RED l' (frame_ptr g) r'"
        using fix_recolor_node by blast
      have "fs \<noteq> [] \<Longrightarrow> frame_color (last fs) = RB_BLACK" using 3(5) by simp
      moreover have "balanced (PNode RB_RED l' (frame_ptr g) r')"
        "no_red_red (PNode RB_RED l' (frame_ptr g) r')" "frames_ok (bheight l') fs"
        using fix_recolor_ok [OF 3(2-4) RB_RED True t'] by blast+
      ultimately have "balanced (ins_fix fs (PNode RB_RED l' (frame_ptr g) r')) \<and>
        no_red_red (ins_fix fs (PNode RB_RED l' (frame_ptr g) r'))"
        using 3(1) [OF _ True t'] RB_RED by simp
      then show ?thesis using RB_RED True t' by simp
    next
      case False
      then show ?thesis using fix_rotate_ok [OF 3(2-4) RB_RED False] RB_RED by simp
    qed
  qed
qed

section \<open>Insertion at a leaf\<close>

fun slot_of :: "frame list \<Rightarrow> rb_slot" where
  "slot_of [] = Root_Slot"
| "slot_of (LeftOf c a r # fs) = Left_Slot a"
| "slot_of (RightOf c a l # fs) = Right_Slot a"

lemma rb_link_node_at:
  assumes "at_pos s fs PLeaf" and "rb_heap s n \<noteq> None" and "n \<notin> frames_ptrs fs"
  shows "\<exists>s'. rb_link_node n (above fs) (slot_of fs) s = Some s' \<and>
    at_pos s' fs (PNode RB_RED PLeaf n PLeaf) \<and> dom (rb_heap s') = dom (rb_heap s)"
proof (cases fs)
  case Nil
  then show ?thesis using assms by (auto simp: rb_link_node_def upd_node_def at_pos_def)
next
  case (Cons f fs')
  let ?n = "\<lparr>rb_parent = above fs, rb_color = RB_RED, rb_right = None, rb_left = None\<rparr>"
  have ctx: "ctx_at (s\<lparr>rb_heap := (rb_heap s)(n \<mapsto> ?n, x \<mapsto> m)\<rparr>) q fs' = ctx_at s q fs'"
    if "x \<notin> frames_ptrs fs'" for q x m
    using that assms(3) Cons by (intro ctx_at_heap) auto
  show ?thesis
  proof (cases f)
    case f: (LeftOf c x r)
    then show ?thesis
      using assms Cons ctx [of x] by (auto simp: rb_link_node_def upd_node_def at_pos_def heap_simps)
  next
    case f: (RightOf c x l)
    then show ?thesis
      using assms Cons ctx [of x] by (auto simp: rb_link_node_def upd_node_def at_pos_def heap_simps)
  qed
qed

text \<open>
  Linking a new node at a leaf and rebalancing: the search order of the addresses keeps the new one
  where it was linked, the tree stays red-black, and the code neither fails nor loops.
\<close>

lemma rb_insert_at:
  assumes rep: "tree_rep s (plug fs PLeaf)" and ok: "rb_ok (plug fs PLeaf)"
    and n: "rb_heap s n \<noteq> None" "n \<notin> set (ptrs (plug fs PLeaf))"
  shows "\<exists>s1 s2 t. rb_link_node n (above fs) (slot_of fs) s = Some s1 \<and> rb_insert_color n s1 = Some s2 \<and>
    tree_rep s2 t \<and> rb_ok t \<and> ptrs t = frames_before fs @ n # frames_after fs \<and>
    dom (rb_heap s2) = dom (rb_heap s)"
proof -
  let ?new = "PNode RB_RED PLeaf n PLeaf"
  have "frames_ptrs fs = set (ptrs (plug fs PLeaf))"
  proof (induction fs)
    case (Cons f fs)
    then show ?case by (cases f) (auto simp: ptrs_plug)
  qed simp
  then obtain s1 where s1: "rb_link_node n (above fs) (slot_of fs) s = Some s1"
    and p1: "at_pos s1 fs ?new" and d1: "dom (rb_heap s1) = dom (rb_heap s)"
    using rb_link_node_at [of s fs n] rep n by (auto simp: at_pos_plug)
  have last: "fs \<noteq> [] \<Longrightarrow> frame_color (last fs) = RB_BLACK"
    using ok by (auto simp: rb_ok_def plug_color)
  from loop_ins_fix [OF p1 last] obtain s2 where s2: "rb_insert_loop n s1 = Some s2"
    and p2: "tree_rep s2 (ins_fix fs ?new)" and d2: "dom (rb_heap s2) = dom (rb_heap s1)" by blast
  have order: "ptrs (ins_fix fs ?new) = frames_before fs @ n # frames_after fs"
    by (simp add: ptrs_ins_fix ptrs_plug)
  obtain c l b r where t: "ins_fix fs ?new = PNode c l b r"
    using order by (cases "ins_fix fs ?new") auto
  have "at_pos s2 [] (PNode c l b r)" using p2 t by (simp add: tree_rep_def)
  from set_color_at [OF this, of RB_BLACK] obtain s3 where s3: "rb_set_color b RB_BLACK s2 = Some s3"
    and p3: "tree_rep s3 (PNode RB_BLACK l b r)" and d3: "dom (rb_heap s3) = dom (rb_heap s2)"
    by (auto simp: tree_rep_def)
  have "rb_top s2 = Some b" using p2 t by (simp add: tree_rep_def at_pos_def)
  then have "rb_insert_color n s1 = Some s3" using s2 s3 by (simp add: rb_insert_color_def)
  moreover have "rb_ok (PNode RB_BLACK l b r)"
  proof -
    have "frames_ok 0 fs" using ok plug_ok_iff [of fs PLeaf] by (simp add: rb_ok_def)
    then have "balanced (ins_fix fs ?new) \<and> no_red_red (ins_fix fs ?new)"
      using ins_fix_ok [of PLeaf n PLeaf fs] last by simp
    then show ?thesis using t by (simp add: rb_ok_def)
  qed
  moreover have "ptrs (PNode RB_BLACK l b r) = frames_before fs @ n # frames_after fs"
    using order t by simp
  ultimately show ?thesis using s1 p3 d1 d2 d3 by auto
qed

text \<open>A red-black tree is not deep: its height is at most twice the logarithm of its size.\<close>

fun pheight :: "ptree \<Rightarrow> nat" where
  "pheight PLeaf = 0"
| "pheight (PNode c l a r) = Suc (max (pheight l) (pheight r))"

lemma pheight_bheight:
  "balanced t \<Longrightarrow> no_red_red t \<Longrightarrow>
     pheight t \<le> 2 * bheight t + (if tree_color t = RB_RED then 1 else 0)"
  by (induction t) (fastforce split: if_splits)+

lemma bheight_size: "balanced t \<Longrightarrow> 2 ^ bheight t \<le> Suc (length (ptrs t))"
  by (induction t) (auto simp: mult_2)

lemma rb_ok_height: "rb_ok t \<Longrightarrow> 2 ^ (pheight t div 2) \<le> Suc (length (ptrs t))"
proof -
  assume ok: "rb_ok t"
  then have "pheight t div 2 \<le> bheight t" using pheight_bheight [of t] by (simp add: rb_ok_def)
  then have "(2 :: nat) ^ (pheight t div 2) \<le> 2 ^ bheight t" by (rule power_increasing) simp
  also have "\<dots> \<le> Suc (length (ptrs t))" using ok bheight_size by (simp add: rb_ok_def)
  finally show ?thesis .
qed

end
