(* ===== verification/Isolation_Env.thy ===== *)
theory Isolation_Env
  imports C_Library
begin

text \<open>
  The configuration part of \<open>ras-page-isolation.c\<close>: the actions and their names, the thresholds and
  refresh cycles with their units, and how the environment sets them.
\<close>

section \<open>The data\<close>

datatype otype = OFFLINE_OFF | OFFLINE_ACCOUNT | OFFLINE_SOFT | OFFLINE_HARD | OFFLINE_SOFT_THEN_HARD

datatype pstate = PAGE_ONLINE | PAGE_OFFLINE | PAGE_OFFLINE_FAILED

text \<open>\<open>offline > OFFLINE_ACCOUNT\<close> compares the numbers of the enumeration.\<close>

fun otype_num :: "otype \<Rightarrow> nat" where
  "otype_num OFFLINE_OFF = 0"
| "otype_num OFFLINE_ACCOUNT = 1"
| "otype_num OFFLINE_SOFT = 2"
| "otype_num OFFLINE_HARD = 3"
| "otype_num OFFLINE_SOFT_THEN_HARD = 4"

instantiation otype :: linorder
begin

definition less_eq_otype :: "otype \<Rightarrow> otype \<Rightarrow> bool" where
  "a \<le> b \<longleftrightarrow> otype_num a \<le> otype_num b"

definition less_otype :: "otype \<Rightarrow> otype \<Rightarrow> bool" where
  "a < b \<longleftrightarrow> otype_num a < otype_num b"

lemma otype_num_inj: "otype_num a = otype_num b \<Longrightarrow> a = b"
  by (cases a; cases b) simp_all

instance
  by standard (auto simp: less_eq_otype_def less_otype_def intro: otype_num_inj)

end

lemma le_account_iff [simp]: "a \<le> OFFLINE_ACCOUNT \<longleftrightarrow> a = OFFLINE_OFF \<or> a = OFFLINE_ACCOUNT"
  by (cases a) (simp_all add: less_eq_otype_def)

lemma gt_account_iff [simp]:
  "OFFLINE_ACCOUNT < a \<longleftrightarrow> a = OFFLINE_SOFT \<or> a = OFFLINE_HARD \<or> a = OFFLINE_SOFT_THEN_HARD"
  by (cases a) (simp_all add: less_otype_def)

record isolation =
  iso_name :: string
  iso_env :: string
  iso_units :: "(string \<times> u64) list"
  iso_val :: u64
  iso_overflow :: bool
  iso_unit :: string

definition threshold_units :: "(string \<times> u64) list" where
  "threshold_units = [(''m'', 1000), (''k'', 1000), ('''', 1)]"

definition cycle_units :: "(string \<times> u64) list" where
  "cycle_units = [(''d'', 24), (''h'', 60), (''m'', 60), (''s'', 1)]"

definition threshold0 :: isolation where
  "threshold0 = \<lparr>iso_name = ''PAGE_CE_THRESHOLD'', iso_env = ''50'', iso_units = threshold_units,
     iso_val = 0, iso_overflow = False, iso_unit = ''''\<rparr>"

definition row_threshold0 :: isolation where
  "row_threshold0 = \<lparr>iso_name = ''ROW_CE_THRESHOLD'', iso_env = ''50'', iso_units = threshold_units,
     iso_val = 0, iso_overflow = False, iso_unit = ''''\<rparr>"

definition cycle0 :: isolation where
  "cycle0 = \<lparr>iso_name = ''PAGE_CE_REFRESH_CYCLE'', iso_env = ''24h'', iso_units = cycle_units,
     iso_val = 0, iso_overflow = False, iso_unit = ''h''\<rparr>"

definition row_cycle0 :: isolation where
  "row_cycle0 = \<lparr>iso_name = ''ROW_CE_REFRESH_CYCLE'', iso_env = ''24h'', iso_units = cycle_units,
     iso_val = 0, iso_overflow = False, iso_unit = ''h''\<rparr>"

text \<open>The files of the kernel; there is none for the first two actions.\<close>

fun kernel_offline :: "otype \<Rightarrow> string option" where
  "kernel_offline OFFLINE_OFF = None"
| "kernel_offline OFFLINE_ACCOUNT = None"
| "kernel_offline OFFLINE_SOFT = Some ''/sys/devices/system/memory/soft_offline_page''"
| "kernel_offline OFFLINE_HARD = Some ''/sys/devices/system/memory/hard_offline_page''"
| "kernel_offline OFFLINE_SOFT_THEN_HARD = Some ''/sys/devices/system/memory/soft_offline_page''"

definition offline_choice :: "(string \<times> otype) list" where
  "offline_choice =
     [(''off'', OFFLINE_OFF), (''account'', OFFLINE_ACCOUNT), (''soft'', OFFLINE_SOFT),
      (''hard'', OFFLINE_HARD), (''soft-then-hard'', OFFLINE_SOFT_THEN_HARD)]"

section \<open>The actions\<close>

text \<open>The loop over \<open>offline_choice\<close> that both initialisers have: the first name that matches.\<close>

fun find_choice :: "string \<Rightarrow> (string \<times> otype) list \<Rightarrow> otype option" where
  "find_choice choice [] = None"
| "find_choice choice ((name, v) # cs) =
     (if strcasecmp_eq choice name then Some v else find_choice choice cs)"

text \<open>
  \<open>writable f\<close> is whether \<open>access (f, W_OK)\<close> succeeds; the file name is never \<open>NULL\<close> where it is
  called.
\<close>

definition unless_writable :: "(string \<Rightarrow> bool) \<Rightarrow> otype \<Rightarrow> otype" where
  "unless_writable writable a =
     (if a > OFFLINE_ACCOUNT \<and> (case kernel_offline a of None \<Rightarrow> True | Some f \<Rightarrow> \<not> writable f)
      then OFFLINE_ACCOUNT else a)"

definition page_offline_init ::
  "(string \<Rightarrow> string option) \<Rightarrow> (string \<Rightarrow> bool) \<Rightarrow> otype \<Rightarrow> otype \<Rightarrow> otype" where
  "page_offline_init getenv writable row_offline_action offline =
     (let chosen = (case getenv ''PAGE_CE_ACTION'' of
                      None \<Rightarrow> offline
                    | Some choice \<Rightarrow>
                        (case find_choice choice offline_choice of None \<Rightarrow> offline | Some v \<Rightarrow> v));
          supported = unless_writable writable chosen
      in if row_offline_action \<noteq> OFFLINE_OFF then OFFLINE_OFF else supported)"

definition row_offline_init ::
  "(string \<Rightarrow> string option) \<Rightarrow> (string \<Rightarrow> bool) \<Rightarrow> otype \<Rightarrow> otype" where
  "row_offline_init getenv writable row_offline_action =
     unless_writable writable
       (case getenv ''ROW_CE_ACTION'' of
          None \<Rightarrow> row_offline_action
        | Some choice \<Rightarrow>
            (case find_choice choice offline_choice of None \<Rightarrow> row_offline_action | Some v \<Rightarrow> v))"

section \<open>The thresholds and cycles\<close>

text \<open>
  The first part of \<open>parse_isolation_env\<close>: whether the environment's value is valid, and for a valid
  one whether it has no unit, and its last character as a string.
\<close>

definition find_unit :: "string \<Rightarrow> (string \<times> u64) list \<Rightarrow> bool" where
  "find_unit unit units \<longleftrightarrow> (\<exists>u \<in> set units. strcasecmp_eq unit (fst u))"

definition check_isolation_env :: "isolation \<Rightarrow> string option \<Rightarrow> (bool \<times> string) option" where
  "check_isolation_env config env =
     (case env of
        None \<Rightarrow> None
      | Some s \<Rightarrow>
          if s = [] then None
          else if \<not> list_all isdigit (butlast s) then None
          else (case sscanf_lu s of
                  None \<Rightarrow> None
                | Some (v, _) \<Rightarrow>
                    if v = 0 then None
                    else if isdigit (last s) then Some (True, [last s])
                    else if find_unit [last s] (iso_units config) then Some (False, [last s])
                    else None))"

text \<open>
  The loop over the units. \<open>unit_matched\<close> is cleared at the end of the body, so only the entries whose
  own name is the unit multiply. \<open>erange\<close> is whether \<open>errno\<close> is \<open>ERANGE\<close> when \<open>strtoul\<close> is called: it
  is not cleared before. The result is the value and the overflow flag.
\<close>

fun apply_units ::
  "string \<Rightarrow> string \<Rightarrow> bool \<Rightarrow> (string \<times> u64) list \<Rightarrow> u64 \<Rightarrow> bool \<Rightarrow> u64 \<times> bool" where
  "apply_units env unit erange [] value overflow = (value, overflow)"
| "apply_units env unit erange ((name, factor) # units) value overflow =
     (if strcasecmp_eq unit name then
        (let tmp = value;
             value' = value * factor;
             overflow1 = (overflow \<or> (tmp \<noteq> 0 \<and> value' div tmp \<noteq> factor));
             overflow2 = (if factor = 1
                          then (case strtoul 10 env of
                                  (_, endptr, e) \<Rightarrow> overflow1 \<or> erange \<or> e \<or> endptr \<noteq> [])
                          else overflow1)
         in apply_units env unit erange units value' overflow2)
      else apply_units env unit erange units value overflow)"

text \<open>
  \<open>no_unit0\<close> is the value the uninitialised variable \<open>no_unit\<close> has when the environment is not valid:
  it decides only whether the unit is printed. The second \<open>sscanf\<close> succeeds on a valid value and on
  the defaults; if it fails \<open>value\<close> is not initialised, which is \<open>None\<close>.
\<close>

definition parse_isolation_env ::
  "(string \<Rightarrow> string option) \<Rightarrow> bool \<Rightarrow> bool \<Rightarrow> isolation \<Rightarrow> isolation option" where
  "parse_isolation_env getenv erange no_unit0 config =
     (let env = getenv (iso_name config);
          (config1, no_unit) =
            (case check_isolation_env config env of
               None \<Rightarrow> (config, no_unit0)
             | Some (no_unit, unit) \<Rightarrow>
                 (let c = config\<lparr>iso_env := the env\<rparr>
                  in (if no_unit then c else c\<lparr>iso_unit := unit\<rparr>, no_unit)))
      in (case sscanf_lu (iso_env config1) of
            None \<Rightarrow> None
          | Some (value, _) \<Rightarrow>
              (let (value', overflow) =
                     apply_units (iso_env config1) (iso_unit config1) erange (iso_units config1)
                       value (iso_overflow config1)
               in Some (config1\<lparr>iso_val := value', iso_overflow := overflow,
                          iso_unit := (if no_unit then iso_unit config1 else '''')\<rparr>))))"

text \<open>\<open>snprintf\<close> into a buffer of \<open>sz\<close> bytes truncates.\<close>

definition parse_env_string :: "isolation \<Rightarrow> nat \<Rightarrow> string" where
  "parse_env_string config sz =
     take (sz - 1)
       (if iso_overflow config then fmt_u (iso_val config) @ fst (last (iso_units config))
        else iso_env config @ iso_unit config)"

section \<open>What a configuration value means\<close>

text \<open>The digits of a value, and the unit it is in: its last character, or the one the program has.\<close>

definition env_number :: "string \<Rightarrow> string" where
  "env_number s = (if isdigit (last s) then s else butlast s)"

definition env_unit :: "isolation \<Rightarrow> string \<Rightarrow> string" where
  "env_unit config s = (if isdigit (last s) then iso_unit config else [last s])"

definition units_named :: "string \<Rightarrow> (string \<times> u64) list \<Rightarrow> (string \<times> u64) list" where
  "units_named u units = filter (\<lambda>(name, factor). strcasecmp_eq u name) units"

lemma apply_units_none:
  "units_named u units = [] \<Longrightarrow> apply_units env u erange units value overflow = (value, overflow)"
  by (induction units) (auto simp: units_named_def split: if_splits)

lemma apply_units_one:
  "units_named u units = [(name, factor)] \<Longrightarrow>
     apply_units env u erange units value overflow =
       (value * factor,
        overflow \<or> value \<noteq> 0 \<and> value * factor div value \<noteq> factor \<or>
        factor = 1 \<and> (erange \<or> snd (snd (strtoul 10 env)) \<or> fst (snd (strtoul 10 env)) \<noteq> []))"
proof (induction units)
  case Nil
  then show ?case by (simp add: units_named_def)
next
  case (Cons x units)
  obtain n f where x: "x = (n, f)" by (cases x)
  show ?case
  proof (cases "strcasecmp_eq u n")
    case True
    then have "units_named u units = []" "n = name" "f = factor"
      using Cons.prems x by (auto simp: units_named_def)
    then show ?thesis
      using x True by (auto simp: Let_def apply_units_none split: prod.splits)
  next
    case False
    then show ?thesis using Cons x by (simp add: units_named_def)
  qed
qed

lemma find_unit_named: "units_named u units \<noteq> [] \<Longrightarrow> find_unit u units"
  by (force simp: units_named_def find_unit_def filter_empty_conv)

lemma env_number_split:
  assumes "s \<noteq> []"
  shows "s = env_number s @ (if isdigit (last s) then [] else [last s])"
  using assms by (simp add: env_number_def)

lemma u64_mult_overflow_iff:
  fixes v f :: u64
  assumes "v \<noteq> 0"
  shows "v * f div v \<noteq> f \<longleftrightarrow> 2 ^ 64 \<le> unat v * unat f"
  using mult_div_check_iff [OF assms, of f] by (auto simp: mult.commute)

lemma parse_isolation_env_digits:
  assumes "getenv (iso_name config) = Some s" and "s \<noteq> []"
    and "env_number s \<noteq> []" and "list_all isdigit (env_number s)"
    and "0 < dec_value (env_number s)" and "dec_value (env_number s) < 2 ^ 64"
    and "units_named (env_unit config s) (iso_units config) = [(name, f)]"
    and "\<not> iso_overflow config"
  shows "parse_isolation_env getenv erange no_unit0 config =
    Some (config\<lparr>iso_env := s, iso_val := of_nat (dec_value (env_number s)) * f,
      iso_overflow := (2 ^ 64 \<le> dec_value (env_number s) * unat f \<or>
        f = 1 \<and> (erange \<or> \<not> isdigit (last s))),
      iso_unit := (if isdigit (last s) then iso_unit config else [])\<rparr>)"
proof -
  let ?ds = "env_number s" and ?rest = "if isdigit (last s) then [] else [last s]"
  let ?n = "dec_value ?ds"
  have split: "s = ?ds @ ?rest" using assms(2) by (rule env_number_split)
  have rest: "?rest = [] \<or> \<not> isdigit (hd ?rest)" by simp
  have sscanf: "sscanf_lu s = Some (of_nat ?n, False)"
    using sscanf_lu_digits [OF assms(3,4) rest] assms(6) split by simp
  have strtoul: "strtoul 10 s = (of_nat ?n, ?rest, False)"
    using strtoul_digits [OF assms(3,4) rest] assms(6) split by simp
  have n: "unat (of_nat ?n :: u64) = ?n" using assms(6) by (simp add: unat_of_nat)
  then have n0: "(of_nat ?n :: u64) \<noteq> 0" using assms(5) by (metis less_irrefl unat_0)
  have butlast: "list_all isdigit (butlast s)"
  proof (cases "isdigit (last s)")
    case True
    then have "list_all isdigit s" using assms(4) by (simp add: env_number_def)
    then show ?thesis by (auto simp: list_all_iff dest: in_set_butlastD)
  next
    case False
    then show ?thesis using assms(4) by (simp add: env_number_def)
  qed
  have find: "isdigit (last s) \<or> find_unit [last s] (iso_units config)"
    using assms(7) find_unit_named [of "[last s]" "iso_units config"]
    by (auto simp: env_unit_def split: if_splits)
  have check: "check_isolation_env config (Some s) = Some (isdigit (last s), [last s])"
    using assms(2) butlast sscanf n0 find by (auto simp: check_isolation_env_def)
  have units: "apply_units s (env_unit config s) erange (iso_units config) (of_nat ?n) False =
      (of_nat ?n * f, 2 ^ 64 \<le> ?n * unat f \<or> f = 1 \<and> (erange \<or> \<not> isdigit (last s)))"
    using apply_units_one [OF assms(7)] u64_mult_overflow_iff [OF n0, of f] n n0 strtoul by auto
  show ?thesis
  proof (cases "isdigit (last s)")
    case True
    then show ?thesis
      using assms(1,8) check sscanf units
      by (simp add: parse_isolation_env_def Let_def env_unit_def)
  next
    case False
    then show ?thesis
      using assms(1,8) check sscanf units
      by (simp add: parse_isolation_env_def Let_def env_unit_def)
  qed
qed

text \<open>
  What the units mean by \<open>misc/rasdaemon.env\<close>: days, hours and minutes of a refresh cycle, which the program
  compares with seconds, and thousands and millions of errors of a threshold; and how many times less than
  this the program makes of a value.
\<close>

definition documented_units :: "((string \<times> u64) list \<times> string \<times> nat \<times> nat) list" where
  "documented_units =
     [(cycle_units, ''d'', 86400, 3600), (cycle_units, ''h'', 3600, 60), (cycle_units, ''m'', 60, 1),
      (threshold_units, ''m'', 1000000, 1000), (threshold_units, ''k'', 1000, 1), (threshold_units, '''', 1, 1)]"

lemma units_named_own:
  "units_named ''d'' cycle_units = [(''d'', 24)]" "units_named ''h'' cycle_units = [(''h'', 60)]"
  "units_named ''m'' cycle_units = [(''m'', 60)]" "units_named ''m'' threshold_units = [(''m'', 1000)]"
  "units_named ''k'' threshold_units = [(''k'', 1000)]" "units_named '''' threshold_units = [('''', 1)]"
  by code_simp+

lemma documented_unit:
  assumes "(units, u, doc, short) \<in> set documented_units" and "strcasecmp_eq v u"
  shows "\<exists>name f. units_named v units = [(name, f)] \<and> doc = short * unat f \<and> 0 < short \<and> (f = 1 \<longleftrightarrow> u = '''')"
proof -
  have "units_named v units = units_named u units"
    using assms(2) by (simp add: units_named_def strcasecmp_eq_def)
  then show ?thesis
    using assms(1) by (auto simp: documented_units_def units_named_own)
qed

text \<open>
  C13: a value of digits and one of the documented units, or none where the unit is the default, is read as
  its number of minutes for a refresh cycle in minutes, and as its number of errors for a threshold in
  errors or thousands, as \<open>misc/rasdaemon.env\<close> says. But a unit is multiplied by its own factor only: a
  cycle in hours, the default, is 60 times too short, one in days 3600 times, and a threshold in millions is
  1000 times too low.
\<close>

theorem isolation_env_falls_short:
  assumes "getenv (iso_name config) = Some s" and "s \<noteq> []"
    and "env_number s \<noteq> []" and "list_all isdigit (env_number s)" and "0 < dec_value (env_number s)"
    and "(iso_units config, u, documented, short) \<in> set documented_units"
    and "strcasecmp_eq (env_unit config s) u" and "dec_value (env_number s) * documented < 2 ^ 64"
    and "\<not> iso_overflow config" and "\<not> erange"
  shows "\<exists>c. parse_isolation_env getenv erange no_unit0 config = Some c \<and> iso_env c = s \<and>
    short * unat (iso_val c) = dec_value (env_number s) * documented \<and>
    (unat (iso_val c) = dec_value (env_number s) * documented) = (short = 1) \<and> \<not> iso_overflow c"
proof -
  let ?n = "dec_value (env_number s)"
  obtain name f where f: "units_named (env_unit config s) (iso_units config) = [(name, f)]"
    and doc: "documented = short * unat f" "0 < short" and one: "f = 1 \<longleftrightarrow> u = ''''"
    using documented_unit [OF assms(6,7)] by blast
  have f0: "0 < unat f"
    using assms(6) doc(1) by (auto simp: documented_units_def intro: Nat.gr0I)
  have bound: "?n * unat f < 2 ^ 64" "?n < 2 ^ 64"
  proof -
    have "?n * unat f \<le> ?n * documented" using doc by (simp add: mult_le_mono2)
    then show b: "?n * unat f < 2 ^ 64" using assms(8) by (rule le_less_trans)
    have "?n \<le> ?n * unat f" using f0 by simp
    then show "?n < 2 ^ 64" using b by (rule le_less_trans)
  qed
  have digit: "isdigit (last s)" if "f = 1"
    using that one assms(7) by (auto simp: env_unit_def strcasecmp_eq_def split: if_splits)
  have v: "unat (of_nat ?n * f) = ?n * unat f"
  proof -
    have "(of_nat ?n * f :: u64) = of_nat (?n * unat f)" by simp
    then show ?thesis using bound(1) by (simp add: unat_of_nat del: of_nat_mult)
  qed
  have "(?n * unat f = ?n * documented) = (short = 1)" using doc f0 assms(5) by auto
  then show ?thesis
    using parse_isolation_env_digits [of getenv config s name f erange no_unit0, OF assms(1-5) bound(2) f assms(9)] bound(1) v doc(1) digit assms(10)
    by (auto simp: not_le)
qed

theorem isolation_env_falls_short_witness:
  "(\<exists>c. parse_isolation_env (\<lambda>_. Some ''30M'') False False cycle0 = Some c \<and> unat (iso_val c) = 30 * 60) \<and>
   (\<exists>c. parse_isolation_env (\<lambda>_. Some ''1d'') False False cycle0 = Some c \<and> 3600 * unat (iso_val c) = 86400)"
proof -
  have n: "dec_value (env_number ''30M'') = 30" "dec_value (env_number ''1d'') = 1" by code_simp+
  have s: "env_number ''30M'' \<noteq> []" "list_all isdigit (env_number ''30M'')"
    "env_number ''1d'' \<noteq> []" "list_all isdigit (env_number ''1d'')"
    by code_simp+
  have u: "strcasecmp_eq (env_unit cycle0 ''30M'') ''m''" "strcasecmp_eq (env_unit cycle0 ''1d'') ''d''"
    by code_simp+
  have d: "(iso_units cycle0, ''m'', 60, 1) \<in> set documented_units"
    "(iso_units cycle0, ''d'', 86400, 3600) \<in> set documented_units"
    by (simp_all add: cycle0_def documented_units_def)
  have o: "\<not> iso_overflow cycle0" by (simp add: cycle0_def)
  show ?thesis
    using isolation_env_falls_short [of "\<lambda>_. Some ''30M''" cycle0 "''30M''" "''m''" 60 1 False False]
      isolation_env_falls_short [of "\<lambda>_. Some ''1d''" cycle0 "''1d''" "''d''" 86400 3600 False False]
      n s u d o by auto
qed

lemma parse_isolation_env_default:
  "map_option iso_val (parse_isolation_env (\<lambda>_. None) erange u cycle0) = Some 1440"
proof -
  have "sscanf_lu ''24h'' = Some (24, False)"
    using sscanf_lu_digits [of "''24''" "''h''"] by (simp add: isdigit_def code_of_def dec_value_def digits_value_def digit_num_def)
  moreover have "units_named ''h'' cycle_units = [(''h'', 60)]" by code_simp
  ultimately show ?thesis
    using apply_units_one [of "''h''" cycle_units "''h''" 60 "''24h''" erange 24 False]
    by (simp add: parse_isolation_env_def Let_def check_isolation_env_def cycle0_def)
qed

lemma one_digit_env:
  assumes "getenv (iso_name config) = Some [d, u]" and "isdigit d" and "\<not> isdigit u" and "digit_num d \<noteq> 0"
    and "units_named [u] (iso_units config) = [(name, f)]" and "\<not> iso_overflow config"
  shows "map_option iso_val (parse_isolation_env getenv erange no_unit0 config) =
    Some (of_nat (digit_num d) * f)"
proof -
  have "digit_num d < 2 ^ 64" using digit_num_less [OF assms(2)] by simp
  then show ?thesis
    using assms parse_isolation_env_digits [of getenv config "[d, u]" name f erange no_unit0]
    by (simp add: env_number_def env_unit_def dec_value_def digits_value_def)
qed

text \<open>
  As a unit multiplies by its own factor only, a refresh cycle of one day is 24, less than the
  1440 of the default of 24 hours, and neither is the 86400 seconds it is compared with; a threshold
  of \<open>2m\<close> is the 2000 of \<open>2k\<close>.
\<close>

theorem units_do_not_cascade:
  "map_option iso_val (parse_isolation_env (\<lambda>_. Some ''1d'') erange u cycle0) = Some 24 \<and>
   map_option iso_val (parse_isolation_env (\<lambda>_. None) erange u cycle0) = Some 1440 \<and>
   map_option iso_val (parse_isolation_env (\<lambda>_. Some ''2m'') erange u threshold0) = Some 2000 \<and>
   map_option iso_val (parse_isolation_env (\<lambda>_. Some ''2k'') erange u threshold0) = Some 2000"
proof -
  have u: "units_named ''d'' (iso_units cycle0) = [(''d'', 24)]"
    "units_named ''m'' (iso_units threshold0) = [(''m'', 1000)]"
    "units_named ''k'' (iso_units threshold0) = [(''k'', 1000)]"
    by code_simp+
  have "\<not> iso_overflow cycle0" "\<not> iso_overflow threshold0"
    by (simp_all add: cycle0_def threshold0_def)
  note env = one_digit_env [OF _ _ _ _ u(1) this(1)]
    one_digit_env [OF _ _ _ _ u(2) this(2)] one_digit_env [OF _ _ _ _ u(3) this(2)]
  show ?thesis
    using env(1) [of "\<lambda>_. Some ''1d''" "CHR ''1''"] env(2) [of "\<lambda>_. Some ''2m''" "CHR ''2''"]
      env(3) [of "\<lambda>_. Some ''2k''" "CHR ''2''"] parse_isolation_env_default
    by (simp add: isdigit_def code_of_def digit_num_def)
qed

lemma unless_writable_safe:
  "unless_writable writable a \<le> OFFLINE_ACCOUNT \<or>
   (\<exists>f. kernel_offline (unless_writable writable a) = Some f \<and> writable f)"
  by (cases a) (auto simp: unless_writable_def)

text \<open>
  Pages are taken offline only through a file of the kernel that the program may write, and never
  when rows are isolated.
\<close>

theorem page_offline_init_safe:
  "page_offline_init getenv writable row_action action \<le> OFFLINE_ACCOUNT \<or>
   (row_action = OFFLINE_OFF \<and>
    (\<exists>f. kernel_offline (page_offline_init getenv writable row_action action) = Some f \<and> writable f))"
  using unless_writable_safe [of writable] by (simp add: page_offline_init_def Let_def)

lemma row_offline_init_safe:
  "row_offline_init getenv writable action \<le> OFFLINE_ACCOUNT \<or>
   (\<exists>f. kernel_offline (row_offline_init getenv writable action) = Some f \<and> writable f)"
  by (simp only: row_offline_init_def unless_writable_safe)

end
