(* ===== verification/Soft_Double.thy ===== *)
theory Soft_Double
  imports Complex_Main Prelude
begin

text \<open>
  The little of IEEE 754 binary64 arithmetic the sources use: conversion of an \<open>unsigned long\<close>, a
  quotient, a product, and conversion back. A non-negative double is the rational it stands for;
  every operation rounds its exact result to 53 significant bits, ties to even. The numbers involved
  lie between \<open>2 ^ -64\<close> and \<open>2 ^ 128\<close>, so the exponent range does not matter.
\<close>

section \<open>Rounding\<close>

definition round_half_even :: "rat \<Rightarrow> int" where
  "round_half_even x =
     (let d = \<lfloor>x\<rfloor>; f = x - of_int d
      in if f < 1 / 2 \<or> (f = 1 / 2 \<and> even d) then d else d + 1)"

lemma floor_less_scaled: "1 \<le> b \<Longrightarrow> 2 * b \<le> a \<Longrightarrow> nat \<lfloor>b\<rfloor> < nat \<lfloor>a\<rfloor>" for a b :: rat
proof -
  assume "1 \<le> b" and "2 * b \<le> a"
  then have "b + 1 \<le> a" by simp
  then have "\<lfloor>b\<rfloor> + 1 \<le> \<lfloor>a\<rfloor>" using floor_mono [of "b + 1" a] by simp
  moreover have "1 \<le> \<lfloor>b\<rfloor>" using \<open>1 \<le> b\<close> by simp
  ultimately show ?thesis by linarith
qed

text \<open>Scale by a power of two into the binade \<open>2 ^ 52 \<dots> 2 ^ 53\<close>, round there, and scale back.\<close>

function round_double :: "rat \<Rightarrow> rat" where
  "round_double x =
     (if x \<ge> 2 ^ 53 then 2 * round_double (x / 2)
      else if 0 < x \<and> x < 2 ^ 52 then round_double (2 * x) / 2
      else of_int (round_half_even x))"
  by pat_completeness auto

termination
proof (relation "measure (\<lambda>x. if x \<ge> 2 ^ 53 then nat \<lfloor>x\<rfloor> else nat \<lfloor>2 ^ 53 / x\<rfloor>)")
  show "(x / 2, x) \<in> measure (\<lambda>x. if x \<ge> 2 ^ 53 then nat \<lfloor>x\<rfloor> else nat \<lfloor>2 ^ 53 / x\<rfloor>)"
    if x: "2 ^ 53 \<le> x" for x :: rat
  proof (cases "2 ^ 53 \<le> x / 2")
    case True
    then show ?thesis using x floor_less_scaled [of "x / 2" x] by simp
  next
    case False
    have "2 ^ 53 / (x / 2) \<le> (2 :: rat)" using x by (simp add: field_simps)
    then have "\<lfloor>2 ^ 53 / (x / 2)\<rfloor> \<le> 2" by linarith
    moreover have "3 \<le> \<lfloor>x\<rfloor>" using x by (simp add: le_floor_iff)
    ultimately have "nat \<lfloor>2 ^ 53 / (x / 2)\<rfloor> < nat \<lfloor>x\<rfloor>" by linarith
    then show ?thesis using x False by simp
  qed
  show "(2 * x, x) \<in> measure (\<lambda>x. if x \<ge> 2 ^ 53 then nat \<lfloor>x\<rfloor> else nat \<lfloor>2 ^ 53 / x\<rfloor>)"
    if "\<not> 2 ^ 53 \<le> x" and x: "0 < x \<and> x < 2 ^ 52" for x :: rat
  proof -
    have "1 \<le> 2 ^ 53 / (2 * x)" using x by (simp add: field_simps)
    then have "nat \<lfloor>2 ^ 53 / (2 * x)\<rfloor> < nat \<lfloor>2 ^ 53 / x\<rfloor>"
      by (rule floor_less_scaled) simp
    then show ?thesis using x by simp
  qed
qed simp

declare round_double.simps [simp del]

section \<open>Rounding is monotone and keeps what 53 bits can hold\<close>

lemma round_half_even_bounds: "\<lfloor>x\<rfloor> \<le> round_half_even x" "round_half_even x \<le> \<lfloor>x\<rfloor> + 1"
  by (simp_all add: round_half_even_def Let_def)

lemma round_half_even_int [simp]: "round_half_even (of_int i) = i"
  by (simp add: round_half_even_def)

lemma round_half_even_mono: "x \<le> y \<Longrightarrow> round_half_even x \<le> round_half_even y"
proof -
  assume le: "x \<le> y"
  then have "\<lfloor>x\<rfloor> \<le> \<lfloor>y\<rfloor>" by (rule floor_mono)
  then consider "\<lfloor>x\<rfloor> = \<lfloor>y\<rfloor>" | "\<lfloor>x\<rfloor> + 1 \<le> \<lfloor>y\<rfloor>" by linarith
  then show ?thesis
  proof cases
    case 1
    then show ?thesis using le by (auto simp: round_half_even_def Let_def)
  next
    case 2
    then show ?thesis using round_half_even_bounds [of x] round_half_even_bounds [of y] by linarith
  qed
qed

lemma round_double_le: "x \<le> 2 ^ 53 \<Longrightarrow> round_double x \<le> 2 ^ 53"
proof (induction x rule: round_double.induct)
  case (1 x)
  show ?case
  proof (cases "x < 2 ^ 53 \<and> 0 < x \<and> x < 2 ^ 52")
    case True
    then have "round_double (2 * x) \<le> 2 ^ 53" using 1 by auto
    then show ?thesis using True round_double.simps [of x] by simp
  next
    case False
    have mid: "round_half_even y \<le> 2 ^ 53" if "y \<le> 2 ^ 53" for y
      using round_half_even_mono [OF that] round_half_even_int [of "2 ^ 53"] by simp
    then have mid': "of_int (round_half_even y) \<le> (2 ^ 53 :: rat)" if "y \<le> 2 ^ 53" for y
      using of_int_le_iff [of "round_half_even y" "2 ^ 53", where 'a = rat] that by simp
    show ?thesis
    proof (cases "x = 2 ^ 53")
      case True
      have "round_double (2 ^ 53) = 2 * round_double (2 ^ 52)"
        using round_double.simps [of "2 ^ 53"] by simp
      also have "round_double (2 ^ 52) = 2 ^ 52"
        using round_double.simps [of "2 ^ 52"] round_half_even_int [of "2 ^ 52"] by simp
      finally show ?thesis using True by simp
    next
      case x: False
      then show ?thesis using False 1(3) mid' [of x] round_double.simps [of x] by auto
    qed
  qed
qed

lemma round_double_ge: "2 ^ 52 \<le> x \<Longrightarrow> 2 ^ 52 \<le> round_double x"
proof (induction x rule: round_double.induct)
  case (1 x)
  show ?case
  proof (cases "2 ^ 53 \<le> x")
    case True
    then have "2 ^ 52 \<le> round_double (x / 2)" using 1 by simp
    then show ?thesis using True round_double.simps [of x] by simp
  next
    case False
    have "2 ^ 52 \<le> round_half_even x"
      using round_half_even_mono [OF 1(3)] round_half_even_int [of "2 ^ 52"] by simp
    then have "(2 ^ 52 :: rat) \<le> of_int (round_half_even x)"
      using of_int_le_iff [of "2 ^ 52" "round_half_even x", where 'a = rat] by simp
    then show ?thesis using False 1(3) round_double.simps [of x] by simp
  qed
qed

lemma round_double_0 [simp]: "round_double 0 = 0"
  using round_double.simps [of 0] round_half_even_int [of 0] by simp

lemma round_double_nonneg: "0 \<le> x \<Longrightarrow> 0 \<le> round_double x"
proof (induction x rule: round_double.induct)
  case (1 x)
  consider "2 ^ 53 \<le> x" | "x = 0" | "0 < x" "x < 2 ^ 52" | "2 ^ 52 \<le> x"
    using 1(3) by linarith
  then show ?case
  proof cases
    case 3
    then show ?thesis using 1(2) round_double.simps [of x] by simp
  qed (use round_double_ge [of x] in simp_all)
qed

lemma round_double_mono: "0 \<le> x \<Longrightarrow> x \<le> y \<Longrightarrow> round_double x \<le> round_double y"
proof (induction x arbitrary: y rule: round_double.induct)
  case (1 x)
  consider "2 ^ 53 \<le> x" | "x = 0" | "0 < x" "x < 2 ^ 52" | "2 ^ 52 \<le> x" "x < 2 ^ 53"
    using 1(3) by linarith
  then show ?case
  proof cases
    case 1
    then have "round_double (x / 2) \<le> round_double (y / 2)" using "1.IH"(1) "1.prems" by simp
    then show ?thesis using 1 "1.prems" round_double.simps [of x] round_double.simps [of y] by simp
  next
    case 2
    then show ?thesis using "1.prems" round_double_nonneg by simp
  next
    case 3
    then have x: "round_double x = round_double (2 * x) / 2" using round_double.simps [of x] by simp
    show ?thesis
    proof (cases "y < 2 ^ 52")
      case True
      then have "round_double (2 * x) \<le> round_double (2 * y)" using "1.IH"(2) "1.prems" 3 by simp
      then show ?thesis using True x 3 "1.prems" round_double.simps [of y] by simp
    next
      case False
      then show ?thesis
        using x 3 round_double_le [of "2 * x"] round_double_ge [of y] by simp
    qed
  next
    case 4
    then have x: "round_double x = of_int (round_half_even x)" using round_double.simps [of x] by simp
    show ?thesis
    proof (cases "y < 2 ^ 53")
      case True
      then show ?thesis
        using x 4 "1.prems" round_double.simps [of y] round_half_even_mono [of x y] by simp
    next
      case False
      then have "2 ^ 53 \<le> round_double y"
        using round_double.simps [of y] round_double_ge [of "y / 2"] by simp
      then show ?thesis using round_double_le [of x] 4 by linarith
    qed
  qed
qed

lemma round_double_of_nat: "n < 2 ^ 53 \<Longrightarrow> round_double (of_nat n) = of_nat n"
proof (induction "of_nat n :: rat" arbitrary: n rule: round_double.induct)
  case 1
  have less: "(of_nat n :: rat) < 2 ^ 53"
    using of_nat_less_iff [of n "2 ^ 53", where 'a = rat] 1(3) by simp
  consider "n = 0" | "0 < n" "n < 2 ^ 52" | "2 ^ 52 \<le> n" by linarith
  then show ?case
  proof cases
    case 1
    then show ?thesis by simp
  next
    case 2
    have "(of_nat n :: rat) < 2 ^ 52"
      using of_nat_less_iff [of n "2 ^ 52", where 'a = rat] 2 by simp
    moreover have "round_double (of_nat (2 * n)) = of_nat (2 * n)"
      using "1.hyps"(2) [of "2 * n"] less 2 calculation by simp
    ultimately show ?thesis using 2 less round_double.simps [of "of_nat n"] by simp
  next
    case 3
    have "(2 ^ 52 :: rat) \<le> of_nat n"
      using of_nat_le_iff [of "2 ^ 52" n, where 'a = rat] 3 by simp
    then show ?thesis
      using less round_double.simps [of "of_nat n"] round_half_even_int [of "int n"] by simp
  qed
qed

section \<open>The operations\<close>

definition double_of :: "u64 \<Rightarrow> rat" where
  "double_of w = round_double (of_nat (unat w))"

definition double_div :: "rat \<Rightarrow> rat \<Rightarrow> rat option" where
  "double_div x y = (if y = 0 then None else Some (round_double (x / y)))"

definition double_mult :: "rat \<Rightarrow> rat \<Rightarrow> rat" where
  "double_mult x y = round_double (x * y)"

text \<open>Conversion to \<open>unsigned long\<close> truncates; outside its range it is undefined.\<close>

definition u64_of_double :: "rat \<Rightarrow> u64 option" where
  "u64_of_double x = (if x < 2 ^ 64 then Some (of_int \<lfloor>x\<rfloor>) else None)"

text \<open>
  Scaling \<open>c\<close> by the quotient of \<open>a\<close> and \<open>b\<close>, with \<open>b \<le> a\<close>, never yields less than \<open>c\<close>, in spite of
  the four roundings.
\<close>

lemma double_of_mono: "a \<le> b \<Longrightarrow> double_of a \<le> double_of b"
  unfolding double_of_def by (intro round_double_mono) (simp_all add: word_le_nat_alt del: of_nat_unat)

lemma double_of_pos: "0 < b \<Longrightarrow> 1 \<le> double_of b"
proof -
  assume "0 < b"
  then have "1 \<le> unat b" by (simp add: word_less_nat_alt)
  then have "round_double (of_nat 1) \<le> round_double (of_nat (unat b))"
    by (intro round_double_mono) (simp_all del: of_nat_unat)
  then show ?thesis using round_double_of_nat [of 1] by (simp add: double_of_def)
qed

lemma scaled_ge:
  assumes "0 < b" and "b \<le> a" and "unat c < 2 ^ 53"
    and "double_div (double_of a) (double_of b) = Some q"
    and "u64_of_double (double_mult q (double_of c)) = Some t"
  shows "c \<le> t"
proof -
  have b: "1 \<le> double_of b" using assms(1) by (rule double_of_pos)
  have c: "double_of c = of_nat (unat c)" using assms(3) by (simp add: double_of_def round_double_of_nat del: of_nat_unat)
  have "1 \<le> double_of a / double_of b" using b double_of_mono [OF assms(2)] by (simp add: field_simps)
  then have "round_double 1 \<le> q"
    using round_double_mono [of 1] assms(4) b by (auto simp: double_div_def)
  then have "1 \<le> q" using round_double_of_nat [of 1] by simp
  then have "round_double (of_nat (unat c)) \<le> double_mult q (double_of c)"
    unfolding double_mult_def c
    using mult_right_mono [of 1 q "of_nat (unat c)"]
    by (intro round_double_mono) (simp_all del: of_nat_unat)
  then have le: "of_nat (unat c) \<le> double_mult q (double_of c)"
    using round_double_of_nat [of "unat c"] assms(3) by (simp del: of_nat_unat)
  let ?x = "double_mult q (double_of c)"
  have x: "?x < 2 ^ 64" "t = of_int \<lfloor>?x\<rfloor>" using assms(5) by (auto simp: u64_of_double_def split: if_splits)
  have "int (unat c) \<le> \<lfloor>?x\<rfloor>" using le by (simp add: le_floor_iff)
  moreover have "\<lfloor>?x\<rfloor> < 2 ^ 64" using x(1) by (simp add: floor_less_iff)
  moreover have "0 \<le> int (unat c)" by simp
  ultimately have "take_bit 64 \<lfloor>?x\<rfloor> = \<lfloor>?x\<rfloor>" by (intro take_bit_int_eq_self) linarith+
  then have "unat t = nat \<lfloor>?x\<rfloor>" using x(2) by (simp add: unsigned_of_int)
  then show ?thesis using \<open>int (unat c) \<le> \<lfloor>?x\<rfloor>\<close> unfolding word_le_nat_alt by linarith
qed

text \<open>For numbers in the range of a clock and of a threshold the result is defined.\<close>

lemma round_double_pow2: "round_double (2 ^ (53 + k)) \<le> 2 ^ (53 + k)"
proof (induction k)
  case 0
  then show ?case using round_double_le [of "2 ^ 53"] by simp
next
  case (Suc k)
  have "(2 ^ 53 :: rat) \<le> 2 ^ (53 + Suc k)" by (rule power_increasing) simp_all
  moreover have "(2 ^ (53 + Suc k) :: rat) / 2 = 2 ^ (53 + k)"
    by (simp only: add_Suc_right power_Suc)
  ultimately have "round_double (2 ^ (53 + Suc k)) = 2 * round_double (2 ^ (53 + k))"
    by (subst round_double.simps) (simp only: if_True)
  moreover have "(2 ^ (53 + Suc k) :: rat) = 2 * 2 ^ (53 + k)" by (simp only: add_Suc_right power_Suc)
  ultimately show ?case using Suc by simp
qed

lemma scaled_defined:
  assumes "0 < b" and "unat a < 2 ^ 53" and "unat c < 2 ^ 53" and "unat a * unat c \<le> 2 ^ 63"
  shows "\<exists>q t. double_div (double_of a) (double_of b) = Some q \<and>
    u64_of_double (double_mult q (double_of c)) = Some t"
proof -
  have b: "1 \<le> double_of b" using assms(1) by (rule double_of_pos)
  have a: "double_of a = of_nat (unat a)" and c: "double_of c = of_nat (unat c)"
    using assms(2,3) by (simp_all add: double_of_def round_double_of_nat del: of_nat_unat)
  define q where "q = round_double (double_of a / double_of b)"
  have "double_of a / double_of b \<le> double_of a"
    using b divide_left_mono [of 1 "double_of b" "double_of a"] a by (simp del: of_nat_unat)
  then have "q \<le> round_double (double_of a)"
    unfolding q_def using a b by (intro round_double_mono) (simp_all del: of_nat_unat)
  also have "\<dots> = of_nat (unat a)" using a assms(2) by (simp add: round_double_of_nat del: of_nat_unat)
  finally have q: "q \<le> of_nat (unat a)" .
  have q0: "0 \<le> q" unfolding q_def using a b by (intro round_double_nonneg) (simp del: of_nat_unat)
  have "q * double_of c \<le> of_nat (unat a) * of_nat (unat c)"
    using q c by (intro mult_mono) (simp_all del: of_nat_unat)
  also have "\<dots> = of_nat (unat a * unat c)" by (simp del: of_nat_unat)
  also have "\<dots> \<le> (of_nat (2 ^ 63) :: rat)" using assms(4) by (simp only: of_nat_le_iff)
  finally have "double_mult q (double_of c) \<le> round_double (2 ^ 63)"
    unfolding double_mult_def using q0 c by (intro round_double_mono) (simp_all del: of_nat_unat)
  also have "\<dots> \<le> 2 ^ 63" using round_double_pow2 [of 10] by simp
  finally have "double_mult q (double_of c) < 2 ^ 64" by simp
  then show ?thesis using b by (auto simp: double_div_def u64_of_double_def q_def)
qed

end
