(* ===== verification/Page_Isolation.thy ===== *)
theory Page_Isolation
  imports Rbtree Isolation_Env Soft_Double
begin

text \<open>
  The page part of \<open>ras-page-isolation.c\<close>: corrected errors are counted per page, in records that the
  red-black tree indexes by address; a page that reaches the threshold within a refresh cycle is
  handed to the kernel to be taken offline. The static variables of the file are the fields of
  \<open>page_sys\<close>; what the kernel and the allocator answer during one event is a \<open>page_env\<close>.
\<close>

section \<open>The data\<close>

definition PAGE_MASK :: u64 where
  "PAGE_MASK = NOT (push_bit 12 1 - 1)"

record page_record =
  pr_addr :: u64
  pr_start :: time_t
  pr_offlined :: pstate
  pr_count :: u64
  pr_excess :: u64

text \<open>
  The node embedded in a record has the record's address. \<open>page_writes\<close> are the writes to the files
  of the kernel, the file and what is written.
\<close>

type_synonym writes = "(string \<times> string) list"

record page_sys =
  page_records :: rb_root
  pages :: "ptr \<Rightarrow> page_record option"
  offline_action :: otype
  threshold :: isolation
  cycle :: isolation
  page_writes :: writes

text \<open>
  \<open>kernel_answer\<close> is the result of the write to the file of an action, \<open>None\<close> when it cannot be
  opened; \<open>page_calloc\<close> is the address \<open>calloc\<close> returns.
\<close>

record page_env =
  kernel_answer :: "otype \<Rightarrow> u64 \<Rightarrow> int option"
  page_calloc :: "ptr option"

definition page_sys0 :: page_sys where
  "page_sys0 = \<lparr>page_records = \<lparr>rb_heap = Map.empty, rb_top = None\<rparr>, pages = Map.empty,
     offline_action = OFFLINE_SOFT, threshold = threshold0, cycle = cycle0, page_writes = []\<rparr>"

section \<open>Taking a page offline\<close>

text \<open>The buffer has 20 bytes.\<close>

definition do_page_offline :: "page_env \<Rightarrow> u64 \<Rightarrow> otype \<Rightarrow> writes \<Rightarrow> writes \<times> int" where
  "do_page_offline env addr type w =
     (case kernel_offline type of
        None \<Rightarrow> (w, - 1)
      | Some file \<Rightarrow>
          (case kernel_answer env type addr of
             None \<Rightarrow> (w, - 1)
           | Some rc \<Rightarrow> (w @ [(file, take 19 (fmt_alt_x addr))], rc)))"

text \<open>What \<open>page_offline\<close> and \<open>row_offline\<close> do to a page that is not offline yet.\<close>

definition silence_page :: "page_env \<Rightarrow> otype \<Rightarrow> u64 \<Rightarrow> writes \<Rightarrow> writes \<times> pstate" where
  "silence_page env action addr w =
     (let (w', ret) =
        (if action = OFFLINE_SOFT_THEN_HARD then
           (let (w1, ret1) = do_page_offline env addr OFFLINE_SOFT w
            in if ret1 < 0 then do_page_offline env addr OFFLINE_HARD w1 else (w1, ret1))
         else do_page_offline env addr action w)
      in (w', if ret < 0 then PAGE_OFFLINE_FAILED else PAGE_OFFLINE))"

definition page_offline :: "page_env \<Rightarrow> otype \<Rightarrow> page_record \<times> writes \<Rightarrow> page_record \<times> writes" where
  "page_offline env action x =
     (case x of (pr, w) \<Rightarrow>
        if action \<le> OFFLINE_ACCOUNT then (pr, w)
        else if pr_offlined pr = PAGE_OFFLINE then (pr, w)
        else (let (w', st) = silence_page env action (pr_addr pr) w
              in (pr\<lparr>pr_offlined := st\<rparr>, w')))"

section \<open>Counting\<close>

text \<open>The start of \<open>page_record\<close>, with its arithmetic in \<open>double\<close>.\<close>

definition page_tolerate :: "u64 \<Rightarrow> u64 \<Rightarrow> u64 \<Rightarrow> u64 option" where
  "page_tolerate period cyc thr =
     do { q \<leftarrow> double_div (double_of period) (double_of cyc);
          u64_of_double (double_mult q (double_of thr)) }"

definition page_refresh :: "u64 \<Rightarrow> u64 \<Rightarrow> time_t \<Rightarrow> page_record \<Rightarrow> page_record option" where
  "page_refresh cyc thr time pr =
     (let period = time - pr_start pr
      in if period \<ge> cyc then
           do { tolerate \<leftarrow> page_tolerate period cyc thr;
                Some (pr\<lparr>pr_count := pr_count pr - (if tolerate > pr_count pr then pr_count pr else tolerate),
                         pr_start := time, pr_excess := 0\<rparr>) }
         else Some pr)"

definition page_count ::
  "page_env \<Rightarrow> otype \<Rightarrow> u64 \<Rightarrow> u64 \<Rightarrow> u32 \<Rightarrow> time_t \<Rightarrow> page_record \<times> writes \<Rightarrow>
     (page_record \<times> writes) option" where
  "page_count env action cyc thr count time x =
     (case x of (pr, w) \<Rightarrow>
        do { pr1 \<leftarrow> page_refresh cyc thr time pr;
             let pr2 = pr1\<lparr>pr_count := pr_count pr1 + ucast count\<rparr>
             in if pr_count pr2 \<ge> thr
                then Some (page_offline env action
                       (pr2\<lparr>pr_excess := pr_excess pr2 + pr_count pr2, pr_count := 0\<rparr>, w))
                else Some (pr2, w) })"

section \<open>The index\<close>

text \<open>
  The search loop of \<open>page_lookup_insert\<close>: the record found, or the parent and the slot where the
  search ended.
\<close>

partial_function (option) page_find ::
  "u64 \<Rightarrow> page_sys \<Rightarrow> rb_slot \<Rightarrow> ptr option \<Rightarrow> (ptr + ptr option \<times> rb_slot) option" where
  "page_find addr s entry parent =
     do { cur \<leftarrow> read_slot entry (page_records s);
          (case cur of
             None \<Rightarrow> Some (Inr (parent, entry))
           | Some p \<Rightarrow>
               do { pr \<leftarrow> pages s p;
                    if addr = pr_addr pr then Some (Inl p)
                    else if addr < pr_addr pr then page_find addr s (Left_Slot p) (Some p)
                    else page_find addr s (Right_Slot p) (Some p) }) }"

declare page_find.simps [code]

definition zero_node :: rb_node where
  "zero_node = \<lparr>rb_parent = None, rb_color = RB_RED, rb_right = None, rb_left = None\<rparr>"

definition new_record :: "u64 \<Rightarrow> page_record" where
  "new_record addr = \<lparr>pr_addr = addr, pr_start = 0, pr_offlined = PAGE_ONLINE, pr_count = 0, pr_excess = 0\<rparr>"

definition page_lookup_insert ::
  "ptr option \<Rightarrow> u64 \<Rightarrow> page_sys \<Rightarrow> (page_sys \<times> ptr option) option" where
  "page_lookup_insert mem addr s =
     do { found \<leftarrow> page_find addr s Root_Slot None;
          (case found of
             Inl p \<Rightarrow> Some (s, Some p)
           | Inr (parent, entry) \<Rightarrow>
               (case mem of
                  None \<Rightarrow> Some (s, None)
                | Some p \<Rightarrow>
                    do { let t0 = (page_records s)\<lparr>rb_heap := (rb_heap (page_records s))(p \<mapsto> zero_node)\<rparr>;
                         t1 \<leftarrow> rb_link_node p parent entry t0;
                         t2 \<leftarrow> rb_insert_color p t1;
                         Some (s\<lparr>page_records := t2, pages := (pages s)(p \<mapsto> new_record addr)\<rparr>, Some p) })) }"

section \<open>The events\<close>

definition ras_record_page_error ::
  "page_env \<Rightarrow> u64 \<Rightarrow> u32 \<Rightarrow> time_t \<Rightarrow> page_sys \<Rightarrow> page_sys option" where
  "ras_record_page_error env addr count time s =
     (if offline_action s = OFFLINE_OFF then Some s
      else do {
        (s1, found) \<leftarrow> page_lookup_insert (page_calloc env) (addr AND PAGE_MASK) s;
        (case found of
           None \<Rightarrow> Some s1
         | Some p \<Rightarrow>
             do { pr \<leftarrow> pages s1 p;
                  let pr1 = (if pr_start pr = 0 then pr\<lparr>pr_start := time\<rparr> else pr);
                  (pr2, w) \<leftarrow> page_count env (offline_action s1) (iso_val (cycle s1))
                               (iso_val (threshold s1)) count time (pr1, page_writes s1);
                  Some (s1\<lparr>pages := (pages s1)(p \<mapsto> pr2), page_writes := w\<rparr>) }) })"

text \<open>The threshold is passed as an \<open>unsigned int\<close>.\<close>

definition ras_hw_threshold_pageoffline ::
  "page_env \<Rightarrow> u64 \<Rightarrow> time_t \<Rightarrow> page_sys \<Rightarrow> page_sys option" where
  "ras_hw_threshold_pageoffline env addr now s =
     ras_record_page_error env addr (ucast (iso_val (threshold s))) now s"

text \<open>\<open>ras_page_account_init\<close>.\<close>

definition page_isolation_init ::
  "(string \<Rightarrow> string option) \<Rightarrow> bool \<Rightarrow> bool \<Rightarrow> page_sys \<Rightarrow> page_sys option" where
  "page_isolation_init getenv erange no_unit0 s =
     (if offline_action s = OFFLINE_OFF then Some s
      else do { t \<leftarrow> parse_isolation_env getenv erange no_unit0 (threshold s);
                c \<leftarrow> parse_isolation_env getenv erange no_unit0 (cycle s);
                Some (s\<lparr>threshold := t, cycle := c\<rparr>) })"

definition ras_page_account_init ::
  "(string \<Rightarrow> string option) \<Rightarrow> (string \<Rightarrow> bool) \<Rightarrow> bool \<Rightarrow> bool \<Rightarrow> otype \<Rightarrow> page_sys \<Rightarrow>
     page_sys option" where
  "ras_page_account_init getenv writable erange no_unit0 row_action s =
     page_isolation_init getenv erange no_unit0
       (s\<lparr>offline_action := page_offline_init getenv writable row_action (offline_action s)\<rparr>)"

section \<open>The index as a map\<close>

text \<open>
  What the counting relies on, whatever the index is: a map from addresses to records, that looks an
  address up or adds a blank record for it at an address that is not in use.
\<close>

locale record_index =
  fixes rep :: "'s \<Rightarrow> ('k \<Rightarrow> 'r option) \<Rightarrow> bool"
    and unused :: "'s \<Rightarrow> ptr \<Rightarrow> bool"
    and find_or_add :: "ptr option \<Rightarrow> 'k \<Rightarrow> 's \<Rightarrow> ('s \<times> ptr option) option"
    and get :: "'s \<Rightarrow> ptr \<Rightarrow> 'r option"
    and put :: "'s \<Rightarrow> ptr \<Rightarrow> 'r \<Rightarrow> 's"
    and key :: "'r \<Rightarrow> 'k"
    and blank :: "'k \<Rightarrow> 'r"
  assumes found: "rep s m \<Longrightarrow> m a = Some r \<Longrightarrow>
      \<exists>p. find_or_add mem a s = Some (s, Some p) \<and> get s p = Some r"
    and added: "rep s m \<Longrightarrow> m a = None \<Longrightarrow> unused s p \<Longrightarrow>
      \<exists>s'. find_or_add (Some p) a s = Some (s', Some p) \<and> get s' p = Some (blank a) \<and>
        rep s' (m(a \<mapsto> blank a))"
    and no_memory: "rep s m \<Longrightarrow> m a = None \<Longrightarrow> find_or_add None a s = Some (s, None)"
    and stored: "rep s m \<Longrightarrow> get s p = Some r \<Longrightarrow> key r' = key r \<Longrightarrow> rep (put s p r') (m(key r \<mapsto> r'))"
    and key_blank: "key (blank a) = a"
    and key_found: "rep s m \<Longrightarrow> m a = Some r \<Longrightarrow> key r = a"
begin

definition current :: "('k \<Rightarrow> 'r option) \<Rightarrow> 'k \<Rightarrow> 'r" where
  "current m a = (case m a of None \<Rightarrow> blank a | Some r \<Rightarrow> r)"

lemma key_current: "rep s m \<Longrightarrow> key (current m a) = a"
  by (auto simp: current_def key_blank key_found split: option.split)

lemma upsert:
  assumes rep: "rep s m" and mem: "m a = None \<Longrightarrow> \<exists>p. mem = Some p \<and> unused s p"
  shows "\<exists>s' q. find_or_add mem a s = Some (s', Some q) \<and> get s' q = Some (current m a) \<and>
    (\<forall>r'. key r' = a \<longrightarrow> rep (put s' q r') (m(a \<mapsto> r')))"
proof (cases "m a")
  case None
  from mem [OF this] obtain p where p: "mem = Some p" "unused s p" by blast
  from added [OF rep None p(2)] obtain s' where s':
    "find_or_add (Some p) a s = Some (s', Some p)" "get s' p = Some (blank a)" "rep s' (m(a \<mapsto> blank a))"
    by blast
  have "rep (put s' p r') (m(a \<mapsto> r'))" if "key r' = a" for r'
    using stored [OF s'(3,2), of r'] that by (simp add: key_blank)
  then show ?thesis using s' None p by (auto simp: current_def)
next
  case (Some r)
  from found [OF rep Some] obtain q where q: "find_or_add mem a s = Some (s, Some q)"
    "get s q = Some r" by blast
  have "rep (put s q r') (m(a \<mapsto> r'))" if "key r' = a" for r'
    using stored [OF rep q(2), of r'] that key_found [OF rep Some] by simp
  then show ?thesis using q Some by (auto simp: current_def)
qed

end

definition addr_at :: "page_sys \<Rightarrow> ptr \<Rightarrow> u64" where
  "addr_at s p = pr_addr (the (pages s p))"

definition index_ok :: "page_sys \<Rightarrow> ptree \<Rightarrow> bool" where
  "index_ok s t \<longleftrightarrow> tree_rep (page_records s) t \<and> rb_ok t \<and>
     dom (rb_heap (page_records s)) = set (ptrs t) \<and> dom (pages s) = set (ptrs t) \<and>
     sorted_wrt (<) (map (addr_at s) (ptrs t))"

definition page_rep :: "page_sys \<Rightarrow> (u64 \<Rightarrow> page_record option) \<Rightarrow> bool" where
  "page_rep s m \<longleftrightarrow> (\<exists>t. index_ok s t) \<and>
     (\<forall>p r. pages s p = Some r \<longrightarrow> m (pr_addr r) = Some r) \<and>
     (\<forall>a r. m a = Some r \<longrightarrow> pr_addr r = a \<and> (\<exists>p. pages s p = Some r))"

lemma sorted_wrt_less_append:
  "sorted_wrt (<) (xs @ y # ys) \<longleftrightarrow> sorted_wrt (<) xs \<and> sorted_wrt (<) ys \<and>
     (\<forall>x \<in> set xs. x < y) \<and> (\<forall>x \<in> set ys. y < x)" for y :: "'a::linorder"
  by (auto simp: sorted_wrt_append) (meson less_trans)

text \<open>The search ends at the record or at the leaf where the address belongs.\<close>

lemma page_find_at:
  assumes "at_pos (page_records s) fs t" and "set (ptrs t) \<subseteq> dom (pages s)"
    and "sorted_wrt (<) (map (addr_at s) (ptrs t))"
    and "\<forall>p \<in> set (frames_before fs). addr_at s p < a" and "\<forall>p \<in> set (frames_after fs). a < addr_at s p"
  shows "(\<exists>p \<in> set (ptrs t). addr_at s p = a \<and> page_find a s (slot_of fs) (above fs) = Some (Inl p)) \<or>
    (a \<notin> addr_at s ` set (ptrs t) \<and>
     (\<exists>fs'. page_find a s (slot_of fs) (above fs) = Some (Inr (above fs', slot_of fs')) \<and>
        plug fs' PLeaf = plug fs t \<and> (\<forall>p \<in> set (frames_before fs'). addr_at s p < a) \<and>
        (\<forall>p \<in> set (frames_after fs'). a < addr_at s p)))"
  using assms
proof (induction t arbitrary: fs)
  case PLeaf
  then have "read_slot (slot_of fs) (page_records s) = Some None"
    by (cases fs rule: slot_of.cases) (auto simp: at_pos_def)
  then have "page_find a s (slot_of fs) (above fs) = Some (Inr (above fs, slot_of fs))"
    by (simp add: page_find.simps)
  then show ?case using PLeaf by auto
next
  case (PNode c l p r)
  have "read_slot (slot_of fs) (page_records s) = Some (Some p)"
    using PNode.prems(1) by (cases fs rule: slot_of.cases) (auto simp: at_pos_def)
  moreover obtain pr where pr: "pages s p = Some pr" using PNode.prems(2) by auto
  moreover from pr have ap: "pr_addr pr = addr_at s p" by (simp add: addr_at_def)
  ultimately have step: "page_find a s (slot_of fs) (above fs) =
      (if a = addr_at s p then Some (Inl p)
       else if a < addr_at s p then page_find a s (Left_Slot p) (Some p)
       else page_find a s (Right_Slot p) (Some p))"
    by (subst page_find.simps) simp
  have sorted: "sorted_wrt (<) (map (addr_at s) (ptrs l))" "sorted_wrt (<) (map (addr_at s) (ptrs r))"
    "\<forall>q \<in> set (ptrs l). addr_at s q < addr_at s p" "\<forall>q \<in> set (ptrs r). addr_at s p < addr_at s q"
    using PNode.prems(3) by (auto simp: sorted_wrt_less_append)
  consider "a = addr_at s p" | "a < addr_at s p" | "addr_at s p < a" by fastforce
  then show ?case
  proof cases
    case 1
    then show ?thesis using step by auto
  next
    case 2
    have "at_pos (page_records s) (LeftOf c p r # fs) l" using PNode.prems(1) by (simp add: at_pos_step)
    from PNode.IH(1) [OF this] have "(\<exists>q \<in> set (ptrs l). addr_at s q = a \<and>
          page_find a s (Left_Slot p) (Some p) = Some (Inl q)) \<or>
        (a \<notin> addr_at s ` set (ptrs l) \<and>
         (\<exists>fs'. page_find a s (Left_Slot p) (Some p) = Some (Inr (above fs', slot_of fs')) \<and>
            plug fs' PLeaf = plug fs (PNode c l p r) \<and> (\<forall>q \<in> set (frames_before fs'). addr_at s q < a) \<and>
            (\<forall>q \<in> set (frames_after fs'). a < addr_at s q)))"
      using PNode.prems 2 sorted by force
    moreover have "a \<notin> addr_at s ` set (ptrs r)" using 2 sorted(4) by fastforce
    ultimately show ?thesis using step 2 by auto
  next
    case 3
    have "at_pos (page_records s) (RightOf c p l # fs) r" using PNode.prems(1) by (simp add: at_pos_step)
    from PNode.IH(2) [OF this] have "(\<exists>q \<in> set (ptrs r). addr_at s q = a \<and>
          page_find a s (Right_Slot p) (Some p) = Some (Inl q)) \<or>
        (a \<notin> addr_at s ` set (ptrs r) \<and>
         (\<exists>fs'. page_find a s (Right_Slot p) (Some p) = Some (Inr (above fs', slot_of fs')) \<and>
            plug fs' PLeaf = plug fs (PNode c l p r) \<and> (\<forall>q \<in> set (frames_before fs'). addr_at s q < a) \<and>
            (\<forall>q \<in> set (frames_after fs'). a < addr_at s q)))"
      using PNode.prems 3 sorted by force
    moreover have "a \<notin> addr_at s ` set (ptrs l)" using 3 sorted(3) by fastforce
    ultimately show ?thesis using step 3 by auto
  qed
qed

lemma page_find_root:
  assumes "index_ok s t"
  shows "(\<exists>p \<in> set (ptrs t). addr_at s p = a \<and> page_find a s Root_Slot None = Some (Inl p)) \<or>
    (a \<notin> addr_at s ` set (ptrs t) \<and>
     (\<exists>fs. page_find a s Root_Slot None = Some (Inr (above fs, slot_of fs)) \<and>
        plug fs PLeaf = t \<and> (\<forall>p \<in> set (frames_before fs). addr_at s p < a) \<and>
        (\<forall>p \<in> set (frames_after fs). a < addr_at s p)))"
  using assms page_find_at [of s "[]" t a] by (auto simp: index_ok_def tree_rep_def)

lemma tree_rep_extend:
  "tree_rep s t \<Longrightarrow> p \<notin> set (ptrs t) \<Longrightarrow> tree_rep (s\<lparr>rb_heap := (rb_heap s)(p := v)\<rparr>) t"
  by (simp add: tree_rep_def at_pos_def heap_simps)

text \<open>A new record keeps the tree ordered by address and red-black.\<close>

lemma page_insert_ok:
  assumes ok: "index_ok s t" and a: "a \<notin> addr_at s ` set (ptrs t)" and p: "p \<notin> dom (pages s)"
  shows "\<exists>rt t'. page_lookup_insert (Some p) a s =
      Some (s\<lparr>page_records := rt, pages := (pages s)(p \<mapsto> new_record a)\<rparr>, Some p) \<and>
    index_ok (s\<lparr>page_records := rt, pages := (pages s)(p \<mapsto> new_record a)\<rparr>) t'"
proof -
  from page_find_root [OF ok, of a] a obtain fs
    where find: "page_find a s Root_Slot None = Some (Inr (above fs, slot_of fs))"
    and t: "plug fs PLeaf = t"
    and before: "\<forall>q \<in> set (frames_before fs). addr_at s q < a"
    and after: "\<forall>q \<in> set (frames_after fs). a < addr_at s q" by auto
  let ?t0 = "(page_records s)\<lparr>rb_heap := (rb_heap (page_records s))(p \<mapsto> zero_node)\<rparr>"
  have p': "p \<notin> set (ptrs t)" using ok p by (simp add: index_ok_def)
  have rep0: "tree_rep ?t0 (plug fs PLeaf)" using ok p' t by (simp add: tree_rep_extend index_ok_def)
  have ok0: "rb_ok (plug fs PLeaf)" using ok t by (simp add: index_ok_def)
  have n0: "rb_heap ?t0 p \<noteq> None" "p \<notin> set (ptrs (plug fs PLeaf))" using p' t by simp_all
  from rb_insert_at [OF rep0 ok0 n0] obtain t1 t2 u where
    ins: "rb_link_node p (above fs) (slot_of fs) ?t0 = Some t1" "rb_insert_color p t1 = Some t2"
    and rep: "tree_rep t2 u" and rb: "rb_ok u" and order: "ptrs u = frames_before fs @ p # frames_after fs"
    and dom: "dom (rb_heap t2) = dom (rb_heap ?t0)" by blast
  let ?s' = "s\<lparr>page_records := t2, pages := (pages s)(p \<mapsto> new_record a)\<rparr>"
  have "ptrs t = frames_before fs @ frames_after fs" using t ptrs_plug [of fs PLeaf] by simp
  then have pts: "set (ptrs u) = insert p (set (ptrs t))"
    and sorted: "sorted_wrt (<) (map (addr_at s) (frames_before fs @ frames_after fs))"
    and notin: "p \<notin> set (frames_before fs)" "p \<notin> set (frames_after fs)"
    using order ok p' by (auto simp: index_ok_def)
  have same: "map (addr_at ?s') xs = map (addr_at s) xs" if "p \<notin> set xs" for xs
    using that by (auto simp: addr_at_def)
  have "map (addr_at ?s') (ptrs u) =
      map (addr_at s) (frames_before fs) @ a # map (addr_at s) (frames_after fs)"
    using order notin same by (simp add: addr_at_def new_record_def)
  then have "sorted_wrt (<) (map (addr_at ?s') (ptrs u))"
    using sorted before after by (auto simp: sorted_wrt_less_append sorted_wrt_append)
  moreover have "dom (rb_heap t2) = set (ptrs u)" using dom ok pts by (simp add: index_ok_def)
  ultimately have "index_ok ?s' u" using rep rb ok pts by (simp add: index_ok_def)
  moreover have "page_lookup_insert (Some p) a s = Some (?s', Some p)"
    using find ins by (simp add: page_lookup_insert_def)
  ultimately show ?thesis by blast
qed

lemma page_rep_addr: "page_rep s m \<Longrightarrow> index_ok s t \<Longrightarrow> a \<in> addr_at s ` set (ptrs t) \<longleftrightarrow> m a \<noteq> None"
proof -
  assume rep: "page_rep s m" and "index_ok s t"
  then have d: "dom (pages s) = set (ptrs t)" by (simp add: index_ok_def)
  show ?thesis
  proof
    assume "a \<in> addr_at s ` set (ptrs t)"
    then obtain p where "p \<in> dom (pages s)" "a = addr_at s p" using d by auto
    then obtain r where "pages s p = Some r" "a = pr_addr r" by (auto simp: addr_at_def)
    then show "m a \<noteq> None" using rep by (simp add: page_rep_def)
  next
    assume "m a \<noteq> None"
    then obtain r where "m a = Some r" by blast
    then obtain p where "pages s p = Some r" "pr_addr r = a" using rep unfolding page_rep_def by blast
    then show "a \<in> addr_at s ` set (ptrs t)" using d by (force simp: addr_at_def)
  qed
qed

lemma page_rep_unique:
  assumes "page_rep s m" and "pages s p = Some r" and "pages s q = Some r'" and "pr_addr r = pr_addr r'"
  shows "p = q"
proof -
  obtain t where t: "index_ok s t" using assms(1) by (auto simp: page_rep_def)
  then have "p \<in> set (ptrs t)" "q \<in> set (ptrs t)" using assms(2,3) by (auto simp: index_ok_def)
  moreover have "distinct (map (addr_at s) (ptrs t))"
    using t by (simp add: index_ok_def strict_sorted_iff)
  then have "inj_on (addr_at s) (set (ptrs t))" by (simp add: distinct_map)
  ultimately show ?thesis using assms by (auto simp: addr_at_def inj_on_def)
qed

definition put_page :: "page_sys \<Rightarrow> ptr \<Rightarrow> page_record \<Rightarrow> page_sys" where
  "put_page s p r = s\<lparr>pages := (pages s)(p \<mapsto> r)\<rparr>"

lemma page_rep_get: "page_rep s m \<Longrightarrow> m a = Some r \<Longrightarrow> pr_addr r = a \<and> (\<exists>p. pages s p = Some r)"
  unfolding page_rep_def by blast

lemma page_rep_put: "page_rep s m \<Longrightarrow> pages s p = Some r \<Longrightarrow> m (pr_addr r) = Some r"
  unfolding page_rep_def by blast

lemma page_rep_other: "index_ok (s\<lparr>page_writes := w\<rparr>) t \<longleftrightarrow> index_ok s t"
  unfolding index_ok_def addr_at_def by simp

lemma page_rep_writes: "page_rep (s\<lparr>page_writes := w\<rparr>) m \<longleftrightarrow> page_rep s m"
  unfolding page_rep_def page_rep_other by simp

lemma index_ok_put:
  assumes "index_ok s t" and "pages s p = Some r" and "pr_addr r' = pr_addr r"
  shows "index_ok (put_page s p r') t"
proof -
  have "addr_at (put_page s p r') = addr_at s"
    using assms(2,3) by (auto simp: addr_at_def put_page_def)
  then show ?thesis using assms by (auto simp: index_ok_def put_page_def)
qed

interpretation pg: record_index page_rep "\<lambda>s p. p \<notin> dom (pages s)" page_lookup_insert pages put_page
  pr_addr new_record
proof unfold_locales
  fix s m a r mem
  assume rep: "page_rep s m" and m: "m a = Some r"
  then obtain t where t: "index_ok s t" by (auto simp: page_rep_def)
  from page_rep_addr [OF rep t, of a] m page_find_root [OF t, of a]
  obtain p where p: "p \<in> set (ptrs t)" "addr_at s p = a" "page_find a s Root_Slot None = Some (Inl p)"
    by auto
  then obtain r' where r': "pages s p = Some r'" using t by (auto simp: index_ok_def)
  then have "r' = r" using rep m p by (auto simp: page_rep_def addr_at_def)
  then show "\<exists>p. page_lookup_insert mem a s = Some (s, Some p) \<and> pages s p = Some r"
    using p r' by (auto simp: page_lookup_insert_def)
next
  fix s m a p
  assume rep: "page_rep s m" and m: "m a = None" and p: "p \<notin> dom (pages s)"
  then obtain t where t: "index_ok s t" by (auto simp: page_rep_def)
  have "a \<notin> addr_at s ` set (ptrs t)" using page_rep_addr [OF rep t, of a] m by simp
  from page_insert_ok [OF t this p] obtain rt t' where
    ins: "page_lookup_insert (Some p) a s =
      Some (s\<lparr>page_records := rt, pages := (pages s)(p \<mapsto> new_record a)\<rparr>, Some p)"
    and ok: "index_ok (s\<lparr>page_records := rt, pages := (pages s)(p \<mapsto> new_record a)\<rparr>) t'" by blast
  have a: "pr_addr r \<noteq> a" if "pages s q = Some r" for q r
    using rep m that by (auto simp: page_rep_def)
  have "page_rep (s\<lparr>page_records := rt, pages := (pages s)(p \<mapsto> new_record a)\<rparr>) (m(a \<mapsto> new_record a))"
    unfolding page_rep_def
  proof (intro conjI allI impI)
    show "\<exists>t. index_ok (s\<lparr>page_records := rt, pages := (pages s)(p \<mapsto> new_record a)\<rparr>) t"
      using ok by blast
  next
    fix q r
    assume "pages (s\<lparr>page_records := rt, pages := (pages s)(p \<mapsto> new_record a)\<rparr>) q = Some r"
    then show "(m(a \<mapsto> new_record a)) (pr_addr r) = Some r"
      using rep a by (auto simp: page_rep_def new_record_def split: if_splits)
  next
    fix b r
    assume b: "(m(a \<mapsto> new_record a)) b = Some r"
    then show "pr_addr r = b"
      using rep by (auto simp: page_rep_def new_record_def split: if_splits)
    show "\<exists>q. pages (s\<lparr>page_records := rt, pages := (pages s)(p \<mapsto> new_record a)\<rparr>) q = Some r"
    proof (cases "b = a")
      case True
      then show ?thesis using b by auto
    next
      case False
      then obtain q where "pages s q = Some r" using b page_rep_get [OF rep] by fastforce
      moreover from this have "q \<noteq> p" using p by auto
      ultimately show ?thesis by auto
    qed
  qed
  then show "\<exists>s'. page_lookup_insert (Some p) a s = Some (s', Some p) \<and>
      pages s' p = Some (new_record a) \<and> page_rep s' (m(a \<mapsto> new_record a))"
    using ins by auto
next
  fix s m a
  assume rep: "page_rep s m" and m: "m a = None"
  then obtain t where t: "index_ok s t" by (auto simp: page_rep_def)
  then show "page_lookup_insert None a s = Some (s, None)"
    using page_find_root [OF t, of a] page_rep_addr [OF rep t, of a] m
    by (auto simp: page_lookup_insert_def)
next
  fix s m p r and r' :: page_record
  assume rep: "page_rep s m" and r: "pages s p = Some r" and key: "pr_addr r' = pr_addr r"
  from rep obtain t where "index_ok s t" by (auto simp: page_rep_def)
  then have ok: "index_ok (put_page s p r') t" using r key by (rule index_ok_put)
  have other: "pr_addr x \<noteq> pr_addr r" if "pages s q = Some x" "q \<noteq> p" for q x
    using page_rep_unique [OF rep r that(1)] that(2) by auto
  show "page_rep (put_page s p r') (m(pr_addr r \<mapsto> r'))"
    unfolding page_rep_def
  proof (intro conjI allI impI)
    show "\<exists>t. index_ok (put_page s p r') t" using ok by blast
  next
    fix q x
    assume "pages (put_page s p r') q = Some x"
    then show "(m(pr_addr r \<mapsto> r')) (pr_addr x) = Some x"
      using rep key other by (auto simp: put_page_def page_rep_def split: if_splits)
  next
    fix b x
    assume b: "(m(pr_addr r \<mapsto> r')) b = Some x"
    then show "pr_addr x = b" using rep key by (auto simp: page_rep_def split: if_splits)
    show "\<exists>q. pages (put_page s p r') q = Some x"
    proof (cases "b = pr_addr r")
      case True
      then show ?thesis using b by (auto simp: put_page_def)
    next
      case False
      then obtain q where "pages s q = Some x" "pr_addr x = b" using b page_rep_get [OF rep] by fastforce
      moreover from this have "q \<noteq> p" using False r by auto
      ultimately show ?thesis by (auto simp: put_page_def)
    qed
  qed
next
  show "pr_addr (new_record a) = a" for a by (simp add: new_record_def)
next
  show "page_rep s m \<Longrightarrow> m a = Some r \<Longrightarrow> pr_addr r = a" for s m a r by (simp add: page_rep_def)
qed

lemma page_lookup_insert_frame:
  assumes "page_lookup_insert mem a s = Some (s', q)"
  shows "offline_action s' = offline_action s \<and> threshold s' = threshold s \<and> cycle s' = cycle s \<and>
    page_writes s' = page_writes s"
  using assms
  by (auto simp: page_lookup_insert_def Let_def split: bind_splits sum.splits option.splits)

lemma page_refresh_addr: "page_refresh cyc thr time pr = Some pr' \<Longrightarrow> pr_addr pr' = pr_addr pr"
  by (auto simp: page_refresh_def Let_def split: if_splits bind_splits)

lemma page_offline_addr:
  "page_offline env action (pr, w) = (pr', w') \<Longrightarrow> pr_addr pr' = pr_addr pr"
  by (auto simp: page_offline_def split: prod.splits if_splits)

lemma page_count_addr:
  assumes "page_count env action cyc thr count time (pr, w) = Some (pr', w')"
  shows "pr_addr pr' = pr_addr pr"
proof -
  obtain pr1 where pr1: "page_refresh cyc thr time pr = Some pr1"
    using assms by (auto simp: page_count_def split: bind_splits)
  then have "pr_addr pr' = pr_addr pr1"
    using assms by (auto simp: page_count_def Let_def dest: page_offline_addr split: if_splits)
  then show ?thesis using page_refresh_addr [OF pr1] by simp
qed

text \<open>The record of a page, and the time its first cycle starts.\<close>

definition started :: "time_t \<Rightarrow> page_record \<Rightarrow> page_record" where
  "started time pr = (if pr_start pr = 0 then pr\<lparr>pr_start := time\<rparr> else pr)"

lemma started_addr [simp]: "pr_addr (started time pr) = pr_addr pr"
  by (simp add: started_def)

text \<open>The fields that an event does not change.\<close>

definition same_policy :: "page_sys \<Rightarrow> page_sys \<Rightarrow> bool" where
  "same_policy s s' \<longleftrightarrow>
     offline_action s' = offline_action s \<and> cycle s' = cycle s \<and> threshold s' = threshold s"

abbreviation count_page ::
  "page_sys \<Rightarrow> page_env \<Rightarrow> u32 \<Rightarrow> time_t \<Rightarrow> page_record \<Rightarrow> (page_record \<times> writes) option" where
  "count_page s env count time pr \<equiv>
     page_count env (offline_action s) (iso_val (cycle s)) (iso_val (threshold s)) count time
       (pr, page_writes s)"

lemma record_page_error_eq:
  assumes "page_rep s m" and "offline_action s \<noteq> OFFLINE_OFF" and a: "a = addr AND PAGE_MASK"
    and "m a = None \<Longrightarrow> \<exists>p. page_calloc env = Some p \<and> p \<notin> dom (pages s)"
  shows "\<exists>s1 q. ras_record_page_error env addr count time s =
      map_option (\<lambda>(pr', w'). (put_page s1 q pr')\<lparr>page_writes := w'\<rparr>)
        (count_page s env count time (started time (pg.current m a))) \<and>
    (\<forall>pr'. pr_addr pr' = a \<longrightarrow> page_rep (put_page s1 q pr') (m(a \<mapsto> pr'))) \<and> same_policy s s1"
proof -
  from pg.upsert [OF assms(1), of a "page_calloc env"] assms(4) obtain s1 q where
    s1: "page_lookup_insert (page_calloc env) a s = Some (s1, Some q)"
    and q: "pages s1 q = Some (pg.current m a)"
    and rep: "\<forall>pr'. pr_addr pr' = a \<longrightarrow> page_rep (put_page s1 q pr') (m(a \<mapsto> pr'))" by blast
  have frame: "offline_action s1 = offline_action s" "threshold s1 = threshold s" "cycle s1 = cycle s"
    "page_writes s1 = page_writes s" using page_lookup_insert_frame [OF s1] by auto
  have "ras_record_page_error env addr count time s =
      map_option (\<lambda>(pr', w'). (put_page s1 q pr')\<lparr>page_writes := w'\<rparr>)
        (count_page s env count time (started time (pg.current m a)))"
    using assms(2) s1 q frame a
    by (cases "count_page s env count time (started time (pg.current m a))")
      (auto simp: ras_record_page_error_def put_page_def started_def Let_def)
  then show ?thesis using rep frame unfolding same_policy_def by metis
qed

lemma record_page_error_step:
  assumes "page_rep s m" and "offline_action s \<noteq> OFFLINE_OFF" and a: "a = addr AND PAGE_MASK"
    and "m a = None \<Longrightarrow> \<exists>p. page_calloc env = Some p \<and> p \<notin> dom (pages s)"
    and count: "count_page s env count time (started time (pg.current m a)) = Some (pr', w')"
  shows "\<exists>s'. ras_record_page_error env addr count time s = Some s' \<and> page_rep s' (m(a \<mapsto> pr')) \<and>
    page_writes s' = w' \<and> same_policy s s'"
proof -
  have "pr_addr pr' = a"
    using page_count_addr [OF count] pg.key_current [OF assms(1), of a] by simp
  then show ?thesis
    using record_page_error_eq [OF assms(1-4), of count time] count
    by (fastforce simp: page_rep_writes same_policy_def put_page_def)
qed

text \<open>
  C5: the handler of a corrected error does to the map from pages to records what counting does to the
  one record of the page, and keeps the records in a red-black tree ordered by address.
\<close>

theorem ras_record_page_error_refines:
  assumes "page_rep s m" and "page_calloc env = Some p" and "pages s p = None"
    and "offline_action s \<noteq> OFFLINE_OFF" and "a = addr AND PAGE_MASK"
    and "count_page s env count time
           (started time (case m a of None \<Rightarrow> new_record a | Some r \<Rightarrow> r)) = Some (pr', w')"
  shows "\<exists>s'. ras_record_page_error env addr count time s = Some s' \<and> page_rep s' (m(a \<mapsto> pr')) \<and>
    page_writes s' = w' \<and> same_policy s s'"
proof (rule record_page_error_step [OF assms(1,4,5)])
  show "\<exists>p. page_calloc env = Some p \<and> p \<notin> dom (pages s)" using assms(2,3) by auto
  show "count_page s env count time (started time (pg.current m a)) = Some (pr', w')"
    using assms(6) by (simp add: pg.current_def)
qed

section \<open>Counting without floating point\<close>

text \<open>
  What counting amounts to: after a refresh cycle the counter starts again from zero. The tolerated
  number is at least the threshold, so more than the counter can hold.
\<close>

definition new_cycle :: "u64 \<Rightarrow> time_t \<Rightarrow> page_record \<Rightarrow> page_record" where
  "new_cycle cyc time pr =
     (if time - pr_start pr \<ge> cyc then pr\<lparr>pr_count := 0, pr_start := time, pr_excess := 0\<rparr> else pr)"

definition count_spec ::
  "page_env \<Rightarrow> otype \<Rightarrow> u64 \<Rightarrow> u64 \<Rightarrow> u32 \<Rightarrow> time_t \<Rightarrow> page_record \<times> writes \<Rightarrow> page_record \<times> writes" where
  "count_spec env action cyc thr count time x =
     (let pr = new_cycle cyc time (fst x); total_count = pr_count pr + ucast count
      in if total_count \<ge> thr
         then page_offline env action (pr\<lparr>pr_excess := pr_excess pr + total_count, pr_count := 0\<rparr>, snd x)
         else (pr\<lparr>pr_count := total_count\<rparr>, snd x))"

lemma page_refresh_spec:
  assumes "0 < cyc" and "unat thr < 2 ^ 53" and "pr_count pr < thr"
    and "page_refresh cyc thr time pr = Some pr'"
  shows "pr' = new_cycle cyc time pr"
proof (cases "time - pr_start pr \<ge> cyc")
  case True
  then obtain q t where qt: "double_div (double_of (time - pr_start pr)) (double_of cyc) = Some q"
    "u64_of_double (double_mult q (double_of thr)) = Some t"
    and pr': "pr' = pr\<lparr>pr_count := pr_count pr - (if t > pr_count pr then pr_count pr else t),
      pr_start := time, pr_excess := 0\<rparr>"
    using assms(4) by (auto simp: page_refresh_def page_tolerate_def Let_def split: bind_splits)
  have "thr \<le> t" using scaled_ge [OF assms(1) True assms(2) qt] .
  then have "pr_count pr < t" using assms(3) by simp
  then show ?thesis using pr' True by (simp add: new_cycle_def)
next
  case False
  then show ?thesis using assms(4) by (simp add: page_refresh_def new_cycle_def)
qed

lemma page_count_spec:
  assumes "0 < cyc" and "unat thr < 2 ^ 53" and "pr_count pr < thr"
    and "page_count env action cyc thr count time (pr, w) = Some y"
  shows "y = count_spec env action cyc thr count time (pr, w)"
proof -
  obtain pr1 where pr1: "page_refresh cyc thr time pr = Some pr1"
    using assms(4) by (auto simp: page_count_def split: bind_splits)
  have "pr1 = new_cycle cyc time pr" using page_refresh_spec [OF assms(1-3) pr1] .
  then show ?thesis using assms(4) pr1 by (auto simp: page_count_def count_spec_def Let_def split: if_splits)
qed

lemma page_count_defined:
  assumes "0 < cyc" and "unat thr < 2 ^ 53"
    and "unat (time - pr_start pr) < 2 ^ 53" and "unat (time - pr_start pr) * unat thr \<le> 2 ^ 63"
  shows "page_count env action cyc thr count time (pr, w) \<noteq> None"
proof -
  have "page_tolerate (time - pr_start pr) cyc thr \<noteq> None"
    using scaled_defined [OF assms(1,3,2,4)] by (auto simp: page_tolerate_def)
  then show ?thesis by (auto simp: page_count_def page_refresh_def Let_def)
qed

text \<open>
  C6: counting is defined for every sane clock and threshold and, in spite of its floating point, is
  exact: a counter below the threshold starts again from zero when its refresh cycle is over, the new
  errors are added, and the page is handed to the kernel when the sum reaches the threshold.
\<close>

theorem page_count_exact:
  assumes "0 < cyc" and "unat thr < 2 ^ 53" and "pr_count pr < thr"
    and "unat (time - pr_start pr) < 2 ^ 53" and "unat (time - pr_start pr) * unat thr \<le> 2 ^ 63"
  shows "page_count env action cyc thr count time (pr, w) =
    Some (count_spec env action cyc thr count time (pr, w))"
proof -
  obtain y where "page_count env action cyc thr count time (pr, w) = Some y"
    using page_count_defined [OF assms(1,2,4,5)] by blast
  then show ?thesis using page_count_spec [OF assms(1-3)] by simp
qed

text \<open>Two more errors a day later, at a cycle of 1440 and a threshold of 3.\<close>

theorem page_count_exact_witness:
  "\<exists>pr. page_count \<lparr>kernel_answer = (\<lambda>_ _. None), page_calloc = None\<rparr> OFFLINE_SOFT 1440 3 2 86501
       (\<lparr>pr_addr = 4096, pr_start = 100, pr_offlined = PAGE_ONLINE, pr_count = 2, pr_excess = 0\<rparr>, []) =
     Some (pr, []) \<and> pr_count pr = 2 \<and> pr_start pr = 86501"
  using page_count_exact [of 1440 3
      "\<lparr>pr_addr = 4096, pr_start = 100, pr_offlined = PAGE_ONLINE, pr_count = 2, pr_excess = 0\<rparr>" 86501
      "\<lparr>kernel_answer = (\<lambda>_ _. None), page_calloc = None\<rparr>" OFFLINE_SOFT 2 "[]"]
  by (simp add: count_spec_def new_cycle_def Let_def)

section \<open>What is written to the kernel\<close>

text \<open>The attempts that one call makes, given what the kernel answers.\<close>

definition attempts :: "page_env \<Rightarrow> otype \<Rightarrow> u64 \<Rightarrow> otype list" where
  "attempts env action addr =
     filter (\<lambda>t. kernel_answer env t addr \<noteq> None)
       (if action = OFFLINE_SOFT_THEN_HARD
        then (case kernel_answer env OFFLINE_SOFT addr of
                None \<Rightarrow> [OFFLINE_SOFT, OFFLINE_HARD]
              | Some rc \<Rightarrow> if rc < 0 then [OFFLINE_SOFT, OFFLINE_HARD] else [OFFLINE_SOFT])
        else [action])"

definition write_of :: "u64 \<Rightarrow> otype \<Rightarrow> string \<times> string" where
  "write_of addr t = (the (kernel_offline t), fmt_alt_x addr)"

lemma length_fmt_alt_x: "length (fmt_alt_x (a :: u64)) \<le> 18"
proof -
  have "length (to_base 16 (unat a)) \<le> Suc 15" by (rule length_to_base) simp_all
  then show ?thesis by (simp add: fmt_alt_x_def fmt_x_def)
qed

lemma take_fmt_alt_x [simp]: "take 19 (fmt_alt_x (a :: u64)) = fmt_alt_x a"
  using length_fmt_alt_x [of a] by simp

lemma do_page_offline_eq:
  "kernel_offline t \<noteq> None \<Longrightarrow> do_page_offline env a t w =
     (case kernel_answer env t a of None \<Rightarrow> (w, - 1) | Some rc \<Rightarrow> (w @ [write_of a t], rc))"
  by (auto simp: do_page_offline_def write_of_def split: option.split)

lemma silence_page_attempts:
  assumes "OFFLINE_ACCOUNT < action"
  shows "fst (silence_page env action a w) = w @ map (write_of a) (attempts env action a)"
  using assms
  by (auto simp: silence_page_def attempts_def do_page_offline_eq Let_def split: option.split prod.split)

lemma page_offline_attempts:
  "snd (page_offline env action (pr, w)) =
     (if OFFLINE_ACCOUNT < action \<and> pr_offlined pr \<noteq> PAGE_OFFLINE
      then w @ map (write_of (pr_addr pr)) (attempts env action (pr_addr pr)) else w)"
  using silence_page_attempts [of action env "pr_addr pr" w]
  by (auto simp: page_offline_def not_le [symmetric] split: prod.split)

lemma page_refresh_offlined: "page_refresh cyc thr time pr = Some pr' \<Longrightarrow> pr_offlined pr' = pr_offlined pr"
  by (auto simp: page_refresh_def Let_def split: if_splits bind_splits)

lemma page_count_writes:
  assumes "page_count env action cyc thr count time (pr, w) = Some (pr', w')"
  shows "w' = w \<or>
    (OFFLINE_ACCOUNT < action \<and> pr_offlined pr \<noteq> PAGE_OFFLINE \<and>
     w' = w @ map (write_of (pr_addr pr)) (attempts env action (pr_addr pr)))"
proof -
  obtain pr1 where pr1: "page_refresh cyc thr time pr = Some pr1"
    using assms by (auto simp: page_count_def split: bind_splits)
  let ?pr2 = "pr1\<lparr>pr_excess := pr_excess pr1 + (pr_count pr1 + ucast count), pr_count := 0\<rparr>"
  consider "w' = w" | "w' = snd (page_offline env action (?pr2, w))"
    using assms pr1 by (auto simp: page_count_def Let_def split: if_splits) 
  then show ?thesis
    using page_offline_attempts [of env action ?pr2 w] page_refresh_offlined [OF pr1]
      page_refresh_addr [OF pr1]
    by cases (auto split: if_splits)
qed

section \<open>All runs\<close>

text \<open>The states the program can be in: after the initialisation, and after any number of events.\<close>

inductive page_reach :: "page_sys \<Rightarrow> bool" where
  start: "ras_page_account_init getenv writable erange no_unit0 row_action page_sys0 = Some s \<Longrightarrow> page_reach s"
| event: "page_reach s \<Longrightarrow> \<forall>p. page_calloc env = Some p \<longrightarrow> pages s p = None \<Longrightarrow>
    ras_record_page_error env addr count time s = Some s' \<Longrightarrow> page_reach s'"

text \<open>
  The invariant: page-aligned records below the threshold, every page that is marked offline was handed
  to the kernel, and everything written is the address of a page to one of the two files.
\<close>

definition record_ok :: "page_sys \<Rightarrow> page_record \<Rightarrow> bool" where
  "record_ok s r \<longleftrightarrow> pr_addr r AND PAGE_MASK = pr_addr r \<and>
     (0 < iso_val (threshold s) \<longrightarrow> pr_count r < iso_val (threshold s)) \<and>
     (pr_offlined r = PAGE_OFFLINE \<longrightarrow>
        (\<exists>t \<in> {OFFLINE_SOFT, OFFLINE_HARD}. write_of (pr_addr r) t \<in> set (page_writes s)))"

definition writes_ok :: "otype \<Rightarrow> writes \<Rightarrow> bool" where
  "writes_ok action w \<longleftrightarrow>
     (\<forall>x \<in> set w. OFFLINE_ACCOUNT < action \<and>
        (\<exists>a t. t \<in> {OFFLINE_SOFT, OFFLINE_HARD} \<and> a AND PAGE_MASK = a \<and> x = write_of a t))"

definition page_inv :: "page_sys \<Rightarrow> (u64 \<Rightarrow> page_record option) \<Rightarrow> bool" where
  "page_inv s m \<longleftrightarrow> page_rep s m \<and> (\<forall>a r. m a = Some r \<longrightarrow> record_ok s r) \<and>
     writes_ok (offline_action s) (page_writes s)"

lemma attempts_files: "OFFLINE_ACCOUNT < action \<Longrightarrow> t \<in> set (attempts env action a) \<Longrightarrow>
    kernel_offline t = kernel_offline OFFLINE_SOFT \<or> kernel_offline t = kernel_offline OFFLINE_HARD"
  by (auto simp: attempts_def split: option.splits if_splits)

lemma attempts_write:
  assumes "OFFLINE_ACCOUNT < action" and "t \<in> set (attempts env action a)"
  shows "\<exists>t' \<in> {OFFLINE_SOFT, OFFLINE_HARD}. write_of a t = write_of a t'"
  using attempts_files [OF assms] by (auto simp: write_of_def)

lemma silence_page_offline:
  assumes "snd (silence_page env action a w) = PAGE_OFFLINE" and "OFFLINE_ACCOUNT < action"
  shows "attempts env action a \<noteq> []"
  using assms
  by (auto simp: silence_page_def attempts_def do_page_offline_eq Let_def
      split: option.splits prod.splits if_splits)

lemma page_offline_ok:
  assumes "page_offline env action (pr, w) = (pr', w')" and "pr_offlined pr' = PAGE_OFFLINE"
    and "pr_offlined pr \<noteq> PAGE_OFFLINE"
  shows "\<exists>t \<in> {OFFLINE_SOFT, OFFLINE_HARD}. write_of (pr_addr pr) t \<in> set w'"
proof -
  have action: "OFFLINE_ACCOUNT < action" using assms by (cases action) (auto simp: page_offline_def)
  obtain st where sil: "silence_page env action (pr_addr pr) w = (w', st)" "st = PAGE_OFFLINE"
    using assms action by (auto simp: page_offline_def Let_def not_le [symmetric] split: prod.splits)
  from silence_page_offline [of env action "pr_addr pr" w] sil action
  obtain t where t: "t \<in> set (attempts env action (pr_addr pr))"
    by (cases "attempts env action (pr_addr pr)") auto
  have "w' = w @ map (write_of (pr_addr pr)) (attempts env action (pr_addr pr))"
    using silence_page_attempts [OF action, of env "pr_addr pr" w] sil by simp
  then have "write_of (pr_addr pr) t \<in> set w'" using t by simp
  then show ?thesis using attempts_write [OF action t] by auto
qed

lemma page_count_count:
  assumes "page_count env action cyc thr count time (pr, w) = Some (pr', w')" and "0 < thr"
  shows "pr_count pr' < thr"
  using assms
  by (auto simp: page_count_def page_offline_def Let_def split: bind_splits if_splits prod.splits)

lemma page_count_offlined:
  assumes "page_count env action cyc thr count time (pr, w) = Some (pr', w')"
    and "pr_offlined pr' = PAGE_OFFLINE" and "pr_offlined pr \<noteq> PAGE_OFFLINE"
  shows "\<exists>t \<in> {OFFLINE_SOFT, OFFLINE_HARD}. write_of (pr_addr pr) t \<in> set w'"
proof -
  obtain pr1 where pr1: "page_refresh cyc thr time pr = Some pr1"
    using assms by (auto simp: page_count_def split: bind_splits)
  let ?pr2 = "pr1\<lparr>pr_excess := pr_excess pr1 + (pr_count pr1 + ucast count), pr_count := 0\<rparr>"
  have same: "pr_offlined pr1 = pr_offlined pr" "pr_addr pr1 = pr_addr pr"
    using page_refresh_offlined [OF pr1] page_refresh_addr [OF pr1] by simp_all
  then have "page_offline env action (?pr2, w) = (pr', w')"
    using assms pr1 by (auto simp: page_count_def Let_def split: if_splits)
  then show ?thesis using page_offline_ok [of env action ?pr2 w] assms same by simp
qed

lemma page_inv_start:
  assumes "ras_page_account_init getenv writable erange no_unit0 row_action page_sys0 = Some s"
  shows "page_inv s Map.empty"
proof -
  have "page_records s = page_records page_sys0 \<and> pages s = Map.empty \<and> page_writes s = []"
    using assms
    by (auto simp: ras_page_account_init_def page_isolation_init_def page_sys0_def
        split: if_splits bind_splits)
  moreover have "index_ok s PLeaf" if "page_records s = page_records page_sys0 \<and> pages s = Map.empty \<and> page_writes s = []" for s
    using that by (simp add: index_ok_def tree_rep_def at_pos_def rb_ok_def page_sys0_def)
  ultimately show ?thesis by (auto simp: page_inv_def page_rep_def writes_ok_def)
qed

lemma PAGE_MASK_idem: "(x AND PAGE_MASK) AND PAGE_MASK = x AND PAGE_MASK"
  by (simp add: and.assoc)

lemma page_inv_event:
  assumes inv: "page_inv s m" and new: "\<forall>p. page_calloc env = Some p \<longrightarrow> pages s p = None"
    and event: "ras_record_page_error env addr count time s = Some s'"
  shows "\<exists>m'. page_inv s' m' \<and> dom m \<subseteq> dom m'"
proof (cases "offline_action s = OFFLINE_OFF")
  case True
  then show ?thesis using inv event by (auto simp: ras_record_page_error_def)
next
  case on: False
  let ?a = "addr AND PAGE_MASK"
  have rep: "page_rep s m" using inv by (simp add: page_inv_def)
  show ?thesis
  proof (cases "m ?a = None \<and> page_calloc env = None")
    case True
    then have "page_lookup_insert (page_calloc env) ?a s = Some (s, None)"
      using pg.no_memory [OF rep] by simp
    then have "s' = s" using event on by (simp add: ras_record_page_error_def)
    then show ?thesis using inv by blast
  next
    case False
    then have mem: "m ?a = None \<Longrightarrow> \<exists>p. page_calloc env = Some p \<and> p \<notin> dom (pages s)"
      using new by auto
    obtain pr' w' where count: "count_page s env count time (started time (pg.current m ?a)) = Some (pr', w')"
      using record_page_error_eq [OF rep on _ mem, where addr = addr and count = count and time = time] event
      by (cases "count_page s env count time (started time (pg.current m ?a))") auto
    then obtain s2 where s2: "ras_record_page_error env addr count time s = Some s2" "page_rep s2 (m(?a \<mapsto> pr'))"
      "page_writes s2 = w'" "same_policy s s2"
      using record_page_error_step [OF rep on _ mem, where addr = addr] by blast
    then have s': "s2 = s'" using event by simp
    have ok: "record_ok s r" if "m b = Some r" for b r using inv that by (simp add: page_inv_def)
    let ?pr = "started time (pg.current m ?a)"
    have addr: "pr_addr ?pr = ?a" "pr_addr pr' = ?a"
      using pg.key_current [OF rep, of ?a] page_count_addr [OF count] by simp_all
    have offl: "pr_offlined ?pr = PAGE_OFFLINE \<Longrightarrow>
        \<exists>t \<in> {OFFLINE_SOFT, OFFLINE_HARD}. write_of ?a t \<in> set (page_writes s)"
      using ok [of ?a] addr by (auto simp: pg.current_def started_def new_record_def record_ok_def split: option.splits if_splits)
    have sub: "set (page_writes s) \<subseteq> set w'" using page_count_writes [OF count] by auto
    have "record_ok s' pr'"
      unfolding record_ok_def
    proof (intro conjI impI)
      show "pr_addr pr' AND PAGE_MASK = pr_addr pr'" using addr PAGE_MASK_idem by simp
      show "0 < iso_val (threshold s') \<Longrightarrow> pr_count pr' < iso_val (threshold s')"
        using page_count_count [OF count] s2(4) s' by (simp add: same_policy_def)
      assume off: "pr_offlined pr' = PAGE_OFFLINE"
      have "\<exists>t \<in> {OFFLINE_SOFT, OFFLINE_HARD}. write_of ?a t \<in> set w'"
      proof (cases "pr_offlined ?pr = PAGE_OFFLINE")
        case True
        then show ?thesis using offl sub by blast
      next
        case False
        then show ?thesis using page_count_offlined [OF count off] addr by simp
      qed
      then show "\<exists>t \<in> {OFFLINE_SOFT, OFFLINE_HARD}. write_of (pr_addr pr') t \<in> set (page_writes s')"
        using addr s2(3) s' by simp
    qed
    moreover have "record_ok s' r" if "m b = Some r" for b r
      using ok [OF that] sub s2(3,4) s' by (auto simp: record_ok_def same_policy_def)
    moreover have "writes_ok (offline_action s') (page_writes s')"
    proof -
      have old: "writes_ok (offline_action s) (page_writes s)" using inv by (simp add: page_inv_def)
      have act: "offline_action s' = offline_action s" "page_writes s' = w'"
        using s2 s' by (auto simp: same_policy_def)
      have new: "\<exists>a t. t \<in> {OFFLINE_SOFT, OFFLINE_HARD} \<and> a AND PAGE_MASK = a \<and> write_of ?a u = write_of a t"
        if "OFFLINE_ACCOUNT < offline_action s" "u \<in> set (attempts env (offline_action s) ?a)" for u
        using attempts_write [OF that] PAGE_MASK_idem by blast
      show ?thesis
        using page_count_writes [OF count] old new unfolding addr writes_ok_def act
        by (auto simp del: gt_account_iff)
    qed
    ultimately have "page_inv s' (m(?a \<mapsto> pr'))" using s2(2) s' by (auto simp: page_inv_def)
    then show ?thesis by (intro exI [of _ "m(?a \<mapsto> pr')"]) auto
  qed
qed

lemma page_reach_inv: "page_reach s \<Longrightarrow> \<exists>m. page_inv s m"
proof (induction rule: page_reach.induct)
  case (start getenv writable erange no_unit0 row_action s)
  then show ?case using page_inv_start by blast
next
  case (event s env addr count time s')
  then show ?case using page_inv_event by blast
qed

subsection \<open>A concrete run\<close>

text \<open>An empty environment and a kernel that accepts everything; one page with 60 errors.\<close>

definition demo_answer :: "int option \<Rightarrow> page_env" where
  "demo_answer rc = \<lparr>kernel_answer = (\<lambda>_ _. rc), page_calloc = Some 7\<rparr>"

definition demo_sys :: page_sys where
  "demo_sys = page_sys0\<lparr>
     threshold := threshold0\<lparr>iso_env := ''50'', iso_val := 50, iso_overflow := False\<rparr>,
     cycle := cycle0\<lparr>iso_env := ''24h'', iso_val := 1440, iso_overflow := False, iso_unit := ''''\<rparr>\<rparr>"

lemma demo_parse:
  "parse_isolation_env (\<lambda>_. None) False False threshold0 = Some (threshold demo_sys)"
  "parse_isolation_env (\<lambda>_. None) False False cycle0 = Some (cycle demo_sys)"
proof -
  have "sscanf_lu ''50'' = Some (50, False)" "strtoul 10 ''50'' = (50, [], False)"
    using sscanf_lu_digits [of "''50''" "[]"] strtoul_digits [of "''50''" "[]"]
    by (simp_all add: isdigit_def code_of_def dec_value_def digits_value_def digit_num_def)
  moreover have "units_named '''' threshold_units = [('''', 1)]" by code_simp
  ultimately show "parse_isolation_env (\<lambda>_. None) False False threshold0 = Some (threshold demo_sys)"
    using apply_units_one [of "''''" threshold_units "''''" 1 "''50''" False 50 False]
    by (simp add: parse_isolation_env_def Let_def check_isolation_env_def threshold0_def demo_sys_def)
  have "sscanf_lu ''24h'' = Some (24, False)"
    using sscanf_lu_digits [of "''24''" "''h''"]
    by (simp add: isdigit_def code_of_def dec_value_def digits_value_def digit_num_def)
  moreover have "units_named ''h'' cycle_units = [(''h'', 60)]" by code_simp
  ultimately show "parse_isolation_env (\<lambda>_. None) False False cycle0 = Some (cycle demo_sys)"
    using apply_units_one [of "''h''" cycle_units "''h''" 60 "''24h''" False 24 False]
    by (simp add: parse_isolation_env_def Let_def check_isolation_env_def cycle0_def demo_sys_def)
qed

lemma demo_rep: "page_rep demo_sys Map.empty"
  by (auto simp: page_rep_def demo_sys_def page_sys0_def index_ok_def tree_rep_def at_pos_def rb_ok_def
      intro!: exI [of _ PLeaf])

lemma PAGE_MASK_num: "PAGE_MASK = 0xFFFFFFFFFFFFF000"
  by (simp add: PAGE_MASK_def)

lemma demo_count:
  "count_page demo_sys (demo_answer rc) c 1000 (started 1000 (new_record a)) =
     Some (count_spec (demo_answer rc) OFFLINE_SOFT 1440 50 c 1000 (started 1000 (new_record a), []))"
proof -
  have "iso_val (cycle demo_sys) = 1440" "iso_val (threshold demo_sys) = 50"
    "offline_action demo_sys = OFFLINE_SOFT" "page_writes demo_sys = []"
    by (simp_all add: demo_sys_def page_sys0_def)
  moreover have "page_count (demo_answer rc) OFFLINE_SOFT 1440 50 c 1000 (started 1000 (new_record a), [])
      \<noteq> None"
    by (rule page_count_defined) (simp_all add: started_def new_record_def)
  moreover have "pr_count (started 1000 (new_record a)) < 50" by (simp add: started_def new_record_def)
  ultimately show ?thesis
    using page_count_spec [of 1440 50 "started 1000 (new_record a)" "demo_answer rc" OFFLINE_SOFT c 1000 "[]"]
    by auto
qed

theorem ras_record_page_error_refines_witness:
  "\<exists>s' r. ras_record_page_error (demo_answer (Some 10)) 0x12345678 60 1000 demo_sys = Some s' \<and>
    page_rep s' [0x12345000 \<mapsto> r] \<and> pr_offlined r = PAGE_OFFLINE \<and> page_writes s' =
      [(''/sys/devices/system/memory/soft_offline_page'', fmt_alt_x (0x12345000 :: u64))]"
proof -
  have a: "(0x12345000 :: u64) = 0x12345678 AND PAGE_MASK" by (simp add: PAGE_MASK_num)
  have count: "count_page demo_sys (demo_answer (Some 10)) 60 1000
      (started 1000 (case Map.empty 0x12345000 of None \<Rightarrow> new_record 0x12345000 | Some r \<Rightarrow> r)) =
    Some (\<lparr>pr_addr = 0x12345000, pr_start = 1000, pr_offlined = PAGE_OFFLINE, pr_count = 0, pr_excess = 60\<rparr>,
      [(''/sys/devices/system/memory/soft_offline_page'', fmt_alt_x (0x12345000 :: u64))])"
    using demo_count [of "Some 10" 60 "0x12345000"]
    by (simp add: count_spec_def new_cycle_def started_def new_record_def page_offline_def silence_page_def
        do_page_offline_def demo_answer_def)
  from ras_record_page_error_refines [OF demo_rep _ _ _ a count, of 7] show ?thesis
    by (force simp: demo_answer_def demo_sys_def page_sys0_def)
qed

text \<open>
  C4: in every state the program can reach, the records are indexed by a red-black tree ordered by their
  page-aligned addresses, no counter has reached the threshold, a page marked offline has been handed
  to the kernel, and nothing but page addresses was ever written, and only when the action allows it.
\<close>

theorem page_reach_invariant:
  assumes "page_reach s"
  shows "\<exists>m. page_inv s m"
  using assms by (rule page_reach_inv)

lemma demo_sys_reach: "page_reach demo_sys"
proof (rule page_reach.start)
  show "ras_page_account_init (\<lambda>_. None) (\<lambda>_. True) False False OFFLINE_OFF page_sys0 = Some demo_sys"
    using demo_parse
    by (simp add: ras_page_account_init_def page_isolation_init_def page_offline_init_def
        unless_writable_def page_sys0_def demo_sys_def)
qed

lemma demo_event:
  "\<exists>s'. ras_record_page_error (demo_answer rc) 0x12345678 c 1000 demo_sys = Some s' \<and> same_policy demo_sys s'"
proof -
  obtain pr' w' where
    "count_page demo_sys (demo_answer rc) c 1000 (started 1000 (new_record 0x12345000)) = Some (pr', w')"
    using demo_count [of rc c "0x12345000"] by (metis surj_pair)
  then show ?thesis
    using record_page_error_step [OF demo_rep, of "0x12345000" "0x12345678" "demo_answer rc" c 1000 pr' w']
    by (auto simp: PAGE_MASK_num demo_answer_def demo_sys_def page_sys0_def pg.current_def)
qed

theorem page_reach_invariant_witness:
  "\<exists>s m. ras_record_page_error (demo_answer (Some 10)) 0x12345678 60 1000 demo_sys = Some s \<and> page_inv s m"
proof -
  obtain s where s: "ras_record_page_error (demo_answer (Some 10)) 0x12345678 60 1000 demo_sys = Some s"
    using demo_event by blast
  have "page_reach s"
    by (rule page_reach.event [OF demo_sys_reach _ s]) (simp add: demo_sys_def page_sys0_def)
  then show ?thesis using s page_reach_invariant by blast
qed

subsection \<open>One event\<close>

text \<open>What an event may write, and that it leaves an offline page alone.\<close>

lemma page_count_keeps:
  assumes "page_count env action cyc thr count time (pr, w) = Some (pr', w')"
    and "pr_offlined pr = PAGE_OFFLINE"
  shows "pr_offlined pr' = PAGE_OFFLINE \<and> w' = w"
proof -
  obtain pr1 where pr1: "page_refresh cyc thr time pr = Some pr1"
    using assms by (auto simp: page_count_def split: bind_splits)
  then have "pr_offlined pr1 = PAGE_OFFLINE" using page_refresh_offlined [OF pr1] assms(2) by simp
  then show ?thesis
    using assms(1) pr1 by (auto simp: page_count_def page_offline_def Let_def split: if_splits)
qed

lemma record_page_error_cases:
  assumes rep: "page_rep s m" and a: "a = addr AND PAGE_MASK"
    and new: "\<forall>p. page_calloc env = Some p \<longrightarrow> pages s p = None"
    and event: "ras_record_page_error env addr count time s = Some s'"
  shows "s' = s \<or> (\<exists>pr' w'. count_page s env count time (started time (pg.current m a)) = Some (pr', w') \<and>
    page_rep s' (m(a \<mapsto> pr')) \<and> page_writes s' = w' \<and> same_policy s s')"
proof -
  consider "offline_action s = OFFLINE_OFF" | "m a = None" "page_calloc env = None" |
    "offline_action s \<noteq> OFFLINE_OFF" "m a = None \<longrightarrow> (\<exists>p. page_calloc env = Some p \<and> p \<notin> dom (pages s))"
    using new by fastforce
  then show ?thesis
  proof cases
    case 1
    then show ?thesis using event by (simp add: ras_record_page_error_def)
  next
    case 2
    then have "page_lookup_insert (page_calloc env) a s = Some (s, None)"
      using pg.no_memory [OF rep] by simp
    then show ?thesis using event a by (simp add: ras_record_page_error_def split: if_splits)
  next
    case 3
    then have mem: "m a = None \<Longrightarrow> \<exists>p. page_calloc env = Some p \<and> p \<notin> dom (pages s)" by blast
    obtain pr' w' where count: "count_page s env count time (started time (pg.current m a)) = Some (pr', w')"
      using record_page_error_eq [OF rep 3(1) a mem, where count = count and time = time] event
      by (cases "count_page s env count time (started time (pg.current m a))") auto
    then show ?thesis using record_page_error_step [OF rep 3(1) a mem count] event by auto
  qed
qed

lemma page_event_attempts:
  assumes "page_rep s m" and "\<forall>p. page_calloc env = Some p \<longrightarrow> pages s p = None"
    and "ras_record_page_error env addr count time s = Some s'"
  shows "page_writes s' = page_writes s \<or>
    (OFFLINE_ACCOUNT < offline_action s \<and> page_writes s' = page_writes s @
       map (write_of (addr AND PAGE_MASK)) (attempts env (offline_action s) (addr AND PAGE_MASK)))"
proof -
  have "pr_addr (started time (pg.current m (addr AND PAGE_MASK))) = addr AND PAGE_MASK"
    using pg.key_current [OF assms(1)] by simp
  then show ?thesis
    using record_page_error_cases [OF assms(1) refl assms(2,3)] page_count_writes by fastforce
qed

text \<open>
  One event writes nothing, or it makes the attempts of the configured action for the page it is
  about, in this order: soft first for \<open>soft-then-hard\<close>, and hard only after soft has failed.
\<close>

theorem page_event_writes:
  assumes "page_rep s m" and "\<forall>p. page_calloc env = Some p \<longrightarrow> pages s p = None"
    and "ras_record_page_error env addr count time s = Some s'"
  shows "page_writes s' = page_writes s \<or>
    (OFFLINE_ACCOUNT < offline_action s \<and> page_writes s' = page_writes s @
       map (write_of (addr AND PAGE_MASK)) (attempts env (offline_action s) (addr AND PAGE_MASK)))"
  using assms by (rule page_event_attempts)

theorem page_event_writes_witness:
  "\<exists>s'. ras_record_page_error (demo_answer (Some 10)) 0x12345678 60 1000 demo_sys = Some s' \<and>
    (page_writes s' = [] \<or> page_writes s' = map (write_of 0x12345000) (attempts (demo_answer (Some 10)) OFFLINE_SOFT 0x12345000))"
proof -
  obtain s where s: "ras_record_page_error (demo_answer (Some 10)) 0x12345678 60 1000 demo_sys = Some s"
    using demo_event by blast
  have "\<forall>p. page_calloc (demo_answer (Some 10)) = Some p \<longrightarrow> pages demo_sys p = None"
    by (simp add: demo_sys_def page_sys0_def)
  from page_event_writes [OF demo_rep this s] s show ?thesis
    by (auto simp: demo_sys_def page_sys0_def PAGE_MASK_num)
qed

text \<open>
  C7: a page that has been taken offline is never written to the kernel again, whatever errors it still
  has, and stays marked offline.
\<close>

theorem page_offline_once:
  assumes "page_rep s m" and "\<forall>p. page_calloc env = Some p \<longrightarrow> pages s p = None"
    and "m (addr AND PAGE_MASK) = Some r" and "pr_offlined r = PAGE_OFFLINE"
    and "ras_record_page_error env addr count time s = Some s'"
  shows "page_writes s' = page_writes s \<and>
    (\<exists>m' r'. page_rep s' m' \<and> m' (addr AND PAGE_MASK) = Some r' \<and> pr_offlined r' = PAGE_OFFLINE)"
proof -
  have "pr_offlined (started time (pg.current m (addr AND PAGE_MASK))) = PAGE_OFFLINE"
    using assms(3,4) by (simp add: pg.current_def started_def)
  then show ?thesis
    using record_page_error_cases [OF assms(1) refl assms(2,5)] page_count_keeps assms(1,3,4)
    by (metis fun_upd_same)
qed

text \<open>The page of the run above, after it was taken offline.\<close>

definition demo_offline :: page_record where
  "demo_offline = \<lparr>pr_addr = 0x12345000, pr_start = 1000, pr_offlined = PAGE_OFFLINE, pr_count = 0, pr_excess = 60\<rparr>"

definition demo_sys2 :: page_sys where
  "demo_sys2 = demo_sys\<lparr>
     page_records := \<lparr>rb_heap = [1 \<mapsto> zero_node\<lparr>rb_color := RB_BLACK\<rparr>], rb_top = Some 1\<rparr>,
     pages := [1 \<mapsto> demo_offline]\<rparr>"

lemma demo_rep2: "page_rep demo_sys2 [0x12345000 \<mapsto> demo_offline]"
proof -
  have "index_ok demo_sys2 (PNode RB_BLACK PLeaf 1 PLeaf)"
    by (simp add: index_ok_def tree_rep_def at_pos_def rb_ok_def demo_sys2_def zero_node_def)
  then show ?thesis
    by (auto simp: page_rep_def demo_sys2_def demo_offline_def split: if_splits)
qed

theorem page_offline_once_witness:
  "\<exists>s'. ras_record_page_error (demo_answer (Some 10)) 0x12345678 60 1001 demo_sys2 = Some s' \<and> page_writes s' = []"
proof -
  have defined: "count_page demo_sys2 (demo_answer (Some 10)) 60 1001 demo_offline \<noteq> None"
    by (rule page_count_defined) (simp_all add: demo_sys2_def demo_sys_def page_sys0_def demo_offline_def)
  then obtain pr' w' where
    count: "count_page demo_sys2 (demo_answer (Some 10)) 60 1001 (started 1001 (pg.current [0x12345000 \<mapsto> demo_offline] 0x12345000)) = Some (pr', w')"
    by (auto simp: started_def demo_offline_def pg.current_def)
  have on: "offline_action demo_sys2 \<noteq> OFFLINE_OFF" by (simp add: demo_sys2_def demo_sys_def page_sys0_def)
  have a: "(0x12345000 :: u64) = 0x12345678 AND PAGE_MASK" by (simp add: PAGE_MASK_num)
  from record_page_error_step [OF demo_rep2 on a _ count] obtain s' where
    s': "ras_record_page_error (demo_answer (Some 10)) 0x12345678 60 1001 demo_sys2 = Some s'" by auto
  have "\<forall>p. page_calloc (demo_answer (Some 10)) = Some p \<longrightarrow> pages demo_sys2 p = None"
    by (simp add: demo_sys2_def demo_answer_def)
  from page_offline_once [OF demo_rep2 this _ _ s', of demo_offline] s' a [symmetric] show ?thesis
    by (simp add: demo_offline_def demo_sys2_def demo_sys_def page_sys0_def)
qed

subsection \<open>One cycle\<close>

fun page_run ::
  "page_env \<Rightarrow> otype \<Rightarrow> u64 \<Rightarrow> u64 \<Rightarrow> (u32 \<times> time_t) list \<Rightarrow> page_record \<times> writes \<Rightarrow>
     (page_record \<times> writes) option" where
  "page_run env action cyc thr [] x = Some x"
| "page_run env action cyc thr ((count, time) # es) x =
     do { y \<leftarrow> page_count env action cyc thr count time x; page_run env action cyc thr es y }"

lemma page_offline_keeps:
  "page_offline env action (pr, w) = (pr', w') \<Longrightarrow>
     pr_count pr' = pr_count pr \<and> pr_excess pr' = pr_excess pr \<and> pr_start pr' = pr_start pr"
  by (auto simp: page_offline_def split: if_splits prod.splits)

lemma page_count_conserves:
  assumes "time - pr_start pr < cyc"
  shows "\<exists>pr' w'. page_count env action cyc thr count time (pr, w) = Some (pr', w') \<and>
    pr_count pr' + pr_excess pr' = pr_count pr + pr_excess pr + ucast count \<and> pr_start pr' = pr_start pr"
proof -
  have "page_refresh cyc thr time pr = Some pr" using assms by (simp add: page_refresh_def Let_def not_le [symmetric])
  then show ?thesis
    using page_offline_keeps [of env action "pr\<lparr>pr_excess := pr_excess pr + (pr_count pr + ucast count), pr_count := 0\<rparr>" w]
    by (cases "page_offline env action (pr\<lparr>pr_excess := pr_excess pr + (pr_count pr + ucast count), pr_count := 0\<rparr>, w)")
      (auto simp: page_count_def Let_def)
qed

text \<open>
  Within a refresh cycle no error is lost or counted twice: what the counter and the excess of a page
  hold together grows by exactly the errors reported, across any number of times the threshold is
  reached, and counting never fails.
\<close>

theorem page_cycle_conserves:
  assumes "\<forall>(count, time) \<in> set es. time - pr_start pr < cyc"
  shows "\<exists>pr' w'. page_run env action cyc thr es (pr, w) = Some (pr', w') \<and>
    pr_count pr' + pr_excess pr' =
      pr_count pr + pr_excess pr + sum_list (map (\<lambda>(count, time). ucast count) es)"
  using assms
proof (induction es arbitrary: pr w)
  case Nil
  then show ?case by simp
next
  case (Cons e es)
  obtain count time where e: "e = (count, time)" by (cases e)
  from page_count_conserves [of time pr cyc env action thr count w] Cons.prems e
  obtain pr1 w1 where 1: "page_count env action cyc thr count time (pr, w) = Some (pr1, w1)"
    "pr_count pr1 + pr_excess pr1 = pr_count pr + pr_excess pr + ucast count" "pr_start pr1 = pr_start pr"
    by auto
  from Cons.IH [of pr1 w1] Cons.prems 1(3) obtain pr' w' where
    "page_run env action cyc thr es (pr1, w1) = Some (pr', w')"
    "pr_count pr' + pr_excess pr' =
       pr_count pr1 + pr_excess pr1 + sum_list (map (\<lambda>(count, time). ucast count) es)" by auto
  then show ?case using 1 e by (simp add: add.assoc)
qed

theorem page_cycle_conserves_witness:
  "\<exists>pr w. page_run (demo_answer None) OFFLINE_HARD 1440 50 [(30, 100), (30, 200), (5, 300)] (started 100 (new_record 0), []) = Some (pr, w) \<and>
    pr_count pr + pr_excess pr = 65"
  using page_cycle_conserves [of "[(30, 100), (30, 200), (5, 300)]" "started 100 (new_record 0)" 1440
      "demo_answer None" OFFLINE_HARD 50 "[]"]
  by (simp add: started_def new_record_def)

end
