(* ===== verification/Row_Isolation.thy ===== *)
theory Row_Isolation
  imports Page_Isolation
begin

text \<open>
  The row part of \<open>ras-page-isolation.c\<close>: corrected errors are counted per memory row, over a sliding
  window, and all pages of a row that reaches the threshold are handed to the kernel. The lists of
  \<open>sys/queue.h\<close> are lists.
\<close>

section \<open>The data\<close>

datatype row_location_type = GHES | DSM

record memory_location_field =
  field_name :: string
  anchor_str :: string
  value_base :: nat

definition decimal_field :: "string \<Rightarrow> memory_location_field" where
  "decimal_field n = \<lparr>field_name = n, anchor_str = n @ '':'', value_base = 10\<rparr>"

definition hex_field :: "string \<Rightarrow> memory_location_field" where
  "hex_field n = \<lparr>field_name = n, anchor_str = n @ '':'', value_base = 16\<rparr>"

definition apei_fields :: "memory_location_field list" where
  "apei_fields = map decimal_field [''node'', ''card'', ''module'', ''rank'', ''device'', ''bank'', ''row'']"

definition dsm_fields :: "memory_location_field list" where
  "dsm_fields = map hex_field
     [''ProcessorSocketId'', ''MemoryControllerId'', ''ChannelId'', ''DimmSlotId'', ''PhysicalRankId'',
      ''ChipId'', ''BankGroup'', ''Bank'', ''Row'']"

definition ROW_LOCATION_FIELDS_NUM :: nat where
  "ROW_LOCATION_FIELDS_NUM = 9"

fun fields_of :: "row_location_type \<Rightarrow> memory_location_field list" where
  "fields_of GHES = apei_fields"
| "fields_of DSM = dsm_fields"

record page_addr =
  pa_addr :: u64
  pa_offlined :: pstate
  pa_count :: s32
  pa_start :: time_t

record row_record =
  rr_pages :: "page_addr list"
  rr_type :: row_location_type
  rr_fields :: "s32 list"
  rr_start :: time_t
  rr_count :: u64

record row_sys =
  row_head :: "row_record list"
  row_offline_action :: otype
  row_threshold :: isolation
  row_cycle :: isolation
  row_writes :: writes

text \<open>Whether the two \<open>calloc\<close> calls succeed.\<close>

record row_env =
  row_kernel :: page_env
  row_mem :: bool
  page_mem :: bool

definition row_sys0 :: row_sys where
  "row_sys0 = \<lparr>row_head = [], row_offline_action = OFFLINE_OFF, row_threshold = row_threshold0,
     row_cycle = row_cycle0, row_writes = []\<rparr>"

definition row_isolation_init ::
  "(string \<Rightarrow> string option) \<Rightarrow> bool \<Rightarrow> bool \<Rightarrow> row_sys \<Rightarrow> row_sys option" where
  "row_isolation_init getenv erange no_unit0 s =
     (if row_offline_action s = OFFLINE_OFF then Some s
      else do { t \<leftarrow> parse_isolation_env getenv erange no_unit0 (row_threshold s);
                c \<leftarrow> parse_isolation_env getenv erange no_unit0 (row_cycle s);
                Some (s\<lparr>row_threshold := t, row_cycle := c\<rparr>) })"

definition ras_row_account_init ::
  "(string \<Rightarrow> string option) \<Rightarrow> (string \<Rightarrow> bool) \<Rightarrow> bool \<Rightarrow> bool \<Rightarrow> row_sys \<Rightarrow> row_sys option" where
  "ras_row_account_init getenv writable erange no_unit0 s =
     row_isolation_init getenv erange no_unit0
       (s\<lparr>row_offline_action := row_offline_init getenv writable (row_offline_action s)\<rparr>)"

section \<open>The name of a row\<close>

text \<open>
  \<open>snprintf (buffer + pos, size, s)\<close> into a buffer of \<open>ROW_ID_MAX_LEN\<close> bytes, where \<open>pos\<close> is the
  length of the text so far and \<open>size\<close> is an \<open>unsigned int\<close> that the caller decreases by what was
  printed: a write past the buffer is \<open>None\<close>.
\<close>

definition ROW_ID_MAX_LEN :: nat where
  "ROW_ID_MAX_LEN = 200"

definition id_print :: "string \<Rightarrow> string \<times> u32 \<Rightarrow> (string \<times> u32) option" where
  "id_print s x =
     (case x of (text, sz) \<Rightarrow>
        if length text + min (length s + 1) (unat sz) \<le> ROW_ID_MAX_LEN \<or> sz = 0
        then Some (text @ s, sz - of_nat (length s)) else None)"

fun id_fields :: "(string \<times> s32) list \<Rightarrow> string \<times> u32 \<Rightarrow> (string \<times> u32) option" where
  "id_fields [] x = Some x"
| "id_fields [(name, v)] x = id_print (name @ '':'' @ fmt_d v) x"
| "id_fields ((name, v) # fs) x =
     do { y \<leftarrow> id_print (name @ '':'' @ fmt_d v @ '','') x; id_fields fs y }"

definition row_record_get_id :: "row_record \<Rightarrow> string option" where
  "row_record_get_id rr =
     do { x \<leftarrow> id_print ''{'' ('''', of_nat ROW_ID_MAX_LEN);
          y \<leftarrow> id_fields (zip (map field_name (fields_of (rr_type rr))) (rr_fields rr)) x;
          (text, sz) \<leftarrow> id_print ''}'' y;
          if length text < ROW_ID_MAX_LEN then Some text else None }"

section \<open>Rows\<close>

definition row_record_is_same_row :: "row_record \<Rightarrow> row_record \<Rightarrow> bool" where
  "row_record_is_same_row r1 r2 \<longleftrightarrow> rr_type r1 = rr_type r2 \<and>
     (let n = length (fields_of (rr_type r1)) in take n (rr_fields r1) = take n (rr_fields r2))"

definition row_record_copy :: "row_record \<Rightarrow> row_record \<Rightarrow> row_record" where
  "row_record_copy dst src = dst\<lparr>rr_fields := take ROW_LOCATION_FIELDS_NUM (rr_fields src)\<rparr>"

text \<open>\<open>None\<close> is the return value 1; the long that \<open>strtol\<close> returns is cut to an \<open>int\<close>.\<close>

definition parse_value :: "string \<Rightarrow> string \<Rightarrow> nat \<Rightarrow> s32 option" where
  "parse_value str anchor base =
     (case strstr str anchor of
        None \<Rightarrow> None
      | Some pos \<Rightarrow>
          (let start = drop (length anchor) pos
           in case strtol base start of
                (tmp, endptr, erange) \<Rightarrow>
                  if erange then None
                  else if endptr = start then None
                  else Some (word_of_int tmp)))"

fun parse_fields :: "string \<Rightarrow> memory_location_field list \<Rightarrow> s32 list option" where
  "parse_fields detail [] = Some []"
| "parse_fields detail (f # fs) =
     do { v \<leftarrow> parse_value detail (anchor_str f) (value_base f);
          vs \<leftarrow> parse_fields detail fs;
          Some (v # vs) }"

text \<open>The caller's record is zeroed, so the fields a location does not have are 0.\<close>

definition row_record0 :: row_record where
  "row_record0 = \<lparr>rr_pages = [], rr_type = GHES, rr_fields = replicate ROW_LOCATION_FIELDS_NUM 0,
     rr_start = 0, rr_count = 0\<rparr>"

definition parse_row_info :: "string \<Rightarrow> row_record option" where
  "parse_row_info detail =
     do { ty \<leftarrow> (if strstr detail ''APEI location'' \<noteq> None then Some GHES
                else if strstr detail ''ProcessorSocketId:'' \<noteq> None then Some DSM
                else None);
          vs \<leftarrow> parse_fields detail (fields_of ty);
          Some (row_record0\<lparr>rr_type := ty,
                  rr_fields := vs @ replicate (ROW_LOCATION_FIELDS_NUM - length vs) 0\<rparr>) }"

section \<open>Taking a row offline\<close>

definition SAME_PAGE_IN_ROW :: nat where
  "SAME_PAGE_IN_ROW = 200"

text \<open>The loop over the pages of a row, with the addresses known to be offline.\<close>

fun row_offline_pages ::
  "page_env \<Rightarrow> otype \<Rightarrow> page_addr list \<Rightarrow> u64 list \<Rightarrow> writes \<Rightarrow> page_addr list \<times> writes" where
  "row_offline_pages env action [] known w = ([], w)"
| "row_offline_pages env action (p # ps) known w =
     (if pa_offlined p = PAGE_OFFLINE \<and> length known < SAME_PAGE_IN_ROW then
        (let (ps', w') = row_offline_pages env action ps (known @ [pa_addr p]) w in (p # ps', w'))
      else if pa_addr p \<in> set known then
        (let (ps', w') = row_offline_pages env action ps known w
         in (p\<lparr>pa_offlined := PAGE_OFFLINE\<rparr> # ps', w'))
      else
        (let (w1, st) = silence_page env action (pa_addr p) w;
             known1 = (if st = PAGE_OFFLINE \<and> length known < SAME_PAGE_IN_ROW
                       then known @ [pa_addr p] else known);
             (ps', w') = row_offline_pages env action ps known1 w1
         in (p\<lparr>pa_offlined := st\<rparr> # ps', w')))"

definition row_offline :: "page_env \<Rightarrow> otype \<Rightarrow> row_record \<times> writes \<Rightarrow> (row_record \<times> writes) option" where
  "row_offline env action x =
     (case x of (rr, w) \<Rightarrow>
        do { row_id \<leftarrow> row_record_get_id rr;
             if action \<le> OFFLINE_ACCOUNT then Some (rr, w)
             else (let (ps, w') = row_offline_pages env action (rr_pages rr) [] w
                   in Some (rr\<lparr>rr_pages := ps\<rparr>, w')) })"

section \<open>Counting\<close>

text \<open>The pages older than the cycle are dropped from the front, and their errors with them.\<close>

fun row_expire :: "u64 \<Rightarrow> time_t \<Rightarrow> page_addr list \<Rightarrow> u64 \<Rightarrow> page_addr list \<times> u64" where
  "row_expire cyc time [] count = ([], count)"
| "row_expire cyc time (p # ps) count =
     (if time - pa_start p \<le> cyc then (p # ps, count)
      else row_expire cyc time ps (count - scast (pa_count p)))"

definition row_refresh :: "u64 \<Rightarrow> time_t \<Rightarrow> row_record \<Rightarrow> row_record" where
  "row_refresh cyc time rr =
     (if time - rr_start rr > cyc then
        (let (ps, count) = row_expire cyc time (rr_pages rr) (rr_count rr)
         in rr\<lparr>rr_pages := ps, rr_count := count,
               rr_start := (case ps of [] \<Rightarrow> time | p # _ \<Rightarrow> pa_start p)\<rparr>)
      else rr)"

definition row_count ::
  "page_env \<Rightarrow> otype \<Rightarrow> u64 \<Rightarrow> u64 \<Rightarrow> time_t \<Rightarrow> row_record \<times> writes \<Rightarrow> (row_record \<times> writes) option" where
  "row_count env action cyc thr time x =
     (case x of (rr, w) \<Rightarrow>
        (let rr' = row_refresh cyc time rr
         in do { row_id \<leftarrow> row_record_get_id rr';
                 if rr_count rr' \<ge> thr then row_offline env action (rr', w) else Some (rr', w) }))"

section \<open>The events\<close>

definition new_page :: "u64 \<Rightarrow> u32 \<Rightarrow> time_t \<Rightarrow> page_addr" where
  "new_page addr count time =
     \<lparr>pa_addr = addr AND PAGE_MASK, pa_offlined = PAGE_ONLINE, pa_count = count, pa_start = time\<rparr>"

definition row_add_page :: "page_addr \<Rightarrow> row_record \<Rightarrow> row_record" where
  "row_add_page p rr = rr\<lparr>rr_pages := rr_pages rr @ [p], rr_count := rr_count rr + scast (pa_count p)\<rparr>"

text \<open>The rows before the one found, that one, and those after it.\<close>

fun find_row :: "row_record \<Rightarrow> row_record list \<Rightarrow> (row_record list \<times> row_record \<times> row_record list) option" where
  "find_row r [] = None"
| "find_row r (rr # rrs) =
     (if row_record_is_same_row rr r then Some ([], rr, rrs)
      else map_option (\<lambda>(xs, y, zs). (rr # xs, y, zs)) (find_row r rrs))"

text \<open>
  The result is the list of rows and, unless memory is short, the place of the row with the new page
  in it. When there is memory for the row but not for the page, the row stays in the list.
\<close>

definition row_lookup_insert ::
  "row_env \<Rightarrow> row_record \<Rightarrow> u32 \<Rightarrow> u64 \<Rightarrow> time_t \<Rightarrow> row_record list \<Rightarrow>
     row_record list + row_record list \<times> row_record \<times> row_record list" where
  "row_lookup_insert env r count addr time rows =
     (case find_row r rows of
        Some (xs, rr, ys) \<Rightarrow>
          if page_mem env then Inr (xs, row_add_page (new_page addr count time) rr, ys) else Inl rows
      | None \<Rightarrow>
          if \<not> row_mem env then Inl rows
          else (let rr = row_record_copy (row_record0\<lparr>rr_start := time, rr_type := rr_type r\<rparr>) r
                in if page_mem env then Inr ([], row_add_page (new_page addr count time) rr, rows)
                   else Inl (rr # rows)))"

definition ras_record_row_error ::
  "row_env \<Rightarrow> string \<Rightarrow> u32 \<Rightarrow> time_t \<Rightarrow> u64 \<Rightarrow> row_sys \<Rightarrow> row_sys option" where
  "ras_record_row_error env detail count time addr s =
     (if row_offline_action s = OFFLINE_OFF then Some s
      else (case parse_row_info detail of
              None \<Rightarrow> Some s
            | Some r \<Rightarrow>
                (case row_lookup_insert env r count addr time (row_head s) of
                   Inl rows \<Rightarrow> Some (s\<lparr>row_head := rows\<rparr>)
                 | Inr (xs, rr, ys) \<Rightarrow>
                     do { (rr', w) \<leftarrow> row_count (row_kernel env) (row_offline_action s)
                            (iso_val (row_cycle s)) (iso_val (row_threshold s)) time (rr, row_writes s);
                          Some (s\<lparr>row_head := xs @ rr' # ys, row_writes := w\<rparr>) })))"

definition row_record_infos_free :: "row_sys \<Rightarrow> row_sys" where
  "row_record_infos_free s = s\<lparr>row_head := []\<rparr>"

section \<open>The name fits its buffer for moderate numbers only\<close>

lemma id_print_ok:
  "length tx + length s < 200 \<Longrightarrow>
     id_print s (tx, of_nat (200 - length tx)) = Some (tx @ s, of_nat (200 - length (tx @ s)))"
proof -
  assume less: "length tx + length s < 200"
  have "unat (of_nat (200 - length tx) :: u32) = 200 - length tx" by (simp add: unat_of_nat)
  moreover have "(of_nat (200 - length tx) :: u32) - of_nat (length s) = of_nat (200 - length (tx @ s))"
    using less by (simp flip: of_nat_diff)
  ultimately show ?thesis using less by (simp add: id_print_def ROW_ID_MAX_LEN_def)
qed

definition id_width :: "(string \<times> s32) list \<Rightarrow> nat" where
  "id_width fs = sum_list (map (\<lambda>(n, v). length n + length (fmt_d v) + 2) fs)"

lemma id_fields_ok:
  "length tx + id_width fs \<le> 200 \<Longrightarrow> fs \<noteq> [] \<Longrightarrow>
     \<exists>t. id_fields fs (tx, of_nat (200 - length tx)) = Some (t, of_nat (200 - length t)) \<and>
       length t < length tx + id_width fs"
proof (induction fs arbitrary: tx rule: list.induct)
  case (Cons f fs)
  obtain n v where f: "f = (n, v)" by (cases f)
  show ?case
  proof (cases fs)
    case Nil
    then show ?thesis
      using Cons.prems f id_print_ok [of tx "n @ '':'' @ fmt_d v"] by (simp add: id_width_def)
  next
    case (Cons g gs)
    have "id_print (n @ '':'' @ fmt_d v @ '','') (tx, of_nat (200 - length tx)) =
        Some (tx @ n @ '':'' @ fmt_d v @ '','', of_nat (200 - length (tx @ n @ '':'' @ fmt_d v @ '','')))"
      using Cons.prems f Cons by (intro id_print_ok) (simp add: id_width_def split: prod.splits)
    moreover have "length (tx @ n @ '':'' @ fmt_d v @ '','') + id_width fs \<le> 200"
      using Cons.prems f by (simp add: id_width_def)
    ultimately show ?thesis
      using Cons.IH [of "tx @ n @ '':'' @ fmt_d v @ '',''"] Cons f
      by (fastforce simp: id_width_def)
  qed
qed simp

lemma length_fmt_d: "0 \<le> sint v \<Longrightarrow> sint v < 10 ^ 9 \<Longrightarrow> length (fmt_d v) \<le> 9"
  using length_to_base [of 10 "nat (sint v)" 8] by (simp add: fmt_d_def fmt_int_def)

lemma id_width_le:
  "list_all (\<lambda>v. 0 \<le> sint v \<and> sint v < 10 ^ 9) vs \<Longrightarrow> length ns = length vs \<Longrightarrow>
     id_width (zip ns vs) \<le> sum_list (map length ns) + 11 * length ns"
proof (induction ns vs rule: list_induct2')
  case (4 n ns v vs)
  then show ?case using length_fmt_d [of v] by (simp add: id_width_def)
qed (simp_all add: id_width_def)

lemma zip_take_length: "zip xs ys = zip xs (take (length xs) ys)"
  by (induction xs ys rule: list_induct2') simp_all

lemma fields_of_length: "length (fields_of ty) \<le> 9" "0 < length (fields_of ty)"
  by (cases ty; simp add: apei_fields_def dsm_fields_def)+

lemma fields_of_width: "sum_list (map length (map field_name (fields_of ty))) + 11 * length (fields_of ty) < 198"
  by (cases ty; simp add: apei_fields_def dsm_fields_def decimal_field_def hex_field_def)

lemma row_record_get_id_fits:
  assumes "length (rr_fields rr) = ROW_LOCATION_FIELDS_NUM"
    and "list_all (\<lambda>v. 0 \<le> sint v \<and> sint v < 10 ^ 9) (rr_fields rr)"
  shows "\<exists>t. row_record_get_id rr = Some t \<and> length t < ROW_ID_MAX_LEN"
proof -
  let ?n = "map field_name (fields_of (rr_type rr))"
  let ?vs = "take (length ?n) (rr_fields rr)"
  have zip: "zip ?n (rr_fields rr) = zip ?n ?vs" by (rule zip_take_length)
  have len: "length ?n = length ?vs"
    using assms(1) fields_of_length [of "rr_type rr"] by (simp add: ROW_LOCATION_FIELDS_NUM_def)
  have "list_all (\<lambda>v. 0 \<le> sint v \<and> sint v < 10 ^ 9) ?vs"
    using assms(2) by (auto simp: list_all_iff dest: in_set_takeD)
  from id_width_le [OF this len] have width: "id_width (zip ?n ?vs) < 198"
    using fields_of_width [of "rr_type rr"] by simp
  have "zip ?n ?vs \<noteq> []" using len fields_of_length [of "rr_type rr"] by (auto simp: zip_eq_Nil_iff)
  then obtain t where t: "id_fields (zip ?n ?vs) (''{'', of_nat 199) = Some (t, of_nat (200 - length t))"
    "length t < 199" using id_fields_ok [of "''{''" "zip ?n ?vs"] width by fastforce
  have "id_print ''{'' ('''', of_nat ROW_ID_MAX_LEN) = Some (''{'', of_nat 199)"
    using id_print_ok [of "''''" "''{''"] by (simp add: ROW_ID_MAX_LEN_def)
  then show ?thesis
    using t zip id_print_ok [of t "''}''"] by (simp add: row_record_get_id_def ROW_ID_MAX_LEN_def)
qed

text \<open>
  The name of a row fits its 200 bytes when its numbers have at most nine digits.
\<close>

theorem row_id_fits:
  assumes "length (rr_fields rr) = ROW_LOCATION_FIELDS_NUM"
    and "list_all (\<lambda>v. 0 \<le> sint v \<and> sint v < 10 ^ 9) (rr_fields rr)"
  shows "\<exists>t. row_record_get_id rr = Some t \<and> length t < ROW_ID_MAX_LEN"
  using assms by (rule row_record_get_id_fits)

theorem row_id_fits_witness:
  "\<exists>t. row_record_get_id (row_record0\<lparr>rr_type := DSM, rr_fields := [1, 2, 3, 4, 5, 6, 7, 8, 999999999]\<rparr>) = Some t \<and>
    length t < ROW_ID_MAX_LEN"
  using row_id_fits [of "row_record0\<lparr>rr_type := DSM, rr_fields := [1, 2, 3, 4, 5, 6, 7, 8, 999999999]\<rparr>"]
  by (simp add: ROW_LOCATION_FIELDS_NUM_def)

text \<open>Where the text is cut and what is written too far depends on the lengths only.\<close>

fun id_lens :: "nat list \<Rightarrow> nat \<times> u32 \<Rightarrow> (nat \<times> u32) option" where
  "id_lens [] x = Some x"
| "id_lens (l # ls) (k, sz) =
     (if k + min (l + 1) (unat sz) \<le> ROW_ID_MAX_LEN \<or> sz = 0 then id_lens ls (k + l, sz - of_nat l) else None)"

fun field_lens :: "(string \<times> s32) list \<Rightarrow> nat list" where
  "field_lens [] = []"
| "field_lens [(n, v)] = [length n + 1 + length (fmt_d v)]"
| "field_lens ((n, v) # fs) = (length n + 2 + length (fmt_d v)) # field_lens fs"

lemma id_print_lens:
  "id_lens (length s # ls) (length tx, sz) =
     (case id_print s (tx, sz) of None \<Rightarrow> None | Some (tx', sz') \<Rightarrow> id_lens ls (length tx', sz'))"
  by (simp add: id_print_def)

lemma id_fields_lens:
  "id_lens (field_lens fs @ ls) (length tx, sz) =
     (case id_fields fs (tx, sz) of None \<Rightarrow> None | Some (tx', sz') \<Rightarrow> id_lens ls (length tx', sz'))"
proof (induction fs "(tx, sz)" arbitrary: tx sz rule: id_fields.induct)
  case (2 n v)
  then show ?case using id_print_lens [of "n @ '':'' @ fmt_d v" ls tx sz] by simp
next
  case (3 n v g gs)
  let ?s = "n @ '':'' @ fmt_d v @ '',''"
  have "id_lens (field_lens ((n, v) # g # gs) @ ls) (length tx, sz) =
      id_lens (length ?s # field_lens (g # gs) @ ls) (length tx, sz)"
    by (cases g) simp
  also have "\<dots> = (case id_print ?s (tx, sz) of None \<Rightarrow> None
      | Some (tx', sz') \<Rightarrow> id_lens (field_lens (g # gs) @ ls) (length tx', sz'))"
    by (rule id_print_lens)
  finally show ?case using 3 by (auto split: option.splits prod.splits)
qed simp

lemma row_record_get_id_lens:
  assumes "row_record_get_id rr = Some t"
  shows "id_lens (1 # field_lens (zip (map field_name (fields_of (rr_type rr))) (rr_fields rr)) @ [1]) (0, 200) \<noteq> None"
proof -
  obtain x y where x: "id_print ''{'' ('''', 200) = Some x"
    and y: "id_fields (zip (map field_name (fields_of (rr_type rr))) (rr_fields rr)) x = Some y"
    and z: "id_print ''}'' y \<noteq> None"
    using assms by (auto simp: row_record_get_id_def ROW_ID_MAX_LEN_def split: bind_splits)
  have "id_lens [1] (length (fst y), snd y) \<noteq> None"
    using z id_print_lens [of "''}''" "[]" "fst y" "snd y"] by auto
  then show ?thesis
    using x y id_print_lens [of "''{''" _ "[]" 200] id_fields_lens [of _ "[1]" "fst x" "snd x"]
    by (auto split: prod.splits)
qed

lemma replicate_9: "replicate 9 x = [x, x, x, x, x, x, x, x, x]"
  by (simp add: numeral_eq_Suc)

text \<open>It does not when all nine numbers of a DSM location have eleven characters.\<close>

theorem row_id_overflows:
  "row_record_get_id (row_record0\<lparr>rr_type := DSM, rr_fields := replicate 9 0x80000000\<rparr>) = None"
proof (rule ccontr)
  let ?rr = "row_record0\<lparr>rr_type := DSM, rr_fields := replicate 9 0x80000000\<rparr>"
  assume "row_record_get_id ?rr \<noteq> None"
  then obtain t where "row_record_get_id ?rr = Some t" by blast
  moreover have "rr_type ?rr = DSM" "rr_fields ?rr = replicate 9 0x80000000" by simp_all
  ultimately have "id_lens (1 # field_lens (zip (map field_name (fields_of DSM)) (replicate 9 0x80000000)) @ [1])
      (0, 200) \<noteq> None"
    using row_record_get_id_lens [of ?rr t] by metis
  moreover have "length (fmt_d (0x80000000 :: s32)) = 11"
    by (simp add: fmt_d_def fmt_int_def to_base.simps)
  then have "field_lens (zip (map field_name (fields_of DSM)) (replicate 9 0x80000000)) =
      [30, 31, 22, 23, 27, 19, 22, 17, 15]"
    by (simp add: dsm_fields_def hex_field_def replicate_9)
  moreover have "id_lens [1, 30, 31, 22, 23, 27, 19, 22, 17, 15, 1] (0, 200) = None"
    by (simp add: ROW_ID_MAX_LEN_def)
  ultimately show False by (simp del: id_lens.simps fields_of.simps One_nat_def)
qed

section \<open>The window of a row\<close>

text \<open>The errors a list of pages stands for, and a page without its state.\<close>

definition page_errors :: "page_addr list \<Rightarrow> u64" where
  "page_errors ps = sum_list (map (\<lambda>p. scast (pa_count p)) ps)"

definition page_key :: "page_addr \<Rightarrow> u64 \<times> s32 \<times> time_t" where
  "page_key p = (pa_addr p, pa_count p, pa_start p)"

lemma page_errors_simps [simp]:
  "page_errors [] = 0" "page_errors (p # ps) = scast (pa_count p) + page_errors ps"
  "page_errors (ps @ qs) = page_errors ps + page_errors qs"
  by (simp_all add: page_errors_def)

lemma page_errors_key: "map page_key ps = map page_key qs \<Longrightarrow> page_errors ps = page_errors qs"
proof -
  have "page_errors xs = sum_list (map (\<lambda>(a, c, t). scast c) (map page_key xs))" for xs
    by (simp add: page_errors_def page_key_def comp_def)
  then show "map page_key ps = map page_key qs \<Longrightarrow> page_errors ps = page_errors qs" by metis
qed

lemma row_expire_eq:
  "row_expire cyc time ps c =
     (dropWhile (\<lambda>p. time - pa_start p > cyc) ps,
      c - page_errors (takeWhile (\<lambda>p. time - pa_start p > cyc) ps))"
  by (induction ps arbitrary: c) (auto simp: not_le)

lemma row_expire_sum:
  "row_expire cyc time ps (page_errors ps) =
     (let qs = dropWhile (\<lambda>p. time - pa_start p > cyc) ps in (qs, page_errors qs))"
proof -
  have "page_errors ps = page_errors (takeWhile (\<lambda>p. time - pa_start p > cyc) ps) +
      page_errors (dropWhile (\<lambda>p. time - pa_start p > cyc) ps)"
    unfolding page_errors_def by (rule sum_list_takeWhile_dropWhile)
  then show ?thesis by (simp add: row_expire_eq Let_def)
qed

lemma row_offline_pages_key:
  "map page_key (fst (row_offline_pages env action ps known w)) = map page_key ps"
  by (induction env action ps known w rule: row_offline_pages.induct)
    (auto simp: page_key_def Let_def split: prod.splits)

definition row_ok :: "row_record \<Rightarrow> bool" where
  "row_ok rr \<longleftrightarrow> rr_count rr = page_errors (rr_pages rr) \<and>
     length (rr_fields rr) = ROW_LOCATION_FIELDS_NUM \<and>
     (\<forall>p \<in> set (rr_pages rr). pa_addr p AND PAGE_MASK = pa_addr p)"

definition window_pages :: "u64 \<Rightarrow> time_t \<Rightarrow> row_record \<Rightarrow> page_addr list" where
  "window_pages cyc time rr =
     (if time - rr_start rr > cyc then dropWhile (\<lambda>p. time - pa_start p > cyc) (rr_pages rr)
      else rr_pages rr)"

lemma row_refresh_window:
  assumes "rr_count rr = page_errors (rr_pages rr)"
  shows "rr_pages (row_refresh cyc time rr) = window_pages cyc time rr \<and>
    rr_count (row_refresh cyc time rr) = page_errors (window_pages cyc time rr)"
  using assms row_expire_sum [of cyc time "rr_pages rr"]
  by (simp add: row_refresh_def window_pages_def Let_def)

lemma row_refresh_same [simp]:
  "rr_type (row_refresh cyc time rr) = rr_type rr" "rr_fields (row_refresh cyc time rr) = rr_fields rr"
  by (simp_all add: row_refresh_def Let_def split: prod.splits)

lemma row_offline_same:
  assumes "row_offline env action (rr, w) = Some (rr', w')"
  shows "map page_key (rr_pages rr') = map page_key (rr_pages rr) \<and> rr_count rr' = rr_count rr \<and>
    rr_type rr' = rr_type rr \<and> rr_fields rr' = rr_fields rr \<and> rr_start rr' = rr_start rr \<and>
    (action \<le> OFFLINE_ACCOUNT \<longrightarrow> w' = w)"
  using assms row_offline_pages_key [of env action "rr_pages rr" "[]" w]
  by (auto simp: row_offline_def Let_def split: bind_splits if_splits prod.splits)

lemma row_count_window:
  assumes "rr_count rr = page_errors (rr_pages rr)"
    and "row_count env action cyc thr time (rr, w) = Some (rr', w')"
  shows "map page_key (rr_pages rr') = map page_key (window_pages cyc time rr) \<and>
    rr_count rr' = page_errors (window_pages cyc time rr) \<and>
    rr_type rr' = rr_type rr \<and> rr_fields rr' = rr_fields rr \<and>
    (page_errors (window_pages cyc time rr) < thr \<longrightarrow> w' = w)"
  using assms(2) row_refresh_window [OF assms(1), of cyc time]
    row_offline_same [of env action "row_refresh cyc time rr" w rr' w']
  by (auto simp: row_count_def Let_def not_le [symmetric] split: bind_splits if_splits)

text \<open>With times in order, dropping from the front is dropping everything that is too old.\<close>

lemma age_antimono: "a \<le> b \<Longrightarrow> b \<le> t \<Longrightarrow> t - b \<le> t - a" for a b t :: u64
  by (simp add: word_le_nat_alt unat_sub diff_le_mono2)

lemma dropWhile_window:
  assumes "sorted_wrt (\<lambda>p q. pa_start p \<le> pa_start q) ps" and "\<forall>p \<in> set ps. pa_start p \<le> time"
  shows "dropWhile (\<lambda>p. time - pa_start p > cyc) ps = filter (\<lambda>p. time - pa_start p \<le> cyc) ps"
  using assms
proof (induction ps)
  case (Cons p ps)
  show ?case
  proof (cases "time - pa_start p > cyc")
    case True
    then show ?thesis using Cons by (simp add: not_le [symmetric])
  next
    case False
    have "time - pa_start q \<le> cyc" if "q \<in> set ps" for q
      using Cons.prems that False age_antimono [of "pa_start p" "pa_start q" time] by fastforce
    then show ?thesis using False by (simp add: filter_id_conv)
  qed
qed simp

lemma window_pages_filter:
  assumes "sorted_wrt (\<lambda>p q. pa_start p \<le> pa_start q) (rr_pages rr)"
    and "\<forall>p \<in> set (rr_pages rr). rr_start rr \<le> pa_start p \<and> pa_start p \<le> time"
  shows "window_pages cyc time rr = filter (\<lambda>p. time - pa_start p \<le> cyc) (rr_pages rr)"
proof (cases "time - rr_start rr > cyc")
  case True
  then show ?thesis using dropWhile_window [OF assms(1)] assms(2) by (simp add: window_pages_def)
next
  case False
  have "time - pa_start p \<le> cyc" if "p \<in> set (rr_pages rr)" for p
    using assms(2) that False age_antimono [of "rr_start rr" "pa_start p" time] by fastforce
  then show ?thesis using False by (simp add: window_pages_def filter_id_conv)
qed

text \<open>
  C8: with events in the order of time, counting keeps exactly the pages of the row that are not older
  than the cycle, the counter is the sum of their errors, and the kernel is called only when this sum
  reaches the threshold.
\<close>

theorem row_window_exact:
  assumes "rr_count rr = page_errors (rr_pages rr)"
    and "sorted_wrt (\<lambda>p q. pa_start p \<le> pa_start q) (rr_pages rr)"
    and "\<forall>p \<in> set (rr_pages rr). rr_start rr \<le> pa_start p \<and> pa_start p \<le> time"
    and "row_count env action cyc thr time (rr, w) = Some (rr', w')"
  shows "map page_key (rr_pages rr') =
      map page_key (filter (\<lambda>p. time - pa_start p \<le> cyc) (rr_pages rr)) \<and>
    rr_count rr' = page_errors (rr_pages rr') \<and> (rr_count rr' < thr \<longrightarrow> w' = w)"
proof -
  from row_count_window [OF assms(1,4)] window_pages_filter [OF assms(2,3), of cyc]
  have "map page_key (rr_pages rr') = map page_key (filter (\<lambda>p. time - pa_start p \<le> cyc) (rr_pages rr))"
    and "rr_count rr' = page_errors (filter (\<lambda>p. time - pa_start p \<le> cyc) (rr_pages rr))"
    and "rr_count rr' < thr \<longrightarrow> w' = w" by simp_all
  moreover from page_errors_key [OF this(1)] this(2) have "rr_count rr' = page_errors (rr_pages rr')" by simp
  ultimately show ?thesis by blast
qed

theorem row_window_exact_witness:
  "\<exists>rr' w'. row_count (demo_answer None) OFFLINE_ACCOUNT 100 5 1000
      (row_record0\<lparr>rr_pages := [new_page 0 3 800, new_page 0 4 950], rr_start := 800, rr_count := 7\<rparr>, []) =
      Some (rr', w') \<and> map page_key (rr_pages rr') = [(0, 4, 950)] \<and> w' = []"
proof -
  let ?rr = "row_record0\<lparr>rr_pages := [new_page 0 3 800, new_page 0 4 950], rr_start := 800, rr_count := 7\<rparr>"
  have refresh: "row_refresh 100 1000 ?rr = ?rr\<lparr>rr_pages := [new_page 0 4 950], rr_count := 4, rr_start := 950\<rparr>"
    by (simp add: row_refresh_def new_page_def)
  have id: "row_record_get_id (row_refresh 100 1000 ?rr) \<noteq> None"
    using row_record_get_id_fits [of "row_refresh 100 1000 ?rr"]
    by (auto simp: row_record0_def ROW_LOCATION_FIELDS_NUM_def list_all_iff)
  obtain rr' w' where c: "row_count (demo_answer None) OFFLINE_ACCOUNT 100 5 1000 (?rr, []) = Some (rr', w')"
    using id refresh by (auto simp: row_count_def row_offline_def Let_def)
  from row_window_exact [OF _ _ _ c] have "map page_key (rr_pages rr') = [(0, 4, 950)] \<and> rr_count rr' = page_errors (rr_pages rr')
      \<and> (rr_count rr' < 5 \<longrightarrow> w' = [])"
    by (simp add: new_page_def page_key_def)
  moreover from this have "rr_count rr' = 4"
    using page_errors_key [of "rr_pages rr'" "[new_page 0 4 950]"] by (simp add: page_key_def new_page_def)
  ultimately show ?thesis using c by auto
qed

section \<open>All runs\<close>

definition row_place :: "row_record \<Rightarrow> row_location_type \<times> s32 list" where
  "row_place rr = (rr_type rr, take (length (fields_of (rr_type rr))) (rr_fields rr))"

lemma same_row_iff: "row_record_is_same_row r1 r2 \<longleftrightarrow> row_place r1 = row_place r2"
  by (auto simp: row_record_is_same_row_def row_place_def Let_def)

definition rows_ok :: "row_record list \<Rightarrow> bool" where
  "rows_ok rows \<longleftrightarrow> (\<forall>rr \<in> set rows. row_ok rr) \<and> distinct (map row_place rows)"

inductive row_reach :: "row_sys \<Rightarrow> bool" where
  start: "ras_row_account_init getenv writable erange no_unit0 row_sys0 = Some s \<Longrightarrow> row_reach s"
| event: "row_reach s \<Longrightarrow> ras_record_row_error env detail count time addr s = Some s' \<Longrightarrow> row_reach s'"
| free: "row_reach s \<Longrightarrow> row_reach (row_record_infos_free s)"

lemma find_row_Some:
  "find_row r rows = Some (xs, rr, ys) \<Longrightarrow> rows = xs @ rr # ys \<and> row_place rr = row_place r"
  by (induction rows arbitrary: xs) (auto simp: same_row_iff split: if_splits)

lemma find_row_None: "find_row r rows = None \<Longrightarrow> row_place r \<notin> row_place ` set rows"
  by (induction rows) (auto simp: same_row_iff split: if_splits)

lemma parse_fields_length: "parse_fields detail fs = Some vs \<Longrightarrow> length vs = length fs"
  by (induction fs arbitrary: vs) (auto split: bind_splits)

lemma parse_row_info_length: "parse_row_info detail = Some r \<Longrightarrow> length (rr_fields r) = ROW_LOCATION_FIELDS_NUM"
  using fields_of_length
  by (auto simp: parse_row_info_def ROW_LOCATION_FIELDS_NUM_def dest!: parse_fields_length split: bind_splits)

lemma row_ok_add: "row_ok rr \<Longrightarrow> row_ok (row_add_page (new_page addr count time) rr)"
  by (auto simp: row_ok_def row_add_page_def new_page_def PAGE_MASK_idem)

lemma row_place_add [simp]: "row_place (row_add_page p rr) = row_place rr"
  by (simp add: row_place_def row_add_page_def)

lemma row_ok_new:
  assumes "length (rr_fields r) = ROW_LOCATION_FIELDS_NUM"
  shows "row_ok (row_record_copy (row_record0\<lparr>rr_start := time, rr_type := rr_type r\<rparr>) r) \<and>
    row_place (row_record_copy (row_record0\<lparr>rr_start := time, rr_type := rr_type r\<rparr>) r) = row_place r"
  using assms by (simp add: row_ok_def row_record_copy_def row_record0_def row_place_def)

lemma row_count_ok:
  assumes ok: "row_ok rr" and count: "row_count env action cyc thr time (rr, w) = Some (rr', w')"
  shows "row_ok rr' \<and> row_place rr' = row_place rr"
proof -
  have sum: "rr_count rr = page_errors (rr_pages rr)" using ok by (simp add: row_ok_def)
  note win = row_count_window [OF sum count]
  have "set (window_pages cyc time rr) \<subseteq> set (rr_pages rr)"
    by (auto simp: window_pages_def dest: set_dropWhileD)
  moreover have "pa_addr ` set (rr_pages rr') = pa_addr ` set (window_pages cyc time rr)"
  proof -
    have "map pa_addr qs = map fst (map page_key qs)" for qs by (simp add: page_key_def)
    then have "map pa_addr (rr_pages rr') = map pa_addr (window_pages cyc time rr)" using win by metis
    then show ?thesis by (metis list.set_map)
  qed
  ultimately have "\<forall>a \<in> pa_addr ` set (rr_pages rr'). a AND PAGE_MASK = a"
    using ok by (auto simp: row_ok_def)
  moreover have "rr_count rr' = page_errors (rr_pages rr')"
    using win page_errors_key [of "rr_pages rr'" "window_pages cyc time rr"] by simp
  ultimately show ?thesis using ok win by (simp add: row_ok_def row_place_def)
qed

lemma row_lookup_insert_ok:
  assumes ok: "rows_ok rows" and r: "length (rr_fields r) = ROW_LOCATION_FIELDS_NUM"
  shows "case row_lookup_insert env r count addr time rows of
      Inl rows' \<Rightarrow> rows_ok rows'
    | Inr (xs, rr, ys) \<Rightarrow> rows_ok (xs @ rr # ys) \<and> row_place rr = row_place r"
proof (cases "find_row r rows")
  case None
  then show ?thesis
    using ok row_ok_new [OF r, of time] find_row_None [OF None]
    by (auto simp: row_lookup_insert_def rows_ok_def Let_def row_ok_add)
next
  case (Some x)
  obtain xs rr ys where x: "x = (xs, rr, ys)" by (cases x)
  from find_row_Some [of r rows xs rr ys] Some x
  have "rows = xs @ rr # ys" "row_place rr = row_place r" by auto
  then show ?thesis
    using Some x ok by (auto simp: row_lookup_insert_def rows_ok_def row_ok_add)
qed

lemma row_event_ok:
  assumes ok: "rows_ok (row_head s)" and event: "ras_record_row_error env detail count time addr s = Some s'"
  shows "rows_ok (row_head s')"
proof (cases "row_offline_action s = OFFLINE_OFF \<or> parse_row_info detail = None")
  case True
  then show ?thesis using assms by (auto simp: ras_record_row_error_def split: if_splits)
next
  case False
  then obtain r where r: "parse_row_info detail = Some r" by auto
  note ins = row_lookup_insert_ok [OF ok parse_row_info_length [OF r], of env count addr time]
  show ?thesis
  proof (cases "row_lookup_insert env r count addr time (row_head s)")
    case (Inl rows)
    then show ?thesis using event False r ins by (auto simp: ras_record_row_error_def)
  next
    case (Inr x)
    obtain xs rr ys where x: "x = (xs, rr, ys)" by (cases x)
    obtain rr' w where count: "row_count (row_kernel env) (row_offline_action s)
        (iso_val (row_cycle s)) (iso_val (row_threshold s)) time (rr, row_writes s) = Some (rr', w)"
      and s': "row_head s' = xs @ rr' # ys"
      using event False r Inr x by (auto simp: ras_record_row_error_def split: bind_splits)
    have "rows_ok (xs @ rr # ys)" using ins Inr x by simp
    then show ?thesis
      using row_count_ok [OF _ count] s' by (auto simp: rows_ok_def)
  qed
qed

lemma row_start_ok:
  "ras_row_account_init getenv writable erange no_unit0 row_sys0 = Some s \<Longrightarrow> rows_ok (row_head s)"
  by (auto simp: ras_row_account_init_def row_isolation_init_def row_sys0_def rows_ok_def
      split: if_splits bind_splits)

text \<open>
  C9: in every state the program can reach, there is one record for a row, its counter is the sum of the
  errors of the pages it lists, and these are page addresses.
\<close>

theorem row_reach_invariant:
  assumes "row_reach s"
  shows "(\<forall>rr \<in> set (row_head s). rr_count rr = page_errors (rr_pages rr) \<and>
      (\<forall>p \<in> set (rr_pages rr). pa_addr p AND PAGE_MASK = pa_addr p)) \<and>
    distinct (map row_place (row_head s))"
proof -
  have "rows_ok (row_head s)"
    using assms
  proof (induction rule: row_reach.induct)
    case (free s)
    then show ?case by (simp add: row_record_infos_free_def rows_ok_def)
  qed (use row_start_ok row_event_ok in blast)+
  then show ?thesis by (auto simp: rows_ok_def row_ok_def)
qed

section \<open>Every page once\<close>

definition first_type :: "otype \<Rightarrow> otype" where
  "first_type action = (if action = OFFLINE_SOFT_THEN_HARD then OFFLINE_SOFT else action)"

definition kernel_accepts :: "page_env \<Rightarrow> bool" where
  "kernel_accepts env \<longleftrightarrow> (\<forall>t a. \<exists>rc. kernel_answer env t a = Some rc \<and> 0 \<le> rc)"

lemma silence_page_accepted:
  assumes "kernel_accepts env" and "OFFLINE_ACCOUNT < action"
  shows "silence_page env action a w = (w @ [write_of a (first_type action)], PAGE_OFFLINE)"
proof -
  obtain rc where "kernel_answer env (first_type action) a = Some rc" "0 \<le> rc"
    using assms(1) by (auto simp: kernel_accepts_def)
  then show ?thesis
    using assms(2) by (auto simp: silence_page_def do_page_offline_eq first_type_def split: if_splits)
qed

text \<open>The addresses that are handed over: those whose first listing is not offline.\<close>

definition due_first :: "u64 \<Rightarrow> page_addr list \<Rightarrow> bool" where
  "due_first a ps \<longleftrightarrow>
     (case find (\<lambda>p. pa_addr p = a) ps of None \<Rightarrow> False | Some p \<Rightarrow> pa_offlined p \<noteq> PAGE_OFFLINE)"

definition mark_offline :: "page_addr \<Rightarrow> page_addr" where
  "mark_offline p = p\<lparr>pa_offlined := PAGE_OFFLINE\<rparr>"

lemma mark_offline_same: "pa_offlined p = PAGE_OFFLINE \<Longrightarrow> mark_offline p = p"
  by (cases p) (simp add: mark_offline_def)

lemma due_first_Cons:
  "due_first a (p # ps) = (if pa_addr p = a then pa_offlined p \<noteq> PAGE_OFFLINE else due_first a ps)"
  by (simp add: due_first_def)

lemma row_offline_pages_once:
  assumes env: "kernel_accepts env" and action: "OFFLINE_ACCOUNT < action"
    and "length known + length ps \<le> SAME_PAGE_IN_ROW"
    and "row_offline_pages env action ps known w = (ps', w')"
  shows "\<exists>as. w' = w @ map (\<lambda>a. write_of a (first_type action)) as \<and> distinct as \<and>
    set as = {a. a \<notin> set known \<and> due_first a ps} \<and> ps' = map mark_offline ps"
  using assms(3,4)
proof (induction ps arbitrary: known w ps' w')
  case Nil
  then show ?case by (simp add: due_first_def)
next
  case (Cons p ps)
  have len: "length known < SAME_PAGE_IN_ROW" using Cons.prems(1) by simp
  consider "pa_offlined p = PAGE_OFFLINE" | "pa_offlined p \<noteq> PAGE_OFFLINE" "pa_addr p \<in> set known" |
    "pa_offlined p \<noteq> PAGE_OFFLINE" "pa_addr p \<notin> set known" by blast
  then show ?case
  proof cases
    case 1
    obtain qs v where q: "row_offline_pages env action ps (known @ [pa_addr p]) w = (qs, v)" by fastforce
    have "length (known @ [pa_addr p]) + length ps \<le> SAME_PAGE_IN_ROW" using Cons.prems(1) by simp
    from Cons.IH [OF this q] obtain as where as: "v = w @ map (\<lambda>a. write_of a (first_type action)) as"
      "distinct as" "set as = {a. a \<notin> set (known @ [pa_addr p]) \<and> due_first a ps}" "qs = map mark_offline ps"
      by blast
    have "ps' = p # qs" "w' = v" using 1 q len Cons.prems(2) by auto
    moreover have "set as = {a. a \<notin> set known \<and> due_first a (p # ps)}" using as(3) 1 by (auto simp: due_first_Cons)
    ultimately show ?thesis using as 1 by (intro exI [of _ as]) (simp add: mark_offline_same)
  next
    case 2
    obtain qs v where q: "row_offline_pages env action ps known w = (qs, v)" by fastforce
    have "length known + length ps \<le> SAME_PAGE_IN_ROW" using Cons.prems(1) by simp
    from Cons.IH [OF this q] obtain as where as: "v = w @ map (\<lambda>a. write_of a (first_type action)) as"
      "distinct as" "set as = {a. a \<notin> set known \<and> due_first a ps}" "qs = map mark_offline ps"
      by blast
    have "ps' = mark_offline p # qs" "w' = v" using 2 q len Cons.prems(2) by (auto simp: mark_offline_def)
    moreover have "set as = {a. a \<notin> set known \<and> due_first a (p # ps)}" using as(3) 2 by (auto simp: due_first_Cons)
    ultimately show ?thesis using as by (intro exI [of _ as]) simp
  next
    case 3
    let ?w = "w @ [write_of (pa_addr p) (first_type action)]"
    obtain qs v where q: "row_offline_pages env action ps (known @ [pa_addr p]) ?w = (qs, v)" by fastforce
    have "length (known @ [pa_addr p]) + length ps \<le> SAME_PAGE_IN_ROW" using Cons.prems(1) by simp
    from Cons.IH [OF this q] obtain as where as: "v = ?w @ map (\<lambda>a. write_of a (first_type action)) as"
      "distinct as" "set as = {a. a \<notin> set (known @ [pa_addr p]) \<and> due_first a ps}" "qs = map mark_offline ps"
      by blast
    have "ps' = mark_offline p # qs" "w' = v"
      using 3 q len Cons.prems(2) silence_page_accepted [OF env action, of "pa_addr p" w]
      by (auto simp: mark_offline_def)
    moreover have "set (pa_addr p # as) = {a. a \<notin> set known \<and> due_first a (p # ps)}"
      using as(3) 3 by (auto simp: due_first_Cons)
    moreover have "pa_addr p \<notin> set as" using as(3) by simp
    ultimately show ?thesis using as by (intro exI [of _ "pa_addr p # as"]) simp
  qed
qed

text \<open>
  C10: when a row of at most 200 pages reaches its threshold and the kernel accepts its pages, the pages
  written to the kernel are exactly those that were not offline where the row lists them first, each of
  them once however often it is listed, and every listing of the row is marked offline with nothing else of
  it changed.
\<close>

theorem row_offline_each_page_once:
  assumes "kernel_accepts env" and "OFFLINE_ACCOUNT < action"
    and "length (rr_pages rr) \<le> SAME_PAGE_IN_ROW"
    and "row_offline env action (rr, w) = Some (rr', w')"
  shows "\<exists>as. w' = w @ map (\<lambda>a. write_of a (first_type action)) as \<and> distinct as \<and>
    set as = {a. due_first a (rr_pages rr)} \<and> rr' = rr\<lparr>rr_pages := map mark_offline (rr_pages rr)\<rparr>"
proof -
  obtain ps v where ps: "row_offline_pages env action (rr_pages rr) [] w = (ps, v)" by fastforce
  have "rr' = rr\<lparr>rr_pages := ps\<rparr>" "w' = v"
    using assms(2,4) ps by (auto simp: row_offline_def not_le [symmetric] split: bind_splits)
  then show ?thesis using row_offline_pages_once [OF assms(1,2) _ ps] assms(3) by auto
qed

lemma row_offline_defined:
  "row_record_get_id rr \<noteq> None \<Longrightarrow> \<exists>y. row_offline env action (rr, w) = Some y"
  by (auto simp: row_offline_def Let_def split_beta)

theorem row_offline_each_page_once_witness:
  "\<exists>rr' w'. row_offline (demo_answer (Some 1)) OFFLINE_SOFT_THEN_HARD
      (row_record0\<lparr>rr_pages := [new_page 0x1000 1 5, new_page 0x2000 1 6, new_page 0x1000 2 7]\<rparr>, []) =
      Some (rr', w') \<and> length w' = 2 \<and> set w' = {write_of 0x1000 OFFLINE_SOFT, write_of 0x2000 OFFLINE_SOFT}"
proof -
  let ?rr = "row_record0\<lparr>rr_pages := [new_page 0x1000 1 5, new_page 0x2000 1 6, new_page 0x1000 2 7]\<rparr>"
  have env: "kernel_accepts (demo_answer (Some 1))" by (simp add: kernel_accepts_def demo_answer_def)
  have "row_record_get_id ?rr \<noteq> None"
    using row_record_get_id_fits [of ?rr] by (auto simp: row_record0_def ROW_LOCATION_FIELDS_NUM_def list_all_iff)
  then obtain rr' w' where
    off: "row_offline (demo_answer (Some 1)) OFFLINE_SOFT_THEN_HARD (?rr, []) = Some (rr', w')"
    using row_offline_defined [of ?rr "demo_answer (Some 1)" OFFLINE_SOFT_THEN_HARD "[]"] by auto
  have small: "length (rr_pages ?rr) \<le> SAME_PAGE_IN_ROW" by (simp add: SAME_PAGE_IN_ROW_def)
  have due: "{a. due_first a (rr_pages ?rr)} = {0x1000, 0x2000}"
    by (auto simp: due_first_Cons due_first_def new_page_def PAGE_MASK_num)
  from row_offline_each_page_once [OF env _ small off] obtain as where
    as: "w' = [] @ map (\<lambda>a. write_of a (first_type OFFLINE_SOFT_THEN_HARD)) as" "distinct as"
      "set as = {0x1000, 0x2000}"
    by (simp only: gt_account_iff simp_thms due) blast
  have "length as = 2" using distinct_card [OF as(2)] as(3) by simp
  then have "length w' = 2 \<and> set w' = {write_of 0x1000 OFFLINE_SOFT, write_of 0x2000 OFFLINE_SOFT}"
    using as(1,3) by (simp add: first_type_def)
  then show ?thesis using off by blast
qed

section \<open>Reading a location back\<close>

text \<open>The location of an error, the way the kernel's driver prints it.\<close>

fun print_fields :: "(string \<times> nat) list \<Rightarrow> string" where
  "print_fields [] = []"
| "print_fields ((n, v) # fs) = n @ '':'' @ to_base 10 v @ '' '' @ print_fields fs"

definition apei_detail :: "nat list \<Rightarrow> string" where
  "apei_detail vs = ''APEI location: '' @
     print_fields (zip [''node'', ''card'', ''module'', ''rank'', ''bank'', ''device'', ''row'', ''column''] vs)"

lemma strstr_skip: "\<not> prefixb needle (c # s) \<Longrightarrow> strstr (c # s) needle = strstr s needle"
  by simp

lemma strstr_number:
  "\<not> isdigit c \<Longrightarrow> strstr (to_base 10 v @ s) (c # cs) = strstr s (c # cs)"
  by (rule strstr_digits [OF to_base_10_digits])

lemma not_digits [simp]:
  "\<not> isdigit CHR ''n''" "\<not> isdigit CHR ''c''" "\<not> isdigit CHR ''m''" "\<not> isdigit CHR ''r''"
  "\<not> isdigit CHR ''b''" "\<not> isdigit CHR ''d''" "\<not> isdigit CHR '' ''" "\<not> isdigit CHR ''A''"
  by (simp_all add: isdigit_def code_of_def)

lemma parse_number:
  assumes "strstr str anchor = Some (anchor @ to_base 10 v @ CHR '' '' # s)" and "v < 2 ^ 63"
  shows "parse_value str anchor 10 = Some (word_of_int (int v))"
proof -
  have "strtol 10 (to_base 10 v @ CHR '' '' # s) = (int v, CHR '' '' # s, False)"
    using assms(2) by (intro strtol_to_base_10) simp_all
  then show ?thesis using assms(1) by (simp add: parse_value_def)
qed

text \<open>
  C11: the location of an error is read back from the text of the kernel: the numbers of node, card,
  module, rank, device, bank and row, whatever they are.
\<close>

theorem parse_row_info_apei:
  assumes "list_all (\<lambda>v. v < 2 ^ 31) [n, c, m, r, b, d, w, k]"
  shows "parse_row_info (apei_detail [n, c, m, r, b, d, w, k]) =
    Some (row_record0\<lparr>rr_type := GHES,
      rr_fields := map of_nat [n, c, m, r, d, b, w] @ [0, 0]\<rparr>)"
proof -
  let ?s = "apei_detail [n, c, m, r, b, d, w, k]"
  have lt: "v < 2 ^ 63" if "v < 2 ^ 31" for v :: nat using that by simp
  have sn: "strstr ?s ''node:'' = Some (''node:'' @ to_base 10 n @ CHR '' '' # print_fields [(''card'', c), (''module'', m), (''rank'', r), (''bank'', b), (''device'', d), (''row'', w), (''column'', k)])"
    by (simp add: apei_detail_def strstr_number)
  have sc: "strstr ?s ''card:'' = Some (''card:'' @ to_base 10 c @ CHR '' '' # print_fields [(''module'', m), (''rank'', r), (''bank'', b), (''device'', d), (''row'', w), (''column'', k)])"
    by (simp add: apei_detail_def strstr_number)
  have sm: "strstr ?s ''module:'' = Some (''module:'' @ to_base 10 m @ CHR '' '' # print_fields [(''rank'', r), (''bank'', b), (''device'', d), (''row'', w), (''column'', k)])"
    by (simp add: apei_detail_def strstr_number)
  have sr: "strstr ?s ''rank:'' = Some (''rank:'' @ to_base 10 r @ CHR '' '' # print_fields [(''bank'', b), (''device'', d), (''row'', w), (''column'', k)])"
    by (simp add: apei_detail_def strstr_number)
  have sb: "strstr ?s ''bank:'' = Some (''bank:'' @ to_base 10 b @ CHR '' '' # print_fields [(''device'', d), (''row'', w), (''column'', k)])"
    by (simp add: apei_detail_def strstr_number)
  have sd: "strstr ?s ''device:'' = Some (''device:'' @ to_base 10 d @ CHR '' '' # print_fields [(''row'', w), (''column'', k)])"
    by (simp add: apei_detail_def strstr_number)
  have sw: "strstr ?s ''row:'' = Some (''row:'' @ to_base 10 w @ CHR '' '' # print_fields [(''column'', k)])"
    by (simp add: apei_detail_def strstr_number)
  have loc: "strstr ?s ''APEI location'' \<noteq> None" by (simp add: apei_detail_def)
  note nums = parse_number [OF sn] parse_number [OF sc] parse_number [OF sm] parse_number [OF sr]
    parse_number [OF sd] parse_number [OF sb] parse_number [OF sw]
  have "parse_fields ?s apei_fields = Some (map of_nat [n, c, m, r, d, b, w])"
    using assms nums by (simp add: apei_fields_def decimal_field_def)
  then show ?thesis
    using loc by (simp add: parse_row_info_def ROW_LOCATION_FIELDS_NUM_def numeral_eq_Suc)
qed

theorem parse_row_info_apei_witness:
  "parse_row_info (apei_detail [0, 1, 2, 3, 4, 5, 67890, 7]) =
    Some (row_record0\<lparr>rr_type := GHES, rr_fields := [0, 1, 2, 3, 5, 4, 67890, 0, 0]\<rparr>)"
  using parse_row_info_apei [of 0 1 2 3 4 5 67890 7] by simp

text \<open>A run: rows are accounted, and two errors of one row arrive.\<close>

definition demo_detail :: string where
  "demo_detail = ''APEI location: node:0 card:1 module:2 rank:3 bank:4 device:5 row:67 column:7 ''"

definition demo_row_env :: row_env where
  "demo_row_env = \<lparr>row_kernel = demo_answer None, row_mem = True, page_mem = True\<rparr>"

definition demo_row_sys :: row_sys where
  "demo_row_sys = row_sys0\<lparr>row_offline_action := OFFLINE_ACCOUNT,
     row_threshold := row_threshold0\<lparr>iso_env := ''50'', iso_val := 50, iso_overflow := False\<rparr>,
     row_cycle := row_cycle0\<lparr>iso_env := ''24h'', iso_val := 1440, iso_overflow := False, iso_unit := ''''\<rparr>\<rparr>"

lemma demo_row_parse: "map_option (\<lambda>r. (rr_type r, rr_fields r)) (parse_row_info demo_detail) =
    Some (GHES, [0, 1, 2, 3, 5, 4, 67, 0, 0])"
  by code_simp

lemma demo_row_init:
  "ras_row_account_init (\<lambda>n. if n = ''ROW_CE_ACTION'' then Some ''account'' else None) (\<lambda>_. True) False False row_sys0 =
     Some demo_row_sys"
proof -
  let ?env = "\<lambda>n. if n = ''ROW_CE_ACTION'' then Some ''account'' else None"
  have "find_choice ''account'' offline_choice = Some OFFLINE_ACCOUNT" by code_simp
  moreover have "parse_isolation_env ?env False False row_threshold0 = Some (row_threshold demo_row_sys)"
    using demo_parse(1)
    by (simp add: parse_isolation_env_def check_isolation_env_def Let_def row_threshold0_def threshold0_def
        demo_sys_def demo_row_sys_def split: option.splits prod.splits)
  moreover have "parse_isolation_env ?env False False row_cycle0 = Some (row_cycle demo_row_sys)"
    using demo_parse(2)
    by (simp add: parse_isolation_env_def check_isolation_env_def Let_def row_cycle0_def cycle0_def
        demo_sys_def demo_row_sys_def split: option.splits prod.splits)
  ultimately show ?thesis
    by (simp add: ras_row_account_init_def row_isolation_init_def row_offline_init_def unless_writable_def
        row_sys0_def demo_row_sys_def)
qed

theorem row_reach_invariant_witness:
  "\<exists>s. ras_record_row_error demo_row_env demo_detail 3 1000 0x12345678 demo_row_sys = Some s \<and>
    map rr_count (row_head s) = [3] \<and>
    (\<forall>rr \<in> set (row_head s). rr_count rr = page_errors (rr_pages rr))"
proof -
  obtain r where r: "parse_row_info demo_detail = Some r" "rr_type r = GHES" "rr_fields r = [0, 1, 2, 3, 5, 4, 67, 0, 0]"
    using demo_row_parse by auto
  let ?rr = "row_add_page (new_page 0x12345678 3 1000)
      (row_record_copy (row_record0\<lparr>rr_start := 1000, rr_type := GHES\<rparr>) r)"
  have "row_record_get_id ?rr \<noteq> None"
    using row_record_get_id_fits [of ?rr] r
    by (auto simp: row_record0_def row_record_copy_def row_add_page_def ROW_LOCATION_FIELDS_NUM_def)
  moreover have refresh: "row_refresh 1440 1000 ?rr = ?rr"
    by (simp add: row_refresh_def row_record_copy_def row_add_page_def)
  moreover have thr: "\<not> 50 \<le> rr_count ?rr"
    by (simp add: row_record_copy_def row_add_page_def new_page_def row_record0_def)
  ultimately have "row_count (demo_answer None) OFFLINE_ACCOUNT 1440 50 1000 (?rr, []) = Some (?rr, [])"
    by (auto simp: row_count_def)
  then obtain s where s: "ras_record_row_error demo_row_env demo_detail 3 1000 0x12345678 demo_row_sys = Some s"
    "row_head s = [?rr]"
    using r by (simp add: ras_record_row_error_def demo_row_sys_def row_sys0_def row_lookup_insert_def
        demo_row_env_def)
  have "row_reach s" by (rule row_reach.event [OF row_reach.start [OF demo_row_init] s(1)])
  moreover have "rr_count ?rr = 3"
    by (simp add: row_record_copy_def row_add_page_def new_page_def row_record0_def)
  ultimately show ?thesis using s row_reach_invariant [of s] by auto
qed

end
