(* ===== verification/Trace_Event.thy ===== *)
theory Trace_Event
  imports C_Library
begin

text \<open>
  What the event handlers share: the fields of a trace event, which the tracing library reads for them,
  the clock they stamp an event with, and the names of the log levels of \<open>types.c\<close>.
\<close>

section \<open>A trace event\<close>

text \<open>
  What \<open>tep_get_field_val\<close> and \<open>tep_get_field_raw\<close> answer for a record: the number of a field, the
  string of a field, the words of an array and its length in bytes, or nothing when the event has no
  such field, and then what the library writes to the output about it.
\<close>

record trace_event =
  field_val :: "string \<Rightarrow> u64 option"
  field_str :: "string \<Rightarrow> string option"
  field_words :: "string \<Rightarrow> (u64 list \<times> s32) option"
  complaint :: "string \<Rightarrow> string"

section \<open>Log levels\<close>

definition LOGLEVEL_EMERG :: nat where "LOGLEVEL_EMERG = 0"
definition LOGLEVEL_ALERT :: nat where "LOGLEVEL_ALERT = 1"
definition LOGLEVEL_CRIT :: nat where "LOGLEVEL_CRIT = 2"
definition LOGLEVEL_ERR :: nat where "LOGLEVEL_ERR = 3"
definition LOGLEVEL_WARNING :: nat where "LOGLEVEL_WARNING = 4"
definition LOGLEVEL_NOTICE :: nat where "LOGLEVEL_NOTICE = 5"
definition LOGLEVEL_INFO :: nat where "LOGLEVEL_INFO = 6"
definition LOGLEVEL_DEBUG :: nat where "LOGLEVEL_DEBUG = 7"

definition loglevel_str :: "nat \<Rightarrow> string" where
  "loglevel_str n =
     [''[EMERG]'', ''[ALERT]'', ''[CRIT]'', ''[ERROR]'', ''[WARNING]'', ''[NOTICE]'', ''[INFO]'',
      ''[DEBUG]''] ! n"

section \<open>The clock\<close>

text \<open>
  The uptime clock of the trace when the kernel has one, else the time of day. \<open>strf\<close> stands for
  \<open>localtime\<close> and \<open>strftime\<close> with the format of the program; \<open>None\<close> is a null pointer from
  \<open>localtime\<close>. The tick rate, which \<open>sysconf\<close> returns, is positive.
\<close>

record clock =
  use_uptime :: bool
  ts :: u64
  user_hz :: u64
  uptime_diff :: time_t
  time_now :: time_t
  strf :: "time_t \<Rightarrow> string option"

definition event_time :: "clock \<Rightarrow> time_t" where
  "event_time ck = (if use_uptime ck then ts ck div user_hz ck + uptime_diff ck else time_now ck)"

end
