(* ===== verification/Trigger.thy ===== *)
theory Trigger
  imports Trace_Event
begin

text \<open>
  \<open>trigger.c\<close> and how the handlers configure it: a program of the user that is run with a description
  of an event in its environment. \<open>getenv\<close> and \<open>access\<close> are parameters; running a program is the pair
  of its name and its environment. Allocations of strings succeed.
\<close>

text \<open>\<open>access(s, R_OK | X_OK)\<close> succeeds on the files for which \<open>runnable\<close> holds.\<close>

definition trigger_check :: "(string \<Rightarrow> string option) \<Rightarrow> (string \<Rightarrow> bool) \<Rightarrow> string \<Rightarrow> string option" where
  "trigger_check getenv runnable s =
     (let s = (case getenv ''TRIGGER_DIR'' of None \<Rightarrow> s | Some dir \<Rightarrow> dir @ ''/'' @ s)
      in if runnable s then Some s else None)"

text \<open>The set-up of one variable: the trigger keeps its value when the variable is not set or empty.\<close>

definition setup_trigger ::
  "(string \<Rightarrow> string option) \<Rightarrow> (string \<Rightarrow> bool) \<Rightarrow> string \<Rightarrow> string option \<Rightarrow> string option" where
  "setup_trigger getenv runnable var trigger =
     (case getenv var of
        None \<Rightarrow> trigger
      | Some t \<Rightarrow> if t \<noteq> [] then trigger_check getenv runnable t else trigger)"

type_synonym trigger_run = "string \<times> string list"

definition path_env :: "(string \<Rightarrow> string option) \<Rightarrow> string" where
  "path_env getenv =
     ''PATH='' @ (case getenv ''PATH'' of None \<Rightarrow> ''/sbin:/usr/sbin:/bin:/usr/bin'' | Some p \<Rightarrow> p)"

text \<open>A trigger is set only to a program that can be run.\<close>

lemma setup_trigger_runnable:
  assumes "setup_trigger getenv runnable var None = Some t"
  shows "runnable t"
  using assms by (auto simp: setup_trigger_def trigger_check_def Let_def split: option.splits if_splits)

end
