(* ===== verification/Mc_Handler.thy ===== *)
theory Mc_Handler
  imports Row_Isolation Trigger
begin

text \<open>
  \<open>ras-mc-handler.c\<close>: the handler of memory controller events. It prints and stores an event, watches the
  rate of corrected errors, and hands corrected errors to the accounting of pages and of rows, which
  share the event but not the clock. The static variables of the file are fields of \<open>mc_sys\<close>, together with
  the state of the two accounting parts.
\<close>

section \<open>The data\<close>

definition HW_EVENT_ERR_CORRECTED :: u64 where "HW_EVENT_ERR_CORRECTED = 0"
definition HW_EVENT_ERR_UNCORRECTED :: u64 where "HW_EVENT_ERR_UNCORRECTED = 1"
definition HW_EVENT_ERR_DEFERRED :: u64 where "HW_EVENT_ERR_DEFERRED = 2"
definition HW_EVENT_ERR_FATAL :: u64 where "HW_EVENT_ERR_FATAL = 3"
definition HW_EVENT_ERR_INFO :: u64 where "HW_EVENT_ERR_INFO = 4"

record ras_mc_event =
  mc_timestamp :: string
  error_count :: s32
  error_type :: string
  mc_msg :: string
  mc_label :: string
  mc_index :: u8
  top_layer :: "8 word"
  middle_layer :: "8 word"
  lower_layer :: "8 word"
  mc_address :: u64
  grain :: u64
  syndrome :: u64
  driver_detail :: string

record mc_sys =
  mc_pages :: page_sys
  mc_rows :: row_sys
  per_sec_ce_count :: u64
  cur :: time_t
  mc_ce_stat_threshold :: u64
  mc_ce_trigger :: "string option"
  mc_ue_trigger :: "string option"

text \<open>
  How the program was built, what the rest of the system answers during one event, and what comes of it:
  the output, the number of the field that could not be parsed, the event handed to the database, the
  warning about the rate, and the programs that were run.
\<close>

record mc_env =
  have_page_pfa :: bool
  have_row_pfa :: bool
  mc_clock :: clock
  monotonic :: "time_t option"
  page_answers :: page_env
  row_answers :: row_env
  mc_getenv :: "string \<Rightarrow> string option"

record mc_result =
  mr_out :: string
  mr_failed :: "nat option"
  mr_stored :: "ras_mc_event option"
  mr_warning :: "u64 option"
  mr_runs :: "trigger_run list"
  mr_sys :: mc_sys

section \<open>The steps\<close>

definition mc_event_trigger_setup ::
  "(string \<Rightarrow> string option) \<Rightarrow> (string \<Rightarrow> bool) \<Rightarrow> mc_sys \<Rightarrow> mc_sys" where
  "mc_event_trigger_setup getenv runnable s =
     s\<lparr>mc_ce_trigger := setup_trigger getenv runnable ''MC_CE_TRIGGER'' (mc_ce_trigger s),
       mc_ue_trigger := setup_trigger getenv runnable ''MC_UE_TRIGGER'' (mc_ue_trigger s)\<rparr>"

definition mc_trigger_env :: "(string \<Rightarrow> string option) \<Rightarrow> ras_mc_event \<Rightarrow> string list" where
  "mc_trigger_env getenv ev =
     [path_env getenv,
      ''TIMESTAMP='' @ mc_timestamp ev,
      ''COUNT='' @ fmt_d (error_count ev),
      ''TYPE='' @ error_type ev,
      ''MESSAGE='' @ mc_msg ev,
      ''LABEL='' @ mc_label ev,
      ''MC_INDEX='' @ fmt_u (mc_index ev),
      ''TOP_LAYER='' @ fmt_d (top_layer ev),
      ''MIDDLE_LAYER='' @ fmt_d (middle_layer ev),
      ''LOWER_LAYER='' @ fmt_d (lower_layer ev),
      ''ADDRESS='' @ fmt_x (mc_address ev),
      ''GRAIN='' @ fmt_d (grain ev),
      ''SYNDROME='' @ fmt_x (syndrome ev),
      ''DRIVER_DETAIL='' @ driver_detail ev]"

definition run_mc_trigger :: "(string \<Rightarrow> string option) \<Rightarrow> ras_mc_event \<Rightarrow> string \<Rightarrow> trigger_run" where
  "run_mc_trigger getenv ev trigger = (trigger, mc_trigger_env getenv ev)"

text \<open>The rate of corrected errors; the warning is the count.\<close>

definition ras_mc_event_stat :: "time_t \<Rightarrow> ras_mc_event \<Rightarrow> mc_sys \<Rightarrow> mc_sys \<times> u64 option" where
  "ras_mc_event_stat now e s =
     (if error_type e \<noteq> ''Corrected'' then (s, None)
      else
        let s = (if cur s = now then s\<lparr>per_sec_ce_count := per_sec_ce_count s + scast (error_count e)\<rparr>
                 else s\<lparr>cur := now, per_sec_ce_count := scast (error_count e)\<rparr>)
        in (s, if per_sec_ce_count s > mc_ce_stat_threshold s then Some (per_sec_ce_count s) else None))"

text \<open>The names of the two switches over the type of error.\<close>

definition mc_error_type :: "u64 \<Rightarrow> string" where
  "mc_error_type val =
     (if val = HW_EVENT_ERR_CORRECTED then ''Corrected''
      else if val = HW_EVENT_ERR_UNCORRECTED then ''Uncorrected''
      else if val = HW_EVENT_ERR_DEFERRED then ''Deferred''
      else if val = HW_EVENT_ERR_FATAL then ''Fatal''
      else ''Info'')"

definition mc_level :: "u64 \<Rightarrow> string" where
  "mc_level val =
     (if val = HW_EVENT_ERR_UNCORRECTED \<or> val = HW_EVENT_ERR_DEFERRED then loglevel_str LOGLEVEL_CRIT
      else if val = HW_EVENT_ERR_FATAL then loglevel_str LOGLEVEL_EMERG
      else if val = HW_EVENT_ERR_CORRECTED then loglevel_str LOGLEVEL_ERR
      else loglevel_str LOGLEVEL_DEBUG)"

definition mc_location_str :: "8 word \<Rightarrow> 8 word \<Rightarrow> 8 word \<Rightarrow> string" where
  "mc_location_str t m l =
     (if sint t \<ge> 0 \<or> sint m \<ge> 0 \<or> sint l \<ge> 0 then
        if sint l \<ge> 0 then '' location: '' @ fmt_d t @ '':'' @ fmt_d m @ '':'' @ fmt_d l
        else if sint m \<ge> 0 then '' location: '' @ fmt_d t @ '':'' @ fmt_d m
        else '' location: '' @ fmt_d t
      else [])"

text \<open>
  What follows the last field: the database, the rate, the two accounting parts, and the triggers. A
  count of zero becomes one between the accounting of pages and that of rows.
\<close>

definition mc_account_page :: "mc_env \<Rightarrow> time_t \<Rightarrow> ras_mc_event \<Rightarrow> mc_sys \<Rightarrow> mc_sys option" where
  "mc_account_page env now ev s =
     (if have_page_pfa env \<and> error_type ev = ''Corrected''
      then map_option (\<lambda>p. s\<lparr>mc_pages := p\<rparr>)
             (ras_record_page_error (page_answers env) (mc_address ev) (error_count ev) now (mc_pages s))
      else Some s)"

definition mc_account_row :: "mc_env \<Rightarrow> ras_mc_event \<Rightarrow> mc_sys \<Rightarrow> mc_sys option" where
  "mc_account_row env ev s =
     (case monotonic env of
        Some t \<Rightarrow>
          if have_row_pfa env \<and> error_type ev = ''Corrected''
          then map_option (\<lambda>r. s\<lparr>mc_rows := r\<rparr>)
                 (ras_record_row_error (row_answers env) (driver_detail ev) (error_count ev) t
                   (mc_address ev) (mc_rows s))
          else Some s
      | None \<Rightarrow> Some s)"

definition mc_runs :: "mc_env \<Rightarrow> ras_mc_event \<Rightarrow> mc_sys \<Rightarrow> trigger_run list" where
  "mc_runs env ev s =
     (case mc_ce_trigger s of
        Some t \<Rightarrow> if error_type ev = ''Corrected'' then [run_mc_trigger (mc_getenv env) ev t] else []
      | None \<Rightarrow> []) @
     (case mc_ue_trigger s of
        Some t \<Rightarrow> if error_type ev = ''Uncorrected'' then [run_mc_trigger (mc_getenv env) ev t] else []
      | None \<Rightarrow> [])"

definition mc_finish :: "mc_env \<Rightarrow> time_t \<Rightarrow> string \<Rightarrow> ras_mc_event \<Rightarrow> mc_sys \<Rightarrow> mc_result option" where
  "mc_finish env now out ev s =
     (let (s1, warning) = ras_mc_event_stat now ev s
      in do {
        s2 \<leftarrow> mc_account_page env now ev s1;
        let ev' = (if have_row_pfa env \<and> error_count ev = 0 then ev\<lparr>error_count := 1\<rparr> else ev);
        s3 \<leftarrow> mc_account_row env ev' s2;
        Some \<lparr>mr_out = out, mr_failed = None, mr_stored = Some ev, mr_warning = warning,
              mr_runs = mc_runs env ev' s3, mr_sys = s3\<rparr>
      })"

text \<open>\<open>goto parse_error\<close>: the message names the number of fields parsed so far.\<close>

definition mc_parse_error :: "mc_sys \<Rightarrow> string \<Rightarrow> nat \<Rightarrow> mc_result option" where
  "mc_parse_error s out n =
     Some \<lparr>mr_out = out, mr_failed = Some n, mr_stored = None, mr_warning = None, mr_runs = [], mr_sys = s\<rparr>"

definition need_val ::
  "trace_event \<Rightarrow> mc_sys \<Rightarrow> string \<Rightarrow> nat \<Rightarrow> string \<Rightarrow> (u64 \<Rightarrow> mc_result option) \<Rightarrow> mc_result option" where
  "need_val e s out n f k =
     (case field_val e f of None \<Rightarrow> mc_parse_error s (out @ complaint e f) n | Some v \<Rightarrow> k v)"

definition need_str ::
  "trace_event \<Rightarrow> mc_sys \<Rightarrow> string \<Rightarrow> nat \<Rightarrow> string \<Rightarrow> (string \<Rightarrow> mc_result option) \<Rightarrow> mc_result option" where
  "need_str e s out n f k =
     (case field_str e f of None \<Rightarrow> mc_parse_error s (out @ complaint e f) n | Some v \<Rightarrow> k v)"

definition unless_empty :: "string \<Rightarrow> string \<Rightarrow> string" where
  "unless_empty before t = (if t = [] then [] else before @ t)"

text \<open>
  The handler. A time that cannot be broken down leaves the time stamp uninitialised, and it is printed:
  \<open>None\<close>.
\<close>

definition ras_mc_event_handler :: "mc_env \<Rightarrow> trace_event \<Rightarrow> mc_sys \<Rightarrow> mc_result option" where
  "ras_mc_event_handler env e s =
     (let now = event_time (mc_clock env)
      in need_val e s [] 0 ''error_type'' (\<lambda>etype.
         let out = mc_level etype @ '' ''
         in case strf (mc_clock env) now of None \<Rightarrow> None | Some stamp \<Rightarrow>
         let out = out @ stamp @ '' ''
         in need_val e s out 1 ''error_count'' (\<lambda>count.
         let n = ucast count :: s32;
             out = out @ fmt_d n @ '' '' @ mc_error_type etype @ (if sint n > 1 then '' errors:'' else '' error:'')
         in need_str e s out 2 ''msg'' (\<lambda>msg.
         let out = out @ unless_empty '' '' msg
         in need_str e s out 3 ''label'' (\<lambda>label.
         let out = out @ unless_empty '' on '' label @ '' (''
         in need_val e s out 4 ''mc_index'' (\<lambda>index.
         let out = out @ ''mc: '' @ fmt_u (ucast index :: u8)
         in need_val e s out 5 ''top_layer'' (\<lambda>upper.
            need_val e s out 6 ''middle_layer'' (\<lambda>middle.
            need_val e s out 7 ''lower_layer'' (\<lambda>lower.
         let out = out @ mc_location_str (ucast upper) (ucast middle) (ucast lower)
         in need_val e s out 8 ''address'' (\<lambda>address.
         let out = out @ (if address \<noteq> 0 then '' address: 0x'' @ pad0 8 (fmt_x address) else [])
         in need_val e s out 9 ''grain_bits'' (\<lambda>gr.
         let out = out @ '' grain: '' @ fmt_d gr
         in need_val e s out 10 ''syndrome'' (\<lambda>syn.
         let out = out @ (if syn \<noteq> 0 then '' syndrome: 0x'' @ pad0 8 (fmt_x syn) else [])
         in need_str e s out 11 ''driver_detail'' (\<lambda>detail.
         let out = out @ unless_empty '' '' detail @ '')''
         in mc_finish env now out
              \<lparr>mc_timestamp = stamp, error_count = n, error_type = mc_error_type etype, mc_msg = msg,
               mc_label = label, mc_index = ucast index, top_layer = ucast upper, middle_layer = ucast middle,
               lower_layer = ucast lower, mc_address = address, grain = gr, syndrome = syn,
               driver_detail = detail\<rparr> s)))))))))))))"

section \<open>What becomes of an event\<close>

text \<open>The event by its fields, and which fields it has, in the order in which they are read.\<close>

definition mc_event_of :: "trace_event \<Rightarrow> string \<Rightarrow> ras_mc_event option" where
  "mc_event_of e stamp =
     do {
       etype \<leftarrow> field_val e ''error_type''; count \<leftarrow> field_val e ''error_count'';
       msg \<leftarrow> field_str e ''msg''; label \<leftarrow> field_str e ''label''; index \<leftarrow> field_val e ''mc_index'';
       upper \<leftarrow> field_val e ''top_layer''; middle \<leftarrow> field_val e ''middle_layer'';
       lower \<leftarrow> field_val e ''lower_layer''; address \<leftarrow> field_val e ''address'';
       gr \<leftarrow> field_val e ''grain_bits''; syn \<leftarrow> field_val e ''syndrome''; detail \<leftarrow> field_str e ''driver_detail'';
       Some \<lparr>mc_timestamp = stamp, error_count = ucast count, error_type = mc_error_type etype, mc_msg = msg,
         mc_label = label, mc_index = ucast index, top_layer = ucast upper, middle_layer = ucast middle,
         lower_layer = ucast lower, mc_address = address, grain = gr, syndrome = syn, driver_detail = detail\<rparr>
     }"

definition mc_fields_present :: "trace_event \<Rightarrow> bool list" where
  "mc_fields_present e =
     [field_val e ''error_type'' \<noteq> None, field_val e ''error_count'' \<noteq> None, field_str e ''msg'' \<noteq> None,
      field_str e ''label'' \<noteq> None, field_val e ''mc_index'' \<noteq> None, field_val e ''top_layer'' \<noteq> None,
      field_val e ''middle_layer'' \<noteq> None, field_val e ''lower_layer'' \<noteq> None, field_val e ''address'' \<noteq> None,
      field_val e ''grain_bits'' \<noteq> None, field_val e ''syndrome'' \<noteq> None, field_str e ''driver_detail'' \<noteq> None]"

text \<open>What is to be shown of a result, and how it follows field by field.\<close>

definition mc_outcome :: "mc_env \<Rightarrow> trace_event \<Rightarrow> string \<Rightarrow> mc_sys \<Rightarrow> mc_result option \<Rightarrow> bool" where
  "mc_outcome env e stamp s r \<longleftrightarrow>
     (case mc_event_of e stamp of
        None \<Rightarrow> \<exists>out. r = mc_parse_error s out (length (takeWhile id (mc_fields_present e)))
      | Some ev \<Rightarrow> \<exists>out. r = mc_finish env (event_time (mc_clock env)) out ev s)"

lemma need_step:
  "(\<And>v. field_val e f = Some v \<Longrightarrow> P (k v)) \<Longrightarrow> (\<And>out. field_val e f = None \<Longrightarrow> P (mc_parse_error s out n)) \<Longrightarrow>
     P (need_val e s out n f k)"
  "(\<And>t. field_str e f = Some t \<Longrightarrow> P (k' t)) \<Longrightarrow> (\<And>out. field_str e f = None \<Longrightarrow> P (mc_parse_error s out n)) \<Longrightarrow>
     P (need_str e s out n f k')"
  by (simp_all add: need_val_def need_str_def split: option.split)

lemma mc_handler_outcome:
  assumes "strf (mc_clock env) (event_time (mc_clock env)) = Some stamp"
  shows "mc_outcome env e stamp s (ras_mc_event_handler env e s)"
  unfolding ras_mc_event_handler_def Let_def assms option.case
  by (intro need_step [where P = "mc_outcome env e stamp s"])
    (simp_all add: mc_outcome_def mc_event_of_def mc_fields_present_def numeral_eq_Suc, blast+)

text \<open>
  C19: a memory controller event with all its fields is stored as its fields say. A corrected one is counted
  once for the rate, which is warned of when it is over the threshold, once for the page and once for the row
  of its address, a zero count being one error for the row but none for the page and the rate; any other
  leaves the rate and both accounting parts alone. The program run is the trigger for corrected errors when
  it is a corrected one and that for uncorrected errors when it is an uncorrected one, if there is such a
  trigger, and no other. Without one of the fields, the number of the first missing field is logged and
  nothing is stored, counted or run.
\<close>

theorem mc_event_accounting:
  assumes "strf (mc_clock env) (event_time (mc_clock env)) = Some stamp"
    and "have_page_pfa env" and "have_row_pfa env" and "monotonic env = Some t"
    and "ras_mc_event_handler env e s = Some r"
  shows "case mc_event_of e stamp of
      None \<Rightarrow> mr_failed r = Some (length (takeWhile id (mc_fields_present e))) \<and>
        mr_stored r = None \<and> mr_warning r = None \<and> mr_runs r = [] \<and> mr_sys r = s
    | Some ev \<Rightarrow> mr_failed r = None \<and> mr_stored r = Some ev \<and>
        mr_runs r =
          (case (if error_type ev = ''Corrected'' then mc_ce_trigger s
                 else if error_type ev = ''Uncorrected'' then mc_ue_trigger s else None) of
             None \<Rightarrow> []
           | Some trigger \<Rightarrow>
               [(trigger, mc_trigger_env (mc_getenv env)
                   (if error_count ev = 0 then ev\<lparr>error_count := 1\<rparr> else ev))]) \<and>
        (if error_type ev = ''Corrected''
         then (let rate = (if cur s = event_time (mc_clock env) then per_sec_ce_count s else 0) +
                 scast (error_count ev)
               in cur (mr_sys r) = event_time (mc_clock env) \<and> per_sec_ce_count (mr_sys r) = rate \<and>
                  mr_warning r = (if rate > mc_ce_stat_threshold s then Some rate else None)) \<and>
              ras_record_page_error (page_answers env) (mc_address ev) (error_count ev)
                (event_time (mc_clock env)) (mc_pages s) = Some (mc_pages (mr_sys r)) \<and>
              ras_record_row_error (row_answers env) (driver_detail ev)
                (if error_count ev = 0 then 1 else error_count ev) t (mc_address ev) (mc_rows s) =
                Some (mc_rows (mr_sys r))
         else mr_warning r = None \<and> mr_sys r = s)"
proof (cases "mc_event_of e stamp")
  case None
  then show ?thesis
    using mc_handler_outcome [OF assms(1), of e s] assms(5) by (auto simp: mc_outcome_def mc_parse_error_def)
next
  case (Some ev)
  then obtain out where "mc_finish env (event_time (mc_clock env)) out ev s = Some r"
    using mc_handler_outcome [OF assms(1), of e s] assms(5) by (auto simp: mc_outcome_def)
  then show ?thesis
    using Some assms(2-4)
    by (cases "error_type ev = ''Corrected''"; cases "error_count ev = 0")
      (auto simp: mc_finish_def mc_account_page_def mc_account_row_def ras_mc_event_stat_def mc_runs_def
        run_mc_trigger_def Let_def bind_eq_Some_conv split: if_splits option.splits)
qed

text \<open>A corrected error on the page of the example configuration; its row is not known.\<close>

definition demo_mc_env :: mc_env where
  "demo_mc_env = \<lparr>have_page_pfa = True, have_row_pfa = True,
     mc_clock = \<lparr>use_uptime = False, ts = 0, user_hz = 100, uptime_diff = 0, time_now = 1000, strf = \<lambda>_. Some ''now''\<rparr>,
     monotonic = Some 5, page_answers = demo_answer (Some 10), row_answers = demo_row_env,
     mc_getenv = \<lambda>_. None\<rparr>"

definition demo_mc_event :: trace_event where
  "demo_mc_event = \<lparr>field_val = \<lambda>f. if f = ''address'' then Some 0x12345678 else if f = ''error_count'' then Some 60
        else Some 0,
     field_str = \<lambda>f. Some [], field_words = \<lambda>_. None, complaint = \<lambda>_. []\<rparr>"

definition demo_mc_sys :: mc_sys where
  "demo_mc_sys = \<lparr>mc_pages = demo_sys, mc_rows = demo_row_sys, per_sec_ce_count = 0, cur = 0,
     mc_ce_stat_threshold = 100, mc_ce_trigger = None, mc_ue_trigger = None\<rparr>"

lemma demo_mc_runs: "\<exists>r. ras_mc_event_handler demo_mc_env demo_mc_event demo_mc_sys = Some r"
proof -
  obtain p where p: "ras_record_page_error (demo_answer (Some 10)) 0x12345678 60 1000 demo_sys = Some p"
    using demo_event by blast
  have "parse_row_info [] = None" by (simp add: parse_row_info_def parse_value_def)
  then show ?thesis
    using p by (simp add: ras_mc_event_handler_def need_val_def need_str_def demo_mc_env_def demo_mc_event_def
        demo_mc_sys_def event_time_def mc_error_type_def HW_EVENT_ERR_CORRECTED_def mc_finish_def Let_def
        ras_mc_event_stat_def mc_account_page_def mc_account_row_def ras_record_row_error_def)
qed

theorem mc_event_accounting_witness:
  "\<exists>r. ras_mc_event_handler demo_mc_env demo_mc_event demo_mc_sys = Some r \<and>
     ras_record_page_error (demo_answer (Some 10)) 0x12345678 60 1000 demo_sys = Some (mc_pages (mr_sys r))"
proof -
  obtain r where r: "ras_mc_event_handler demo_mc_env demo_mc_event demo_mc_sys = Some r"
    using demo_mc_runs by blast
  show ?thesis
    using mc_event_accounting [OF _ _ _ _ r, of "''now''" 5] r
    by (simp add: demo_mc_env_def demo_mc_event_def demo_mc_sys_def event_time_def mc_event_of_def
        mc_error_type_def HW_EVENT_ERR_CORRECTED_def)
qed

section \<open>The states the handler reaches\<close>

inductive mc_reach :: "mc_sys \<Rightarrow> bool" where
  start: "ras_page_account_init getenv writable erange no_unit0 (row_offline_action r) page_sys0 = Some p \<Longrightarrow>
    ras_row_account_init getenv writable erange no_unit0 row_sys0 = Some r \<Longrightarrow>
    mc_pages s = p \<Longrightarrow> mc_rows s = r \<Longrightarrow> mc_reach s"
| event: "mc_reach s \<Longrightarrow> \<forall>p. page_calloc (page_answers env) = Some p \<longrightarrow> pages (mc_pages s) p = None \<Longrightarrow>
    ras_mc_event_handler env e s = Some r \<Longrightarrow> mc_reach (mr_sys r)"

lemma mc_handler_steps:
  assumes "ras_mc_event_handler env e s = Some r"
  shows "(mc_pages (mr_sys r) = mc_pages s \<or>
      (\<exists>a n t. ras_record_page_error (page_answers env) a n t (mc_pages s) = Some (mc_pages (mr_sys r)))) \<and>
    (mc_rows (mr_sys r) = mc_rows s \<or>
      (\<exists>d n t a. ras_record_row_error (row_answers env) d n t a (mc_rows s) = Some (mc_rows (mr_sys r))))"
proof -
  obtain stamp where "strf (mc_clock env) (event_time (mc_clock env)) = Some stamp \<or>
      field_val e ''error_type'' = None"
    using assms by (auto simp: ras_mc_event_handler_def need_val_def Let_def split: option.splits)
  then show ?thesis
  proof
    assume "field_val e ''error_type'' = None"
    then show ?thesis using assms by (auto simp: ras_mc_event_handler_def need_val_def mc_parse_error_def Let_def)
  next
    assume st: "strf (mc_clock env) (event_time (mc_clock env)) = Some stamp"
    show ?thesis
    proof (cases "mc_event_of e stamp")
      case None
      then show ?thesis
        using mc_handler_outcome [OF st, of e s] assms by (auto simp: mc_outcome_def mc_parse_error_def)
    next
      case (Some ev)
      then obtain out where "mc_finish env (event_time (mc_clock env)) out ev s = Some r"
        using mc_handler_outcome [OF st, of e s] assms by (auto simp: mc_outcome_def)
      then show ?thesis
        by (auto simp: mc_finish_def mc_account_page_def mc_account_row_def ras_mc_event_stat_def Let_def
            bind_eq_Some_conv split: if_splits option.splits)
    qed
  qed
qed

lemma mc_reach_parts: "mc_reach s \<Longrightarrow> page_reach (mc_pages s) \<and> row_reach (mc_rows s)"
proof (induction rule: mc_reach.induct)
  case (event s env e r)
  then show ?case
    using mc_handler_steps [OF event.hyps(3)] page_reach.event row_reach.event by metis
qed (auto intro: page_reach.start row_reach.start)

lemma page_event_action:
  "ras_record_page_error env a n t s = Some s' \<Longrightarrow>
     offline_action s' = offline_action s \<and> (offline_action s = OFFLINE_OFF \<longrightarrow> s' = s)"
  by (auto simp: ras_record_page_error_def page_lookup_insert_def Let_def bind_eq_Some_conv
      split: if_splits option.splits sum.splits)

lemma row_event_action:
  "ras_record_row_error env d n t a s = Some s' \<Longrightarrow>
     row_offline_action s' = row_offline_action s \<and> (row_offline_action s = OFFLINE_OFF \<longrightarrow> s' = s)"
  by (auto simp: ras_record_row_error_def bind_eq_Some_conv split: if_splits option.splits sum.splits)

definition one_part_acts :: "mc_sys \<Rightarrow> bool" where
  "one_part_acts s \<longleftrightarrow>
     (row_offline_action (mc_rows s) = OFFLINE_OFF \<or> offline_action (mc_pages s) = OFFLINE_OFF) \<and>
     (offline_action (mc_pages s) = OFFLINE_OFF \<longrightarrow> page_writes (mc_pages s) = []) \<and>
     (row_offline_action (mc_rows s) = OFFLINE_OFF \<longrightarrow> row_writes (mc_rows s) = [])"

lemma page_init_fresh:
  "ras_page_account_init getenv writable erange no_unit0 ra page_sys0 = Some p \<Longrightarrow>
     page_writes p = [] \<and> (ra = OFFLINE_OFF \<or> offline_action p = OFFLINE_OFF)"
  by (auto simp: ras_page_account_init_def page_isolation_init_def page_sys0_def bind_eq_Some_conv
      page_offline_init_def Let_def split: if_splits)

lemma row_init_fresh:
  "ras_row_account_init getenv writable erange no_unit0 row_sys0 = Some r \<Longrightarrow> row_writes r = []"
  by (auto simp: ras_row_account_init_def row_isolation_init_def row_sys0_def bind_eq_Some_conv
      split: if_splits)

lemma mc_reach_one_part: "mc_reach s \<Longrightarrow> one_part_acts s"
proof (induction rule: mc_reach.induct)
  case (start getenv writable erange no_unit0 r p s)
  then show ?case using page_init_fresh [OF start.hyps(1)] row_init_fresh [OF start.hyps(2)]
    by (auto simp: one_part_acts_def)
next
  case (event s env e r)
  then show ?case
    using mc_handler_steps [OF event.hyps(3)] page_event_action row_event_action
    unfolding one_part_acts_def by metis
qed

text \<open>
  C20: in every state the handler reaches, the page records and the row records satisfy the invariants of
  their parts, and only one of the two parts has ever asked the kernel to take a page offline.
\<close>

theorem mc_reach_invariant:
  assumes "mc_reach s"
  shows "(\<exists>m. page_inv (mc_pages s) m) \<and> rows_ok (row_head (mc_rows s)) \<and>
    (page_writes (mc_pages s) = [] \<or> row_writes (mc_rows s) = [])"
proof -
  have "rows_ok (row_head r)" if "row_reach r" for r
    using that
  proof (induction rule: row_reach.induct)
    case (free r)
    then show ?case by (simp add: row_record_infos_free_def rows_ok_def)
  qed (use row_start_ok row_event_ok in blast)+
  then show ?thesis
    using mc_reach_parts [OF assms] mc_reach_one_part [OF assms] page_reach_inv
    unfolding one_part_acts_def by blast
qed


section \<open>The rate of corrected errors\<close>

text \<open>The events of the last second, in order of time.\<close>

definition last_second :: "(time_t \<times> ras_mc_event) list \<Rightarrow> (time_t \<times> ras_mc_event) list" where
  "last_second es = takeWhile (\<lambda>x. fst x = fst (last es)) (rev es)"

definition stat_step :: "time_t \<times> ras_mc_event \<Rightarrow> mc_sys \<Rightarrow> mc_sys" where
  "stat_step x s = fst (ras_mc_event_stat (fst x) (snd x) s)"

lemma stat_step_corrected:
  "error_type (snd x) = ''Corrected'' \<Longrightarrow> stat_step x s =
     (if cur s = fst x then s\<lparr>per_sec_ce_count := per_sec_ce_count s + scast (error_count (snd x))\<rparr>
      else s\<lparr>cur := fst x, per_sec_ce_count := scast (error_count (snd x))\<rparr>)"
  by (simp add: stat_step_def ras_mc_event_stat_def Let_def)

lemma stat_step_other: "error_type (snd x) \<noteq> ''Corrected'' \<Longrightarrow> stat_step x s = s"
  by (simp add: stat_step_def ras_mc_event_stat_def)

lemma stat_fold_filter:
  "fold stat_step es s = fold stat_step (filter (\<lambda>x. error_type (snd x) = ''Corrected'') es) s"
  by (induction es arbitrary: s) (simp_all add: stat_step_other)

lemma stat_fold:
  assumes "per_sec_ce_count s = 0" and "\<forall>x \<in> set es. error_type (snd x) = ''Corrected''" and "es \<noteq> []"
  shows "cur (fold stat_step es s) = fst (last es) \<and>
    per_sec_ce_count (fold stat_step es s) = (\<Sum>x \<leftarrow> last_second es. scast (error_count (snd x))) \<and>
    mc_ce_stat_threshold (fold stat_step es s) = mc_ce_stat_threshold s"
  using assms(2,3)
proof (induction es rule: rev_induct)
  case (snoc x es)
  show ?case
  proof (cases "es = []")
    case True
    then show ?thesis
      using snoc.prems assms(1) by (simp add: stat_step_corrected last_second_def)
  next
    case False
    then have IH: "cur (fold stat_step es s) = fst (last es)"
      "per_sec_ce_count (fold stat_step es s) = (\<Sum>x \<leftarrow> last_second es. scast (error_count (snd x)))"
      "mc_ce_stat_threshold (fold stat_step es s) = mc_ce_stat_threshold s"
      using snoc by auto
    have "last_second (es @ [x]) = (if fst (last es) = fst x then x # last_second es else [x])"
      using False by (cases es rule: rev_cases) (auto simp: last_second_def)
    then show ?thesis
      using IH snoc.prems by (simp add: stat_step_corrected add.commute)
  qed
qed simp

text \<open>
  C21: after any sequence of events of any severity, the rate that is compared with the threshold is the
  number of errors, modulo \<open>2 ^ 64\<close>, in the corrected events of the second of the last one that follow each
  other without a corrected event of another second in between. The next event is reported exactly when it
  is a corrected one and the rate with it exceeds the threshold; events of other severities neither count nor
  are reported.
\<close>

theorem mc_rate_exact:
  assumes "per_sec_ce_count s = 0"
  shows "snd (ras_mc_event_stat now ev (fold stat_step es s)) =
    (let rate = (\<Sum>x \<leftarrow> last_second (filter (\<lambda>x. error_type (snd x) = ''Corrected'') es @ [(now, ev)]).
                   scast (error_count (snd x)))
     in if error_type ev = ''Corrected'' \<and> rate > mc_ce_stat_threshold s then Some rate else None)"
proof (cases "error_type ev = ''Corrected''")
  case True
  let ?es = "filter (\<lambda>x. error_type (snd x) = ''Corrected'') es"
  let ?s = "fst (ras_mc_event_stat now ev (fold stat_step ?es s))"
  have s: "?s = fold stat_step (?es @ [(now, ev)]) s" by (simp add: stat_step_def)
  have "snd (ras_mc_event_stat now ev (fold stat_step ?es s)) =
    (if per_sec_ce_count ?s > mc_ce_stat_threshold ?s then Some (per_sec_ce_count ?s) else None)"
    using True by (simp add: ras_mc_event_stat_def Let_def)
  then show ?thesis
    unfolding s stat_fold_filter [of es] using stat_fold [OF assms, of "?es @ [(now, ev)]"] True
    by (simp add: Let_def)
qed (simp add: ras_mc_event_stat_def)

theorem mc_rate_exact_witness:
  "\<exists>ev s. snd (ras_mc_event_stat 7 ev
     (fold stat_step [(6, ev), (7, ev), (8, ev\<lparr>error_type := ''Fatal''\<rparr>)] s)) = Some 120"
proof -
  let ?ev = "\<lparr>mc_timestamp = [], error_count = 60, error_type = ''Corrected'', mc_msg = [], mc_label = [],
    mc_index = 0, top_layer = 0, middle_layer = 0, lower_layer = 0, mc_address = 0, grain = 0, syndrome = 0,
    driver_detail = []\<rparr>"
  have "snd (ras_mc_event_stat 7 ?ev
      (fold stat_step [(6, ?ev), (7, ?ev), (8, ?ev\<lparr>error_type := ''Fatal''\<rparr>)] demo_mc_sys)) = Some 120"
    using mc_rate_exact [of demo_mc_sys 7 ?ev "[(6, ?ev), (7, ?ev), (8, ?ev\<lparr>error_type := ''Fatal''\<rparr>)]"]
    by (simp add: demo_mc_sys_def last_second_def Let_def)
  then show ?thesis by blast
qed

text \<open>The example again: the pages of the example configuration, rows not isolated.\<close>

definition demo_mc_sys2 :: mc_sys where
  "demo_mc_sys2 = demo_mc_sys\<lparr>mc_rows := row_sys0\<rparr>"

lemma demo_mc_reach: "mc_reach demo_mc_sys2"
proof (rule mc_reach.start [of "\<lambda>_. None" "\<lambda>_. True" False False row_sys0 demo_sys])
  show "ras_page_account_init (\<lambda>_. None) (\<lambda>_. True) False False (row_offline_action row_sys0) page_sys0 = Some demo_sys"
    using demo_parse
    by (simp add: ras_page_account_init_def page_isolation_init_def page_offline_init_def row_sys0_def
        unless_writable_def page_sys0_def demo_sys_def)
  show "ras_row_account_init (\<lambda>_. None) (\<lambda>_. True) False False row_sys0 = Some row_sys0"
    by (simp add: ras_row_account_init_def row_isolation_init_def row_offline_init_def row_sys0_def
        unless_writable_def)
qed (simp_all add: demo_mc_sys2_def demo_mc_sys_def)

lemma demo_mc_runs2: "\<exists>r. ras_mc_event_handler demo_mc_env demo_mc_event demo_mc_sys2 = Some r"
proof -
  obtain p where p: "ras_record_page_error (demo_answer (Some 10)) 0x12345678 60 1000 demo_sys = Some p"
    using demo_event by blast
  have "parse_row_info [] = None" by (simp add: parse_row_info_def parse_value_def)
  then show ?thesis
    using p by (simp add: ras_mc_event_handler_def need_val_def need_str_def demo_mc_env_def demo_mc_event_def
        demo_mc_sys_def demo_mc_sys2_def event_time_def mc_error_type_def HW_EVENT_ERR_CORRECTED_def mc_finish_def
        Let_def ras_mc_event_stat_def mc_account_page_def mc_account_row_def ras_record_row_error_def)
qed

theorem mc_reach_invariant_witness:
  "\<exists>r m. ras_mc_event_handler demo_mc_env demo_mc_event demo_mc_sys2 = Some r \<and>
     page_inv (mc_pages (mr_sys r)) m \<and> rows_ok (row_head (mc_rows (mr_sys r)))"
proof -
  obtain r where r: "ras_mc_event_handler demo_mc_env demo_mc_event demo_mc_sys2 = Some r"
    using demo_mc_runs2 by blast
  have "mc_reach (mr_sys r)"
    by (rule mc_reach.event [OF demo_mc_reach _ r])
      (simp add: demo_mc_sys2_def demo_mc_sys_def demo_sys_def page_sys0_def)
  from mc_reach_invariant [OF this] r show ?thesis by blast
qed

end
