(* ===== verification/Mce_Types.thy ===== *)
theory Mce_Types
  imports C_Library "HOL-Library.Monad_Syntax"
begin

text \<open>
  \<open>ras-mce-handler.h\<close>: the machine check event that the decoders annotate, the CPU types, the bits of
  the status registers, and the macro that appends to a message. A message buffer is the C string in
  it; its size is the argument of \<open>mce_add\<close>. A decoder is a function \<open>mce_event \<Rightarrow> mce_event option\<close>,
  where \<open>None\<close> is undefined behaviour: a table read out of range, or a missing string that is printed.
\<close>

unbundle bit_operations_syntax

section \<open>The data\<close>

datatype cputype =
    CPU_GENERIC | CPU_P6OLD | CPU_CORE2 | CPU_K8 | CPU_P4 | CPU_NEHALEM | CPU_DUNNINGTON | CPU_TULSA
  | CPU_INTEL | CPU_XEON75XX | CPU_SANDY_BRIDGE | CPU_SANDY_BRIDGE_EP | CPU_IVY_BRIDGE
  | CPU_IVY_BRIDGE_EPEX | CPU_HASWELL | CPU_HASWELL_EPEX | CPU_BROADWELL | CPU_BROADWELL_DE
  | CPU_BROADWELL_EPEX | CPU_KNIGHTS_LANDING | CPU_KNIGHTS_MILL | CPU_SKYLAKE_XEON | CPU_AMD_SMCA
  | CPU_DHYANA | CPU_ICELAKE_XEON | CPU_ICELAKE_DE | CPU_TREMONT_D | CPU_SAPPHIRERAPIDS
  | CPU_EMERALDRAPIDS | CPU_ZHAOXIN | CPU_ZHAOXIN_KH50000 | CPU_GRANITERAPIDS | CPU_GRANITERAPIDS_D
  | CPU_SIERRAFOREST | CPU_CLEARWATERFOREST | CPU_DIAMONDRAPIDS

record mce_event =
  mcgcap :: u64
  mcgstatus :: u64
  status :: u64
  addr :: u64
  misc :: u64
  ip :: u64
  tsc :: u64
  walltime :: u64
  cpu :: u32
  cpuid :: u32
  apicid :: u32
  socketid :: u32
  cs :: u8
  bank :: u8
  cpuvendor :: u8
  synd :: u64
  ipid :: u64
  ppin :: u64
  microcode :: u32
  vdata_len :: s32
  vdata :: "u64 list"
  frutext :: string
  bank_name :: string
  error_msg :: string
  mcgstatus_msg :: string
  mcistatus_msg :: string
  mcastatus_msg :: string
  user_action :: string
  mc_location :: string

record mce_priv =
  vendor :: string
  family :: u32
  model :: u32
  cpu_type :: cputype
  mc_error_support :: bool
  processor_flags :: string

text \<open>The event before its fields are read, and a private record for a CPU type: all zero.\<close>

definition zero_event :: mce_event where
  "zero_event =
     \<lparr>mcgcap = 0, mcgstatus = 0, status = 0, addr = 0, misc = 0, ip = 0, tsc = 0, walltime = 0, cpu = 0,
      cpuid = 0, apicid = 0, socketid = 0, cs = 0, bank = 0, cpuvendor = 0, synd = 0, ipid = 0, ppin = 0,
      microcode = 0, vdata_len = 0, vdata = [], frutext = [], bank_name = [], error_msg = [],
      mcgstatus_msg = [], mcistatus_msg = [], mcastatus_msg = [], user_action = [], mc_location = []\<rparr>"

definition zero_priv :: mce_priv where
  "zero_priv = \<lparr>vendor = [], family = 0, model = 0, cpu_type = CPU_GENERIC, mc_error_support = False,
     processor_flags = []\<rparr>"

section \<open>Status bits\<close>

definition BIT_ULL :: "nat \<Rightarrow> u64" where
  "BIT_ULL n = push_bit n 1"

definition MCE_EXTENDED_BANK :: u8 where "MCE_EXTENDED_BANK = 128"

definition MCI_THRESHOLD_OVER :: u64 where "MCI_THRESHOLD_OVER = BIT_ULL 48"
definition MCI_STATUS_VAL :: u64 where "MCI_STATUS_VAL = BIT_ULL 63"
definition MCI_STATUS_OVER :: u64 where "MCI_STATUS_OVER = BIT_ULL 62"
definition MCI_STATUS_UC :: u64 where "MCI_STATUS_UC = BIT_ULL 61"
definition MCI_STATUS_EN :: u64 where "MCI_STATUS_EN = BIT_ULL 60"
definition MCI_STATUS_MISCV :: u64 where "MCI_STATUS_MISCV = BIT_ULL 59"
definition MCI_STATUS_ADDRV :: u64 where "MCI_STATUS_ADDRV = BIT_ULL 58"
definition MCI_STATUS_PCC :: u64 where "MCI_STATUS_PCC = BIT_ULL 57"
definition MCI_STATUS_S :: u64 where "MCI_STATUS_S = BIT_ULL 56"
definition MCI_STATUS_AR :: u64 where "MCI_STATUS_AR = BIT_ULL 55"
definition MCI_STATUS_TCC :: u64 where "MCI_STATUS_TCC = BIT_ULL 55"
definition MCI_STATUS_SYNDV :: u64 where "MCI_STATUS_SYNDV = BIT_ULL 53"
definition MCI_STATUS_DEFERRED :: u64 where "MCI_STATUS_DEFERRED = BIT_ULL 44"
definition MCI_STATUS_POISON :: u64 where "MCI_STATUS_POISON = BIT_ULL 43"

definition MCG_STATUS_RIPV :: u64 where "MCG_STATUS_RIPV = BIT_ULL 0"
definition MCG_STATUS_EIPV :: u64 where "MCG_STATUS_EIPV = BIT_ULL 1"
definition MCG_STATUS_MCIP :: u64 where "MCG_STATUS_MCIP = BIT_ULL 2"
definition MCG_STATUS_LMCE :: u64 where "MCG_STATUS_LMCE = BIT_ULL 3"

text \<open>\<open>if (w & flag)\<close>\<close>

definition flagged :: "u64 \<Rightarrow> u64 \<Rightarrow> bool" where
  "flagged w flag \<longleftrightarrow> w AND flag \<noteq> 0"

section \<open>Messages\<close>

text \<open>
  \<open>mce_snprintf\<close>: what is appended to a message, a blank before it unless the message is empty, is cut
  at the end of a buffer of \<open>n\<close> bytes.
\<close>

definition mce_add :: "nat \<Rightarrow> string \<Rightarrow> string \<Rightarrow> string" where
  "mce_add n s buf =
     (let len = n - length buf
      in if len = 0 then buf
         else if buf = [] then take (len - 1) s
         else if len = 1 then buf
         else buf @ '' '' @ take (len - 2) s)"

definition add_error_msg :: "string \<Rightarrow> mce_event \<Rightarrow> mce_event option" where
  "add_error_msg s e = Some (e\<lparr>error_msg := mce_add 4096 s (error_msg e)\<rparr>)"

definition add_mcgstatus_msg :: "string \<Rightarrow> mce_event \<Rightarrow> mce_event option" where
  "add_mcgstatus_msg s e = Some (e\<lparr>mcgstatus_msg := mce_add 256 s (mcgstatus_msg e)\<rparr>)"

definition add_mcistatus_msg :: "string \<Rightarrow> mce_event \<Rightarrow> mce_event option" where
  "add_mcistatus_msg s e = Some (e\<lparr>mcistatus_msg := mce_add 1024 s (mcistatus_msg e)\<rparr>)"

definition add_mcastatus_msg :: "string \<Rightarrow> mce_event \<Rightarrow> mce_event option" where
  "add_mcastatus_msg s e = Some (e\<lparr>mcastatus_msg := mce_add 1024 s (mcastatus_msg e)\<rparr>)"

definition add_user_action :: "string \<Rightarrow> mce_event \<Rightarrow> mce_event option" where
  "add_user_action s e = Some (e\<lparr>user_action := mce_add 4096 s (user_action e)\<rparr>)"

definition add_mc_location :: "string \<Rightarrow> mce_event \<Rightarrow> mce_event option" where
  "add_mc_location s e = Some (e\<lparr>mc_location := mce_add 256 s (mc_location e)\<rparr>)"

definition add_bank_name :: "string \<Rightarrow> mce_event \<Rightarrow> mce_event option" where
  "add_bank_name s e = Some (e\<lparr>bank_name := mce_add 64 s (bank_name e)\<rparr>)"

text \<open>\<open>strscpy\<close> into a buffer of the event, a step under a condition, and a string of a table.\<close>

definition set_error_msg :: "string \<Rightarrow> mce_event \<Rightarrow> mce_event option" where
  "set_error_msg s e = Some (e\<lparr>error_msg := take 4095 s\<rparr>)"

definition set_mcastatus_msg :: "string \<Rightarrow> mce_event \<Rightarrow> mce_event option" where
  "set_mcastatus_msg s e = Some (e\<lparr>mcastatus_msg := take 1023 s\<rparr>)"

definition set_bank_name :: "string \<Rightarrow> mce_event \<Rightarrow> mce_event option" where
  "set_bank_name s e = Some (e\<lparr>bank_name := take 63 s\<rparr>)"

definition cond :: "bool \<Rightarrow> (mce_event \<Rightarrow> mce_event option) \<Rightarrow> mce_event \<Rightarrow> mce_event option" where
  "cond b f e = (if b then f e else Some e)"

primrec run_all :: "('a \<Rightarrow> mce_event \<Rightarrow> mce_event option) \<Rightarrow> 'a list \<Rightarrow> mce_event \<Rightarrow> mce_event option" where
  "run_all f [] e = Some e"
| "run_all f (x # xs) e = f x e \<bind> run_all f xs"

text \<open>The low 16 bits of the status register.\<close>

definition mcacod :: "mce_event \<Rightarrow> u32" where
  "mcacod e = ucast (status e AND 0xFFFF)"

definition table_str :: "string option list \<Rightarrow> 'a::len word \<Rightarrow> string option" where
  "table_str t i = (case lookup t (unat i) of Some (Some s) \<Rightarrow> Some s | _ \<Rightarrow> None)"

text \<open>Tables written with designators; a later one overrides an earlier one.\<close>

definition sparse :: "nat \<Rightarrow> (nat \<times> string) list \<Rightarrow> string option list" where
  "sparse n xs = map (map_of (rev xs)) [0..<n]"

definition span :: "nat \<Rightarrow> nat \<Rightarrow> string \<Rightarrow> (nat \<times> string) list" where
  "span a b s = map (\<lambda>i. (i, s)) [a..<Suc b]"

abbreviation NL :: string where
  "NL \<equiv> [CHR 0x0A]"

lemma length_sparse [simp]: "length (sparse n xs) = n"
  by (simp add: sparse_def)

lemma nth_sparse: "i < n \<Longrightarrow> sparse n xs ! i = map_of (rev xs) i"
  by (simp add: sparse_def)

section \<open>What every decoder respects\<close>

text \<open>The registers of an event: everything but the messages.\<close>

definition registers :: "mce_event \<Rightarrow> mce_event" where
  "registers e = e\<lparr>frutext := [], bank_name := [], error_msg := [], mcgstatus_msg := [],
     mcistatus_msg := [], mcastatus_msg := [], user_action := [], mc_location := []\<rparr>"

text \<open>Every message fits in its buffer with a terminator.\<close>

definition messages_fit :: "mce_event \<Rightarrow> bool" where
  "messages_fit e \<longleftrightarrow> length (bank_name e) < 64 \<and> length (error_msg e) < 4096 \<and>
     length (mcgstatus_msg e) < 256 \<and> length (mcistatus_msg e) < 1024 \<and>
     length (mcastatus_msg e) < 1024 \<and> length (user_action e) < 4096 \<and> length (mc_location e) < 256"

lemma messages_fit_zero [simp]: "messages_fit zero_event"
  by (simp add: messages_fit_def zero_event_def)

text \<open>
  A decoder run on \<open>e\<close> is in order when it is defined, changes no register and keeps every message in
  its buffer.
\<close>

definition decodes :: "mce_event \<Rightarrow> mce_event option \<Rightarrow> bool" where
  "decodes e r \<longleftrightarrow> (\<exists>e'. r = Some e' \<and> registers e' = registers e \<and>
     (messages_fit e \<longrightarrow> messages_fit e'))"

named_theorems decodes_intros

lemma decodesE:
  assumes "decodes e r"
  obtains e' where "r = Some e'" and "registers e' = registers e" and "messages_fit e \<Longrightarrow> messages_fit e'"
  using assms by (auto simp: decodes_def)

lemma decodes_not_None: "decodes e r \<Longrightarrow> r \<noteq> None"
  by (auto simp: decodes_def)

lemma length_mce_add: "length buf < n \<Longrightarrow> length (mce_add n s buf) < n"
  by (auto simp: mce_add_def Let_def)

lemma decodes_adds [decodes_intros]:
  "decodes e (add_error_msg s e)" "decodes e (add_mcgstatus_msg s e)"
  "decodes e (add_mcistatus_msg s e)" "decodes e (add_mcastatus_msg s e)"
  "decodes e (add_user_action s e)" "decodes e (add_mc_location s e)" "decodes e (add_bank_name s e)"
  by (simp_all add: decodes_def registers_def messages_fit_def length_mce_add add_error_msg_def
      add_mcgstatus_msg_def add_mcistatus_msg_def add_mcastatus_msg_def add_user_action_def
      add_mc_location_def add_bank_name_def)

lemma decodes_sets [decodes_intros]:
  "decodes e (set_error_msg s e)" "decodes e (set_mcastatus_msg s e)" "decodes e (set_bank_name s e)"
  by (auto simp: decodes_def registers_def messages_fit_def min_less_iff_disj set_error_msg_def
      set_mcastatus_msg_def set_bank_name_def)

lemma decodes_Some [decodes_intros]: "decodes e (Some e)"
  by (simp add: decodes_def)

lemma decodes_cond [decodes_intros]: "(b \<Longrightarrow> decodes e (f e)) \<Longrightarrow> decodes e (cond b f e)"
  by (simp add: decodes_def cond_def)

lemma decodes_if [decodes_intros]:
  "(b \<Longrightarrow> decodes e r) \<Longrightarrow> (\<not> b \<Longrightarrow> decodes e s) \<Longrightarrow> decodes e (if b then r else s)"
  by simp

lemma decodes_let [decodes_intros]: "decodes e (f x) \<Longrightarrow> decodes e (let y = x in f y)"
  by simp

lemma decodes_trans: "decodes e (Some e') \<Longrightarrow> decodes e' r \<Longrightarrow> decodes e r"
  by (auto simp: decodes_def)

lemma decodes_bind [decodes_intros]:
  assumes "decodes e r" and "\<And>e'. registers e' = registers e \<Longrightarrow> decodes e' (g e')"
  shows "decodes e (r \<bind> g)"
  using assms by (fastforce simp: decodes_def)

lemma decodes_run_all [decodes_intros]:
  "(\<And>x e. decodes e (f x e)) \<Longrightarrow> decodes e (run_all f xs e)"
  by (induction xs arbitrary: e) (auto intro: decodes_intros)

lemma decodes_bind_str [decodes_intros]:
  fixes r :: "string option"
  shows "\<exists>s. r = Some s \<Longrightarrow> (\<And>s. decodes e (f s)) \<Longrightarrow> decodes e (r \<bind> f)"
  by auto

text \<open>The registers the decoders read are the same before and after.\<close>

lemma registers_eqD:
  assumes "registers e' = registers e"
  shows "status e' = status e" "misc e' = misc e" "bank e' = bank e" "mcgstatus e' = mcgstatus e"
    "mcgcap e' = mcgcap e" "cpu e' = cpu e" "apicid e' = apicid e" "ipid e' = ipid e"
    "synd e' = synd e" "addr e' = addr e"
    "vdata e' = vdata e" "vdata_len e' = vdata_len e"
proof -
  have r: "status (registers x) = status x" "misc (registers x) = misc x" "bank (registers x) = bank x"
    "mcgstatus (registers x) = mcgstatus x" "mcgcap (registers x) = mcgcap x" "cpu (registers x) = cpu x"
    "apicid (registers x) = apicid x" "ipid (registers x) = ipid x" "synd (registers x) = synd x"
    "addr (registers x) = addr x" "vdata (registers x) = vdata x" "vdata_len (registers x) = vdata_len x" for x
    by (simp_all add: registers_def)
  show "status e' = status e" "misc e' = misc e" "bank e' = bank e" "mcgstatus e' = mcgstatus e"
    "mcgcap e' = mcgcap e" "cpu e' = cpu e" "apicid e' = apicid e" "ipid e' = ipid e"
    "synd e' = synd e" "addr e' = addr e"
    "vdata e' = vdata e" "vdata_len e' = vdata_len e"
    using assms r by metis+
qed

text \<open>A decoder that only adds to one message.\<close>

lemma mce_add_room:
  assumes "length buf + length s + 1 < n" and "buf \<noteq> []"
  shows "mce_add n s buf = buf @ '' '' @ s"
  using assms by (simp add: mce_add_def Let_def)

lemma mce_add_prefix: "\<exists>t. mce_add n s buf = buf @ t"
  by (auto simp: mce_add_def Let_def)

end
