(* ===== verification/Bitfield.thy ===== *)
theory Bitfield
  imports Mce_Types
begin

text \<open>
  \<open>bitfield.h\<close> and \<open>bitfield.c\<close>: the extraction of bit ranges, the tables that describe a register as
  fields and numbers, and the loops that print a register by such a table. A loop that leaves its
  table, or the buffer it writes to, is \<open>None\<close>.
\<close>

section \<open>Bit ranges\<close>

definition MASK :: "nat \<Rightarrow> u64" where
  "MASK x = push_bit (1 + x) 1 - 1"

definition EXTRACT :: "u64 \<Rightarrow> nat \<Rightarrow> nat \<Rightarrow> u64" where
  "EXTRACT v a b = drop_bit a v AND MASK (b - a)"

definition test_prefix :: "nat \<Rightarrow> u32 \<Rightarrow> bool" where
  "test_prefix nr v \<longleftrightarrow> drop_bit nr v = 1"

section \<open>Fields\<close>

record field =
  start_bit :: nat
  str :: "string option list option"

definition FIELD :: "nat \<Rightarrow> string option list \<Rightarrow> field" where
  "FIELD b names = \<lparr>start_bit = b, str = Some names\<rparr>"

definition FIELD_NULL :: "nat \<Rightarrow> field" where
  "FIELD_NULL b = \<lparr>start_bit = b, str = None\<rparr>"

definition SBITFIELD :: "nat \<Rightarrow> string \<Rightarrow> field" where
  "SBITFIELD b s = \<lparr>start_bit = b, str = Some [None, Some s]\<rparr>"

text \<open>The empty initialiser that ends a table.\<close>

abbreviation END_FIELD :: field where
  "END_FIELD \<equiv> FIELD_NULL 0"

datatype num_format = FMT_Lu | FMT_Lx

record numfield =
  num_start :: nat
  num_end :: nat
  num_name :: "string option"
  num_fmt :: num_format
  num_force :: bool

definition NUMBER :: "nat \<Rightarrow> nat \<Rightarrow> string \<Rightarrow> numfield" where
  "NUMBER a b s = \<lparr>num_start = a, num_end = b, num_name = Some s, num_fmt = FMT_Lu, num_force = False\<rparr>"

definition NUMBERFORCE :: "nat \<Rightarrow> nat \<Rightarrow> string \<Rightarrow> numfield" where
  "NUMBERFORCE a b s = \<lparr>num_start = a, num_end = b, num_name = Some s, num_fmt = FMT_Lu, num_force = True\<rparr>"

definition HEXNUMBER :: "nat \<Rightarrow> nat \<Rightarrow> string \<Rightarrow> numfield" where
  "HEXNUMBER a b s = \<lparr>num_start = a, num_end = b, num_name = Some s, num_fmt = FMT_Lx, num_force = False\<rparr>"

definition HEXNUMBERFORCE :: "nat \<Rightarrow> nat \<Rightarrow> string \<Rightarrow> numfield" where
  "HEXNUMBERFORCE a b s = \<lparr>num_start = a, num_end = b, num_name = Some s, num_fmt = FMT_Lx, num_force = True\<rparr>"

abbreviation END_NUM :: numfield where
  "END_NUM \<equiv> \<lparr>num_start = 0, num_end = 0, num_name = None, num_fmt = FMT_Lu, num_force = False\<rparr>"

section \<open>Printing a register\<close>

text \<open>\<open>None\<close> is the loop that never ends.\<close>

partial_function (option) bitmask_loop :: "u64 \<Rightarrow> u64 \<Rightarrow> u64 option" where
  "bitmask_loop i w = (if w < i then bitmask_loop i (push_bit 1 w OR 1) else Some w)"

declare bitmask_loop.simps [code]

definition bitmask :: "u64 \<Rightarrow> u64 option" where
  "bitmask i = bitmask_loop i 1"

primrec decode_bitfield :: "u64 \<Rightarrow> field list \<Rightarrow> mce_event \<Rightarrow> mce_event option" where
  "decode_bitfield st [] e = None"
| "decode_bitfield st (f # fs) e =
     (case str f of
        None \<Rightarrow> Some e
      | Some names \<Rightarrow>
          do {
            m \<leftarrow> bitmask (of_nat (length names - 1));
            (let v = drop_bit (start_bit f) st AND m;
                 s = (if unat v < length names then names ! unat v else None)
             in do {
               e \<leftarrow> (case s of
                      None \<Rightarrow> if v = 0 then Some e
                              else add_error_msg (''<'' @ to_base 10 (start_bit f) @ '':'' @ fmt_x v @ ''>'') e
                    | Some s \<Rightarrow> add_error_msg s e);
               decode_bitfield st fs e
             })
          })"

definition fmt_num :: "num_format \<Rightarrow> u64 \<Rightarrow> string" where
  "fmt_num f v = (case f of FMT_Lu \<Rightarrow> fmt_u v | FMT_Lx \<Rightarrow> fmt_x v)"

primrec decode_numfield :: "u64 \<Rightarrow> numfield list \<Rightarrow> mce_event \<Rightarrow> mce_event option" where
  "decode_numfield st [] e = None"
| "decode_numfield st (f # fs) e =
     (case num_name f of
        None \<Rightarrow> Some e
      | Some name \<Rightarrow>
          (let v = drop_bit (num_start f) st AND (push_bit (num_end f - num_start f + 1) 1 - 1)
           in do {
             e \<leftarrow> cond (v > 0 \<or> num_force f)
                    (add_error_msg (name @ '': '' @ fmt_num (num_fmt f) v @ NL)) e;
             decode_numfield st fs e
           }))"

section \<open>Printing a bit array\<close>

text \<open>
  \<open>1 << n\<close> on an \<open>int\<close>, converted to 64 bits: a shift by 32 or more is undefined, bit 31 is the sign.
\<close>

definition int_bit :: "nat \<Rightarrow> u64 option" where
  "int_bit n = (if n < 32 then Some (scast (push_bit n 1 :: s32)) else None)"

text \<open>
  The state of the loop is the string in the buffer and \<open>len\<close>. Text as long as \<open>len\<close> loses its last
  character; longer text moves \<open>p\<close> past the buffer, where at least the final terminator is written.
\<close>

definition bf_emit :: "string \<Rightarrow> string \<times> nat \<Rightarrow> (string \<times> nat) option" where
  "bf_emit s = (\<lambda>(txt, len).
     if length s < len then Some (txt @ s, len - length s)
     else if length s = len then Some (txt @ take (len - 1) s, 0)
     else None)"

primrec bf_loop ::
  "string option list \<Rightarrow> nat \<Rightarrow> nat \<Rightarrow> u32 \<Rightarrow> u64 \<Rightarrow> nat \<Rightarrow> string \<times> nat \<Rightarrow> (string \<times> nat) option" where
  "bf_loop [] i off ign st cap buf = Some buf"
| "bf_loop (b # bs) i off ign st cap buf =
     (if st AND ucast ign \<noteq> 0 then bf_loop bs (Suc i) off ign st cap buf
      else do {
        m \<leftarrow> int_bit (i + off);
        if st AND m \<noteq> 0
        then do {
          buf \<leftarrow> (if snd buf \<noteq> cap then bf_emit '', '' buf else Some buf);
          buf \<leftarrow> bf_emit (case b of None \<Rightarrow> ''BIT'' @ to_base 10 (i + off) | Some s \<Rightarrow> s) buf;
          bf_loop bs (Suc i) off ign st cap buf
        }
        else bf_loop bs (Suc i) off ign st cap buf
      })"

text \<open>The string left in a buffer of \<open>len\<close> bytes, and the result.\<close>

definition bitfield_msg ::
  "nat \<Rightarrow> string option list \<Rightarrow> nat \<Rightarrow> u32 \<Rightarrow> u64 \<Rightarrow> (string \<times> u32) option" where
  "bitfield_msg len bitarray bit_offset ignore_bits st =
     map_option (\<lambda>(txt, left). (txt, of_nat (len - 1 - left)))
       (bf_loop bitarray 0 bit_offset ignore_bits st (len - 1) ([], len - 1))"

section \<open>Bit ranges are quotients and remainders\<close>

lemma MASK_mask: "MASK n = mask (Suc n)"
  by (simp add: MASK_def mask_eq_exp_minus_1 push_bit_eq_mult)

lemma and_mask_unat: "unat (w AND mask n) = unat w mod 2 ^ n" for w :: "'a::len word"
  by (metis take_bit_eq_mask take_bit_nat_def unsigned_take_bit_eq)

text \<open>
  \<open>EXTRACT(v, a, b)\<close> is bits \<open>a\<close> to \<open>b\<close> of \<open>v\<close>: the quotient by \<open>2 ^ a\<close> reduced modulo
  \<open>2 ^ (b - a + 1)\<close>, so it is always below that bound.
\<close>

theorem EXTRACT_exact:
  assumes "a \<le> b"
  shows "unat (EXTRACT v a b) = unat v div 2 ^ a mod 2 ^ (b - a + 1)"
  by (simp add: EXTRACT_def MASK_mask and_mask_unat unat_drop_bit_eq) (simp add: drop_bit_eq_div)

theorem EXTRACT_exact_witness: "unat (EXTRACT 0xABCD 4 11) = 0xABCD div 16 mod 256"
  using EXTRACT_exact [of 4 11 "0xABCD"] by simp

lemma EXTRACT_less: "unat (EXTRACT v a b) < 2 ^ (b - a + 1)"
  by (simp add: EXTRACT_def MASK_mask and_mask_unat)

section \<open>The mask loop ends\<close>

lemma mask_step:
  assumes "k < LENGTH('a)"
  shows "push_bit 1 (mask k :: 'a::len word) OR 1 = mask (Suc k)"
proof (rule bit_word_eqI)
  fix n assume "n < LENGTH('a)"
  then show "bit (push_bit 1 (mask k :: 'a word) OR 1) n \<longleftrightarrow> bit (mask (Suc k) :: 'a word) n"
    by (cases n) (simp_all only: bit_or_iff bit_push_bit_iff bit_mask_iff bit_1_iff, auto)
qed

lemma bitmask_loop_step: "w < i \<Longrightarrow> bitmask_loop i w = bitmask_loop i (push_bit 1 w OR 1)"
  by (subst bitmask_loop.simps) simp

lemma bitmask_loop_stop: "\<not> w < i \<Longrightarrow> bitmask_loop i w = Some w"
  by (subst bitmask_loop.simps) simp

lemma bitmask_loop_mask:
  assumes "k \<le> 64"
  shows "\<exists>n. k \<le> n \<and> n \<le> 64 \<and> bitmask_loop i (mask k) = Some (mask n) \<and> i \<le> mask n \<and>
    (\<forall>j. k \<le> j \<and> j < n \<longrightarrow> mask j < i)"
  using assms
proof (induction "64 - k" arbitrary: k)
  case 0
  then have "k = 64" by simp
  then have "mask k = (- 1 :: u64)" by (simp add: mask_eq_decr_exp)
  then have "\<not> mask k < i" by (simp only: not_less word_order.extremum)
  then show ?case using 0 by (intro exI [of _ k]) (auto simp: bitmask_loop_stop not_less)
next
  case (Suc d)
  show ?case
  proof (cases "mask k < i")
    case True
    from Suc(2) have k: "k < 64" by simp
    have "d = 64 - Suc k" "Suc k \<le> 64" using Suc(2) by simp_all
    from Suc(1) [OF this] obtain n where n: "Suc k \<le> n" "n \<le> 64" "bitmask_loop i (mask (Suc k)) = Some (mask n)"
      "i \<le> mask n" "\<And>j. Suc k \<le> j \<Longrightarrow> j < n \<Longrightarrow> mask j < i"
      by blast
    have "bitmask_loop i (mask k) = Some (mask n)"
      using True n(3) mask_step [of k, where 'a = 64] k by (simp only: bitmask_loop_step [OF True]) simp
    moreover have "mask j < i" if "k \<le> j" "j < n" for j
      using that n(5) [of j] True by (cases "j = k") auto
    ultimately show ?thesis using n by (intro exI [of _ n]) simp
  next
    case False
    then show ?thesis using Suc(3) by (intro exI [of _ k]) (auto simp: bitmask_loop_stop not_less)
  qed
qed

text \<open>
  C18: the loop of \<open>bitmask\<close> ends for every argument, and its result is the least mask of one to 64 low
  bits that reaches the argument.
\<close>

theorem bitmask_returns:
  "\<exists>n. 1 \<le> n \<and> n \<le> 64 \<and> bitmask i = Some (mask n) \<and> i \<le> mask n \<and>
     (\<forall>j. 1 \<le> j \<and> j < n \<longrightarrow> mask j < i)"
  using bitmask_loop_mask [of 1 i] by (simp add: bitmask_def)

theorem bitmask_returns_witness: "\<exists>n. bitmask 130 = Some (mask n) \<and> (130 :: u64) \<le> mask n"
  using bitmask_returns [of 130] by blast

section \<open>What a table prints\<close>

text \<open>
  The specification: a field with \<open>n\<close> names is the number in the least number of bits that holds
  \<open>n - 1\<close>; it prints its name, or its position and value when it has none and is not zero. Printing
  stops at the first field without names, and running past the last field is undefined.
\<close>

definition field_bits :: "nat \<Rightarrow> nat" where
  "field_bits n = (LEAST k. 1 \<le> k \<and> n \<le> 2 ^ k)"

definition field_value :: "u64 \<Rightarrow> nat \<Rightarrow> nat \<Rightarrow> nat" where
  "field_value st b n = unat st div 2 ^ b mod 2 ^ field_bits n"

definition field_text :: "u64 \<Rightarrow> field \<Rightarrow> string option" where
  "field_text st f =
     (case str f of None \<Rightarrow> None | Some names \<Rightarrow>
        let v = field_value st (start_bit f) (length names)
        in case lookup names v of
             Some (Some s) \<Rightarrow> Some s
           | _ \<Rightarrow> if v = 0 then None
                  else Some (''<'' @ to_base 10 (start_bit f) @ '':'' @ to_base 16 v @ ''>''))"

definition num_text :: "u64 \<Rightarrow> numfield \<Rightarrow> string option" where
  "num_text st f =
     (case num_name f of None \<Rightarrow> None | Some name \<Rightarrow>
        let v = unat st div 2 ^ num_start f mod 2 ^ (num_end f - num_start f + 1)
        in if v = 0 \<and> \<not> num_force f then None
           else Some (name @ '': '' @ to_base (case num_fmt f of FMT_Lu \<Rightarrow> 10 | FMT_Lx \<Rightarrow> 16) v @ NL))"

definition terminated :: "field list \<Rightarrow> bool" where
  "terminated fs \<longleftrightarrow> (\<exists>f \<in> set fs. str f = None)"

definition num_terminated :: "numfield list \<Rightarrow> bool" where
  "num_terminated fs \<longleftrightarrow> (\<exists>f \<in> set fs. num_name f = None)"

text \<open>Messages added one after the other.\<close>

definition add_msgs :: "string list \<Rightarrow> mce_event \<Rightarrow> mce_event" where
  "add_msgs ss e = e\<lparr>error_msg := foldl (\<lambda>m s. mce_add 4096 s m) (error_msg e) ss\<rparr>"

lemma add_msgs_simps [simp]:
  "add_msgs [] e = e"
  "add_msgs (s # ss) e = add_msgs ss (e\<lparr>error_msg := mce_add 4096 s (error_msg e)\<rparr>)"
  by (simp_all add: add_msgs_def)

lemma terminated_simps [simp]:
  "\<not> terminated []"
  "terminated (FIELD b t # fs) \<longleftrightarrow> terminated fs"
  "terminated (SBITFIELD b s # fs) \<longleftrightarrow> terminated fs"
  "terminated (FIELD_NULL b # fs)"
  by (simp_all add: terminated_def FIELD_def SBITFIELD_def FIELD_NULL_def)

lemma num_terminated_simps [simp]:
  "\<not> num_terminated []"
  "num_terminated (NUMBER a b s # fs) \<longleftrightarrow> num_terminated fs"
  "num_terminated (NUMBERFORCE a b s # fs) \<longleftrightarrow> num_terminated fs"
  "num_terminated (HEXNUMBER a b s # fs) \<longleftrightarrow> num_terminated fs"
  "num_terminated (HEXNUMBERFORCE a b s # fs) \<longleftrightarrow> num_terminated fs"
  "num_terminated (END_NUM # fs)"
  by (simp_all add: num_terminated_def NUMBER_def NUMBERFORCE_def HEXNUMBER_def HEXNUMBERFORCE_def)

lemma bitmask_Some: "\<exists>m. bitmask i = Some m"
  using bitmask_loop_mask [of 1 i] by (auto simp: bitmask_def)

lemma unat_mask_le: "j \<le> LENGTH('a) \<Longrightarrow> unat (mask j :: 'a::len word) = 2 ^ j - 1"
proof -
  assume "j \<le> LENGTH('a)"
  have "unat (mask j :: 'a word) = unat (of_nat (mask j) :: 'a word)"
    by (simp only: of_nat_mask_eq)
  also have "\<dots> = mask j"
    using \<open>j \<le> LENGTH('a)\<close>
    by (simp add: unsigned_of_nat take_bit_of_mask min_def del: of_nat_mask_eq)
  finally show ?thesis by (simp add: mask_eq_exp_minus_1)
qed

lemma bitmask_field:
  assumes "n \<le> 2 ^ 32"
  shows "bitmask (of_nat (n - 1)) = Some (mask (field_bits n))"
proof -
  let ?i = "of_nat (n - 1) :: u64"
  obtain k where k: "1 \<le> k" "k \<le> 64" "bitmask ?i = Some (mask k)" "?i \<le> mask k"
    "\<forall>j. 1 \<le> j \<and> j < k \<longrightarrow> mask j < ?i"
    using bitmask_loop_mask [of 1 ?i] by (auto simp: bitmask_def)
  have i: "unat ?i = n - 1"
    using assms by (simp add: unsigned_of_nat take_bit_nat_eq_self)
  have m: "unat (mask j :: u64) = 2 ^ j - 1" if "j \<le> 64" for j
    using that by (simp add: unat_mask_le)
  have "field_bits n = k"
    unfolding field_bits_def
  proof (rule Least_equality)
    have "n - 1 \<le> 2 ^ k - 1"
      using k(2,4) i m [of k] by (simp add: word_le_nat_alt)
    moreover have "(1 :: nat) \<le> 2 ^ k" by simp
    ultimately have "n \<le> 2 ^ k" by linarith
    then show "1 \<le> k \<and> n \<le> 2 ^ k" using k(1) by simp
    show "k \<le> y" if "1 \<le> y \<and> n \<le> 2 ^ y" for y
    proof (rule ccontr)
      assume "\<not> k \<le> y"
      then have "mask y < ?i" "y \<le> 64" using k(2,5) that by auto
      then have "2 ^ y - 1 < n - 1" using i m [of y] by (simp add: word_less_nat_alt)
      then show False using that diff_le_mono [of n "2 ^ y" 1] by linarith
    qed
  qed
  then show ?thesis using k(3) by simp
qed

lemma unat_drop_and_mask: "unat (drop_bit b w AND mask k) = unat w div 2 ^ b mod 2 ^ k" for w :: "'a::len word"
  by (simp add: and_mask_unat unat_drop_bit_eq) (simp add: drop_bit_eq_div)


lemma decode_bitfield_step:
  assumes "str f = Some names" and "length names \<le> 2 ^ 32"
  shows "decode_bitfield st (f # fs) e =
     decode_bitfield st fs (add_msgs (case field_text st f of None \<Rightarrow> [] | Some s \<Rightarrow> [s]) e)"
proof -
  let ?v = "drop_bit (start_bit f) st AND mask (field_bits (length names)) :: u64"
  have v: "field_value st (start_bit f) (length names) = unat ?v"
    by (simp add: field_value_def unat_drop_and_mask)
  have m: "bitmask (of_nat (length names - 1)) = Some (mask (field_bits (length names)))"
    using assms(2) by (rule bitmask_field)
  define w where "w = ?v"
  have 1: "decode_bitfield st (f # fs) e =
     (case if unat w < length names then names ! unat w else None of
        None \<Rightarrow> if w = 0 then Some e
                else add_error_msg (''<'' @ to_base 10 (start_bit f) @ '':'' @ fmt_x w @ ''>'') e
      | Some s \<Rightarrow> add_error_msg s e) \<bind> decode_bitfield st fs"
    unfolding decode_bitfield.simps assms(1) option.case m Let_def bind.bind_lunit w_def ..
  show ?thesis
    unfolding 1 field_text_def Let_def assms(1) option.case v w_def [symmetric] lookup_def
    by (simp add: add_error_msg_def fmt_x_def unat_eq_0 split: option.split)
qed

lemma decode_numfield_step:
  assumes "num_name f = Some name"
  shows "decode_numfield st (f # fs) e =
     decode_numfield st fs (add_msgs (case num_text st f of None \<Rightarrow> [] | Some s \<Rightarrow> [s]) e)"
proof -
  let ?m = "push_bit (num_end f - num_start f + 1) 1 - 1 :: u64"
  let ?v = "drop_bit (num_start f) st AND ?m"
  have m: "?m = mask (num_end f - num_start f + 1)"
    by (simp add: mask_eq_exp_minus_1 push_bit_eq_mult)
  have v: "unat st div 2 ^ num_start f mod 2 ^ (num_end f - num_start f + 1) = unat ?v"
    by (simp only: m unat_drop_and_mask)
  define w where "w = ?v"
  have z: "0 < w \<longleftrightarrow> unat w \<noteq> 0" by (simp add: word_less_nat_alt)
  show ?thesis
    unfolding decode_numfield.simps num_text_def Let_def v
    unfolding w_def [symmetric]
    using assms
    by (simp add: cond_def add_error_msg_def fmt_num_def fmt_u_def fmt_x_def z split: num_format.split)
qed

lemma add_msgs_append: "add_msgs (ss @ ts) e = add_msgs ts (add_msgs ss e)"
  by (simp add: add_msgs_def)

lemma registers_add_msgs [simp]: "registers (add_msgs ss e) = registers e"
  by (simp add: add_msgs_def registers_def)

lemma messages_fit_add_msgs: "messages_fit e \<Longrightarrow> messages_fit (add_msgs ss e)"
  by (induction ss arbitrary: e) (simp_all add: messages_fit_def length_mce_add)

lemma decodes_add_msgs: "decodes e (Some (add_msgs ss e))"
  by (simp add: decodes_def messages_fit_add_msgs)

lemma decode_bitfield_eq:
  assumes "terminated fs" and "\<forall>f \<in> set fs. case str f of None \<Rightarrow> True | Some t \<Rightarrow> length t \<le> 2 ^ 32"
  shows "decode_bitfield st fs e =
     Some (add_msgs (List.map_filter (field_text st) (takeWhile (\<lambda>f. str f \<noteq> None) fs)) e)"
  using assms
proof (induction fs arbitrary: e)
  case (Cons f fs)
  show ?case
  proof (cases "str f")
    case (Some t)
    then have "terminated fs" using Cons.prems(1) by (simp add: terminated_def)
    then show ?thesis
      using Cons Some
      by (simp add: decode_bitfield_step List.map_filter_def del: decode_bitfield.simps split: option.split)
  qed (simp add: List.map_filter_def)
qed simp

lemma decode_numfield_eq:
  assumes "num_terminated fs"
  shows "decode_numfield st fs e =
     Some (add_msgs (List.map_filter (num_text st) (takeWhile (\<lambda>f. num_name f \<noteq> None) fs)) e)"
  using assms
proof (induction fs arbitrary: e)
  case (Cons f fs)
  show ?case
  proof (cases "num_name f")
    case (Some t)
    then have "num_terminated fs" using Cons.prems by (simp add: num_terminated_def)
    then show ?thesis
      using Cons Some
      by (simp add: decode_numfield_step List.map_filter_def del: decode_numfield.simps split: option.split)
  qed (simp add: List.map_filter_def)
qed simp

lemma decodes_bitfield [decodes_intros]: "terminated fs \<Longrightarrow> decodes e (decode_bitfield st fs e)"
proof (induction fs arbitrary: e)
  case (Cons f fs)
  obtain i where i: "i = (of_nat (case str f of None \<Rightarrow> 0 | Some t \<Rightarrow> length t - 1) :: u64)" by simp
  obtain m where m: "bitmask i = Some m" using bitmask_Some by blast
  show ?case
  proof (cases "str f")
    case (Some t)
    then have "terminated fs" using Cons.prems by (simp add: terminated_def)
    then show ?thesis
      using Some m i by (auto intro!: decodes_intros Cons.IH simp: Let_def split: option.split)
  qed (simp add: decodes_Some)
qed simp

lemma decodes_numfield [decodes_intros]: "num_terminated fs \<Longrightarrow> decodes e (decode_numfield st fs e)"
  by (simp add: decode_numfield_eq decodes_add_msgs)

text \<open>
  Printing a register by a table appends, in the table's order, the text of each field before the
  first one without names, and nothing else: fields after a \<open>FIELD_NULL\<close> are never printed.
\<close>

theorem decode_bitfield_prints:
  assumes "terminated fs" and "\<forall>f \<in> set fs. case str f of None \<Rightarrow> True | Some t \<Rightarrow> length t \<le> 2 ^ 32"
  shows "decode_bitfield st fs e =
     Some (add_msgs (List.map_filter (field_text st) (takeWhile (\<lambda>f. str f \<noteq> None) fs)) e)"
  using assms by (rule decode_bitfield_eq)

theorem decode_bitfield_prints_witness:
  "\<forall>e. decode_bitfield 0x30000
     [FIELD 16 [None, Some ''a''], SBITFIELD 17 ''b'', FIELD_NULL 18, SBITFIELD 16 ''c'', END_FIELD] e =
     Some (add_msgs [''a'', ''b''] e)"
proof
  fix e
  have t: "field_bits (Suc (Suc 0)) = 1"
    unfolding field_bits_def by (rule Least_equality) auto
  have "field_text 0x30000 (FIELD 16 [None, Some ''a'']) = Some ''a''"
       "field_text 0x30000 (SBITFIELD 17 ''b'') = Some ''b''"
    by (simp_all add: field_text_def FIELD_def SBITFIELD_def field_value_def t lookup_def Let_def) 
  then show "decode_bitfield 0x30000
     [FIELD 16 [None, Some ''a''], SBITFIELD 17 ''b'', FIELD_NULL 18, SBITFIELD 16 ''c'', END_FIELD] e =
     Some (add_msgs [''a'', ''b''] e)"
    using decode_bitfield_prints [of "[FIELD 16 [None, Some ''a''], SBITFIELD 17 ''b'', FIELD_NULL 18,
       SBITFIELD 16 ''c'', END_FIELD]" "0x30000" e]
    by (simp add: terminated_def List.map_filter_def SBITFIELD_def FIELD_def FIELD_NULL_def del: decode_bitfield.simps)
qed

section \<open>What a bit array prints\<close>

definition bit_name :: "nat \<Rightarrow> string option \<Rightarrow> string" where
  "bit_name n b = (case b of None \<Rightarrow> ''BIT'' @ to_base 10 n | Some s \<Rightarrow> s)"

text \<open>The names of the bits that are set, in order, for an array whose first entry is bit \<open>i + off\<close>.\<close>

definition bit_names_from :: "nat \<Rightarrow> string option list \<Rightarrow> nat \<Rightarrow> u64 \<Rightarrow> string list" where
  "bit_names_from i bs off st =
     map (\<lambda>(i, b). bit_name (i + off) b) (filter (\<lambda>(i, _). bit st (i + off)) (enumerate i bs))"

lemma bit_names_from_simps [simp]:
  "bit_names_from i [] off st = []"
  "bit_names_from i (b # bs) off st =
     (if bit st (i + off) then [bit_name (i + off) b] else []) @ bit_names_from (Suc i) bs off st"
  by (simp_all add: bit_names_from_def)

fun joined :: "string list \<Rightarrow> string" where
  "joined [] = []"
| "joined [s] = s"
| "joined (s # ss) = s @ '', '' @ joined ss"

lemma joined_snoc: "ss \<noteq> [] \<Longrightarrow> joined (ss @ [s]) = joined ss @ '', '' @ s"
  by (induction ss rule: joined.induct) auto

lemma bf_loop_ignored:
  assumes "st AND ucast ign \<noteq> 0"
  shows "bf_loop bs i off ign st cap buf = Some buf"
  using assms by (induction bs arbitrary: i) simp_all

lemma bf_loop_shift_undefined:
  assumes "st AND ucast ign = 0" and "i + off \<le> 32" and "32 < i + off + length bs"
  shows "bf_loop bs i off ign st cap buf = None"
  using assms(2,3)
proof (induction bs arbitrary: i buf)
  case (Cons b bs)
  show ?case
  proof (cases "i + off = 32")
    case True
    then show ?thesis using assms(1) by (simp add: int_bit_def)
  next
    case False
    then have "bf_loop bs (Suc i) off ign st cap buf' = None" for buf'
      using Cons.prems by (intro Cons.IH) simp_all
    then show ?thesis using assms(1) by (auto split: bind_splits)
  qed
qed simp

lemma and_word_eq_0: "a AND b \<noteq> 0 \<longleftrightarrow> (\<exists>k. bit a k \<and> bit b k)" for a b :: "'a::len word"
proof
  assume "a AND b \<noteq> 0"
  show "\<exists>k. bit a k \<and> bit b k"
  proof (rule ccontr)
    assume "\<not> ?thesis"
    then have "a AND b = 0" by (intro bit_word_eqI) (simp add: bit_and_iff)
    with \<open>a AND b \<noteq> 0\<close> show False by simp
  qed
next
  assume "\<exists>k. bit a k \<and> bit b k"
  then obtain k where "bit (a AND b) k" by (auto simp: bit_and_iff)
  then show "a AND b \<noteq> 0" by auto
qed

lemma int_bit_set:
  assumes "n < 32" and "unat st < 2 ^ 32"
  shows "\<exists>m. int_bit n = Some m \<and> (st AND m \<noteq> 0 \<longleftrightarrow> bit st n)"
proof -
  have high: "\<not> bit st k" if "32 \<le> k" for k
  proof
    assume "bit st k"
    then have "bit (unat st) k" by (simp add: bit_unsigned_iff)
    moreover have "unat st < 2 ^ k"
      using assms(2) power_increasing [OF that, of "2 :: nat"] by simp
    ultimately show False by (simp add: bit_iff_odd)
  qed
  let ?m = "scast (push_bit n 1 :: s32) :: u64"
  have m: "bit ?m k \<longleftrightarrow> k < 64 \<and> (k = n \<or> (n = 31 \<and> 31 \<le> k))" for k
    unfolding bit_signed_iff bit_push_bit_iff bit_1_iff using assms(1) by auto
  have "st AND ?m \<noteq> 0 \<longleftrightarrow> (\<exists>k. bit st k \<and> bit ?m k)"
    by (rule and_word_eq_0)
  also have "\<dots> \<longleftrightarrow> bit st n"
  proof
    assume "\<exists>k. bit st k \<and> bit ?m k"
    then obtain k where k: "bit st k" "k < 64" "k = n \<or> (n = 31 \<and> 31 \<le> k)" unfolding m by blast
    moreover have "k < 32" using high k(1) by (meson not_less)
    ultimately show "bit st n" by (cases "k = n") auto
  next
    assume "bit st n"
    then show "\<exists>k. bit st k \<and> bit ?m k" unfolding m using assms(1) by (intro exI [of _ n]) simp
  qed
  finally have "st AND ?m \<noteq> 0 \<longleftrightarrow> bit st n" .
  then show ?thesis using assms(1) by (simp add: int_bit_def)
qed


lemma bf_emit_fits:
  "length txt + length s < cap \<Longrightarrow> bf_emit s (txt, cap - length txt) = Some (txt @ s, cap - length (txt @ s))"
  by (simp add: bf_emit_def less_diff_conv)

lemma joined_eq_Nil: "[] \<notin> set ss \<Longrightarrow> joined ss = [] \<longleftrightarrow> ss = []"
  by (induction ss rule: joined.induct) auto

lemma joined_append_ge: "length (joined ss) \<le> length (joined (ss @ ts))"
proof (induction ts rule: rev_induct)
  case (snoc t ts)
  then show ?case
    using joined_snoc [of "ss @ ts" t] by (cases "ss @ ts = []") auto
qed simp

lemma bf_loop_names:
  assumes "unat st < 2 ^ 32" and "i + off + length bs \<le> 32" and "Some [] \<notin> set bs" and "[] \<notin> set ss"
    and "length (joined (ss @ bit_names_from i bs off st)) < cap"
  shows "bf_loop bs i off 0 st cap (joined ss, cap - length (joined ss)) =
     Some (joined (ss @ bit_names_from i bs off st),
           cap - length (joined (ss @ bit_names_from i bs off st)))"
  using assms(2-)
proof (induction bs arbitrary: i ss)
  case (Cons b bs)
  let ?n = "i + off"
  obtain m where m: "int_bit ?n = Some m" "st AND m \<noteq> 0 \<longleftrightarrow> bit st ?n"
    using int_bit_set [of ?n st] assms(1) Cons.prems(1) by auto
  show ?case
  proof (cases "bit st ?n")
    case False
    then show ?thesis using Cons m by simp
  next
    case True
    let ?s = "bit_name ?n b"
    let ?t = "joined ss" and ?u = "joined (ss @ [?s])"
    have s: "?s \<noteq> []" using Cons.prems(2) by (auto simp: bit_name_def split: option.split)
    have len: "length ?u < cap"
      using Cons.prems(4) True joined_append_ge [of "ss @ [?s]" "bit_names_from (Suc i) bs off st"] by simp
    have "do { buf \<leftarrow> (if snd (?t, cap - length ?t) \<noteq> cap then bf_emit '', '' (?t, cap - length ?t)
                     else Some (?t, cap - length ?t));
               bf_emit ?s buf } = Some (?u, cap - length ?u)"
    proof (cases "ss = []")
      case True
      then show ?thesis using bf_emit_fits [of "[]" ?s cap] len by simp
    next
      case False
      then have u: "?u = ?t @ '', '' @ ?s" by (rule joined_snoc)
      have "0 < length ?t" using joined_eq_Nil [of ss] Cons.prems(3) False by simp
      then have "cap - length ?t < cap" using len by (intro diff_less) linarith+
      then have "cap - length ?t \<noteq> cap" by simp
      then show ?thesis
        using bf_emit_fits [of ?t "'', ''" cap] bf_emit_fits [of "?t @ '', ''" ?s cap] len u by simp
    qed
    then have "bf_loop (b # bs) i off 0 st cap (?t, cap - length ?t) =
        bf_loop bs (Suc i) off 0 st cap (?u, cap - length ?u)"
      using True m by (simp add: bit_name_def bind_assoc [symmetric] del: bind_assoc)
    then show ?thesis
      using Cons.IH [of "Suc i" "ss @ [?s]"] Cons.prems s True by simp
  qed
qed simp

lemma bitfield_msg_names:
  assumes "unat st < 2 ^ 32" and "off + length bs \<le> 32" and "Some [] \<notin> set bs"
    and "length (joined (bit_names_from 0 bs off st)) + 1 < len"
  shows "bitfield_msg len bs off 0 st =
     Some (joined (bit_names_from 0 bs off st), of_nat (length (joined (bit_names_from 0 bs off st))))"
  using bf_loop_names [of st 0 off bs "[]" "len - 1"] assms
  by (simp add: bitfield_msg_def)

text \<open>
  With no bits to ignore, an array of at most 32 names and a buffer that holds the result,
  \<open>bitfield_msg\<close> writes the names of the bits that are set, in order and separated by commas, with
  \<open>BIT\<close> and the number for a bit without a name, and returns the length.
\<close>

theorem bitfield_msg_prints:
  assumes "unat st < 2 ^ 32" and "off + length bs \<le> 32" and "Some [] \<notin> set bs"
    and "length (joined (bit_names_from 0 bs off st)) + 1 < len"
  shows "bitfield_msg len bs off 0 st =
     Some (joined (bit_names_from 0 bs off st), of_nat (length (joined (bit_names_from 0 bs off st))))"
  using assms by (rule bitfield_msg_names)

theorem bitfield_msg_prints_witness:
  "bitfield_msg 16 [Some ''a'', None, Some ''c''] 4 0 0x30 = Some (''a, BIT5'', 7)"
proof -
  have n: "bit_names_from 0 [Some ''a'', None, Some ''c''] 4 0x30 = [''a'', ''BIT5'']"
    by (simp add: bit_name_def) code_simp
  show ?thesis
    using bitfield_msg_prints [of "0x30" 4 "[Some ''a'', None, Some ''c'']" 16] by (simp add: n del: bit_names_from_simps)
qed

end
