(* ===== verification/Mce_Intel_P6.thy ===== *)
theory Mce_Intel_P6
  imports Bitfield
begin

text \<open>
  The decoders of the processors before Sandy Bridge: P4 and P6, Nehalem and Xeon 75xx, Tulsa and
  Dunnington (\<open>mce-intel-p4-p6.c\<close>, \<open>mce-intel-nehalem.c\<close>, \<open>mce-intel-tulsa.c\<close>,
  \<open>mce-intel-dunnington.c\<close>). Tables keep the order and the positions of the sources.
\<close>

section \<open>P4 and P6\<close>

definition p6_bus_queue_req_type :: "string option list" where
  "p6_bus_queue_req_type = sparse 31
    [(0, ''BQ_DCU_READ_TYPE''),
     (2, ''BQ_IFU_DEMAND_TYPE''),
     (3, ''BQ_IFU_DEMAND_NC_TYPE''),
     (4, ''BQ_DCU_RFO_TYPE''),
     (5, ''BQ_DCU_RFO_LOCK_TYPE''),
     (6, ''BQ_DCU_ITOM_TYPE''),
     (8, ''BQ_DCU_WB_TYPE''),
     (10, ''BC_DCU_WCEVICT_TYPE''),
     (11, ''BQ_DCU_WCLINE_TYPE''),
     (12, ''BQ_DCU_BTM_TYPE''),
     (13, ''BQ_DCU_INTACK_TYPE''),
     (14, ''BQ_DCU_INVALL2_TYPE''),
     (15, ''BQ_DCU_FLUSHL2_TYPE''),
     (16, ''BQ_DCU_PART_RD_TYPE''),
     (18, ''BQ_DCU_PART_WR_TYPE''),
     (20, ''BQ_DCU_SPEC_CYC_TYPE''),
     (24, ''BQ_DCU_IO_RD_TYPE''),
     (25, ''BQ_DCU_IO_WR_TYPE''),
     (28, ''BQ_DCU_LOCK_RD_TYPE''),
     (30, ''BQ_DCU_SPLOCK_RD_TYPE''),
     (29, ''BQ_DCU_LOCK_WR_TYPE'')]"

definition p6_bus_queue_error_type :: "string option list" where
  "p6_bus_queue_error_type = sparse 6
    [(0, ''BQ_ERR_HARD_TYPE''),
     (1, ''BQ_ERR_DOUBLE_TYPE''),
     (2, ''BQ_ERR_AERR2_TYPE''),
     (4, ''BQ_ERR_SINGLE_TYPE''),
     (5, ''BQ_ERR_AERR1_TYPE'')]"

definition p6_shared_status :: "field list" where
  "p6_shared_status =
    [FIELD_NULL 16,
     FIELD 19 p6_bus_queue_req_type,
     FIELD 25 p6_bus_queue_error_type,
     FIELD 25 p6_bus_queue_error_type,
     SBITFIELD 30 ''internal BINIT'',
     SBITFIELD 36 ''received parity error on response transaction'',
     SBITFIELD 38 ''timeout BINIT (ROB timeout). No micro-instruction retired for some time'',
     FIELD_NULL 39,
     SBITFIELD 42 ''bus transaction received hard error response'',
     SBITFIELD 43 ''failure that caused IERR'',
     SBITFIELD 44 ''two failing bus transactions with address parity error (AERR)'',
     SBITFIELD 45 ''uncorrectable ECC error'',
     SBITFIELD 46 ''correctable ECC error'',
     FIELD_NULL 55,
     END_FIELD]"

definition p6_p6old_status :: "field list" where
  "p6_p6old_status =
    [SBITFIELD 28 ''FRC error'',
     SBITFIELD 29 ''BERR on this CPU'',
     FIELD_NULL 31,
     FIELD_NULL 32,
     SBITFIELD 35 ''BINIT received from external bus'',
     SBITFIELD 37 ''Received hard error response on split transaction (Bus BINIT)'',
     END_FIELD]"

definition p6_core2_status :: "field list" where
  "p6_core2_status =
    [SBITFIELD 28 ''MCE driven'',
     SBITFIELD 29 ''MCE is observed'',
     SBITFIELD 31 ''BINIT observed'',
     FIELD_NULL 32,
     SBITFIELD 34 ''PIC or FSB data parity error'',
     FIELD_NULL 35,
     SBITFIELD 37 ''FSB address parity error detected'',
     END_FIELD]"

definition p6_p6old_status_numbers :: "numfield list" where
  "p6_p6old_status_numbers =
    [HEXNUMBER 47 54 ''ECC syndrome'',
     END_NUM]"

lemma p6_terminated [simp]:
  "terminated p6_shared_status"
  "terminated p6_p6old_status"
  "terminated p6_core2_status"
  by (simp_all add: p6_shared_status_def p6_p6old_status_def p6_core2_status_def)

lemma p6_num_terminated [simp]:
  "num_terminated p6_p6old_status_numbers"
  by (simp_all add: p6_p6old_status_numbers_def)

definition p4_model :: "(nat \<times> string) list" where
  "p4_model =
    [(16, ''FSB address parity''),
     (17, ''Response hard fail''),
     (18, ''Response parity''),
     (19, ''PIC and FSB data parity''),
     (20, ''Invalid PIC request(Signature=0xF04H)''),
     (21, ''Pad state machine''),
     (22, ''Pad strobe glitch''),
     (23, ''Pad address glitch'')]"

definition p4_decode_model :: "mce_event \<Rightarrow> mce_event option" where
  "p4_decode_model e =
     (let model = ucast (status e AND 0xFFFF0000) :: u32
      in run_all (\<lambda>(n, s). cond (model AND push_bit n 1 \<noteq> 0) (add_error_msg s)) p4_model e)"

definition core2_decode_model :: "mce_event \<Rightarrow> mce_event option" where
  "core2_decode_model e =
     (let st = status e
      in do {
        e \<leftarrow> decode_bitfield st p6_shared_status e;
        e \<leftarrow> decode_bitfield st p6_core2_status e;
        decode_numfield st p6_p6old_status_numbers e
      })"

definition p6old_decode_model :: "mce_event \<Rightarrow> mce_event option" where
  "p6old_decode_model e =
     (let st = status e
      in do {
        e \<leftarrow> decode_bitfield st p6_shared_status e;
        e \<leftarrow> decode_bitfield st p6_p6old_status e;
        decode_numfield st p6_p6old_status_numbers e
      })"

section \<open>Nehalem\<close>

definition nhm_qpi_status :: "field list" where
  "nhm_qpi_status =
    [SBITFIELD 16 ''QPI header had bad parity'',
     SBITFIELD 17 ''QPI Data packet had bad parity'',
     SBITFIELD 18 ''Number of QPI retries exceeded'',
     SBITFIELD 19 ''Received QPI data packet that was poisoned by sender'',
     SBITFIELD 20 ''QPI reserved 20'',
     SBITFIELD 21 ''QPI reserved 21'',
     SBITFIELD 22 ''QPI received unsupported message encoding'',
     SBITFIELD 23 ''QPI credit type is not supported'',
     SBITFIELD 24 ''Sender sent too many QPI flits to the receiver'',
     SBITFIELD 25 ''QPI Sender sent a failed response to receiver'',
     SBITFIELD 26 ''Clock jitter detected in internal QPI clocking'',
     END_FIELD]"

definition nhm_qpi_misc :: "field list" where
  "nhm_qpi_misc =
    [SBITFIELD 14 ''QPI misc reserved 14'',
     SBITFIELD 15 ''QPI misc reserved 15'',
     SBITFIELD 24 ''QPI Interleave/Head Indication Bit (IIB)'',
     END_FIELD]"

definition nhm_qpi_numbers :: "numfield list" where
  "nhm_qpi_numbers =
    [HEXNUMBER 0 7 ''QPI class and opcode of packet with error'',
     HEXNUMBER 8 13 ''QPI Request Transaction ID'',
     NUMBERFORCE 16 18 ''QPI Requestor/Home Node ID (RHNID)'',
     HEXNUMBER 19 23 ''QPI miscreserved 19-23'',
     END_NUM]"

definition nhm_memory_status :: "field list" where
  "nhm_memory_status =
    [SBITFIELD 16 ''Memory read ECC error'',
     SBITFIELD 17 ''Memory ECC error occurred during scrub'',
     SBITFIELD 18 ''Memory write parity error'',
     SBITFIELD 19 ''Memory error in half of redundant memory'',
     SBITFIELD 20 ''Memory reserved 20'',
     SBITFIELD 21 ''Memory access out of range'',
     SBITFIELD 22 ''Memory internal RTID invalid'',
     SBITFIELD 23 ''Memory address parity error'',
     SBITFIELD 24 ''Memory byte enable parity error'',
     END_FIELD]"

definition nhm_memory_status_numbers :: "numfield list" where
  "nhm_memory_status_numbers =
    [HEXNUMBER 25 37 ''Memory MISC reserved 25..37'',
     NUMBERFORCE 38 52 ''Memory corrected error count (CORE_ERR_CNT)'',
     HEXNUMBER 53 56 ''Memory MISC reserved 53..56'',
     END_NUM]"

definition nhm_memory_misc_numbers :: "numfield list" where
  "nhm_memory_misc_numbers =
    [HEXNUMBERFORCE 0 7 ''Memory transaction Tracker ID (RTId)'',
     NUMBERFORCE 16 17 ''Memory DIMM ID of error'',
     NUMBERFORCE 18 19 ''Memory channel ID of error'',
     HEXNUMBERFORCE 32 63 ''Memory ECC syndrome'',
     END_NUM]"

definition nhm_internal_errors :: "string option list" where
  "nhm_internal_errors = sparse 27
    [(0x0, ''No Error''),
     (0x3, ''Reset firmware did not complete''),
     (0x8, ''Received an invalid CMPD''),
     (0xa, ''Invalid Power Management Request''),
     (0xd, ''Invalid S-state transition''),
     (0x11, ''VID controller does not match POC controller selected''),
     (0x1a, ''MSID from POC does not match CPU MSID'')]"

definition nhm_internal_error_status :: "field list" where
  "nhm_internal_error_status =
    [FIELD 24 nhm_internal_errors,
     END_FIELD]"

definition nhm_internal_error_numbers :: "numfield list" where
  "nhm_internal_error_numbers =
    [HEXNUMBER 16 23 ''Internal machine check status reserved 16..23'',
     HEXNUMBER 32 56 ''Internal machine check status reserved 32..56'',
     END_NUM]"

lemma nhm_terminated [simp]:
  "terminated nhm_qpi_status"
  "terminated nhm_qpi_misc"
  "terminated nhm_memory_status"
  "terminated nhm_internal_error_status"
  by (simp_all add: nhm_qpi_status_def nhm_qpi_misc_def nhm_memory_status_def nhm_internal_error_status_def)

lemma nhm_num_terminated [simp]:
  "num_terminated nhm_qpi_numbers"
  "num_terminated nhm_memory_status_numbers"
  "num_terminated nhm_memory_misc_numbers"
  "num_terminated nhm_internal_error_numbers"
  by (simp_all add: nhm_qpi_numbers_def nhm_memory_status_numbers_def nhm_memory_misc_numbers_def nhm_internal_error_numbers_def)

definition nehalem_decode_model :: "mce_event \<Rightarrow> mce_event option" where
  "nehalem_decode_model e =
     (let st = status e; mca = mcacod e; mi = misc e
      in do {
        e \<leftarrow> (if drop_bit 11 mca = 1 then
                do {
                  e \<leftarrow> decode_bitfield st nhm_qpi_status e;
                  (if flagged st MCI_STATUS_MISCV then
                     do {
                       e \<leftarrow> decode_numfield mi nhm_qpi_numbers e;
                       decode_bitfield mi nhm_qpi_misc e
                     }
                   else Some e)
                }
              else if mca = 0x0001 then
                do {
                  e \<leftarrow> decode_bitfield st nhm_internal_error_status e;
                  decode_numfield st nhm_internal_error_numbers e
                }
              else if drop_bit 7 mca = 1 then
                do {
                  e \<leftarrow> decode_bitfield st nhm_memory_status e;
                  e \<leftarrow> decode_numfield st nhm_memory_status_numbers e;
                  cond (flagged st MCI_STATUS_MISCV) (decode_numfield mi nhm_memory_misc_numbers) e
                }
              else Some e);
        cond (drop_bit 7 (st AND 0xFFFF) = 1 \<and> flagged st MCI_STATUS_MISCV)
          (let channel = ucast (EXTRACT mi 18 19) :: u32; dimm = ucast (EXTRACT mi 16 17) :: u32
           in add_mc_location (''channel='' @ fmt_d channel @ '', dimm='' @ fmt_d dimm)) e
      })"

definition xeon75xx_decode_model :: "mce_event \<Rightarrow> mce_event option" where
  "xeon75xx_decode_model e =
     (let st = status e; mca = mcacod e
      in if mca = 0x0001 then
           do {
             e \<leftarrow> decode_bitfield st nhm_internal_error_status e;
             decode_numfield st nhm_internal_error_numbers e
           }
         else Some e)"

section \<open>Tulsa\<close>

definition tls_corr_numbers :: "numfield list" where
  "tls_corr_numbers =
    [NUMBER 32 39 ''Corrected events'',
     END_NUM]"

definition tls_ecc_numbers :: "numfield list" where
  "tls_ecc_numbers =
    [HEXNUMBER 44 51 ''ECC syndrome'',
     END_NUM]"

definition tls_bus_status :: "field list" where
  "tls_bus_status =
    [SBITFIELD 16 ''Parity error detected during FSB request phase'',
     SBITFIELD 17 ''Partity error detected on Core 0 request's address field'',
     SBITFIELD 18 ''Partity error detected on Core 1 request's address field'',
     FIELD_NULL 19,
     SBITFIELD 20 ''Parity error on FSB response field detected'',
     SBITFIELD 21 ''FSB data parity error on inbound date detected'',
     SBITFIELD 22 ''Data parity error on data received from Core 0 detected'',
     SBITFIELD 23 ''Data parity error on data received from Core 1 detected'',
     SBITFIELD 24 ''Detected an Enhanced Defer parity error phase A or phase B'',
     SBITFIELD 25 ''Data ECC event to error on inbound data correctable or uncorrectable'',
     SBITFIELD 26 ''Pad logic detected a data strobe glitch or sequencing error'',
     SBITFIELD 27 ''Pad logic detected a request strobe glitch or sequencing error'',
     FIELD_NULL 28,
     FIELD_NULL 31,
     END_FIELD]"

definition tls_front_error :: "string option list" where
  "tls_front_error = sparse 15
    [(0x1, ''Inclusion error from core 0''),
     (0x2, ''Inclusion error from core 1''),
     (0x3, ''Write Exclusive error from core 0''),
     (0x4, ''Write Exclusive error from core 1''),
     (0x5, ''Inclusion error from FSB''),
     (0x6, ''SNP stall error from FSB''),
     (0x7, ''Write stall error from FSB''),
     (0x8, ''FSB Arbiter Timeout error''),
     (0x9, ''CBC OOD Queue Underflow/overflow'')]"

definition tls_int_error :: "string option list" where
  "tls_int_error = sparse 15
    [(0x1, ''Enhanced Intel SpeedStep Technology TM1-TM2 Error''),
     (0x2, ''Internal timeout error''),
     (0x3, ''Internal timeout error''),
     (0x4, (''Intel Cache Safe Technology Queue full error'' @ NL @ ''or disabled ways in a set overflow''))]"

definition tls_int_status :: "field list" where
  "tls_int_status =
    [FIELD 8 tls_int_error,
     END_FIELD]"

definition tls_front_status :: "field list" where
  "tls_front_status =
    [FIELD 0 tls_front_error,
     END_FIELD]"

definition tls_cecc :: "field list" where
  "tls_cecc =
    [SBITFIELD 0 ''Correctable ECC event on outgoing FSB data'',
     SBITFIELD 1 ''Correctable ECC event on outgoing core 0 data'',
     SBITFIELD 2 ''Correctable ECC event on outgoing core 1 data'',
     END_FIELD]"

definition tls_uecc :: "field list" where
  "tls_uecc =
    [SBITFIELD 0 ''Uncorrectable ECC event on outgoing FSB data'',
     SBITFIELD 1 ''Uncorrectable ECC event on outgoing core 0 data'',
     SBITFIELD 2 ''Uncorrectable ECC event on outgoing core 1 data'',
     END_FIELD]"

lemma tls_terminated [simp]:
  "terminated tls_bus_status"
  "terminated tls_int_status"
  "terminated tls_front_status"
  "terminated tls_cecc"
  "terminated tls_uecc"
  by (simp_all add: tls_bus_status_def tls_int_status_def tls_front_status_def tls_cecc_def tls_uecc_def)

lemma tls_num_terminated [simp]:
  "num_terminated tls_corr_numbers"
  "num_terminated tls_ecc_numbers"
  by (simp_all add: tls_corr_numbers_def tls_ecc_numbers_def)

definition tulsa_decode_bus :: "u64 \<Rightarrow> mce_event \<Rightarrow> mce_event option" where
  "tulsa_decode_bus st e = decode_bitfield st tls_bus_status e"

definition tulsa_decode_internal :: "u64 \<Rightarrow> mce_event \<Rightarrow> mce_event option" where
  "tulsa_decode_internal st e =
     (let mca = ucast (drop_bit 16 st AND 0xFFFF) :: u32
      in if mca AND 0xFFF0 = 0 then decode_bitfield (ucast mca) tls_front_status e
         else if mca AND 0xF0FF = 0 then decode_bitfield (ucast mca) tls_int_status e
         else if mca AND 0xFFF0 = 0xC000 then decode_bitfield (ucast mca) tls_cecc e
         else if mca AND 0xFFF0 = 0xE000 then decode_bitfield (ucast mca) tls_uecc e
         else Some e)"

definition tulsa_decode_model :: "mce_event \<Rightarrow> mce_event option" where
  "tulsa_decode_model e =
     (let st = status e; mi = misc e
      in do {
        e \<leftarrow> decode_numfield st tls_corr_numbers e;
        e \<leftarrow> cond (flagged st (BIT_ULL 52)) (decode_numfield st tls_ecc_numbers) e;
        e \<leftarrow> cond (flagged st MCI_STATUS_MISCV)
               (add_mcistatus_msg (''MISC format '' @ fmt_x (drop_bit 40 st AND 3) @
                  '' value '' @ fmt_x mi @ NL)) e;
        (if st AND 0xFFFF = 0xE0F then tulsa_decode_bus st e
         else if st AND 0xFFFF = push_bit 10 1 then tulsa_decode_internal st e
         else Some e)
      })"

section \<open>Dunnington\<close>

definition dnt_dunnington_bus_status :: "field list" where
  "dnt_dunnington_bus_status =
    [SBITFIELD 16 ''Parity error detected during FSB request phase'',
     FIELD_NULL 17,
     SBITFIELD 20 ''Hard Failure response received for a local transaction'',
     SBITFIELD 21 ''Parity error on FSB response field detected'',
     SBITFIELD 22 ''Parity data error on inbound data detected'',
     FIELD_NULL 23,
     FIELD_NULL 25,
     FIELD_NULL 28,
     FIELD_NULL 31,
     END_FIELD]"

definition dnt_front_error :: "string option list" where
  "dnt_front_error = sparse 15
    [(0x1, ''Inclusion error from core 0''),
     (0x2, ''Inclusion error from core 1''),
     (0x3, ''Write Exclusive error from core 0''),
     (0x4, ''Write Exclusive error from core 1''),
     (0x5, ''Inclusion error from FSB''),
     (0x6, ''SNP stall error from FSB''),
     (0x7, ''Write stall error from FSB''),
     (0x8, ''FSB Arbiter Timeout error''),
     (0xA, ''Inclusion error from core 2''),
     (0xB, ''Write exclusive error from core 2'')]"

definition dnt_int_error :: "string option list" where
  "dnt_int_error = sparse 15
    [(0x2, ''Internal timeout error''),
     (0x3, ''Internal timeout error''),
     (0x4, (''Intel Cache Safe Technology Queue full error'' @ NL @ ''or disabled ways in a set overflow'')),
     (0x5, ''Quiet cycle timeout error (correctable)'')]"

definition dnt_int_status :: "field list" where
  "dnt_int_status =
    [FIELD 8 dnt_int_error,
     END_FIELD]"

definition dnt_front_status :: "field list" where
  "dnt_front_status =
    [FIELD 0 dnt_front_error,
     END_FIELD]"

definition dnt_cecc :: "field list" where
  "dnt_cecc =
    [SBITFIELD 1 ''Correctable ECC event on outgoing core 0 data'',
     SBITFIELD 2 ''Correctable ECC event on outgoing core 1 data'',
     SBITFIELD 3 ''Correctable ECC event on outgoing core 2 data'',
     END_FIELD]"

definition dnt_uecc :: "field list" where
  "dnt_uecc =
    [SBITFIELD 1 ''Uncorrectable ECC event on outgoing core 0 data'',
     SBITFIELD 2 ''Uncorrectable ECC event on outgoing core 1 data'',
     SBITFIELD 3 ''Uncorrectable ECC event on outgoing core 2 data'',
     END_FIELD]"

lemma dnt_terminated [simp]:
  "terminated dnt_dunnington_bus_status"
  "terminated dnt_int_status"
  "terminated dnt_front_status"
  "terminated dnt_cecc"
  "terminated dnt_uecc"
  by (simp_all add: dnt_dunnington_bus_status_def dnt_int_status_def dnt_front_status_def dnt_cecc_def dnt_uecc_def)

definition dunnington_decode_bus :: "u64 \<Rightarrow> mce_event \<Rightarrow> mce_event option" where
  "dunnington_decode_bus st e = decode_bitfield st dnt_dunnington_bus_status e"

definition dunnington_decode_internal :: "u64 \<Rightarrow> mce_event \<Rightarrow> mce_event option" where
  "dunnington_decode_internal st e =
     (let mca = ucast (drop_bit 16 st AND 0xFFFF) :: u32
      in if mca AND 0xFFF0 = 0 then decode_bitfield (ucast mca) dnt_front_status e
         else if mca AND 0xF0FF = 0 then decode_bitfield (ucast mca) dnt_int_status e
         else if mca AND 0xFFF0 = 0xC000 then decode_bitfield (ucast mca) dnt_cecc e
         else if mca AND 0xFFF0 = 0xE000 then decode_bitfield (ucast mca) dnt_uecc e
         else Some e)"

definition dunnington_decode_model :: "mce_event \<Rightarrow> mce_event option" where
  "dunnington_decode_model e =
     (let st = status e
      in if st AND 0xFFFF = 0xE0F then dunnington_decode_bus st e
         else if st AND 0xFFFF = push_bit 10 1 then dunnington_decode_internal st e
         else Some e)"

section \<open>Every decoder is in order\<close>

lemma decodes_p6 [decodes_intros]:
  "decodes e (p4_decode_model e)" "decodes e (core2_decode_model e)" "decodes e (p6old_decode_model e)"
  by (auto simp: p4_decode_model_def core2_decode_model_def p6old_decode_model_def Let_def
      intro!: decodes_intros)

lemma decodes_nehalem [decodes_intros]:
  "decodes e (nehalem_decode_model e)" "decodes e (xeon75xx_decode_model e)"
  by (auto simp: nehalem_decode_model_def xeon75xx_decode_model_def Let_def intro!: decodes_intros)

lemma decodes_tulsa [decodes_intros]: "decodes e (tulsa_decode_model e)"
  by (auto simp: tulsa_decode_model_def tulsa_decode_bus_def tulsa_decode_internal_def Let_def
      intro!: decodes_intros)

lemma decodes_dunnington [decodes_intros]: "decodes e (dunnington_decode_model e)"
  by (auto simp: dunnington_decode_model_def dunnington_decode_bus_def dunnington_decode_internal_def
      Let_def intro!: decodes_intros)

section \<open>Fields that are never printed\<close>

lemma decode_bitfield_null [simp]: "decode_bitfield st (FIELD_NULL b # fs) e = Some e"
  by (simp add: FIELD_NULL_def)

lemma decode_bitfield_cut: "decode_bitfield st (fs @ FIELD_NULL b # gs) e = decode_bitfield st (fs @ [END_FIELD]) e"
proof (induction fs arbitrary: e)
  case (Cons f fs)
  have "decode_bitfield st (fs @ FIELD_NULL b # gs) = decode_bitfield st (fs @ [END_FIELD])"
    by (rule ext) (rule Cons.IH)
  then show ?case by (simp split: option.split)
qed (simp add: FIELD_NULL_def)

text \<open>
  The reserved positions that the tables of the P6, Tulsa and Dunnington families mark by
  \<open>FIELD_NULL\<close> end the printing: the shared P6 table prints nothing at all, and of the other tables
  only the fields before the mark are printed.
\<close>

theorem reserved_fields_cut_tables:
  "decode_bitfield st p6_shared_status e = Some e \<and>
   decode_bitfield st p6_p6old_status e = decode_bitfield st (take 2 p6_p6old_status @ [END_FIELD]) e \<and>
   decode_bitfield st p6_core2_status e = decode_bitfield st (take 3 p6_core2_status @ [END_FIELD]) e \<and>
   decode_bitfield st tls_bus_status e = decode_bitfield st (take 3 tls_bus_status @ [END_FIELD]) e \<and>
   decode_bitfield st dnt_dunnington_bus_status e =
     decode_bitfield st (take 1 dnt_dunnington_bus_status @ [END_FIELD]) e"
proof -
  have cut: "decode_bitfield st fs e = decode_bitfield st (take n fs @ [END_FIELD]) e"
    if "n < length fs" "str (fs ! n) = None" for fs n
  proof -
    have "fs ! n = FIELD_NULL (start_bit (fs ! n))"
      using that(2) by (cases "fs ! n") (simp add: FIELD_NULL_def)
    then show ?thesis
      using decode_bitfield_cut [of st "take n fs" "start_bit (fs ! n)" "drop (Suc n) fs" e] that(1)
      by (simp add: id_take_nth_drop [symmetric])
  qed
  show ?thesis
    by (intro conjI cut)
      (simp_all add: p6_shared_status_def p6_p6old_status_def p6_core2_status_def tls_bus_status_def
        dnt_dunnington_bus_status_def FIELD_NULL_def)
qed

end
