(* ===== verification/Mce_Intel_Xeon.thy ===== *)
theory Mce_Intel_Xeon
  imports Bitfield
begin

text \<open>
  The decoders of the processors from Sandy Bridge to Skylake: \<open>mce-intel-sb.c\<close>, \<open>mce-intel-ivb.c\<close>,
  \<open>mce-intel-haswell.c\<close>, \<open>mce-intel-broadwell-de.c\<close>, \<open>mce-intel-broadwell-epex.c\<close>,
  \<open>mce-intel-knl.c\<close> and \<open>mce-intel-skylake-xeon.c\<close>. Each describes its banks by tables and then names
  the channel and the ranks of a corrected error of an integrated memory controller.
\<close>

section \<open>The location of a memory error\<close>

text \<open>The guard before the location: a corrected error of a controller bank, not filtered.\<close>

definition imc_corrected :: "u8 \<Rightarrow> u8 \<Rightarrow> mce_event \<Rightarrow> bool" where
  "imc_corrected lo hi e \<longleftrightarrow>
     drop_bit 7 (mcacod e) = 1 \<and>
     \<not> (bank e < lo \<or> bank e > hi \<or> flagged (status e) MCI_STATUS_UC \<or>
        \<not> test_prefix 7 (ucast (status e AND 0xEFFF)))"

definition imc_chan :: "mce_event \<Rightarrow> u32" where
  "imc_chan e = ucast (EXTRACT (status e) 0 3)"

text \<open>Haswell and later: no rank without the first valid bit, the second rank only with both.\<close>

definition imc_location :: "u8 \<Rightarrow> u8 \<Rightarrow> mce_event \<Rightarrow> mce_event option" where
  "imc_location lo hi e =
     (if \<not> imc_corrected lo hi e then Some e
      else let chan = imc_chan e in
      if chan = 0xF then Some e
      else
        let two = (EXTRACT (misc e) 62 62 \<noteq> 0);
            rank0 = (if two then ucast (EXTRACT (misc e) 46 50) else -1) :: u32;
            rank1 = (if two \<and> EXTRACT (misc e) 63 63 \<noteq> 0 then ucast (EXTRACT (misc e) 51 55) else -1) :: u32
        in do {
          e \<leftarrow> add_mc_location (''memory_channel='' @ fmt_d chan) e;
          (if rank0 \<noteq> -1 \<and> rank1 \<noteq> -1
           then add_mc_location (''ranks='' @ fmt_d rank0 @ '' and '' @ fmt_d rank1) e
           else if rank0 \<noteq> -1 then add_mc_location (''rank='' @ fmt_d rank0) e
           else Some e)
        })"

text \<open>Sandy Bridge and Ivy Bridge: the same bits, with tests on unsigned ranks.\<close>

definition imc_location_snb :: "u8 \<Rightarrow> u8 \<Rightarrow> mce_event \<Rightarrow> mce_event option" where
  "imc_location_snb lo hi e =
     (if \<not> imc_corrected lo hi e then Some e
      else let chan = imc_chan e in
      if chan = 0xF then Some e
      else
        let rank0 = (if EXTRACT (misc e) 62 62 \<noteq> 0 then ucast (EXTRACT (misc e) 46 50) else -1) :: u32;
            rank1 = (if EXTRACT (misc e) 63 63 \<noteq> 0 then ucast (EXTRACT (misc e) 51 55) else -1) :: u32
        in do {
          e \<leftarrow> add_mc_location (''memory_channel='' @ fmt_d chan) e;
          (if rank0 \<ge> 0 \<and> rank1 \<ge> 0
           then add_mc_location (''ranks='' @ fmt_d rank0 @ '' and '' @ fmt_d rank1) e
           else if rank0 \<ge> 0 then add_mc_location (''rank='' @ fmt_d rank0) e
           else add_mc_location (''rank='' @ fmt_d rank1) e)
        })"

section \<open>Sandy Bridge\<close>

definition sb_pcu_1 :: "string option list" where
  "sb_pcu_1 = map Some
    [''No error'',
     ''Non_IMem_Sel'',
     ''I_Parity_Error'',
     ''Bad_OpCode'',
     ''I_Stack_Underflow'',
     ''I_Stack_Overflow'',
     ''D_Stack_Underflow'',
     ''D_Stack_Overflow'',
     ''Non-DMem_Sel'',
     ''D_Parity_Error'']"

definition sb_pcu_2 :: "string option list" where
  "sb_pcu_2 = sparse 130
    [(0x00, ''No Error''),
     (0x0D, ''MC_IMC_FORCE_SR_S3_TIMEOUT''),
     (0x0E, ''MC_MC_CPD_UNCPD_ST_TIMEOUT''),
     (0x0F, ''MC_PKGS_SAFE_WP_TIMEOUT''),
     (0x43, ''MC_PECI_MAILBOX_QUIESCE_TIMEOUT''),
     (0x5C, ''MC_MORE_THAN_ONE_LT_AGENT''),
     (0x60, ''MC_INVALID_PKGS_REQ_PCH''),
     (0x61, ''MC_INVALID_PKGS_REQ_QPI''),
     (0x62, ''MC_INVALID_PKGS_RES_QPI''),
     (0x63, ''MC_INVALID_PKGC_RES_PCH''),
     (0x64, ''MC_INVALID_PKG_STATE_CONFIG''),
     (0x70, ''MC_WATCHDG_TIMEOUT_PKGC_SLAVE''),
     (0x71, ''MC_WATCHDG_TIMEOUT_PKGC_MASTER''),
     (0x72, ''MC_WATCHDG_TIMEOUT_PKGS_MASTER''),
     (0x7A, ''MC_HA_FAILSTS_CHANGE_DETECTED''),
     (0x81, ''MC_RECOVERABLE_DIE_THERMAL_TOO_HOT'')]"

definition sb_pcu_mc4 :: "field list" where
  "sb_pcu_mc4 =
    [FIELD 16 sb_pcu_1,
     FIELD 24 sb_pcu_2,
     END_FIELD]"

definition sb_memctrl_1 :: "string option list" where
  "sb_memctrl_1 = sparse 65
    [(0x001, ''Address parity error''),
     (0x002, ''HA Wrt buffer Data parity error''),
     (0x004, ''HA Wrt byte enable parity error''),
     (0x008, ''Corrected patrol scrub error''),
     (0x010, ''Uncorrected patrol scrub error''),
     (0x020, ''Corrected spare error''),
     (0x040, ''Uncorrected spare error'')]"

definition sb_memctrl_mc8 :: "field list" where
  "sb_memctrl_mc8 =
    [FIELD 16 sb_memctrl_1,
     END_FIELD]"

lemma sb_terminated [simp]:
  "terminated sb_pcu_mc4"
  "terminated sb_memctrl_mc8"
  by (simp_all add: sb_pcu_mc4_def sb_memctrl_mc8_def)

definition snb_decode_model :: "cputype \<Rightarrow> mce_event \<Rightarrow> mce_event option" where
  "snb_decode_model cputype e =
     do {
       e \<leftarrow> (if bank e = 4 then decode_bitfield (status e) sb_pcu_mc4 e
             else if bank e \<in> {6, 7} then cond (cputype = CPU_SANDY_BRIDGE_EP) (add_bank_name ''QPI'') e
             else if bank e \<in> {8, 9, 10, 11} then decode_bitfield (status e) sb_memctrl_mc8 e
             else Some e);
       imc_location_snb 8 11 e
     }"

section \<open>Ivy Bridge\<close>

definition ivb_pcu_1 :: "string option list" where
  "ivb_pcu_1 = map Some
    [''No error'',
     ''Non_IMem_Sel'',
     ''I_Parity_Error'',
     ''Bad_OpCode'',
     ''I_Stack_Underflow'',
     ''I_Stack_Overflow'',
     ''D_Stack_Underflow'',
     ''D_Stack_Overflow'',
     ''Non-DMem_Sel'',
     ''D_Parity_Error'']"

definition ivb_pcu_2 :: "string option list" where
  "ivb_pcu_2 = sparse 130
    [(0x00, ''No Error''),
     (0x0D, ''MC_IMC_FORCE_SR_S3_TIMEOUT''),
     (0x0E, ''MC_MC_CPD_UNCPD_ST_TIMEOUT''),
     (0x0F, ''MC_PKGS_SAFE_WP_TIMEOUT''),
     (0x43, ''MC_PECI_MAILBOX_QUIESCE_TIMEOUT''),
     (0x44, ''MC_CRITICAL_VR_FAILED''),
     (0x45, ''MC_ICC_MAX-NOTSUPPORTED''),
     (0x5C, ''MC_MORE_THAN_ONE_LT_AGENT''),
     (0x60, ''MC_INVALID_PKGS_REQ_PCH''),
     (0x61, ''MC_INVALID_PKGS_REQ_QPI''),
     (0x62, ''MC_INVALID_PKGS_RES_QPI''),
     (0x63, ''MC_INVALID_PKGC_RES_PCH''),
     (0x64, ''MC_INVALID_PKG_STATE_CONFIG''),
     (0x70, ''MC_WATCHDG_TIMEOUT_PKGC_SLAVE''),
     (0x71, ''MC_WATCHDG_TIMEOUT_PKGC_MASTER''),
     (0x72, ''MC_WATCHDG_TIMEOUT_PKGS_MASTER''),
     (0x7A, ''MC_HA_FAILSTS_CHANGE_DETECTED''),
     (0x7B, ''MC_PCIE_R2PCIE-RW_BLOCK_ACK_TIMEOUT''),
     (0x81, ''MC_RECOVERABLE_DIE_THERMAL_TOO_HOT'')]"

definition ivb_pcu_mc4 :: "field list" where
  "ivb_pcu_mc4 =
    [FIELD 16 ivb_pcu_1,
     FIELD 24 ivb_pcu_2,
     END_FIELD]"

definition ivb_memctrl_1 :: "string option list" where
  "ivb_memctrl_1 = sparse 257
    [(0x001, ''Address parity error''),
     (0x002, ''HA Wrt buffer Data parity error''),
     (0x004, ''HA Wrt byte enable parity error''),
     (0x008, ''Corrected patrol scrub error''),
     (0x010, ''Uncorrected patrol scrub error''),
     (0x020, ''Corrected spare error''),
     (0x040, ''Uncorrected spare error''),
     (0x080, ''Corrected memory read error''),
     (0x100, ''iMC, WDB, parity errors'')]"

definition ivb_memctrl_mc9 :: "field list" where
  "ivb_memctrl_mc9 =
    [FIELD 16 ivb_memctrl_1,
     END_FIELD]"

lemma ivb_terminated [simp]:
  "terminated ivb_pcu_mc4"
  "terminated ivb_memctrl_mc9"
  by (simp_all add: ivb_pcu_mc4_def ivb_memctrl_mc9_def)

definition ivb_decode_model :: "cputype \<Rightarrow> mce_event \<Rightarrow> mce_event option" where
  "ivb_decode_model cputype e =
     do {
       e \<leftarrow> (if bank e = 4 then decode_bitfield (status e) ivb_pcu_mc4 e
             else if bank e = 5 then cond (cputype = CPU_IVY_BRIDGE_EPEX) (add_bank_name ''QPI'') e
             else if bank e \<in> {9, 10, 11, 12, 13, 14, 15, 16} then decode_bitfield (status e) ivb_memctrl_mc9 e
             else Some e);
       imc_location_snb 9 16 e
     }"

section \<open>Haswell\<close>

definition hsw_pcu_1 :: "string option list" where
  "hsw_pcu_1 = sparse 130
    [(0x00, ''No Error''),
     (0x09, ''MC_MESSAGE_CHANNEL_TIMEOUT''),
     (0x0D, ''MC_IMC_FORCE_SR_S3_TIMEOUT''),
     (0x0E, ''MC_CPD_UNCPD_SD_TIMEOUT''),
     (0x13, ''MC_DMI_TRAINING_TIMEOUT''),
     (0x15, ''MC_DMI_CPU_RESET_ACK_TIMEOUT''),
     (0x1E, ''MC_VR_ICC_MAX_LT_FUSED_ICC_MAX''),
     (0x25, ''MC_SVID_COMMAN_TIMEOUT''),
     (0x29, ''MC_VR_VOUT_MAC_LT_FUSED_SVID''),
     (0x2B, ''MC_PKGC_WATCHDOG_HANG_CBZ_DOWN''),
     (0x2C, ''MC_PKGC_WATCHDOG_HANG_CBZ_UP''),
     (0x39, ''MC_PKGC_WATCHDOG_HANG_C3_UP_SF''),
     (0x44, ''MC_CRITICAL_VR_FAILED''),
     (0x45, ''MC_ICC_MAX_NOTSUPPORTED''),
     (0x46, ''MC_VID_RAMP_DOWN_FAILED''),
     (0x47, ''MC_EXCL_MODE_NO_PMREQ_CMP''),
     (0x48, ''MC_SVID_READ_REG_ICC_MAX_FAILED''),
     (0x49, ''MC_SVID_WRITE_REG_VOUT_MAX_FAILED''),
     (0x4B, ''MC_BOOT_VID_TIMEOUT_DRAM_0''),
     (0x4C, ''MC_BOOT_VID_TIMEOUT_DRAM_1''),
     (0x4D, ''MC_BOOT_VID_TIMEOUT_DRAM_2''),
     (0x4E, ''MC_BOOT_VID_TIMEOUT_DRAM_3''),
     (0x4F, ''MC_SVID_COMMAND_ERROR''),
     (0x52, ''MC_FIVR_CATAS_OVERVOL_FAULT''),
     (0x53, ''MC_FIVR_CATAS_OVERCUR_FAULT''),
     (0x57, ''MC_SVID_PKGC_REQUEST_FAILED''),
     (0x58, ''MC_SVID_IMON_REQUEST_FAILED''),
     (0x59, ''MC_SVID_ALERT_REQUEST_FAILED''),
     (0x60, ''MC_INVALID_PKGS_REQ_PCH''),
     (0x61, ''MC_INVALID_PKGS_REQ_QPI''),
     (0x62, ''MC_INVALID_PKGS_RSP_QPI''),
     (0x63, ''MC_INVALID_PKGS_RSP_PCH''),
     (0x64, ''MC_INVALID_PKG_STATE_CONFIG''),
     (0x67, ''MC_HA_IMC_RW_BLOCK_ACK_TIMEOUT''),
     (0x68, ''MC_IMC_RW_SMBUS_TIMEOUT''),
     (0x69, ''MC_HA_FAILSTS_CHANGE_DETECTED''),
     (0x6A, ''MC_MSGCH_PMREQ_CMP_TIMEOUT''),
     (0x70, ''MC_WATCHDOG_TIMEOUT_PKGC_SLAVE''),
     (0x71, ''MC_WATCHDOG_TIMEOUT_PKGC_MASTER''),
     (0x72, ''MC_WATCHDOG_TIMEOUT_PKGS_MASTER''),
     (0x7C, ''MC_BIOS_RST_CPL_INVALID_SEQ''),
     (0x7D, ''MC_MORE_THAN_ONE_TXT_AGENT''),
     (0x81, ''MC_RECOVERABLE_DIE_THERMAL_TOO_HOT'')]"

definition hsw_pcu_mc4 :: "field list" where
  "hsw_pcu_mc4 =
    [FIELD 24 hsw_pcu_1,
     END_FIELD]"

definition hsw_qpi :: "string option list" where
  "hsw_qpi = sparse 50
    [(0x02, ''Intel QPI physical layer detected drift buffer alarm''),
     (0x03, ''Intel QPI physical layer detected latency buffer rollover''),
     (0x10, ''Intel QPI link layer detected control error from R3QPI''),
     (0x11, ''Rx entered LLR abort state on CRC error''),
     (0x12, ''Unsupported or undefined packet''),
     (0x13, ''Intel QPI link layer control error''),
     (0x15, ''RBT used un-initialized value''),
     (0x20, ''Intel QPI physical layer detected a QPI in-band reset but aborted initialization''),
     (0x21, ''Link failover data self healing''),
     (0x22, ''Phy detected in-band reset (no width change)''),
     (0x23, ''Link failover clock failover''),
     (0x30, ''Rx detected CRC error - successful LLR after Phy re-init''),
     (0x31, ''Rx detected CRC error - successful LLR without Phy re-init'')]"

definition hsw_qpi_mc :: "field list" where
  "hsw_qpi_mc =
    [FIELD 16 hsw_qpi,
     END_FIELD]"

definition hsw_memctrl_mc9 :: "field list" where
  "hsw_memctrl_mc9 =
    [SBITFIELD 16 ''DDR3 address parity error'',
     SBITFIELD 17 ''Uncorrected HA write data error'',
     SBITFIELD 18 ''Uncorrected HA data byte enable error'',
     SBITFIELD 19 ''Corrected patrol scrub error'',
     SBITFIELD 20 ''Uncorrected patrol scrub error'',
     SBITFIELD 21 ''Corrected spare error'',
     SBITFIELD 22 ''Uncorrected spare error'',
     SBITFIELD 23 ''Corrected memory read error'',
     SBITFIELD 24 ''iMC write data buffer parity error'',
     SBITFIELD 25 ''DDR4 command address parity error'',
     END_FIELD]"

lemma hsw_terminated [simp]:
  "terminated hsw_pcu_mc4"
  "terminated hsw_qpi_mc"
  "terminated hsw_memctrl_mc9"
  by (simp_all add: hsw_pcu_mc4_def hsw_qpi_mc_def hsw_memctrl_mc9_def)

text \<open>\<open>EXTRACT(status, 0, 15) & ~(1ull << 12)\<close>\<close>

definition unfiltered_code :: "u64 \<Rightarrow> u64" where
  "unfiltered_code st = EXTRACT st 0 15 AND NOT (push_bit 12 1)"

definition hsw_decode_model :: "mce_event \<Rightarrow> mce_event option" where
  "hsw_decode_model e =
     (let st = status e
      in do {
        e \<leftarrow> (if bank e = 4 then
                do {
                  e \<leftarrow> (if unfiltered_code st \<in> {0x402, 0x403} then add_mcastatus_msg ''PCU Internal Errors'' e
                        else if unfiltered_code st = 0x406 then add_mcastatus_msg ''Intel TXT Errors'' e
                        else if unfiltered_code st = 0x407 then add_mcastatus_msg ''Other UBOX Internal Errors'' e
                        else Some e);
                  e \<leftarrow> cond (EXTRACT st 16 17 \<noteq> 0 \<and> EXTRACT st 18 19 = 0)
                         (add_error_msg ''PCU Internal error'') e;
                  decode_bitfield st hsw_pcu_mc4 e
                }
              else if bank e \<in> {5, 20, 21} then decode_bitfield st hsw_qpi_mc e
              else if bank e \<in> {9, 10, 11, 12, 13, 14, 15, 16} then decode_bitfield st hsw_memctrl_mc9 e
              else Some e);
        imc_location 9 16 e
      })"

section \<open>Broadwell DE\<close>

definition bde_pcu_1 :: "string option list" where
  "bde_pcu_1 = sparse 130
    [(0x00, ''No Error''),
     (0x09, ''MC_MESSAGE_CHANNEL_TIMEOUT''),
     (0x13, ''MC_DMI_TRAINING_TIMEOUT''),
     (0x15, ''MC_DMI_CPU_RESET_ACK_TIMEOUT''),
     (0x1E, ''MC_VR_ICC_MAX_LT_FUSED_ICC_MAX''),
     (0x25, ''MC_SVID_COMMAN_TIMEOUT''),
     (0x26, ''MCA_PKGC_DIRECT_WAKE_RING_TIMEOUT''),
     (0x29, ''MC_VR_VOUT_MAC_LT_FUSED_SVID''),
     (0x2B, ''MC_PKGC_WATCHDOG_HANG_CBZ_DOWN''),
     (0x2C, ''MC_PKGC_WATCHDOG_HANG_CBZ_UP''),
     (0x44, ''MC_CRITICAL_VR_FAILED''),
     (0x46, ''MC_VID_RAMP_DOWN_FAILED''),
     (0x49, ''MC_SVID_WRITE_REG_VOUT_MAX_FAILED''),
     (0x4B, ''MC_BOOT_VID_TIMEOUT_DRAM_0''),
     (0x4F, ''MC_SVID_COMMAND_ERROR''),
     (0x52, ''MC_FIVR_CATAS_OVERVOL_FAULT''),
     (0x53, ''MC_FIVR_CATAS_OVERCUR_FAULT''),
     (0x57, ''MC_SVID_PKGC_REQUEST_FAILED''),
     (0x58, ''MC_SVID_IMON_REQUEST_FAILED''),
     (0x59, ''MC_SVID_ALERT_REQUEST_FAILED''),
     (0x62, ''MC_INVALID_PKGS_RSP_QPI''),
     (0x64, ''MC_INVALID_PKG_STATE_CONFIG''),
     (0x67, ''MC_HA_IMC_RW_BLOCK_ACK_TIMEOUT''),
     (0x6A, ''MC_MSGCH_PMREQ_CMP_TIMEOUT''),
     (0x72, ''MC_WATCHDOG_TIMEOUT_PKGS_MASTER''),
     (0x81, ''MC_RECOVERABLE_DIE_THERMAL_TOO_HOT'')]"

definition bde_pcu_mc4 :: "field list" where
  "bde_pcu_mc4 =
    [FIELD 24 bde_pcu_1,
     END_FIELD]"

definition bde_memctrl_mc9 :: "field list" where
  "bde_memctrl_mc9 =
    [SBITFIELD 16 ''Address parity error'',
     SBITFIELD 17 ''HA Wrt buffer Data parity error'',
     SBITFIELD 18 ''HA Wrt byte enable parity error'',
     SBITFIELD 19 ''Corrected patrol scrub error'',
     SBITFIELD 20 ''Uncorrected patrol scrub error'',
     SBITFIELD 21 ''Corrected spare error'',
     SBITFIELD 22 ''Uncorrected spare error'',
     SBITFIELD 23 ''Corrected memory read error'',
     SBITFIELD 24 ''iMC, WDB, parity errors'',
     END_FIELD]"

lemma bde_terminated [simp]:
  "terminated bde_pcu_mc4"
  "terminated bde_memctrl_mc9"
  by (simp_all add: bde_pcu_mc4_def bde_memctrl_mc9_def)

text \<open>The power controller messages that Broadwell and Skylake share.\<close>

definition pcu_internal :: "u64 \<Rightarrow> mce_event \<Rightarrow> mce_event option" where
  "pcu_internal st e =
     (if unfiltered_code st \<in> {0x402, 0x403} then add_mcastatus_msg ''Internal errors '' e
      else if unfiltered_code st = 0x406 then add_mcastatus_msg ''Intel TXT errors '' e
      else if unfiltered_code st = 0x407 then add_mcastatus_msg ''Other UBOX Internal errors '' e
      else Some e)"

definition broadwell_de_decode_model :: "mce_event \<Rightarrow> mce_event option" where
  "broadwell_de_decode_model e =
     (let st = status e
      in do {
        e \<leftarrow> (if bank e = 4 then
                do {
                  e \<leftarrow> pcu_internal st e;
                  e \<leftarrow> cond (EXTRACT st 16 19 AND 3 \<noteq> 0) (add_mcastatus_msg ''PCU internal error '') e;
                  e \<leftarrow> cond (EXTRACT st 20 23 AND 4 \<noteq> 0) (add_mcastatus_msg ''Ubox error '') e;
                  decode_bitfield st bde_pcu_mc4 e
                }
              else if bank e \<in> {9, 10} then
                do {
                  e \<leftarrow> add_mcastatus_msg ''MemCtrl: '' e;
                  decode_bitfield st bde_memctrl_mc9 e
                }
              else Some e);
        imc_location 9 16 e
      })"

section \<open>Broadwell EP and EX\<close>

definition bex_pcu_1 :: "string option list" where
  "bex_pcu_1 = sparse 130
    [(0x00, ''No Error''),
     (0x09, ''MC_MESSAGE_CHANNEL_TIMEOUT''),
     (0x0D, ''MC_IMC_FORCE_SR_S3_TIMEOUT''),
     (0x0E, ''MC_CPD_UNCPD_SD_TIMEOUT''),
     (0x13, ''MC_DMI_TRAINING_TIMEOUT''),
     (0x15, ''MC_DMI_CPU_RESET_ACK_TIMEOUT''),
     (0x1E, ''MC_VR_ICC_MAX_LT_FUSED_ICC_MAX''),
     (0x25, ''MC_SVID_COMMAN_TIMEOUT''),
     (0x29, ''MC_VR_VOUT_MAC_LT_FUSED_SVID''),
     (0x2B, ''MC_PKGC_WATCHDOG_HANG_CBZ_DOWN''),
     (0x2C, ''MC_PKGC_WATCHDOG_HANG_CBZ_UP''),
     (0x39, ''MC_PKGC_WATCHDOG_HANG_C3_UP_SF''),
     (0x44, ''MC_CRITICAL_VR_FAILED''),
     (0x45, ''MC_ICC_MAX_NOTSUPPORTED''),
     (0x46, ''MC_VID_RAMP_DOWN_FAILED''),
     (0x47, ''MC_EXCL_MODE_NO_PMREQ_CMP''),
     (0x48, ''MC_SVID_READ_REG_ICC_MAX_FAILED''),
     (0x49, ''MC_SVID_WRITE_REG_VOUT_MAX_FAILED''),
     (0x4B, ''MC_BOOT_VID_TIMEOUT_DRAM_0''),
     (0x4C, ''MC_BOOT_VID_TIMEOUT_DRAM_1''),
     (0x4D, ''MC_BOOT_VID_TIMEOUT_DRAM_2''),
     (0x4E, ''MC_BOOT_VID_TIMEOUT_DRAM_3''),
     (0x4F, ''MC_SVID_COMMAND_ERROR''),
     (0x52, ''MC_FIVR_CATAS_OVERVOL_FAULT''),
     (0x53, ''MC_FIVR_CATAS_OVERCUR_FAULT''),
     (0x57, ''MC_SVID_PKGC_REQUEST_FAILED''),
     (0x58, ''MC_SVID_IMON_REQUEST_FAILED''),
     (0x59, ''MC_SVID_ALERT_REQUEST_FAILED''),
     (0x60, ''MC_INVALID_PKGS_REQ_PCH''),
     (0x61, ''MC_INVALID_PKGS_REQ_QPI''),
     (0x62, ''MC_INVALID_PKGS_RSP_QPI''),
     (0x63, ''MC_INVALID_PKGS_RSP_PCH''),
     (0x64, ''MC_INVALID_PKG_STATE_CONFIG''),
     (0x67, ''MC_HA_IMC_RW_BLOCK_ACK_TIMEOUT''),
     (0x68, ''MC_IMC_RW_SMBUS_TIMEOUT''),
     (0x69, ''MC_HA_FAILSTS_CHANGE_DETECTED''),
     (0x6A, ''MC_MSGCH_PMREQ_CMP_TIMEOUT''),
     (0x70, ''MC_WATCHDOG_TIMEOUT_PKGC_SLAVE''),
     (0x71, ''MC_WATCHDOG_TIMEOUT_PKGC_MASTER''),
     (0x72, ''MC_WATCHDOG_TIMEOUT_PKGS_MASTER''),
     (0x7C, ''MC_BIOS_RST_CPL_INVALID_SEQ''),
     (0x7D, ''MC_MORE_THAN_ONE_TXT_AGENT''),
     (0x81, ''MC_RECOVERABLE_DIE_THERMAL_TOO_HOT'')]"

definition bex_pcu_mc4 :: "field list" where
  "bex_pcu_mc4 =
    [FIELD 24 bex_pcu_1,
     END_FIELD]"

definition bex_qpi :: "string option list" where
  "bex_qpi = sparse 50
    [(0x02, ''Intel QPI physical layer detected drift buffer alarm''),
     (0x03, ''Intel QPI physical layer detected latency buffer rollover''),
     (0x10, ''Intel QPI link layer detected control error from R3QPI''),
     (0x11, ''Rx entered LLR abort state on CRC error''),
     (0x12, ''Unsupported or undefined packet''),
     (0x13, ''Intel QPI link layer control error''),
     (0x15, ''RBT used un-initialized value''),
     (0x20, ''Intel QPI physical layer detected a QPI in-band reset but aborted initialization''),
     (0x21, ''Link failover data self healing''),
     (0x22, ''Phy detected in-band reset (no width change)''),
     (0x23, ''Link failover clock failover''),
     (0x30, ''Rx detected CRC error - successful LLR after Phy re-init''),
     (0x31, ''Rx detected CRC error - successful LLR without Phy re-init'')]"

definition bex_qpi_mc :: "field list" where
  "bex_qpi_mc =
    [FIELD 16 bex_qpi,
     END_FIELD]"

definition bex_memctrl_mc9 :: "field list" where
  "bex_memctrl_mc9 =
    [SBITFIELD 16 ''DDR3 address parity error'',
     SBITFIELD 17 ''Uncorrected HA write data error'',
     SBITFIELD 18 ''Uncorrected HA data byte enable error'',
     SBITFIELD 19 ''Corrected patrol scrub error'',
     SBITFIELD 20 ''Uncorrected patrol scrub error'',
     SBITFIELD 21 ''Corrected spare error'',
     SBITFIELD 22 ''Uncorrected spare error'',
     SBITFIELD 24 ''iMC write data buffer parity error'',
     SBITFIELD 25 ''DDR4 command address parity error'',
     END_FIELD]"

lemma bex_terminated [simp]:
  "terminated bex_pcu_mc4"
  "terminated bex_qpi_mc"
  "terminated bex_memctrl_mc9"
  by (simp_all add: bex_pcu_mc4_def bex_qpi_mc_def bex_memctrl_mc9_def)

definition broadwell_epex_decode_model :: "mce_event \<Rightarrow> mce_event option" where
  "broadwell_epex_decode_model e =
     (let st = status e
      in do {
        e \<leftarrow> (if bank e = 4 then
                do {
                  e \<leftarrow> pcu_internal st e;
                  e \<leftarrow> cond (EXTRACT st 16 19 \<noteq> 0) (add_mcastatus_msg ''PCU internal error '') e;
                  decode_bitfield st bex_pcu_mc4 e
                }
              else if bank e \<in> {5, 20, 21} then
                do {
                  e \<leftarrow> add_mcastatus_msg ''QPI: '' e;
                  decode_bitfield st bex_qpi_mc e
                }
              else if bank e \<in> {9, 10, 11, 12, 13, 14, 15, 16} then
                do {
                  e \<leftarrow> add_mcastatus_msg ''MemCtrl: '' e;
                  decode_bitfield st bex_memctrl_mc9 e
                }
              else Some e);
        imc_location 9 16 e
      })"

section \<open>Knights Landing\<close>

definition knl_memctrl_mc7 :: "field list" where
  "knl_memctrl_mc7 =
    [SBITFIELD 16 ''CA Parity error'',
     SBITFIELD 17 ''Internal Parity error except WDB'',
     SBITFIELD 18 ''Internal Parity error from WDB'',
     SBITFIELD 19 ''Correctable Patrol Scrub'',
     SBITFIELD 20 ''Uncorrectable Patrol Scrub'',
     SBITFIELD 21 ''Spare Correctable Error'',
     SBITFIELD 22 ''Spare UC Error'',
     SBITFIELD 23 ''CORR Chip fail even MC only, 4 bit burst error EDC only'',
     END_FIELD]"

lemma knl_terminated [simp]:
  "terminated knl_memctrl_mc7"
  by (simp_all add: knl_memctrl_mc7_def)

definition knl_decode_model :: "mce_event \<Rightarrow> mce_event option" where
  "knl_decode_model e =
     (let st = status e;
          off = (if bank e = 15 then 3 else 0) :: u32
      in do {
        e \<leftarrow> (if bank e = 5 then
                (if EXTRACT st 0 15 = 0x402 then add_mcastatus_msg ''PCU Internal Errors'' e
                 else if EXTRACT st 0 15 = 0x403 then add_mcastatus_msg ''VCU Internal Errors'' e
                 else if EXTRACT st 0 15 = 0x407 then add_mcastatus_msg ''Other UBOX Internal Errors'' e
                 else Some e)
              else if 7 \<le> bank e \<and> bank e \<le> 16 then
                do {
                  e \<leftarrow> (if EXTRACT st 0 15 = 0x5 then add_mcastatus_msg ''Internal Parity error'' e
                        else
                          (let chan = ucast (EXTRACT st 0 3) + off; req = EXTRACT st 4 7
                           in if req = 0x0 then add_mcastatus_msg (''Undefined request on channel '' @ fmt_d chan) e
                              else if req = 0x1 then add_mcastatus_msg (''Read on channel '' @ fmt_d chan) e
                              else if req = 0x2 then add_mcastatus_msg (''Write on channel '' @ fmt_d chan) e
                              else if req = 0x3 then add_mcastatus_msg (''CA error on channel '' @ fmt_d chan) e
                              else if req = 0x4 then add_mcastatus_msg (''Scrub error on channel '' @ fmt_d chan) e
                              else Some e));
                  decode_bitfield st knl_memctrl_mc7 e
                }
              else Some e);
        (if \<not> imc_corrected 7 16 e then Some e
         else if imc_chan e = 0xF then add_mc_location ''memory_channel=unspecified'' e
         else
           let chan = imc_chan e + off;
               rank0 = (if EXTRACT (misc e) 62 62 \<noteq> 0 then ucast (EXTRACT (misc e) 46 50) else -1) :: u32;
               rank1 = (if EXTRACT (misc e) 63 63 \<noteq> 0 then ucast (EXTRACT (misc e) 51 55) else -1) :: u32
           in do {
             e \<leftarrow> add_mc_location (''memory_channel='' @ fmt_d chan) e;
             (if rank0 \<noteq> -1 \<and> rank1 \<noteq> -1
              then add_mc_location (''ranks='' @ fmt_d rank0 @ '' and '' @ fmt_d rank1) e
              else if rank0 \<noteq> -1 then add_mc_location (''rank='' @ fmt_d rank0) e
              else Some e)
           })
      })"

section \<open>Skylake\<close>

definition skx_pcu_1 :: "string option list" where
  "skx_pcu_1 = sparse 130
    [(0x00, ''No Error''),
     (0x0d, ''MCA_DMI_TRAINING_TIMEOUT''),
     (0x0f, ''MCA_DMI_CPU_RESET_ACK_TIMEOUT''),
     (0x10, ''MCA_MORE_THAN_ONE_LT_AGENT''),
     (0x1e, ''MCA_BIOS_RST_CPL_INVALID_SEQ''),
     (0x1f, ''MCA_BIOS_INVALID_PKG_STATE_CONFIG''),
     (0x25, ''MCA_MESSAGE_CHANNEL_TIMEOUT''),
     (0x27, ''MCA_MSGCH_PMREQ_CMP_TIMEOUT''),
     (0x30, ''MCA_PKGC_DIRECT_WAKE_RING_TIMEOUT''),
     (0x31, ''MCA_PKGC_INVALID_RSP_PCH''),
     (0x33, ''MCA_PKGC_WATCHDOG_HANG_CBZ_DOWN''),
     (0x34, ''MCA_PKGC_WATCHDOG_HANG_CBZ_UP''),
     (0x38, ''MCA_PKGC_WATCHDOG_HANG_C3_UP_SF''),
     (0x40, ''MCA_SVID_VCCIN_VR_ICC_MAX_FAILURE''),
     (0x41, ''MCA_SVID_COMMAND_TIMEOUT''),
     (0x42, ''MCA_SVID_VCCIN_VR_VOUT_FAILURE''),
     (0x43, ''MCA_SVID_CPU_VR_CAPABILITY_ERROR''),
     (0x44, ''MCA_SVID_CRITICAL_VR_FAILED''),
     (0x45, ''MCA_SVID_SA_ITD_ERROR''),
     (0x46, ''MCA_SVID_READ_REG_FAILED''),
     (0x47, ''MCA_SVID_WRITE_REG_FAILED''),
     (0x48, ''MCA_SVID_PKGC_INIT_FAILED''),
     (0x49, ''MCA_SVID_PKGC_CONFIG_FAILED''),
     (0x4a, ''MCA_SVID_PKGC_REQUEST_FAILED''),
     (0x4b, ''MCA_SVID_IMON_REQUEST_FAILED''),
     (0x4c, ''MCA_SVID_ALERT_REQUEST_FAILED''),
     (0x4d, ''MCA_SVID_MCP_VR_ABSENT_OR_RAMP_ERROR''),
     (0x4e, ''MCA_SVID_UNEXPECTED_MCP_VR_DETECTED''),
     (0x51, ''MCA_FIVR_CATAS_OVERVOL_FAULT''),
     (0x52, ''MCA_FIVR_CATAS_OVERCUR_FAULT''),
     (0x58, ''MCA_WATCHDOG_TIMEOUT_PKGC_SLAVE''),
     (0x59, ''MCA_WATCHDOG_TIMEOUT_PKGC_MASTER''),
     (0x5a, ''MCA_WATCHDOG_TIMEOUT_PKGS_MASTER''),
     (0x61, ''MCA_PKGS_CPD_UNCPD_TIMEOUT''),
     (0x63, ''MCA_PKGS_INVALID_REQ_PCH''),
     (0x64, ''MCA_PKGS_INVALID_REQ_INTERNAL''),
     (0x65, ''MCA_PKGS_INVALID_RSP_INTERNAL''),
     (0x6b, ''MCA_PKGS_SMBUS_VPP_PAUSE_TIMEOUT''),
     (0x81, ''MCA_RECOVERABLE_DIE_THERMAL_TOO_HOT'')]"

definition skx_pcu_mc4 :: "field list" where
  "skx_pcu_mc4 =
    [FIELD 24 skx_pcu_1,
     END_FIELD]"

definition skx_upi :: "string option list" where
  "skx_upi = sparse 50
    [(0x00, ''UC Phy Initialization Failure''),
     (0x01, ''UC Phy detected drift buffer alarm''),
     (0x02, ''UC Phy detected latency buffer rollover''),
     (0x10, ''UC LL Rx detected CRC error: unsuccessful LLR: entered abort state''),
     (0x11, ''UC LL Rx unsupported or undefined packet''),
     (0x12, ''UC LL or Phy control error''),
     (0x13, ''UC LL Rx parameter exchange exception''),
     (0x1F, ''UC LL detected control error from the link-mesh interface''),
     (0x20, ''COR Phy initialization abort''),
     (0x21, ''COR Phy reset''),
     (0x22, ''COR Phy lane failure, recovery in x8 width''),
     (0x23, ''COR Phy L0c error corrected without Phy reset''),
     (0x24, ''COR Phy L0c error triggering Phy Reset''),
     (0x25, ''COR Phy L0p exit error corrected with Phy reset''),
     (0x30, ''COR LL Rx detected CRC error - successful LLR without Phy Reinit''),
     (0x31, ''COR LL Rx detected CRC error - successful LLR with Phy Reinit'')]"

definition skx_upi_mc :: "field list" where
  "skx_upi_mc =
    [FIELD 16 skx_upi,
     END_FIELD]"

definition skx_upi_0x12 :: "field list" where
  "skx_upi_0x12 =
    [SBITFIELD 22 ''Phy Control Error'',
     SBITFIELD 23 ''Unexpected Retry.Ack flit'',
     SBITFIELD 24 ''Unexpected Retry.Req flit'',
     SBITFIELD 25 ''RF parity error'',
     SBITFIELD 26 ''Routeback Table error'',
     SBITFIELD 27 ''unexpected Tx Protocol flit (EOP, Header or Data)'',
     SBITFIELD 28 ''Rx Header-or-Credit BGF credit overflow/underflow'',
     SBITFIELD 29 ''Link Layer Reset still in progress when Phy enters L0'',
     SBITFIELD 30 ''Link Layer reset initiated while protocol traffic not idle'',
     SBITFIELD 31 ''Link Layer Tx Parity Error'',
     END_FIELD]"

definition skx_mc_bits :: "field list" where
  "skx_mc_bits =
    [SBITFIELD 16 ''Address parity error'',
     SBITFIELD 17 ''HA write data parity error'',
     SBITFIELD 18 ''HA write byte enable parity error'',
     SBITFIELD 19 ''Corrected patrol scrub error'',
     SBITFIELD 20 ''Uncorrected patrol scrub error'',
     SBITFIELD 21 ''Corrected spare error'',
     SBITFIELD 22 ''Uncorrected spare error'',
     SBITFIELD 23 ''Any HA read error'',
     SBITFIELD 24 ''WDB read parity error'',
     SBITFIELD 25 ''DDR4 command address parity error'',
     SBITFIELD 26 ''Uncorrected address parity error'',
     END_FIELD]"

definition skx_mc_0x8xx :: "string option list" where
  "skx_mc_0x8xx = map Some
    [''Unrecognized request type'',
     ''Read response to an invalid scoreboard entry'',
     ''Unexpected read response'',
     ''DDR4 completion to an invalid scoreboard entry'',
     ''Completion to an invalid scoreboard entry'',
     ''Completion FIFO overflow'',
     ''Correctable parity error'',
     ''Uncorrectable error'',
     ''Interrupt received while outstanding interrupt was not ACKed'',
     ''ERID FIFO overflow'',
     ''Error on Write credits'',
     ''Error on Read credits'',
     ''Scheduler error'',
     ''Error event'']"

definition skx_memctrl_mc13 :: "field list" where
  "skx_memctrl_mc13 =
    [FIELD 16 skx_mc_0x8xx,
     END_FIELD]"

definition skx_m2m :: "field list" where
  "skx_m2m =
    [SBITFIELD 16 ''MscodDataRdErr'',
     SBITFIELD 17 ''Reserved'',
     SBITFIELD 18 ''MscodPtlWrErr'',
     SBITFIELD 19 ''MscodFullWrErr'',
     SBITFIELD 20 ''MscodBgfErr'',
     SBITFIELD 21 ''MscodTimeout'',
     SBITFIELD 22 ''MscodParErr'',
     SBITFIELD 23 ''MscodBucket1Err'',
     END_FIELD]"

lemma skx_terminated [simp]:
  "terminated skx_pcu_mc4"
  "terminated skx_upi_mc"
  "terminated skx_upi_0x12"
  "terminated skx_mc_bits"
  "terminated skx_memctrl_mc13"
  "terminated skx_m2m"
  by (simp_all add: skx_pcu_mc4_def skx_upi_mc_def skx_upi_0x12_def skx_mc_bits_def skx_memctrl_mc13_def skx_m2m_def)

definition skylake_s_decode_model :: "mce_event \<Rightarrow> mce_event option" where
  "skylake_s_decode_model e =
     (let st = status e
      in do {
        e \<leftarrow> (if bank e = 4 then
                do {
                  e \<leftarrow> pcu_internal st e;
                  e \<leftarrow> cond (EXTRACT st 16 19 \<noteq> 0) (add_mcastatus_msg ''PCU internal error '') e;
                  decode_bitfield st skx_pcu_mc4 e
                }
              else if bank e \<in> {5, 12, 19} then
                do {
                  e \<leftarrow> add_mcastatus_msg ''UPI: '' e;
                  e \<leftarrow> decode_bitfield st skx_upi_mc e;
                  cond (EXTRACT st 16 21 = 0x12) (decode_bitfield st skx_upi_0x12) e
                }
              else if bank e \<in> {7, 8} then
                do {
                  e \<leftarrow> add_mcastatus_msg ''M2M: '' e;
                  decode_bitfield st skx_m2m e
                }
              else if bank e \<in> {13, 14, 15, 16, 17, 18} then
                do {
                  e \<leftarrow> add_mcastatus_msg ''MemCtrl: '' e;
                  (if EXTRACT st 27 27 \<noteq> 0 then decode_bitfield st skx_memctrl_mc13 e
                   else decode_bitfield st skx_mc_bits e)
                }
              else Some e);
        imc_location 13 18 e
      })"

section \<open>Every decoder is in order\<close>

lemma decodes_imc [decodes_intros]:
  "decodes e (imc_location lo hi e)" "decodes e (imc_location_snb lo hi e)" "decodes e (pcu_internal st e)"
  by (auto simp: imc_location_def imc_location_snb_def pcu_internal_def Let_def intro!: decodes_intros)

lemma decodes_snb [decodes_intros]: "decodes e (snb_decode_model c e)"
  unfolding snb_decode_model_def by (intro decodes_intros) simp_all

lemma decodes_ivb [decodes_intros]: "decodes e (ivb_decode_model c e)"
  unfolding ivb_decode_model_def by (intro decodes_intros) simp_all

lemma decodes_hsw [decodes_intros]: "decodes e (hsw_decode_model e)"
  unfolding hsw_decode_model_def by (intro decodes_intros) simp_all

lemma decodes_bde [decodes_intros]: "decodes e (broadwell_de_decode_model e)"
  unfolding broadwell_de_decode_model_def by (intro decodes_intros) simp_all

lemma decodes_bex [decodes_intros]: "decodes e (broadwell_epex_decode_model e)"
  unfolding broadwell_epex_decode_model_def by (intro decodes_intros) simp_all

lemma decodes_knl [decodes_intros]: "decodes e (knl_decode_model e)"
  unfolding knl_decode_model_def by (intro decodes_intros) simp_all

lemma decodes_skx [decodes_intros]: "decodes e (skylake_s_decode_model e)"
  unfolding skylake_s_decode_model_def by (intro decodes_intros) simp_all

end
