(* ===== verification/Mce_Intel_Server.thy ===== *)
theory Mce_Intel_Server
  imports Bitfield
begin

text \<open>
  The decoders of the Ice Lake, Granite Rapids and Diamond Rapids families: \<open>mce-intel-i10nm.c\<close>,
  \<open>mce-intel-granite.c\<close> and \<open>mce-intel-diamond.c\<close>. The first chooses what a bank is from a table of
  32 entries that it reads with the bank number of the event.
\<close>

section \<open>Ice Lake, Tremont, Sapphire Rapids\<close>

definition i10_pcu_1 :: "string option list" where
  "i10_pcu_1 = sparse 177
    ([(0x0D, ''MCA_LLC_BIST_ACTIVE_TIMEOUT''),
     (0x0E, ''MCA_DMI_TRAINING_TIMEOUT''),
     (0x0F, ''MCA_DMI_STRAP_SET_ARRIVAL_TIMEOUT''),
     (0x10, ''MCA_DMI_CPU_RESET_ACK_TIMEOUT''),
     (0x11, ''MCA_MORE_THAN_ONE_LT_AGENT''),
     (0x14, ''MCA_INCOMPATIBLE_PCH_TYPE''),
     (0x1E, ''MCA_BIOS_RST_CPL_INVALID_SEQ''),
     (0x1F, ''MCA_BIOS_INVALID_PKG_STATE_CONFIG''),
     (0x2D, ''MCA_PCU_PMAX_CALIB_ERROR''),
     (0x2E, ''MCA_TSC100_SYNC_TIMEOUT''),
     (0x3A, ''MCA_GPSB_TIMEOUT''),
     (0x3B, ''MCA_PMSB_TIMEOUT''),
     (0x3E, ''MCA_IOSFSB_PMREQ_CMP_TIMEOUT''),
     (0x40, ''MCA_SVID_VCCIN_VR_ICC_MAX_FAILURE''),
     (0x42, ''MCA_SVID_VCCIN_VR_VOUT_FAILURE''),
     (0x43, ''MCA_SVID_CPU_VR_CAPABILITY_ERROR''),
     (0x44, ''MCA_SVID_CRITICAL_VR_FAILED''),
     (0x45, ''MCA_SVID_SA_ITD_ERROR''),
     (0x46, ''MCA_SVID_READ_REG_FAILED''),
     (0x47, ''MCA_SVID_WRITE_REG_FAILED''),
     (0x4A, ''MCA_SVID_PKGC_REQUEST_FAILED''),
     (0x4B, ''MCA_SVID_IMON_REQUEST_FAILED''),
     (0x4C, ''MCA_SVID_ALERT_REQUEST_FAILED''),
     (0x4D, ''MCA_SVID_MCP_VR_RAMP_ERROR''),
     (0x56, ''MCA_FIVR_PD_HARDERR''),
     (0x58, ''MCA_WATCHDOG_TIMEOUT_PKGC_SLAVE''),
     (0x59, ''MCA_WATCHDOG_TIMEOUT_PKGC_MASTER''),
     (0x5A, ''MCA_WATCHDOG_TIMEOUT_PKGS_MASTER''),
     (0x5B, ''MCA_WATCHDOG_TIMEOUT_MSG_CH_FSM''),
     (0x5C, ''MCA_WATCHDOG_TIMEOUT_BULK_CR_FSM''),
     (0x5D, ''MCA_WATCHDOG_TIMEOUT_IOSFSB_FSM''),
     (0x60, ''MCA_PKGS_SAFE_WP_TIMEOUT''),
     (0x61, ''MCA_PKGS_CPD_UNCPD_TIMEOUT''),
     (0x62, ''MCA_PKGS_INVALID_REQ_PCH''),
     (0x63, ''MCA_PKGS_INVALID_REQ_INTERNAL''),
     (0x64, ''MCA_PKGS_INVALID_RSP_INTERNAL'')] @
     span 0x65 0x7A ''MCA_PKGS_RESET_PREP_TIMEOUT'' @
     [(0x7B, ''MCA_PKGS_SMBUS_VPP_PAUSE_TIMEOUT''),
     (0x7C, ''MCA_PKGS_SMBUS_MCP_PAUSE_TIMEOUT''),
     (0x7D, ''MCA_PKGS_SMBUS_SPD_PAUSE_TIMEOUT''),
     (0x80, ''MCA_PKGC_DISP_BUSY_TIMEOUT''),
     (0x81, ''MCA_PKGC_INVALID_RSP_PCH''),
     (0x83, ''MCA_PKGC_WATCHDOG_HANG_CBZ_DOWN''),
     (0x84, ''MCA_PKGC_WATCHDOG_HANG_CBZ_UP''),
     (0x87, ''MCA_PKGC_WATCHDOG_HANG_C2_BLKMASTER''),
     (0x88, ''MCA_PKGC_WATCHDOG_HANG_C2_PSLIMIT''),
     (0x89, ''MCA_PKGC_WATCHDOG_HANG_SETDISP''),
     (0x8B, ''MCA_PKGC_ALLOW_L1_ERROR''),
     (0x90, ''MCA_RECOVERABLE_DIE_THERMAL_TOO_HOT''),
     (0xA0, ''MCA_ADR_SIGNAL_TIMEOUT''),
     (0xA1, ''MCA_BCLK_FREQ_OC_ABOVE_THRESHOLD''),
     (0xB0, ''MCA_DISPATCHER_RUN_BUSY_TIMEOUT'')])"

definition i10_pcu_2 :: "string option list" where
  "i10_pcu_2 = sparse 10
    [(0x04, ''Clock/power IP response timeout''),
     (0x05, ''SMBus controller raised SMI''),
     (0x09, ''PM controller received invalid transaction'')]"

definition i10_pcu_3 :: "string option list" where
  "i10_pcu_3 = sparse 8
    [(0x01, ''Instruction address out of valid space''),
     (0x02, ''Double bit RAM error on Instruction Fetch''),
     (0x03, ''Invalid OpCode seen''),
     (0x04, ''Stack Underflow''),
     (0x05, ''Stack Overflow''),
     (0x06, ''Data address out of valid space''),
     (0x07, ''Double bit RAM error on Data Fetch'')]"

definition i10_pcu1 :: "field list" where
  "i10_pcu1 =
    [FIELD 0 i10_pcu_1,
     END_FIELD]"

definition i10_pcu2 :: "field list" where
  "i10_pcu2 =
    [FIELD 0 i10_pcu_2,
     END_FIELD]"

definition i10_pcu3 :: "field list" where
  "i10_pcu3 =
    [FIELD 0 i10_pcu_3,
     END_FIELD]"

definition i10_upi1 :: "field list" where
  "i10_upi1 =
    [SBITFIELD 22 ''Phy Control Error'',
     SBITFIELD 23 ''Unexpected Retry.Ack flit'',
     SBITFIELD 24 ''Unexpected Retry.Req flit'',
     SBITFIELD 25 ''RF parity error'',
     SBITFIELD 26 ''Routeback Table error'',
     SBITFIELD 27 ''Unexpected Tx Protocol flit (EOP, Header or Data)'',
     SBITFIELD 28 ''Rx Header-or-Credit BGF credit overflow/underflow'',
     SBITFIELD 29 ''Link Layer Reset still in progress when Phy enters L0'',
     SBITFIELD 30 ''Link Layer reset initiated while protocol traffic not idle'',
     SBITFIELD 31 ''Link Layer Tx Parity Error'',
     END_FIELD]"

definition i10_upi_2 :: "string option list" where
  "i10_upi_2 = sparse 51
    [(0x00, ''Phy Initialization Failure (NumInit)''),
     (0x01, ''Phy Detected Drift Buffer Alarm''),
     (0x02, ''Phy Detected Latency Buffer Rollover''),
     (0x10, ''LL Rx detected CRC error: unsuccessful LLR (entered Abort state)''),
     (0x11, ''LL Rx Unsupported/Undefined packet''),
     (0x12, ''LL or Phy Control Error''),
     (0x13, ''LL Rx Parameter Exception''),
     (0x1F, ''LL Detected Control Error''),
     (0x20, ''Phy Initialization Abort''),
     (0x21, ''Phy Inband Reset''),
     (0x22, ''Phy Lane failure, recovery in x8 width''),
     (0x23, ''Phy L0c error corrected without Phy reset''),
     (0x24, ''Phy L0c error triggering Phy reset''),
     (0x25, ''Phy L0p exit error corrected with reset''),
     (0x30, ''LL Rx detected CRC error: successful LLR without Phy Reinit''),
     (0x31, ''LL Rx detected CRC error: successful LLR with Phy Reinit''),
     (0x32, ''Tx received LLR'')]"

definition i10_upi2 :: "field list" where
  "i10_upi2 =
    [FIELD 0 i10_upi_2,
     END_FIELD]"

definition i10_m2m :: "field list" where
  "i10_m2m =
    [SBITFIELD 16 ''MC read data error'',
     SBITFIELD 17 ''Reserved'',
     SBITFIELD 18 ''MC partial write data error'',
     SBITFIELD 19 ''Full write data error'',
     SBITFIELD 20 ''M2M clock-domain-crossing buffer (BGF) error'',
     SBITFIELD 21 ''M2M time out'',
     SBITFIELD 22 ''M2M tracker parity error'',
     SBITFIELD 23 ''fatal Bucket1 error'',
     END_FIELD]"

definition i10_imc_0 :: "string option list" where
  "i10_imc_0 = sparse 193
    [(0x01, ''Address parity error''),
     (0x02, ''Data parity error''),
     (0x03, ''Data ECC error''),
     (0x04, ''Data byte enable parity error''),
     (0x07, ''Transaction ID parity error''),
     (0x08, ''Corrected patrol scrub error''),
     (0x10, ''Uncorrected patrol scrub error''),
     (0x20, ''Corrected spare error''),
     (0x40, ''Uncorrected spare error''),
     (0x80, ''Corrected read error''),
     (0xA0, ''Uncorrected read error''),
     (0xC0, ''Uncorrected metadata'')]"

definition i10_imc_1 :: "string option list" where
  "i10_imc_1 = sparse 19
    [(0x00, ''WDB read parity error''),
     (0x03, ''RPA parity error''),
     (0x06, ''DDR_T_DPPP data BE error''),
     (0x07, ''DDR_T_DPPP data error''),
     (0x08, ''DDR link failure''),
     (0x11, ''PCLS CAM error''),
     (0x12, ''PCLS data error'')]"

definition i10_imc_2 :: "string option list" where
  "i10_imc_2 = sparse 34
    [(0x00, ''DDR4 command / address parity error''),
     (0x20, ''HBM command / address parity error''),
     (0x21, ''HBM data parity error'')]"

definition i10_imc_4 :: "string option list" where
  "i10_imc_4 = map Some
    [''RPQ parity (primary) error'']"

definition i10_imc_8 :: "string option list" where
  "i10_imc_8 = sparse 47
    [(0x00, ''DDR-T bad request''),
     (0x01, ''DDR Data response to an invalid entry''),
     (0x02, ''DDR data response to an entry not expecting data''),
     (0x03, ''DDR4 completion to an invalid entry''),
     (0x04, ''DDR-T completion to an invalid entry''),
     (0x05, ''DDR data/completion FIFO overflow''),
     (0x06, ''DDR-T ERID correctable parity error''),
     (0x07, ''DDR-T ERID uncorrectable error''),
     (0x08, ''DDR-T interrupt received while outstanding interrupt was not ACKed''),
     (0x09, ''ERID FI FO overflow''),
     (0x0A, ''DDR-T error on FNV write credits''),
     (0x0B, ''DDR-T error on FNV read credits''),
     (0x0C, ''DDR-T scheduler error''),
     (0x0D, ''DDR-T FNV error event''),
     (0x0E, ''DDR-T FNV thermal event''),
     (0x0F, ''CMI packet while idle''),
     (0x10, ''DDR_T_RPQ_REQ_PARITY_ERR''),
     (0x11, ''DDR_T_WPQ_REQ_PARITY_ERR''),
     (0x12, ''2LM_NMFILLWR_CAM_ERR''),
     (0x13, ''CMI_CREDIT_OVERSUB_ERR''),
     (0x14, ''CMI_CREDIT_TOTAL_ERR''),
     (0x15, ''CMI_CREDIT_RSVD_POOL_ERR''),
     (0x16, ''DDR_T_RD_ERROR''),
     (0x17, ''WDB_FIFO_ERR''),
     (0x18, ''CMI_REQ_FIFO_OVERFLOW''),
     (0x19, ''CMI_REQ_FIFO_UNDERFLOW''),
     (0x1A, ''CMI_RSP_FIFO_OVERFLOW''),
     (0x1B, ''CMI_RSP_FIFO_UNDERFLOW''),
     (0x1C, ''CMI _MISC_MC_CRDT_ERRORS''),
     (0x1D, ''CMI_MISC_MC_ARB_ERRORS''),
     (0x1E, ''DDR_T_WR_CMPL_FI FO_OVERFLOW''),
     (0x1F, ''DDR_T_WR_CMPL_FI FO_UNDERFLOW''),
     (0x20, ''CMI_RD_CPL_FIFO_OVERFLOW''),
     (0x21, ''CMI_RD_CPL_FIFO_UNDERFLOW''),
     (0x22, ''TME_KEY_PAR_ERR''),
     (0x23, ''TME_CMI_MISC_ERR''),
     (0x24, ''TME_CMI_OVFL_ERR''),
     (0x25, ''TME_CMI_UFL_ERR''),
     (0x26, ''TME_TEM_SECURE_ERR''),
     (0x27, ''TME_UFILL_PAR_ERR''),
     (0x29, ''INTERNAL_ERR''),
     (0x2A, ''TME_INTEGRITY_ERR''),
     (0x2B, ''TME_TDX_ERR''),
     (0x2C, ''TME_UFILL_TEM_SECURE_ERR''),
     (0x2D, ''TME_KEY_POISON_ERR''),
     (0x2E, ''TME_SECURITY_ENGINE_ERR'')]"

definition i10_imc_10 :: "string option list" where
  "i10_imc_10 = sparse 161
    [(0x08, ''CORR_PATSCRUB_MIRR2ND_ERR''),
     (0x10, ''UC_PATSCRUB_MIRR2ND_ERR''),
     (0x20, ''COR_SPARE_MIRR2ND_ERR''),
     (0x40, ''UC_SPARE_MIRR2ND_ERR''),
     (0x80, ''HA_RD_MIRR2ND_ERR''),
     (0xA0, ''HA_UNCORR_RD_MIRR2ND_ERR'')]"

definition i10_imc0 :: "field list" where
  "i10_imc0 =
    [FIELD 0 i10_imc_0,
     END_FIELD]"

definition i10_imc1 :: "field list" where
  "i10_imc1 =
    [FIELD 0 i10_imc_1,
     END_FIELD]"

definition i10_imc2 :: "field list" where
  "i10_imc2 =
    [FIELD 0 i10_imc_2,
     END_FIELD]"

definition i10_imc4 :: "field list" where
  "i10_imc4 =
    [FIELD 0 i10_imc_4,
     END_FIELD]"

definition i10_imc8 :: "field list" where
  "i10_imc8 =
    [FIELD 0 i10_imc_8,
     END_FIELD]"

definition i10_imc10 :: "field list" where
  "i10_imc10 =
    [FIELD 0 i10_imc_10,
     END_FIELD]"

lemma i10_terminated [simp]:
  "terminated i10_pcu1"
  "terminated i10_pcu2"
  "terminated i10_pcu3"
  "terminated i10_upi1"
  "terminated i10_upi2"
  "terminated i10_m2m"
  "terminated i10_imc0"
  "terminated i10_imc1"
  "terminated i10_imc2"
  "terminated i10_imc4"
  "terminated i10_imc8"
  "terminated i10_imc10"
  by (simp_all add: i10_pcu1_def i10_pcu2_def i10_pcu3_def i10_upi1_def i10_upi2_def i10_m2m_def i10_imc0_def i10_imc1_def i10_imc2_def i10_imc4_def i10_imc8_def i10_imc10_def)

definition i10nm_imc_misc :: "mce_event \<Rightarrow> mce_event option" where
  "i10nm_imc_misc e =
     (let st = status e; mi = misc e;
          column = push_bit 2 (ucast (EXTRACT mi 9 18)) :: u32;
          row = ucast (EXTRACT mi 19 39) :: u32;
          bank = ucast (EXTRACT mi 42 43) :: u32;
          bankgroup = ucast (EXTRACT mi 40 41 OR push_bit 2 (EXTRACT mi 44 44)) :: u32;
          fdevice = ucast (EXTRACT mi 46 51) :: u32;
          subrank = ucast (EXTRACT mi 52 55) :: u32;
          rank = ucast (EXTRACT mi 56 58) :: u32;
          eccmode = ucast (EXTRACT mi 59 62) :: u32;
          transient = ucast (EXTRACT mi 63 63) :: u32
      in do {
        e \<leftarrow> add_error_msg (''bank: 0x'' @ fmt_x bank @ '' bankgroup: 0x'' @ fmt_x bankgroup @
               '' row: 0x'' @ fmt_x row @ '' column: 0x'' @ fmt_x column) e;
        e \<leftarrow> cond (transient = 0 \<and> EXTRACT st 61 61 = 0)
               (add_error_msg (''failed device: 0x'' @ fmt_x fdevice)) e;
        e \<leftarrow> add_error_msg (''rank: 0x'' @ fmt_x rank @ '' subrank: 0x'' @ fmt_x subrank) e;
        e \<leftarrow> add_error_msg ''ecc mode: '' e;
        e \<leftarrow> (if eccmode = 0 then add_error_msg ''SDDC memory mode'' e
              else if eccmode = 1 then add_error_msg ''SDDC'' e
              else if eccmode = 4 then add_error_msg ''ADDDC memory mode'' e
              else if eccmode = 5 then add_error_msg ''ADDDC'' e
              else if eccmode = 8 then add_error_msg ''DDRT read'' e
              else add_error_msg ''unknown'' e);
        cond (transient \<noteq> 0) (add_error_msg ''transient'') e
      })"

datatype banktype = BT_UNKNOWN | BT_PCU | BT_UPI | BT_M2M | BT_IMC

definition bank_table :: "(nat \<times> nat \<times> banktype) list \<Rightarrow> banktype list" where
  "bank_table rs =
     map (\<lambda>i. case find (\<lambda>(a, b, _). a \<le> i \<and> i \<le> b) rs of None \<Rightarrow> BT_UNKNOWN | Some (_, _, t) \<Rightarrow> t) [0..<32]"

definition icelake :: "banktype list" where
  "icelake = bank_table
     [(4, 4, BT_PCU), (5, 5, BT_UPI), (7, 8, BT_UPI), (12, 12, BT_M2M), (16, 16, BT_M2M),
      (20, 20, BT_M2M), (24, 24, BT_M2M), (13, 15, BT_IMC), (17, 19, BT_IMC), (21, 23, BT_IMC),
      (25, 27, BT_IMC)]"

definition icelake_de :: "banktype list" where
  "icelake_de = bank_table
     [(4, 4, BT_PCU), (12, 12, BT_M2M), (16, 16, BT_M2M), (13, 15, BT_IMC), (17, 19, BT_IMC)]"

definition tremont :: "banktype list" where
  "tremont = bank_table [(4, 4, BT_PCU), (12, 12, BT_M2M), (13, 15, BT_IMC)]"

definition sapphire :: "banktype list" where
  "sapphire = bank_table [(4, 4, BT_PCU), (5, 5, BT_UPI), (12, 12, BT_M2M), (13, 20, BT_IMC)]"

text \<open>The channel of a memory error, from the low bits of the status and the controller of the bank.\<close>

definition i10nm_memerr_misc :: "mce_event \<Rightarrow> s32 \<Rightarrow> s32" where
  "i10nm_memerr_misc e channel =
     (let st = status e; chan = ucast (EXTRACT st 0 3) :: u32
      in if \<not> test_prefix 7 (ucast (st AND 0xEFFF)) then channel
         else if chan = 0xF then channel
         else if bank e \<in> {12, 13, 14, 15} then 0 * 3 + chan
         else if bank e \<in> {16, 17, 18, 19} then 1 * 3 + chan
         else if bank e \<in> {20, 21, 22, 23} then 2 * 3 + chan
         else if bank e \<in> {24, 25, 26, 27} then 3 * 3 + chan
         else channel)"

text \<open>The bank table of a CPU type; the other types return at once.\<close>

definition i10nm_banks :: "cputype \<Rightarrow> banktype list option" where
  "i10nm_banks cputype =
     (case cputype of
        CPU_ICELAKE_XEON \<Rightarrow> Some icelake
      | CPU_ICELAKE_DE \<Rightarrow> Some icelake_de
      | CPU_TREMONT_D \<Rightarrow> Some tremont
      | CPU_SAPPHIRERAPIDS \<Rightarrow> Some sapphire
      | CPU_EMERALDRAPIDS \<Rightarrow> Some sapphire
      | _ \<Rightarrow> None)"

definition i10nm_bank :: "banktype \<Rightarrow> mce_event \<Rightarrow> mce_event option" where
  "i10nm_bank banktype e =
     (let st = status e
      in case banktype of
        BT_UNKNOWN \<Rightarrow> Some e
      | BT_PCU \<Rightarrow> do {
          e \<leftarrow> add_error_msg ''PCU: '' e;
          e \<leftarrow> cond (EXTRACT st 24 31 \<noteq> 0) (decode_bitfield (EXTRACT st 24 31) i10_pcu1) e;
          e \<leftarrow> cond (EXTRACT st 20 23 \<noteq> 0) (decode_bitfield (EXTRACT st 20 23) i10_pcu2) e;
          cond (EXTRACT st 16 19 \<noteq> 0) (decode_bitfield (EXTRACT st 16 19) i10_pcu3) e
        }
      | BT_UPI \<Rightarrow> do {
          e \<leftarrow> add_error_msg ''UPI: '' e;
          e \<leftarrow> cond (EXTRACT st 22 31 \<noteq> 0) (decode_bitfield st i10_upi1) e;
          decode_bitfield (EXTRACT st 16 21) i10_upi2 e
        }
      | BT_M2M \<Rightarrow> do {
          e \<leftarrow> add_error_msg ''M2M: '' e;
          e \<leftarrow> add_error_msg (''MscodDDRType=0x'' @ fmt_x (EXTRACT st 24 25)) e;
          e \<leftarrow> add_error_msg (''MscodMiscErrs=0x'' @ fmt_x (EXTRACT st 26 31)) e;
          decode_bitfield st i10_m2m e
        }
      | BT_IMC \<Rightarrow> do {
          e \<leftarrow> add_error_msg ''MemCtrl: '' e;
          e \<leftarrow> (let f = EXTRACT st 16 23; g = EXTRACT st 24 31
                in if g = 0 then decode_bitfield f i10_imc0 e
                   else if g = 1 then decode_bitfield f i10_imc1 e
                   else if g = 2 then decode_bitfield f i10_imc2 e
                   else if g = 4 then decode_bitfield f i10_imc4 e
                   else if g = 8 then decode_bitfield f i10_imc8 e
                   else if g = 0x10 then decode_bitfield f i10_imc10 e
                   else Some e);
          i10nm_imc_misc e
        })"

definition i10nm_decode_model :: "cputype \<Rightarrow> mce_event \<Rightarrow> mce_event option" where
  "i10nm_decode_model cputype e =
     (case i10nm_banks cputype of
        None \<Rightarrow> Some e
      | Some banks \<Rightarrow> do {
          banktype \<leftarrow> lookup banks (unat (bank e));
          e \<leftarrow> i10nm_bank banktype e;
          (if drop_bit 7 (mcacod e) \<noteq> 1 then Some e
           else if banktype \<noteq> BT_IMC \<or> flagged (status e) MCI_STATUS_UC then Some e
           else
             let channel = i10nm_memerr_misc e (-1)
             in if channel = -1 then Some e
                else add_mc_location (''memory_channel='' @ fmt_d channel) e)
        })"

section \<open>Granite Rapids, Sierra Forest, Clearwater Forest\<close>

definition gnr_upi_2 :: "string option list" where
  "gnr_upi_2 = sparse 50
    [(0x00, ''UC Phy Initialization Failure (NumInit)''),
     (0x01, ''UC Phy Detected Drift Buffer Alarm''),
     (0x02, ''UC Phy Detected Latency Buffer Rollover''),
     (0x10, ''UC LL Rx detected CRC error: unsuccessful LLR (entered Abort state)''),
     (0x11, ''UC LL Rx Unsupported/Undefined packet''),
     (0x12, ''UC LL or Phy Control Error''),
     (0x13, ''UC LL Rx Parameter Exception''),
     (0x14, ''UC LL TDX Failure''),
     (0x15, ''UC LL SGX Failure''),
     (0x16, ''UC LL Tx SDC Parity Error''),
     (0x17, ''UC LL Rx SDC Parity Error''),
     (0x18, ''UC LL FLE Failure''),
     (0x1F, ''UC LL Detected Control Error''),
     (0x20, ''COR Phy Initialization Abort''),
     (0x21, ''COR Phy Inband Reset''),
     (0x22, ''COR Phy Lane failure, recovery in x8 width''),
     (0x23, ''COR Phy L0c error corrected without Phy reset''),
     (0x24, ''COR Phy L0c error triggering Phy reset''),
     (0x25, ''COR Phy L0p exit error corrected with reset''),
     (0x30, ''COR LL Rx detected CRC error: successful LLR without Phy Reinit''),
     (0x31, ''COR LL Rx detected CRC error: successful LLR with Phy Reinit'')]"

definition gnr_upi2 :: "field list" where
  "gnr_upi2 =
    [FIELD 0 gnr_upi_2,
     END_FIELD]"

definition gnr_punit_errs_1 :: "string option list" where
  "gnr_punit_errs_1 = sparse 177
    (span 0x02 0x3 ''Power Management Unit microcontroller double-bit ECC error'' @
     span 0x08 0x9 ''Power Management Unit microcontroller error'' @
     [(0x0a, ''Power Management Unit microcontroller patch load error''),
     (0x0b, ''Power Management Unit microcontroller POReqValid error''),
     (0x10, ''Power Management Unit microcontroller TeleSRAM double-bit ECC error''),
     (0x20, ''Power Management Agent signaled error''),
     (0x80, ''S3M signaled error''),
     (0xa0, ''Power Management Unit HPMSRAM double-bit ECC error detected''),
     (0xb0, ''Power Management Unit TPMISRAM double-bit ECC error detected'')])"

definition gnr_punit1 :: "field list" where
  "gnr_punit1 =
    [FIELD 0 gnr_punit_errs_1,
     END_FIELD]"

definition gnr_punit_errs_2 :: "string option list" where
  "gnr_punit_errs_2 = sparse 87
    [(0x09, ''MCA_TSC_DOWNLOAD_TIMEOUT: TSC download timed out''),
     (0x0b, ''MCA_GPSB_TIMEOUT: GPSB does not respond within timeout value''),
     (0x0c, ''MCA_PMSB_TIMEOUT: PMSB does not respond within timeout value''),
     (0x10, ''MCA_PMAX_CALIB_ERROR: PMAX calibration error''),
     (0x1a, ''MCA_DISP_RUN_BUSY_TIMEOUT: Dispatcher busy beyond timeout''),
     (0x1d, ''MCA_MORE_THAN_ONE_LT_AGENT: During Boot Mode Processing, >1 LT Agent detected''),
     (0x23, ''MCA_PCU_SVID_ERROR: SVID error''),
     (0x35, ''MCA_SVID_LOADLINE_INVALID: Invalid SVID VCCIN Loadline resistance value''),
     (0x36, ''MCA_SVID_ICCMAX_INVALID: Invalid SVID ICCMAX value''),
     (0x40, ''MCA_SVID_VIDMAX_INVALID: Invalid SVID VID_MAX value''),
     (0x41, ''MCA_SVID_VDDRAMP_INVALID: Invalid ramp voltage for VDD_RAMP''),
     (0x48, ''MCA_ITD_FUSE_INVALID: ITD fuse settings are not valid''),
     (0x49, ''MCA_SVID_DC_LL_INVALID: ITD fuse settings are not valid''),
     (0x4a, ''MCA_FIVR_PD_HARDERR: PM event has issued some FIVR Fault''),
     (0x4c, ''MCA_HPM_DOUBLE_BIT_ERROR_DETECTED: Read from HPM SRAM resulted in Double bit error''),
     (0x56, ''SVID_ACTIVE_VID_FUSE_ERROR: Invalid fuse values programmed for SVID Active vid'')]"

definition gnr_punit2 :: "field list" where
  "gnr_punit2 =
    [FIELD 0 gnr_punit_errs_2,
     END_FIELD]"

definition gnr_b2cmi_1 :: "string option list" where
  "gnr_b2cmi_1 = sparse 14
    [(0x01, ''Read ECC error''),
     (0x02, ''Bucket1 error''),
     (0x03, ''Tracker Parity error''),
     (0x04, ''Security mismatch''),
     (0x07, ''Read completion parity error''),
     (0x08, ''Response parity error''),
     (0x09, ''Timeout error''),
     (0x0a, ''Address parity error''),
     (0x0c, ''CMI credit over subscription error''),
     (0x0d, ''SAI mismatch error'')]"

definition gnr_b2cmi1 :: "field list" where
  "gnr_b2cmi1 =
    [FIELD 0 gnr_b2cmi_1,
     END_FIELD]"

definition gnr_mcchan_0 :: "string option list" where
  "gnr_mcchan_0 = sparse 193
    [(0x01, ''Address Parity Error (APPP)''),
     (0x02, ''CMI Wr data parity Error on sCH0''),
     (0x03, ''CMI Uncorr/Corr ECC error on sCH0''),
     (0x04, ''CMI Wr BE parity Error on sCH0''),
     (0x05, ''CMI Wr MAC parity Error on sCH0''),
     (0x08, ''Corr Patrol Scrub Error''),
     (0x10, ''UnCorr Patrol Scrub Error''),
     (0x20, ''Corr Spare Error''),
     (0x40, ''UnCorr Spare Error''),
     (0x80, ''Transient or Correctable Error for Demand or Underfill Reads''),
     (0xa0, ''Uncorrectable Error for Demand or Underfill Reads''),
     (0xb0, ''Poison was read from memory when poison was disabled in memory controller''),
     (0xc0, ''Read 2LM MetaData Error'')]"

definition gnr_mcchan_1 :: "string option list" where
  "gnr_mcchan_1 = sparse 10
    [(0x00, ''WDB Read Parity Error on sCH0''),
     (0x02, ''WDB Read Uncorr/Corr ECC Error on sCH0''),
     (0x04, ''WDB BE Read Parity Error on sCH0''),
     (0x06, ''WDB Read Persistent Corr ECC Error on sCH0''),
     (0x08, ''DDR Link Fail''),
     (0x09, ''Illegal incoming opcode'')]"

definition gnr_mcchan_2 :: "string option list" where
  "gnr_mcchan_2 = map Some
    [''DDR CAParity or WrCRC Error'']"

definition gnr_mcchan_4 :: "string option list" where
  "gnr_mcchan_4 = map Some
    [''Scheduler address parity error'']"

definition gnr_mcchan_8 :: "string option list" where
  "gnr_mcchan_8 = sparse 52
    [(0x32, ''MC Internal Errors''),
     (0x33, ''MCTracker Address RF parity error'')]"

definition gnr_mcchan_32 :: "string option list" where
  "gnr_mcchan_32 = sparse 6
    [(0x02, ''CMI Wr data parity Error on sCH1''),
     (0x03, ''CMI Uncorr/Corr ECC error on sCH1''),
     (0x04, ''CMI Wr BE parity Error on sCH1''),
     (0x05, ''CMI Wr MAC parity Error on sCH1'')]"

definition gnr_mcchan_33 :: "string option list" where
  "gnr_mcchan_33 = sparse 7
    [(0x00, ''WDB Read Parity Error on sCH1''),
     (0x02, ''WDB Read Uncorr/Corr ECC Error on sCH1''),
     (0x04, ''WDB BE Read Parity Error on sCH1''),
     (0x06, ''WDB Read Persistent Corr ECC Error on sCH1'')]"

definition gnr_mcchan0 :: "field list" where
  "gnr_mcchan0 =
    [FIELD 0 gnr_mcchan_0,
     END_FIELD]"

definition gnr_mcchan1 :: "field list" where
  "gnr_mcchan1 =
    [FIELD 0 gnr_mcchan_1,
     END_FIELD]"

definition gnr_mcchan2 :: "field list" where
  "gnr_mcchan2 =
    [FIELD 0 gnr_mcchan_2,
     END_FIELD]"

definition gnr_mcchan4 :: "field list" where
  "gnr_mcchan4 =
    [FIELD 0 gnr_mcchan_4,
     END_FIELD]"

definition gnr_mcchan8 :: "field list" where
  "gnr_mcchan8 =
    [FIELD 0 gnr_mcchan_8,
     END_FIELD]"

definition gnr_mcchan32 :: "field list" where
  "gnr_mcchan32 =
    [FIELD 0 gnr_mcchan_32,
     END_FIELD]"

definition gnr_mcchan33 :: "field list" where
  "gnr_mcchan33 =
    [FIELD 0 gnr_mcchan_33,
     END_FIELD]"

lemma gnr_terminated [simp]:
  "terminated gnr_upi2"
  "terminated gnr_punit1"
  "terminated gnr_punit2"
  "terminated gnr_b2cmi1"
  "terminated gnr_mcchan0"
  "terminated gnr_mcchan1"
  "terminated gnr_mcchan2"
  "terminated gnr_mcchan4"
  "terminated gnr_mcchan8"
  "terminated gnr_mcchan32"
  "terminated gnr_mcchan33"
  by (simp_all add: gnr_upi2_def gnr_punit1_def gnr_punit2_def gnr_b2cmi1_def gnr_mcchan0_def gnr_mcchan1_def gnr_mcchan2_def gnr_mcchan4_def gnr_mcchan8_def gnr_mcchan32_def gnr_mcchan33_def)

definition granite_imc_misc :: "mce_event \<Rightarrow> mce_event option" where
  "granite_imc_misc e =
     (let mi = misc e;
          mscod = EXTRACT (status e) 16 31;
          column = push_bit 2 (ucast (EXTRACT mi 9 18)) :: u32;
          row = ucast (EXTRACT mi 19 36) :: u32;
          bank = ucast (EXTRACT mi 37 38) :: u32;
          bankgroup = ucast (EXTRACT mi 39 41) :: u32;
          fdevice = ucast (EXTRACT mi 43 48) :: u32;
          subrank = ucast (EXTRACT mi 51 54) :: u32;
          chipselect = ucast (EXTRACT mi 55 57) :: u32;
          eccmode = ucast (EXTRACT mi 58 61) :: u32;
          transient = ucast (EXTRACT mi 63 63) :: u32
      in if mscod \<ge> 0x800 \<and> mscod \<le> 0x82F then Some e
         else do {
           e \<leftarrow> add_error_msg (''bank: 0x'' @ fmt_x bank @ '' bankgroup: 0x'' @ fmt_x bankgroup @
                  '' row: 0x'' @ fmt_x row @ '' column: 0x'' @ fmt_x column @ NL) e;
           e \<leftarrow> cond (transient = 0) (add_error_msg (''failed device: 0x'' @ fmt_x fdevice @ NL)) e;
           e \<leftarrow> add_error_msg (''chipselect: 0x'' @ fmt_x chipselect @ '' subrank: 0x'' @ fmt_x subrank @ NL) e;
           e \<leftarrow> add_error_msg ''ecc mode: '' e;
           e \<leftarrow> add_error_msg
                  (if eccmode = 1 then ''SDDC 128b 1LM'' @ NL
                   else if eccmode = 2 then ''SDDC 125b 1LM'' @ NL
                   else if eccmode = 3 then ''SDDC 96b 1LM'' @ NL
                   else if eccmode = 4 then ''SDDC 96b 2LM'' @ NL
                   else if eccmode = 5 then ''ADDDC 80b 1LM'' @ NL
                   else if eccmode = 6 then ''ADDDC 80b 2LM'' @ NL
                   else if eccmode = 7 then ''ADDDC 64b 1LM'' @ NL
                   else if eccmode = 8 then ''9x4 61b 1LM'' @ NL
                   else if eccmode = 9 then ''9x4 32b 1LM'' @ NL
                   else if eccmode = 10 then ''9x4 32b 2LM'' @ NL
                   else ''Invalid/unknown ECC mode'' @ NL) e;
           cond (transient \<noteq> 0) (add_error_msg (''transient'' @ NL)) e
         })"

text \<open>The channel that \<open>granite_memerr_misc\<close> computes is never printed.\<close>

definition granite_memerr_misc :: "mce_event \<Rightarrow> s32 \<Rightarrow> s32" where
  "granite_memerr_misc e channel =
     (if \<not> test_prefix 7 (ucast (status e AND 0xEFFF)) then channel
      else if (ucast (EXTRACT (status e) 0 3) :: u32) = 0xF then channel
      else if bank e < 13 \<or> bank e > 24 then channel
      else ucast (bank e) - 13)"

definition granite_decode_model :: "mce_event \<Rightarrow> mce_event option" where
  "granite_decode_model e =
     (let st = status e
      in do {
        e \<leftarrow> (if bank e = 5 then do {
           e \<leftarrow> add_error_msg ''UPI: '' e;
           decode_bitfield (EXTRACT st 16 31) gnr_upi2 e
         }
         else if bank e = 6 then do {
           e \<leftarrow> add_error_msg ''Punit: '' e;
           e \<leftarrow> decode_bitfield (EXTRACT st 16 23) gnr_punit1 e;
           decode_bitfield (EXTRACT st 24 31) gnr_punit2 e
         }
         else if bank e = 12 then do {
           e \<leftarrow> add_error_msg ''B2CMI: '' e;
           decode_bitfield (EXTRACT st 16 31) gnr_b2cmi1 e
         }
         else if 13 \<le> bank e \<and> bank e \<le> 24 then do {
           e \<leftarrow> add_error_msg ''MCCHAN: '' e;
           e \<leftarrow> (let f = EXTRACT st 16 23; g = EXTRACT st 24 31
                 in if g = 0 then decode_bitfield f gnr_mcchan0 e
                    else if g = 1 then decode_bitfield f gnr_mcchan1 e
                    else if g = 2 then decode_bitfield f gnr_mcchan2 e
                    else if g = 4 then decode_bitfield f gnr_mcchan4 e
                    else if g = 8 then decode_bitfield f gnr_mcchan8 e
                    else if g = 32 then decode_bitfield f gnr_mcchan32 e
                    else if g = 33 then decode_bitfield f gnr_mcchan33 e
                    else Some e);
           cond (EXTRACT st 59 59 \<noteq> 0 \<and> EXTRACT st 33 33 \<noteq> 0) granite_imc_misc e
         }
         else Some e);
        (let channel = granite_memerr_misc e (-1)
         in if channel = -1 then Some e else Some e)
      })"

section \<open>Diamond Rapids\<close>

definition dmr_cbb_punit_0 :: "string option list" where
  "dmr_cbb_punit_0 = sparse 10
    [(0x01, ''CR4_MCE_CLEAR: MCE when CR4.MCE is clear''),
     (0x02, ''MCE_MCIP_SET: MCE when MCIP bit is set''),
     (0x03, ''MCE_UNDER_WFS: MCE under WPS''),
     (0x04, ''MCE_LT_HANDSHAKE: Unrecoverable error during security flow execution''),
     (0x05, ''TRIPLE_FAULT: SW triple fault shutdown''),
     (0x06, ''VMX_ABORT: VMX exit consistency check failures''),
     (0x07, ''RSM_CONSISTENCY_FAIL: RSM consistency check failures''),
     (0x08, ''SMM_PROTECTED_ENTRY_FAIL: Invalid conditions on protected mode SMM entry''),
     (0x09, ''UCODE_PATCH_LOAD_FAIL: Unrecoverable error during security flow execution'')]"

definition dmr_cbb_punit_8 :: "string option list" where
  "dmr_cbb_punit_8 = sparse 73
    [(0x16, ''MCA_DVFS_COUNTER_EXPIRED''),
     (0x23, ''MCA_UNSUPP_RESP''),
     (0x25, ''MCA_FUSA_MBIST''),
     (0x26, ''MCA_SA_PLL_LOCKED''),
     (0x27, ''MCA_XTAL_FREQ_MON_ERROR''),
     (0x28, ''MCA_PMSB_FUSE_PULLER_ERROR''),
     (0x29, ''MCA_GPSB_FUSE_PULLER_ERROR''),
     (0x30, ''MCA_PCODE_WATCHDOG''),
     (0x31, ''MCA_BGR_FUSA_ERR''),
     (0x32, ''MCA_CORE_FIVR_ERR''),
     (0x33, ''MCA_D2D_FIVR_ERR''),
     (0x34, ''MCA_MLC_FIVR_ERR''),
     (0x35, ''MCA_RING_FIVR_ERR''),
     (0x36, ''MCA_D2D_MONF_PLL_FUSA_0''),
     (0x37, ''MCA_D2D_MONF_PLL_FUSA_1''),
     (0x38, ''MCA_TOP0_FUSA_PLL_ERR''),
     (0x39, ''MCA_BASE_FUSA_PLL_ERR''),
     (0x40, ''MCA_UCIE_RESET_BUS_STOP_ON_ERROR''),
     (0x41, ''MCA_RSRC_ADAPT_0_ERR''),
     (0x42, ''MCA_RSC_ADAPT_1_ERR''),
     (0x45, ''MCA_TOP1_FUSA_PLL_ERR''),
     (0x46, ''MCA_TOP2_FUSA_PLL_ERR''),
     (0x47, ''MCA_TOP3_FUSA_PLL_ERR''),
     (0x48, ''UC_PATCH_LOAD_ACK_ERROR'')]"

definition dmr_cbb_punit_12 :: "string option list" where
  "dmr_cbb_punit_12 = sparse 6
    [(0x01, ''MCA_UC_IRAM_DOUBLE_ERROR''),
     (0x02, ''MCA_UC_DOUBLE_EXCEPTION_ERROR''),
     (0x03, ''MCA_UC_TELEM_SRAM_ERROR''),
     (0x04, ''MCA_UC_DRAM_DOUBLE_ERROR''),
     (0x05, ''MCA_UC_TPMI_SRAM_ERROR'')]"

definition dmr_cbb_punit_20 :: "string option list" where
  "dmr_cbb_punit_20 = sparse 3
    [(0x01, ''MCA_FIVR_HI_YELLOW''),
     (0x02, ''MCA_FIVR_HI_RED'')]"

definition dmr_cbb_punit0 :: "field list" where
  "dmr_cbb_punit0 =
    [FIELD 0 dmr_cbb_punit_0,
     END_FIELD]"

definition dmr_cbb_punit8 :: "field list" where
  "dmr_cbb_punit8 =
    [FIELD 0 dmr_cbb_punit_8,
     END_FIELD]"

definition dmr_cbb_punit12 :: "field list" where
  "dmr_cbb_punit12 =
    [FIELD 0 dmr_cbb_punit_12,
     END_FIELD]"

definition dmr_cbb_punit20 :: "field list" where
  "dmr_cbb_punit20 =
    [FIELD 0 dmr_cbb_punit_20,
     END_FIELD]"

definition dmr_imh_punit_0 :: "string option list" where
  "dmr_imh_punit_0 = sparse 177
    (span 0x02 0x03 ''Power Management Unit microcontroller double-bit ECC error'' @
     span 0x08 0x09 ''Power Management Unit microcontroller error'' @
     [(0x0a, ''Power Management Unit microcontroller Patch Load error''),
     (0x0b, ''Power Management Unit microcontroller POReqValid error''),
     (0x0c, ''Power Management Unit microcontroller RAM address error''),
     (0x0d, ''Power Management Unit microcontroller RAM access error''),
     (0x10, ''If MCI_MISC.MODEL_SPECIFIC_INFORMATION is set to 1, indicates Pcode Watchdog Timer expired. If MCI_MISC.MODEL_SPECIFIC_INFORMATION is set to 3, indicates Power Management Unit TeleSRAM double-bit ECC error detected.''),
     (0x20, ''Power Management Agent signaled Error''),
     (0x30, ''Power Management Unit Microcontroller Error''),
     (0xa0, ''Power Management Unit HPMSRAM double-bit ECC error detected''),
     (0xb0, ''Power Management Unit TPMISRAM double-bit ECC error detected'')])"

definition dmr_imh_punit_1 :: "string option list" where
  "dmr_imh_punit_1 = sparse 132
    [(0x09, ''MCA_TSC_DOWNLOAD_TIMEOUT''),
     (0x0a, ''MCA_INVALID_XTALFREQ_RANGE''),
     (0x0b, ''MCA_GPSB_TIMEOUT''),
     (0x0c, ''MCA_PMSB_TIMEOUT''),
     (0x0d, ''MCA_CFG_ACK_TIMEOUT''),
     (0x23, ''MCA_PCU_SVID_ERROR''),
     (0x35, ''MCA_SVID_LOADLINE_INVALID''),
     (0x36, ''MCA_SVID_ICCMAX_INVALID''),
     (0x4a, ''MCA_FIVR_PD_HARDERR''),
     (0x4c, ''MCA_HPM_DOUBLE_BIT_ERROR_DETECTED''),
     (0x58, ''MCA_INVALID_MEMORY_FREQUENCY''),
     (0x63, ''MCA_SVID_VCCIN_PROTOCOL_ERROR''),
     (0x6a, ''MCA_SPPR_TIMEOUT''),
     (0x6f, ''MCA_INVALID_SID_ERROR''),
     (0x70, ''MCA_INVALID_REMOTE_LEGACY_AGENT_ERROR''),
     (0x71, ''MCA_INVALID_REMOTE_LT_AGENT_ERROR''),
     (0x7b, ''MCA_THERMAL_SENSOR_INVALID''),
     (0x7c, ''MCA_CXL_DEVICE_NO_CREDIT''),
     (0x7e, ''MCA_RECOVERABLE_DIE_THERMAL_TOO_HOT''),
     (0x83, ''MCA_PKGS_RECOVERABLE_RESET_PREP_ACK_TIMEOUT'')]"

definition dmr_imh_punit0 :: "field list" where
  "dmr_imh_punit0 =
    [FIELD 0 dmr_imh_punit_0,
     END_FIELD]"

definition dmr_imh_punit1 :: "field list" where
  "dmr_imh_punit1 =
    [FIELD 0 dmr_imh_punit_1,
     END_FIELD]"

definition dmr_upi_0 :: "string option list" where
  "dmr_upi_0 = sparse 50
    (span 0x00 0x02 ''Internal Parity Error'' @
     [(0x05, ''Internal Parity Error''),
     (0x08, ''Internal Queue Overflow Error''),
     (0x09, ''UPI link layer buffer overflow''),
     (0x0a, ''Internal Queue Underflow Error''),
     (0x0b, ''UPI link layer buffer underflow''),
     (0x0c, ''Link layer or internal credit overflow'')] @
     span 0x11 0x12 ''Internal Queue Overflow Error'' @
     span 0x13 0x14 ''Internal Queue Underflow Error'' @
     [(0x21, ''Internal Interface Error''),
     (0x23, ''Invalid Message''),
     (0x24, ''UPI Protocol Error''),
     (0x25, ''UPI Interleave Error''),
     (0x28, ''Internal Interface Error''),
     (0x29, ''Link integrity or initialization error'')] @
     span 0x2a 0x2d ''Power Management Transition Error - Timeout'' @
     [(0x30, ''Received poison when poison is disabled''),
     (0x31, ''Internal Interface Error'')])"

definition dmr_upi_2 :: "string option list" where
  "dmr_upi_2 = sparse 8
    ([(0x00, ''Link integrity or initialization error''),
     (0x03, ''Link degraded'')] @
     span 0x04 0x07 ''Power Management Transition Error - Timeout'')"

definition dmr_upi0 :: "field list" where
  "dmr_upi0 =
    [FIELD 0 dmr_upi_0,
     END_FIELD]"

definition dmr_upi2 :: "field list" where
  "dmr_upi2 =
    [FIELD 0 dmr_upi_2,
     END_FIELD]"

definition dmr_mcchan_0 :: "string option list" where
  "dmr_mcchan_0 = sparse 193
    [(0x01, ''CMI Request Address Parity Error (APPP)''),
     (0x02, ''CMI Wr data parity error''),
     (0x04, ''CMI Wr BE parity error''),
     (0x08, ''Transient or Correctable Error for Patrol Reads''),
     (0x10, ''UnCorr Patrol Scrub Error''),
     (0x20, ''Nontransient or Transient ectable Error for Spare Reads''),
     (0x40, ''UnCorr Spare Error''),
     (0x80, ''Transient or Correctable Error for Demand or Underfill Reads''),
     (0xa0, ''Uncorrectable Error for Demand or Underfill Reads''),
     (0xb0, ''Poisoned Read Data when Poison Disabled''),
     (0xc0, ''Read 2LM MetaData Error for Demand, Underfill, or Patrol/Spare'')]"

definition dmr_mcchan_1 :: "string option list" where
  "dmr_mcchan_1 = sparse 10
    [(0x02, ''WDB Read ECC Error''),
     (0x04, ''WDB BE Read Parity Error''),
     (0x06, ''WDB Read Persistent ECC Error''),
     (0x08, ''DDR Link Fail''),
     (0x09, ''Illegal incoming opcode'')]"

definition dmr_mcchan_2 :: "string option list" where
  "dmr_mcchan_2 = sparse 65
    [(0x00, ''DDR CAParity or WrCRC Error''),
     (0x40, ''Decoder structure error'')]"

definition dmr_mcchan_4 :: "string option list" where
  "dmr_mcchan_4 = map Some
    [''MC internal address parity error'']"

definition dmr_mcchan_8 :: "string option list" where
  "dmr_mcchan_8 = sparse 55
    [(0x13, ''CMI Credit Oversubscription Error''),
     (0x14, ''CMI Total Credit Count Error''),
     (0x15, ''CMI Reserved Credit Pool Error''),
     (0x32, ''MC Internal Errors''),
     (0x34, ''MC Tracker RDCMP RF parity error''),
     (0x36, ''MC Tracker WRCMP RF parity error'')]"

definition dmr_mcchan0 :: "field list" where
  "dmr_mcchan0 =
    [FIELD 0 dmr_mcchan_0,
     END_FIELD]"

definition dmr_mcchan1 :: "field list" where
  "dmr_mcchan1 =
    [FIELD 0 dmr_mcchan_1,
     END_FIELD]"

definition dmr_mcchan2 :: "field list" where
  "dmr_mcchan2 =
    [FIELD 0 dmr_mcchan_2,
     END_FIELD]"

definition dmr_mcchan4 :: "field list" where
  "dmr_mcchan4 =
    [FIELD 0 dmr_mcchan_4,
     END_FIELD]"

definition dmr_mcchan8 :: "field list" where
  "dmr_mcchan8 =
    [FIELD 0 dmr_mcchan_8,
     END_FIELD]"

lemma dmr_terminated [simp]:
  "terminated dmr_cbb_punit0"
  "terminated dmr_cbb_punit8"
  "terminated dmr_cbb_punit12"
  "terminated dmr_cbb_punit20"
  "terminated dmr_imh_punit0"
  "terminated dmr_imh_punit1"
  "terminated dmr_upi0"
  "terminated dmr_upi2"
  "terminated dmr_mcchan0"
  "terminated dmr_mcchan1"
  "terminated dmr_mcchan2"
  "terminated dmr_mcchan4"
  "terminated dmr_mcchan8"
  by (simp_all add: dmr_cbb_punit0_def dmr_cbb_punit8_def dmr_cbb_punit12_def dmr_cbb_punit20_def dmr_imh_punit0_def dmr_imh_punit1_def dmr_upi0_def dmr_upi2_def dmr_mcchan0_def dmr_mcchan1_def dmr_mcchan2_def dmr_mcchan4_def dmr_mcchan8_def)

definition diamond_imh :: "mce_event \<Rightarrow> s32" where
  "diamond_imh e = drop_bit 2 (apicid e) AND 1"

definition diamond_imc_misc :: "mce_event \<Rightarrow> mce_event option" where
  "diamond_imc_misc e =
     (let mi = misc e;
          mscod = EXTRACT (status e) 16 31;
          column = push_bit 2 (ucast (EXTRACT mi 9 18)) :: u32;
          row = ucast (EXTRACT mi 19 36) :: u32;
          bank = ucast (EXTRACT mi 37 38) :: u32;
          bankgroup = ucast (EXTRACT mi 39 41) :: u32;
          fdevice_v = ucast (EXTRACT mi 42 42) :: u32;
          fdevice = ucast (EXTRACT mi 44 48) :: u32;
          subchan = ucast (EXTRACT mi 49 49) :: u32;
          subrank = ucast (EXTRACT mi 51 54) :: u32;
          chipselect = ucast (EXTRACT mi 55 56) :: u32;
          eccmode = ucast (EXTRACT mi 58 61) :: u32;
          transient = ucast (EXTRACT mi 63 63) :: u32
      in if mscod \<ge> 0x800 then Some e
         else do {
           e \<leftarrow> add_error_msg (''bank: 0x'' @ fmt_x bank @ '' bankgroup: 0x'' @ fmt_x bankgroup @
                  '' row: 0x'' @ fmt_x row @ '' column: 0x'' @ fmt_x column @ NL) e;
           e \<leftarrow> add_error_msg (''chipselect: 0x'' @ fmt_x chipselect @ '' subrank: 0x'' @ fmt_x subrank @
                  '' subchan: 0x'' @ fmt_x subchan @ NL) e;
           (if transient \<noteq> 0 then add_error_msg (''transient'' @ NL) e
            else do {
              e \<leftarrow> cond (fdevice_v \<noteq> 0) (add_error_msg (''failed device: 0x'' @ fmt_x fdevice @ NL)) e;
              e \<leftarrow> add_error_msg ''ecc mode: '' e;
              add_error_msg
                (if eccmode = 1 then ''SDDC 128b 1LM'' @ NL
                 else if eccmode = 2 then ''SDDC 125b 1LM'' @ NL
                 else if eccmode = 3 then ''SDDC 125b 2LM'' @ NL
                 else if eccmode = 4 then ''ADDDC 80b 1LM'' @ NL
                 else if eccmode = 5 then ''ADDDC 80b 2LM'' @ NL
                 else if eccmode = 9 then ''5x8 128b 1LM'' @ NL
                 else if eccmode = 10 then ''5x8 125b 1LM'' @ NL
                 else if eccmode = 11 then ''5x8 125b 2LM'' @ NL
                 else ''Invalid/unknown ECC mode'' @ NL) e
            })
         })"

text \<open>The DIMM is never set: \<open>diamond_memerr_misc\<close> writes the channel only.\<close>

definition diamond_memerr_misc :: "mce_event \<Rightarrow> s32 \<Rightarrow> s32" where
  "diamond_memerr_misc e channel =
     (if \<not> test_prefix 7 (ucast (status e AND 0xEFFF)) then channel
      else if bank e < 19 \<or> bank e > 26 then channel
      else ucast (bank e) - 19 + 8 * diamond_imh e)"

definition diamond_decode_model :: "mce_event \<Rightarrow> mce_event option" where
  "diamond_decode_model e =
     (let st = status e; imh = diamond_imh e; f = EXTRACT st 16 23; g = EXTRACT st 24 31
      in do {
        e \<leftarrow> (if bank e = 4 then do {
                e \<leftarrow> add_error_msg ''CBB Punit: '' e;
                (if EXTRACT st 0 15 = 0x040B then add_error_msg (''Scan-at-Field Error'' @ NL) e
                 else if g = 0x00 then decode_bitfield f dmr_cbb_punit0 e
                 else if g = 0x08 then decode_bitfield f dmr_cbb_punit8 e
                 else if g = 0x0C then decode_bitfield f dmr_cbb_punit12 e
                 else if g = 0x14 then decode_bitfield f dmr_cbb_punit20 e
                 else Some e)
              }
              else if bank e = 11 then do {
                e \<leftarrow> add_error_msg (''IMH'' @ fmt_d imh @ '' Punit: '') e;
                (if g \<noteq> 0 then decode_bitfield g dmr_imh_punit1 e
                 else decode_bitfield f dmr_imh_punit0 e)
              }
              else if bank e = 18 then do {
                e \<leftarrow> add_error_msg ''UPI: '' e;
                (if g = 0x00 then decode_bitfield f dmr_upi0 e
                 else if g = 0x02 then decode_bitfield f dmr_upi2 e
                 else Some e)
              }
              else if 19 \<le> bank e \<and> bank e \<le> 26 then do {
                e \<leftarrow> add_error_msg (''IMH'' @ fmt_d imh @ '' MCCHAN: '') e;
                e \<leftarrow> (if g = 0x00 then decode_bitfield f dmr_mcchan0 e
                      else if g = 0x01 then decode_bitfield f dmr_mcchan1 e
                      else if g = 0x02 then decode_bitfield f dmr_mcchan2 e
                      else if g = 0x04 then decode_bitfield f dmr_mcchan4 e
                      else if g = 0x08 then decode_bitfield f dmr_mcchan8 e
                      else Some e);
                cond (EXTRACT st 59 59 \<noteq> 0 \<and> EXTRACT st 33 33 \<noteq> 0) diamond_imc_misc e
              }
              else Some e);
        (let channel = diamond_memerr_misc e (-1)
         in cond (channel \<noteq> -1) (add_error_msg (''channel: '' @ fmt_d channel)) e)
      })"

section \<open>Every decoder is in order\<close>

lemma length_bank_table [simp]: "length (bank_table rs) = 32"
  by (simp add: bank_table_def)

lemma i10nm_banks_32: "i10nm_banks c = Some bs \<Longrightarrow> length bs = 32"
  by (auto simp: i10nm_banks_def icelake_def icelake_de_def tremont_def sapphire_def split: cputype.splits)

lemma decodes_i10nm_imc [decodes_intros]: "decodes e (i10nm_imc_misc e)"
  unfolding i10nm_imc_misc_def by (intro decodes_intros)

lemma decodes_i10nm_bank [decodes_intros]: "decodes e (i10nm_bank t e)"
  unfolding i10nm_bank_def Let_def by (cases t) (simp_all, (intro decodes_intros; simp)+)

lemma decodes_i10nm:
  assumes "bank e < 32"
  shows "decodes e (i10nm_decode_model c e)"
proof (cases "i10nm_banks c")
  case (Some bs)
  then have "unat (bank e) < length bs"
    using assms by (simp add: i10nm_banks_32 word_less_nat_alt)
  then show ?thesis
    using Some by (auto simp: i10nm_decode_model_def Let_def intro!: decodes_intros)
qed (simp add: i10nm_decode_model_def decodes_Some)

lemma i10nm_out_of_range:
  assumes "i10nm_banks c \<noteq> None" and "bank e \<ge> 32"
  shows "i10nm_decode_model c e = None"
  using assms by (auto simp: i10nm_decode_model_def lookup_def i10nm_banks_32 word_le_nat_alt)

lemma decodes_granite_imc [decodes_intros]: "decodes e (granite_imc_misc e)"
  unfolding granite_imc_misc_def by (intro decodes_intros)

lemma decodes_granite [decodes_intros]: "decodes e (granite_decode_model e)"
  unfolding granite_decode_model_def by (intro decodes_intros) simp_all

lemma decodes_diamond_imc [decodes_intros]: "decodes e (diamond_imc_misc e)"
  unfolding diamond_imc_misc_def by (intro decodes_intros)

lemma decodes_diamond [decodes_intros]: "decodes e (diamond_decode_model e)"
  unfolding diamond_decode_model_def by (intro decodes_intros) simp_all

end
