(* ===== verification/Mce_Intel.thy ===== *)
theory Mce_Intel
  imports Mce_Intel_P6 Mce_Intel_Xeon Mce_Intel_Server
begin

text \<open>
  \<open>mce-intel.c\<close>: the architectural part of an Intel machine check event, the dispatch to the decoder
  of the processor model, and the switch that turns on the logs of the memory controllers.
\<close>

section \<open>Tables\<close>

definition MCE_THERMAL_BANK :: u8 where "MCE_THERMAL_BANK = MCE_EXTENDED_BANK + 0"
definition MCE_TIMEOUT_BANK :: u8 where "MCE_TIMEOUT_BANK = MCE_EXTENDED_BANK + 90"

definition MCG_TES_P :: u64 where "MCG_TES_P = BIT_ULL 11"

definition in_TT :: "string option list" where
  "in_TT = map Some
    [''Instruction'',
     ''Data'',
     ''Generic'',
     ''Unknown'']"

definition in_LL :: "string option list" where
  "in_LL = map Some
    [''Level-0'',
     ''Level-1'',
     ''Level-2'',
     ''Level-3'']"

definition in_PP :: "string option list" where
  "in_PP = map Some
    [''Local-CPU-originated-request'',
     ''Responed-to-request'',
     ''Observed-error-as-third-party'',
     ''Generic'']"

definition in_T :: "string option list" where
  "in_T = map Some
    [''Request-did-not-timeout'',
     ''Request-timed-out'']"

definition in_II :: "string option list" where
  "in_II = map Some
    [''Memory-access'',
     ''Reserved'',
     ''IO'',
     ''Other-transaction'']"

definition in_mca_msg :: "string option list" where
  "in_mca_msg = map Some
    [''No Error'',
     ''Unclassified'',
     ''Microcode ROM parity error'',
     ''External error'',
     ''FRC error'',
     ''Internal parity error'',
     ''SMM Handler Code Access Violation'']"

definition in_tracking_msg :: "string option list" where
  "in_tracking_msg = sparse 4
    [(1, ''green''),
     (2, ''yellow''),
     (3, ''res3'')]"

definition in_arstate :: "string option list" where
  "in_arstate = map Some
    [''UCNA'',
     ''AR'',
     ''SRAO'',
     ''SRAR'']"

definition in_mmm_mnemonic :: "string option list" where
  "in_mmm_mnemonic = map Some
    [''GEN'',
     ''RD'',
     ''WR'',
     ''AC'',
     ''MS'',
     ''RES5'',
     ''RES6'',
     ''RES7'']"

definition in_mmm_desc :: "string option list" where
  "in_mmm_desc = map Some
    [''Generic undefined request'',
     ''Memory read error'',
     ''Memory write error'',
     ''Address/Command error'',
     ''Memory scrubbing error'',
     ''Reserved 5'',
     ''Reserved 6'',
     ''Reserved 7'']"

definition in_RRRR :: "(u8 \<times> string) list" where
  "in_RRRR =
    [(0, ''Generic''), (1, ''Read''), (2, ''Write''), (3, ''Data-Read''), (4, ''Data-Write''),
     (5, ''Instruction-Fetch''), (6, ''Prefetch''), (7, ''Eviction''), (8, ''Snoop'')]"

definition get_RRRR_str :: "u8 \<Rightarrow> string" where
  "get_RRRR_str rrrr = (case find (\<lambda>(v, _). v = rrrr) in_RRRR of Some (_, s) \<Rightarrow> s | None \<Rightarrow> ''UNKNOWN'')"

text \<open>\<open>decode_attr\<close>: an index past the table is \<open>UNKNOWN\<close>; a missing name would be a null pointer.\<close>

definition decode_attr :: "string option list \<Rightarrow> u32 \<Rightarrow> string option" where
  "decode_attr arr v = (if unat v \<ge> length arr then Some ''UNKNOWN'' else table_str arr v)"

section \<open>The parts of an event\<close>

definition decode_memory_controller :: "u32 \<Rightarrow> mce_event \<Rightarrow> mce_event option" where
  "decode_memory_controller st e =
     (let channel = (if st AND 0xF = 0xF then ''unspecified'' else fmt_u (st AND 0xF))
      in do {
        mn \<leftarrow> table_str in_mmm_mnemonic (drop_bit 4 st AND 7);
        e \<leftarrow> add_error_msg (''MEMORY CONTROLLER '' @ mn @ ''_CHANNEL'' @ channel @ ''_ERR'') e;
        desc \<leftarrow> table_str in_mmm_desc (drop_bit 4 st AND 7);
        add_error_msg (''Transaction: '' @ desc) e
      })"

definition decode_termal_bank :: "mce_event \<Rightarrow> mce_event option" where
  "decode_termal_bank e =
     (if status e AND 1 \<noteq> 0 then
        do {
          e \<leftarrow> add_mcgstatus_msg (''Processor '' @ fmt_d (cpu e) @
                 '' heated above trip temperature. Throttling enabled.'') e;
          add_user_action ''Please check your system cooling. Performance will be impacted'' e
        }
      else
        add_error_msg (''Processor '' @ fmt_d (cpu e) @ '' below trip temperature. Throttling disabled'') e)"

definition decode_mcg :: "mce_event \<Rightarrow> mce_event option" where
  "decode_mcg e =
     (let mcg = mcgstatus e
      in do {
        e \<leftarrow> add_mcgstatus_msg (''mcgstatus='' @ fmt_d mcg) e;
        e \<leftarrow> cond (flagged mcg MCG_STATUS_RIPV) (add_mcgstatus_msg ''RIPV'') e;
        e \<leftarrow> cond (flagged mcg MCG_STATUS_EIPV) (add_mcgstatus_msg ''EIPV'') e;
        e \<leftarrow> cond (flagged mcg MCG_STATUS_MCIP) (add_mcgstatus_msg ''MCIP'') e;
        cond (flagged mcg MCG_STATUS_LMCE) (add_mcgstatus_msg ''LMCE'') e
      })"

definition intel_bank_name :: "mce_event \<Rightarrow> mce_event option" where
  "intel_bank_name e =
     (if bank e = MCE_THERMAL_BANK then set_bank_name ''THERMAL EVENT'' e
      else if bank e = MCE_TIMEOUT_BANK then set_bank_name ''Timeout waiting for exception on other CPUs'' e
      else Some e)"

text \<open>
  The bus branch prints the root port of an I/O error; \<open>%02x\<close> pads with zeros.
\<close>

definition io_mca :: "u64 \<Rightarrow> string" where
  "io_mca mi =
     ''IO MCA reported by root port '' @ fmt_x (ucast (EXTRACT mi 32 39) :: u32) @ '':'' @
     pad0 2 (fmt_x (ucast (EXTRACT mi 24 31) :: u32)) @ '':'' @
     pad0 2 (fmt_x (ucast (EXTRACT mi 19 23) :: u32)) @ ''.'' @ fmt_x (ucast (EXTRACT mi 16 18) :: u32)"

text \<open>The code after the filtering bit has been cleared: what is printed for it.\<close>

definition decode_mca_code :: "u32 \<Rightarrow> mce_event \<Rightarrow> mce_event option" where
  "decode_mca_code mca e =
     (let st = status e; mi = misc e
      in if unat mca < length in_mca_msg then
           do { s \<leftarrow> table_str in_mca_msg mca; add_mcastatus_msg s e }
         else if drop_bit 2 mca = 3 then
           do { l \<leftarrow> decode_attr in_LL (mca AND 3);
                add_mcastatus_msg (l @ '' Generic memory hierarchy error'') e }
         else if test_prefix 4 mca then
           do { t \<leftarrow> decode_attr in_TT (drop_bit 2 (mca AND 0xC));
                l \<leftarrow> decode_attr in_LL (drop_bit 0 (mca AND 0x3));
                add_mcastatus_msg (t @ '' TLB '' @ l @ '' Error'') e }
         else if test_prefix 8 mca then
           do { t \<leftarrow> decode_attr in_TT (drop_bit 2 (mca AND 0xC));
                l \<leftarrow> decode_attr in_LL (drop_bit 0 (mca AND 0x3));
                add_mcastatus_msg (t @ '' CACHE '' @ l @ '' '' @
                  get_RRRR_str (ucast (drop_bit 4 (mca AND 0xF0))) @ '' Error'') e }
         else if test_prefix 10 mca then
           (if mca = 0x400 then add_mcastatus_msg ''Internal Timer error'' e
            else add_mcastatus_msg (''Internal unclassified error: '' @ fmt_x mca) e)
         else if test_prefix 11 mca then
           do { l \<leftarrow> decode_attr in_LL (drop_bit 0 (mca AND 0x3));
                p \<leftarrow> decode_attr in_PP (drop_bit 9 (mca AND 0x600));
                i \<leftarrow> decode_attr in_II (drop_bit 2 (mca AND 0xC));
                t \<leftarrow> decode_attr in_T (drop_bit 8 (mca AND 0x100));
                e \<leftarrow> add_mcastatus_msg (''BUS '' @ l @ '' '' @ p @ '' '' @
                       get_RRRR_str (ucast (drop_bit 4 (mca AND 0xF0))) @ '' '' @ i @ '' '' @ t @ '' Error'') e;
                cond (flagged st MCI_STATUS_MISCV \<and> st AND 0xEFFF = 0x0E0B)
                  (add_mcastatus_msg (io_mca mi)) e }
         else if test_prefix 7 mca then decode_memory_controller mca e
         else add_mcastatus_msg (''Unknown Error '' @ fmt_x mca) e)"

definition decode_mca :: "mce_event \<Rightarrow> mce_event option" where
  "decode_mca e =
     (let mca = mcacod e
      in do {
        e \<leftarrow> cond (mca AND push_bit 12 1 \<noteq> 0)
               (add_mcastatus_msg ''corrected filtering (some unreported errors in same region)'') e;
        decode_mca_code (if mca AND push_bit 12 1 \<noteq> 0 then mca AND NOT (push_bit 12 1) else mca) e
      })"

definition decode_tracking :: "u64 \<Rightarrow> mce_event \<Rightarrow> mce_event option" where
  "decode_tracking track e =
     do {
       e \<leftarrow> cond (track = 1) (add_user_action
              ''Large number of corrected cache errors. System operating, but might leadto uncorrected errors soon'') e;
       (if track \<noteq> 0 then
          do { s \<leftarrow> table_str in_tracking_msg track;
               add_mcistatus_msg (''Threshold based error status: '' @ s) e }
        else Some e)
     }"

definition decode_mci :: "mce_event \<Rightarrow> mce_event option" where
  "decode_mci e =
     (let st = status e
      in do {
        e \<leftarrow> cond (\<not> flagged st MCI_STATUS_VAL) (add_mcistatus_msg ''MCE_INVALID'') e;
        e \<leftarrow> cond (flagged st MCI_STATUS_OVER) (add_mcistatus_msg ''Error_overflow'') e;
        e \<leftarrow> (if flagged st MCI_STATUS_UC then add_mcistatus_msg ''Uncorrected_error'' e
              else add_mcistatus_msg ''Corrected_error'' e);
        e \<leftarrow> cond (flagged st MCI_STATUS_EN) (add_mcistatus_msg ''Error_enabled'') e;
        e \<leftarrow> cond (flagged st MCI_STATUS_PCC) (add_mcistatus_msg ''Processor_context_corrupt'') e;
        e \<leftarrow> (if flagged st (MCI_STATUS_S OR MCI_STATUS_AR) then
                do { s \<leftarrow> table_str in_arstate (drop_bit 55 st AND 3); add_mcistatus_msg s e }
              else Some e);
        e \<leftarrow> cond ((mcgcap e = 0 \<or> flagged (mcgcap e) MCG_TES_P) \<and> \<not> flagged st MCI_STATUS_UC)
               (decode_tracking (drop_bit 53 st AND 3)) e;
        decode_mca e
      })"

section \<open>The dispatch\<close>

definition intel_bus_model :: "cputype \<Rightarrow> mce_event \<Rightarrow> mce_event option" where
  "intel_bus_model cputype e =
     (case cputype of
        CPU_P6OLD \<Rightarrow> p6old_decode_model e
      | CPU_DUNNINGTON \<Rightarrow> core2_decode_model e
      | CPU_CORE2 \<Rightarrow> core2_decode_model e
      | CPU_NEHALEM \<Rightarrow> core2_decode_model e
      | CPU_XEON75XX \<Rightarrow> core2_decode_model e
      | CPU_TULSA \<Rightarrow> p4_decode_model e
      | CPU_P4 \<Rightarrow> p4_decode_model e
      | _ \<Rightarrow> Some e)"

definition intel_cpu_model :: "cputype \<Rightarrow> mce_event \<Rightarrow> mce_event option" where
  "intel_cpu_model cputype e =
     (case cputype of
        CPU_NEHALEM \<Rightarrow> nehalem_decode_model e
      | CPU_XEON75XX \<Rightarrow> xeon75xx_decode_model e
      | CPU_DUNNINGTON \<Rightarrow> dunnington_decode_model e
      | CPU_TULSA \<Rightarrow> tulsa_decode_model e
      | CPU_SANDY_BRIDGE \<Rightarrow> snb_decode_model cputype e
      | CPU_SANDY_BRIDGE_EP \<Rightarrow> snb_decode_model cputype e
      | CPU_IVY_BRIDGE_EPEX \<Rightarrow> ivb_decode_model cputype e
      | CPU_HASWELL_EPEX \<Rightarrow> hsw_decode_model e
      | CPU_KNIGHTS_LANDING \<Rightarrow> knl_decode_model e
      | CPU_KNIGHTS_MILL \<Rightarrow> knl_decode_model e
      | CPU_BROADWELL_DE \<Rightarrow> broadwell_de_decode_model e
      | CPU_BROADWELL_EPEX \<Rightarrow> broadwell_epex_decode_model e
      | CPU_SKYLAKE_XEON \<Rightarrow> skylake_s_decode_model e
      | CPU_ICELAKE_XEON \<Rightarrow> i10nm_decode_model cputype e
      | CPU_ICELAKE_DE \<Rightarrow> i10nm_decode_model cputype e
      | CPU_TREMONT_D \<Rightarrow> i10nm_decode_model cputype e
      | CPU_SAPPHIRERAPIDS \<Rightarrow> i10nm_decode_model cputype e
      | CPU_EMERALDRAPIDS \<Rightarrow> i10nm_decode_model cputype e
      | CPU_GRANITERAPIDS \<Rightarrow> granite_decode_model e
      | CPU_GRANITERAPIDS_D \<Rightarrow> granite_decode_model e
      | CPU_SIERRAFOREST \<Rightarrow> granite_decode_model e
      | CPU_CLEARWATERFOREST \<Rightarrow> granite_decode_model e
      | CPU_DIAMONDRAPIDS \<Rightarrow> diamond_decode_model e
      | _ \<Rightarrow> Some e)"

definition parse_intel_event :: "mce_priv \<Rightarrow> mce_event \<Rightarrow> mce_event option" where
  "parse_intel_event mce e =
     do {
       e \<leftarrow> intel_bank_name e;
       (if bank e = MCE_THERMAL_BANK then decode_termal_bank e
        else do {
          e \<leftarrow> decode_mcg e;
          e \<leftarrow> decode_mci e;
          e \<leftarrow> cond (drop_bit 7 (status e AND 0xFFFF) = 1)
                 (add_mc_location (''n_errors='' @ fmt_d (ucast (EXTRACT (status e) 38 52) :: u32))) e;
          e \<leftarrow> cond (test_prefix 11 (mcacod e)) (intel_bus_model (cpu_type mce)) e;
          intel_cpu_model (cpu_type mce) e
        })
     }"

section \<open>The classes of error codes\<close>

lemma table_str_dense [simp]:
  "unat i < length xs \<Longrightarrow> table_str (map Some xs) i = Some (xs ! unat i)"
  by (simp add: table_str_def)

lemma nat_div_eq_1_iff: "0 < m \<Longrightarrow> n div m = 1 \<longleftrightarrow> m \<le> n \<and> n < 2 * m" for n m :: nat
  using less_eq_div_iff_mult_less_eq [of m 1 n] div_less_iff_less_mult [of m n 2] by auto

lemma unat_drop: "unat (drop_bit n w) = unat w div 2 ^ n" for w :: "'a::len word"
  by (simp add: unat_drop_bit_eq) (simp add: drop_bit_eq_div)

lemma test_prefix_iff: "test_prefix n v \<longleftrightarrow> 2 ^ n \<le> unat v \<and> unat v < 2 ^ Suc n"
  by (simp add: test_prefix_def word_unat_eq_iff unat_drop nat_div_eq_1_iff [unfolded One_nat_def])

text \<open>
  The reference: the classes of compound error codes as intervals of the code, with their parameters
  as quotients and remainders.
\<close>

datatype mca_class =
    Simple nat
  | Hierarchy nat
  | Tlb nat nat
  | Cache nat nat nat
  | Timer
  | Internal
  | Bus nat nat nat nat nat
  | Memory nat nat
  | Unknown

definition classify :: "nat \<Rightarrow> mca_class" where
  "classify c =
     (if c < 7 then Simple c
      else if 12 \<le> c \<and> c < 16 then Hierarchy (c mod 4)
      else if 16 \<le> c \<and> c < 32 then Tlb (c div 4 mod 4) (c mod 4)
      else if 128 \<le> c \<and> c < 256 then Memory (c div 16 mod 8) (c mod 16)
      else if 256 \<le> c \<and> c < 512 then Cache (c div 4 mod 4) (c mod 4) (c div 16 mod 16)
      else if c = 1024 then Timer
      else if 1024 < c \<and> c < 2048 then Internal
      else if 2048 \<le> c \<and> c < 4096 then
        Bus (c mod 4) (c div 512 mod 4) (c div 16 mod 16) (c div 4 mod 4) (c div 256 mod 2)
      else Unknown)"

definition strs :: "string option list \<Rightarrow> nat \<Rightarrow> string" where
  "strs t i = (case t ! i of Some s \<Rightarrow> s | None \<Rightarrow> [])"

definition request_name :: "nat \<Rightarrow> string" where
  "request_name r = (if r < 9 then snd (in_RRRR ! r) else ''UNKNOWN'')"

fun class_text :: "nat \<Rightarrow> mca_class \<Rightarrow> string" where
  "class_text c (Simple n) = strs in_mca_msg n"
| "class_text c (Hierarchy ll) = strs in_LL ll @ '' Generic memory hierarchy error''"
| "class_text c (Tlb tt ll) = strs in_TT tt @ '' TLB '' @ strs in_LL ll @ '' Error''"
| "class_text c (Cache tt ll r) =
     strs in_TT tt @ '' CACHE '' @ strs in_LL ll @ '' '' @ request_name r @ '' Error''"
| "class_text c Timer = ''Internal Timer error''"
| "class_text c Internal = ''Internal unclassified error: '' @ to_base 16 c"
| "class_text c (Bus ll pp r ii t) =
     ''BUS '' @ strs in_LL ll @ '' '' @ strs in_PP pp @ '' '' @ request_name r @ '' '' @
     strs in_II ii @ '' '' @ strs in_T t @ '' Error''"
| "class_text c (Memory mmm ch) = ''MEMORY CONTROLLER '' @ strs in_mmm_mnemonic mmm @ ''_CHANNEL'' @
     (if ch = 15 then ''unspecified'' else to_base 10 ch) @ ''_ERR''"
| "class_text c Unknown = ''Unknown Error '' @ to_base 16 c"

definition print_class :: "nat \<Rightarrow> mce_event \<Rightarrow> mce_event option" where
  "print_class c e =
     (case classify c of
        Memory mmm ch \<Rightarrow>
          add_error_msg (class_text c (Memory mmm ch)) e \<bind>
          add_error_msg (''Transaction: '' @ strs in_mmm_desc mmm)
      | Bus ll pp r ii t \<Rightarrow>
          add_mcastatus_msg (class_text c (Bus ll pp r ii t)) e \<bind>
          cond (flagged (status e) MCI_STATUS_MISCV \<and> status e AND 0xEFFF = 0x0E0B)
            (add_mcastatus_msg (io_mca (misc e)))
      | cl \<Rightarrow> add_mcastatus_msg (class_text c cl) e)"

lemma attr_parts:
  fixes mca :: u32
  shows "unat (mca AND 3) = unat mca mod 4"
    and "unat (drop_bit 2 (mca AND 0xC)) = unat mca div 4 mod 4"
    and "unat (drop_bit 4 (mca AND 0xF0)) = unat mca div 16 mod 16"
    and "unat (drop_bit 8 (mca AND 0x100)) = unat mca div 256 mod 2"
    and "unat (drop_bit 9 (mca AND 0x600)) = unat mca div 512 mod 4"
    and "unat (drop_bit 4 mca AND 7) = unat mca div 16 mod 8"
    and "unat (mca AND 0xF) = unat mca mod 16"
proof -
  have m: "(1 :: u32) = mask 1" "(3 :: u32) = mask 2" "(7 :: u32) = mask 3" "(0xF :: u32) = mask 4"
    by (simp_all add: mask_eq_decr_exp)
  have d: "drop_bit 2 (mca AND 0xC) = drop_bit 2 mca AND mask 2"
    "drop_bit 4 (mca AND 0xF0) = drop_bit 4 mca AND mask 4"
    "drop_bit 8 (mca AND 0x100) = drop_bit 8 mca AND mask 1"
    "drop_bit 9 (mca AND 0x600) = drop_bit 9 mca AND mask 2"
    by (simp_all add: drop_bit_and mask_eq_decr_exp)
  show "unat (mca AND 3) = unat mca mod 4" "unat (mca AND 0xF) = unat mca mod 16"
    unfolding m and_mask_unat by simp_all
  show "unat (drop_bit 4 mca AND 7) = unat mca div 16 mod 8"
    unfolding m and_mask_unat unat_drop by simp
  show "unat (drop_bit 2 (mca AND 0xC)) = unat mca div 4 mod 4"
    "unat (drop_bit 4 (mca AND 0xF0)) = unat mca div 16 mod 16"
    "unat (drop_bit 8 (mca AND 0x100)) = unat mca div 256 mod 2"
    "unat (drop_bit 9 (mca AND 0x600)) = unat mca div 512 mod 4"
    unfolding d and_mask_unat unat_drop by simp_all
qed


lemma get_RRRR_request: "get_RRRR_str r = request_name (unat r)"
proof -
  have "unat r \<in> {0, 1, 2, 3, 4, 5, 6, 7, 8} \<or> 9 \<le> unat r" by auto
  then show ?thesis
    by (auto simp: get_RRRR_str_def in_RRRR_def request_name_def word_unat_eq_iff)
qed

lemma unat_ucast_rrrr: "unat (ucast (drop_bit 4 (mca AND 0xF0)) :: u8) = unat mca div 16 mod 16" for mca :: u32
proof -
  have "unat (ucast (drop_bit 4 (mca AND 0xF0)) :: u8) = unat (drop_bit 4 (mca AND 0xF0)) mod 256"
    by (simp add: unsigned_ucast_eq take_bit_eq_mod del: unsigned_and_eq)
  also have "unat (drop_bit 4 (mca AND 0xF0)) = unat mca div 16 mod 16" by (rule attr_parts(3))
  finally show ?thesis by simp
qed

lemma table_str_strs:
  "list_all (\<lambda>x. x \<noteq> None) t \<Longrightarrow> unat v < length t \<Longrightarrow> table_str t v = Some (strs t (unat v))"
  by (auto simp: table_str_def strs_def list_all_length split: option.split)

lemma decode_attr_strs:
  "unat v < 4 \<Longrightarrow> decode_attr in_LL v = Some (strs in_LL (unat v))"
  "unat v < 4 \<Longrightarrow> decode_attr in_TT v = Some (strs in_TT (unat v))"
  "unat v < 4 \<Longrightarrow> decode_attr in_PP v = Some (strs in_PP (unat v))"
  "unat v < 4 \<Longrightarrow> decode_attr in_II v = Some (strs in_II (unat v))"
  "unat v < 2 \<Longrightarrow> decode_attr in_T v = Some (strs in_T (unat v))"
  by (simp_all add: decode_attr_def table_str_strs in_LL_def in_TT_def in_PP_def in_II_def in_T_def)

lemma memory_strs:
  "unat v < 8 \<Longrightarrow> table_str in_mmm_mnemonic v = Some (strs in_mmm_mnemonic (unat v))"
  "unat v < 8 \<Longrightarrow> table_str in_mmm_desc v = Some (strs in_mmm_desc (unat v))"
  "unat v < 7 \<Longrightarrow> table_str in_mca_msg v = Some (strs in_mca_msg (unat v))"
  by (simp_all add: table_str_strs in_mmm_mnemonic_def in_mmm_desc_def in_mca_msg_def)

lemma mca_attrs:
  fixes mca :: u32
  defines "c \<equiv> unat mca"
  shows "decode_attr in_LL (mca AND 3) = Some (strs in_LL (c mod 4))"
    and "decode_attr in_TT (drop_bit 2 (mca AND 0xC)) = Some (strs in_TT (c div 4 mod 4))"
    and "decode_attr in_II (drop_bit 2 (mca AND 0xC)) = Some (strs in_II (c div 4 mod 4))"
    and "decode_attr in_PP (drop_bit 9 (mca AND 0x600)) = Some (strs in_PP (c div 512 mod 4))"
    and "decode_attr in_T (drop_bit 8 (mca AND 0x100)) = Some (strs in_T (c div 256 mod 2))"
    and "get_RRRR_str (ucast (drop_bit 4 (mca AND 0xF0))) = request_name (c div 16 mod 16)"
    and "table_str in_mmm_mnemonic (drop_bit 4 mca AND 7) = Some (strs in_mmm_mnemonic (c div 16 mod 8))"
    and "table_str in_mmm_desc (drop_bit 4 mca AND 7) = Some (strs in_mmm_desc (c div 16 mod 8))"
    and "fmt_u (mca AND 0xF) = to_base 10 (c mod 16)"
    and "mca AND 0xF = 0xF \<longleftrightarrow> c mod 16 = 15"
proof -
  have "unat (mca AND 0xF) = unat (0xF :: u32) \<longleftrightarrow> c mod 16 = 15"
    unfolding attr_parts c_def by simp
  then show "mca AND 0xF = 0xF \<longleftrightarrow> c mod 16 = 15"
    by (simp only: word_unat_eq_iff)
qed (simp_all only: c_def get_RRRR_request unat_ucast_rrrr fmt_u_def attr_parts decode_attr_strs memory_strs
      mod_less_divisor zero_less_numeral)

lemma decode_mca_code_print: "decode_mca_code mca e = print_class (unat mca) e"
proof -
  let ?c = "unat mca"
  have len: "length in_mca_msg = 7" by (simp add: in_mca_msg_def)
  have h: "drop_bit 2 mca = 3 \<longleftrightarrow> 12 \<le> ?c \<and> ?c < 16"
    by (auto simp: word_unat_eq_iff unat_drop)
  have t: "mca = 0x400 \<longleftrightarrow> ?c = 1024" by (simp add: word_unat_eq_iff)
  have z: "drop_bit 0 w = w" for w :: u32 by simp
  consider "?c < 7" | "12 \<le> ?c" "?c < 16" | "16 \<le> ?c" "?c < 32" | "128 \<le> ?c" "?c < 256" | "256 \<le> ?c" "?c < 512"
    | "?c = 1024" | "1024 < ?c" "?c < 2048" | "2048 \<le> ?c" "?c < 4096"
    | "7 \<le> ?c" "?c < 12" | "32 \<le> ?c" "?c < 128" | "512 \<le> ?c" "?c < 1024" | "4096 \<le> ?c"
    by linarith
  then show ?thesis
    unfolding decode_mca_code_def decode_memory_controller_def Let_def z mca_attrs
    by cases (simp_all add: len h t test_prefix_iff print_class_def classify_def memory_strs fmt_x_def)
qed

lemma unat_clear_bit:
  fixes w :: "'a::len word"
  assumes "bit w n"
  shows "unat (w AND NOT (push_bit n 1)) = unat w - 2 ^ n"
proof -
  have n: "n < LENGTH('a)" using assms by (rule bit_imp_le_length)
  let ?b = "push_bit n 1 :: 'a word"
  have "(w AND NOT ?b) + ?b = (w AND NOT ?b) OR ?b"
    by (rule disjunctive_add) (auto simp: bit_simps)
  also have "\<dots> = w"
    using assms by (intro bit_word_eqI) (simp only: bit_or_iff bit_and_iff bit_not_iff bit_push_bit_iff bit_1_iff, auto)
  finally have "w AND NOT ?b = w - ?b" by (simp add: algebra_simps)
  moreover have "unat ?b = 2 ^ n"
    unfolding unsigned_push_bit_eq using n by (simp add: push_bit_eq_mult take_bit_nat_eq_self)
  moreover have "?b \<le> w"
  proof -
    have "?b = ?b AND w"
      using assms by (intro bit_word_eqI) (simp only: bit_and_iff bit_push_bit_iff bit_1_iff, auto)
    then show ?thesis by (metis word_and_le_mask word_le_nat_alt)
  qed
  ultimately show ?thesis by (simp add: unat_sub)
qed

text \<open>
  C16: \<open>decode_mca\<close> prints what the reference says for the class of the error code, an interval of the
  code with bit 12 taken away; bit 12 itself only adds the note on filtering in front.
\<close>

theorem decode_mca_classes:
  "decode_mca e =
     (if bit (status e) 12
      then add_mcastatus_msg ''corrected filtering (some unreported errors in same region)'' e \<bind>
             print_class (unat (mcacod e) - 4096)
      else print_class (unat (mcacod e)) e)"
proof -
  let ?m = "mcacod e"
  have b: "bit ?m 12 \<longleftrightarrow> bit (status e) 12"
    by (simp add: mcacod_def bit_simps)
  have f: "?m AND push_bit 12 1 \<noteq> 0 \<longleftrightarrow> bit (status e) 12"
    unfolding b [symmetric] using and_exp_eq_0_iff_not_bit [of ?m 12] by (simp add: push_bit_eq_mult)
  have n: "unat (?m AND NOT (push_bit 12 1)) = unat ?m - 2 ^ 12" if "bit (status e) 12"
    using that by (intro unat_clear_bit) (simp add: b)
  show ?thesis
    unfolding decode_mca_def Let_def f decode_mca_code_print
    by (cases "bit (status e) 12") (simp_all only: cond_def n if_True if_False bind.bind_lunit, simp)
qed

section \<open>Every Intel event is decoded\<close>

lemma decodes_print_class [decodes_intros]: "decodes e (print_class c e)"
  unfolding print_class_def
  by (auto split: mca_class.split intro!: decodes_intros simp del: class_text.simps)

lemma decodes_mca [decodes_intros]: "decodes e (decode_mca e)"
  unfolding decode_mca_def decode_mca_code_print by (intro decodes_intros)

lemma tracking_names: "in_tracking_msg = [None, Some ''green'', Some ''yellow'', Some ''res3'']"
  by (simp add: in_tracking_msg_def sparse_def numeral_eq_Suc)

lemma unat_and_3: "unat (w AND 3) < 4" for w :: u64
  by (rule unat_and_lt) simp

lemma decodes_tracking [decodes_intros]: "decodes e (decode_tracking (w AND 3) e)"
proof -
  have "\<exists>s. table_str in_tracking_msg (w AND 3) = Some s" if "w AND 3 \<noteq> 0"
  proof -
    have "unat (w AND 3) \<in> {1, 2, 3}"
      using that unat_and_3 [of w] unat_eq_0 [of "w AND 3"] by (auto simp del: unsigned_and_eq)
    then show ?thesis
      unfolding table_str_def tracking_names lookup_def by auto
  qed
  then show ?thesis
    unfolding decode_tracking_def by (intro decodes_intros)
qed

lemma decodes_arstate [decodes_intros]:
  "decodes e (table_str in_arstate (w AND 3) \<bind> (\<lambda>s. add_mcistatus_msg s e))" for w :: u64
  using unat_and_3 [of w] by (simp add: table_str_strs in_arstate_def decodes_adds del: unsigned_and_eq)

lemma decodes_parts [decodes_intros]:
  "decodes e (decode_termal_bank e)" "decodes e (decode_mcg e)" "decodes e (intel_bank_name e)"
  unfolding decode_termal_bank_def decode_mcg_def intel_bank_name_def by (intro decodes_intros)+

lemma decodes_mci [decodes_intros]: "decodes e (decode_mci e)"
  unfolding decode_mci_def by (intro decodes_intros)

lemma decodes_bus_model [decodes_intros]: "decodes e (intel_bus_model c e)"
  unfolding intel_bus_model_def by (cases c; simp; intro decodes_intros)

lemma decodes_cpu_model:
  "i10nm_banks c = None \<or> bank e < 32 \<Longrightarrow> decodes e (intel_cpu_model c e)"
  unfolding intel_cpu_model_def
  by (cases c; simp add: i10nm_banks_def decodes_i10nm; intro decodes_intros)

lemma bank_registers: "registers e' = registers e \<Longrightarrow> bank e' = bank e"
  by (rule registers_eqD(3))

lemma bind_decodes_None:
  assumes "decodes e r" and "\<And>e'. registers e' = registers e \<Longrightarrow> g e' = None"
  shows "r \<bind> g = None"
  using assms by (auto elim!: decodesE)

lemma decodes_intel_general:
  assumes "i10nm_banks (cpu_type mce) = None \<or> bank e < 32 \<or> bank e = MCE_THERMAL_BANK"
  shows "decodes e (parse_intel_event mce e)"
proof -
  have cpu: "decodes e' (intel_cpu_model (cpu_type mce) e')"
    if "registers e' = registers e" "bank e \<noteq> MCE_THERMAL_BANK" for e'
    using assms that(2) bank_registers [OF that(1)] by (intro decodes_cpu_model) auto
  show ?thesis
    unfolding parse_intel_event_def
    by (intro decodes_intros; (rule cpu)?) (simp_all, metis bank_registers)
qed

lemma intel_cpu_out_of_range:
  assumes "i10nm_banks c \<noteq> None" and "bank e \<ge> 32"
  shows "intel_cpu_model c e = None"
  using assms i10nm_out_of_range [OF assms]
  by (cases c) (simp_all add: i10nm_banks_def intel_cpu_model_def)

lemma intel_out_of_range:
  assumes "i10nm_banks (cpu_type mce) \<noteq> None" and "bank e \<ge> 32" and "bank e \<noteq> MCE_THERMAL_BANK"
  shows "parse_intel_event mce e = None"
proof -
  have "intel_cpu_model (cpu_type mce) e' = None" if "registers e' = registers e" for e'
    using assms(1,2) bank_registers [OF that] by (intro intel_cpu_out_of_range) simp_all
  then have rest: "decode_mcg e1 \<bind> (\<lambda>e. decode_mci e \<bind> (\<lambda>e.
      cond (drop_bit 7 (status e AND 0xFFFF) = 1)
        (add_mc_location (''n_errors='' @ fmt_d (ucast (EXTRACT (status e) 38 52) :: u32))) e \<bind>
      (\<lambda>e. cond (test_prefix 11 (mcacod e)) (intel_bus_model (cpu_type mce)) e \<bind>
      intel_cpu_model (cpu_type mce)))) = None" if "registers e1 = registers e" for e1
    using that
    by (intro bind_decodes_None [OF decodes_parts(2)] bind_decodes_None [OF decodes_mci]
        bind_decodes_None [OF decodes_cond [OF decodes_adds(6)]]
        bind_decodes_None [OF decodes_cond [OF decodes_bus_model]]) simp
  show ?thesis
    unfolding parse_intel_event_def
  proof (rule bind_decodes_None [OF decodes_parts(3)])
    fix e1 assume r: "registers e1 = registers e"
    show "(if bank e1 = MCE_THERMAL_BANK then decode_termal_bank e1
       else decode_mcg e1 \<bind> (\<lambda>e. decode_mci e \<bind> (\<lambda>e.
      cond (drop_bit 7 (status e AND 0xFFFF) = 1)
        (add_mc_location (''n_errors='' @ fmt_d (ucast (EXTRACT (status e) 38 52) :: u32))) e \<bind>
      (\<lambda>e. cond (test_prefix 11 (mcacod e)) (intel_bus_model (cpu_type mce)) e \<bind>
      intel_cpu_model (cpu_type mce))))) = None"
      using rest [OF r] assms(3) bank_registers [OF r] by (simp only: if_False)
  qed
qed

text \<open>
  C17: an Intel event is decoded without undefined behaviour, with its registers unchanged and every
  message inside its buffer, except for one case: on the Ice Lake family a bank of 32 or more, other
  than the thermal bank, reads past the table of bank types.
\<close>

theorem parse_intel_event_defined:
  "if i10nm_banks (cpu_type mce) \<noteq> None \<and> bank e \<ge> 32 \<and> bank e \<noteq> MCE_THERMAL_BANK
   then parse_intel_event mce e = None
   else \<exists>e'. parse_intel_event mce e = Some e' \<and> registers e' = registers e \<and>
              (messages_fit e \<longrightarrow> messages_fit e')"
  using decodes_intel_general [of mce e] intel_out_of_range [of mce e]
  by (auto simp: decodes_def not_le)

theorem parse_intel_event_defined_witness:
  "parse_intel_event (zero_priv\<lparr>cpu_type := CPU_ICELAKE_DE\<rparr>) (zero_event\<lparr>bank := 40\<rparr>) = None \<and>
   (\<exists>e'. parse_intel_event (zero_priv\<lparr>cpu_type := CPU_ICELAKE_DE\<rparr>) (zero_event\<lparr>bank := 13\<rparr>) = Some e' \<and>
      messages_fit e')"
  using parse_intel_event_defined [of "zero_priv\<lparr>cpu_type := CPU_ICELAKE_DE\<rparr>" "zero_event\<lparr>bank := 40\<rparr>"]
    parse_intel_event_defined [of "zero_priv\<lparr>cpu_type := CPU_ICELAKE_DE\<rparr>" "zero_event\<lparr>bank := 13\<rparr>"]
  by (auto simp: i10nm_banks_def MCE_THERMAL_BANK_def MCE_EXTENDED_BANK_def messages_fit_def zero_event_def)

section \<open>The status flags\<close>

text \<open>What \<open>decode_mci\<close> says of the status register before it decodes the code, in order.\<close>

definition status_flags :: "u64 \<Rightarrow> string list" where
  "status_flags st =
     (if bit st 63 then [] else [''MCE_INVALID'']) @
     (if bit st 62 then [''Error_overflow''] else []) @
     (if bit st 61 then [''Uncorrected_error''] else [''Corrected_error'']) @
     (if bit st 60 then [''Error_enabled''] else []) @
     (if bit st 57 then [''Processor_context_corrupt''] else []) @
     (if bit st 56 \<and> bit st 55 then [''SRAR''] else if bit st 56 then [''SRAO'']
      else if bit st 55 then [''AR''] else [])"

definition tracking_flags :: "u64 \<Rightarrow> u64 \<Rightarrow> string list" where
  "tracking_flags cap st =
     (if (cap = 0 \<or> bit cap 11) \<and> \<not> bit st 61 \<and> (bit st 53 \<or> bit st 54)
      then [''Threshold based error status: '' @
            (if bit st 53 \<and> bit st 54 then ''res3'' else if bit st 54 then ''yellow'' else ''green'')]
      else [])"

definition add_mcistatus :: "string list \<Rightarrow> mce_event \<Rightarrow> mce_event" where
  "add_mcistatus ss e = e\<lparr>mcistatus_msg := foldl (\<lambda>m s. mce_add 1024 s m) (mcistatus_msg e) ss\<rparr>"

lemma flagged_bit: "n < 64 \<Longrightarrow> flagged w (BIT_ULL n) \<longleftrightarrow> bit w n"
  using and_exp_eq_0_iff_not_bit [of w n] by (simp add: flagged_def BIT_ULL_def push_bit_eq_mult)

lemma flagged_or: "flagged w (a OR b) \<longleftrightarrow> flagged w a \<or> flagged w b"
  by (auto simp: flagged_def bit.conj_disj_distrib or_eq_0_iff)

lemmas status_bits = MCI_STATUS_VAL_def MCI_STATUS_OVER_def MCI_STATUS_UC_def MCI_STATUS_EN_def
  MCI_STATUS_MISCV_def MCI_STATUS_ADDRV_def MCI_STATUS_PCC_def MCI_STATUS_S_def MCI_STATUS_AR_def
  MCI_STATUS_TCC_def MCI_STATUS_SYNDV_def MCI_STATUS_DEFERRED_def MCI_STATUS_POISON_def MCG_TES_P_def
  MCG_STATUS_RIPV_def MCG_STATUS_EIPV_def MCG_STATUS_MCIP_def MCG_STATUS_LMCE_def

lemma two_bits:
  fixes w :: u64
  assumes "n < 62"
  shows "unat (drop_bit n w AND 3) = (if bit w n then 1 else 0) + (if bit w (Suc n) then 2 else 0)"
proof -
  have "(3 :: u64) = mask 2" by (simp add: mask_eq_decr_exp)
  then have "unat (drop_bit n w AND 3) = take_bit 2 (drop_bit n (unat w))"
    by (simp only: and_mask_unat unat_drop_bit_eq take_bit_eq_mod)
  also have "\<dots> = (if bit w n then 1 else 0) + (if bit w (Suc n) then 2 else 0)"
    by (simp add: numeral_2_eq_2 take_bit_Suc_from_most bit_unsigned_iff bit_simps)
  finally show ?thesis .
qed


lemma add_mcistatus_simps [simp]:
  "add_mcistatus [] e = e"
  "add_mcistatus (s # ss) e = add_mcistatus ss (e\<lparr>mcistatus_msg := mce_add 1024 s (mcistatus_msg e)\<rparr>)"
  by (simp_all add: add_mcistatus_def)

lemma add_mcistatus_append: "add_mcistatus (ss @ ts) e = add_mcistatus ts (add_mcistatus ss e)"
  by (simp add: add_mcistatus_def)

lemma add_mcistatus_one: "add_mcistatus_msg s e = Some (add_mcistatus [s] e)"
  by (simp add: add_mcistatus_msg_def)

lemma cond_mcistatus: "cond b (add_mcistatus_msg s) e = Some (add_mcistatus (if b then [s] else []) e)"
  by (simp add: cond_def add_mcistatus_one)

lemma arstate_text:
  "(if flagged st (MCI_STATUS_S OR MCI_STATUS_AR) then
      table_str in_arstate (drop_bit 55 st AND 3) \<bind> (\<lambda>s. add_mcistatus_msg s e) else Some e) =
   Some (add_mcistatus (if bit st 56 \<and> bit st 55 then [''SRAR''] else if bit st 56 then [''SRAO'']
      else if bit st 55 then [''AR''] else []) e)"
proof -
  define t where "t = drop_bit 55 st AND 3"
  have "unat t = (if bit st 55 then 1 else 0) + (if bit st 56 then 2 else 0)"
    using two_bits [of 55 st] by (simp add: t_def)
  then have "table_str in_arstate t = Some (if bit st 56 \<and> bit st 55 then ''SRAR'' else if bit st 56 then ''SRAO''
      else if bit st 55 then ''AR'' else ''UCNA'')"
    by (cases "bit st 55"; cases "bit st 56") (simp_all add: table_str_def in_arstate_def)
  then show ?thesis
    unfolding t_def [symmetric]
    by (simp add: flagged_or status_bits flagged_bit add_mcistatus_msg_def)
qed

text \<open>The user action is the only thing outside the status message that the tracking bits change.\<close>

definition tracking_action :: "u64 \<Rightarrow> u64 \<Rightarrow> mce_event \<Rightarrow> mce_event" where
  "tracking_action cap st e =
     (if (cap = 0 \<or> bit cap 11) \<and> \<not> bit st 61 \<and> bit st 53 \<and> \<not> bit st 54
      then e\<lparr>user_action := mce_add 4096
        ''Large number of corrected cache errors. System operating, but might leadto uncorrected errors soon''
        (user_action e)\<rparr>
      else e)"

lemma add_mcistatus_action: "add_mcistatus ss (tracking_action c s e) = tracking_action c s (add_mcistatus ss e)"
  by (auto simp: add_mcistatus_def tracking_action_def)

lemma status_add_mcistatus [simp]: "status (add_mcistatus ss e) = status e" "mcgcap (add_mcistatus ss e) = mcgcap e"
  by (simp_all add: add_mcistatus_def)

lemma tracking_text:
  "cond ((cap = 0 \<or> flagged cap MCG_TES_P) \<and> \<not> flagged st MCI_STATUS_UC)
     (decode_tracking (drop_bit 53 st AND 3)) e =
   Some (add_mcistatus (tracking_flags cap st) (tracking_action cap st e))"
proof -
  define t where "t = drop_bit 53 st AND 3"
  have t: "unat t = (if bit st 53 then 1 else 0) + (if bit st 54 then 2 else 0)"
    using two_bits [of 53 st] by (simp add: t_def)
  have 1: "t = 1 \<longleftrightarrow> bit st 53 \<and> \<not> bit st 54" and 0: "t = 0 \<longleftrightarrow> \<not> bit st 53 \<and> \<not> bit st 54"
    by (simp_all add: word_unat_eq_iff [of t] t)
  have n: "table_str in_tracking_msg t =
      (if bit st 53 \<or> bit st 54 then Some (if bit st 53 \<and> bit st 54 then ''res3''
         else if bit st 54 then ''yellow'' else ''green'') else None)"
    by (cases "bit st 53"; cases "bit st 54") (simp_all add: table_str_def tracking_names t)
  show ?thesis
    unfolding t_def [symmetric] decode_tracking_def cond_def 1 0 n
    by (simp add: status_bits flagged_bit tracking_flags_def tracking_action_def add_user_action_def
        add_mcistatus_msg_def)
qed

text \<open>
  Before the error code, \<open>decode_mci\<close> names exactly the status bits that are set (or, for the valid
  bit, clear), and the threshold status of corrected errors of processors that track it; then it decodes
  the code.
\<close>

theorem decode_mci_flags:
  "decode_mci e = decode_mca (tracking_action (mcgcap e) (status e)
     (add_mcistatus (status_flags (status e) @ tracking_flags (mcgcap e) (status e)) e))"
proof -
  have uc: "(if flagged st MCI_STATUS_UC then add_mcistatus_msg ''Uncorrected_error'' e'
      else add_mcistatus_msg ''Corrected_error'' e') =
      Some (add_mcistatus (if bit st 61 then [''Uncorrected_error''] else [''Corrected_error'']) e')" for st e'
    by (simp add: add_mcistatus_one status_bits flagged_bit)
  show ?thesis
    unfolding decode_mci_def Let_def cond_mcistatus uc bind.bind_lunit arstate_text status_add_mcistatus
      tracking_text
    unfolding status_bits
    by (simp only: flagged_bit status_flags_def add_mcistatus_append add_mcistatus_action if_not_P)
       (simp add: flagged_bit)
qed

section \<open>Filtered errors\<close>

lemma ucast_and: "ucast (a AND b) = (ucast a AND ucast b :: 'b::len word)" for a b :: "'a::len word"
  by (rule bit_word_eqI) (auto simp: bit_simps)

lemma filtered_not_memory:
  assumes "bit (status e) 12"
  shows "drop_bit 7 (mcacod e) \<noteq> 1"
proof
  assume "drop_bit 7 (mcacod e) = 1"
  then have "bit (drop_bit 7 (mcacod e)) 5 \<longleftrightarrow> bit (1 :: u32) 5" by simp
  then show False using assms by (simp add: mcacod_def bit_simps)
qed

text \<open>
  The mask \<open>0xefff\<close> in the test of the memory controller decoders is dead: a corrected memory error
  with the filtering bit 12 set is dropped by the test before it, so its location is never printed,
  while the same error without the bit passes both tests.
\<close>

theorem filtered_error_has_no_location:
  "imc_corrected lo hi e \<longleftrightarrow>
     unat (mcacod e) div 128 = 1 \<and> \<not> bit (status e) 12 \<and> lo \<le> bank e \<and> bank e \<le> hi \<and> \<not> bit (status e) 61"
proof -
  have d: "drop_bit 7 (mcacod e) = 1 \<longleftrightarrow> unat (mcacod e) div 128 = 1"
    by (simp add: word_unat_eq_iff unat_drop)
  have "test_prefix 7 (ucast (status e AND 0xEFFF))" if "drop_bit 7 (mcacod e) = 1"
  proof -
    have eq: "status e AND 0xEFFF = (status e AND 0xFFFF) AND 0xEFFF"
      by (simp add: and.assoc)
    have "ucast (status e AND 0xEFFF) = mcacod e AND ucast (0xEFFF :: u64)"
      unfolding mcacod_def by (subst eq) (rule ucast_and)
    then have "ucast (status e AND 0xEFFF) = mcacod e AND 0xEFFF" by simp
    moreover have "drop_bit 7 (mcacod e AND 0xEFFF) = drop_bit 7 (mcacod e) AND drop_bit 7 0xEFFF"
      by (simp only: drop_bit_and)
    ultimately show ?thesis using that by (simp add: test_prefix_def)
  qed
  then show ?thesis
    unfolding imc_corrected_def using filtered_not_memory [of e]
    by (auto simp: d status_bits flagged_bit not_less)
qed

section \<open>Logs of the memory controllers\<close>

text \<open>
  What the kernel answers for the MSR file of one CPU: whether it opens, the eight bytes of the first
  read, whether the write succeeds, and the eight bytes of the second read. A short transfer is
  \<open>None\<close> or \<open>False\<close>.
\<close>

record msr_file =
  msr_open :: bool
  msr_read :: "u64 option"
  msr_write :: bool
  msr_reread :: "u64 option"

abbreviation EINVAL :: int where
  "EINVAL \<equiv> 22"

text \<open>
  The result, the value written if the write was tried, and the descriptors that stay open.
\<close>

definition domsr :: "msr_file \<Rightarrow> u64 \<Rightarrow> int \<times> u64 option \<times> nat" where
  "domsr f b =
     (if \<not> msr_open f then (- EINVAL, None, 0)
      else case msr_read f of
        None \<Rightarrow> (- EINVAL, None, 1)
      | Some data \<Rightarrow>
          let data = data OR b
          in if \<not> msr_write f then (- EINVAL, Some data, 1)
             else case msr_reread f of
               None \<Rightarrow> (- EINVAL, Some data, 1)
             | Some data' \<Rightarrow>
                 if data' AND b = 0 then (- EINVAL, Some data, 1) else (0, Some data, 0))"

text \<open>The loop over the CPUs: the result, what was written to each CPU, the descriptors left open.\<close>

primrec imc_loop :: "(nat \<Rightarrow> msr_file) \<Rightarrow> u64 \<Rightarrow> nat list \<Rightarrow> int \<times> (nat \<times> u64) list \<times> nat" where
  "imc_loop files b [] = (0, [], 0)"
| "imc_loop files b (c # cpus) =
     (let (rc, data, left) = domsr (files c) b;
          written = (case data of None \<Rightarrow> [] | Some d \<Rightarrow> [(c, d)])
      in if rc \<noteq> 0 then (rc, written, left)
         else let (rc, ws, left') = imc_loop files b cpus in (rc, written @ ws, left + left'))"

definition set_intel_imc_log :: "(nat \<Rightarrow> msr_file) \<Rightarrow> cputype \<Rightarrow> nat \<Rightarrow> int \<times> (nat \<times> u64) list \<times> nat" where
  "set_intel_imc_log files cputype ncpus =
     (if cputype \<in> {CPU_SANDY_BRIDGE_EP, CPU_IVY_BRIDGE_EPEX, CPU_HASWELL_EPEX, CPU_KNIGHTS_LANDING,
                    CPU_KNIGHTS_MILL}
      then imc_loop files 0x2 [0..<ncpus]
      else (0, [], 0))"

text \<open>A file on which the log can be turned on.\<close>

definition msr_good :: "msr_file \<Rightarrow> bool" where
  "msr_good f \<longleftrightarrow> msr_open f \<and> msr_read f \<noteq> None \<and> msr_write f \<and>
     (\<exists>d. msr_reread f = Some d \<and> bit d 1)"

lemma and_2_bit: "w AND 2 = 0 \<longleftrightarrow> \<not> bit w 1" for w :: u64
  using and_exp_eq_0_iff_not_bit [of w 1] by simp

lemma domsr_good: "msr_good f \<Longrightarrow> domsr f 2 = (0, Some (the (msr_read f) OR 2), 0)"
  by (auto simp: msr_good_def domsr_def and_2_bit)

definition first_write :: "nat \<Rightarrow> msr_file \<Rightarrow> (nat \<times> u64) list" where
  "first_write c f = (if msr_open f then case msr_read f of None \<Rightarrow> [] | Some d \<Rightarrow> [(c, d OR 2)] else [])"

lemma domsr_bad:
  assumes "\<not> msr_good f"
  shows "\<exists>w. domsr f 2 = (- EINVAL, w, if msr_open f then 1 else 0) \<and>
     (case w of None \<Rightarrow> [] | Some d \<Rightarrow> [(c, d)]) = first_write c f"
  using assms by (auto simp: msr_good_def domsr_def and_2_bit Let_def first_write_def split: option.split)

lemma imc_loop_eq:
  "imc_loop files 2 xs =
     (case dropWhile (\<lambda>c. msr_good (files c)) xs of
        [] \<Rightarrow> (0, map (\<lambda>c. (c, the (msr_read (files c)) OR 2)) xs, 0)
      | c # _ \<Rightarrow> (- EINVAL,
          map (\<lambda>c. (c, the (msr_read (files c)) OR 2)) (takeWhile (\<lambda>c. msr_good (files c)) xs) @
          first_write c (files c),
          if msr_open (files c) then 1 else 0))"
proof (induction xs)
  case (Cons c xs)
  show ?case
  proof (cases "msr_good (files c)")
    case True
    then show ?thesis
      by (cases "dropWhile (\<lambda>c. msr_good (files c)) xs")
        (simp_all add: Cons.IH domsr_good del: dropWhile_eq_Nil_conv)
  next
    case False
    then show ?thesis using domsr_bad [OF False, of c] by auto
  qed
qed simp

text \<open>
  On the processors that have the switch, turning on the logs succeeds exactly when it succeeds on
  every CPU, and then every register was written with its old value and bit 1, and no descriptor is
  left. Otherwise the result is \<open>-EINVAL\<close>, the CPUs before the first failure are written and those after
  it are not touched, and the failing CPU's descriptor stays open if it was opened.
\<close>

theorem set_intel_imc_log_result:
  assumes "cputype \<in> {CPU_SANDY_BRIDGE_EP, CPU_IVY_BRIDGE_EPEX, CPU_HASWELL_EPEX, CPU_KNIGHTS_LANDING,
                      CPU_KNIGHTS_MILL}"
  shows "set_intel_imc_log files cputype n =
     (case dropWhile (\<lambda>c. msr_good (files c)) [0..<n] of
        [] \<Rightarrow> (0, map (\<lambda>c. (c, the (msr_read (files c)) OR 2)) [0..<n], 0)
      | c # _ \<Rightarrow> (- EINVAL,
          map (\<lambda>c. (c, the (msr_read (files c)) OR 2)) (takeWhile (\<lambda>c. msr_good (files c)) [0..<n]) @
          first_write c (files c),
          if msr_open (files c) then 1 else 0))"
  using assms by (simp only: set_intel_imc_log_def if_True imc_loop_eq)

theorem set_intel_imc_log_result_witness:
  "set_intel_imc_log (\<lambda>c. \<lparr>msr_open = True, msr_read = Some 5, msr_write = c < 2, msr_reread = Some 7\<rparr>)
     CPU_HASWELL_EPEX 4 = (- 22, [(0, 7), (1, 7), (2, 7)], 1)"
  using set_intel_imc_log_result [of CPU_HASWELL_EPEX
      "\<lambda>c. \<lparr>msr_open = True, msr_read = Some 5, msr_write = c < 2, msr_reread = Some 7\<rparr>" 4]
  by (simp add: msr_good_def first_write_def upt_rec [of _ "4 :: nat"] numeral_eq_Suc)

end
