(* ===== verification/Mce_Amd.thy ===== *)
theory Mce_Amd
  imports Bitfield
begin

text \<open>
  \<open>mce-amd.c\<close> and \<open>mce-amd-k8.c\<close>: the error codes that all AMD processors share, and the decoder of
  the K8 family.
\<close>

section \<open>The error code\<close>

definition TLB_ERROR :: "u16 \<Rightarrow> bool" where "TLB_ERROR x \<longleftrightarrow> x AND 0xFFF0 = 0x0010"
definition MEM_ERROR :: "u16 \<Rightarrow> bool" where "MEM_ERROR x \<longleftrightarrow> x AND 0xFF00 = 0x0100"
definition BUS_ERROR :: "u16 \<Rightarrow> bool" where "BUS_ERROR x \<longleftrightarrow> x AND 0xF800 = 0x0800"
definition INT_ERROR :: "u16 \<Rightarrow> bool" where "INT_ERROR x \<longleftrightarrow> x AND 0xF4FF = 0x0400"

definition amd_transaction :: "string option list" where
  "amd_transaction = map Some
    [''instruction'',
     ''data'',
     ''generic'',
     ''reserved'']"

definition amd_cachelevel :: "string option list" where
  "amd_cachelevel = map Some
    [''reserved'',
     ''L1'',
     ''L2'',
     ''L3/generic'']"

definition amd_memtrans :: "string option list" where
  "amd_memtrans = map Some
    [''generic'',
     ''generic read'',
     ''generic write'',
     ''data read'',
     ''data write'',
     ''instruction fetch'',
     ''prefetch'',
     ''evict'',
     ''snoop'',
     ''?'',
     ''?'',
     ''?'',
     ''?'',
     ''?'',
     ''?'',
     ''?'']"

definition amd_partproc :: "string option list" where
  "amd_partproc = map Some
    [''local node origin'',
     ''local node response'',
     ''local node observed'',
     ''generic participation'']"

definition amd_timeout :: "string option list" where
  "amd_timeout = map Some
    [''request didn't time out'',
     ''request timed out'']"

definition amd_internal :: "string option list" where
  "amd_internal = map Some
    [''reserved'',
     ''reserved'',
     ''hardware assert'',
     ''reserved'']"

definition TT_MSG :: "u16 \<Rightarrow> string option" where
  "TT_MSG x = table_str amd_transaction (drop_bit 2 x AND 0x3)"

definition LL_MSG :: "u16 \<Rightarrow> string option" where
  "LL_MSG x = table_str amd_cachelevel (x AND 0x3)"

definition R4_MSG :: "u16 \<Rightarrow> string option" where
  "R4_MSG x = (if drop_bit 4 x AND 0xF < 9 then table_str amd_memtrans (drop_bit 4 x AND 0xF) else Some ''Wrong R4!'')"

definition TO_MSG :: "u16 \<Rightarrow> string option" where
  "TO_MSG x = table_str amd_timeout (drop_bit 8 x AND 0x1)"

definition PP_MSG :: "u16 \<Rightarrow> string option" where
  "PP_MSG x = table_str amd_partproc (drop_bit 9 x AND 0x3)"

definition UU_MSG :: "u16 \<Rightarrow> string option" where
  "UU_MSG x = table_str amd_internal (drop_bit 8 x AND 0x3)"

definition amd_severity :: "mce_event \<Rightarrow> mce_event option" where
  "amd_severity e =
     (let st = status e
      in if flagged st MCI_STATUS_UC then
           do {
             e \<leftarrow> cond (flagged st MCI_STATUS_PCC) (set_error_msg ''System Fatal error.'') e;
             e \<leftarrow> cond (flagged (mcgstatus e) MCG_STATUS_RIPV)
                    (set_error_msg ''Uncorrected, software restartable error.'') e;
             set_error_msg ''Uncorrected, software containable error.'' e
           }
         else if flagged st MCI_STATUS_DEFERRED then set_error_msg ''Deferred error, no action required.'' e
         else set_error_msg ''Corrected error, no action required.'' e)"

definition amd_flags :: "u64 \<Rightarrow> mce_event \<Rightarrow> mce_event option" where
  "amd_flags st e =
     (let ecc = ucast (drop_bit 45 st AND 0x3) :: u16
      in do {
        e \<leftarrow> cond (\<not> flagged st MCI_STATUS_VAL) (add_mcistatus_msg ''MCE_INVALID'') e;
        e \<leftarrow> cond (flagged st MCI_STATUS_OVER) (add_mcistatus_msg ''Error_overflow'') e;
        e \<leftarrow> cond (flagged st MCI_STATUS_PCC) (add_mcistatus_msg ''Processor_context_corrupt'') e;
        cond (ecc \<noteq> 0) (add_mcistatus_msg ((if ecc = 2 then ''C'' else ''U'') @ ''ECC'')) e
      })"

definition amd_code :: "u16 \<Rightarrow> mce_event \<Rightarrow> mce_event option" where
  "amd_code ec e =
     (if INT_ERROR ec then
        do { u \<leftarrow> UU_MSG ec; add_mcastatus_msg (''Internal '' @ [CHR 0x27] @ u @ [CHR 0x27]) e }
      else if TLB_ERROR ec then
        do { t \<leftarrow> TT_MSG ec; l \<leftarrow> LL_MSG ec;
             add_mcastatus_msg (''TLB Error '' @ [CHR 0x27] @ ''tx: '' @ t @ '', level: '' @ l @ [CHR 0x27]) e }
      else if MEM_ERROR ec then
        do { r \<leftarrow> R4_MSG ec; t \<leftarrow> TT_MSG ec; l \<leftarrow> LL_MSG ec;
             add_mcastatus_msg (''Memory Error '' @ [CHR 0x27] @ ''mem-tx: '' @ r @ '', tx: '' @ t @
               '', level: '' @ l @ [CHR 0x27]) e }
      else if BUS_ERROR ec then
        do { p \<leftarrow> PP_MSG ec; t \<leftarrow> TO_MSG ec; r \<leftarrow> R4_MSG ec; l \<leftarrow> LL_MSG ec;
             add_mcastatus_msg (''Bus Error '' @ [CHR 0x27] @ p @ '', '' @ t @ '', mem-tx: '' @ r @
               '', level: '' @ l @ [CHR 0x27]) e }
      else Some e)"

definition decode_amd_errcode :: "mce_event \<Rightarrow> mce_event option" where
  "decode_amd_errcode e =
     do {
       e \<leftarrow> amd_severity e;
       e \<leftarrow> amd_flags (status e) e;
       amd_code (ucast (status e AND 0xFFFF)) e
     }"

section \<open>K8\<close>

definition K8_MCE_THRESHOLD_BASE :: u8 where "K8_MCE_THRESHOLD_BASE = MCE_EXTENDED_BANK + 1"
definition K8_MCE_THRESHOLD_TOP :: u8 where "K8_MCE_THRESHOLD_TOP = K8_MCE_THRESHOLD_BASE + 6 * 9"

definition k8_k8bank :: "string option list" where
  "k8_k8bank = map Some
    [''data cache'',
     ''instruction cache'',
     ''bus unit'',
     ''load/store unit'',
     ''northbridge'',
     ''fixed-issue reorder'']"

text \<open>54 counters; the four of the northbridge bank have names.\<close>

definition k8threshold :: "string option list" where
  "k8threshold = sparse (6 * 9)
     (span 0 35 ''Unknown threshold counter'' @
      [(36, ''MC4_MISC0 DRAM threshold''),
       (37, ''MC4_MISC1 Link threshold''),
       (38, ''MC4_MISC2 L3 Cache threshold''),
       (39, ''MC4_MISC3 FBDIMM threshold'')] @
      span 40 53 ''Unknown threshold counter'')"

definition k8_transaction :: "string option list" where
  "k8_transaction = map Some
    [''instruction'',
     ''data'',
     ''generic'',
     ''reserved'']"

definition k8_cachelevel :: "string option list" where
  "k8_cachelevel = map Some
    [''0'',
     ''1'',
     ''2'',
     ''generic'']"

definition k8_memtrans :: "string option list" where
  "k8_memtrans = map Some
    [''generic error'',
     ''generic read'',
     ''generic write'',
     ''data read'',
     ''data write'',
     ''instruction fetch'',
     ''prefetch'',
     ''evict'',
     ''snoop'',
     ''?'',
     ''?'',
     ''?'',
     ''?'',
     ''?'',
     ''?'',
     ''?'']"

definition k8_partproc :: "string option list" where
  "k8_partproc = map Some
    [''local node origin'',
     ''local node response'',
     ''local node observed'',
     ''generic participation'']"

definition k8_timeout :: "string option list" where
  "k8_timeout = map Some
    [''request didn't time out'',
     ''request timed out'']"

definition k8_memoryio :: "string option list" where
  "k8_memoryio = map Some
    [''memory'',
     ''res.'',
     ''i/o'',
     ''generic'']"

definition k8_nbextendederr :: "string option list" where
  "k8_nbextendederr = map Some
    [''RAM ECC error'',
     ''CRC error'',
     ''Sync error'',
     ''Master abort'',
     ''Target abort'',
     ''GART error'',
     ''RMW error'',
     ''Watchdog error'',
     ''RAM Chipkill ECC error'',
     ''DEV Error'',
     ''Link Data Error'',
     ''Link Protocol Error'',
     ''NB Array Error'',
     ''DRAM Parity Error'',
     ''Link Retry'',
     ''Tablew Walk Data Error'',
     ''L3 Cache Data Error'',
     ''L3 Cache Tag Error'',
     ''L3 Cache LRU Error'']"

definition k8_highbits :: "string option list" where
  "k8_highbits = sparse 32
    [(31, ''valid''),
     (30, ''error overflow (multiple errors)''),
     (29, ''error uncorrected''),
     (28, ''error enable''),
     (27, ''misc error valid''),
     (26, ''error address valid''),
     (25, ''processor context corrupt''),
     (24, ''res24''),
     (23, ''res23''),
     (14, ''corrected ecc error''),
     (13, ''uncorrected ecc error''),
     (12, ''res12''),
     (11, ''L3 subcache in error bit 1''),
     (10, ''L3 subcache in error bit 0''),
     (9, ''sublink or DRAM channel''),
     (8, ''error found by scrub''),
     (3, ''err cpu3''),
     (2, ''err cpu2''),
     (1, ''err cpu1''),
     (0, ''err cpu0'')]"

text \<open>The mask is a logical \<open>or\<close> of three bits that are not zero.\<close>

definition IGNORE_HIGHBITS :: s32 where
  "IGNORE_HIGHBITS =
     (if (push_bit 31 1 :: s32) \<noteq> 0 \<or> (push_bit 28 1 :: s32) \<noteq> 0 \<or> (push_bit 26 1 :: s32) \<noteq> 0 then 1 else 0)"

definition decode_k8_generic_errcode :: "mce_event \<Rightarrow> mce_event option" where
  "decode_k8_generic_errcode e =
     (let st = status e; errcode = ucast (st AND 0xFFFF) :: u16
      in do {
        (tmp_buf, n) \<leftarrow> bitfield_msg 4092 k8_highbits (unat IGNORE_HIGHBITS) 32 st;
        e \<leftarrow> cond (n \<noteq> 0) (add_error_msg (''('' @ tmp_buf @ '') '')) e;
        (if errcode AND 0xFFF0 = 0x0010 then
           do { t \<leftarrow> table_str k8_transaction (drop_bit 2 errcode AND 3);
                l \<leftarrow> table_str k8_cachelevel (errcode AND 3);
                add_error_msg (''LB error '' @ [CHR 0x27] @ t @ '' transaction, level '' @ l @ [CHR 0x27]) e }
         else if errcode AND 0xFF00 = 0x0100 then
           do { m \<leftarrow> table_str k8_memtrans (drop_bit 4 errcode AND 0xF);
                t \<leftarrow> table_str k8_transaction (drop_bit 2 errcode AND 3);
                l \<leftarrow> table_str k8_cachelevel (errcode AND 3);
                add_error_msg (''memory/cache error '' @ [CHR 0x27] @ m @ '' mem transaction, '' @ t @
                  '' transaction, level '' @ l @ [CHR 0x27]) e }
         else if errcode AND 0xF800 = 0x0800 then
           do { p \<leftarrow> table_str k8_partproc (drop_bit 9 errcode AND 0x3);
                t \<leftarrow> table_str k8_timeout (drop_bit 8 errcode AND 1);
                m \<leftarrow> table_str k8_memtrans (drop_bit 4 errcode AND 0xF);
                i \<leftarrow> table_str k8_memoryio (drop_bit 2 errcode AND 0x3);
                l \<leftarrow> table_str k8_cachelevel (errcode AND 0x3);
                add_error_msg (''bus error '' @ [CHR 0x27] @ p @ '', '' @ t @ '': '' @ m @
                  '' mem transaction, '' @ i @ '' access, level '' @ l @ [CHR 0x27]) e }
         else Some e)
      })"

definition exterrcode :: "u64 \<Rightarrow> u16" where
  "exterrcode st = ucast (drop_bit 16 st AND 0x0F)"

definition decode_k8_dc_mc :: "mce_event \<Rightarrow> mce_event option" where
  "decode_k8_dc_mc e =
     (let st = status e; errcode = ucast (st AND 0xFFFF) :: u16
      in do {
        e \<leftarrow> (if st AND push_bit 45 3 \<noteq> 0 then
                do {
                  e \<leftarrow> add_error_msg (''Data cache ECC error (syndrome '' @
                         fmt_x ((ucast (drop_bit 47 st) :: u32) AND 0xFF) @ '')'') e;
                  cond (flagged st (BIT_ULL 40)) (add_error_msg ''found by scrubber'') e
                }
              else Some e);
        cond (errcode AND 0xFFF0 = 0x0010)
          (add_error_msg (''TLB parity error in '' @
             (if exterrcode st = 0 then ''physical'' else ''virtual'') @ '' array'')) e
      })"

definition decode_k8_ic_mc :: "mce_event \<Rightarrow> mce_event option" where
  "decode_k8_ic_mc e =
     (let st = status e; errcode = ucast (st AND 0xFFFF) :: u16
      in do {
        e \<leftarrow> cond (st AND push_bit 45 3 \<noteq> 0) (add_error_msg ''Instruction cache ECC error'') e;
        cond (errcode AND 0xFFF0 = 0x0010)
          (add_error_msg (''TLB parity error in '' @
             (if exterrcode st = 0 then ''physical'' else ''virtual'') @ '' array'')) e
      })"

definition decode_k8_bu_mc :: "mce_event \<Rightarrow> mce_event option" where
  "decode_k8_bu_mc e =
     (let st = status e
      in do {
        e \<leftarrow> cond (st AND push_bit 45 3 \<noteq> 0) (add_error_msg ''L2 cache ECC error'') e;
        add_error_msg ((if exterrcode st = 0 then ''Bus or cache'' else ''Cache tag'') @ '' array error'') e
      })"

text \<open>The second component is \<open>memerr\<close>.\<close>

definition decode_k8_nb_mc :: "mce_event \<Rightarrow> (mce_event \<times> bool) option" where
  "decode_k8_nb_mc e =
     (let st = status e; x = exterrcode st
      in do {
        s \<leftarrow> table_str k8_nbextendederr x;
        e \<leftarrow> add_error_msg (''Northbridge '' @ s) e;
        (if x = 0 then
           map_option (\<lambda>e. (e, True))
             (add_error_msg (''ECC syndrome = '' @ fmt_x ((ucast (drop_bit 47 st) :: u32) AND 0xFF)) e)
         else if x = 8 then
           map_option (\<lambda>e. (e, True))
             (add_error_msg (''Chipkill ECC syndrome = '' @
                fmt_x (ucast (push_bit 8 (drop_bit 24 st AND 0xFF) OR (drop_bit 47 st AND 0xFF)) :: u32)) e)
         else if x \<in> {1, 2, 3, 4, 6} then
           map_option (\<lambda>e. (e, False))
             (add_error_msg (''link number = '' @ fmt_x ((ucast (drop_bit 36 st) :: u32) AND 0xF)) e)
         else Some (e, False))
      })"

definition decode_k8_threashold :: "mce_event \<Rightarrow> mce_event option" where
  "decode_k8_threashold e =
     cond (flagged (misc e) MCI_THRESHOLD_OVER) (add_error_msg ''Threshold error count overflow'') e"

definition k8_bank_name :: "mce_event \<Rightarrow> mce_event option" where
  "k8_bank_name e =
     (if unat (bank e) < length k8_k8bank then
        do { s \<leftarrow> table_str k8_k8bank (bank e);
             add_bank_name (s @ '' (bank='' @ fmt_u (bank e) @ '')'') e }
      else if bank e \<ge> K8_MCE_THRESHOLD_BASE \<and> bank e < K8_MCE_THRESHOLD_TOP then
        do { s \<leftarrow> table_str k8threshold (bank e - K8_MCE_THRESHOLD_BASE);
             add_bank_name (s @ '' (bank='' @ fmt_u (bank e) @ '')'') e }
      else Some e)"

text \<open>The result of the parser, \<open>-1\<close> for an event that is dropped, and the event.\<close>

definition parse_amd_k8_event :: "mce_event \<Rightarrow> (int \<times> mce_event) option" where
  "parse_amd_k8_event e =
     (if bank e = 4 \<and> exterrcode (status e) = 5 \<and> flagged (status e) (BIT_ULL 61) then Some (- 1, e)
      else do {
        e \<leftarrow> k8_bank_name e;
        (e, ismemerr) \<leftarrow>
          (if bank e = 0 then
             map_option (\<lambda>e. (e, False)) (decode_k8_dc_mc e \<bind> decode_k8_generic_errcode)
           else if bank e = 1 then
             map_option (\<lambda>e. (e, False)) (decode_k8_ic_mc e \<bind> decode_k8_generic_errcode)
           else if bank e = 2 then
             map_option (\<lambda>e. (e, False)) (decode_k8_bu_mc e \<bind> decode_k8_generic_errcode)
           else if bank e = 3 then map_option (\<lambda>e. (e, False)) (decode_k8_generic_errcode e)
           else if bank e = 4 then
             do {
               (e, m) \<leftarrow> decode_k8_nb_mc e;
               e \<leftarrow> decode_k8_generic_errcode e;
               Some (e, m)
             }
           else if bank e = 5 then map_option (\<lambda>e. (e, False)) (decode_k8_generic_errcode e)
           else if K8_MCE_THRESHOLD_BASE \<le> bank e \<and> bank e \<le> K8_MCE_THRESHOLD_TOP then
             map_option (\<lambda>e. (e, False)) (decode_k8_threashold e)
           else map_option (\<lambda>e. (e, False)) (set_error_msg ''Don't know how to decode this bank'' e));
        Some (0, if ismemerr then e\<lparr>ip := 0\<rparr> else e)
      })"

section \<open>The shared error code\<close>

lemma table_str_total:
  "list_all (\<lambda>x. x \<noteq> None) t \<Longrightarrow> unat v < length t \<Longrightarrow> \<exists>s. table_str t v = Some s"
  by (auto simp: table_str_def list_all_length)

lemma unat_and_numeral:
  "unat (v AND 1) < 2" "unat (v AND 3) < 4" "unat (v AND 0xF) < 16" for v :: u16
  by (rule unat_and_lt; simp)+

lemma amd_msgs [decodes_intros]:
  "\<exists>s. TT_MSG x = Some s" "\<exists>s. LL_MSG x = Some s" "\<exists>s. R4_MSG x = Some s" "\<exists>s. TO_MSG x = Some s"
  "\<exists>s. PP_MSG x = Some s" "\<exists>s. UU_MSG x = Some s"
  unfolding TT_MSG_def LL_MSG_def R4_MSG_def TO_MSG_def PP_MSG_def UU_MSG_def
  using unat_and_numeral
  by (auto intro!: table_str_total simp: amd_transaction_def amd_cachelevel_def amd_memtrans_def
      amd_timeout_def amd_partproc_def amd_internal_def numeral_eq_Suc simp del: unsigned_and_eq drop_bit_and)

lemma decodes_amd_errcode [decodes_intros]: "decodes e (decode_amd_errcode e)"
  unfolding decode_amd_errcode_def amd_severity_def amd_flags_def amd_code_def by (intro decodes_intros)

lemma amd_flags_keep: "\<exists>e'. amd_flags st e = Some e' \<and> error_msg e' = error_msg e \<and> registers e' = registers e"
  by (simp add: amd_flags_def cond_def add_mcistatus_msg_def registers_def Let_def)

lemma amd_code_keep: "\<exists>e'. amd_code ec e = Some e' \<and> error_msg e' = error_msg e"
proof -
  obtain u t l r p q where "UU_MSG ec = Some u" "TT_MSG ec = Some t" "LL_MSG ec = Some l"
    "R4_MSG ec = Some r" "PP_MSG ec = Some p" "TO_MSG ec = Some q"
    using amd_msgs [of ec] by blast
  then show ?thesis by (simp add: amd_code_def add_mcastatus_msg_def)
qed

lemma amd_severity_eq:
  "amd_severity e = set_error_msg
     (if flagged (status e) MCI_STATUS_UC then ''Uncorrected, software containable error.''
      else if flagged (status e) MCI_STATUS_DEFERRED then ''Deferred error, no action required.''
      else ''Corrected error, no action required.'') e"
  by (simp add: amd_severity_def set_error_msg_def cond_def)

text \<open>
  The severity in the error message of an AMD event: every uncorrected error is reported as
  software containable, the messages for a fatal and for a restartable error being overwritten by it;
  otherwise the error is reported as deferred or as corrected.
\<close>

theorem amd_severity_reported:
  "\<exists>e'. decode_amd_errcode e = Some e' \<and> error_msg e' =
     (if flagged (status e) MCI_STATUS_UC then ''Uncorrected, software containable error.''
      else if flagged (status e) MCI_STATUS_DEFERRED then ''Deferred error, no action required.''
      else ''Corrected error, no action required.'')"
proof -
  let ?s = "if flagged (status e) MCI_STATUS_UC then ''Uncorrected, software containable error.''
      else if flagged (status e) MCI_STATUS_DEFERRED then ''Deferred error, no action required.''
      else ''Corrected error, no action required.''"
  obtain e1 where e1: "amd_severity e = Some e1" "error_msg e1 = ?s"
    by (simp add: amd_severity_eq set_error_msg_def)
  obtain e2 where e2: "amd_flags (status e1) e1 = Some e2" "error_msg e2 = error_msg e1"
    using amd_flags_keep by blast
  obtain e3 where "amd_code (ucast (status e2 AND 0xFFFF)) e2 = Some e3" "error_msg e3 = error_msg e2"
    using amd_code_keep by blast
  then show ?thesis using e1 e2 by (simp add: decode_amd_errcode_def)
qed

section \<open>K8\<close>

lemma length_k8_highbits: "length k8_highbits = 32"
  by (simp add: k8_highbits_def)

lemma IGNORE_HIGHBITS_1: "IGNORE_HIGHBITS = 1"
  by (simp add: IGNORE_HIGHBITS_def)

lemma k8_bitfield_msg:
  "bitfield_msg 4092 k8_highbits (unat IGNORE_HIGHBITS) 32 st = (if bit st 5 then Some ([], 0) else None)"
proof -
  have i: "st AND ucast (32 :: u32) \<noteq> 0 \<longleftrightarrow> bit st 5"
    using and_exp_eq_0_iff_not_bit [of st 5] by simp
  show ?thesis
  proof (cases "bit st 5")
    case True
    then show ?thesis using i by (simp add: bitfield_msg_def bf_loop_ignored)
  next
    case False
    then have "bf_loop k8_highbits 0 1 32 st 4091 ([], 4091) = None"
      using i by (intro bf_loop_shift_undefined) (simp_all add: length_k8_highbits)
    then show ?thesis using False by (simp add: bitfield_msg_def IGNORE_HIGHBITS_1)
  qed
qed


lemma unat_exterrcode: "unat (exterrcode st) < 16"
proof -
  have "unat (drop_bit 16 st AND 0x0F) < 16" by (rule unat_and_lt) simp
  then show ?thesis
    unfolding exterrcode_def
    by (simp add: unsigned_ucast_eq take_bit_nat_eq_self del: unsigned_and_eq)
qed

lemma k8_tables [decodes_intros]:
  fixes x :: u16
  shows "\<exists>s. table_str k8_transaction (x AND 3) = Some s" "\<exists>s. table_str k8_cachelevel (x AND 3) = Some s"
    "\<exists>s. table_str k8_memtrans (x AND 0xF) = Some s" "\<exists>s. table_str k8_partproc (x AND 3) = Some s"
    "\<exists>s. table_str k8_timeout (x AND 1) = Some s" "\<exists>s. table_str k8_memoryio (x AND 3) = Some s"
    "\<exists>s. table_str k8_nbextendederr (exterrcode st) = Some s"
  using unat_and_numeral [of x] unat_exterrcode [of st]
  by (auto intro!: table_str_total simp: k8_transaction_def k8_cachelevel_def k8_memtrans_def k8_partproc_def
      k8_timeout_def k8_memoryio_def k8_nbextendederr_def numeral_eq_Suc simp del: unsigned_and_eq)

lemma decodes_k8_generic:
  "bit (status e) 5 \<Longrightarrow> decodes e (decode_k8_generic_errcode e)"
  unfolding decode_k8_generic_errcode_def k8_bitfield_msg Let_def
  by (simp only: if_True bind.bind_lunit split_conv) (intro decodes_intros)

lemma k8_generic_undefined: "\<not> bit (status e) 5 \<Longrightarrow> decode_k8_generic_errcode e = None"
  unfolding decode_k8_generic_errcode_def k8_bitfield_msg by simp

lemma decodes_k8_banks [decodes_intros]:
  "decodes e (decode_k8_dc_mc e)" "decodes e (decode_k8_ic_mc e)" "decodes e (decode_k8_bu_mc e)"
  "decodes e (decode_k8_threashold e)"
  unfolding decode_k8_dc_mc_def decode_k8_ic_mc_def decode_k8_bu_mc_def decode_k8_threashold_def
  by (intro decodes_intros)+

lemma k8_threshold_names:
  assumes "K8_MCE_THRESHOLD_BASE \<le> b" and "b < K8_MCE_THRESHOLD_TOP"
  shows "\<exists>s. table_str k8threshold (b - K8_MCE_THRESHOLD_BASE) = Some s"
proof -
  let ?i = "unat (b - K8_MCE_THRESHOLD_BASE)"
  have i: "?i < 54"
    using assms by (simp add: K8_MCE_THRESHOLD_BASE_def K8_MCE_THRESHOLD_TOP_def MCE_EXTENDED_BANK_def
        unat_sub word_less_nat_alt word_le_nat_alt)
  have "list_all (\<lambda>x. x \<noteq> None) k8threshold"
    by code_simp
  moreover have "length k8threshold = 54" by (simp add: k8threshold_def)
  ultimately show ?thesis using i by (intro table_str_total) simp_all
qed

lemma decodes_k8_bank_name [decodes_intros]: "decodes e (k8_bank_name e)"
  unfolding k8_bank_name_def
  by (intro decodes_intros k8_threshold_names table_str_total) (simp_all add: k8_k8bank_def)

lemma k8_nb_defined:
  "\<exists>e'. decode_k8_nb_mc e = Some (e', exterrcode (status e) \<in> {0, 8}) \<and> decodes e (Some e')"
proof -
  obtain s where "table_str k8_nbextendederr (exterrcode (status e)) = Some s"
    using k8_tables(7) by blast
  then show ?thesis
    by (simp add: decode_k8_nb_mc_def Let_def add_error_msg_def decodes_def registers_def messages_fit_def
        length_mce_add del: drop_bit_and)
qed

definition k8_dropped :: "mce_event \<Rightarrow> bool" where
  "k8_dropped e \<longleftrightarrow> bank e = 4 \<and> exterrcode (status e) = 5 \<and> bit (status e) 61"

lemma decodes_status: "decodes e (Some e') \<Longrightarrow> status e' = status e \<and> bank e' = bank e"
  by (auto simp: decodes_def dest: registers_eqD)

lemma k8_then_generic:
  assumes "decodes e r"
  shows "r \<bind> decode_k8_generic_errcode = None \<longleftrightarrow> \<not> bit (status e) 5"
proof -
  obtain e' where e': "r = Some e'" "status e' = status e"
    using assms by (auto elim!: decodesE dest: registers_eqD)
  then show ?thesis
    using decodes_k8_generic [of e'] k8_generic_undefined [of e'] by (auto dest: decodes_not_None)
qed

lemma k8_generic_iff: "decode_k8_generic_errcode e = None \<longleftrightarrow> \<not> bit (status e) 5"
  using k8_then_generic [OF decodes_Some, of e] by simp

lemma k8_event_undefined:
  "parse_amd_k8_event e = None \<longleftrightarrow> \<not> k8_dropped e \<and> bank e \<le> 5 \<and> \<not> bit (status e) 5"
proof -
  obtain e1 where e1: "k8_bank_name e = Some e1" "status e1 = status e" "bank e1 = bank e"
    using decodes_k8_bank_name [of e] by (auto elim!: decodesE dest: registers_eqD)
  obtain e2 where nb: "decode_k8_nb_mc e1 = Some (e2, exterrcode (status e) \<in> {0, 8})" "status e2 = status e"
    using k8_nb_defined [of e1] e1(2) decodes_status by metis
  have bank: "bank e \<le> 5 \<longleftrightarrow> bank e \<in> {0, 1, 2, 3, 4, 5}"
    by (auto simp: word_le_nat_alt word_unat_eq_iff)
  have thr: "decode_k8_threashold e1 \<noteq> None"
    using decodes_k8_banks(4) decodes_not_None by blast
  have "flagged (status e) (BIT_ULL 61) \<longleftrightarrow> bit (status e) 61" 
    using and_exp_eq_0_iff_not_bit [of "status e" 61] by (simp add: flagged_def BIT_ULL_def push_bit_eq_mult)
  then show ?thesis
    using k8_then_generic [OF decodes_k8_banks(1), of e1] k8_then_generic [OF decodes_k8_banks(2), of e1]
      k8_then_generic [OF decodes_k8_banks(3), of e1] k8_generic_iff [of e1] k8_generic_iff [of e2] thr
    unfolding bank
    by (auto simp: parse_amd_k8_event_def k8_dropped_def e1 nb set_error_msg_def option.map_disc_iff)
qed

text \<open>
  When the parser is defined it changes no register but the instruction pointer, which it clears for a
  memory error, keeps the messages in their buffers, and fails exactly for the events it drops.
\<close>

definition keeps :: "mce_event \<Rightarrow> mce_event option \<Rightarrow> bool" where
  "keeps e r \<longleftrightarrow> (\<forall>e'. r = Some e' \<longrightarrow> decodes e (Some e'))"

lemma decodes_keeps: "decodes e r \<Longrightarrow> keeps e r"
  by (auto simp: keeps_def)

lemma keeps_bind: "keeps e r \<Longrightarrow> (\<And>e'. keeps e' (g e')) \<Longrightarrow> keeps e (r \<bind> g)"
  by (auto simp: keeps_def bind_eq_Some_conv intro: decodes_trans)

lemma keeps_generic: "keeps e (decode_k8_generic_errcode e)"
proof (cases "bit (status e) 5")
  case True
  then show ?thesis by (intro decodes_keeps decodes_k8_generic)
next
  case False
  then show ?thesis using k8_generic_undefined [OF False] by (simp add: keeps_def)
qed

text \<open>The same for a decoder that also says whether the error is one of the memory.\<close>

definition keeps2 :: "mce_event \<Rightarrow> (mce_event \<times> bool) option \<Rightarrow> bool" where
  "keeps2 e r \<longleftrightarrow> (\<forall>e' m. r = Some (e', m) \<longrightarrow> decodes e (Some e'))"

lemma keeps2_intros:
  "keeps e r \<Longrightarrow> keeps2 e (map_option (\<lambda>e. (e, m)) r)"
  "keeps e r \<Longrightarrow> keeps2 e (do { e \<leftarrow> r; Some (e, m) })"
  "keeps2 e t \<Longrightarrow> keeps2 e u \<Longrightarrow> keeps2 e (if b then t else u)"
  by (auto simp: keeps_def keeps2_def bind_eq_Some_conv)

lemma k8_dropped_flagged:
  "bank e = 4 \<and> exterrcode (status e) = 5 \<and> flagged (status e) (BIT_ULL 61) \<longleftrightarrow> k8_dropped e"
  using and_exp_eq_0_iff_not_bit [of "status e" 61]
  by (simp add: k8_dropped_def flagged_def BIT_ULL_def push_bit_eq_mult)

lemma k8_event_kept:
  assumes "parse_amd_k8_event e = Some (rc, e')"
  shows "if k8_dropped e then rc = - 1 else rc = 0 \<and> decodes e (Some (e'\<lparr>ip := ip e\<rparr>))"
proof (cases "k8_dropped e")
  case True
  then show ?thesis using assms k8_dropped_flagged [of e] by (simp add: parse_amd_k8_event_def)
next
  case False
  obtain e1 where e1: "k8_bank_name e = Some e1" "decodes e (Some e1)"
    using decodes_k8_bank_name [of e] by (auto simp: decodes_def)
  obtain e2 where nb: "decode_k8_nb_mc e1 = Some (e2, exterrcode (status e1) \<in> {0, 8})" "decodes e1 (Some e2)"
    using k8_nb_defined [of e1] by blast
  have k: "keeps e1 (decode_k8_dc_mc e1 \<bind> decode_k8_generic_errcode)"
    "keeps e1 (decode_k8_ic_mc e1 \<bind> decode_k8_generic_errcode)"
    "keeps e1 (decode_k8_bu_mc e1 \<bind> decode_k8_generic_errcode)"
    "keeps e1 (Some e2 \<bind> decode_k8_generic_errcode)" "keeps e1 (decode_k8_generic_errcode e1)"
    "keeps e1 (decode_k8_threashold e1)" "keeps e1 (set_error_msg s e1)" for s
    by (intro keeps_bind keeps_generic decodes_keeps [OF decodes_k8_banks(1)] decodes_keeps [OF decodes_k8_banks(2)]
        decodes_keeps [OF decodes_k8_banks(3)] decodes_keeps [OF decodes_k8_banks(4)]
        decodes_keeps [OF nb(2)] decodes_keeps [OF decodes_sets(1)])+
  have "keeps2 e1 (if bank e1 = 0 then map_option (\<lambda>e. (e, False)) (decode_k8_dc_mc e1 \<bind> decode_k8_generic_errcode)
      else if bank e1 = 1 then map_option (\<lambda>e. (e, False)) (decode_k8_ic_mc e1 \<bind> decode_k8_generic_errcode)
      else if bank e1 = 2 then map_option (\<lambda>e. (e, False)) (decode_k8_bu_mc e1 \<bind> decode_k8_generic_errcode)
      else if bank e1 = 3 then map_option (\<lambda>e. (e, False)) (decode_k8_generic_errcode e1)
      else if bank e1 = 4 then do {
          (e, m) \<leftarrow> decode_k8_nb_mc e1; e \<leftarrow> decode_k8_generic_errcode e; Some (e, m) }
      else if bank e1 = 5 then map_option (\<lambda>e. (e, False)) (decode_k8_generic_errcode e1)
      else if K8_MCE_THRESHOLD_BASE \<le> bank e1 \<and> bank e1 \<le> K8_MCE_THRESHOLD_TOP then
        map_option (\<lambda>e. (e, False)) (decode_k8_threashold e1)
      else map_option (\<lambda>e. (e, False)) (set_error_msg ''Don't know how to decode this bank'' e1))"
    (is "keeps2 e1 ?r")
    unfolding nb bind.bind_lunit prod.case using k(4)
    by (intro keeps2_intros k) simp
  moreover obtain e3 m where "?r = Some (e3, m)" "rc = 0" "e' = (if m then e3\<lparr>ip := 0\<rparr> else e3)"
    using assms False unfolding parse_amd_k8_event_def k8_dropped_flagged if_not_P [OF False] e1 bind.bind_lunit
    by (auto simp: bind_eq_Some_conv simp del: if_split_asm)
  ultimately have e3: "decodes e1 (Some e3)" "rc = 0" "e' = (if m then e3\<lparr>ip := 0\<rparr> else e3)"
    by (auto simp: keeps2_def)
  have "ip (registers x) = ip x" for x by (simp add: registers_def)
  moreover have "registers e3 = registers e" using decodes_trans [OF e1(2) e3(1)] by (simp add: decodes_def)
  ultimately have "ip e3 = ip e" by metis
  then have "e'\<lparr>ip := ip e\<rparr> = e3" using e3 by simp
  then show ?thesis using False e3(2) decodes_trans [OF e1(2) e3(1)] by simp
qed

text \<open>
  The arguments of the bit array printer for the high status bits are swapped, so that status
  bit 5 suppresses the printing and a shift by 32 is reached otherwise: the K8 parser has undefined
  behaviour exactly for the events of the banks 0 to 5 that are not dropped and have bit 5 clear.
\<close>

theorem parse_amd_k8_event_undefined:
  "parse_amd_k8_event e = None \<longleftrightarrow> \<not> k8_dropped e \<and> bank e \<le> 5 \<and> \<not> bit (status e) 5"
  by (rule k8_event_undefined)

end
