(* ===== verification/Mce_Smca.thy ===== *)
theory Mce_Smca
  imports Mce_Amd
begin

text \<open>
  \<open>mce-amd-smca.c\<close>: the decoder of the scalable machine check architecture. The bank type is found by
  the hardware id in the IPID register; its names and its extended error codes are tables.
\<close>

section \<open>Bank types and their errors\<close>

datatype smca_bank_types =
    SMCA_LS | SMCA_LS_V2 | SMCA_IF | SMCA_L2_CACHE | SMCA_DE | SMCA_RESERVED | SMCA_EX | SMCA_FP
  | SMCA_L3_CACHE | SMCA_CS | SMCA_CS_V2 | SMCA_CS_V2_QUIRK | SMCA_PIE | SMCA_UMC | SMCA_UMC_QUIRK
  | SMCA_UMC_V2 | SMCA_MA_LLC | SMCA_PB | SMCA_PSP | SMCA_PSP_V2 | SMCA_SMU | SMCA_SMU_V2 | SMCA_MP5
  | SMCA_MPDMA | SMCA_NBIO | SMCA_PCIE | SMCA_PCIE_V2 | SMCA_XGMI_PCS | SMCA_NBIF | SMCA_SHUB
  | SMCA_SATA | SMCA_USB | SMCA_USR_DP | SMCA_USR_CP | SMCA_GMI_PCS | SMCA_XGMI_PHY | SMCA_WAFL_PHY
  | SMCA_GMI_PHY

definition HWID_MCATYPE :: "u32 \<Rightarrow> u32 \<Rightarrow> u32" where
  "HWID_MCATYPE hwid mcatype = push_bit 16 hwid OR mcatype"

definition NONCPU_NODE_INDEX :: u8 where "NONCPU_NODE_INDEX = 8"

definition smca_ls_mce_desc :: "string option list" where
  "smca_ls_mce_desc = map Some
    [''Load queue parity'',
     ''Store queue parity'',
     ''Miss address buffer payload parity'',
     ''L1 TLB parity'',
     ''DC Tag error type 5'',
     ''DC tag error type 6'',
     ''DC tag error type 1'',
     ''Internal error type 1'',
     ''Internal error type 2'',
     ''Sys Read data error thread 0'',
     ''Sys read data error thread 1'',
     ''DC tag error type 2'',
     ''DC data error type 1 (poison consumption)'',
     ''DC data error type 2'',
     ''DC data error type 3'',
     ''DC tag error type 4'',
     ''L2 TLB parity'',
     ''PDC parity error'',
     ''DC tag error type 3'',
     ''DC tag error type 5'',
     ''L2 fill data error'',
     ''Error on SCB cacheline state or address field'',
     ''Error on SCB data, commit pipe 0'',
     ''Error on SCB data, commit pipe 1'',
     ''Error on SCB data for non-cacheable DRAM or IO'',
     ''System Read Data Error detected by write combine buffer'',
     ''Hardware Asserts'']"

definition smca_ls2_mce_desc :: "string option list" where
  "smca_ls2_mce_desc = map Some
    [''An ECC error was detected on a data cache read by a probe or victimization'',
     ''An ECC error or L2 poison was detected on a data cache read by a load'',
     ''An ECC error was detected on a data cache read-modify-write by a store'',
     ''An ECC error or poison bit mismatch was detected on a tag read by a probe or victimization'',
     ''An ECC error or poison bit mismatch was detected on a tag read by a load'',
     ''An ECC error or poison bit mismatch was detected on a tag read by a store'',
     ''An ECC error was detected on an EMEM read by a load'',
     ''An ECC error was detected on an EMEM read-modify-write by a store'',
     ''A parity error was detected in an L1 TLB entry by any access'',
     ''A parity error was detected in an L2 TLB entry by any access'',
     ''A parity error was detected in a PWC entry by any access'',
     ''A parity error was detected in an STQ entry by any access'',
     ''A parity error was detected in an LDQ entry by any access'',
     ''A parity error was detected in a MAB entry by any access'',
     ''A parity error was detected in an SCB entry state field by any access'',
     ''A parity error was detected in an SCB entry address field by any access'',
     ''A parity error was detected in an SCB entry data field by any access'',
     ''A parity error was detected in a WCB entry by any access'',
     ''A poisoned line was detected in an SCB entry by any access'',
     ''A SystemReadDataError error was reported on read data returned from L2 for a load'',
     ''A SystemReadDataError error was reported on read data returned from L2 for an SCB store'',
     ''A SystemReadDataError error was reported on read data returned from L2 for a WCB store'',
     ''A hardware assertion error was reported'',
     ''A parity error was detected in an STLF, SCB EMEM entry, store data mask or SRB store data by any access'']"

definition smca_if_mce_desc :: "string option list" where
  "smca_if_mce_desc = map Some
    [''microtag probe port parity error'',
     ''IC microtag or full tag multi-hit error'',
     ''IC full tag parity'',
     ''IC data array parity'',
     ''PRQ Parity Error'',
     ''L0 ITLB parity error'',
     ''L1-TLB parity error'',
     ''L2-TLB parity error'',
     ''BPQ snoop parity on Thread 0'',
     ''BPQ snoop parity on Thread 1'',
     ''BP L1-BTB Multi-Hit Error'',
     ''BP L2-BTB Multi-Hit Error'',
     ''L2 Cache Response Poison error'',
     ''System Read Data error'',
     ''Hardware Assertion Error'',
     ''L1-TLB Multi-Hit'',
     ''L2-TLB Multi-Hit'',
     ''BSR Parity Error'',
     ''CT MCE'']"

definition smca_l2_mce_desc :: "string option list" where
  "smca_l2_mce_desc = map Some
    [''L2M Tag Multiple-Way-Hit error'',
     ''L2M Tag or State Array ECC Error'',
     ''L2M Data Array ECC Error'',
     ''Hardware Assert Error'',
     ''SDP Read Response Parity Error'',
     ''Error initiated by programmable state machine'']"

definition smca_de_mce_desc :: "string option list" where
  "smca_de_mce_desc = map Some
    [''Micro-op cache tag array parity error'',
     ''Micro-op cache data array parity error'',
     ''IBB Register File parity error'',
     ''Micro-op queue parity error'',
     ''Instruction dispatch queue parity error'',
     ''Fetch address FIFO parity error'',
     ''Patch RAM data parity error'',
     ''Patch RAM sequencer parity error'',
     ''Micro-op fetch queue parity error'',
     ''Hardware Assertion MCA Error'']"

definition smca_ex_mce_desc :: "string option list" where
  "smca_ex_mce_desc = map Some
    [''Watchdog timeout error'',
     ''Physical register file parity error'',
     ''Flag register file parity error'',
     ''Immediate displacement register file parity error'',
     ''Address generator payload parity error'',
     ''EX payload parity error'',
     ''Checkpoint queue parity error'',
     ''Retire dispatch queue parity error'',
     ''Retire status queue parity error'',
     ''Scheduler queue parity error'',
     ''Branch buffer queue parity error'',
     ''Hardware Assertion error'',
     ''Spec Map parity error'',
     ''Retire Map parity error'']"

definition smca_fp_mce_desc :: "string option list" where
  "smca_fp_mce_desc = map Some
    [''Physical register file (PRF) parity error'',
     ''Freelist (FL) parity error'',
     ''Schedule queue parity error'',
     ''NSQ parity error'',
     ''Retire queue (RQ) parity error'',
     ''Status register file (SRF) parity error'',
     ''Hardware assertion'',
     ''Physical K mask register file (KRF) parity error'']"

definition smca_l3_mce_desc :: "string option list" where
  "smca_l3_mce_desc = map Some
    [''Shadow tag macro ECC error'',
     ''Shadow tag macro multi-way-hit error'',
     ''L3M tag ECC error'',
     ''L3M tag multi-way-hit error'',
     ''L3M data ECC error'',
     ''SDP Parity Error from XI'',
     ''L3 victim queue Data Fabric error'',
     ''L3 Hardware Assertion'',
     ''XI WCB Parity Poison Creation event'',
     ''Machine check error initiated by DSM action'']"

definition smca_cs_mce_desc :: "string option list" where
  "smca_cs_mce_desc = map Some
    [''Illegal request'',
     ''Address violation'',
     ''Security violation'',
     ''Illegal response'',
     ''Unexpected response'',
     ''Request or Probe Parity Error'',
     ''Read Response Parity Error'',
     ''Atomic request parity error'',
     ''Probe Filter ECC Error'']"

definition smca_cs2_mce_desc :: "string option list" where
  "smca_cs2_mce_desc = map Some
    [''Illegal Request'',
     ''Address Violation'',
     ''Security Violation'',
     ''Illegal Response'',
     ''Unexpected Response'',
     ''Request or Probe Parity Error'',
     ''Read Response Parity Error'',
     ''Atomic Request Parity Error'',
     ''SDP read response had no match in the CS queue'',
     ''Probe Filter Protocol Error'',
     ''Probe Filter ECC Error'',
     ''SDP read response had an unexpected RETRY error'',
     ''Counter overflow error'',
     ''Counter underflow error'',
     ''Illegal Request on the no data channel'',
     ''Address Violation on the no data channel'',
     ''Security Violation on the no data channel'',
     ''Hardware Assert Error'',
     ''Shadow Tag Array Protocol Error'',
     ''Shadow Tag ECC Error'',
     ''Shadow Tag Transaction Error'']"

definition smca_cs2_quirk_mce_desc :: "string option list" where
  "smca_cs2_quirk_mce_desc = map Some
    [''Illegal Request'',
     ''Address Violation'',
     ''Security Violation'',
     ''Illegal Response'',
     ''Unexpected Response'',
     ''Request or Probe Parity Error'',
     ''Read Response Parity Error'',
     ''Atomic Request Parity Error'',
     ''SDP read response had no match in the CS queue'',
     ''SDP read response had an unexpected RETRY error'',
     ''Counter overflow error'',
     ''Counter underflow error'',
     ''Probe Filter Protocol Error'',
     ''Probe Filter ECC Error'',
     ''Illegal Request on the no data channel'',
     ''Address Violation on the no data channel'',
     ''Security Violation on the no data channel'',
     ''Hardware Assert Error'']"

definition smca_pie_mce_desc :: "string option list" where
  "smca_pie_mce_desc = map Some
    [''Hardware assert'',
     ''Register security violation'',
     ''Link error'',
     ''Poison data consumption'',
     ''A deferred error was detected in the DF'',
     ''Watch Dog Timer'',
     ''An SRAM ECC error was detected in the CNLI block'',
     ''Register access during DF Cstate'',
     ''DSM Error'']"

definition smca_umc_mce_desc :: "string option list" where
  "smca_umc_mce_desc = map Some
    [''DRAM ECC error'',
     ''Data poison error on DRAM'',
     ''SDP parity error'',
     ''Advanced peripheral bus error'',
     ''Command/address parity error'',
     ''Write data CRC error'',
     ''DCQ SRAM ECC error'',
     ''AES SRAM ECC error'',
     ''ECS Row Error'',
     ''ECS Error'',
     ''UMC Throttling Error'',
     ''Read CRC Error'',
     ''Reserved'',
     ''Reserved'',
     ''Reserved'',
     ''Reserved'',
     ''RFM SRAM ECC error'']"

definition smca_umc_quirk_mce_desc :: "string option list" where
  "smca_umc_quirk_mce_desc = map Some
    [''DRAM On Die ECC error'',
     ''Data poison error'',
     ''SDP parity error'',
     ''Reserved'',
     ''Address/Command parity error'',
     ''HBM Write data parity error'',
     ''Consolidated SRAM ECC error'',
     ''Reserved'',
     ''Reserved'',
     ''Rdb SRAM ECC error'',
     ''Thermal throttling'',
     ''HBM Read Data Parity error'',
     ''Reserved'',
     ''UMC FW Error'',
     ''SRAM Parity Error'',
     ''HBM CRC Error'']"

definition smca_umc2_mce_desc :: "string option list" where
  "smca_umc2_mce_desc = map Some
    [''DRAM ECC error'',
     ''Data poison error'',
     ''SDP parity error'',
     ''Reserved'',
     ''Address/Command parity error'',
     ''Write data parity error'',
     ''DCQ SRAM ECC error'',
     ''Reserved'',
     ''Read data parity error'',
     ''Rdb SRAM ECC error'',
     ''RdRsp SRAM ECC error'',
     ''LM32 MP errors'']"

definition smca_mall_mce_desc :: "string option list" where
  "smca_mall_mce_desc = map Some
    [''Counter overflow error'',
     ''Counter underflow error'',
     ''Write Data Parity Error'',
     ''Read Response Parity Error'',
     ''Cache Tag ECC Error Macro 0'',
     ''Cache Tag ECC Error Macro 1'',
     ''Cache Data ECC Error'']"

definition smca_pb_mce_desc :: "string option list" where
  "smca_pb_mce_desc = map Some
    [''An ECC error in the Parameter Block RAM array'']"

definition smca_psp_mce_desc :: "string option list" where
  "smca_psp_mce_desc = map Some
    [''An ECC or parity error in a PSP RAM instance'']"

definition smca_psp2_mce_desc :: "string option list" where
  "smca_psp2_mce_desc = map Some
    [''High SRAM ECC or parity error'',
     ''Low SRAM ECC or parity error'',
     ''Instruction Cache Bank 0 ECC or parity error'',
     ''Instruction Cache Bank 1 ECC or parity error'',
     ''Instruction Tag Ram 0 parity error'',
     ''Instruction Tag Ram 1 parity error'',
     ''Data Cache Bank 0 ECC or parity error'',
     ''Data Cache Bank 1 ECC or parity error'',
     ''Data Cache Bank 2 ECC or parity error'',
     ''Data Cache Bank 3 ECC or parity error'',
     ''Data Tag Bank 0 parity error'',
     ''Data Tag Bank 1 parity error'',
     ''Data Tag Bank 2 parity error'',
     ''Data Tag Bank 3 parity error'',
     ''Dirty Data Ram parity error'',
     ''TLB Bank 0 parity error'',
     ''TLB Bank 1 parity error'',
     ''System Hub Read Buffer ECC or parity error'',
     ''FUSE IP SRAM ECC or parity error'',
     ''PCRU FUSE SRAM ECC or parity error'',
     ''SIB SRAM parity error'',
     ''mpASP SECEMC Error'',
     ''mpASP A5 Hang'',
     ''SIB WDT error'']"

definition smca_smu_mce_desc :: "string option list" where
  "smca_smu_mce_desc = map Some
    [''An ECC or parity error in an SMU RAM instance'']"

definition smca_smu2_mce_desc :: "string option list" where
  "smca_smu2_mce_desc = sparse 64
    ([(0, ''High SRAM ECC or parity error''),
     (1, ''Low SRAM ECC or parity error''),
     (2, ''Data Cache Bank A ECC or parity error''),
     (3, ''Data Cache Bank B ECC or parity error''),
     (4, ''Data Tag Cache Bank A ECC or parity error''),
     (5, ''Data Tag Cache Bank B ECC or parity error''),
     (6, ''Instruction Cache Bank A ECC or parity error''),
     (7, ''Instruction Cache Bank B ECC or parity error''),
     (8, ''Instruction Tag Cache Bank A ECC or parity error''),
     (9, ''Instruction Tag Cache Bank B ECC or parity error''),
     (10, ''System Hub Read Buffer ECC or parity error''),
     (11, ''PHY RAS ECC Error'')] @
     span 12 57 ''Reserved'' @
     [(58, ''A correctable error from a GFX Sub-IP''),
     (59, ''A fatal error from a GFX Sub-IP''),
     (60, ''Reserved''),
     (61, ''Reserved''),
     (62, ''A poison error from a GFX Sub-IP''),
     (63, ''Reserved'')])"

definition smca_mp5_mce_desc :: "string option list" where
  "smca_mp5_mce_desc = map Some
    [''High SRAM ECC or parity error'',
     ''Low SRAM ECC or parity error'',
     ''Data Cache Bank A ECC or parity error'',
     ''Data Cache Bank B ECC or parity error'',
     ''Data Tag Cache Bank A ECC or parity error'',
     ''Data Tag Cache Bank B ECC or parity error'',
     ''Instruction Cache Bank A ECC or parity error'',
     ''Instruction Cache Bank B ECC or parity error'',
     ''Instruction Tag Cache Bank A ECC or parity error'',
     ''Instruction Tag Cache Bank B ECC or parity error'',
     ''Fuse SRAM ECC or parity error'']"

definition smca_mpdma_mce_desc :: "string option list" where
  "smca_mpdma_mce_desc = map Some
    [''Main SRAM [31:0] bank ECC or parity error'',
     ''Main SRAM [63:32] bank ECC or parity error'',
     ''Main SRAM [95:64] bank ECC or parity error'',
     ''Main SRAM [127:96] bank ECC or parity error'',
     ''Data Cache Bank A ECC or parity error'',
     ''Data Cache Bank B ECC or parity error'',
     ''Data Tag Cache Bank A ECC or parity error'',
     ''Data Tag Cache Bank B ECC or parity error'',
     ''Instruction Cache Bank A ECC or parity error'',
     ''Instruction Cache Bank B ECC or parity error'',
     ''Instruction Tag Cache Bank A ECC or parity error'',
     ''Instruction Tag Cache Bank B ECC or parity error'',
     ''Data Cache Bank A ECC or parity error'',
     ''Data Cache Bank B ECC or parity error'',
     ''Data Tag Cache Bank A ECC or parity error'',
     ''Data Tag Cache Bank B ECC or parity error'',
     ''Instruction Cache Bank A ECC or parity error'',
     ''Instruction Cache Bank B ECC or parity error'',
     ''Instruction Tag Cache Bank A ECC or parity error'',
     ''Instruction Tag Cache Bank B ECC or parity error'',
     ''Data Cache Bank A ECC or parity error'',
     ''Data Cache Bank B ECC or parity error'',
     ''Data Tag Cache Bank A ECC or parity error'',
     ''Data Tag Cache Bank B ECC or parity error'',
     ''Instruction Cache Bank A ECC or parity error'',
     ''Instruction Cache Bank B ECC or parity error'',
     ''Instruction Tag Cache Bank A ECC or parity error'',
     ''Instruction Tag Cache Bank B ECC or parity error'',
     ''System Hub Read Buffer ECC or parity error'',
     ''MPDMA TVF DVSEC Memory ECC or parity error'',
     ''MPDMA TVF MMIO Mailbox0 ECC or parity error'',
     ''MPDMA TVF MMIO Mailbox1 ECC or parity error'',
     ''MPDMA TVF Doorbell Memory ECC or parity error'',
     ''MPDMA TVF SDP Slave Memory 0 ECC or parity error'',
     ''MPDMA TVF SDP Slave Memory 1 ECC or parity error'',
     ''MPDMA TVF SDP Slave Memory 2 ECC or parity error'',
     ''MPDMA TVF SDP Master Memory 0 ECC or parity error'',
     ''MPDMA TVF SDP Master Memory 1 ECC or parity error'',
     ''MPDMA TVF SDP Master Memory 2 ECC or parity error'',
     ''MPDMA TVF SDP Master Memory 3 ECC or parity error'',
     ''MPDMA TVF SDP Master Memory 4 ECC or parity error'',
     ''MPDMA TVF SDP Master Memory 5 ECC or parity error'',
     ''MPDMA TVF SDP Master Memory 6 ECC or parity error'',
     ''SDP Watchdog Timer expired'',
     ''MPDMA PTE Command FIFO ECC or parity error'',
     ''MPDMA PTE Hub Data FIFO ECC or parity error'',
     ''MPDMA PTE Internal Data FIFO ECC or parity error'',
     ''MPDMA PTE Command Memory DMA ECC or parity error'',
     ''MPDMA PTE Command Memory Internal ECC or parity error'',
     ''MPDMA TVF SDP Master Memory 7 ECC or parity error'']"

definition smca_nbio_mce_desc :: "string option list" where
  "smca_nbio_mce_desc = map Some
    [''ECC or Parity error'',
     ''PCIE error'',
     ''External SDP ErrEvent error'',
     ''SDP Egress Poison error'',
     ''Internal Poison error'',
     ''Internal system fatal error event'']"

definition smca_pcie_mce_desc :: "string option list" where
  "smca_pcie_mce_desc = map Some
    [''CCIX PER Message logging'',
     ''CCIX Read Response with Status: Non-Data Error'',
     ''CCIX Write Response with Status: Non-Data Error'',
     ''CCIX Read Response with Status: Data Error'',
     ''CCIX Non-okay write response with data error'']"

definition smca_pcie2_mce_desc :: "string option list" where
  "smca_pcie2_mce_desc = map Some
    [''SDP Data Parity Error logging'']"

definition smca_xgmipcs_mce_desc :: "string option list" where
  "smca_xgmipcs_mce_desc = map Some
    [''Data Loss Error'',
     ''Training Error'',
     ''Flow Control Acknowledge Error'',
     ''Rx Fifo Underflow Error'',
     ''Rx Fifo Overflow Error'',
     ''CRC Error'',
     ''BER Exceeded Error'',
     ''Tx Vcid Data Error'',
     ''Replay Buffer Parity Error'',
     ''Data Parity Error'',
     ''Replay Fifo Overflow Error'',
     ''Replay Fifo Underflow Error'',
     ''Elastic Fifo Overflow Error'',
     ''Deskew Error'',
     ''Flow Control CRC Error'',
     ''Data Startup Limit Error'',
     ''FC Init Timeout Error'',
     ''Recovery Timeout Error'',
     ''Ready Serial Timeout Error'',
     ''Ready Serial Attempt Error'',
     ''Recovery Attempt Error'',
     ''Recovery Relock Attempt Error'',
     ''Replay Attempt Error'',
     ''Sync Header Error'',
     ''Tx Replay Timeout Error'',
     ''Rx Replay Timeout Error'',
     ''LinkSub Tx Timeout Error'',
     ''LinkSub Rx Timeout Error'',
     ''Rx CMD Pocket Error'']"

definition smca_xgmiphy_mce_desc :: "string option list" where
  "smca_xgmiphy_mce_desc = map Some
    [''RAM ECC Error'',
     ''ARC instruction buffer parity error'',
     ''ARC data buffer parity error'',
     ''PHY APB error'']"

definition smca_nbif_mce_desc :: "string option list" where
  "smca_nbif_mce_desc = map Some
    [''Timeout error from GMI'',
     ''SRAM ECC error'',
     ''NTB Error Event'',
     ''SDP Parity error'']"

definition smca_sata_mce_desc :: "string option list" where
  "smca_sata_mce_desc = map Some
    [''Parity error for port 0'',
     ''Parity error for port 1'',
     ''Parity error for port 2'',
     ''Parity error for port 3'',
     ''Parity error for port 4'',
     ''Parity error for port 5'',
     ''Parity error for port 6'',
     ''Parity error for port 7'']"

definition smca_usb_mce_desc :: "string option list" where
  "smca_usb_mce_desc = map Some
    [''Parity error or ECC error for S0 RAM0'',
     ''Parity error or ECC error for S0 RAM1'',
     ''Parity error or ECC error for S0 RAM2'',
     ''Parity error for PHY RAM0'',
     ''Parity error for PHY RAM1'',
     ''AXI Slave Response error'']"

definition smca_usrdp_mce_desc :: "string option list" where
  "smca_usrdp_mce_desc = map Some
    [''Mst CMD Error'',
     ''Mst Rx FIFO Error'',
     ''Mst Deskew Error'',
     ''Mst Detect Timeout Error'',
     ''Mst FlowControl Error'',
     ''Mst DataValid FIFO Error'',
     ''Mac LinkState Error'',
     ''Deskew Error'',
     ''Init Timeout Error'',
     ''Init Attempt Error'',
     ''Recovery Timeout Error'',
     ''Recovery Attempt Error'',
     ''Eye Training Timeout Error'',
     ''Data Startup Limit Error'',
     ''LS0 Exit Error'',
     ''PLL powerState Update Timeout Error'',
     ''Rx FIFO Error'',
     ''Lcu Error'',
     ''Conv CECC Error'',
     ''Conv UECC Error'',
     ''Reserved'',
     ''Rx DataLoss Error'',
     ''Replay CECC Error'',
     ''Replay UECC Error'',
     ''CRC Error'',
     ''BER Exceeded Error'',
     ''FC Init Timeout Error'',
     ''FC Init Attempt Error'',
     ''Replay Timeout Error'',
     ''Replay Attempt Error'',
     ''Replay Underflow Error'',
     ''Replay Overflow Error'']"

definition smca_usrcp_mce_desc :: "string option list" where
  "smca_usrcp_mce_desc = map Some
    [''Packet Type Error'',
     ''Rx FIFO Error'',
     ''Deskew Error'',
     ''Rx Detect Timeout Error'',
     ''Data Parity Error'',
     ''Data Loss Error'',
     ''Lcu Error'',
     ''HB1 Handshake Timeout Error'',
     ''HB2 Handshake Timeout Error'',
     ''Clk Sleep Rsp Timeout Error'',
     ''Clk Wake Rsp Timeout Error'',
     ''Reset Attack Error'',
     ''Remote Link Fatal Error'']"

definition smca_gmipcs_mce_desc :: "string option list" where
  "smca_gmipcs_mce_desc = map Some
    [''Data Loss Error'',
     ''Training Error'',
     ''Replay Parity Error'',
     ''Rx Fifo Underflow Error'',
     ''Rx Fifo Overflow Error'',
     ''CRC Error'',
     ''BER Exceeded Error'',
     ''Tx Fifo Underflow Error'',
     ''Replay Buffer Parity Error'',
     ''Tx Overflow Error'',
     ''Replay Fifo Overflow Error'',
     ''Replay Fifo Underflow Error'',
     ''Elastic Fifo Overflow Error'',
     ''Deskew Error'',
     ''Offline Error'',
     ''Data Startup Limit Error'',
     ''FC Init Timeout Error'',
     ''Recovery Timeout Error'',
     ''Ready Serial Timeout Error'',
     ''Ready Serial Attempt Error'',
     ''Recovery Attempt Error'',
     ''Recovery Relock Attempt Error'',
     ''Deskew Abort Error'',
     ''Rx Buffer Error'',
     ''Rx LFDS Fifo Overflow Error'',
     ''Rx LFDS Fifo Underflow Error'',
     ''LinkSub Tx Timeout Error'',
     ''LinkSub Rx Timeout Error'',
     ''Rx CMD Packet Error'',
     ''LFDS Training Timeout Error'',
     ''LFDS FC Init Timeout Error'',
     ''Data Loss Error'']"

definition smca_mce_descs :: "smca_bank_types \<Rightarrow> string option list" where
  "smca_mce_descs t =
     (case t of
        SMCA_LS \<Rightarrow> smca_ls_mce_desc
      | SMCA_LS_V2 \<Rightarrow> smca_ls2_mce_desc
      | SMCA_IF \<Rightarrow> smca_if_mce_desc
      | SMCA_L2_CACHE \<Rightarrow> smca_l2_mce_desc
      | SMCA_DE \<Rightarrow> smca_de_mce_desc
      | SMCA_EX \<Rightarrow> smca_ex_mce_desc
      | SMCA_FP \<Rightarrow> smca_fp_mce_desc
      | SMCA_L3_CACHE \<Rightarrow> smca_l3_mce_desc
      | SMCA_CS \<Rightarrow> smca_cs_mce_desc
      | SMCA_CS_V2 \<Rightarrow> smca_cs2_mce_desc
      | SMCA_CS_V2_QUIRK \<Rightarrow> smca_cs2_quirk_mce_desc
      | SMCA_PIE \<Rightarrow> smca_pie_mce_desc
      | SMCA_UMC \<Rightarrow> smca_umc_mce_desc
      | SMCA_UMC_QUIRK \<Rightarrow> smca_umc_quirk_mce_desc
      | SMCA_UMC_V2 \<Rightarrow> smca_umc2_mce_desc
      | SMCA_MA_LLC \<Rightarrow> smca_mall_mce_desc
      | SMCA_PB \<Rightarrow> smca_pb_mce_desc
      | SMCA_PSP \<Rightarrow> smca_psp_mce_desc
      | SMCA_PSP_V2 \<Rightarrow> smca_psp2_mce_desc
      | SMCA_SMU \<Rightarrow> smca_smu_mce_desc
      | SMCA_SMU_V2 \<Rightarrow> smca_smu2_mce_desc
      | SMCA_MP5 \<Rightarrow> smca_mp5_mce_desc
      | SMCA_MPDMA \<Rightarrow> smca_mpdma_mce_desc
      | SMCA_NBIO \<Rightarrow> smca_nbio_mce_desc
      | SMCA_PCIE \<Rightarrow> smca_pcie_mce_desc
      | SMCA_PCIE_V2 \<Rightarrow> smca_pcie2_mce_desc
      | SMCA_XGMI_PCS \<Rightarrow> smca_xgmipcs_mce_desc
      | SMCA_NBIF \<Rightarrow> smca_nbif_mce_desc
      | SMCA_SHUB \<Rightarrow> smca_nbif_mce_desc
      | SMCA_SATA \<Rightarrow> smca_sata_mce_desc
      | SMCA_USB \<Rightarrow> smca_usb_mce_desc
      | SMCA_USR_DP \<Rightarrow> smca_usrdp_mce_desc
      | SMCA_USR_CP \<Rightarrow> smca_usrcp_mce_desc
      | SMCA_GMI_PCS \<Rightarrow> smca_gmipcs_mce_desc
      | SMCA_XGMI_PHY \<Rightarrow> smca_xgmiphy_mce_desc
      | SMCA_WAFL_PHY \<Rightarrow> smca_xgmiphy_mce_desc
      | SMCA_GMI_PHY \<Rightarrow> smca_xgmiphy_mce_desc
      | SMCA_RESERVED \<Rightarrow> [])"

definition smca_hwid_mcatypes :: "(smca_bank_types \<times> u32) list" where
  "smca_hwid_mcatypes =
    [(SMCA_LS, HWID_MCATYPE 0xB0 0x0),
     (SMCA_LS_V2, HWID_MCATYPE 0xB0 0x10),
     (SMCA_IF, HWID_MCATYPE 0xB0 0x1),
     (SMCA_L2_CACHE, HWID_MCATYPE 0xB0 0x2),
     (SMCA_DE, HWID_MCATYPE 0xB0 0x3),
     (SMCA_EX, HWID_MCATYPE 0xB0 0x5),
     (SMCA_FP, HWID_MCATYPE 0xB0 0x6),
     (SMCA_L3_CACHE, HWID_MCATYPE 0xB0 0x7),
     (SMCA_CS, HWID_MCATYPE 0x2E 0x0),
     (SMCA_PIE, HWID_MCATYPE 0x2E 0x1),
     (SMCA_CS_V2, HWID_MCATYPE 0x2E 0x2),
     (SMCA_CS_V2_QUIRK, HWID_MCATYPE 0x0 0x1),
     (SMCA_UMC, HWID_MCATYPE 0x96 0x0),
     (SMCA_UMC_QUIRK, HWID_MCATYPE 0x0 0x2),
     (SMCA_UMC_V2, HWID_MCATYPE 0x96 0x1),
     (SMCA_MA_LLC, HWID_MCATYPE 0x2E 0x4),
     (SMCA_PB, HWID_MCATYPE 0x05 0x0),
     (SMCA_PSP, HWID_MCATYPE 0xFF 0x0),
     (SMCA_PSP_V2, HWID_MCATYPE 0xFF 0x1),
     (SMCA_SMU, HWID_MCATYPE 0x01 0x0),
     (SMCA_SMU_V2, HWID_MCATYPE 0x01 0x1),
     (SMCA_MP5, HWID_MCATYPE 0x01 0x2),
     (SMCA_MPDMA, HWID_MCATYPE 0x01 0x3),
     (SMCA_NBIO, HWID_MCATYPE 0x18 0x0),
     (SMCA_PCIE, HWID_MCATYPE 0x46 0x0),
     (SMCA_PCIE_V2, HWID_MCATYPE 0x46 0x1),
     (SMCA_XGMI_PCS, HWID_MCATYPE 0x50 0x0),
     (SMCA_NBIF, HWID_MCATYPE 0x6C 0x0),
     (SMCA_SHUB, HWID_MCATYPE 0x80 0x0),
     (SMCA_SATA, HWID_MCATYPE 0xA8 0x0),
     (SMCA_USB, HWID_MCATYPE 0xAA 0x0),
     (SMCA_USR_DP, HWID_MCATYPE 0x170 0x0),
     (SMCA_USR_CP, HWID_MCATYPE 0x180 0x0),
     (SMCA_GMI_PCS, HWID_MCATYPE 0x241 0x0),
     (SMCA_XGMI_PHY, HWID_MCATYPE 0x259 0x0),
     (SMCA_WAFL_PHY, HWID_MCATYPE 0x267 0x0),
     (SMCA_GMI_PHY, HWID_MCATYPE 0x269 0x0)]"

definition smca_names :: "smca_bank_types \<Rightarrow> string" where
  "smca_names t =
     (case t of
        SMCA_LS \<Rightarrow> ''Load Store Unit''
      | SMCA_LS_V2 \<Rightarrow> ''Load Store Unit''
      | SMCA_IF \<Rightarrow> ''Instruction Fetch Unit''
      | SMCA_L2_CACHE \<Rightarrow> ''L2 Cache''
      | SMCA_DE \<Rightarrow> ''Decode Unit''
      | SMCA_RESERVED \<Rightarrow> ''Reserved''
      | SMCA_EX \<Rightarrow> ''Execution Unit''
      | SMCA_FP \<Rightarrow> ''Floating Point Unit''
      | SMCA_L3_CACHE \<Rightarrow> ''L3 Cache''
      | SMCA_CS \<Rightarrow> ''Coherent Slave''
      | SMCA_CS_V2 \<Rightarrow> ''Coherent Slave''
      | SMCA_CS_V2_QUIRK \<Rightarrow> ''Coherent Slave''
      | SMCA_PIE \<Rightarrow> ''Power, Interrupts, etc.''
      | SMCA_UMC \<Rightarrow> ''Unified Memory Controller''
      | SMCA_UMC_QUIRK \<Rightarrow> ''Unified Memory Controller''
      | SMCA_UMC_V2 \<Rightarrow> ''Unified Memory Controller V2''
      | SMCA_MA_LLC \<Rightarrow> ''Memory Attached Last Level Cache''
      | SMCA_PB \<Rightarrow> ''Parameter Block''
      | SMCA_PSP \<Rightarrow> ''Platform Security Processor''
      | SMCA_PSP_V2 \<Rightarrow> ''Platform Security Processor''
      | SMCA_SMU \<Rightarrow> ''System Management Unit''
      | SMCA_SMU_V2 \<Rightarrow> ''System Management Unit''
      | SMCA_MP5 \<Rightarrow> ''Microprocessor 5 Unit''
      | SMCA_MPDMA \<Rightarrow> ''MPDMA Unit''
      | SMCA_NBIO \<Rightarrow> ''Northbridge IO Unit''
      | SMCA_PCIE \<Rightarrow> ''PCI Express Unit''
      | SMCA_PCIE_V2 \<Rightarrow> ''PCI Express Unit''
      | SMCA_XGMI_PCS \<Rightarrow> ''Ext Global Memory Interconnect PCS Unit''
      | SMCA_NBIF \<Rightarrow> ''NBIF Unit''
      | SMCA_SHUB \<Rightarrow> ''System Hub Unit''
      | SMCA_SATA \<Rightarrow> ''SATA Unit''
      | SMCA_USB \<Rightarrow> ''USB Unit''
      | SMCA_USR_DP \<Rightarrow> ''Ultra Short Reach Data Plane Controller''
      | SMCA_USR_CP \<Rightarrow> ''Ultra Short Reach Control Plane Controller''
      | SMCA_GMI_PCS \<Rightarrow> ''Global Memory Interconnect PCS Unit''
      | SMCA_XGMI_PHY \<Rightarrow> ''Ext Global Memory Interconnect PHY Unit''
      | SMCA_WAFL_PHY \<Rightarrow> ''WAFL PHY Unit''
      | SMCA_GMI_PHY \<Rightarrow> ''Global Memory Interconnect PHY Unit'')"

section \<open>Decoding\<close>

definition amd_smca_errcode :: "mce_event \<Rightarrow> mce_event option" where
  "amd_smca_errcode e =
     do {
       e \<leftarrow> decode_amd_errcode e;
       e \<leftarrow> cond (flagged (status e) MCI_STATUS_POISON) (add_mcistatus_msg ''Poison consumed'') e;
       cond (flagged (status e) MCI_STATUS_TCC) (add_mcistatus_msg ''Task_context_corrupt'') e
     }"

definition find_umc_channel :: "mce_event \<Rightarrow> s32" where
  "find_umc_channel e = ucast (drop_bit 20 (EXTRACT (ipid e) 0 31))"

text \<open>Both numbers are small and not negative, so the signed remainder is the unsigned one.\<close>

definition find_hbm_channel :: "mce_event \<Rightarrow> s32" where
  "find_hbm_channel e =
     (let umc = ucast (drop_bit 20 (EXTRACT (ipid e) 0 31)) :: s32;
          tmp = ucast (drop_bit 12 (ipid e) AND 0xF) :: s32
      in if umc mod 2 \<noteq> 0 then tmp + 4 else tmp)"

definition fixup_hwid :: "mce_priv \<Rightarrow> u32 \<Rightarrow> u32" where
  "fixup_hwid m hwid =
     (let mo = model m
      in if family m = 0x19 then
           (if (0x10 \<le> mo \<and> mo \<le> 0x1F) \<or> (0x60 \<le> mo \<and> mo \<le> 0x7B) \<or> (0xA0 \<le> mo \<and> mo \<le> 0xAF) then
              (if hwid = HWID_MCATYPE 0x2E 0x2 then HWID_MCATYPE 0x0 0x1 else hwid)
            else if 0x90 \<le> mo \<and> mo \<le> 0x9F then
              (if hwid = HWID_MCATYPE 0x96 0x0 then HWID_MCATYPE 0x0 0x2 else hwid)
            else hwid)
         else if family m = 0x1A then
           (if 0x40 \<le> mo \<and> mo \<le> 0x4F then
              (if hwid = HWID_MCATYPE 0x2E 0x2 then HWID_MCATYPE 0x0 0x1 else hwid)
            else hwid)
         else hwid)"

text \<open>
  The search loop. The bank type is \<open>None\<close> while the variable is not initialised; the other result is
  the final index.
\<close>

primrec find_bank_type ::
  "(smca_bank_types \<times> u32) list \<Rightarrow> u32 \<Rightarrow> u8 \<Rightarrow> nat \<Rightarrow> smca_bank_types option \<Rightarrow> smca_bank_types option \<times> nat" where
  "find_bank_type [] hwid hi i t = (t, i)"
| "find_bank_type (s # ss) hwid hi i t =
     (if hwid = snd s then (Some (fst s), i)
      else find_bank_type ss hwid hi (Suc i) (if hi \<ge> NONCPU_NODE_INDEX then Some SMCA_UMC_V2 else t))"

definition MAX_NR_BANKS :: nat where "MAX_NR_BANKS = 64"

text \<open>The 16 bytes of two words of vendor data, and the string they hold.\<close>

definition word_bytes :: "u64 \<Rightarrow> string" where
  "word_bytes w = map (\<lambda>i. char_of (unat (drop_bit (8 * i) w AND 0xFF))) [0..<8]"

definition fru_string :: "u64 list \<Rightarrow> string" where
  "fru_string ws = takeWhile (\<lambda>c. c \<noteq> NUL) (concat (map word_bytes ws))"

definition copy_frutext :: "mce_event \<Rightarrow> mce_event option" where
  "copy_frutext e =
     (if vdata_len e \<noteq> 0 then
        (if length (vdata e) < 2 then None
         else Some (e\<lparr>frutext := fru_string (take 2 (vdata e))\<rparr>))
      else Some e)"

definition decode_smca_bank :: "smca_bank_types \<Rightarrow> mce_priv \<Rightarrow> mce_event \<Rightarrow> mce_event option" where
  "decode_smca_bank bank_type m e =
     (let xec = ucast (drop_bit 16 (status e) AND 0x3F) :: u16;
          hi = ucast (EXTRACT (ipid e) 44 47) :: u8;
          descs = smca_mce_descs bank_type
      in do {
        e \<leftarrow> add_bank_name (smca_names bank_type @ '' (bank='' @ fmt_u (bank e) @ '')'') e;
        e \<leftarrow> (if unat xec < length descs then
                do { s \<leftarrow> table_str descs xec;
                     add_mcastatus_msg (s @ ''. Ext Err Code: '' @ fmt_u xec) e }
              else Some e);
        e \<leftarrow> (if (bank_type = SMCA_UMC \<or> bank_type = SMCA_UMC_QUIRK) \<and> xec = 0 then
                (if family m = 0x19 \<and> model m \<ge> 0x90 \<and> model m \<le> 0x9F then
                   add_mc_location (''memory_die_id='' @ fmt_u (hi div 4)) e
                 else
                   add_mc_location (''memory_channel='' @ fmt_d (find_umc_channel e) @ '',csrow='' @
                     fmt_d (ucast (synd e AND 0x7) :: u32)) e)
              else Some e);
        e \<leftarrow> (if bank_type = SMCA_UMC_V2 \<and> xec = 0 then
                add_mc_location (''memory_channel='' @ fmt_d (find_hbm_channel e) @ '',csrow='' @
                  fmt_d (find_umc_channel e div 2)) e
              else Some e);
        copy_frutext e
      })"

definition ipid_hwid :: "mce_priv \<Rightarrow> mce_event \<Rightarrow> u32" where
  "ipid_hwid m e =
     (let ipid_high = ucast (EXTRACT (ipid e) 32 63) :: u32
      in fixup_hwid m (HWID_MCATYPE (ipid_high AND 0xFFF) (drop_bit 16 (ipid_high AND 0xFFFF0000))))"

definition decode_smca_error :: "mce_priv \<Rightarrow> mce_event \<Rightarrow> mce_event option" where
  "decode_smca_error m e =
     (let (bank_type, i) = find_bank_type smca_hwid_mcatypes (ipid_hwid m e)
            (ucast (EXTRACT (ipid e) 44 47)) 0 None
      in if i \<ge> MAX_NR_BANKS then set_mcastatus_msg ''Couldn't find bank type with IPID'' e
         else case bank_type of
           None \<Rightarrow> None
         | Some t \<Rightarrow>
             if t = SMCA_RESERVED then set_mcastatus_msg (''Bank 4 is reserved.'' @ NL) e
             else decode_smca_bank t m e)"

definition parse_amd_smca_event :: "mce_priv \<Rightarrow> mce_event \<Rightarrow> mce_event option" where
  "parse_amd_smca_event m e =
     (let mcg = mcgstatus e
      in do {
        e \<leftarrow> add_mcgstatus_msg (''mcgstatus='' @ fmt_d mcg) e;
        e \<leftarrow> cond (flagged mcg MCG_STATUS_RIPV) (add_mcgstatus_msg ''RIPV'') e;
        e \<leftarrow> cond (flagged mcg MCG_STATUS_EIPV) (add_mcgstatus_msg ''EIPV'') e;
        e \<leftarrow> cond (flagged mcg MCG_STATUS_MCIP) (add_mcgstatus_msg ''MCIP'') e;
        e \<leftarrow> decode_smca_error m e;
        amd_smca_errcode e
      })"

section \<open>Finding the bank type\<close>

lemma smca_hwids_distinct: "distinct (map snd smca_hwid_mcatypes)"
  by (simp add: smca_hwid_mcatypes_def HWID_MCATYPE_def)

lemma smca_types_distinct: "distinct (map fst smca_hwid_mcatypes)"
  by (simp add: smca_hwid_mcatypes_def)

lemma find_bank_type_eq:
  "find_bank_type ss hwid hi i t =
     (case map_of (map (\<lambda>(t, h). (h, t)) ss) hwid of
        Some b \<Rightarrow> (Some b, i + length (takeWhile (\<lambda>s. snd s \<noteq> hwid) ss))
      | None \<Rightarrow> (if hi \<ge> NONCPU_NODE_INDEX \<and> ss \<noteq> [] then Some SMCA_UMC_V2 else t, i + length ss))"
  by (induction ss arbitrary: i t) (auto split: option.split)

text \<open>The bank type by the table, with the fallback for nodes that are not CPUs.\<close>

definition smca_type :: "u32 \<Rightarrow> u8 \<Rightarrow> smca_bank_types option" where
  "smca_type hwid hi =
     (case map_of (map (\<lambda>(t, h). (h, t)) smca_hwid_mcatypes) hwid of
        Some t \<Rightarrow> Some t
      | None \<Rightarrow> if hi \<ge> NONCPU_NODE_INDEX then Some SMCA_UMC_V2 else None)"

lemma length_smca_hwids: "length smca_hwid_mcatypes = 37"
  by (simp add: smca_hwid_mcatypes_def)

lemma find_bank_type_smca:
  "\<exists>i < MAX_NR_BANKS. find_bank_type smca_hwid_mcatypes hwid hi 0 None = (smca_type hwid hi, i)"
proof -
  have "length (takeWhile P smca_hwid_mcatypes) < MAX_NR_BANKS" for P
    using length_takeWhile_le [of P smca_hwid_mcatypes] by (simp add: length_smca_hwids MAX_NR_BANKS_def)
  moreover have "smca_hwid_mcatypes \<noteq> []" using length_smca_hwids by auto
  ultimately show ?thesis
    by (auto simp: find_bank_type_eq smca_type_def length_smca_hwids MAX_NR_BANKS_def split: option.split)
qed

lemma smca_type_not_reserved: "smca_type hwid hi \<noteq> Some SMCA_RESERVED"
proof -
  have "SMCA_RESERVED \<notin> fst ` set smca_hwid_mcatypes"
    by (simp add: smca_hwid_mcatypes_def)
  then show ?thesis
    by (auto simp: smca_type_def image_iff dest!: map_of_SomeD split: option.splits if_splits) force
qed

lemma decode_smca_error_eq:
  "decode_smca_error m e =
     (case smca_type (ipid_hwid m e) (ucast (EXTRACT (ipid e) 44 47)) of
        None \<Rightarrow> None | Some t \<Rightarrow> decode_smca_bank t m e)"
proof -
  obtain i where i: "i < MAX_NR_BANKS" "find_bank_type smca_hwid_mcatypes (ipid_hwid m e)
      (ucast (EXTRACT (ipid e) 44 47)) 0 None = (smca_type (ipid_hwid m e) (ucast (EXTRACT (ipid e) 44 47)), i)"
    using find_bank_type_smca by blast
  then show ?thesis
    using smca_type_not_reserved by (auto simp: decode_smca_error_def not_le split: option.split)
qed

lemma smu2_present: "list_all (\<lambda>x. x \<noteq> None) smca_smu2_mce_desc"
  by code_simp

lemma smca_descs_present: "list_all (\<lambda>x. x \<noteq> None) (smca_mce_descs t)"
  unfolding smca_mce_descs_def
  by (cases t) (simp_all add: smca_ls_mce_desc_def
      smca_ls2_mce_desc_def
      smca_if_mce_desc_def
      smca_l2_mce_desc_def
      smca_de_mce_desc_def
      smca_ex_mce_desc_def
      smca_fp_mce_desc_def
      smca_l3_mce_desc_def
      smca_cs_mce_desc_def
      smca_cs2_mce_desc_def
      smca_cs2_quirk_mce_desc_def
      smca_pie_mce_desc_def
      smca_umc_mce_desc_def
      smca_umc_quirk_mce_desc_def
      smca_umc2_mce_desc_def
      smca_mall_mce_desc_def
      smca_pb_mce_desc_def
      smca_psp_mce_desc_def
      smca_psp2_mce_desc_def
      smca_smu_mce_desc_def smu2_present [simplified]
      smca_mp5_mce_desc_def
      smca_mpdma_mce_desc_def
      smca_nbio_mce_desc_def
      smca_pcie_mce_desc_def
      smca_pcie2_mce_desc_def
      smca_xgmipcs_mce_desc_def
      smca_xgmiphy_mce_desc_def
      smca_nbif_mce_desc_def
      smca_sata_mce_desc_def
      smca_usb_mce_desc_def
      smca_usrdp_mce_desc_def
      smca_usrcp_mce_desc_def
      smca_gmipcs_mce_desc_def)

lemma decodes_frutext:
  "vdata_len e = 0 \<or> 2 \<le> length (vdata e) \<Longrightarrow> decodes e (copy_frutext e)"
  by (auto simp: copy_frutext_def decodes_def registers_def messages_fit_def)

lemma decodes_smca_bank:
  assumes "vdata_len e = 0 \<or> 2 \<le> length (vdata e)"
  shows "decodes e (decode_smca_bank t m e)"
proof -
  have v: "vdata_len e' = vdata_len e \<and> vdata e' = vdata e" if "registers e' = registers e" for e'
    by (intro conjI registers_eqD that)
  have "decodes e' (copy_frutext e')" if "registers e' = registers e" for e'
    using assms v [OF that] by (intro decodes_frutext) simp
  then show ?thesis
    unfolding decode_smca_bank_def
    by (intro decodes_intros table_str_total smca_descs_present) simp_all
qed


text \<open>
  The search finds the type of a hardware id by the table, where every id and every type occurs
  once; the test for an unknown id, which compares the index with 64, never holds, so an id that is not
  in the table of 37 entries leaves the type uninitialised, unless the instance belongs to a node that
  is not a CPU, which is taken for a second generation memory controller. In every other case the event
  is decoded with its registers unchanged.
\<close>

theorem decode_smca_error_defined:
  assumes "vdata_len e = 0 \<or> 2 \<le> length (vdata e)"
  shows "if smca_type (ipid_hwid m e) (ucast (EXTRACT (ipid e) 44 47)) = None
     then decode_smca_error m e = None
     else \<exists>e'. decode_smca_error m e = Some e' \<and> registers e' = registers e"
proof (cases "smca_type (ipid_hwid m e) (ucast (EXTRACT (ipid e) 44 47))")
  case None
  then show ?thesis by (simp add: decode_smca_error_eq)
next
  case (Some t)
  obtain e' where "decode_smca_bank t m e = Some e'" "registers e' = registers e"
    using decodes_smca_bank [OF assms] by (rule decodesE)
  then show ?thesis unfolding decode_smca_error_eq Some by (simp only: option.case option.distinct if_False) blast
qed

theorem decode_smca_error_defined_witness:
  "decode_smca_error zero_priv zero_event = None \<and>
   (\<exists>e'. decode_smca_error zero_priv (zero_event\<lparr>ipid := 0xB000000000\<rparr>) = Some e')"
proof -
  have t: "smca_type (ipid_hwid zero_priv zero_event) (ucast (EXTRACT (ipid zero_event) 44 47)) = None"
    by (simp add: smca_type_def ipid_hwid_def fixup_hwid_def zero_priv_def zero_event_def EXTRACT_def MASK_def
        HWID_MCATYPE_def smca_hwid_mcatypes_def NONCPU_NODE_INDEX_def Let_def)
  have u: "smca_type (ipid_hwid zero_priv (zero_event\<lparr>ipid := 0xB000000000\<rparr>))
      (ucast (EXTRACT (ipid (zero_event\<lparr>ipid := 0xB000000000\<rparr>)) 44 47)) = Some SMCA_LS"
    by (simp add: smca_type_def ipid_hwid_def fixup_hwid_def zero_priv_def zero_event_def EXTRACT_def MASK_def
        HWID_MCATYPE_def smca_hwid_mcatypes_def NONCPU_NODE_INDEX_def Let_def)
  have v: "vdata_len zero_event = 0" "vdata_len (zero_event\<lparr>ipid := 0xB000000000\<rparr>) = 0"
    by (simp_all add: zero_event_def)
  show ?thesis
    using decode_smca_error_defined [of zero_event zero_priv]
      decode_smca_error_defined [of "zero_event\<lparr>ipid := 0xB000000000\<rparr>" zero_priv]
    unfolding t u v by auto
qed

end
