(* ===== verification/Mce_Zhaoxin.thy ===== *)
theory Mce_Zhaoxin
  imports Bitfield
begin

text \<open>
  \<open>mce-zhaoxin.c\<close> and \<open>mce-zhaoxin-kh50000.c\<close>: the status of a Zhaoxin event and the decoder of the
  banks of the KH-50000.
\<close>

section \<open>The status\<close>

definition zx_MCG_TES_P :: u64 where "zx_MCG_TES_P = BIT_ULL 11"

definition zx_decode_mcg :: "mce_event \<Rightarrow> mce_event option" where
  "zx_decode_mcg e =
     (let mcg = mcgstatus e
      in do {
        e \<leftarrow> add_mcgstatus_msg (''mcgstatus='' @ fmt_d mcg) e;
        e \<leftarrow> cond (flagged mcg MCG_STATUS_RIPV) (add_mcgstatus_msg ''RIPV'') e;
        e \<leftarrow> cond (flagged mcg MCG_STATUS_EIPV) (add_mcgstatus_msg ''EIPV'') e;
        e \<leftarrow> cond (flagged mcg MCG_STATUS_MCIP) (add_mcgstatus_msg ''MCIP'') e;
        cond (flagged mcg MCG_STATUS_LMCE) (add_mcgstatus_msg ''LMCE'') e
      })"

text \<open>The case of the signalled bit alone falls through to the next one.\<close>

definition zx_severity :: "u64 \<Rightarrow> mce_event \<Rightarrow> mce_event option" where
  "zx_severity st e =
     (if flagged st MCI_STATUS_UC then
        (if flagged st MCI_STATUS_PCC then add_error_msg ''Uncorrected Fatal Error'' e
         else let s = st AND (MCI_STATUS_S OR MCI_STATUS_AR)
              in if s = 0 then add_error_msg ''Uncorrected No Action Required Error'' e
                 else if s = MCI_STATUS_S then
                   do {
                     e \<leftarrow> add_error_msg ''Uncorrected Software Recoverable Action Optional Error'' e;
                     add_error_msg ''Uncorrected Software Recoverable Action Required Error'' e
                   }
                 else if s = MCI_STATUS_S OR MCI_STATUS_AR then
                   add_error_msg ''Uncorrected Software Recoverable Action Required Error'' e
                 else Some e)
      else add_error_msg ''Corrected Error.'' e)"

definition zx_decode_mci :: "mce_event \<Rightarrow> mce_event option" where
  "zx_decode_mci e =
     (let st = status e; track = drop_bit 53 st AND 3
      in do {
        e \<leftarrow> zx_severity st e;
        e \<leftarrow> cond (\<not> flagged st MCI_STATUS_VAL) (add_mcistatus_msg ''MCE_INVALID'') e;
        e \<leftarrow> cond (flagged st MCI_STATUS_OVER) (add_mcistatus_msg ''Error_overflow'') e;
        e \<leftarrow> cond (flagged st MCI_STATUS_EN) (add_mcistatus_msg ''Error_enabled'') e;
        e \<leftarrow> cond (flagged st MCI_STATUS_PCC) (add_mcistatus_msg ''Processor_context_corrupt'') e;
        (if flagged (mcgcap e) zx_MCG_TES_P \<and> \<not> flagged st MCI_STATUS_UC then
           (if track = 1 then add_mcistatus_msg ''Threshold based error status: Green'' e
            else if track = 2 then add_mcistatus_msg ''Threshold based error status: Yellow'' e
            else Some e)
         else Some e)
      })"

section \<open>The banks of the KH-50000\<close>

definition MCE_CPU_BANK :: u8 where "MCE_CPU_BANK = 0x0"
definition MCE_PL2_CACHE_BANK :: u8 where "MCE_PL2_CACHE_BANK = 0x1"
definition MCE_CRMCA0_PCIE_BANK :: u8 where "MCE_CRMCA0_PCIE_BANK = 0x2"
definition MCE_CRMCA0_IOD_ZDI_BANK :: u8 where "MCE_CRMCA0_IOD_ZDI_BANK = 0x3"
definition MCE_SVID0_BANK :: u8 where "MCE_SVID0_BANK = 0x4"
definition MCE_CRMCA1_IOD_ZDI_BANK :: u8 where "MCE_CRMCA1_IOD_ZDI_BANK = 0x5"
definition MCE_CRMCA1_PCIE_BANK :: u8 where "MCE_CRMCA1_PCIE_BANK = 0x6"
definition MCE_CCD_ZDI_BANK :: u8 where "MCE_CCD_ZDI_BANK = 0x7"
definition MCE_LLC_CACHE_BANK :: u8 where "MCE_LLC_CACHE_BANK = 0x11"
definition MCE_SVID2_BANK :: u8 where "MCE_SVID2_BANK = 0x16"
definition MCE_ZPI_BANK :: u8 where "MCE_ZPI_BANK = 0x1A"
definition MCE_SVID1_BANK :: u8 where "MCE_SVID1_BANK = 0x1B"
definition MCE_HIF_H0_BANK :: u8 where "MCE_HIF_H0_BANK = 0x1C"
definition MCE_HIF_H1_BANK :: u8 where "MCE_HIF_H1_BANK = 0x1D"
definition MCE_HIF_H2_BANK :: u8 where "MCE_HIF_H2_BANK = 0x1E"
definition MCE_HIF_H3_BANK :: u8 where "MCE_HIF_H3_BANK = 0x1F"

text \<open>\<open>MCE_DRAM_BANK0\<close> to \<open>MCE_DRAM_BANK11\<close>.\<close>

definition MCE_DRAM_BANKS :: "u8 list" where
  "MCE_DRAM_BANKS = [0x9, 0xA, 0xB, 0xC, 0xD, 0xE, 0xF, 0x10, 0x12, 0x13, 0x14, 0x15]"

definition zx_bank_name_str :: "string option list" where
  "zx_bank_name_str = map Some
    [''CPU Error Bank'',
     ''PL2 Cache Error Bank'',
     ''CRMCA0 PCIE Error Bank'',
     ''CRMCA0 IOD ZDI Error Bank'',
     ''SVID0 Error Bank'',
     ''CRMCA1 IOD ZDI Error Bank'',
     ''CRMCA1 PCIE Error Bank'',
     ''CCD ZDI Error Bank'',
     ''Reserved Error Bank'',
     ''Memory Error Bank'',
     ''Memory Error Bank'',
     ''Memory Error Bank'',
     ''Memory Error Bank'',
     ''Memory Error Bank'',
     ''Memory Error Bank'',
     ''Memory Error Bank'',
     ''Memory Error Bank'',
     ''LLC Cache Error Bank'',
     ''Memory Error Bank'',
     ''Memory Error Bank'',
     ''Memory Error Bank'',
     ''Memory Error Bank'',
     ''SVID2 Error Bank'',
     ''Reserved Error Bank'',
     ''Reserved Error Bank'',
     ''Reserved Error Bank'',
     ''ZPI Error Bank'',
     ''SVID1 Error Bank'',
     ''HIF H0 Error Bank'',
     ''HIF H1 Error Bank'',
     ''HIF H2 Error Bank'',
     ''HIF H3 Error Bank'']"

definition zx_cpu_error_str :: "string option list" where
  "zx_cpu_error_str = map Some
    [''Unknown error'',
     ''Unknown error'',
     ''Machine hung error'',
     ''Undefined ucode address error'']"

definition zx_cache_error_str :: "string option list" where
  "zx_cache_error_str = map Some
    [''Unknown Error'',
     ''ECC single bit error for data part in the same line'',
     ''ECC single bit error for different line'',
     ''ECC multi bit error for data part'']"

definition zx_pcie_error_str :: "string option list" where
  "zx_pcie_error_str = map Some
    [''Fatal error'',
     ''Non-fatal error'',
     ''Correctable error'']"

definition zx_iod_zdi_zpi_error_str :: "string option list" where
  "zx_iod_zdi_zpi_error_str = map Some
    [''Unknown error'',
     ''Receiver overflow status error(TL)'',
     ''Flow control protocol error(TL)'',
     ''Surprise down error'',
     ''Data link protocol error(DLL)'',
     ''Replay timer timeout error(DLL)'',
     ''REPLAY_NUM Rollover error(DLL)'',
     ''Bad data link layer packet error(DLL)'',
     ''Bad transaction layer packet error(DLL)'',
     ''Receiver error(PHY)'',
     ''Phy raining error(PHY)'',
     ''Link-width down-mode due to link unreliable'',
     ''Unknown error'',
     ''Unknown error'',
     ''Link-speed down-mode due to link unreliable'',
     ''Unknown error'',
     ''X32X24 Link-width down-mode due to link unreliable'',
     ''X16X12 Link-width down-mode due to link unreliable'',
     ''X8 Link-width down-mode due to link unreliable'',
     ''X4 Link-width down-mode due to link unreliable'',
     ''X2 Link-width down-mode due to link unreliable'',
     ''GEN4 Link-speed down-mode due to link unreliable'',
     ''GEN3 Link-speed down-mode due to link unreliable'',
     ''GEN2 Link-speed down-mode due to link unreliable'']"

definition zx_ccd_zdi_error_str :: "string option list" where
  "zx_ccd_zdi_error_str = map Some
    [''Unknown error'',
     ''Receive overflow error'',
     ''PHY training error'',
     ''FC protocol error'',
     ''Surprise down error'',
     ''DLLM protocol error'',
     ''DLLM replay timeout error'',
     ''DLLM replay number rollover report'',
     ''Bad DLLP error'',
     ''Bad TLP error'',
     ''Gen2 unreliable error'',
     ''Gen3 unreliable error'',
     ''Gen4 unreliable error'',
     ''X2 unreliable error'',
     ''X4 unreliable error'',
     ''X8 unreliable error'',
     ''X16/X12 unreliable error'',
     ''X32/X24 unreliable error'']"

definition zx_svid_error_str :: "string option list" where
  "zx_svid_error_str = map Some
    [''No error'',
     ''SVID Resend fail error'',
     ''VRM Over current error'',
     ''VRM Over temp error'',
     ''VRM Parity error'']"

definition zx_mem_error_mccod_str :: "string option list" where
  "zx_mem_error_mccod_str = map Some
    [''Generic undefined request error'',
     ''Memory read error'',
     ''Memory write error'',
     ''Address/Command error'',
     ''Memory scrubbing error'',
     ''data posion enable, Error source is dramc, maser normal read'',
     ''data posion enable, Error source is dramc, patrol read'',
     ''key hit error'']"

definition zx_mem_channel_str :: "string option list" where
  "zx_mem_channel_str = map Some
    [''channel A0'',
     ''channel B0'',
     ''channel A1'',
     ''channel B1'',
     ''channel C0'',
     ''channel C1'',
     ''channel A2'',
     ''channel B2'',
     ''channel C2'',
     ''channel A3'',
     ''channel B3'',
     ''channel C3'']"

definition zx_mem_specific_error_str :: "string option list" where
  "zx_mem_specific_error_str = map Some
    [''Unknown error'',
     ''Single bit ECC error'',
     ''Multiple bit ECC error'',
     ''Command parity error'',
     ''CRC error'',
     ''Parity error retry failed'',
     ''CRC error retry failed'',
     ''CPUIF CHA0 DVAD decode error(reserved)'',
     ''CPUIF CHB0 DVAD decode error(reserved)'',
     ''CPUIF CHA1 DVAD decode error(reserved)'',
     ''CPUIF CHB1 DVAD decode error(reserved)'',
     ''MCUTRF DVAD decode error(reserved)'',
     ''GMINT CHA0 DVAD decode error(reserved)'',
     ''GMINT CHB0 DVAD decode error(reserved)'',
     ''GMINT CHA1 DVAD decode error(reserved)'',
     ''GMINT CHB1 DVAD decode error(reserved)'',
     ''Key not hit error'']"

definition zx_hif_error_str :: "string option list" where
  "zx_hif_error_str = map Some
    [''Unknown error'',
     ''HIF dvad error'',
     ''SNT multi bit ecc error'',
     ''SNT single bit ecc error'',
     ''CXL decpoison uc error'',
     ''CXL decpoison ce error'',
     ''CXL parity error'']"

text \<open>A name of a table, or the text for a code past its end.\<close>

definition name_or :: "string option list \<Rightarrow> u32 \<Rightarrow> string \<Rightarrow> string option" where
  "name_or t i s = (if unat i < length t then table_str t i else Some s)"

definition zx_bank_name :: "mce_event \<Rightarrow> mce_event option" where
  "zx_bank_name e = do { s \<leftarrow> table_str zx_bank_name_str (bank e); add_bank_name s e }"

text \<open>Where a core error was: three fields of the status.\<close>

definition zx_core :: "u64 \<Rightarrow> string" where
  "zx_core st =
     ''siod_id '' @ fmt_d (ucast (EXTRACT st 23 24) :: u32) @
     '' ccd_id '' @ fmt_d (ucast (EXTRACT st 19 22) :: u32) @
     '' core_id '' @ fmt_d (ucast (EXTRACT st 16 18) :: u32)"

definition decode_cpu_error :: "mce_event \<Rightarrow> mce_event option" where
  "decode_cpu_error e =
     (let st = status e
      in do {
        s \<leftarrow> name_or zx_cpu_error_str (ucast (EXTRACT st 25 29)) ''Unknown error'';
        add_mcastatus_msg (zx_core st @ '' occurred '' @ s) e
      })"

definition decode_cache_error :: "mce_event \<Rightarrow> mce_event option" where
  "decode_cache_error e =
     (let st = status e
      in if bank e = MCE_PL2_CACHE_BANK then
           do {
             s \<leftarrow> name_or zx_cache_error_str (ucast (EXTRACT st 24 25)) ''Unknown error'';
             add_mcastatus_msg (''occurred PL2 '' @ s) e
           }
         else if bank e = MCE_LLC_CACHE_BANK then
           do {
             s \<leftarrow> name_or zx_cache_error_str (ucast (EXTRACT st 25 26)) ''Unknown error'';
             add_mcastatus_msg (zx_core st @ '' occurred LLC '' @ s) e
           }
         else Some e)"

definition decode_pcie_error :: "mce_event \<Rightarrow> mce_event option" where
  "decode_pcie_error e =
     (let st = status e; mi = misc e
      in if \<not> flagged st MCI_STATUS_MISCV then Some e
         else do {
           s \<leftarrow> name_or zx_pcie_error_str (ucast (EXTRACT st 16 23)) ''Unknown Error'';
           add_mcastatus_msg (''Device '' @ fmt_x (ucast (EXTRACT mi 32 39) :: u32) @ '':'' @
             fmt_x (ucast (EXTRACT mi 24 31) :: u32) @ '':'' @ fmt_x (ucast (EXTRACT mi 19 23) :: u32) @
             ''.'' @ fmt_x (ucast (EXTRACT mi 16 18) :: u32) @ '' occurred pcie '' @ s) e
         })"

text \<open>The loop that looks for the index whose bit is the highest one: \<open>None\<close> when it runs to the end.\<close>

definition zdi_index :: "nat \<Rightarrow> u32 \<Rightarrow> nat option" where
  "zdi_index n code = find (\<lambda>idx. test_prefix idx code) [0..<n]"

definition zdi_device :: "nat \<Rightarrow> u64 \<Rightarrow> string \<Rightarrow> mce_event \<Rightarrow> mce_event option" where
  "zdi_device n code s e =
     (if flagged (status e) MCI_STATUS_MISCV then
        (case zdi_index n (ucast code) of
           None \<Rightarrow> Some e
         | Some idx \<Rightarrow> add_mcastatus_msg (s @ to_base 10 idx) e)
      else Some e)"

definition decode_zdi_zpi_error :: "mce_event \<Rightarrow> mce_event option" where
  "decode_zdi_zpi_error e =
     (let st = status e; mi = misc e
      in if bank e \<in> {MCE_CRMCA0_IOD_ZDI_BANK, MCE_CRMCA1_IOD_ZDI_BANK} then
           do {
             e \<leftarrow> add_mcastatus_msg ''iod_zdi'' e;
             e \<leftarrow> zdi_device 6 (EXTRACT mi 25 30) ''zdi'' e;
             s \<leftarrow> name_or zx_iod_zdi_zpi_error_str (ucast (EXTRACT st 16 31)) ''Unknown error'';
             add_mcastatus_msg (''occurred '' @ s) e
           }
         else if bank e = MCE_CCD_ZDI_BANK then
           do {
             s \<leftarrow> name_or zx_ccd_zdi_error_str (ucast (EXTRACT st 25 29)) ''Unknown error'';
             add_mcastatus_msg (zx_core st @ '' occurred ccd_zdi '' @ s) e
           }
         else if bank e = MCE_ZPI_BANK then
           do {
             e \<leftarrow> add_mcastatus_msg ''zpi'' e;
             e \<leftarrow> zdi_device 3 (EXTRACT mi 25 27) ''zpi'' e;
             s \<leftarrow> name_or zx_iod_zdi_zpi_error_str (ucast (EXTRACT st 16 31)) ''Unknown error'';
             add_mcastatus_msg (''occurred '' @ s) e
           }
         else Some e)"

definition decode_svid_error :: "mce_event \<Rightarrow> mce_event option" where
  "decode_svid_error e =
     (let st = status e; mi = misc e;
          svid_str = (if bank e = MCE_SVID0_BANK then ''svid 0''
                      else if bank e = MCE_SVID1_BANK then ''svid 1''
                      else if bank e = MCE_SVID2_BANK then ''svid 2'' else [])
      in do {
        e \<leftarrow> add_mcastatus_msg svid_str e;
        e \<leftarrow> cond (flagged st MCI_STATUS_MISCV)
               (add_mcastatus_msg (''vrm '' @ fmt_d (ucast (EXTRACT mi 24 25) :: u32))) e;
        s \<leftarrow> name_or zx_svid_error_str (ucast (EXTRACT st 24 31)) ''Unknown error'';
        add_mcastatus_msg (''occurred '' @ s) e
      })"

definition decode_mem_error :: "mce_event \<Rightarrow> mce_event option" where
  "decode_mem_error e =
     (let st = status e; mi = misc e;
          mca_err_code = ucast (EXTRACT st 0 15) :: u32
      in do {
        e \<leftarrow> (if mca_err_code = 0x1 then add_mcastatus_msg ''Memory Error, MCA Error Code: DVAD Error'' e
              else if mca_err_code = 0x5 then add_mcastatus_msg ''Memory Error, MCA Error Code: Parity Error'' e
              else if mca_err_code AND push_bit 7 1 \<noteq> 0 then
                do {
                  c \<leftarrow> name_or zx_mem_channel_str (ucast (EXTRACT (ucast mca_err_code) 0 3)) ''Unknown channel'';
                  s \<leftarrow> name_or zx_mem_error_mccod_str (ucast (EXTRACT (ucast mca_err_code) 4 6)) ''Unknown error'';
                  add_mcastatus_msg (''Memory Error, MCA Error Code: '' @ c @ '' '' @ s) e
                }
              else Some e);
        s \<leftarrow> name_or zx_mem_specific_error_str (ucast (EXTRACT st 16 31)) ''Unknown error'';
        e \<leftarrow> add_mcastatus_msg ('', Internal Error Code: '' @ s) e;
        (if flagged st MCI_STATUS_MISCV then
           do {
             e \<leftarrow> add_mcastatus_msg ('', CRC/PAR MRP Log: '' @ fmt_u (EXTRACT mi 31 63)) e;
             e \<leftarrow> add_mcastatus_msg ('', Rank: '' @ fmt_u (EXTRACT mi 25 26)) e;
             e \<leftarrow> add_mcastatus_msg ('', ECC ERROR Syndrome Single Bit: '' @ fmt_u (EXTRACT mi 9 16)) e;
             add_mcastatus_msg ('', Addr Mode: '' @ (if EXTRACT mi 6 8 = 2 then ''SVA'' else ''Unknown'')) e
           }
         else Some e)
      })"

definition decode_hif_error :: "mce_event \<Rightarrow> mce_event option" where
  "decode_hif_error e =
     (let hif_str = (if bank e = MCE_HIF_H0_BANK then ''HIF 0''
                     else if bank e = MCE_HIF_H1_BANK then ''HIF 1''
                     else if bank e = MCE_HIF_H2_BANK then ''HIF 2''
                     else if bank e = MCE_HIF_H3_BANK then ''HIF 3'' else [])
      in do {
        s \<leftarrow> name_or zx_hif_error_str (ucast (EXTRACT (status e) 16 23)) ''Unknown error'';
        add_mcastatus_msg (hif_str @ '' occurred '' @ s) e
      })"

definition kh50000_decode_model :: "mce_event \<Rightarrow> mce_event option" where
  "kh50000_decode_model e =
     (let b = bank e
      in do {
        e \<leftarrow> zx_bank_name e;
        (if b = MCE_CPU_BANK then decode_cpu_error e
         else if b \<in> {MCE_PL2_CACHE_BANK, MCE_LLC_CACHE_BANK} then decode_cache_error e
         else if b \<in> {MCE_CRMCA0_PCIE_BANK, MCE_CRMCA1_PCIE_BANK} then decode_pcie_error e
         else if b \<in> {MCE_CRMCA0_IOD_ZDI_BANK, MCE_CRMCA1_IOD_ZDI_BANK, MCE_CCD_ZDI_BANK, MCE_ZPI_BANK} then
           decode_zdi_zpi_error e
         else if b \<in> {MCE_SVID0_BANK, MCE_SVID1_BANK, MCE_SVID2_BANK} then decode_svid_error e
         else if b \<in> set MCE_DRAM_BANKS then decode_mem_error e
         else if b \<in> {MCE_HIF_H0_BANK, MCE_HIF_H1_BANK, MCE_HIF_H2_BANK, MCE_HIF_H3_BANK} then
           decode_hif_error e
         else Some e)
      })"

definition parse_zhaoxin_event :: "mce_priv \<Rightarrow> mce_event \<Rightarrow> mce_event option" where
  "parse_zhaoxin_event mce e =
     do {
       e \<leftarrow> zx_decode_mcg e;
       e \<leftarrow> zx_decode_mci e;
       (if cpu_type mce = CPU_ZHAOXIN_KH50000 then kh50000_decode_model e else Some e)
     }"

section \<open>What is decoded\<close>

lemma name_or_present [decodes_intros]:
  "list_all (\<lambda>x. x \<noteq> None) t \<Longrightarrow> \<exists>s. name_or t i d = Some s"
  by (auto simp: name_or_def table_str_def list_all_length)

lemma zx_tables_present [decodes_intros]:
  "list_all (\<lambda>x. x \<noteq> None) zx_bank_name_str" "list_all (\<lambda>x. x \<noteq> None) zx_cpu_error_str"
  "list_all (\<lambda>x. x \<noteq> None) zx_cache_error_str" "list_all (\<lambda>x. x \<noteq> None) zx_pcie_error_str"
  "list_all (\<lambda>x. x \<noteq> None) zx_iod_zdi_zpi_error_str" "list_all (\<lambda>x. x \<noteq> None) zx_ccd_zdi_error_str"
  "list_all (\<lambda>x. x \<noteq> None) zx_svid_error_str" "list_all (\<lambda>x. x \<noteq> None) zx_mem_error_mccod_str"
  "list_all (\<lambda>x. x \<noteq> None) zx_mem_channel_str" "list_all (\<lambda>x. x \<noteq> None) zx_mem_specific_error_str"
  "list_all (\<lambda>x. x \<noteq> None) zx_hif_error_str"
  unfolding zx_bank_name_str_def zx_cpu_error_str_def zx_cache_error_str_def zx_pcie_error_str_def
    zx_iod_zdi_zpi_error_str_def zx_ccd_zdi_error_str_def zx_svid_error_str_def zx_mem_error_mccod_str_def
    zx_mem_channel_str_def zx_mem_specific_error_str_def zx_hif_error_str_def
  by simp_all

lemma decodes_zx_status [decodes_intros]: "decodes e (zx_decode_mcg e)" "decodes e (zx_decode_mci e)"
  unfolding zx_decode_mcg_def zx_decode_mci_def zx_severity_def by (intro decodes_intros)+

lemma decodes_cpu_error [decodes_intros]: "decodes e (decode_cpu_error e)"
  unfolding decode_cpu_error_def by (intro decodes_intros)

lemma decodes_cache_error [decodes_intros]: "decodes e (decode_cache_error e)"
  unfolding decode_cache_error_def by (intro decodes_intros)

lemma decodes_pcie_error [decodes_intros]: "decodes e (decode_pcie_error e)"
  unfolding decode_pcie_error_def by (intro decodes_intros)

lemma decodes_svid_error [decodes_intros]: "decodes e (decode_svid_error e)"
  unfolding decode_svid_error_def by (intro decodes_intros)

lemma decodes_mem_error [decodes_intros]: "decodes e (decode_mem_error e)"
  unfolding decode_mem_error_def by (intro decodes_intros)

lemma decodes_hif_error [decodes_intros]: "decodes e (decode_hif_error e)"
  unfolding decode_hif_error_def by (intro decodes_intros)

lemma decodes_zdi_device [decodes_intros]: "decodes e (zdi_device n c s e)"
  by (auto simp: zdi_device_def intro: decodes_intros split: option.split)

lemma decodes_zdi [decodes_intros]: "decodes e (decode_zdi_zpi_error e)"
  unfolding decode_zdi_zpi_error_def by (intro decodes_intros)

lemma length_zx_banks: "length zx_bank_name_str = 32"
  by (simp add: zx_bank_name_str_def)


lemma decodes_zx_bank_name:
  assumes "bank e < 32"
  shows "decodes e (zx_bank_name e)"
proof -
  have "\<exists>s. name_or zx_bank_name_str (ucast (bank e)) [] = Some s"
    by (intro decodes_intros)
  moreover have "unat (ucast (bank e) :: u32) = unat (bank e)"
    using assms by (simp add: unsigned_ucast_eq take_bit_nat_eq_self word_less_nat_alt)
  ultimately show ?thesis
    unfolding zx_bank_name_def using assms
    by (auto simp: name_or_def length_zx_banks word_less_nat_alt table_str_def intro!: decodes_intros
        split: if_splits)
qed

lemma zx_bank_name_undefined: "bank e \<ge> 32 \<Longrightarrow> zx_bank_name e = None"
  by (simp add: zx_bank_name_def table_str_def lookup_def length_zx_banks word_le_nat_alt)

lemma decodes_kh50000:
  assumes "bank e < 32"
  shows "decodes e (kh50000_decode_model e)"
  unfolding kh50000_decode_model_def Let_def
  by (intro decodes_intros decodes_zx_bank_name assms)

lemma kh50000_undefined: "bank e \<ge> 32 \<Longrightarrow> kh50000_decode_model e = None"
  by (simp add: kh50000_decode_model_def zx_bank_name_undefined)

lemma parse_zhaoxin_after_status:
  obtains e1 where "parse_zhaoxin_event mce e =
      (if cpu_type mce = CPU_ZHAOXIN_KH50000 then kh50000_decode_model e1 else Some e1)"
    and "decodes e (Some e1)" and "bank e1 = bank e"
proof -
  have "decodes e (zx_decode_mcg e \<bind> zx_decode_mci)" by (intro decodes_intros)
  then obtain e1 where e1: "zx_decode_mcg e \<bind> zx_decode_mci = Some e1" "decodes e (Some e1)"
    by (auto simp: decodes_def)
  have "parse_zhaoxin_event mce e = (zx_decode_mcg e \<bind> zx_decode_mci) \<bind>
      (\<lambda>e. if cpu_type mce = CPU_ZHAOXIN_KH50000 then kh50000_decode_model e else Some e)"
    by (simp add: parse_zhaoxin_event_def)
  then show ?thesis
    using e1 registers_eqD(3) [of e1 e] by (intro that [of e1]) (auto simp: decodes_def)
qed

text \<open>
  A Zhaoxin event is decoded with its registers unchanged and every message inside its buffer,
  except on the KH-50000 for a bank of 32 or more, whose name is read past the end of the table.
\<close>

theorem parse_zhaoxin_event_defined:
  "if cpu_type mce = CPU_ZHAOXIN_KH50000 \<and> bank e \<ge> 32
   then parse_zhaoxin_event mce e = None
   else decodes e (parse_zhaoxin_event mce e)"
proof -
  obtain e1 where e1: "parse_zhaoxin_event mce e =
      (if cpu_type mce = CPU_ZHAOXIN_KH50000 then kh50000_decode_model e1 else Some e1)"
    "decodes e (Some e1)" "bank e1 = bank e"
    by (rule parse_zhaoxin_after_status)
  show ?thesis
    using decodes_trans [OF e1(2) decodes_kh50000] kh50000_undefined [of e1] e1 by (auto simp: not_le)
qed

text \<open>
  An uncorrected error that is signalled but needs no action (\<open>S\<close> set, \<open>AR\<close> clear) is reported
  twice, as action optional and as action required.
\<close>

theorem zx_action_optional_falls_through:
  assumes "bit st 61" and "\<not> bit st 57" and "bit st 56" and "\<not> bit st 55"
  shows "zx_severity st e = Some (add_msgs
     [''Uncorrected Software Recoverable Action Optional Error'',
      ''Uncorrected Software Recoverable Action Required Error''] e)"
proof -
  have s: "st AND (MCI_STATUS_S OR MCI_STATUS_AR) = MCI_STATUS_S"
    using assms unfolding MCI_STATUS_S_def MCI_STATUS_AR_def BIT_ULL_def
    by (intro bit_word_eqI) (simp only: bit_and_iff bit_or_iff bit_push_bit_iff bit_1_iff, auto)
  have f: "flagged st MCI_STATUS_UC" "\<not> flagged st MCI_STATUS_PCC" "MCI_STATUS_S \<noteq> 0"
    using assms and_exp_eq_0_iff_not_bit [of st 61] and_exp_eq_0_iff_not_bit [of st 57]
    by (simp_all add: flagged_def MCI_STATUS_UC_def MCI_STATUS_PCC_def MCI_STATUS_S_def BIT_ULL_def
        push_bit_eq_mult)
  show ?thesis
    by (simp add: zx_severity_def s f add_error_msg_def)
qed

theorem zx_action_optional_falls_through_witness:
  "\<forall>e. zx_severity 0x2100000000000000 e = Some (add_msgs
     [''Uncorrected Software Recoverable Action Optional Error'',
      ''Uncorrected Software Recoverable Action Required Error''] e)"
proof
  fix e :: mce_event
  have "bit (0x2100000000000000 :: u64) 61" "\<not> bit (0x2100000000000000 :: u64) 57"
    "bit (0x2100000000000000 :: u64) 56" "\<not> bit (0x2100000000000000 :: u64) 55"
    by (simp_all add: bit_iff_odd_drop_bit drop_bit_eq_div)
  then show "zx_severity 0x2100000000000000 e = Some (add_msgs
     [''Uncorrected Software Recoverable Action Optional Error'',
      ''Uncorrected Software Recoverable Action Required Error''] e)"
    by (rule zx_action_optional_falls_through)
qed

end
