(* ===== verification/Mce_Handler.thy ===== *)
theory Mce_Handler
  imports Mce_Intel Mce_Smca Mce_Zhaoxin Trace_Event
begin

text \<open>
  \<open>ras-mce-handler.c\<close> and \<open>ras-erst.c\<close>: which CPU the daemon runs on, read from \<open>/proc/cpuinfo\<close>, and
  the handlers that read a machine check from the trace, from the persistent store or from the command
  line, have it decoded for that CPU and print it. A result of \<open>None\<close> is undefined behaviour.
\<close>

section \<open>The CPU\<close>

definition select_intel_cputype :: "mce_priv \<Rightarrow> cputype \<times> mce_priv" where
  "select_intel_cputype mce =
     (let mo = model mce
      in if family mce = 15 then (if mo = 6 then CPU_TULSA else CPU_P4, mce)
         else if family mce = 6 then
           let mce = (if mo \<ge> 0x1a \<and> mo \<noteq> 28 then mce\<lparr>mc_error_support := True\<rparr> else mce)
           in (if mo < 0xf then CPU_P6OLD
               else if mo = 0xf \<or> mo = 0x17 then CPU_CORE2
               else if mo = 0x1d then CPU_DUNNINGTON
               else if mo = 0x1a \<or> mo = 0x2c \<or> mo = 0x1e \<or> mo = 0x25 then CPU_NEHALEM
               else if mo = 0x2e \<or> mo = 0x2f then CPU_XEON75XX
               else if mo = 0x2a then CPU_SANDY_BRIDGE
               else if mo = 0x2d then CPU_SANDY_BRIDGE_EP
               else if mo = 0x3a then CPU_IVY_BRIDGE
               else if mo = 0x3e then CPU_IVY_BRIDGE_EPEX
               else if mo = 0x3c \<or> mo = 0x45 \<or> mo = 0x46 then CPU_HASWELL
               else if mo = 0x3f then CPU_HASWELL_EPEX
               else if mo = 0x56 then CPU_BROADWELL_DE
               else if mo = 0x4f then CPU_BROADWELL_EPEX
               else if mo = 0x3d then CPU_BROADWELL
               else if mo = 0x57 then CPU_KNIGHTS_LANDING
               else if mo = 0x85 then CPU_KNIGHTS_MILL
               else if mo = 0x55 then CPU_SKYLAKE_XEON
               else if mo = 0x6a then CPU_ICELAKE_XEON
               else if mo = 0x6c then CPU_ICELAKE_DE
               else if mo = 0x86 then CPU_TREMONT_D
               else if mo = 0x8f then CPU_SAPPHIRERAPIDS
               else if mo = 0xcf then CPU_EMERALDRAPIDS
               else if mo = 0xad then CPU_GRANITERAPIDS
               else if mo = 0xae then CPU_GRANITERAPIDS_D
               else if mo = 0xaf then CPU_SIERRAFOREST
               else if mo = 0xdd then CPU_CLEARWATERFOREST
               else if mo > 0x1a then CPU_INTEL
               else CPU_P6OLD, mce)
         else
           let mce' = (if family mce = 19 then mce\<lparr>mc_error_support := True\<rparr> else mce)
           in if family mce = 19 \<and> mo = 0x01 then (CPU_DIAMONDRAPIDS, mce')
              else if family mce > 6 then (CPU_INTEL, mce')
              else (if family mce = 6 then CPU_P6OLD else CPU_GENERIC, mce'))"

text \<open>
  \<open>sscanf\<close> with the formats of the file: a blank in the format skips any white space, other characters
  match themselves. \<open>scan_after\<close> is the rest of the line after the literal words of a format, with
  white space skipped after each. \<open>%lf\<close> is read in decimal notation.
\<close>

primrec scan_after :: "string list \<Rightarrow> string \<Rightarrow> string option" where
  "scan_after [] s = Some s"
| "scan_after (w # ws) s =
     (if prefixb w s then scan_after ws (skip_space (drop (length w) s)) else None)"

definition sscanf_d :: "string \<Rightarrow> s32 option" where
  "sscanf_d s =
     (if scan_digits 10 (snd (skip_sign (skip_space s))) = [] then None
      else Some (word_of_int (fst (strtol 10 s))))"

definition sscanf_lf :: "string \<Rightarrow> bool" where
  "sscanf_lf s =
     (let t = snd (skip_sign (skip_space s));
          frac = dropWhile isdigit t;
          after = (case frac of c # u \<Rightarrow> if c = CHR ''.'' then dropWhile isdigit u else frac | [] \<Rightarrow> []);
          digits = (takeWhile isdigit t \<noteq> [] \<or>
            (case frac of c # d # u \<Rightarrow> c = CHR ''.'' \<and> isdigit d | _ \<Rightarrow> False));
          exponent = (case after of
              c # u \<Rightarrow> c \<in> {CHR ''e'', CHR ''E''} \<longrightarrow> scan_digits 10 (snd (skip_sign u)) \<noteq> []
            | [] \<Rightarrow> True)
      in digits \<and> exponent)"

definition sscanf_63 :: "string \<Rightarrow> string option" where
  "sscanf_63 s =
     (let t = take 63 (takeWhile (\<lambda>c. c \<noteq> CHR 0x0A) s)
      in if t = [] then None else Some t)"

text \<open>What has been seen, one bit for each kind of line.\<close>

definition CPU_VENDOR :: u32 where "CPU_VENDOR = 1"
definition CPU_FAMILY :: u32 where "CPU_FAMILY = 2"
definition CPU_MODEL :: u32 where "CPU_MODEL = 4"
definition CPU_MHZ :: u32 where "CPU_MHZ = 8"
definition CPU_FLAGS :: u32 where "CPU_FLAGS = 16"
definition CPU_ALL :: u32 where "CPU_ALL = 0x1f"

text \<open>
  One line of the file, its newline included. The byte after the terminator of a line of five
  characters, which can only be a last line without newline, counts as no white space.
\<close>

definition cpuinfo_line :: "string \<Rightarrow> u32 \<times> mce_priv \<Rightarrow> u32 \<times> mce_priv" where
  "cpuinfo_line line st =
     (case st of (seen, mce) \<Rightarrow>
       (case scan_after [''vendor_id'', '':''] line \<bind> sscanf_63 of
          Some v \<Rightarrow> (seen OR CPU_VENDOR, mce\<lparr>vendor := v\<rparr>)
        | None \<Rightarrow>
       (case scan_after [''cpu'', ''family'', '':''] line \<bind> sscanf_d of
          Some n \<Rightarrow> (seen OR CPU_FAMILY, mce\<lparr>family := n\<rparr>)
        | None \<Rightarrow>
       (case scan_after [''model'', '':''] line \<bind> sscanf_d of
          Some n \<Rightarrow> (seen OR CPU_MODEL, mce\<lparr>model := n\<rparr>)
        | None \<Rightarrow>
       (if (case scan_after [''cpu'', ''MHz'', '':''] line of None \<Rightarrow> False | Some s \<Rightarrow> sscanf_lf s)
        then (seen OR CPU_MHZ, mce)
        else if prefixb ''flags'' line \<and> 6 < length line \<and> isspace (line ! 6)
        then (seen OR CPU_FLAGS, mce\<lparr>processor_flags := line\<rparr>)
        else (seen, mce))))))"

text \<open>\<open>while (seen != CPU_ALL && getdelim(...) > 0)\<close>\<close>

primrec cpuinfo_loop :: "string list \<Rightarrow> u32 \<times> mce_priv \<Rightarrow> u32 \<times> mce_priv" where
  "cpuinfo_loop [] st = st"
| "cpuinfo_loop (line # lines) st =
     (if fst st = CPU_ALL then st else cpuinfo_loop lines (cpuinfo_line line st))"

definition ENOENT :: int where "ENOENT = 2"
definition ENOMEM :: int where "ENOMEM = 12"

text \<open>The CPU type for a vendor, a family, a model and the flags. One that no branch sets stays what it was.\<close>

definition select_cputype :: "mce_priv \<Rightarrow> int \<times> mce_priv" where
  "select_cputype mce =
     (if vendor mce = ''AuthenticAMD'' then
        (let mce = (if family mce = 15 then mce\<lparr>cpu_type := CPU_K8\<rparr> else mce)
         in if strstr (processor_flags mce) ''smca'' \<noteq> None then (0, mce\<lparr>cpu_type := CPU_AMD_SMCA\<rparr>)
            else if family mce > 25 then (- EINVAL, mce)
            else (0, mce))
      else if vendor mce = ''HygonGenuine'' then
        (0, if family mce = 24 then mce\<lparr>cpu_type := CPU_DHYANA\<rparr> else mce)
      else if vendor mce = ''GenuineIntel'' then
        (let (t, mce) = select_intel_cputype mce in (0, mce\<lparr>cpu_type := t\<rparr>))
      else if vendor mce = ''CentaurHauls'' \<or> vendor mce = ''  Shanghai  '' then
        (0, if family mce = 0x7 \<and> model mce = 0x7b then mce\<lparr>cpu_type := CPU_ZHAOXIN_KH50000\<rparr>
            else mce\<lparr>cpu_type := CPU_ZHAOXIN\<rparr>)
      else (- EINVAL, mce))"

text \<open>The file is the error number of \<open>fopen\<close> or the lines, each with its newline.\<close>

definition detect_cpu :: "int + string list \<Rightarrow> mce_priv \<Rightarrow> int \<times> mce_priv" where
  "detect_cpu cpuinfo mce =
     (let mce = mce\<lparr>family := 0, model := 0, vendor := []\<rparr>
      in case cpuinfo of
        Inl errno \<Rightarrow> (- errno, mce)
      | Inr lines \<Rightarrow>
          (let (seen, mce) = cpuinfo_loop lines (0, mce)
           in if seen = 0 then (- ENOENT, mce)
              else if seen \<noteq> CPU_ALL then (- EINVAL, mce)
              else select_cputype mce))"

text \<open>\<open>calloc\<close> may fail; on an error the handler has no private data.\<close>

definition init_mce_priv :: "bool \<Rightarrow> int + string list \<Rightarrow> int \<times> mce_priv option" where
  "init_mce_priv mem cpuinfo =
     (if \<not> mem then (- ENOMEM, None)
      else let (rc, mce) = detect_cpu cpuinfo zero_priv
           in if rc \<noteq> 0 then (rc, None) else (rc, Some mce))"

definition set_imc_log :: "(nat \<Rightarrow> msr_file) \<Rightarrow> mce_priv \<Rightarrow> nat \<Rightarrow> (nat \<times> u64) list" where
  "set_imc_log files mce ncpus =
     (if cpu_type mce \<in> {CPU_SANDY_BRIDGE_EP, CPU_IVY_BRIDGE_EPEX, CPU_HASWELL_EPEX, CPU_KNIGHTS_LANDING,
                       CPU_KNIGHTS_MILL}
      then fst (snd (set_intel_imc_log files (cpu_type mce) ncpus))
      else [])"

text \<open>The result, the private data, and what was written to the registers of the CPUs.\<close>

definition register_mce_handler ::
  "bool \<Rightarrow> int + string list \<Rightarrow> (nat \<Rightarrow> msr_file) \<Rightarrow> nat \<Rightarrow> int \<times> mce_priv option \<times> (nat \<times> u64) list" where
  "register_mce_handler mem cpuinfo files ncpus =
     (case init_mce_priv mem cpuinfo of
        (rc, None) \<Rightarrow> (rc, None, [])
      | (rc, Some mce) \<Rightarrow> (rc, Some mce, set_imc_log files mce ncpus))"

section \<open>The report\<close>

definition cputype_name :: "cputype \<Rightarrow> string" where
  "cputype_name c =
     (case c of
        CPU_GENERIC \<Rightarrow> ''generic CPU''
      | CPU_P6OLD \<Rightarrow> ''Intel PPro/P2/P3/old Xeon''
      | CPU_CORE2 \<Rightarrow> ''Intel Core''
      | CPU_K8 \<Rightarrow> ''AMD K8 and derivates''
      | CPU_P4 \<Rightarrow> ''Intel P4''
      | CPU_NEHALEM \<Rightarrow> (''Intel Xeon 5500 series / Core i3/5/7 ('' @ [CHR 0x22] @ ''Nehalem/Westmere'' @ [CHR 0x22] @ '')'')
      | CPU_DUNNINGTON \<Rightarrow> ''Intel Xeon 7400 series''
      | CPU_TULSA \<Rightarrow> ''Intel Xeon 7100 series''
      | CPU_INTEL \<Rightarrow> ''Intel generic architectural MCA''
      | CPU_XEON75XX \<Rightarrow> ''Intel Xeon 7500 series''
      | CPU_SANDY_BRIDGE \<Rightarrow> ''Sandy Bridge''
      | CPU_SANDY_BRIDGE_EP \<Rightarrow> ''Sandy Bridge EP''
      | CPU_IVY_BRIDGE \<Rightarrow> ''Ivy Bridge''
      | CPU_IVY_BRIDGE_EPEX \<Rightarrow> ''Ivy Bridge EP/EX''
      | CPU_HASWELL \<Rightarrow> ''Haswell''
      | CPU_HASWELL_EPEX \<Rightarrow> ''Intel Xeon v3 (Haswell) EP/EX''
      | CPU_BROADWELL \<Rightarrow> ''Broadwell''
      | CPU_BROADWELL_DE \<Rightarrow> ''Broadwell DE''
      | CPU_BROADWELL_EPEX \<Rightarrow> ''Broadwell EP/EX''
      | CPU_KNIGHTS_LANDING \<Rightarrow> ''Knights Landing''
      | CPU_KNIGHTS_MILL \<Rightarrow> ''Knights Mill''
      | CPU_SKYLAKE_XEON \<Rightarrow> ''Skylake server''
      | CPU_AMD_SMCA \<Rightarrow> ''AMD Scalable MCA''
      | CPU_DHYANA \<Rightarrow> ''Hygon Family 18h Moksha''
      | CPU_ICELAKE_XEON \<Rightarrow> ''Icelake server''
      | CPU_ICELAKE_DE \<Rightarrow> ''Icelake server D Family''
      | CPU_TREMONT_D \<Rightarrow> ''Tremont microserver''
      | CPU_SAPPHIRERAPIDS \<Rightarrow> ''Sapphirerapids server''
      | CPU_EMERALDRAPIDS \<Rightarrow> ''Emeraldrapids server''
      | CPU_GRANITERAPIDS \<Rightarrow> ''Graniterapids server''
      | CPU_GRANITERAPIDS_D \<Rightarrow> ''Graniterapids server D Family''
      | CPU_SIERRAFOREST \<Rightarrow> ''Sierraforest server''
      | CPU_CLEARWATERFOREST \<Rightarrow> ''Clearwaterforest server''
      | CPU_DIAMONDRAPIDS \<Rightarrow> ''Diamondrapids server''
      | CPU_ZHAOXIN \<Rightarrow> ''Zhaoxin generic CPU''
      | CPU_ZHAOXIN_KH50000 \<Rightarrow> ''Zhaoxin KH-50000 server'')"

definition printed :: "bool \<Rightarrow> string \<Rightarrow> string" where
  "printed b s = (if b then s else [])"

text \<open>The level, and the text after the time stamp.\<close>

definition mce_level :: "mce_event \<Rightarrow> string" where
  "mce_level e =
     (if flagged (status e) MCI_STATUS_UC then loglevel_str LOGLEVEL_CRIT
      else if flagged (status e) MCI_STATUS_DEFERRED then loglevel_str LOGLEVEL_CRIT
      else loglevel_str LOGLEVEL_ERR)"

definition report_mce_body :: "mce_priv \<Rightarrow> mce_event \<Rightarrow> string" where
  "report_mce_body mce e =
     (if bank_name e \<noteq> [] then bank_name e else ''bank='' @ fmt_x (bank e)) @
     '', status= '' @ fmt_x (status e) @
     printed (error_msg e \<noteq> []) ('', '' @ error_msg e) @
     printed (mcistatus_msg e \<noteq> []) ('', mci='' @ mcistatus_msg e) @
     printed (mcastatus_msg e \<noteq> []) ('', mca='' @ mcastatus_msg e) @
     printed (user_action e \<noteq> []) ('' '' @ user_action e) @
     printed (mc_location e \<noteq> []) ('', '' @ mc_location e) @
     '', cpu_type= '' @ cputype_name (cpu_type mce) @
     '', cpu= '' @ fmt_d (cpu e) @
     '', socketid= '' @ fmt_d (socketid e) @
     printed (ip e \<noteq> 0)
       ('', ip= '' @ fmt_x (ip e) @ printed (\<not> flagged (mcgstatus e) MCG_STATUS_EIPV) '' (INEXACT)'') @
     printed (cs e \<noteq> 0) ('', cs= '' @ fmt_x (cs e)) @
     printed (flagged (status e) MCI_STATUS_MISCV) ('', misc= '' @ fmt_x (misc e)) @
     printed (flagged (status e) MCI_STATUS_ADDRV) ('', addr= '' @ fmt_x (addr e)) @
     printed (flagged (status e) MCI_STATUS_SYNDV) ('', synd= '' @ fmt_x (synd e)) @
     printed (ipid e \<noteq> 0) ('', ipid= '' @ fmt_x (ipid e)) @
     (if mcgstatus_msg e \<noteq> [] then '', '' @ mcgstatus_msg e
      else '', mcgstatus= '' @ fmt_x (mcgstatus e)) @
     printed (mcgcap e \<noteq> 0) ('', mcgcap= '' @ fmt_x (mcgcap e)) @
     '', apicid= '' @ fmt_x (apicid e) @
     printed (ppin e \<noteq> 0) ('', ppin= '' @ fmt_x (ppin e)) @
     printed (microcode e \<noteq> 0) ('', microcode= '' @ fmt_x (microcode e)) @
     printed (vdata_len e \<noteq> 0 \<and> frutext e \<noteq> []) ('', FRU Text= '' @ frutext e)"

text \<open>
  The time stamp of a stored event is the wall time it was recorded at. Without a broken down time the
  time stamp is the empty string of the cleared event.
\<close>

definition report_mce_event :: "clock \<Rightarrow> bool \<Rightarrow> mce_priv \<Rightarrow> mce_event \<Rightarrow> string" where
  "report_mce_event ck erst mce e =
     (let now = (if \<not> erst then event_time ck else walltime e);
          stamp = (case strf ck now of None \<Rightarrow> [] | Some t \<Rightarrow> t)
      in mce_level e @ '' '' @ stamp @ '' '' @ report_mce_body mce e)"

section \<open>An event of the trace\<close>

text \<open>The fields the handler needs, in the order in which it reads them.\<close>

definition mce_fields :: "string list" where
  "mce_fields = [''mcgcap'', ''mcgstatus'', ''status'', ''addr'', ''misc'', ''ip'', ''tsc'', ''walltime'', ''cpu'',
     ''cpuid'', ''apicid'', ''socketid'', ''cs'', ''bank'', ''cpuvendor'', ''synd'', ''ipid'']"

definition read_mce_event :: "trace_event \<Rightarrow> mce_event option" where
  "read_mce_event ev =
     do {
       v \<leftarrow> field_val ev ''mcgcap''; let e = zero_event\<lparr>mcgcap := v\<rparr>;
       v \<leftarrow> field_val ev ''mcgstatus''; let e = e\<lparr>mcgstatus := v\<rparr>;
       v \<leftarrow> field_val ev ''status''; let e = e\<lparr>status := v\<rparr>;
       v \<leftarrow> field_val ev ''addr''; let e = e\<lparr>addr := v\<rparr>;
       v \<leftarrow> field_val ev ''misc''; let e = e\<lparr>misc := v\<rparr>;
       v \<leftarrow> field_val ev ''ip''; let e = e\<lparr>ip := v\<rparr>;
       v \<leftarrow> field_val ev ''tsc''; let e = e\<lparr>tsc := v\<rparr>;
       v \<leftarrow> field_val ev ''walltime''; let e = e\<lparr>walltime := v\<rparr>;
       v \<leftarrow> field_val ev ''cpu''; let e = e\<lparr>cpu := ucast v\<rparr>;
       v \<leftarrow> field_val ev ''cpuid''; let e = e\<lparr>cpuid := ucast v\<rparr>;
       v \<leftarrow> field_val ev ''apicid''; let e = e\<lparr>apicid := ucast v\<rparr>;
       v \<leftarrow> field_val ev ''socketid''; let e = e\<lparr>socketid := ucast v\<rparr>;
       v \<leftarrow> field_val ev ''cs''; let e = e\<lparr>cs := ucast v\<rparr>;
       v \<leftarrow> field_val ev ''bank''; let e = e\<lparr>bank := ucast v\<rparr>;
       v \<leftarrow> field_val ev ''cpuvendor''; let e = e\<lparr>cpuvendor := ucast v\<rparr>;
       v \<leftarrow> field_val ev ''synd''; let e = e\<lparr>synd := v\<rparr>;
       v \<leftarrow> field_val ev ''ipid''; let e = e\<lparr>ipid := v\<rparr>;
       let e = (case field_val ev ''ppin'' of None \<Rightarrow> e | Some v \<Rightarrow> e\<lparr>ppin := v\<rparr>);
       let e = (case field_val ev ''microcode'' of None \<Rightarrow> e | Some v \<Rightarrow> e\<lparr>microcode := ucast v\<rparr>);
       Some (case field_words ev ''v_data'' of None \<Rightarrow> e | Some (ws, n) \<Rightarrow> e\<lparr>vdata := ws, vdata_len := n\<rparr>)
     }"

text \<open>What the tracing library says of the optional fields an event does not have.\<close>

definition optional_complaints :: "trace_event \<Rightarrow> string" where
  "optional_complaints ev =
     printed (field_val ev ''ppin'' = None) (complaint ev ''ppin'') @
     printed (field_val ev ''microcode'' = None) (complaint ev ''microcode'') @
     printed (field_words ev ''v_data'' = None) (complaint ev ''v_data'')"

text \<open>The decoder for the CPU type: its result and the event.\<close>

definition decode_by_cputype :: "mce_priv \<Rightarrow> mce_event \<Rightarrow> (int \<times> mce_event) option" where
  "decode_by_cputype mce e =
     (case cpu_type mce of
        CPU_GENERIC \<Rightarrow> Some (0, e)
      | CPU_K8 \<Rightarrow> parse_amd_k8_event e
      | CPU_AMD_SMCA \<Rightarrow> map_option (Pair 0) (parse_amd_smca_event mce e)
      | CPU_DHYANA \<Rightarrow> map_option (Pair 0) (parse_amd_smca_event mce e)
      | CPU_ZHAOXIN \<Rightarrow> map_option (Pair 0) (parse_zhaoxin_event mce e)
      | CPU_ZHAOXIN_KH50000 \<Rightarrow> map_option (Pair 0) (parse_zhaoxin_event mce e)
      | _ \<Rightarrow> map_option (Pair 0) (parse_intel_event mce e))"

text \<open>
  The outcome: the result, the output, and the event handed to the database and the reports. After a
  field that is missing the output ends with what the library says of it.
\<close>

definition ras_mce_event_handler ::
  "clock \<Rightarrow> mce_priv \<Rightarrow> trace_event \<Rightarrow> (int \<times> string \<times> mce_event option) option" where
  "ras_mce_event_handler ck mce ev =
     (case read_mce_event ev of
        None \<Rightarrow> Some (- 1, complaint ev (hd (dropWhile (\<lambda>f. field_val ev f \<noteq> None) mce_fields)), None)
      | Some e \<Rightarrow> do {
          (rc, e) \<leftarrow> decode_by_cputype mce e;
          (if rc \<noteq> 0 then Some (rc, optional_complaints ev, None)
           else do {
             e \<leftarrow> (if error_msg e = [] \<and> mcastatus_msg e \<noteq> [] then add_error_msg (mcastatus_msg e) e else Some e);
             Some (0, optional_complaints ev @ report_mce_event ck False mce e, Some e)
           })
        })"

lemma isspace_simps [c_simps]:
  "isspace (CHR 0x09)" "isspace (CHR 0x0A)" "isspace (CHR '' '')" "\<not> isspace (CHR '':'')"
  "\<not> isspace (CHR ''f'')" "\<not> isspace (CHR ''M'')" "\<not> isspace (CHR ''n'')"
  by (simp_all add: isspace_def code_of_def)

section \<open>Which CPU is taken for which\<close>












section \<open>What becomes of an event\<close>

text \<open>The events on which a decoder reads out of a table or an uninitialised variable, or shifts too far.\<close>

definition mce_undefined :: "mce_priv \<Rightarrow> mce_event \<Rightarrow> bool" where
  "mce_undefined mce e \<longleftrightarrow>
     (case cpu_type mce of
        CPU_GENERIC \<Rightarrow> False
      | CPU_K8 \<Rightarrow> \<not> k8_dropped e \<and> bank e \<le> 5 \<and> \<not> bit (status e) 5
      | CPU_AMD_SMCA \<Rightarrow> smca_type (ipid_hwid mce e) (ucast (EXTRACT (ipid e) 44 47)) = None \<or>
          vdata_len e \<noteq> 0 \<and> length (vdata e) < 2
      | CPU_DHYANA \<Rightarrow> smca_type (ipid_hwid mce e) (ucast (EXTRACT (ipid e) 44 47)) = None \<or>
          vdata_len e \<noteq> 0 \<and> length (vdata e) < 2
      | CPU_ZHAOXIN \<Rightarrow> False
      | CPU_ZHAOXIN_KH50000 \<Rightarrow> bank e \<ge> 32
      | c \<Rightarrow> i10nm_banks c \<noteq> None \<and> bank e \<ge> 32 \<and> bank e \<noteq> MCE_THERMAL_BANK)"

lemma intel_event_cases:
  "if i10nm_banks (cpu_type mce) \<noteq> None \<and> bank e \<ge> 32 \<and> bank e \<noteq> MCE_THERMAL_BANK
   then parse_intel_event mce e = None else decodes e (parse_intel_event mce e)"
  using decodes_intel_general [of mce e] intel_out_of_range [of mce e] by (auto simp: not_le)

lemma zhaoxin_event_cases:
  "if cpu_type mce = CPU_ZHAOXIN_KH50000 \<and> bank e \<ge> 32
   then parse_zhaoxin_event mce e = None else decodes e (parse_zhaoxin_event mce e)"
proof -
  obtain e1 where e1: "parse_zhaoxin_event mce e =
      (if cpu_type mce = CPU_ZHAOXIN_KH50000 then kh50000_decode_model e1 else Some e1)"
    "decodes e (Some e1)" "bank e1 = bank e"
    by (rule parse_zhaoxin_after_status)
  show ?thesis
    using decodes_trans [OF e1(2) decodes_kh50000] kh50000_undefined [of e1] e1 by (auto simp: not_le)
qed

lemma smca_bank_none:
  assumes "vdata_len e \<noteq> 0" and "length (vdata e) < 2"
  shows "decode_smca_bank t m e = None"
proof -
  have copy: "copy_frutext e' = None" if "registers e' = registers e" for e'
    using assms registers_eqD(11,12) [OF that] by (simp add: copy_frutext_def)
  show ?thesis
    unfolding decode_smca_bank_def Let_def Option.bind_assoc [symmetric]
  proof (rule bind_decodes_None [of e], goal_cases)
    case 1
    show ?case by (intro decodes_intros table_str_total smca_descs_present) simp_all
  next
    case (2 e')
    then show ?case by (rule copy)
  qed
qed

lemma smca_event_cases:
  "if smca_type (ipid_hwid m e) (ucast (EXTRACT (ipid e) 44 47)) = None \<or>
      vdata_len e \<noteq> 0 \<and> length (vdata e) < 2
   then parse_amd_smca_event m e = None else decodes e (parse_amd_smca_event m e)"
proof -
  have hw: "ipid_hwid m e' = ipid_hwid m e" "ipid e' = ipid e" "vdata_len e' = vdata_len e" "vdata e' = vdata e"
    if "registers e' = registers e" for e'
    using registers_eqD(8,11,12) [OF that] by (simp_all add: ipid_hwid_def)
  have none: "decode_smca_error m e' = None"
    if "registers e' = registers e" "smca_type (ipid_hwid m e) (ucast (EXTRACT (ipid e) 44 47)) = None \<or>
      vdata_len e \<noteq> 0 \<and> length (vdata e) < 2" for e'
    using that(2) smca_bank_none [of e'] hw [OF that(1)] by (auto simp: decode_smca_error_eq split: option.split)
  have some: "decodes e' (decode_smca_error m e')"
    if "registers e' = registers e" "\<not> (smca_type (ipid_hwid m e) (ucast (EXTRACT (ipid e) 44 47)) = None \<or>
      vdata_len e \<noteq> 0 \<and> length (vdata e) < 2)" for e'
    using that(2) decodes_smca_bank [of e'] hw [OF that(1)] by (auto simp: decode_smca_error_eq split: option.split)
  have "decodes e' (amd_smca_errcode e')" for e'
    unfolding amd_smca_errcode_def by (intro decodes_intros)
  show ?thesis
  proof (cases "smca_type (ipid_hwid m e) (ucast (EXTRACT (ipid e) 44 47)) = None \<or>
      vdata_len e \<noteq> 0 \<and> length (vdata e) < 2")
    case True
    show ?thesis
      unfolding if_P [OF True] parse_amd_smca_event_def Let_def Option.bind_assoc [symmetric]
    proof (rule arg_cong [where f = "\<lambda>r. r \<bind> amd_smca_errcode" and y = None, simplified],
        rule bind_decodes_None [of e], goal_cases)
      case 1
      show ?case by (intro decodes_intros)
    next
      case (2 e')
      then show ?case by (intro none True)
    qed
  next
    case False
    show ?thesis
      unfolding if_not_P [OF False] parse_amd_smca_event_def amd_smca_errcode_def Let_def
      by (intro decodes_intros some False) simp
  qed
qed

text \<open>A decoder is undefined exactly on these events; otherwise it fails exactly on the events K8 drops.\<close>

lemma decode_by_cputype_classes:
  "decode_by_cputype mce e =
     (if cpu_type mce = CPU_GENERIC then Some (0, e)
      else if cpu_type mce = CPU_K8 then parse_amd_k8_event e
      else if cpu_type mce \<in> {CPU_AMD_SMCA, CPU_DHYANA} then map_option (Pair 0) (parse_amd_smca_event mce e)
      else if cpu_type mce \<in> {CPU_ZHAOXIN, CPU_ZHAOXIN_KH50000} then
        map_option (Pair 0) (parse_zhaoxin_event mce e)
      else map_option (Pair 0) (parse_intel_event mce e))"
  by (cases "cpu_type mce") (simp_all add: decode_by_cputype_def)

lemma mce_undefined_classes:
  "mce_undefined mce e =
     (if cpu_type mce = CPU_GENERIC then False
      else if cpu_type mce = CPU_K8 then \<not> k8_dropped e \<and> bank e \<le> 5 \<and> \<not> bit (status e) 5
      else if cpu_type mce \<in> {CPU_AMD_SMCA, CPU_DHYANA} then
        smca_type (ipid_hwid mce e) (ucast (EXTRACT (ipid e) 44 47)) = None \<or>
        vdata_len e \<noteq> 0 \<and> length (vdata e) < 2
      else if cpu_type mce \<in> {CPU_ZHAOXIN, CPU_ZHAOXIN_KH50000} then
        cpu_type mce = CPU_ZHAOXIN_KH50000 \<and> bank e \<ge> 32
      else i10nm_banks (cpu_type mce) \<noteq> None \<and> bank e \<ge> 32 \<and> bank e \<noteq> MCE_THERMAL_BANK)"
  by (cases "cpu_type mce") (simp_all add: mce_undefined_def)

lemma None_iff_cases: "(if b then r = None else decodes e r) \<Longrightarrow> r = None \<longleftrightarrow> b"
  by (auto dest: decodes_not_None split: if_splits)

lemma decode_by_cputype_None: "decode_by_cputype mce e = None \<longleftrightarrow> mce_undefined mce e"
  unfolding decode_by_cputype_classes mce_undefined_classes
  using None_iff_cases [OF intel_event_cases [of mce e]] None_iff_cases [OF smca_event_cases [of mce e]]
    None_iff_cases [OF zhaoxin_event_cases [of mce e]] k8_event_undefined [of e]
  by (simp only: option.map_disc_iff option.distinct split: if_split) simp

lemma decode_by_cputype_Some:
  assumes "decode_by_cputype mce e = Some (rc, e')"
  shows "if cpu_type mce = CPU_K8 \<and> k8_dropped e then rc = - 1
    else rc = 0 \<and> decodes e (Some (e'\<lparr>ip := ip e\<rparr>)) \<and> (cpu_type mce \<noteq> CPU_K8 \<longrightarrow> ip e' = ip e)"
proof -
  have ip: "ip e'' = ip e" "e''\<lparr>ip := ip e\<rparr> = e''" if "registers e'' = registers e" for e''
  proof -
    have "ip (registers x) = ip x" for x by (simp add: registers_def)
    then show "ip e'' = ip e" using that by metis
    then show "e''\<lparr>ip := ip e\<rparr> = e''" by simp
  qed
  have dec: "rc = 0 \<and> decodes e (Some (e'\<lparr>ip := ip e\<rparr>)) \<and> ip e' = ip e"
    if "map_option (Pair 0) r = Some (rc, e')" "if b then r = None else decodes e r" for r b
  proof -
    have r: "r = Some e'" "rc = 0" using that(1) by auto
    then have d: "decodes e (Some e')" using that(2) by (cases b) simp_all
    then have "registers e' = registers e" by (simp add: decodes_def)
    note e' = ip [OF this]
    show ?thesis unfolding e' using d r by simp
  qed
  show ?thesis
  proof (cases "cpu_type mce = CPU_K8 \<or> cpu_type mce = CPU_GENERIC")
    case True
    show ?thesis
    proof (cases "cpu_type mce = CPU_K8")
      case True
      then show ?thesis using assms k8_event_kept [of e rc e'] by (simp add: decode_by_cputype_classes split: if_splits)
    next
      case False
      then have "rc = 0" "e' = e" using True assms by (simp_all add: decode_by_cputype_classes)
      then show ?thesis using False by (simp add: decodes_Some)
    qed
  next
    case False
    then consider "decode_by_cputype mce e = map_option (Pair 0) (parse_amd_smca_event mce e)"
      | "decode_by_cputype mce e = map_option (Pair 0) (parse_zhaoxin_event mce e)"
      | "decode_by_cputype mce e = map_option (Pair 0) (parse_intel_event mce e)"
      using False decode_by_cputype_classes [of mce e] by (auto split: if_splits)
    then have "rc = 0 \<and> decodes e (Some (e'\<lparr>ip := ip e\<rparr>)) \<and> ip e' = ip e"
      using dec [OF _ smca_event_cases] dec [OF _ zhaoxin_event_cases] dec [OF _ intel_event_cases] assms
      by cases metis+
    then show ?thesis using False by simp
  qed
qed

lemma read_mce_event_None:
  "read_mce_event ev = None \<longleftrightarrow> (\<exists>f \<in> set mce_fields. field_val ev f = None)"
  unfolding read_mce_event_def mce_fields_def Let_def bind_eq_None_conv
  by (simp only: option.distinct list.set bex_simps simp_thms bex_empty)

lemma read_mce_event_fits: "read_mce_event ev = Some e \<Longrightarrow> messages_fit e"
  by (auto simp: read_mce_event_def Let_def bind_eq_Some_conv messages_fit_def zero_event_def
      split: option.splits)

lemma read_mce_event_values:
  assumes "read_mce_event ev = Some e"
  shows "field_val ev ''status'' = Some (status e)" "map_option ucast (field_val ev ''bank'') = Some (bank e)"
  using assms by (auto simp: read_mce_event_def Let_def bind_eq_Some_conv split: option.splits)

lemma registers_ip: "registers a = registers b \<Longrightarrow> registers (a\<lparr>ip := x\<rparr>) = registers (b\<lparr>ip := x\<rparr>)"
proof -
  have "registers (c\<lparr>ip := x\<rparr>) = (registers c)\<lparr>ip := x\<rparr>" for c by (simp add: registers_def)
  then show "registers a = registers b \<Longrightarrow> registers (a\<lparr>ip := x\<rparr>) = registers (b\<lparr>ip := x\<rparr>)" by simp
qed

lemma messages_fit_ip: "messages_fit (e\<lparr>ip := x\<rparr>) = messages_fit e"
  by (simp add: messages_fit_def)

text \<open>
  C14: what becomes of a machine check of the trace. Without a field the handler needs, it fails with
  \<open>-1\<close> and nothing is stored. Otherwise it has undefined behaviour exactly on the events of
  \<open>mce_undefined\<close>; it fails with \<open>-1\<close>, storing nothing, exactly for the events the K8 decoder drops;
  and in every other case it returns 0 and stores and reports an event with the registers of the trace,
  the instruction pointer apart on K8, and every message within its buffer.
\<close>

theorem ras_mce_event_handler_outcome:
  "case read_mce_event ev of
     None \<Rightarrow> (\<exists>f \<in> set mce_fields. field_val ev f = None) \<and>
       (\<exists>out. ras_mce_event_handler ck mce ev = Some (- 1, out, None))
   | Some e \<Rightarrow>
       if mce_undefined mce e then ras_mce_event_handler ck mce ev = None
       else if cpu_type mce = CPU_K8 \<and> k8_dropped e
       then \<exists>out. ras_mce_event_handler ck mce ev = Some (- 1, out, None)
       else \<exists>out e'. ras_mce_event_handler ck mce ev =
              Some (0, optional_complaints ev @ report_mce_event ck False mce e', Some e') \<and>
            registers (e'\<lparr>ip := ip e\<rparr>) = registers e \<and> messages_fit e'"
proof (cases "read_mce_event ev")
  case None
  then show ?thesis using read_mce_event_None [of ev] by (simp add: ras_mce_event_handler_def)
next
  case read: (Some e)
  have fit: "messages_fit e" using read by (rule read_mce_event_fits)
  show ?thesis
  proof (cases "decode_by_cputype mce e")
    case None
    then show ?thesis using read decode_by_cputype_None [of mce e] by (simp add: ras_mce_event_handler_def)
  next
    case (Some r)
    obtain rc e1 where r: "r = (rc, e1)" by fastforce
    have def: "\<not> mce_undefined mce e" using Some decode_by_cputype_None [of mce e] by simp
    note kept = decode_by_cputype_Some [of mce e rc e1]
    show ?thesis
    proof (cases "cpu_type mce = CPU_K8 \<and> k8_dropped e")
      case True
      then show ?thesis using read Some r def kept by (simp add: ras_mce_event_handler_def)
    next
      case False
      then have e1: "rc = 0" "decodes e (Some (e1\<lparr>ip := ip e\<rparr>))" using kept Some r by auto
      have "decodes e1 (if error_msg e1 = [] \<and> mcastatus_msg e1 \<noteq> [] then add_error_msg (mcastatus_msg e1) e1
          else Some e1)"
        by (intro decodes_intros)
      then obtain e2 where e2: "(if error_msg e1 = [] \<and> mcastatus_msg e1 \<noteq> []
            then add_error_msg (mcastatus_msg e1) e1 else Some e1) = Some e2"
        "registers e2 = registers e1" "messages_fit e1 \<Longrightarrow> messages_fit e2"
        by (auto simp: decodes_def)
      have "registers (e2\<lparr>ip := ip e\<rparr>) = registers e"
        using e1(2) registers_ip [OF e2(2), of "ip e"] by (simp add: decodes_def)
      moreover have "messages_fit e2" using e1(2) e2(3) fit by (simp add: decodes_def messages_fit_ip)
      ultimately show ?thesis
        using read Some r def False e1(1) e2(1) by (simp add: ras_mce_event_handler_def del: if_split)
    qed
  qed
qed

theorem ras_mce_event_handler_outcome_witness:
  "\<exists>out e'. ras_mce_event_handler
     \<lparr>use_uptime = True, ts = 0, user_hz = 100, uptime_diff = 0, time_now = 0, strf = \<lambda>_. None\<rparr>
     (zero_priv\<lparr>cpu_type := CPU_K8\<rparr>)
     \<lparr>field_val = \<lambda>f. if f = ''status'' then Some 0x20 else Some 3, field_str = \<lambda>_. None,
      field_words = \<lambda>_. None, complaint = \<lambda>_. []\<rparr> = Some (0, out, Some e') \<and> messages_fit e' \<and> status e' = 0x20"
proof -
  let ?ev = "\<lparr>field_val = \<lambda>f. if f = ''status'' then Some 0x20 else Some 3, field_str = \<lambda>_. None,
      field_words = \<lambda>_. None, complaint = \<lambda>_. []\<rparr> :: trace_event"
  let ?ck = "\<lparr>use_uptime = True, ts = 0, user_hz = 100, uptime_diff = 0, time_now = 0, strf = \<lambda>_. None\<rparr>"
  have "read_mce_event ?ev \<noteq> None" unfolding read_mce_event_None by simp
  then obtain e where e: "read_mce_event ?ev = Some e" by blast
  note v = read_mce_event_values [OF e]
  have "\<not> mce_undefined (zero_priv\<lparr>cpu_type := CPU_K8\<rparr>) e" "\<not> k8_dropped e"
    using v by (auto simp: mce_undefined_def k8_dropped_def)
  then have "\<exists>out e'. ras_mce_event_handler ?ck (zero_priv\<lparr>cpu_type := CPU_K8\<rparr>) ?ev = Some (0, out, Some e') \<and>
      registers (e'\<lparr>ip := ip e\<rparr>) = registers e \<and> messages_fit e'"
    using ras_mce_event_handler_outcome [of ?ev ?ck "zero_priv\<lparr>cpu_type := CPU_K8\<rparr>"]
    unfolding e by (simp, blast)
  then obtain out e' where h: "ras_mce_event_handler ?ck (zero_priv\<lparr>cpu_type := CPU_K8\<rparr>) ?ev = Some (0, out, Some e')"
    "registers (e'\<lparr>ip := ip e\<rparr>) = registers e" "messages_fit e'"
    by blast
  moreover have "status e' = 0x20" using registers_eqD(1) [OF h(2)] v by simp
  ultimately show ?thesis by blast
qed

end
