(* ===== verification/Mce_Offline.thy ===== *)
theory Mce_Offline
  imports Mce_Handler
begin

text \<open>
  The decoder for registers given on the command line, \<open>ras_offline_mce_event\<close> of \<open>ras-mce-handler.c\<close>,
  and the options of \<open>rasdaemon.c\<close> that fill its event. A result of \<open>None\<close> is undefined behaviour.
\<close>

section \<open>The event and its options\<close>

record ras_mc_offline_event =
  of_smca :: bool
  of_model :: u32
  of_family :: u32
  of_bank :: u8
  of_ipid :: u64
  of_synd :: u64
  of_status :: u64

text \<open>The event is a static variable; an option is its key with the argument it takes.\<close>

datatype offline_option =
  SMCA | MODEL string | FAMILY string | BANK_NUM string | IPID_REG string | STATUS_REG string
| SYNDROME_REG string

text \<open>\<open>strtoul\<close> with base 0: the base is read off the digits.\<close>

definition strtoul_0 :: "string \<Rightarrow> u64" where
  "strtoul_0 s =
     (let t = snd (skip_sign (skip_space s));
          b = (if prefixb ''0x'' t \<or> prefixb ''0X'' t then 16 else if prefixb ''0'' t then 8 else 10)
      in fst (strtoul b s))"

definition atoi_s32 :: "string \<Rightarrow> s32" where
  "atoi_s32 s = word_of_int (fst (strtol 10 s))"

definition parse_opt_offline :: "offline_option \<Rightarrow> ras_mc_offline_event \<Rightarrow> ras_mc_offline_event" where
  "parse_opt_offline key ev =
     (case key of
        SMCA \<Rightarrow> ev\<lparr>of_smca := True\<rparr>
      | MODEL arg \<Rightarrow> ev\<lparr>of_model := ucast (strtoul_0 arg)\<rparr>
      | FAMILY arg \<Rightarrow> ev\<lparr>of_family := ucast (strtoul_0 arg)\<rparr>
      | BANK_NUM arg \<Rightarrow> ev\<lparr>of_bank := ucast (atoi_s32 arg)\<rparr>
      | IPID_REG arg \<Rightarrow> ev\<lparr>of_ipid := strtoul_0 arg\<rparr>
      | STATUS_REG arg \<Rightarrow> ev\<lparr>of_status := strtoul_0 arg\<rparr>
      | SYNDROME_REG arg \<Rightarrow> ev\<lparr>of_synd := strtoul_0 arg\<rparr>)"

section \<open>The decoder\<close>

definition report_mce_offline :: "clock \<Rightarrow> mce_event \<Rightarrow> string" where
  "report_mce_offline ck e =
     (case strf ck (time_now ck) of None \<Rightarrow> [] | Some t \<Rightarrow> t) @ '','' @
     (if bank_name e \<noteq> [] then '' '' @ bank_name e @ '','' else '' bank='' @ fmt_x (bank e) @ '','') @
     printed (mcastatus_msg e \<noteq> []) ('' mca: '' @ mcastatus_msg e @ '','') @
     printed (mcistatus_msg e \<noteq> []) ('' mci: '' @ mcistatus_msg e @ '','') @
     printed (mc_location e \<noteq> []) ('' Locn: '' @ mc_location e @ '','') @
     printed (error_msg e \<noteq> []) ('' Error Msg: '' @ error_msg e @ NL)"

text \<open>
  The result, what is logged and what is printed. \<open>mem\<close> tells whether the two allocations succeed; the
  error number of one that fails is returned as it is.
\<close>

definition ras_offline_mce_event ::
  "clock \<Rightarrow> bool \<times> bool \<Rightarrow> int + string list \<Rightarrow> ras_mc_offline_event \<Rightarrow> (int \<times> string \<times> string) option" where
  "ras_offline_mce_event ck mem cpuinfo event =
     (if \<not> fst mem then Some (ENOMEM, ''Can't allocate memory for mce struct'' @ NL, [])
      else if \<not> snd mem then Some (ENOMEM, ''Can't allocate memory for mce_priv struct'' @ NL, [])
      else
        let (rc, priv) =
          (if of_smca event
           then (0, zero_priv\<lparr>cpu_type := CPU_AMD_SMCA, family := of_family event, model := of_model event\<rparr>)
           else detect_cpu cpuinfo zero_priv)
        in if rc \<noteq> 0 then Some (rc, ''Failed to detect CPU'' @ NL, [])
        else
          let e = zero_event\<lparr>status := of_status event, bank := of_bank event\<rparr>
          in if cpu_type priv = CPU_AMD_SMCA then
            let e = e\<lparr>synd := of_synd event, ipid := of_ipid event\<rparr>
            in if ipid e = 0 \<or> status e = 0
            then Some (- EINVAL, (if ipid e \<noteq> 0 then ''Status'' else ''Ipid'') @ '' MSR required.'' @ NL, [])
            else do {
              e \<leftarrow> decode_smca_error priv e;
              e \<leftarrow> amd_smca_errcode e;
              Some (0, [], report_mce_offline ck e)
            }
          else Some (0, [], report_mce_offline ck e))"

section \<open>What the options give\<close>

lemma skip_0x_16:
  assumes "digit_of 16 c \<noteq> None"
  shows "skip_0x 16 (''0x'' @ c # s) = c # s"
  using assms by simp

lemma strtoul_0_hex:
  assumes "n < 2 ^ 64"
  shows "strtoul_0 (''0x'' @ to_base 16 n) = of_nat n"
proof -
  obtain c cs where c: "to_base 16 n = c # cs" by (cases "to_base 16 n") auto
  have n: "scan_digits 16 (to_base 16 n) \<noteq> []" "digits_value 16 (scan_digits 16 (to_base 16 n)) = n"
    using scan_to_base [of 16 "[]" n] by simp_all
  then have "digit_of 16 c \<noteq> None" using c by (auto split: option.splits)
  then have "skip_0x 16 (''0x'' @ to_base 16 n) = to_base 16 n"
    unfolding c by (rule skip_0x_16)
  then show ?thesis
    using n assms by (simp add: strtoul_0_def strtoul_def c_simps isspace_def code_of_def Let_def)
qed

lemma atoi_s32_to_base: "n < 2 ^ 63 \<Longrightarrow> atoi_s32 (to_base 10 n) = of_nat n"
  using strtol_to_base_10 [of n "[]"] by (simp add: atoi_s32_def)


section \<open>What is decoded\<close>

text \<open>The numbers as they are given on the command line, and the event and CPU they stand for.\<close>

definition hex_arg :: "'a::len word \<Rightarrow> string" where
  "hex_arg w = ''0x'' @ to_base 16 (unat w)"

definition smca_options :: "u32 \<Rightarrow> u32 \<Rightarrow> u8 \<Rightarrow> u64 \<Rightarrow> u64 \<Rightarrow> u64 \<Rightarrow> offline_option list" where
  "smca_options f m b i st y =
     [SMCA, FAMILY (hex_arg f), MODEL (hex_arg m), BANK_NUM (to_base 10 (unat b)), IPID_REG (hex_arg i),
      STATUS_REG (hex_arg st), SYNDROME_REG (hex_arg y)]"

definition smca_offline_priv :: "u32 \<Rightarrow> u32 \<Rightarrow> mce_priv" where
  "smca_offline_priv f m = zero_priv\<lparr>cpu_type := CPU_AMD_SMCA, family := f, model := m\<rparr>"

lemma strtoul_0_hex_arg: "LENGTH('a::len) \<le> 64 \<Longrightarrow> strtoul_0 (hex_arg (w :: 'a word)) = ucast w"
proof -
  assume "LENGTH('a) \<le> 64"
  then have "(2::nat) ^ LENGTH('a) \<le> 2 ^ 64" by (rule power_increasing) simp
  with unsigned_less [of w] have "unat w < 2 ^ 64" by (rule less_le_trans)
  then show ?thesis using strtoul_0_hex [of "unat w"] by (simp add: hex_arg_def)
qed

lemma ucast_ucast_small: "ucast (ucast (w :: u8) :: s32) = w" "ucast (ucast (v :: u32) :: u64) = v"
  by (rule bit_word_eqI, auto simp: bit_simps)+

lemma smca_options_read:
  "fold parse_opt_offline (smca_options f m b i st y) ev =
     \<lparr>of_smca = True, of_model = m, of_family = f, of_bank = b, of_ipid = i, of_synd = y, of_status = st\<rparr>"
proof -
  have "unat b < 2 ^ 63" using unsigned_less [of b, where ?'a = nat] by simp
  then have "atoi_s32 (to_base 10 (unat b)) = ucast b" by (simp add: atoi_s32_to_base)
  then show ?thesis
    by (cases ev) (simp add: smca_options_def parse_opt_offline_def strtoul_0_hex_arg ucast_ucast_small)
qed

text \<open>
  An event of a scalable AMD CPU given by its registers on the command line, in hexadecimal and the
  bank in decimal, is refused exactly when the IPID or the status is zero, has undefined behaviour exactly
  when no bank type has its hardware id, and is otherwise decoded from just these registers and printed.
\<close>

theorem offline_registers_decoded:
  "let r = ras_offline_mce_event ck (True, True) cpuinfo (fold parse_opt_offline (smca_options f m b i st y) ev);
       e = zero_event\<lparr>status := st, bank := b, synd := y, ipid := i\<rparr>
   in if i = 0 then r = Some (- EINVAL, ''Ipid MSR required.'' @ NL, [])
      else if st = 0 then r = Some (- EINVAL, ''Status MSR required.'' @ NL, [])
      else if smca_type (ipid_hwid (smca_offline_priv f m) e) (ucast (EXTRACT i 44 47)) = None then r = None
      else \<exists>e'. decodes e (Some e') \<and> r = Some (0, [], report_mce_offline ck e')"
proof -
  let ?e = "zero_event\<lparr>status := st, bank := b, synd := y, ipid := i\<rparr>"
  let ?p = "smca_offline_priv f m"
  let ?d = "decode_smca_error ?p ?e \<bind> amd_smca_errcode"
  let ?t = "smca_type (ipid_hwid ?p ?e) (ucast (EXTRACT i 44 47))"
  have none: "?t = None \<Longrightarrow> ?d = None"
    by (simp add: decode_smca_error_eq)
  have some: "decodes ?e ?d" if "?t \<noteq> None"
  proof -
    have "vdata_len ?e = 0" by (simp add: zero_event_def)
    then have "decodes ?e (decode_smca_error ?p ?e)"
      using that decodes_smca_bank [of ?e] by (auto simp: decode_smca_error_eq split: option.split)
    then show ?thesis unfolding amd_smca_errcode_def by (intro decodes_intros)
  qed
  have run: "ras_offline_mce_event ck (True, True) cpuinfo (fold parse_opt_offline (smca_options f m b i st y) ev) =
    (if i = 0 then Some (- EINVAL, ''Ipid MSR required.'' @ NL, [])
     else if st = 0 then Some (- EINVAL, ''Status MSR required.'' @ NL, [])
     else map_option (\<lambda>e. (0, [], report_mce_offline ck e)) ?d)"
    unfolding smca_options_read
    by (simp add: ras_offline_mce_event_def Let_def smca_offline_priv_def map_conv_bind_option comp_def)
  show ?thesis
    unfolding run Let_def using none some by (cases ?d) (auto simp: decodes_def)
qed

end
