(* ===== verification/Byte_Layout.thy ===== *)
theory Byte_Layout
  imports Prelude "HOL-Library.Monad_Syntax"
begin

text \<open>
  Structures as the bytes that hold them: reading a little-endian integer at an offset, reading past the
  end being \<open>None\<close> in \<open>member\<close>, and the bytes of an integer.
\<close>

unbundle bit_operations_syntax

primrec le_value :: "u8 list \<Rightarrow> u64" where
  "le_value [] = 0"
| "le_value (b # bs) = ucast b OR push_bit 8 (le_value bs)"

definition at_offset :: "nat \<Rightarrow> nat \<Rightarrow> u8 list \<Rightarrow> u64" where
  "at_offset off n bs = le_value (take n (drop off bs))"

definition member :: "nat \<Rightarrow> nat \<Rightarrow> u8 list \<Rightarrow> u64 option" where
  "member off n bs = (if off + n \<le> length bs then Some (at_offset off n bs) else None)"

section \<open>Writing and reading\<close>

primrec le_bytes :: "nat \<Rightarrow> u64 \<Rightarrow> u8 list" where
  "le_bytes 0 w = []"
| "le_bytes (Suc n) w = ucast w # le_bytes n (drop_bit 8 w)"

lemma length_le_bytes [simp]: "length (le_bytes n w) = n"
  by (induction n arbitrary: w) simp_all

lemma le_value_bytes: "le_value (le_bytes n w) = take_bit (8 * n) w"
proof (induction n arbitrary: w)
  case (Suc n)
  show ?case
  proof (rule bit_word_eqI)
    fix i assume "i < LENGTH(64)"
    then show "bit (le_value (le_bytes (Suc n) w)) i = bit (take_bit (8 * Suc n) w) i"
      by (cases "i < 8") (auto simp: Suc.IH bit_simps)
  qed
qed simp

lemma le_value_8: "le_value (le_bytes 8 w) = w"
  unfolding le_value_bytes by (rule bit_word_eqI) (simp add: bit_simps)

lemma le_value_4: "ucast (le_value (le_bytes 4 (ucast (v :: u32)))) = v"
  unfolding le_value_bytes by (rule bit_word_eqI) (simp add: bit_simps)

lemma le_value_1: "ucast (ucast b :: u64) = (b :: u8)"
  by (rule bit_word_eqI) (simp add: bit_simps)

lemma member_Some [simp]: "off + n \<le> length bs \<Longrightarrow> member off n bs = Some (at_offset off n bs)"
  by (simp add: member_def)

lemma at_offset_append [simp]: "off + n \<le> length xs \<Longrightarrow> at_offset off n (xs @ ys) = at_offset off n xs"
  by (simp add: at_offset_def)

end
