(* ===== verification/Erst.thy ===== *)
theory Erst
  imports Mce_Offline Byte_Layout
begin

text \<open>
  \<open>ras-erst.c\<close>: machine checks that the firmware kept over a reboot. At its start the daemon reads the
  files of the persistent store that hold a kernel record each, has the records decoded and prints them.
  The directory and what happens to each of its files are a parameter. A result of \<open>None\<close> is undefined
  behaviour.
\<close>

section \<open>The record in a file\<close>

record mce =
  m_status :: u64
  m_misc :: u64
  m_addr :: u64
  m_mcgstatus :: u64
  m_ip :: u64
  m_tsc :: u64
  m_time :: u64
  m_cpuvendor :: u8
  m_inject_flags :: u8
  m_severity :: u8
  m_pad :: u8
  m_cpuid :: u32
  m_cs :: u8
  m_bank :: u8
  m_cpu :: u8
  m_finished :: u8
  m_extcpu :: u32
  m_socketid :: u32
  m_apicid :: u32
  m_mcgcap :: u64
  m_synd :: u64
  m_ipid :: u64
  m_ppin :: u64
  m_microcode :: u32

text \<open>The integers of the structure are little endian; its size is a multiple of eight.\<close>

definition sizeof_mce :: nat where "sizeof_mce = 120"

definition mce_of_bytes :: "u8 list \<Rightarrow> mce" where
  "mce_of_bytes bs =
     \<lparr>m_status = at_offset 0 8 bs, m_misc = at_offset 8 8 bs, m_addr = at_offset 16 8 bs,
      m_mcgstatus = at_offset 24 8 bs, m_ip = at_offset 32 8 bs, m_tsc = at_offset 40 8 bs,
      m_time = at_offset 48 8 bs, m_cpuvendor = ucast (at_offset 56 1 bs),
      m_inject_flags = ucast (at_offset 57 1 bs), m_severity = ucast (at_offset 58 1 bs),
      m_pad = ucast (at_offset 59 1 bs), m_cpuid = ucast (at_offset 60 4 bs), m_cs = ucast (at_offset 64 1 bs),
      m_bank = ucast (at_offset 65 1 bs), m_cpu = ucast (at_offset 66 1 bs), m_finished = ucast (at_offset 67 1 bs),
      m_extcpu = ucast (at_offset 68 4 bs), m_socketid = ucast (at_offset 72 4 bs),
      m_apicid = ucast (at_offset 76 4 bs), m_mcgcap = at_offset 80 8 bs, m_synd = at_offset 88 8 bs,
      m_ipid = at_offset 96 8 bs, m_ppin = at_offset 104 8 bs, m_microcode = ucast (at_offset 112 4 bs)\<rparr>"

definition copy_mce :: "mce \<Rightarrow> mce_event \<Rightarrow> mce_event" where
  "copy_mce m e =
     e\<lparr>mcgcap := m_mcgcap m, mcgstatus := m_mcgstatus m, status := m_status m, addr := m_addr m,
       misc := m_misc m, synd := m_synd m, ipid := m_ipid m, ip := m_ip m, tsc := m_tsc m,
       walltime := m_time m, cpu := m_extcpu m, cpuid := m_cpuid m, apicid := m_apicid m,
       socketid := m_socketid m, cs := m_cs m, bank := m_bank m, cpuvendor := m_cpuvendor m,
       ppin := m_ppin m, microcode := m_microcode m\<rparr>"

section \<open>The files\<close>

text \<open>
  A directory entry: its name, whether it is a regular file (\<open>None\<close> when the kernel does not say), and
  whether opening, examining and deleting it succeeds.
\<close>

record erst_file =
  ef_name :: string
  ef_regular :: "bool option"
  ef_opens :: bool
  ef_stat :: bool
  ef_bytes :: "u8 list"
  ef_unlinks :: bool

definition ERST_PATH :: string where "ERST_PATH = ''/sys/fs/pstore/erst''"
definition MCE_ERST_PREFIX :: string where "MCE_ERST_PREFIX = ''mce-erst''"
definition ERST_EVENT_NAME :: string where "ERST_EVENT_NAME = ''mce_erst_record''"

text \<open>The event, what is logged, and whether the file is deleted.\<close>

definition handle_erst_mce_file :: "s32 \<Rightarrow> string \<Rightarrow> erst_file \<Rightarrow> mce_event \<Rightarrow> mce_event \<times> string \<times> bool" where
  "handle_erst_mce_file erst_delete path f e =
     (if \<not> ef_opens f then (e, ''Failed to open file '' @ path @ NL, False)
      else if \<not> ef_stat f then (e, ''Failed to stat file '' @ path @ NL, False)
      else if length (ef_bytes f) < sizeof_mce then (e, ''Failed to read file '' @ path @ NL, False)
      else
        let e = copy_mce (mce_of_bytes (ef_bytes f)) e
        in if erst_delete \<noteq> 0 then
             if ef_unlinks f then (e, ''Error deleting file '' @ path @ NL, True)
             else (e, ''Failed to delete file '' @ path @ NL, False)
           else (e, [], False))"

section \<open>The handler\<close>

text \<open>The columns of a trace line, with the placeholders for the process, the CPU and the time.\<close>

definition erst_prefix :: string where
  "erst_prefix =
     replicate 11 (CHR '' '') @ ''<...>-0'' @ replicate 9 (CHR '' '') @ '' [-01] .... 0.000000 '' @
     replicate 10 (CHR '' '') @ ERST_EVENT_NAME @ '': ''"

definition decode_erst :: "mce_priv \<Rightarrow> mce_event \<Rightarrow> (int \<times> mce_event) option" where
  "decode_erst mce e =
     (case cpu_type mce of
        CPU_GENERIC \<Rightarrow> Some (0, e)
      | CPU_K8 \<Rightarrow> parse_amd_k8_event e
      | CPU_AMD_SMCA \<Rightarrow> map_option (Pair 0) (parse_amd_smca_event mce e)
      | CPU_DHYANA \<Rightarrow> map_option (Pair 0) (parse_amd_smca_event mce e)
      | _ \<Rightarrow> map_option (Pair 0) (parse_intel_event mce e))"

definition ras_erst_mce_handler :: "clock \<Rightarrow> mce_priv \<Rightarrow> mce_event \<Rightarrow> string option" where
  "ras_erst_mce_handler ck mce e =
     do {
       (rc, e) \<leftarrow> decode_erst mce e;
       (if rc \<noteq> 0 then Some []
        else do {
          e \<leftarrow> add_error_msg (mcastatus_msg e) e;
          Some (erst_prefix @ report_mce_event ck True mce e @ NL)
        })
     }"

text \<open>One entry of the directory, and the directory: what is logged, what is printed, what is deleted.\<close>

definition handle_erst_entry ::
  "clock \<Rightarrow> s32 \<Rightarrow> mce_priv \<Rightarrow> erst_file \<Rightarrow> (string \<times> string \<times> string list) option" where
  "handle_erst_entry ck erst_delete mce f =
     (if \<not> prefixb MCE_ERST_PREFIX (ef_name f) then Some ([], [], [])
      else
        let path = take 1023 (ERST_PATH @ ''/'' @ ef_name f)
        in case ef_regular f of
          None \<Rightarrow> None
        | Some False \<Rightarrow> Some (''Unexpected file type'' @ NL, [], [])
        | Some True \<Rightarrow>
            (let (e, logged, deleted) = handle_erst_mce_file erst_delete path f zero_event
             in map_option (\<lambda>out. (logged, out, if deleted then [path] else []))
                  (ras_erst_mce_handler ck mce e)))"

primrec handle_erst_dir ::
  "clock \<Rightarrow> s32 \<Rightarrow> mce_priv \<Rightarrow> erst_file list \<Rightarrow> (string \<times> string \<times> string list) option" where
  "handle_erst_dir ck erst_delete mce [] = Some ([], [], [])"
| "handle_erst_dir ck erst_delete mce (f # fs) =
     do {
       (l, out, d) \<leftarrow> handle_erst_entry ck erst_delete mce f;
       (l', out', d') \<leftarrow> handle_erst_dir ck erst_delete mce fs;
       Some (l @ l', out @ out', d @ d')
     }"

text \<open>The directory is \<open>None\<close> when it cannot be opened.\<close>

definition handle_erst_mce ::
  "clock \<Rightarrow> bool \<Rightarrow> int + string list \<Rightarrow> erst_file list option \<Rightarrow> s32 \<Rightarrow> (string \<times> string \<times> string list) option" where
  "handle_erst_mce ck mem cpuinfo dir erst_delete =
     (case init_mce_priv mem cpuinfo of
        (rc, None) \<Rightarrow> Some (''Can't register mce handler'' @ NL, [], [])
      | (rc, Some mce) \<Rightarrow>
          (case dir of
             None \<Rightarrow> Some (''Failed to open directory'' @ NL, [], [])
           | Some fs \<Rightarrow> handle_erst_dir ck erst_delete mce fs))"

definition handle_erst ::
  "clock \<Rightarrow> (string \<Rightarrow> string option) \<Rightarrow> bool \<Rightarrow> int + string list \<Rightarrow> erst_file list option \<Rightarrow>
     (string \<times> string \<times> string list) option" where
  "handle_erst ck getenv mem cpuinfo dir =
     handle_erst_mce ck mem cpuinfo dir
       (case getenv ''ERST_DELETE'' of None \<Rightarrow> 0 | Some s \<Rightarrow> atoi_s32 s)"

section \<open>What is read of a file\<close>

text \<open>
  C22: of a file of at least 120 bytes that can be opened and examined, every register of the event is the
  little-endian integer at the place the kernel's record has it, and the file is deleted exactly when deletion
  is asked for and succeeds, success being logged as an error. Of any other file nothing is read and nothing
  is deleted; it is decoded and printed all the same, as an event whose registers are all zero.
\<close>

theorem erst_file_read_back:
  "case handle_erst_mce_file d path f e of (e', logged, deleted) \<Rightarrow>
     (if ef_opens f \<and> ef_stat f \<and> 120 \<le> length (ef_bytes f)
      then list_all (\<lambda>(reg, i). reg e' = at_offset i 8 (ef_bytes f))
             [(status, 0), (misc, 8), (addr, 16), (mcgstatus, 24), (ip, 32), (tsc, 40), (walltime, 48),
              (mcgcap, 80), (synd, 88), (ipid, 96), (ppin, 104)] \<and>
           list_all (\<lambda>(reg, i). reg e' = ucast (at_offset i 4 (ef_bytes f)))
             [(cpuid, 60), (cpu, 68), (socketid, 72), (apicid, 76), (microcode, 112)] \<and>
           list_all (\<lambda>(reg, i). reg e' = ucast (at_offset i 1 (ef_bytes f)))
             [(cpuvendor, 56), (cs, 64), (bank, 65)] \<and>
           deleted = (d \<noteq> 0 \<and> ef_unlinks f) \<and>
           logged = (if d = 0 then [] else if ef_unlinks f then ''Error deleting file '' @ path @ NL
                     else ''Failed to delete file '' @ path @ NL)
      else e' = e \<and> \<not> deleted \<and> logged \<noteq> [] \<and>
           map_option (fst \<circ> snd)
             (handle_erst_entry ck d mce (f\<lparr>ef_name := MCE_ERST_PREFIX @ n, ef_regular := Some True\<rparr>)) =
           ras_erst_mce_handler ck mce zero_event)"
  by (simp add: handle_erst_mce_file_def handle_erst_entry_def Let_def copy_mce_def mce_of_bytes_def sizeof_mce_def
      option.map_comp comp_def option.map_ident)

section \<open>How a record is decoded\<close>

lemma decode_erst_same:
  "cpu_type mce \<notin> {CPU_ZHAOXIN, CPU_ZHAOXIN_KH50000} \<Longrightarrow> decode_erst mce e = decode_by_cputype mce e"
  by (cases "cpu_type mce") (simp_all add: decode_erst_def decode_by_cputype_def)

lemma decode_erst_zhaoxin:
  assumes "cpu_type mce \<in> {CPU_ZHAOXIN, CPU_ZHAOXIN_KH50000}"
  shows "decode_erst mce e = map_option (Pair 0) (parse_intel_event mce e)" and
    "decodes e (parse_intel_event mce e)"
  using assms intel_event_cases [of mce e] by (auto simp: decode_erst_def i10nm_banks_def)

text \<open>
  C23: a stored record is decoded as a machine check of the trace is, on the same events and with the same
  events dropped, except on a Zhaoxin CPU, where the decoder for Intel CPUs is used. The line printed shows
  the time of the record.
\<close>

theorem erst_decodes_like_trace:
  "ras_erst_mce_handler ck mce e =
     (if cpu_type mce \<in> {CPU_ZHAOXIN, CPU_ZHAOXIN_KH50000}
      then do {
        e \<leftarrow> parse_intel_event mce e;
        e \<leftarrow> add_error_msg (mcastatus_msg e) e;
        Some (erst_prefix @ report_mce_event (ck\<lparr>use_uptime := False, time_now := walltime e\<rparr>) False mce e @ NL)
      }
      else do {
        (rc, e) \<leftarrow> decode_by_cputype mce e;
        e \<leftarrow> add_error_msg (mcastatus_msg e) e;
        Some (if rc \<noteq> 0 then []
          else erst_prefix @ report_mce_event (ck\<lparr>use_uptime := False, time_now := walltime e\<rparr>) False mce e @ NL)
      })"
  using decode_erst_same [of mce e] decode_erst_zhaoxin(1) [of mce e]
  by (auto simp: ras_erst_mce_handler_def report_mce_event_def event_time_def add_error_msg_def bind_map_option
      comp_def split: option.split intro!: bind_option_cong)

end
