(* ===== verification/Event_Reader.thy ===== *)
theory Event_Reader
  imports Trigger "HOL-Library.Monad_Syntax"
begin

text \<open>
  How an event handler reads a record: field by field, giving up at the first that the record does not
  have. A handler ends with its output and either nothing, when it returned an error, or what it produced;
  \<open>None\<close> is undefined behaviour. \<open>reads\<close> states the whole contract of a handler, and its rules prove it
  along the structure of the handler.
\<close>

section \<open>Readers\<close>

type_synonym 'a handled = "(string \<times> 'a option) option"

definition failed :: "string \<Rightarrow> 'a handled" where
  "failed out = Some (out, None)"

definition get_val :: "trace_event \<Rightarrow> string \<Rightarrow> string \<Rightarrow> (u64 \<Rightarrow> 'a handled) \<Rightarrow> 'a handled" where
  "get_val e out f k = (case field_val e f of None \<Rightarrow> failed (out @ complaint e f) | Some v \<Rightarrow> k v)"

definition get_str :: "trace_event \<Rightarrow> string \<Rightarrow> string \<Rightarrow> (string \<Rightarrow> 'a handled) \<Rightarrow> 'a handled" where
  "get_str e out f k = (case field_str e f of None \<Rightarrow> failed (out @ complaint e f) | Some t \<Rightarrow> k t)"

text \<open>The time stamp of the handlers that print one they did not initialise when there is no local time.\<close>

definition stamped :: "clock \<Rightarrow> (string \<Rightarrow> 'a handled) \<Rightarrow> 'a handled" where
  "stamped ck k = (case strf ck (event_time ck) of None \<Rightarrow> None | Some t \<Rightarrow> k t)"

text \<open>A table of names by code, and the name for a code that is not in it.\<close>

definition name_of :: "('a \<times> string) list \<Rightarrow> string \<Rightarrow> 'a \<Rightarrow> string" where
  "name_of t unknown x = (case map_of t x of None \<Rightarrow> unknown | Some s \<Rightarrow> s)"

section \<open>The contract of a handler\<close>

datatype need = Val string | Str string

definition present :: "trace_event \<Rightarrow> need \<Rightarrow> bool" where
  "present e n = (case n of Val f \<Rightarrow> field_val e f \<noteq> None | Str f \<Rightarrow> field_str e f \<noteq> None)"

text \<open>The handler fails exactly when a field is missing, and produces what satisfies \<open>P\<close> otherwise.\<close>

definition reads :: "trace_event \<Rightarrow> need list \<Rightarrow> 'a handled \<Rightarrow> ('a \<Rightarrow> bool) \<Rightarrow> bool" where
  "reads e ns r P \<longleftrightarrow>
     (if list_all (present e) ns then \<exists>out x. r = Some (out, Some x) \<and> P x else \<exists>out. r = failed out)"

named_theorems reads_intros \<open>a handler that reads the fields it needs and fails without one\<close>

lemma reads_val [reads_intros]:
  "(\<And>v. field_val e f = Some v \<Longrightarrow> reads e ns (k v) P) \<Longrightarrow> reads e (Val f # ns) (get_val e out f k) P"
  by (auto simp: reads_def get_val_def present_def split: option.split)

lemma reads_str [reads_intros]:
  "(\<And>t. field_str e f = Some t \<Longrightarrow> reads e ns (k t) P) \<Longrightarrow> reads e (Str f # ns) (get_str e out f k) P"
  by (auto simp: reads_def get_str_def present_def split: option.split)

lemma reads_stamped [reads_intros]:
  "strf ck (event_time ck) = Some t \<Longrightarrow> reads e ns (k t) P \<Longrightarrow> reads e ns (stamped ck k) P"
  by (simp add: stamped_def)

lemma reads_done [reads_intros]: "P x \<Longrightarrow> reads e [] (Some (out, Some x)) P"
  by (simp add: reads_def)

lemma reads_iff:
  "reads e ns r P \<Longrightarrow> r = Some (out, Some x) \<Longrightarrow> list_all (present e) ns \<and> P x"
  by (auto simp: reads_def failed_def split: if_splits)

end
