(* ===== verification/Unified_Sel.thy ===== *)
theory Unified_Sel
  imports Event_Reader Bitfield
begin

text \<open>
  \<open>unified-sel.c\<close>: the errors of a PCI device are entered in the event log of the board by running
  \<open>ipmitool\<close>, one command per error. The exit status of a command is a parameter.
\<close>

section \<open>The name of a PCI device\<close>

text \<open>
  \<open>sscanf\<close> with \<open>%x\<close>: the value, stored in an \<open>int\<close>, and the rest. A number that does not fit 64 bits
  is the largest one.
\<close>

definition sscanf_x :: "string \<Rightarrow> (u32 \<times> string) option" where
  "sscanf_x s =
     (let (neg, s1) = skip_sign (skip_space s);
          hex = prefixb ''0x'' s1 \<or> prefixb ''0X'' s1;
          s2 = (if hex then drop 2 s1 else s1);
          ds = scan_digits 16 s2;
          n = digits_value 16 ds
      in if ds = [] \<and> \<not> hex then None
         else Some (if n > 2 ^ 64 - 1 then - 1 else if neg then - of_nat n else of_nat n, drop (length ds) s2))"

text \<open>A format of hexadecimal numbers, each with the text that has to follow it.\<close>

primrec scan_hexs :: "string list \<Rightarrow> string \<Rightarrow> u32 list" where
  "scan_hexs [] s = []"
| "scan_hexs (sep # seps) s =
     (case sscanf_x s of
        None \<Rightarrow> []
      | Some (v, t) \<Rightarrow> v # (if prefixb sep t then scan_hexs seps (drop (length sep) t) else []))"

section \<open>The errors\<close>

definition aer_severity_corrected :: u64 where "aer_severity_corrected = 2"

definition ids_table :: "(nat \<times> string) list \<Rightarrow> string option list" where
  "ids_table xs = map (map_of xs) [0..<32]"

definition cor_error_ids :: "string option list" where
  "cor_error_ids = ids_table
     [(0, ''0x00''), (6, ''0x01''), (7, ''0x02''), (8, ''0x04''), (12, ''0x03''), (13, ''0x05''),
      (14, ''0x06''), (15, ''0x07'')]"

definition uncor_error_ids :: "string option list" where
  "uncor_error_ids = ids_table
     [(4, ''0x20''), (5, ''0x21''), (12, ''0x22''), (13, ''0x23''), (14, ''0x24''), (15, ''0x25''),
      (16, ''0x26''), (17, ''0x27''), (18, ''0x28''), (19, ''0x29''), (20, ''0x2A''), (21, ''0x2B''),
      (22, ''0x2C''), (23, ''0x2D''), (24, ''0x2E''), (25, ''0x2F'')]"

definition fmt_02x :: "u32 \<Rightarrow> string" where
  "fmt_02x w = ''0x'' @ pad0 2 (fmt_x w)"

text \<open>The command, cut to its buffer.\<close>

definition sel_command :: "u32 \<Rightarrow> u32 \<Rightarrow> string \<Rightarrow> string" where
  "sel_command bus dev_fn ident =
     take 104 (''ipmitool raw 0x0a 0x44 0x00 0x00 0xFB 0x20 0x00 0x00 0x00 0x00 0x01 0x00 '' @
       fmt_02x dev_fn @ '' '' @ fmt_02x bus @ '' 0x01 0x00 0xff '' @ ident)"

text \<open>
  The loop over the 32 bits, from bit \<open>i\<close> on: the commands that are run and the result. \<open>1 << 31\<close> is the
  negative number that the compiler makes of it.
\<close>

primrec sel_loop ::
  "(string \<Rightarrow> s32) \<Rightarrow> u64 \<Rightarrow> u32 \<Rightarrow> u32 \<Rightarrow> string option list \<Rightarrow> nat \<Rightarrow> string list \<times> int" where
  "sel_loop sys st bus dev_fn [] i = ([], 0)"
| "sel_loop sys st bus dev_fn (ident # idents) i =
     (let rest = sel_loop sys st bus dev_fn idents (Suc i)
      in if st AND scast (push_bit i 1 :: s32) = 0 then rest
         else case ident of
           None \<Rightarrow> rest
         | Some s \<Rightarrow>
             (let c = sel_command bus dev_fn s
              in if sys c \<noteq> 0 then ([c], - 1) else (c # fst rest, snd rest)))"

definition verify_id_log_sel ::
  "(string \<Rightarrow> s32) \<Rightarrow> u64 \<Rightarrow> string option list \<Rightarrow> u32 \<Rightarrow> u32 \<Rightarrow> string list \<times> int" where
  "verify_id_log_sel sys st idarray bus dev_fn = sel_loop sys st bus dev_fn idarray 0"

definition pci_dev_fn :: "u32 \<Rightarrow> u32 \<Rightarrow> u32" where
  "pci_dev_fn dev fn = push_bit 3 (dev AND 0x1f) OR (fn AND 0x7)"

definition openbmc_unified_sel_log :: "(string \<Rightarrow> s32) \<Rightarrow> u64 \<Rightarrow> string \<Rightarrow> u64 \<Rightarrow> string list \<times> int" where
  "openbmc_unified_sel_log sys severity dev_name st =
     (case scan_hexs ['':'', '':'', ''.'', []] dev_name of
        [_, bus, dev, fn] \<Rightarrow>
          verify_id_log_sel sys st (if severity = aer_severity_corrected then cor_error_ids else uncor_error_ids)
            bus (pci_dev_fn dev fn)
      | _ \<Rightarrow> ([], - 1))"

section \<open>What is entered in the log\<close>

text \<open>The commands for a device: one for every set bit with an identifier, in order.\<close>

definition sel_commands :: "u64 \<Rightarrow> string option list \<Rightarrow> nat \<Rightarrow> u32 \<Rightarrow> u32 \<Rightarrow> string list" where
  "sel_commands st idents i bus dev_fn =
     map (\<lambda>x. sel_command bus dev_fn (the (snd x)))
       (filter (\<lambda>x. bit st (fst x) \<and> snd x \<noteq> None) (enumerate i idents))"

text \<open>What running commands until one fails does.\<close>

primrec run_until_failure :: "(string \<Rightarrow> s32) \<Rightarrow> string list \<Rightarrow> string list \<times> int" where
  "run_until_failure sys [] = ([], 0)"
| "run_until_failure sys (c # rest) =
     (if sys c \<noteq> 0 then ([c], - 1) else (c # fst (run_until_failure sys rest), snd (run_until_failure sys rest)))"

lemma flag_bit:
  assumes "i < 31"
  shows "st AND scast (push_bit i 1 :: s32) = 0 \<longleftrightarrow> \<not> bit (st :: u64) i"
proof -
  have "scast (push_bit i 1 :: s32) = (push_bit i 1 :: u64)"
    using assms by (intro bit_word_eqI) (auto simp: bit_simps)
  then show ?thesis using and_exp_eq_0_iff_not_bit [of st i] by (simp add: push_bit_eq_mult)
qed

lemma sel_loop_runs:
  "i + length idents \<le> 32 \<Longrightarrow> (length idents + i = 32 \<longrightarrow> idents \<noteq> [] \<longrightarrow> last idents = None) \<Longrightarrow>
     sel_loop sys st bus dev_fn idents i = run_until_failure sys (sel_commands st idents i bus dev_fn)"
proof (induction idents arbitrary: i)
  case (Cons x xs)
  have IH: "sel_loop sys st bus dev_fn xs (Suc i) = run_until_failure sys (sel_commands st xs (Suc i) bus dev_fn)"
    using Cons.prems by (intro Cons.IH) auto
  show ?case
  proof (cases "i < 31")
    case True
    then show ?thesis
      using IH flag_bit [OF True, of st] by (simp add: sel_commands_def Let_def split: option.split)
  next
    case False
    then have "xs = []" using Cons.prems(1) by (cases xs) simp_all
    moreover have "x = None" using Cons.prems False calculation by simp
    ultimately show ?thesis by (simp add: sel_commands_def Let_def)
  qed
qed (simp add: sel_commands_def)


section \<open>The name of a device is read back\<close>

lemma hex_digit_char:
  assumes "digit_of 16 c \<noteq> None"
  shows "\<not> isspace c \<and> c \<noteq> CHR ''-'' \<and> c \<noteq> CHR ''+'' \<and> c \<noteq> CHR ''x'' \<and> c \<noteq> CHR ''X''"
proof -
  have "isdigit c \<or> islower c \<or> isupper c" using assms by (auto simp: digit_of_def Let_def split: if_splits)
  then have "\<not> isspace c \<and> c \<noteq> CHR ''-'' \<and> c \<noteq> CHR ''+''"
    by (auto simp: isdigit_def islower_def isupper_def isspace_def code_of_def)
  moreover have "c \<noteq> CHR ''x'' \<and> c \<noteq> CHR ''X''"
    using assms by (auto simp: digit_of_def isdigit_def islower_def isupper_def code_of_def)
  ultimately show ?thesis by blast
qed

lemma sscanf_x_hex:
  assumes "n < 2 ^ 64" and "rest = [] \<or> hd rest = CHR '':'' \<or> hd rest = CHR ''.''"
  shows "sscanf_x (pad0 k (to_base 16 n) @ rest) = Some (of_nat n, rest)"
proof -
  let ?t = "pad0 k (to_base 16 n)"
  have zero: "digit_of 16 (CHR ''0'') = Some 0" by (simp add: digit_of_def isdigit_def code_of_def)
  have t: "list_all (\<lambda>c. digit_of 16 c \<noteq> None) ?t"
    using to_base_digits [of 16 n] zero by (auto simp: pad0_def list_all_iff)
  have v: "digits_value 16 (map (\<lambda>c. the (digit_of 16 c)) ?t) = n"
    using to_base_digits [of 16 n] zero by (simp add: pad0_def digits_value_zeros)
  have stop: "rest = [] \<or> digit_of 16 (hd rest) = None"
    using assms(2) by (auto simp: digit_of_def isdigit_def islower_def isupper_def code_of_def)
  have scan: "scan_digits 16 (?t @ rest) = map (\<lambda>c. the (digit_of 16 c)) ?t"
    by (rule scan_digits_append [OF stop t])
  obtain c u where c: "?t = c # u" by (cases ?t) (auto simp: pad0_def)
  then have ne: "?t \<noteq> []" by simp
  have skip: "skip_sign (skip_space (?t @ rest)) = (False, ?t @ rest)"
    using hex_digit_char [of c] t c by simp
  have no_hex: "\<not> prefixb ''0x'' (?t @ rest)" "\<not> prefixb ''0X'' (?t @ rest)"
    using hex_digit_char t assms(2) unfolding c by (cases u; cases rest; auto)+
  show ?thesis
    unfolding sscanf_x_def skip using v no_hex assms(1) ne by (simp add: Let_def scan)
qed

text \<open>The name of a device as the kernel prints it.\<close>

definition pci_name :: "nat \<Rightarrow> nat \<Rightarrow> nat \<Rightarrow> nat \<Rightarrow> string" where
  "pci_name domain bus slot func =
     pad0 4 (to_base 16 domain) @ '':'' @ pad0 2 (to_base 16 bus) @ '':'' @ pad0 2 (to_base 16 slot) @ ''.'' @
     to_base 10 func"

lemma to_base_small: "n < 8 \<Longrightarrow> to_base 10 n = pad0 1 (to_base 16 n)"
  by (subst (1 2) to_base.simps) (simp add: pad0_def)

lemma scan_pci_name:
  assumes "domain < 2 ^ 32" and "bus < 256" and "slot < 32" and "func < 8"
  shows "scan_hexs ['':'', '':'', ''.'', []] (pci_name domain bus slot func) =
    [of_nat domain, of_nat bus, of_nat slot, of_nat func]"
  using assms sscanf_x_hex [of func "[]" 1]
  by (simp add: pci_name_def to_base_small sscanf_x_hex)


text \<open>The text of a command is not cut: the last byte of the log entry is the identifier of the error.\<close>

lemma length_fmt_02x:
  assumes "n < 256"
  shows "length (fmt_02x (of_nat n)) = 4"
proof -
  have "unat (of_nat n :: u32) = n" using assms by (simp add: unat_of_nat)
  moreover have "length (to_base 16 n) \<le> 2" using assms length_to_base [of 16 n 1] by simp
  ultimately show ?thesis by (simp add: fmt_02x_def fmt_x_def pad0_def)
qed

lemma sel_command_whole:
  assumes "bus < 256" and "n < 256" and "length ident = 4"
  shows "sel_command (of_nat bus) (of_nat n) ident =
     ''ipmitool raw 0x0a 0x44 0x00 0x00 0xFB 0x20 0x00 0x00 0x00 0x00 0x01 0x00 '' @
     fmt_02x (of_nat n) @ '' '' @ fmt_02x (of_nat bus) @ '' 0x01 0x00 0xff '' @ ident"
  unfolding sel_command_def
  by (rule take_all) (simp add: length_fmt_02x [OF assms(1)] length_fmt_02x [OF assms(2)] assms(3))

lemma pci_dev_fn_eq:
  assumes "slot < 32" and "func < 8"
  shows "pci_dev_fn (of_nat slot) (of_nat func) = of_nat (8 * slot + func)"
proof -
  have "list_all (\<lambda>s. list_all (\<lambda>f. pci_dev_fn (of_nat s) (of_nat f) = of_nat (8 * s + f)) [0..<8]) [0..<32]"
    by code_simp
  then show ?thesis using assms by (simp only: list_all_iff set_upt) simp
qed


lemma error_ids_length:
  "list_all (\<lambda>b. case b of None \<Rightarrow> True | Some s \<Rightarrow> length s = 4) cor_error_ids"
  "list_all (\<lambda>b. case b of None \<Rightarrow> True | Some s \<Rightarrow> length s = 4) uncor_error_ids"
  by code_simp+

text \<open>The entries of a device: one for every set bit with an identifier for the severity.\<close>

definition sel_entries :: "u64 \<Rightarrow> u64 \<Rightarrow> nat \<Rightarrow> nat \<Rightarrow> nat \<Rightarrow> string list" where
  "sel_entries severity st bus slot func =
     map (\<lambda>x. ''ipmitool raw 0x0a 0x44 0x00 0x00 0xFB 0x20 0x00 0x00 0x00 0x00 0x01 0x00 '' @
            fmt_02x (of_nat (8 * slot + func)) @ '' '' @ fmt_02x (of_nat bus) @ '' 0x01 0x00 0xff '' @ the (snd x))
       (filter (\<lambda>x. bit st (fst x) \<and> snd x \<noteq> None)
         (enumerate 0 (if severity = aer_severity_corrected then cor_error_ids else uncor_error_ids)))"

lemma openbmc_log_runs:
  assumes "domain < 2 ^ 32" and "bus < 256" and "slot < 32" and "func < 8"
  shows "openbmc_unified_sel_log sys severity (pci_name domain bus slot func) st =
    run_until_failure sys (sel_entries severity st bus slot func)"
proof -
  let ?ids = "if severity = aer_severity_corrected then cor_error_ids else uncor_error_ids"
  have ids: "length ?ids = 32" "last ?ids = None" by (simp_all add: cor_error_ids_def uncor_error_ids_def ids_table_def last_map)
  have fit: "length (the (snd x)) = 4" if "x \<in> set (enumerate 0 ?ids)" "snd x \<noteq> None" for x
  proof -
    have "snd x \<in> set ?ids" using that(1) set_zip_rightD [of "fst x" "snd x"] by (simp add: enumerate_eq_zip split del: if_split)
    then show ?thesis using that(2) error_ids_length by (auto simp: list_all_iff split: if_splits option.splits)
  qed
  have "openbmc_unified_sel_log sys severity (pci_name domain bus slot func) st =
    run_until_failure sys (sel_commands st ?ids 0 (of_nat bus) (of_nat (8 * slot + func)))"
    unfolding openbmc_unified_sel_log_def scan_pci_name [OF assms]
    using sel_loop_runs [of 0 ?ids sys st] ids pci_dev_fn_eq [OF assms(3,4)] by (simp add: verify_id_log_sel_def)
  also have "sel_commands st ?ids 0 (of_nat bus) (of_nat (8 * slot + func)) =
    map (\<lambda>x. ''ipmitool raw 0x0a 0x44 0x00 0x00 0xFB 0x20 0x00 0x00 0x00 0x00 0x01 0x00 '' @
             fmt_02x (of_nat (8 * slot + func)) @ '' '' @ fmt_02x (of_nat bus) @ '' 0x01 0x00 0xff '' @ the (snd x))
        (filter (\<lambda>x. bit st (fst x) \<and> snd x \<noteq> None) (enumerate 0 ?ids))"
    unfolding sel_commands_def using assms fit by (intro map_cong refl sel_command_whole) auto
  finally show ?thesis by (simp only: sel_entries_def)
qed

text \<open>
  C24: for a device named as the kernel names it, the errors entered in the log are those of the status
  bits that are set and have an identifier for the severity, in order of the bits, each with the slot,
  function and bus of the device and its identifier in full, up to the first command that fails; then the
  result is \<open>-1\<close>, otherwise 0.
\<close>

theorem unified_sel_log_exact:
  assumes "domain < 2 ^ 32" and "bus < 256" and "slot < 32" and "func < 8"
  shows "openbmc_unified_sel_log sys severity (pci_name domain bus slot func) st =
    run_until_failure sys
      (map (\<lambda>x. ''ipmitool raw 0x0a 0x44 0x00 0x00 0xFB 0x20 0x00 0x00 0x00 0x00 0x01 0x00 '' @
             fmt_02x (of_nat (8 * slot + func)) @ '' '' @ fmt_02x (of_nat bus) @ '' 0x01 0x00 0xff '' @ the (snd x))
        (filter (\<lambda>x. bit st (fst x) \<and> snd x \<noteq> None)
          (enumerate 0 (if severity = aer_severity_corrected then cor_error_ids else uncor_error_ids))))"
  using openbmc_log_runs [OF assms] by (simp only: sel_entries_def)

theorem unified_sel_log_exact_witness:
  "fst (openbmc_unified_sel_log (\<lambda>_. 0) 2 (pci_name 0 0x3a 2 1) 0x41) =
     [''ipmitool raw 0x0a 0x44 0x00 0x00 0xFB 0x20 0x00 0x00 0x00 0x00 0x01 0x00 0x11 0x3a 0x01 0x00 0xff 0x00'',
      ''ipmitool raw 0x0a 0x44 0x00 0x00 0xFB 0x20 0x00 0x00 0x00 0x00 0x01 0x00 0x11 0x3a 0x01 0x00 0xff 0x01'']"
proof -
  have f: "filter (\<lambda>x. bit (0x41 :: u64) (fst x) \<and> snd x \<noteq> None) (enumerate 0 cor_error_ids) =
      [(0, Some ''0x00''), (6, Some ''0x01'')]"
    by code_simp
  have n: "fmt_02x (of_nat 17) = ''0x11''" "fmt_02x (of_nat 0x3a) = ''0x3a''"
    by code_simp+
  show ?thesis
  proof (subst unified_sel_log_exact, goal_cases)
    case 5
    show ?case unfolding aer_severity_corrected_def if_P [OF refl] f using n by simp
  qed simp_all
qed

end
