(* ===== verification/Aer_Handler.thy ===== *)
theory Aer_Handler
  imports Unified_Sel
begin

text \<open>
  \<open>ras-aer-handler.c\<close>: the handler of errors of PCI Express devices. The PCI library is a parameter,
  \<open>pci_lookup\<close>: for the name of a device that is found, its description, its vendor and its device number.
\<close>

section \<open>The data\<close>

definition HW_EVENT_AER_UNCORRECTED_NON_FATAL :: u64 where "HW_EVENT_AER_UNCORRECTED_NON_FATAL = 0"
definition HW_EVENT_AER_UNCORRECTED_FATAL :: u64 where "HW_EVENT_AER_UNCORRECTED_FATAL = 1"
definition HW_EVENT_AER_CORRECTED :: u64 where "HW_EVENT_AER_CORRECTED = 2"

record ras_aer_event =
  aer_timestamp :: string
  aer_error_type :: string
  aer_dev_name :: string
  tlp_header_valid :: u8
  tlp_header :: "u64 list"
  aer_msg :: string

definition aer_cor_errors :: "string option list" where
  "aer_cor_errors = ids_table
     [(0, ''Receiver Error''), (6, ''Bad TLP''), (7, ''Bad DLLP''), (8, ''RELAY_NUM Rollover''),
      (12, ''Replay Timer Timeout''), (13, ''Advisory Non-Fatal''), (14, ''Corrected Internal Error''),
      (15, ''Header Log Overflow'')]"

definition aer_uncor_errors :: "string option list" where
  "aer_uncor_errors = ids_table
     [(4, ''Data Link Protocol''), (5, ''Surprise Link Down''), (12, ''Poisoned TLP''),
      (13, ''Flow Control Protocol''), (14, ''Completion Timeout''), (15, ''Completer Abort''),
      (16, ''Unexpected Completion''), (17, ''Receiver Overflow''), (18, ''Malformed TLP''), (19, ''ECRC''),
      (20, ''Unsupported Request''), (21, ''ACS Violation''), (22, ''Uncorrected Internal''),
      (23, ''MC Blocked TLP''), (24, ''AtomicOp Egress Blocked''), (25, ''TLP Prefix Blocked''),
      (26, ''Poisoned TLP Egrees Blocked'')]"

text \<open>
  How the program was built and called, what the rest of the system answers, and what is configured.
\<close>

record aer_env =
  have_amp_ns_decode :: bool
  have_openbmc_unified_sel :: bool
  aer_clock :: clock
  pci_lookup :: "string \<Rightarrow> (string \<times> u16 \<times> u16) option"
  aer_system :: "string \<Rightarrow> s32"
  aer_getenv :: "string \<Rightarrow> string option"

record aer_sys =
  use_ipmitool :: bool
  aer_ce_trigger :: "string option"
  aer_ue_trigger :: "string option"

text \<open>What comes of an event that was stored: the result, the commands run and the triggers run.\<close>

record aer_result =
  ar_rc :: int
  ar_event :: ras_aer_event
  ar_commands :: "string list"
  ar_warned :: bool
  ar_runs :: "trigger_run list"

section \<open>The steps\<close>

definition aer_event_trigger_setup ::
  "(string \<Rightarrow> string option) \<Rightarrow> (string \<Rightarrow> bool) \<Rightarrow> aer_sys \<Rightarrow> aer_sys" where
  "aer_event_trigger_setup getenv runnable s =
     s\<lparr>aer_ce_trigger := setup_trigger getenv runnable ''AER_CE_TRIGGER'' (aer_ce_trigger s),
       aer_ue_trigger := setup_trigger getenv runnable ''AER_UE_TRIGGER'' (aer_ue_trigger s)\<rparr>"

definition ras_aer_handler_init :: "bool \<Rightarrow> s32 \<Rightarrow> aer_sys \<Rightarrow> aer_sys" where
  "ras_aer_handler_init have_sel enable_ipmitool s =
     (if have_sel then s\<lparr>use_ipmitool := sint enable_ipmitool > 0\<rparr> else s)"

text \<open>The description in a buffer of 1024 bytes, and the numbers.\<close>

definition get_pci_dev_name :: "aer_env \<Rightarrow> string \<Rightarrow> string \<times> u16 \<times> u16" where
  "get_pci_dev_name env bdf =
     (case pci_lookup env bdf of None \<Rightarrow> ([], 0, 0) | Some (name, vid, did) \<Rightarrow> (take 1023 name, vid, did))"

definition run_aer_trigger :: "(string \<Rightarrow> string option) \<Rightarrow> ras_aer_event \<Rightarrow> string \<Rightarrow> trigger_run" where
  "run_aer_trigger getenv ev trigger =
     (trigger,
      [path_env getenv, ''TIMESTAMP='' @ aer_timestamp ev, ''TYPE='' @ aer_error_type ev,
       ''MESSAGE='' @ aer_msg ev, ''NAME='' @ aer_dev_name ev])"

definition aer_level :: "u64 \<Rightarrow> string" where
  "aer_level sev =
     (if sev = HW_EVENT_AER_UNCORRECTED_NON_FATAL then loglevel_str LOGLEVEL_CRIT
      else if sev = HW_EVENT_AER_UNCORRECTED_FATAL then loglevel_str LOGLEVEL_EMERG
      else if sev = HW_EVENT_AER_CORRECTED then loglevel_str LOGLEVEL_ERR
      else loglevel_str LOGLEVEL_DEBUG)"

definition aer_type :: "u64 \<Rightarrow> string" where
  "aer_type sev =
     (if sev = HW_EVENT_AER_UNCORRECTED_NON_FATAL then ''Uncorrected (Non-Fatal)''
      else if sev = HW_EVENT_AER_UNCORRECTED_FATAL then ''Uncorrected (Fatal)''
      else if sev = HW_EVENT_AER_CORRECTED then ''Corrected''
      else ''Unknown severity'')"

text \<open>The first byte of an entry in the log of the board: the number of the sensor.\<close>

definition aer_sensor :: "u64 \<Rightarrow> u8" where
  "aer_sensor sev =
     (if sev = HW_EVENT_AER_UNCORRECTED_NON_FATAL \<or> sev = HW_EVENT_AER_UNCORRECTED_FATAL then 0xca else 0xbf)"

text \<open>
  The entry in the log of Ampere boards: the command, if the name of the device has four numbers, and
  whether a failure is logged. The name is \<open>sscanf\<close>ed; an empty one gives \<open>EOF\<close>.
\<close>

definition amp_command :: "u64 \<Rightarrow> u32 \<Rightarrow> u32 \<Rightarrow> u32 \<Rightarrow> u32 \<Rightarrow> string" where
  "amp_command sev seg bus dev fn =
     (let hex = (\<lambda>b :: u8. ''0x'' @ pad0 2 (fmt_x b))
      in take 104
        (''ipmitool raw 0x0a 0x44 0x00 0x00 0xc0 0x00 0x00 0x00 0x00 0x3a 0xcd 0x00 0xc0 '' @
         hex (aer_sensor sev) @ '' '' @ hex (ucast (seg AND 0xff)) @ '' '' @
         hex (ucast (drop_bit 8 (seg AND 0xff00))) @ '' '' @ hex (ucast bus) @ '' '' @
         hex (ucast (pci_dev_fn dev fn))))"

definition amp_ns_sel :: "aer_env \<Rightarrow> u64 \<Rightarrow> string \<Rightarrow> string list \<times> bool" where
  "amp_ns_sel env sev dev_name =
     (case scan_hexs ['':'', '':'', ''.'', []] dev_name of
        [seg, bus, dev, fn] \<Rightarrow>
          (let c = amp_command sev seg bus dev fn in ([c], aer_system env c \<noteq> 0))
      | vs \<Rightarrow> ([], vs \<noteq> [] \<or> skip_space dev_name = []))"

text \<open>
  The message: the names of the status bits and, if the event has one, the header of the packet, whose
  four words the record has to hold, cut to the buffer.
\<close>

definition aer_status_msg :: "u64 \<Rightarrow> u64 \<Rightarrow> string option" where
  "aer_status_msg sev st =
     map_option fst
       (bitfield_msg 1024 (if sev = HW_EVENT_AER_CORRECTED then aer_cor_errors else aer_uncor_errors) 0 0 st)"

definition aer_tlp_msg :: "string \<Rightarrow> u64 list \<Rightarrow> string option" where
  "aer_tlp_msg msg ws =
     (case ws of
        w0 # w1 # w2 # w3 # _ \<Rightarrow>
          Some (msg @ take (1023 - length msg)
            ('' TLP Header: '' @ pad0 8 (fmt_x (ucast w0 :: u32)) @ '' '' @ pad0 8 (fmt_x (ucast w1 :: u32)) @ '' '' @
             pad0 8 (fmt_x (ucast w2 :: u32)) @ '' '' @ pad0 8 (fmt_x (ucast w3 :: u32))))
      | _ \<Rightarrow> None)"

text \<open>What follows the last field: the database, the logs of the board, the triggers.\<close>

definition aer_finish :: "aer_env \<Rightarrow> aer_sys \<Rightarrow> u64 \<Rightarrow> u64 \<Rightarrow> ras_aer_event \<Rightarrow> aer_result" where
  "aer_finish env s sev st ev =
     (let amp = (if have_amp_ns_decode env then amp_ns_sel env sev (aer_dev_name ev) else ([], False));
          sel = (if have_openbmc_unified_sel env \<and> use_ipmitool s
                 then openbmc_unified_sel_log (aer_system env) sev (aer_dev_name ev) st else ([], 0))
      in \<lparr>ar_rc = (if snd sel < 0 then - 1 else 0), ar_event = ev, ar_commands = fst amp @ fst sel,
          ar_warned = snd amp,
          ar_runs =
            (if snd sel < 0 then []
             else
               (case aer_ce_trigger s of
                  Some t \<Rightarrow> if aer_error_type ev = ''Corrected'' then [run_aer_trigger (aer_getenv env) ev t] else []
                | None \<Rightarrow> []) @
               (case aer_ue_trigger s of
                  Some t \<Rightarrow> if prefixb ''Uncorrected'' (aer_error_type ev)
                    then [run_aer_trigger (aer_getenv env) ev t] else []
                | None \<Rightarrow> []))\<rparr>)"

definition ras_aer_event_handler :: "aer_env \<Rightarrow> trace_event \<Rightarrow> aer_sys \<Rightarrow> aer_result handled" where
  "ras_aer_event_handler env e s =
     get_val e [] ''severity'' (\<lambda>sev.
     let out = aer_level sev @ '' '' in
     stamped (aer_clock env) (\<lambda>stamp.
     let out = out @ stamp @ '' '' in
     get_str e out ''dev_name'' (\<lambda>dev_name.
     let (name, vid, did) = get_pci_dev_name env dev_name;
         out = out @ dev_name @ '' ('' @ name @ '' - vendor_id: '' @ fmt_alt_x vid @ '' device_id: '' @
           fmt_alt_x did @ '') '' in
     get_val e out ''status'' (\<lambda>st.
     case aer_status_msg sev st of None \<Rightarrow> None | Some msg \<Rightarrow>
     get_val e out ''tlp_header_valid'' (\<lambda>v.
     let valid = (ucast v :: u8);
         ws = (case field_words e ''tlp_header'' of None \<Rightarrow> [] | Some (ws, _) \<Rightarrow> ws) in
     case (if valid \<noteq> 0 then aer_tlp_msg msg ws else Some msg) of None \<Rightarrow> None | Some msg \<Rightarrow>
     Some (out @ msg @ '' '' @ aer_type sev,
       Some (aer_finish env s sev st
         \<lparr>aer_timestamp = stamp, aer_error_type = aer_type sev, aer_dev_name = dev_name,
          tlp_header_valid = valid, tlp_header = (if valid \<noteq> 0 then take 4 ws else []), aer_msg = msg\<rparr>)))))))"


section \<open>What becomes of an event\<close>

lemma length_joined: "length (joined ss) \<le> sum_list (map (\<lambda>s. length s + 2) ss)"
  by (induction ss rule: joined.induct) auto

lemma length_bit_names:
  assumes "\<And>b. b \<in> set bs \<Longrightarrow> length (bit_name 0 b) \<le> n" and "\<And>i. length (''BIT'' @ to_base 10 i) \<le> n \<or> i \<ge> 32"
    and "length bs \<le> 32"
  shows "length (joined (bit_names_from 0 bs 0 st)) \<le> 32 * (n + 2)"
proof -
  let ?ss = "bit_names_from 0 bs 0 st"
  have each: "length s + 2 \<le> n + 2" if "s \<in> set ?ss" for s
  proof -
    obtain i b where "(i, b) \<in> set (enumerate 0 bs)" and s: "s = bit_name i b"
      using \<open>s \<in> set ?ss\<close> by (auto simp: bit_names_from_def)
    then have i: "i < length bs" "b \<in> set bs" by (auto simp: in_set_enumerate_eq dest: nth_mem)
    show ?thesis
    proof (cases b)
      case None
      then show ?thesis using assms(2) [of i] assms(3) i s by (simp add: bit_name_def)
    next
      case (Some t)
      then show ?thesis using assms(1) [OF i(2)] s by (simp add: bit_name_def)
    qed
  qed
  have "sum_list (map (\<lambda>s. length s + 2) ?ss) \<le> sum_list (map (\<lambda>_. n + 2) ?ss)"
    by (rule sum_list_mono) (rule each)
  also have "\<dots> = length ?ss * (n + 2)" by (simp add: sum_list_triv)
  also have "length ?ss \<le> length bs"
    unfolding bit_names_from_def length_map by (rule order_trans [OF length_filter_le]) simp
  finally show ?thesis
    using length_joined [of ?ss] assms(3) by (meson le_trans mult_le_mono1)
qed

text \<open>The names for a severity, joined, leave room for the header of the packet.\<close>

definition aer_names :: "u64 \<Rightarrow> u64 \<Rightarrow> string" where
  "aer_names sev st =
     joined (bit_names_from 0 (if sev = HW_EVENT_AER_CORRECTED then aer_cor_errors else aer_uncor_errors) 0 st)"

lemma aer_tables:
  "list_all (\<lambda>b. length (bit_name 0 b) \<le> 27 \<and> b \<noteq> Some []) aer_cor_errors"
  "list_all (\<lambda>b. length (bit_name 0 b) \<le> 27 \<and> b \<noteq> Some []) aer_uncor_errors"
  by code_simp+

lemma aer_table_lengths: "length aer_cor_errors = 32" "length aer_uncor_errors = 32"
  by (simp_all add: aer_cor_errors_def aer_uncor_errors_def ids_table_def)

lemma length_aer_names: "length (aer_names sev st) \<le> 928"
proof -
  have "length (''BIT'' @ to_base 10 i) \<le> 27 \<or> i \<ge> 32" for i
    using length_to_base [of 10 i 1] by (cases "i < 32") simp_all
  then show ?thesis
    unfolding aer_names_def using aer_tables aer_table_lengths length_bit_names [where n = 27 and st = st]
    by (cases "sev = HW_EVENT_AER_CORRECTED") (auto simp: list_all_iff)
qed

lemma aer_status_msg_names:
  assumes "unat st < 2 ^ 32"
  shows "aer_status_msg sev st = Some (aer_names sev st)"
proof -
  have "Some [] \<notin> set aer_cor_errors" "Some [] \<notin> set aer_uncor_errors"
    using aer_tables by (auto simp: list_all_iff)
  then show ?thesis
    using bitfield_msg_names [OF assms, of 0 aer_cor_errors 1024] bitfield_msg_names [OF assms, of 0 aer_uncor_errors 1024]
      length_aer_names [of sev st] aer_table_lengths
    by (auto simp: aer_status_msg_def aer_names_def split: if_splits)
qed

definition tlp_text :: "u64 list \<Rightarrow> string" where
  "tlp_text ws = '' TLP Header: '' @ pad0 8 (fmt_x (ucast (ws ! 0) :: u32)) @ '' '' @
     pad0 8 (fmt_x (ucast (ws ! 1) :: u32)) @ '' '' @ pad0 8 (fmt_x (ucast (ws ! 2) :: u32)) @ '' '' @
     pad0 8 (fmt_x (ucast (ws ! 3) :: u32))"

lemma length_tlp_text: "length (tlp_text ws) = 48"
proof -
  have "length (pad0 8 (fmt_x (w :: u32))) = 8" for w
    using length_to_base [of 16 "unat w" 7] unat_u32_less [of w] by (simp add: pad0_def fmt_x_def)
  then show ?thesis by (simp add: tlp_text_def)
qed

lemma aer_tlp_msg_text:
  assumes "length msg \<le> 928" and "4 \<le> length ws"
  shows "aer_tlp_msg msg ws = Some (msg @ tlp_text ws)"
proof -
  obtain w0 w1 w2 w3 rest where ws: "ws = w0 # w1 # w2 # w3 # rest"
    using assms(2) by (auto simp: numeral_eq_Suc Suc_le_length_iff)
  have t: "aer_tlp_msg msg ws = Some (msg @ take (1023 - length msg) (tlp_text ws))"
    by (simp add: aer_tlp_msg_def tlp_text_def ws)
  have "length (tlp_text ws) \<le> 1023 - length msg" using assms(1) by (simp add: length_tlp_text)
  then show ?thesis unfolding t by simp
qed

lemma aer_finish_event [simp]: "ar_event (aer_finish env s sev st ev) = ev"
  by (simp add: aer_finish_def Let_def)

lemma reads_mono: "reads e ns r P \<Longrightarrow> (\<And>x. P x \<Longrightarrow> Q x) \<Longrightarrow> reads e ns r Q"
  by (auto simp: reads_def split: if_splits)

text \<open>The program that is run for an event of a severity, with the event in its environment.\<close>

definition aer_trigger_runs :: "aer_env \<Rightarrow> aer_sys \<Rightarrow> u64 \<Rightarrow> ras_aer_event \<Rightarrow> trigger_run list" where
  "aer_trigger_runs env s sev ev =
     (case (if sev = HW_EVENT_AER_CORRECTED then aer_ce_trigger s
            else if sev = HW_EVENT_AER_UNCORRECTED_NON_FATAL \<or> sev = HW_EVENT_AER_UNCORRECTED_FATAL
            then aer_ue_trigger s else None) of
        None \<Rightarrow> []
      | Some trigger \<Rightarrow>
          [(trigger,
            [path_env (aer_getenv env), ''TIMESTAMP='' @ aer_timestamp ev, ''TYPE='' @ aer_error_type ev,
             ''MESSAGE='' @ aer_msg ev, ''NAME='' @ aer_dev_name ev])])"

text \<open>The entries made for a device the kernel names by its domain, bus, slot and function.\<close>

definition byte_hex :: "nat \<Rightarrow> string" where
  "byte_hex n = ''0x'' @ pad0 2 (to_base 16 n)"

definition amp_entry :: "u64 \<Rightarrow> nat \<Rightarrow> nat \<Rightarrow> nat \<Rightarrow> nat \<Rightarrow> string" where
  "amp_entry sev domain bus slot func =
     ''ipmitool raw 0x0a 0x44 0x00 0x00 0xc0 0x00 0x00 0x00 0x00 0x3a 0xcd 0x00 0xc0 '' @
     (if sev = HW_EVENT_AER_UNCORRECTED_NON_FATAL \<or> sev = HW_EVENT_AER_UNCORRECTED_FATAL then ''0xca'' else ''0xbf'') @
     '' '' @ byte_hex (domain mod 256) @ '' '' @ byte_hex (domain div 256 mod 256) @ '' '' @ byte_hex bus @ '' '' @
     byte_hex (8 * slot + func)"

definition aer_log :: "aer_env \<Rightarrow> aer_sys \<Rightarrow> u64 \<Rightarrow> u64 \<Rightarrow> nat \<Rightarrow> nat \<Rightarrow> nat \<Rightarrow> nat \<Rightarrow> string list \<times> int" where
  "aer_log env s sev st domain bus slot func =
     (case (if have_openbmc_unified_sel env \<and> use_ipmitool s
            then run_until_failure (aer_system env) (sel_entries sev st bus slot func) else ([], 0)) of
        (entries, rc) \<Rightarrow>
          ((if have_amp_ns_decode env then [amp_entry sev domain bus slot func] else []) @ entries, rc))"

lemma fmt_x_byte: "n < 256 \<Longrightarrow> ''0x'' @ pad0 2 (fmt_x (of_nat n :: u8)) = byte_hex n"
  by (simp add: fmt_x_def byte_hex_def unat_of_nat)

lemma length_byte_hex: "n < 256 \<Longrightarrow> length (byte_hex n) = 4"
  using length_to_base [of 16 n 1] by (simp add: byte_hex_def pad0_def)

lemma run_until_failure_rc: "snd (run_until_failure f xs) < 0 \<longleftrightarrow> snd (run_until_failure f xs) = - 1"
  "snd (run_until_failure f xs) = - 1 \<or> snd (run_until_failure f xs) = 0"
  by (induction xs) auto

lemma amp_command_entry:
  assumes "domain < 2 ^ 32" and "bus < 256" and "slot < 32" and "func < 8"
  shows "amp_command sev (of_nat domain) (of_nat bus) (of_nat slot) (of_nat func) = amp_entry sev domain bus slot func"
proof -
  have low: "(ucast ((of_nat domain :: u32) AND 0xff) :: u8) = of_nat (domain mod 256)"
  proof (rule word_unat_eq_iff [THEN iffD2])
    have "unat ((of_nat domain :: u32) AND 0xff) = domain mod 256"
      using assms(1) and_mask_unat [of "of_nat domain :: u32" 8] by (simp add: unat_of_nat mask_eq_exp_minus_1)
    then show "unat (ucast ((of_nat domain :: u32) AND 0xff) :: u8) = unat (of_nat (domain mod 256) :: u8)"
      by (simp add: unsigned_ucast_eq unat_of_nat take_bit_eq_mod)
  qed
  have high: "(ucast (drop_bit 8 ((of_nat domain :: u32) AND 0xff00)) :: u8) = of_nat (domain div 256 mod 256)"
  proof -
    have "(ucast (drop_bit 8 ((of_nat domain :: u32) AND 0xff00)) :: u8) = ucast (drop_bit 8 (of_nat domain :: u32))"
    proof (rule bit_word_eqI)
      fix n assume "n < LENGTH(8)"
      then have "n \<in> set [0..<8]" by simp
      moreover have "list_all (\<lambda>n. bit (0xff00 :: u32) (n + 8)) [0..<8]" by code_simp
      ultimately have "bit (0xff00 :: u32) (n + 8)" by (simp only: list_all_iff)
      then show "bit (ucast (drop_bit 8 ((of_nat domain :: u32) AND 0xff00)) :: u8) n =
          bit (ucast (drop_bit 8 (of_nat domain :: u32)) :: u8) n"
        by (auto simp: bit_simps add.commute)
    qed
    also have "\<dots> = of_nat (domain div 256 mod 256)"
      using assms(1)
      by (simp add: word_unat_eq_iff unsigned_ucast_eq unat_drop_bit_eq unat_div unat_of_nat take_bit_eq_mod drop_bit_eq_div)
    finally show ?thesis .
  qed
  have byte: "(ucast (of_nat n :: u32) :: u8) = of_nat n" if "n < 256" for n
    using that by (simp add: word_unat_eq_iff unsigned_ucast_eq unat_of_nat take_bit_eq_mod)
  have fn: "8 * slot + func < 256" using assms(3,4) by simp
  have sensor: "''0x'' @ pad0 2 (fmt_x (aer_sensor sev)) =
      (if sev = HW_EVENT_AER_UNCORRECTED_NON_FATAL \<or> sev = HW_EVENT_AER_UNCORRECTED_FATAL then ''0xca'' else ''0xbf'')"
  proof -
    have "''0x'' @ pad0 2 (fmt_x (0xca :: u8)) = ''0xca''" "''0x'' @ pad0 2 (fmt_x (0xbf :: u8)) = ''0xbf''"
      by code_simp+
    then show ?thesis by (simp add: aer_sensor_def)
  qed
  show ?thesis
    unfolding amp_command_def Let_def low high byte [OF assms(2)] pci_dev_fn_eq [OF assms(3,4)] byte [OF fn] sensor
    using fmt_x_byte [of "domain mod 256"] fmt_x_byte [of "domain div 256 mod 256"] fmt_x_byte [OF assms(2)]
      fmt_x_byte [OF fn] length_byte_hex [of "domain mod 256"] length_byte_hex [of "domain div 256 mod 256"]
      length_byte_hex [OF assms(2)] length_byte_hex [OF fn]
    by (simp add: amp_entry_def)
qed

lemma aer_finish_log:
  assumes "domain < 2 ^ 32" and "bus < 256" and "slot < 32" and "func < 8"
    and "aer_dev_name ev = pci_name domain bus slot func"
  shows "(ar_commands (aer_finish env s sev st ev), ar_rc (aer_finish env s sev st ev)) =
    aer_log env s sev st domain bus slot func"
  unfolding aer_finish_def aer_log_def assms(5) openbmc_log_runs [OF assms(1-4)] amp_ns_sel_def
    scan_pci_name [OF assms(1-4)]
  using run_until_failure_rc [of "aer_system env" "sel_entries sev st bus slot func"] amp_command_entry [OF assms(1-4), of sev]
  by (auto simp: Let_def case_prod_beta)

lemma aer_type_kind:
  "aer_type sev = ''Corrected'' \<longleftrightarrow> sev = HW_EVENT_AER_CORRECTED"
  "prefixb ''Uncorrected'' (aer_type sev) \<longleftrightarrow>
     sev \<in> {HW_EVENT_AER_UNCORRECTED_NON_FATAL, HW_EVENT_AER_UNCORRECTED_FATAL}"
  by (simp_all add: aer_type_def HW_EVENT_AER_CORRECTED_def HW_EVENT_AER_UNCORRECTED_NON_FATAL_def
      HW_EVENT_AER_UNCORRECTED_FATAL_def)

lemma aer_finish_runs:
  "aer_error_type ev = aer_type sev \<Longrightarrow> ar_runs (aer_finish env s sev st ev) =
     (if ar_rc (aer_finish env s sev st ev) < 0 then [] else aer_trigger_runs env s sev ev)"
  using aer_type_kind [of sev]
  by (auto simp: aer_finish_def aer_trigger_runs_def run_aer_trigger_def Let_def HW_EVENT_AER_CORRECTED_def
      HW_EVENT_AER_UNCORRECTED_NON_FATAL_def HW_EVENT_AER_UNCORRECTED_FATAL_def split: option.splits)

text \<open>
  C25: an error of a PCI Express device whose record has all fields, a status of 32 bits and the header of
  the packet if it is said to be valid, is stored with the names of its status bits from the table of its
  severity, in order and followed by the header, all within the message buffer. If the kernel names the
  device by its numbers, the commands run are the entry of Ampere boards, when it is built in, and then one
  for each set status bit with an identifier up to the first that fails, when entries are asked for. The
  trigger of the severity is run with this event in its environment, unless there is none or an entry
  failed. Without one of the fields the handler fails.
\<close>

theorem ras_aer_event_outcome:
  assumes "strf (aer_clock env) (event_time (aer_clock env)) = Some stamp"
    and "\<And>st. field_val e ''status'' = Some st \<Longrightarrow> unat st < 2 ^ 32"
    and "\<And>v. field_val e ''tlp_header_valid'' = Some v \<Longrightarrow> (ucast v :: u8) \<noteq> 0 \<Longrightarrow>
      \<exists>ws n. field_words e ''tlp_header'' = Some (ws, n) \<and> 4 \<le> length ws"
  shows "reads e [Val ''severity'', Str ''dev_name'', Val ''status'', Val ''tlp_header_valid'']
    (ras_aer_event_handler env e s)
    (\<lambda>r. let sev = the (field_val e ''severity''); valid = (ucast (the (field_val e ''tlp_header_valid'')) :: u8)
      in aer_timestamp (ar_event r) = stamp \<and> aer_error_type (ar_event r) = aer_type sev \<and>
        aer_dev_name (ar_event r) = the (field_str e ''dev_name'') \<and>
        aer_msg (ar_event r) = aer_names sev (the (field_val e ''status'')) @
          (if valid \<noteq> 0 then tlp_text (fst (the (field_words e ''tlp_header''))) else []) \<and>
        length (aer_msg (ar_event r)) < 1024 \<and>
        ar_runs r = (if ar_rc r < 0 then [] else aer_trigger_runs env s sev (ar_event r)) \<and>
        (\<forall>domain bus slot func. domain < 2 ^ 32 \<and> bus < 256 \<and> slot < 32 \<and> func < 8 \<and>
           field_str e ''dev_name'' = Some (pci_name domain bus slot func) \<longrightarrow>
           (ar_commands r, ar_rc r) = aer_log env s sev (the (field_val e ''status'')) domain bus slot func))"
  unfolding ras_aer_event_handler_def Let_def case_prod_beta
proof (intro reads_val reads_stamped [OF assms(1)] reads_str, goal_cases)
  case fields: (1 sev dev st)
  note msg = aer_status_msg_names [OF assms(2) [OF fields(3)], of sev]
  show ?case
    unfolding msg option.case
  proof (rule reads_val, goal_cases)
    case v: (1 v)
    let ?ws = "case field_words e ''tlp_header'' of None \<Rightarrow> [] | Some x \<Rightarrow> fst x"
    let ?tlp = "if (ucast v :: u8) \<noteq> 0 then tlp_text (fst (the (field_words e ''tlp_header''))) else []"
    have m: "(if (ucast v :: u8) \<noteq> 0 then aer_tlp_msg (aer_names sev st) ?ws else Some (aer_names sev st)) =
        Some (aer_names sev st @ ?tlp)"
      using assms(3) [OF v] aer_tlp_msg_text [OF length_aer_names [of sev st]] by auto
    have len: "length (aer_names sev st @ ?tlp) < 1024"
      using length_aer_names [of sev st] length_tlp_text by simp
    show ?case
      unfolding m option.case
    proof (rule reads_done, goal_cases)
      case 1
      show ?case
        using len fields v aer_finish_log
        by (simp add: aer_finish_runs)
    qed
  qed
qed


theorem ras_aer_event_outcome_witness:
  "\<exists>out r. ras_aer_event_handler
     \<lparr>have_amp_ns_decode = True, have_openbmc_unified_sel = False,
      aer_clock = \<lparr>use_uptime = True, ts = 0, user_hz = 100, uptime_diff = 0, time_now = 0, strf = \<lambda>_. Some ''now''\<rparr>,
      pci_lookup = \<lambda>_. None, aer_system = \<lambda>_. 0, aer_getenv = \<lambda>_. None\<rparr>
     \<lparr>field_val = \<lambda>f. Some (if f = ''severity'' then 2 else if f = ''status'' then 0x41 else 0),
      field_str = \<lambda>_. Some ''0000:3a:02.1'', field_words = \<lambda>_. None, complaint = \<lambda>_. []\<rparr>
     \<lparr>use_ipmitool = False, aer_ce_trigger = Some ''mail'', aer_ue_trigger = None\<rparr> = Some (out, Some r) \<and>
     aer_msg (ar_event r) = ''Receiver Error, Bad TLP'' \<and> map fst (ar_runs r) = [''mail''] \<and>
     ar_commands r = [''ipmitool raw 0x0a 0x44 0x00 0x00 0xc0 0x00 0x00 0x00 0x00 0x3a 0xcd 0x00 0xc0 0xbf 0x00 0x00 0x3a 0x11'']"
proof -
  let ?env = "\<lparr>have_amp_ns_decode = True, have_openbmc_unified_sel = False,
      aer_clock = \<lparr>use_uptime = True, ts = 0, user_hz = 100, uptime_diff = 0, time_now = 0, strf = \<lambda>_. Some ''now''\<rparr>,
      pci_lookup = \<lambda>_. None, aer_system = \<lambda>_. 0, aer_getenv = \<lambda>_. None\<rparr>"
  let ?e = "\<lparr>field_val = \<lambda>f. Some (if f = ''severity'' then 2 else if f = ''status'' then 0x41 else 0),
      field_str = \<lambda>_. Some ''0000:3a:02.1'', field_words = \<lambda>_. None, complaint = \<lambda>_. []\<rparr>"
  let ?s = "\<lparr>use_ipmitool = False, aer_ce_trigger = Some ''mail'', aer_ue_trigger = None\<rparr>"
  have n: "aer_names 2 0x41 = ''Receiver Error, Bad TLP''" by code_simp
  have d: "''0000:3a:02.1'' = pci_name 0 0x3a 2 1" by code_simp
  have l: "amp_entry 2 0 0x3a 2 1 =
      ''ipmitool raw 0x0a 0x44 0x00 0x00 0xc0 0x00 0x00 0x00 0x00 0x3a 0xcd 0x00 0xc0 0xbf 0x00 0x00 0x3a 0x11''"
    by code_simp
  have runs: "map fst (aer_trigger_runs ?env ?s 2 ev) = [''mail'']" for ev
    by (simp add: aer_trigger_runs_def HW_EVENT_AER_CORRECTED_def)
  have log: "aer_log ?env ?s 2 0x41 0 0x3a 2 1 = ([amp_entry 2 0 0x3a 2 1], 0)" by (simp add: aer_log_def)
  have "reads ?e [Val ''severity'', Str ''dev_name'', Val ''status'', Val ''tlp_header_valid'']
    (ras_aer_event_handler ?env ?e ?s)
    (\<lambda>r. aer_msg (ar_event r) = ''Receiver Error, Bad TLP'' \<and>
       ar_runs r = (if ar_rc r < 0 then [] else aer_trigger_runs ?env ?s 2 (ar_event r)) \<and>
       (ar_commands r, ar_rc r) = aer_log ?env ?s 2 0x41 0 0x3a 2 1)"
    by (rule reads_mono [OF ras_aer_event_outcome [of ?env "''now''" ?e ?s]]) (use n d in \<open>auto simp: Let_def\<close>)
  then show ?thesis unfolding log l using runs by (fastforce simp: reads_def present_def)
qed

end
