(* ===== verification/Uuid.thy ===== *)
theory Uuid
  imports Byte_Layout C_Library
begin

text \<open>
  The text of a UUID whose first three groups are stored in little-endian order, as \<open>uuid_le\<close> of
  \<open>ras-non-standard-handler.c\<close> and of \<open>ras-extlog-handler.c\<close> print it, and that different UUIDs print
  differently.
\<close>

definition uuid_order :: "nat list" where
  "uuid_order = [3, 2, 1, 0, 5, 4, 7, 6, 8, 9, 10, 11, 12, 13, 14, 15]"

definition hex2 :: "u8 \<Rightarrow> string" where
  "hex2 b = pad0 2 (fmt_x b)"

definition uuid_text :: "u8 list \<Rightarrow> string" where
  "uuid_text uu = concat (map (\<lambda>i. hex2 (uu ! (uuid_order ! i)) @ (if i \<in> {3, 5, 7, 9} then ''-'' else [])) [0..<16])"

text \<open>A pointer to fewer than 16 bytes is undefined behaviour.\<close>

definition uuid_le :: "u8 list \<Rightarrow> string option" where
  "uuid_le uu = (if 16 \<le> length uu then Some (uuid_text uu) else None)"

lemma length_hex2 [simp]: "length (hex2 b) = 2"
proof -
  have "length (to_base 16 (unat b)) \<le> 2"
    using length_to_base [of 16 "unat b" 1] unsigned_less [of b, where ?'a = nat] by simp
  then show ?thesis by (simp add: hex2_def fmt_x_def pad0_def)
qed

lemma hex2_value: "digits_value 16 (map (\<lambda>c. the (digit_of 16 c)) (hex2 b)) = unat b"
proof -
  have "digit_of 16 (CHR ''0'') = Some 0" by (simp add: digit_of_def isdigit_def code_of_def)
  then show ?thesis
    using to_base_digits [of 16 "unat b"] by (simp add: hex2_def fmt_x_def pad0_def digits_value_zeros)
qed

lemma hex2_inject [simp]: "hex2 a = hex2 b \<longleftrightarrow> a = b"
  by (metis hex2_value word_unat_eq_iff)

lemma uuid_order_onto: "j < 16 \<Longrightarrow> \<exists>i < 16. uuid_order ! i = j"
proof -
  have "list_all (\<lambda>j. list_ex (\<lambda>i. uuid_order ! i = j) [0..<16]) [0..<16]" by code_simp
  then show "j < 16 \<Longrightarrow> \<exists>i < 16. uuid_order ! i = j"
    by (simp only: list_all_iff list_ex_iff set_upt) (metis atLeastLessThan_iff le0)
qed

lemma uuid_text_inject:
  assumes "uuid_text us = uuid_text vs"
  shows "\<forall>j < 16. us ! j = vs ! j"
proof (intro allI impI)
  fix j :: nat assume "j < 16"
  then obtain i where i: "i < 16" "uuid_order ! i = j" using uuid_order_onto by blast
  let ?part = "\<lambda>uu i. hex2 (uu ! (uuid_order ! i)) @ (if i \<in> {3, 5, 7, 9 :: nat} then ''-'' else [])"
  have "map (?part us) [0..<16] = map (?part vs) [0..<16]"
    by (rule concat_injective [OF assms [unfolded uuid_text_def]]) (auto simp: set_zip)
  then have "?part us i = ?part vs i" using i(1) by (simp only: map_eq_conv set_upt) simp
  then show "us ! j = vs ! j" using i(2) by simp
qed

end
