(* ===== verification/Raw_Data.thy ===== *)
theory Raw_Data
  imports Event_Reader Uuid
begin

text \<open>
  Arrays of bytes in a record, which \<open>tep_get_field_raw\<close> returns a pointer to, and the dump of such an
  array that \<open>ras-arm-handler.c\<close> and \<open>ras-non-standard-handler.c\<close> print.
\<close>

text \<open>The bytes of an array and the length that the tracing library gives for it.\<close>

definition field_bytes :: "trace_event \<Rightarrow> string \<Rightarrow> (u8 list \<times> s32) option" where
  "field_bytes e f = map_option (\<lambda>(ws, n). (map ucast ws, n)) (field_words e f)"

definition get_raw :: "trace_event \<Rightarrow> string \<Rightarrow> string \<Rightarrow> (u8 list \<Rightarrow> 'a handled) \<Rightarrow> 'a handled" where
  "get_raw e out f k =
     (case field_bytes e f of None \<Rightarrow> failed (out @ complaint e f) | Some (bs, _) \<Rightarrow> k bs)"

text \<open>The word at an index, its bytes from the highest to the lowest.\<close>

definition print_le_hex :: "u8 list \<Rightarrow> nat \<Rightarrow> string option" where
  "print_le_hex buf i =
     (if i + 3 < length buf
      then Some (hex2 (buf ! (i + 3)) @ hex2 (buf ! (i + 2)) @ hex2 (buf ! (i + 1)) @ hex2 (buf ! i))
      else None)"

definition dump_offset :: "nat \<Rightarrow> string" where
  "dump_offset i = ''  '' @ pad0 8 (to_base 16 i) @ '': ''"

text \<open>The words from index \<open>i\<close> on, with \<open>line_count\<close> words on the line so far.\<close>

fun dump_loop :: "u8 list \<Rightarrow> nat \<Rightarrow> nat \<Rightarrow> nat \<Rightarrow> string option" where
  "dump_loop buf datalen i line_count =
     (if datalen < 4 then Some []
      else do {
        w \<leftarrow> print_le_hex buf i;
        rest \<leftarrow> dump_loop buf (datalen - 4) (i + 4) (if line_count + 1 = 4 then 0 else line_count + 1);
        Some (w @ (if line_count + 1 = 4 then [CHR 0x0A] @ dump_offset (i + 4) else '' '') @ rest)
      })"

declare dump_loop.simps [simp del]

definition display_raw_data :: "u8 list \<Rightarrow> u32 \<Rightarrow> string option" where
  "display_raw_data buf datalen = map_option (\<lambda>t. dump_offset 0 @ t) (dump_loop buf (unat datalen) 0 0)"

text \<open>A dump is defined exactly when the words it prints are in the array.\<close>

lemma dump_loop_defined: "dump_loop buf n i l \<noteq> None \<longleftrightarrow> n < 4 \<or> i + 4 * (n div 4) \<le> length buf"
proof (induction buf n i l rule: dump_loop.induct)
  case (1 buf n i l)
  show ?case
  proof (cases "n < 4")
    case True
    then show ?thesis by (simp add: dump_loop.simps)
  next
    case False
    have div: "n div 4 = Suc ((n - 4) div 4)" using False by (simp add: le_div_geq)
    show ?thesis
    proof (cases "print_le_hex buf i")
      case None
      then show ?thesis using False div by (simp add: dump_loop.simps [of buf n] print_le_hex_def split: if_splits)
    next
      case (Some w)
      then have "i + 4 \<le> length buf" by (simp add: print_le_hex_def split: if_splits)
      moreover have "n - 4 < 4 \<Longrightarrow> (n - 4) div 4 = 0" by simp
      ultimately show ?thesis
        using 1 [OF False Some] False Some div
        by (subst dump_loop.simps) (auto simp: bind_eq_None_conv)
    qed
  qed
qed

lemma display_raw_data_defined:
  "display_raw_data buf n \<noteq> None \<longleftrightarrow> 4 * (unat n div 4) \<le> length buf"
proof -
  have "unat n < 4 \<Longrightarrow> unat n div 4 = 0" by simp
  then show ?thesis
    using dump_loop_defined [of buf "unat n" 0 0] by (auto simp: display_raw_data_def)
qed


text \<open>How a handler that ends well got there.\<close>

lemma get_Some_iff:
  "get_val e out f k = Some (r, Some x) \<longleftrightarrow> (\<exists>v. field_val e f = Some v \<and> k v = Some (r, Some x))"
  "get_str e out f k' = Some (r, Some x) \<longleftrightarrow> (\<exists>t. field_str e f = Some t \<and> k' t = Some (r, Some x))"
  "get_raw e out f k'' = Some (r, Some x) \<longleftrightarrow>
     (\<exists>bs n. field_bytes e f = Some (bs, n) \<and> k'' bs = Some (r, Some x))"
  "stamped ck k' = Some (r, Some x) \<longleftrightarrow>
     (\<exists>t. strf ck (event_time ck) = Some t \<and> k' t = Some (r, Some x))"
  by (auto simp: get_val_def get_str_def get_raw_def stamped_def failed_def split: option.splits)

text \<open>The severities of \<open>ras-events.h\<close> and how the ARM and the vendor handler name them.\<close>

definition GHES_SEV_NO :: u64 where "GHES_SEV_NO = 0"
definition GHES_SEV_CORRECTED :: u64 where "GHES_SEV_CORRECTED = 1"
definition GHES_SEV_RECOVERABLE :: u64 where "GHES_SEV_RECOVERABLE = 2"
definition GHES_SEV_PANIC :: u64 where "GHES_SEV_PANIC = 3"

definition ghes_severity :: "u64 \<Rightarrow> string" where
  "ghes_severity sev =
     (if sev = GHES_SEV_NO then ''Informational''
      else if sev = GHES_SEV_CORRECTED then ''Corrected''
      else if sev = GHES_SEV_RECOVERABLE then ''Recoverable''
      else ''Fatal'')"

end
