(* ===== verification/Event_Handlers.thy ===== *)
theory Event_Handlers
  imports Raw_Data
begin

text \<open>
  The smaller event handlers: \<open>ras-devlink-handler.c\<close>, \<open>ras-diskerror-handler.c\<close>,
  \<open>ras-memory-failure-handler.c\<close> with \<open>ras-poison-page-stat.c\<close>, \<open>ras-signal-handler.c\<close> and
  \<open>ras-extlog-handler.c\<close>. What a handler produces is the event it hands to the database and the reports.
\<close>

section \<open>Network devices\<close>

record devlink_event =
  dl_timestamp :: string
  dl_bus_name :: string
  dl_dev_name :: string
  dl_driver_name :: string
  dl_reporter_name :: string
  dl_msg :: string

definition ras_net_xmit_timeout_handler :: "clock \<Rightarrow> trace_event \<Rightarrow> devlink_event handled" where
  "ras_net_xmit_timeout_handler ck e =
     stamped ck (\<lambda>stamp.
     let out = stamp @ '' '' in
     get_str e out ''name'' (\<lambda>dev.
     get_str e out ''driver'' (\<lambda>drv.
     get_val e out ''queue_index'' (\<lambda>v.
     Some (out, Some \<lparr>dl_timestamp = stamp, dl_bus_name = [], dl_dev_name = dev, dl_driver_name = drv,
       dl_reporter_name = [], dl_msg = ''TX timeout on queue: '' @ fmt_d (ucast v :: s32) @ [CHR 0x0A]\<rparr>)))))"

text \<open>An event that the configured filter matches is passed over: \<open>None\<close> is stored.\<close>

definition ras_devlink_event_handler :: "clock \<Rightarrow> bool \<Rightarrow> trace_event \<Rightarrow> devlink_event option handled" where
  "ras_devlink_event_handler ck filter_match e =
     (if filter_match then Some ([], Some None)
      else
       let out = loglevel_str LOGLEVEL_ERR @ '' '' in
       stamped ck (\<lambda>stamp.
       let out = out @ stamp @ '' '' in
       get_str e out ''bus_name'' (\<lambda>bus.
       get_str e out ''dev_name'' (\<lambda>dev.
       get_str e out ''driver_name'' (\<lambda>drv.
       get_str e out ''reporter_name'' (\<lambda>rep.
       get_str e out ''msg'' (\<lambda>msg.
       Some (out, Some (Some \<lparr>dl_timestamp = stamp, dl_bus_name = bus, dl_dev_name = dev,
         dl_driver_name = drv, dl_reporter_name = rep, dl_msg = msg\<rparr>)))))))))"

section \<open>Disks\<close>

record diskerror_event =
  dk_timestamp :: string
  dk_dev :: string
  dk_sector :: u64
  dk_nr_sector :: u32
  dk_error :: string
  dk_rwbs :: string
  dk_cmd :: string

text \<open>The error numbers of Linux.\<close>

definition blk_errors :: "(int \<times> string) list" where
  "blk_errors =
     [(- 95, ''operation not supported error''), (- 110, ''timeout error''),
      (- 28, ''critical space allocation error''), (- 67, ''recoverable transport error''),
      (- 121, ''critical target error''), (- 52, ''critical nexus error''), (- 61, ''critical medium error''),
      (- 84, ''protection error''), (- 12, ''kernel resource error''), (- 16, ''device resource error''),
      (- 11, ''nonblocking retry error''), (- 78, ''dm internal retry error''), (- 5, ''I/O error'')]"

definition get_blk_error :: "s32 \<Rightarrow> string" where
  "get_blk_error err = name_of blk_errors ''unknown block error'' (sint err)"

definition MAJOR :: "u32 \<Rightarrow> u32" where "MAJOR dev = drop_bit 20 dev"
definition MINOR :: "u32 \<Rightarrow> u32" where "MINOR dev = dev AND 0xfffff"

definition ras_diskerror_event_handler :: "clock \<Rightarrow> trace_event \<Rightarrow> diskerror_event handled" where
  "ras_diskerror_event_handler ck e =
     (let out = loglevel_str LOGLEVEL_ERR @ '' '' in
      stamped ck (\<lambda>stamp.
      let out = out @ stamp @ '' '' in
      get_val e out ''dev'' (\<lambda>d.
      let dev = (ucast d :: u32) in
      get_val e out ''sector'' (\<lambda>sec.
      get_val e out ''nr_sector'' (\<lambda>nr.
      get_val e out ''error'' (\<lambda>err.
      get_str e out ''rwbs'' (\<lambda>rwbs.
      get_str e out ''cmd'' (\<lambda>cmd.
      Some (out, Some \<lparr>dk_timestamp = stamp, dk_dev = fmt_u (MAJOR dev) @ '':'' @ fmt_u (MINOR dev),
        dk_sector = sec, dk_nr_sector = ucast nr, dk_error = get_blk_error (ucast err), dk_rwbs = rwbs,
        dk_cmd = cmd\<rparr>)))))))))"

section \<open>Memory failures and poisoned pages\<close>

record ras_mf_event =
  mf_timestamp :: string
  mf_pfn :: string
  mf_page_type :: string
  mf_action_result :: string

definition mf_page_types :: "(int \<times> string) list" where
  "mf_page_types =
     [(0, ''reserved kernel page''), (1, ''high-order kernel page''), (2, ''kernel slab page''),
      (3, ''different compound page after locking''), (4, ''huge page''), (5, ''free huge page''),
      (6, ''unmapping failed page''), (7, ''dirty swapcache page''), (8, ''clean swapcache page''),
      (9, ''dirty mlocked LRU page''), (10, ''clean mlocked LRU page''), (11, ''dirty unevictable LRU page''),
      (12, ''clean unevictable LRU page''), (13, ''dirty LRU page''), (14, ''clean LRU page''),
      (15, ''already truncated LRU page''), (16, ''free buddy page''), (17, ''dax page''), (18, ''unsplit thp''),
      (19, ''unknown page'')]"

definition mf_action_results :: "(int \<times> string) list" where
  "mf_action_results = [(0, ''Ignored''), (1, ''Failed''), (2, ''Delayed''), (3, ''Recovered'')]"

definition get_page_type :: "s32 \<Rightarrow> string" where
  "get_page_type t = name_of mf_page_types ''unknown page'' (sint t)"

definition get_action_result :: "s32 \<Rightarrow> string" where
  "get_action_result r = name_of mf_action_results ''unknown'' (sint r)"

definition mem_fail_event_trigger_setup ::
  "(string \<Rightarrow> string option) \<Rightarrow> (string \<Rightarrow> bool) \<Rightarrow> string option \<Rightarrow> string option" where
  "mem_fail_event_trigger_setup getenv runnable mf_trigger =
     setup_trigger getenv runnable ''MEM_FAIL_TRIGGER'' mf_trigger"

definition run_mf_trigger :: "(string \<Rightarrow> string option) \<Rightarrow> string option \<Rightarrow> ras_mf_event \<Rightarrow> trigger_run list" where
  "run_mf_trigger getenv mf_trigger ev =
     (case mf_trigger of
        None \<Rightarrow> []
      | Some t \<Rightarrow>
          [(t, [path_env getenv, ''TIMESTAMP='' @ mf_timestamp ev, ''PFN='' @ mf_pfn ev,
                ''PAGE_TYPE='' @ mf_page_type ev, ''ACTION_RESULT='' @ mf_action_result ev])])"

text \<open>
  The lines of \<open>/proc/meminfo\<close>, or \<open>None\<close> when it cannot be opened. The result and the number of
  kilobytes that is warned about.
\<close>

definition corrupted_line :: "string \<Rightarrow> u64 option" where
  "corrupted_line line =
     (if strstr line ''HardwareCorrupted'' = None \<or> skip_space line = [] then None
      else map_option fst (sscanf_lu (dropWhile (\<lambda>c. \<not> isspace c) (skip_space line))))"

primrec corrupted_kb :: "string list \<Rightarrow> u64" where
  "corrupted_kb [] = 0"
| "corrupted_kb (line # lines) = (case corrupted_line line of None \<Rightarrow> corrupted_kb lines | Some n \<Rightarrow> n)"

definition ras_poison_page_stat :: "u64 \<Rightarrow> string list option \<Rightarrow> int \<times> u64 option" where
  "ras_poison_page_stat poison_stat_threshold meminfo =
     (case meminfo of
        None \<Rightarrow> (1, None)
      | Some lines \<Rightarrow>
          (0, if corrupted_kb lines > poison_stat_threshold then Some (corrupted_kb lines) else None))"

text \<open>What a memory failure leads to: the event, the warning about poisoned pages, the trigger.\<close>

record mf_env =
  mf_clock :: clock
  poison_threshold :: "u64 option"
  meminfo_lines :: "string list option"
  mf_getenv :: "string \<Rightarrow> string option"

definition ras_memory_failure_event_handler ::
  "mf_env \<Rightarrow> string option \<Rightarrow> trace_event \<Rightarrow> (ras_mf_event \<times> u64 option \<times> trigger_run list) handled" where
  "ras_memory_failure_event_handler env mf_trigger e =
     (let stamp = (case strf (mf_clock env) (event_time (mf_clock env)) of
            None \<Rightarrow> ''1970-01-01 00:00:00 +0000'' | Some t \<Rightarrow> t);
          out = loglevel_str LOGLEVEL_ALERT @ '' '' @ stamp @ '' '' in
      get_val e out ''pfn'' (\<lambda>pfn.
      let out = out @ ''pfn=0x'' @ fmt_x pfn @ '' '' in
      get_val e out ''type'' (\<lambda>t.
      let pt = get_page_type (ucast t); out = out @ ''page_type='' @ pt @ '' '' in
      get_val e out ''result'' (\<lambda>r.
      let ar = get_action_result (ucast r); out = out @ ''action_result='' @ ar @ '' '';
          ev = \<lparr>mf_timestamp = stamp, mf_pfn = ''0x'' @ fmt_x pfn, mf_page_type = pt, mf_action_result = ar\<rparr>
      in Some (out, Some (ev,
           (case poison_threshold env of None \<Rightarrow> None | Some n \<Rightarrow> snd (ras_poison_page_stat n (meminfo_lines env))),
           run_mf_trigger (mf_getenv env) mf_trigger ev))))))"


section \<open>Signals\<close>

record ras_signal_event =
  sg_timestamp :: string
  sg_sig :: s32
  sg_error_no :: s32
  sg_code :: s32
  sg_comm :: string
  sg_pid :: s32
  sg_group :: s32
  sg_result :: s32

text \<open>The codes of a bus error start at 1, so that the first entry of the tables is a null pointer.\<close>

definition signal_msg :: "string option list" where
  "signal_msg =
     [None, Some ''invalid address alignment'', Some ''non-existent address'',
      Some ''object-specific hardware error'', Some ''Hardware memory error consumed: action required'',
      Some ''Hardware memory error detected in process but not consumed: action optional'']"

definition errcode_str :: "string option list" where
  "errcode_str =
     [None, Some ''BUS_ADRALN'', Some ''BUS_ADRERR'', Some ''BUS_OBJERR'', Some ''BUS_MCEERR_AR'',
      Some ''BUS_MCEERR_AO'']"

definition signal_res :: "string option list" where
  "signal_res =
     [Some ''Delivered'', Some ''Ignore'', Some ''Already pending'', Some ''Overflow fail'', Some ''Lose info'']"

definition int_entry :: "string option list \<Rightarrow> int \<Rightarrow> string option" where
  "int_entry t i = (if i < 0 then None else case lookup t (nat i) of None \<Rightarrow> None | Some s \<Rightarrow> s)"

definition SIGBUS :: s32 where "SIGBUS = 7"

definition report_ras_signal_event :: "(s32 \<Rightarrow> string) \<Rightarrow> ras_signal_event \<Rightarrow> string option" where
  "report_ras_signal_event strsignal ev =
     do {
       code \<leftarrow> (if sint (sg_code ev) < 0 \<or> sint (sg_code ev) > 5 then Some ''Unknown''
               else int_entry errcode_str (sint (sg_code ev)));
       res \<leftarrow> (if sint (sg_result ev) < 0 \<or> sint (sg_result ev) > 4 then Some ''Unknown''
              else int_entry signal_res (sint (sg_result ev)));
       msg \<leftarrow> (if sg_sig ev = SIGBUS then int_entry signal_msg (sint (sg_code ev)) else Some ''Unknown'');
       Some (sg_timestamp ev @ '' signal: '' @ strsignal (sg_sig ev) @ '', errorno: '' @ fmt_d (sg_error_no ev) @
         '', code: '' @ code @ '', comm: '' @ sg_comm ev @ '', pid: '' @ fmt_d (sg_pid ev) @ '', grp: '' @
         fmt_d (sg_group ev) @ '', res: '' @ res @ '', msg: '' @ msg)
     }"

definition ras_signal_event_handler ::
  "(s32 \<Rightarrow> string) \<Rightarrow> clock \<Rightarrow> trace_event \<Rightarrow> ras_signal_event handled" where
  "ras_signal_event_handler strsignal ck e =
     get_val e [] ''sig'' (\<lambda>s.
     get_val e [] ''errno'' (\<lambda>en.
     get_val e [] ''code'' (\<lambda>c.
     get_str e [] ''comm'' (\<lambda>comm.
     get_val e [] ''pid'' (\<lambda>pid.
     get_val e [] ''group'' (\<lambda>g.
     get_val e [] ''result'' (\<lambda>r.
     stamped ck (\<lambda>stamp.
     let ev = \<lparr>sg_timestamp = stamp, sg_sig = ucast s, sg_error_no = ucast en, sg_code = ucast c, sg_comm = comm,
           sg_pid = ucast pid, sg_group = ucast g, sg_result = ucast r\<rparr>
     in map_option (\<lambda>out. (out, Some ev)) (report_ras_signal_event strsignal ev)))))))))"

section \<open>Extended error logs\<close>

record ras_extlog_event =
  el_timestamp :: string
  el_error_seq :: s32
  el_etype :: "8 word"
  el_severity :: "8 word"
  el_address :: u64
  el_pa_mask_lsb :: "8 word"
  el_fru_id :: "u8 list option"
  el_fru_text :: "string option"
  el_cper_data :: "u8 list option"
  el_cper_data_length :: "16 word"

definition err_type :: "int \<Rightarrow> string" where
  "err_type etype = name_of
     [(0, ''unknown''), (1, ''no error''), (2, ''single-bit ECC''), (3, ''multi-bit ECC''),
      (4, ''single-symbol chipkill ECC''), (5, ''multi-symbol chipkill ECC''), (6, ''master abort''),
      (7, ''target abort''), (8, ''parity error''), (9, ''watchdog timeout''), (10, ''invalid address''),
      (11, ''mirror Broken''), (12, ''memory sparing''), (13, ''scrub corrected error''),
      (14, ''scrub uncorrected error''), (15, ''physical memory map-out event'')] ''unknown-type'' etype"

definition err_severity :: "int \<Rightarrow> string" where
  "err_severity severity = name_of
     [(0, ''recoverable''), (1, ''fatal''), (2, ''corrected''), (3, ''informational'')] ''unknown-severity'' severity"

definition err_mask :: "int \<Rightarrow> u64 option" where
  "err_mask lsb =
     (if lsb = 0xff then Some (NOT 0)
      else if 0 \<le> lsb \<and> lsb < 64 then Some (NOT (push_bit (nat lsb) 1 - 1))
      else None)"

definition CPER_MEM_VALID_NODE :: nat where "CPER_MEM_VALID_NODE = 3"
definition CPER_MEM_VALID_CARD :: nat where "CPER_MEM_VALID_CARD = 4"
definition CPER_MEM_VALID_MODULE :: nat where "CPER_MEM_VALID_MODULE = 5"
definition CPER_MEM_VALID_BANK :: nat where "CPER_MEM_VALID_BANK = 6"
definition CPER_MEM_VALID_DEVICE :: nat where "CPER_MEM_VALID_DEVICE = 7"
definition CPER_MEM_VALID_ROW :: nat where "CPER_MEM_VALID_ROW = 8"
definition CPER_MEM_VALID_COLUMN :: nat where "CPER_MEM_VALID_COLUMN = 9"
definition CPER_MEM_VALID_BIT_POSITION :: nat where "CPER_MEM_VALID_BIT_POSITION = 10"
definition CPER_MEM_VALID_REQUESTOR_ID :: nat where "CPER_MEM_VALID_REQUESTOR_ID = 11"
definition CPER_MEM_VALID_RESPONDER_ID :: nat where "CPER_MEM_VALID_RESPONDER_ID = 12"
definition CPER_MEM_VALID_TARGET_ID :: nat where "CPER_MEM_VALID_TARGET_ID = 13"
definition CPER_MEM_VALID_RANK_NUMBER :: nat where "CPER_MEM_VALID_RANK_NUMBER = 15"
definition CPER_MEM_VALID_CARD_HANDLE :: nat where "CPER_MEM_VALID_CARD_HANDLE = 16"
definition CPER_MEM_VALID_MODULE_HANDLE :: nat where "CPER_MEM_VALID_MODULE_HANDLE = 17"


text \<open>The structure in memory.\<close>

record cper_mem_err_compact =
  cp_validation_bits :: u64
  cp_node :: "16 word"
  cp_card :: "16 word"
  cp_module :: "16 word"
  cp_bank :: "16 word"
  cp_device :: "16 word"
  cp_row :: "16 word"
  cp_column :: "16 word"
  cp_bit_pos :: "16 word"
  cp_requestor_id :: u64
  cp_responder_id :: u64
  cp_target_id :: u64
  cp_rank :: "16 word"
  cp_mem_array_handle :: "16 word"
  cp_mem_dev_handle :: "16 word"

definition cper_of_bytes :: "u8 list \<Rightarrow> cper_mem_err_compact option" where
  "cper_of_bytes bs =
     (if length bs < 56 then None
      else Some
       \<lparr>cp_validation_bits = at_offset 0 8 bs, cp_node = ucast (at_offset 8 2 bs), cp_card = ucast (at_offset 10 2 bs),
        cp_module = ucast (at_offset 12 2 bs), cp_bank = ucast (at_offset 14 2 bs),
        cp_device = ucast (at_offset 16 2 bs), cp_row = ucast (at_offset 18 2 bs),
        cp_column = ucast (at_offset 20 2 bs), cp_bit_pos = ucast (at_offset 22 2 bs),
        cp_requestor_id = at_offset 24 8 bs, cp_responder_id = at_offset 32 8 bs,
        cp_target_id = at_offset 40 8 bs, cp_rank = ucast (at_offset 48 2 bs),
        cp_mem_array_handle = ucast (at_offset 50 2 bs), cp_mem_dev_handle = ucast (at_offset 52 2 bs)\<rparr>)"

text \<open>The parts of the text, one for each valid field; the last blank gives way to the parenthesis.\<close>

definition cper_parts :: "cper_mem_err_compact \<Rightarrow> (nat \<times> string) list" where
  "cper_parts c =
     [(CPER_MEM_VALID_NODE, ''node: '' @ fmt_u (cp_node c) @ '' ''),
      (CPER_MEM_VALID_CARD, ''card: '' @ fmt_u (cp_card c) @ '' ''),
      (CPER_MEM_VALID_MODULE, ''module: '' @ fmt_u (cp_module c) @ '' ''),
      (CPER_MEM_VALID_BANK, ''bank: '' @ fmt_u (cp_bank c) @ '' ''),
      (CPER_MEM_VALID_DEVICE, ''device: '' @ fmt_u (cp_device c) @ '' ''),
      (CPER_MEM_VALID_ROW, ''row: '' @ fmt_u (cp_row c) @ '' ''),
      (CPER_MEM_VALID_COLUMN, ''column: '' @ fmt_u (cp_column c) @ '' ''),
      (CPER_MEM_VALID_BIT_POSITION, ''bit_pos: '' @ fmt_u (cp_bit_pos c) @ '' ''),
      (CPER_MEM_VALID_REQUESTOR_ID, ''req_id: 0x'' @ fmt_x (cp_requestor_id c) @ '' ''),
      (CPER_MEM_VALID_RESPONDER_ID, ''resp_id: 0x'' @ fmt_x (cp_responder_id c) @ '' ''),
      (CPER_MEM_VALID_TARGET_ID, ''tgt_id: 0x'' @ fmt_x (cp_target_id c) @ '' ''),
      (CPER_MEM_VALID_RANK_NUMBER, ''rank: '' @ fmt_u (cp_rank c) @ '' ''),
      (CPER_MEM_VALID_CARD_HANDLE, ''card_handle: '' @ fmt_u (cp_mem_array_handle c) @ '' ''),
      (CPER_MEM_VALID_MODULE_HANDLE, ''module_handle: '' @ fmt_u (cp_mem_dev_handle c) @ '' '')]"

definition err_cper_text :: "cper_mem_err_compact \<Rightarrow> string" where
  "err_cper_text c =
     (if cp_validation_bits c = 0 then []
      else butlast ('' ('' @ concat (map snd (filter (\<lambda>p. bit (cp_validation_bits c) (fst p)) (cper_parts c)))) @
        '')'')"

definition err_cper_data :: "u8 list \<Rightarrow> string option" where
  "err_cper_data bs = map_option err_cper_text (cper_of_bytes bs)"

definition extlog_level :: "int \<Rightarrow> string" where
  "extlog_level sev =
     (if sev = 0 then loglevel_str LOGLEVEL_CRIT else if sev = 1 then loglevel_str LOGLEVEL_EMERG
      else if sev = 2 then loglevel_str LOGLEVEL_ERR else if sev = 3 then loglevel_str LOGLEVEL_INFO
      else loglevel_str LOGLEVEL_DEBUG)"

text \<open>The report follows null pointers and shifts by the mask without a check.\<close>

definition report_extlog_mem_event :: "ras_extlog_event \<Rightarrow> string option" where
  "report_extlog_mem_event ev =
     do {
       mask \<leftarrow> err_mask (sint (el_pa_mask_lsb ev));
       cper \<leftarrow> el_cper_data ev \<bind> err_cper_data;
       text \<leftarrow> el_fru_text ev;
       uuid \<leftarrow> el_fru_id ev \<bind> uuid_le;
       Some (extlog_level (sint (el_severity ev)) @ '' '' @ fmt_d (el_error_seq ev) @ '' '' @
         err_severity (sint (el_severity ev)) @ '' error: '' @ err_type (sint (el_etype ev)) @
         '' physical addr: 0x'' @ fmt_x (el_address ev) @ '' mask: 0x'' @ fmt_x mask @ cper @ '' '' @ text @ '' '' @ uuid)
     }"

definition ras_extlog_mem_event_handler :: "clock \<Rightarrow> trace_event \<Rightarrow> ras_extlog_event handled" where
  "ras_extlog_mem_event_handler ck e =
     stamped ck (\<lambda>stamp.
     let out = stamp @ '' '' in
     get_val e out ''etype'' (\<lambda>t.
     get_val e out ''err_seq'' (\<lambda>n.
     get_val e out ''sev'' (\<lambda>sev.
     get_val e out ''pa'' (\<lambda>pa.
     get_val e out ''pa_mask_lsb'' (\<lambda>lsb.
     let ev = \<lparr>el_timestamp = stamp, el_error_seq = ucast n, el_etype = ucast t, el_severity = ucast sev,
           el_address = pa, el_pa_mask_lsb = ucast lsb, el_fru_id = map_option fst (field_bytes e ''fru_id''),
           el_fru_text = field_str e ''fru_text'', el_cper_data = map_option fst (field_bytes e ''data''),
           el_cper_data_length = (case field_bytes e ''data'' of None \<Rightarrow> 0 | Some (_, n) \<Rightarrow> ucast n)\<rparr>
     in map_option (\<lambda>r. (out @ r, Some ev)) (report_extlog_mem_event ev)))))))"

section \<open>What the handlers store\<close>

lemma xmit_timeout_reads:
  assumes "strf ck (event_time ck) = Some stamp"
  shows "reads e [Str ''name'', Str ''driver'', Val ''queue_index''] (ras_net_xmit_timeout_handler ck e)
      (\<lambda>d. d = \<lparr>dl_timestamp = stamp, dl_bus_name = [], dl_dev_name = the (field_str e ''name''),
        dl_driver_name = the (field_str e ''driver''), dl_reporter_name = [],
        dl_msg = ''TX timeout on queue: '' @ fmt_d (ucast (the (field_val e ''queue_index'')) :: s32) @ [CHR 0x0A]\<rparr>)"
  unfolding ras_net_xmit_timeout_handler_def Let_def by (intro reads_stamped [OF assms] reads_val reads_str reads_done) simp

lemma devlink_reads:
  assumes "strf ck (event_time ck) = Some stamp"
  shows "reads e [Str ''bus_name'', Str ''dev_name'', Str ''driver_name'', Str ''reporter_name'', Str ''msg'']
      (ras_devlink_event_handler ck False e)
      (\<lambda>d. d = Some \<lparr>dl_timestamp = stamp, dl_bus_name = the (field_str e ''bus_name''),
        dl_dev_name = the (field_str e ''dev_name''), dl_driver_name = the (field_str e ''driver_name''),
        dl_reporter_name = the (field_str e ''reporter_name''), dl_msg = the (field_str e ''msg'')\<rparr>)"
  unfolding ras_devlink_event_handler_def Let_def if_False by (intro reads_stamped [OF assms] reads_val reads_str reads_done) simp

lemma diskerror_reads:
  assumes "strf ck (event_time ck) = Some stamp"
  shows "reads e [Val ''dev'', Val ''sector'', Val ''nr_sector'', Val ''error'', Str ''rwbs'', Str ''cmd'']
      (ras_diskerror_event_handler ck e)
      (\<lambda>d. let dev = unat (ucast (the (field_val e ''dev'')) :: u32) in
        d = \<lparr>dk_timestamp = stamp, dk_dev = to_base 10 (dev div 2 ^ 20) @ '':'' @ to_base 10 (dev mod 2 ^ 20),
          dk_sector = the (field_val e ''sector''), dk_nr_sector = ucast (the (field_val e ''nr_sector'')),
          dk_error = name_of blk_errors ''unknown block error'' (sint (ucast (the (field_val e ''error'')) :: s32)),
          dk_rwbs = the (field_str e ''rwbs''), dk_cmd = the (field_str e ''cmd'')\<rparr>)"
proof -
  have m: "(0xfffff :: u32) = mask 20" by (simp add: mask_eq_exp_minus_1)
  have "fmt_u (MAJOR w) = to_base 10 (unat w div 2 ^ 20)" "fmt_u (MINOR w) = to_base 10 (unat w mod 2 ^ 20)" for w
    by (simp_all add: fmt_u_def MAJOR_def MINOR_def m unsigned_drop_bit_eq drop_bit_eq_div unsigned_take_bit_eq
        take_bit_eq_mod unat_div_distrib unat_mod_distrib flip: take_bit_eq_mask)
  then show ?thesis
    unfolding ras_diskerror_event_handler_def Let_def by (intro reads_stamped [OF assms] reads_val reads_str reads_done) (simp add: get_blk_error_def)
qed

lemma memory_failure_reads:
  "reads e [Val ''pfn'', Val ''type'', Val ''result''] (ras_memory_failure_event_handler env mf_trigger e)
     (\<lambda>(ev, warned, runs).
        mf_pfn ev = ''0x'' @ fmt_x (the (field_val e ''pfn'')) \<and>
        mf_page_type ev = name_of mf_page_types ''unknown page'' (sint (ucast (the (field_val e ''type'')) :: s32)) \<and>
        mf_action_result ev = name_of mf_action_results ''unknown'' (sint (ucast (the (field_val e ''result'')) :: s32)) \<and>
        map fst runs = (case mf_trigger of None \<Rightarrow> [] | Some t \<Rightarrow> [t]))"
  unfolding ras_memory_failure_event_handler_def Let_def
  by (intro reads_intros)
    (simp add: get_page_type_def get_action_result_def run_mf_trigger_def split: option.split)


text \<open>
  The handlers of network, disk and memory failure events fail exactly when a field they read is
  missing; otherwise the event they hand on has the values of the fields, the device of a disk split into
  its major and minor number, and an error number, a page type or a result named by its table. A memory
  failure needs no local time, and its trigger, if one is set, runs once.
\<close>

theorem small_handlers_store:
  assumes "strf ck (event_time ck) = Some stamp"
  shows "reads e [Str ''name'', Str ''driver'', Val ''queue_index''] (ras_net_xmit_timeout_handler ck e)
      (\<lambda>d. d = \<lparr>dl_timestamp = stamp, dl_bus_name = [], dl_dev_name = the (field_str e ''name''),
        dl_driver_name = the (field_str e ''driver''), dl_reporter_name = [],
        dl_msg = ''TX timeout on queue: '' @ fmt_d (ucast (the (field_val e ''queue_index'')) :: s32) @ [CHR 0x0A]\<rparr>) \<and>
    reads e [Str ''bus_name'', Str ''dev_name'', Str ''driver_name'', Str ''reporter_name'', Str ''msg'']
      (ras_devlink_event_handler ck False e)
      (\<lambda>d. d = Some \<lparr>dl_timestamp = stamp, dl_bus_name = the (field_str e ''bus_name''),
        dl_dev_name = the (field_str e ''dev_name''), dl_driver_name = the (field_str e ''driver_name''),
        dl_reporter_name = the (field_str e ''reporter_name''), dl_msg = the (field_str e ''msg'')\<rparr>) \<and>
    reads e [Val ''dev'', Val ''sector'', Val ''nr_sector'', Val ''error'', Str ''rwbs'', Str ''cmd'']
      (ras_diskerror_event_handler ck e)
      (\<lambda>d. let dev = unat (ucast (the (field_val e ''dev'')) :: u32) in
        d = \<lparr>dk_timestamp = stamp, dk_dev = to_base 10 (dev div 2 ^ 20) @ '':'' @ to_base 10 (dev mod 2 ^ 20),
          dk_sector = the (field_val e ''sector''), dk_nr_sector = ucast (the (field_val e ''nr_sector'')),
          dk_error = name_of blk_errors ''unknown block error'' (sint (ucast (the (field_val e ''error'')) :: s32)),
          dk_rwbs = the (field_str e ''rwbs''), dk_cmd = the (field_str e ''cmd'')\<rparr>) \<and>
    reads e [Val ''pfn'', Val ''type'', Val ''result''] (ras_memory_failure_event_handler env mf_trigger e)
     (\<lambda>(ev, warned, runs).
        mf_pfn ev = ''0x'' @ fmt_x (the (field_val e ''pfn'')) \<and>
        mf_page_type ev = name_of mf_page_types ''unknown page'' (sint (ucast (the (field_val e ''type'')) :: s32)) \<and>
        mf_action_result ev = name_of mf_action_results ''unknown'' (sint (ucast (the (field_val e ''result'')) :: s32)) \<and>
        map fst runs = (case mf_trigger of None \<Rightarrow> [] | Some t \<Rightarrow> [t]))"
  by (intro conjI xmit_timeout_reads devlink_reads diskerror_reads memory_failure_reads assms)

theorem small_handlers_store_witness:
  "\<exists>out. ras_diskerror_event_handler
     \<lparr>use_uptime = True, ts = 0, user_hz = 100, uptime_diff = 0, time_now = 0, strf = \<lambda>_. Some ''now''\<rparr>
     \<lparr>field_val = \<lambda>f. Some (if f = ''dev'' then 0x800010 else if f = ''error'' then - 5 else 7),
      field_str = \<lambda>_. Some ''R'', field_words = \<lambda>_. None, complaint = \<lambda>_. []\<rparr> =
     Some (out, Some \<lparr>dk_timestamp = ''now'', dk_dev = ''8:16'', dk_sector = 7, dk_nr_sector = 7,
       dk_error = ''I/O error'', dk_rwbs = ''R'', dk_cmd = ''R''\<rparr>)"
proof -
  let ?ck = "\<lparr>use_uptime = True, ts = 0, user_hz = 100, uptime_diff = 0, time_now = 0, strf = \<lambda>_. Some ''now''\<rparr>"
  let ?e = "\<lparr>field_val = \<lambda>f. Some (if f = ''dev'' then 0x800010 else if f = ''error'' then - 5 else 7),
      field_str = \<lambda>_. Some ''R'', field_words = \<lambda>_. None, complaint = \<lambda>_. []\<rparr> :: trace_event"
  have n: "to_base 10 8 = ''8''" "to_base 10 16 = ''16''"
    "name_of blk_errors ''unknown block error'' (- 5) = ''I/O error''"
    by code_simp+
  show ?thesis
    using conjunct1 [OF conjunct2 [OF conjunct2 [OF small_handlers_store [of ?ck "''now''" ?e]]]] n
    by (simp add: reads_def present_def Let_def)
qed

section \<open>Where the handlers go wrong\<close>

text \<open>
  An event of a signal that has all its fields is reported and stored, except that the report reads
  outside its table, or prints a null pointer, exactly when the code is 0, or the signal is a bus error
  whose code is not between 1 and 5: the message is looked up without the test that guards the code.
\<close>

theorem signal_report_undefined:
  "report_ras_signal_event strsignal ev = None \<longleftrightarrow>
     sg_code ev = 0 \<or> sg_sig ev = SIGBUS \<and> sint (sg_code ev) \<notin> {1..5}"
proof -
  have t: "int_entry errcode_str i = None \<longleftrightarrow> i = 0" "int_entry signal_res j \<noteq> None"
    if "0 \<le> i \<and> i \<le> 5" "0 \<le> j \<and> j \<le> 4" for i j
  proof -
    have "i \<in> {0, 1, 2, 3, 4, 5}" "j \<in> {0, 1, 2, 3, 4}" using that by auto
    then show "int_entry errcode_str i = None \<longleftrightarrow> i = 0" "int_entry signal_res j \<noteq> None"
      by (auto simp: int_entry_def errcode_str_def signal_res_def lookup_def)
  qed
  have m: "int_entry signal_msg i = None \<longleftrightarrow> i \<notin> {1..5}" for i
  proof (cases "i \<in> {0..5}")
    case True
    then have "i \<in> {0, 1, 2, 3, 4, 5}" by auto
    then show ?thesis by (auto simp: int_entry_def signal_msg_def lookup_def)
  qed (auto simp: int_entry_def signal_msg_def lookup_def split: option.split)
  have z: "sg_code ev = 0 \<longleftrightarrow> sint (sg_code ev) = 0" by (metis signed_0 signed_word_eqI)
  show ?thesis
    using t [of "sint (sg_code ev)" "sint (sg_result ev)"] t [of "sint (sg_code ev)" 0]
      t [of 0 "sint (sg_result ev)"] m [of "sint (sg_code ev)"]
    by (auto simp: report_ras_signal_event_def z bind_eq_None_conv not_less)
qed

lemma shift_byte:
  fixes k :: int
  assumes "0 \<le> k" and "k < 256"
  shows "(k + 128) mod 256 - 128 = (if k < 128 then k else k - 256)"
proof (cases "k < 128")
  case False
  have "(k + 128) mod 256 = (k - 128) mod 256" using mod_add_self2 [of "k - 128" 256] by (simp add: add.commute)
  then show ?thesis using assms False by simp
qed (use assms in simp)

lemma sint_byte: "sint (w :: 8 word) = (if uint w < 128 then uint w else uint w - 256)"
proof -
  have "0 \<le> uint w" "uint w < 256" using unsigned_less [of w, where ?'a = int] by simp_all
  moreover have "sint w = (uint w + 128) mod 256 - 128"
    by (simp add: sint_uint signed_take_bit_eq_take_bit_shift take_bit_eq_mod)
  ultimately show ?thesis using shift_byte by simp
qed

lemma err_mask_byte:
  "err_mask (sint (lsb :: 8 word)) = (if lsb < 64 then Some (NOT (push_bit (unat lsb) 1 - 1)) else None)"
proof -
  have k: "0 \<le> uint lsb" "uint lsb < 256" using unsigned_less [of lsb, where ?'a = int] by simp_all
  have "lsb < 64 \<longleftrightarrow> uint lsb < 64" by (simp add: word_less_def)
  then show ?thesis using k sint_byte [of lsb] by (cases "uint lsb < 64"; cases "uint lsb < 128") (auto simp: err_mask_def)
qed

lemma length_fmt_u16: "length (fmt_u (w :: 16 word)) \<le> 5"
  using length_to_base [of 10 "unat w" 4] unsigned_less [of w, where ?'a = nat] by (simp add: fmt_u_def)

lemma length_fmt_x64: "length (fmt_x (w :: u64)) \<le> 16"
  using length_to_base [of 16 "unat w" 15] unat_u64_less [of w] by (simp add: fmt_x_def)

lemma length_concat_filter: "length (concat (map f (filter P xs))) \<le> length (concat (map f xs))"
  by (induction xs) auto

lemma length_cper_parts: "length (concat (map snd (cper_parts c))) \<le> 238"
  using length_fmt_u16 [of "cp_node c"] length_fmt_u16 [of "cp_card c"] length_fmt_u16 [of "cp_module c"]
    length_fmt_u16 [of "cp_bank c"] length_fmt_u16 [of "cp_device c"] length_fmt_u16 [of "cp_row c"]
    length_fmt_u16 [of "cp_column c"] length_fmt_u16 [of "cp_bit_pos c"] length_fmt_u16 [of "cp_rank c"]
    length_fmt_u16 [of "cp_mem_array_handle c"] length_fmt_u16 [of "cp_mem_dev_handle c"]
    length_fmt_x64 [of "cp_requestor_id c"] length_fmt_x64 [of "cp_responder_id c"]
    length_fmt_x64 [of "cp_target_id c"]
  by (simp add: cper_parts_def)

lemma length_err_cper_text: "length (err_cper_text c) \<le> 240"
  using length_cper_parts [of c] length_concat_filter [of snd "\<lambda>p. bit (cp_validation_bits c) (fst p)" "cper_parts c"]
  by (simp add: err_cper_text_def)

text \<open>
  The mask of an extended error log is printed only when its exponent is less than 64. The value 0xff,
  which stands for a mask that is not known and is tested for, is held in a signed byte, so that the test
  fails and 1 is shifted by a negative number. The report is undefined exactly in this case and when one
  of its three arrays is missing or too short; the text of the memory section fits its buffer.
\<close>

theorem extlog_mask_undefined:
  "err_mask (sint (lsb :: 8 word)) = (if lsb < 64 then Some (NOT (push_bit (unat lsb) 1 - 1)) else None) \<and>
   (report_extlog_mem_event ev = None \<longleftrightarrow>
      64 \<le> el_pa_mask_lsb ev \<or> el_fru_text ev = None \<or> (el_cper_data ev \<bind> cper_of_bytes) = None \<or>
      (el_fru_id ev \<bind> uuid_le) = None) \<and>
   length (err_cper_text c) < 256"
proof -
  have "(el_cper_data ev \<bind> err_cper_data) = map_option err_cper_text (el_cper_data ev \<bind> cper_of_bytes)"
    by (cases "el_cper_data ev") (simp_all add: err_cper_data_def)
  then show ?thesis
    using length_err_cper_text [of c] err_mask_byte [of lsb] err_mask_byte [of "el_pa_mask_lsb ev"]
    by (auto simp: report_extlog_mem_event_def not_le bind_eq_None_conv)
qed

end
