(* ===== verification/Queue.thy ===== *)
theory Queue
  imports Prelude "HOL-Library.Monad_Syntax"
begin

text \<open>
  \<open>queue.c\<close>: the singly linked queue that holds the corrected errors of a CPU. The nodes live in a
  heap, a map from addresses to nodes; dereferencing or freeing an address that is not allocated is
  undefined behaviour, \<open>None\<close>. \<open>malloc\<close> is the caller's: the address it returns, or \<open>NULL\<close>, is an
  argument. The interface the CPU isolation relies on is the locale \<open>fifo\<close>.
\<close>

section \<open>The data\<close>

record queue_node =
  q_time :: time_t
  q_value :: u32
  q_next :: "ptr option"

record link_queue =
  q_head :: "ptr option"
  q_tail :: "ptr option"
  q_size :: s32

type_synonym node_heap = "ptr \<Rightarrow> queue_node option"

section \<open>The operations\<close>

text \<open>A \<open>struct link_queue *\<close> that may be \<open>NULL\<close> is an option.\<close>

definition is_empty_queue :: "link_queue option \<Rightarrow> bool" where
  "is_empty_queue queue = (case queue of Some q \<Rightarrow> q_size q = 0 | None \<Rightarrow> True)"

text \<open>The argument says whether \<open>malloc\<close> found memory for the queue itself.\<close>

definition init_queue :: "bool \<Rightarrow> link_queue option" where
  "init_queue mem = (if mem then Some \<lparr>q_head = None, q_tail = None, q_size = 0\<rparr> else None)"

partial_function (option) free_nodes :: "node_heap \<Rightarrow> ptr option \<Rightarrow> node_heap option" where
  "free_nodes h node =
     (case node of
        None \<Rightarrow> Some h
      | Some p \<Rightarrow>
          (case h p of
             None \<Rightarrow> None
           | Some nd \<Rightarrow> free_nodes (h(p := None)) (q_next nd)))"

declare free_nodes.simps [code]

definition clear_queue :: "node_heap \<Rightarrow> link_queue option \<Rightarrow> (node_heap \<times> link_queue option) option" where
  "clear_queue h queue =
     (case queue of
        None \<Rightarrow> Some (h, None)
      | Some q \<Rightarrow>
          do { h' \<leftarrow> free_nodes h (q_head q);
               Some (h', Some \<lparr>q_head = None, q_tail = None, q_size = 0\<rparr>) })"

definition free_queue :: "node_heap \<Rightarrow> link_queue option \<Rightarrow> node_heap option" where
  "free_queue h queue = do { (h', _) \<leftarrow> clear_queue h queue; Some h' }"

text \<open>\<open>size\<close> is an \<open>int\<close>: incrementing it past \<open>INT_MAX\<close> is undefined.\<close>

definition push :: "node_heap \<Rightarrow> link_queue \<Rightarrow> ptr \<Rightarrow> (node_heap \<times> link_queue) option" where
  "push h q node =
     do { (h', q') \<leftarrow>
            (case q_head q of
               None \<Rightarrow> Some (h, q\<lparr>q_head := Some node\<rparr>)
             | Some _ \<Rightarrow>
                 do { t \<leftarrow> q_tail q;
                      nd \<leftarrow> h t;
                      Some (h(t \<mapsto> nd\<lparr>q_next := Some node\<rparr>), q) });
          if sint (q_size q') = 2 ^ 31 - 1 then None
          else Some (h', q'\<lparr>q_tail := Some node, q_size := q_size q' + 1\<rparr>) }"

text \<open>\<open>tail\<close> keeps its value when the last node is popped; the result is the \<open>int\<close> returned.\<close>

definition pop :: "node_heap \<Rightarrow> link_queue option \<Rightarrow> (node_heap \<times> link_queue option \<times> int) option" where
  "pop h queue =
     (case queue of
        None \<Rightarrow> Some (h, None, - 1)
      | Some q \<Rightarrow>
          if is_empty_queue queue then Some (h, Some q, - 1)
          else do { p \<leftarrow> q_head q;
                    nd \<leftarrow> h p;
                    Some (h(p := None),
                          Some (q\<lparr>q_head := q_next nd, q_size := q_size q - 1\<rparr>), 0) })"

definition front :: "link_queue option \<Rightarrow> ptr option" where
  "front queue = (case queue of None \<Rightarrow> None | Some q \<Rightarrow> q_head q)"

definition node_create :: "node_heap \<Rightarrow> ptr option \<Rightarrow> time_t \<Rightarrow> u32 \<Rightarrow> node_heap \<times> ptr option" where
  "node_create h mem time value =
     (case mem of
        None \<Rightarrow> (h, None)
      | Some p \<Rightarrow> (h(p \<mapsto> \<lparr>q_time = time, q_value = value, q_next = None\<rparr>), Some p))"

section \<open>The list a queue stands for\<close>

fun chain :: "node_heap \<Rightarrow> ptr option \<Rightarrow> ptr list \<Rightarrow> bool" where
  "chain h p [] = (p = None)"
| "chain h p (a # as) =
     (p = Some a \<and> (case h a of None \<Rightarrow> False | Some nd \<Rightarrow> chain h (q_next nd) as))"

definition entry :: "node_heap \<Rightarrow> ptr \<Rightarrow> time_t \<times> u32" where
  "entry h p = (case h p of None \<Rightarrow> (0, 0) | Some nd \<Rightarrow> (q_time nd, q_value nd))"

text \<open>
  The representation invariant: the nodes \<open>ps\<close> are chained from \<open>head\<close>, distinct, their number is
  \<open>size\<close>, and \<open>tail\<close> is the last of them unless there is none, when \<open>tail\<close> is arbitrary.
\<close>

definition queue_rep :: "node_heap \<Rightarrow> link_queue \<Rightarrow> ptr list \<Rightarrow> (time_t \<times> u32) list \<Rightarrow> bool" where
  "queue_rep h q ps xs \<longleftrightarrow>
     chain h (q_head q) ps \<and> distinct ps \<and> (ps \<noteq> [] \<longrightarrow> q_tail q = Some (last ps)) \<and>
     sint (q_size q) = int (length ps) \<and> xs = map (entry h) ps"

lemma chain_frame [heap_simps]: "a \<notin> set ps \<Longrightarrow> chain (h(a := v)) p ps = chain h p ps"
  by (induction ps arbitrary: p) (auto split: option.splits)

lemma entry_frame [heap_simps]: "a \<notin> set ps \<Longrightarrow> map (entry (h(a := v))) ps = map (entry h) ps"
  by (induction ps) (auto simp: entry_def)

lemma queue_rep_frame:
  "a \<notin> set ps \<Longrightarrow> queue_rep (h(a := v)) q ps xs = queue_rep h q ps xs"
  by (simp add: queue_rep_def heap_simps)

lemma chain_allocated: "chain h p ps \<Longrightarrow> a \<in> set ps \<Longrightarrow> h a \<noteq> None"
  by (induction ps arbitrary: p) (auto split: option.splits)

lemma chain_head_None: "chain h None ps \<longleftrightarrow> ps = []"
  by (cases ps) auto

lemma chain_Some: "chain h (Some a) ps \<Longrightarrow> \<exists>qs. ps = a # qs"
  by (cases ps) auto

text \<open>Writing the \<open>next\<close> field of the last node.\<close>

lemma chain_snoc:
  assumes "chain h p (ps @ [t])" and "distinct (ps @ [t])" and "h t = Some nd"
    and "n \<notin> set (ps @ [t])" and "h n = Some new" and "q_next new = None"
  shows "chain (h(t \<mapsto> nd\<lparr>q_next := Some n\<rparr>)) p (ps @ [t, n])"
  using assms by (induction ps arbitrary: p) (auto split: option.splits)

lemma sint_plus_one:
  fixes w :: "32 word"
  assumes "sint w < 2 ^ 31 - 1"
  shows "sint (w + 1) = sint w + 1"
proof -
  have "- (2 ^ 31) \<le> sint w" using sint_ge [of w] by simp
  then show ?thesis using assms
    by (simp add: signed_take_bit_int_eq_self sint_word_ariths)
qed

lemma sint_minus_one:
  fixes w :: "32 word"
  assumes "0 < sint w"
  shows "sint (w - 1) = sint w - 1"
proof -
  have "sint w < 2 ^ 31" using sint_lt [of w] by simp
  then show ?thesis using assms
    by (simp add: signed_take_bit_int_eq_self sint_word_ariths)
qed

section \<open>What the operations do to it\<close>

lemma init_queue_rep: "init_queue True = Some q \<Longrightarrow> queue_rep h q [] []"
  by (auto simp: init_queue_def queue_rep_def)

lemma is_empty_queue_rep:
  assumes "queue_rep h q ps xs"
  shows "is_empty_queue (Some q) \<longleftrightarrow> xs = []"
proof -
  have "q_size q = 0 \<longleftrightarrow> sint (q_size q) = 0" by (simp add: signed_eq_0_iff)
  then show ?thesis using assms by (simp add: is_empty_queue_def queue_rep_def)
qed

lemma front_rep: "queue_rep h q ps xs \<Longrightarrow> front (Some q) = (case ps of [] \<Rightarrow> None | p # _ \<Rightarrow> Some p)"
  by (auto simp: front_def queue_rep_def split: list.splits)

lemma node_create_rep:
  assumes "queue_rep h q ps xs" and "h n = None"
  shows "queue_rep (fst (node_create h (Some n) t v)) q ps xs \<and> n \<notin> set ps"
proof -
  have "n \<notin> set ps"
    using assms chain_allocated [of h "q_head q" ps n] by (auto simp: queue_rep_def)
  then show ?thesis using assms by (simp add: node_create_def queue_rep_frame)
qed

lemma push_rep:
  assumes rep: "queue_rep h q ps xs" and new: "h n = Some \<lparr>q_time = t, q_value = v, q_next = None\<rparr>"
    and fresh: "n \<notin> set ps" and room: "length ps < 2 ^ 31 - 1"
  shows "\<exists>h' q'. push h q n = Some (h', q') \<and> queue_rep h' q' (ps @ [n]) (xs @ [(t, v)]) \<and>
    (\<forall>a. a \<notin> set ps \<longrightarrow> h' a = h a)"
proof -
  have size: "sint (q_size q + 1) = int (length ps) + 1" and lt: "sint (q_size q) \<noteq> 2 ^ 31 - 1"
    using rep room sint_plus_one [of "q_size q"] by (auto simp: queue_rep_def)
  show ?thesis
  proof (cases ps rule: rev_cases)
    case Nil
    then show ?thesis
      using rep new size lt by (auto simp: push_def queue_rep_def chain_head_None entry_def)
  next
    case (snoc qs t')
    then have t: "q_tail q = Some t'" and ch: "chain h (q_head q) (qs @ [t'])" and d: "distinct (qs @ [t'])"
      using rep by (auto simp: queue_rep_def)
    then obtain a where a: "q_head q = Some a"
      by (cases "q_head q") (auto simp: chain_head_None)
    obtain nd where nd: "h t' = Some nd"
      using chain_allocated [OF ch, of t'] by auto
    let ?h = "h(t' \<mapsto> nd\<lparr>q_next := Some n\<rparr>)"
    have "chain ?h (q_head q) (qs @ [t', n])"
      using ch d nd fresh snoc new by (intro chain_snoc) auto
    moreover have "map (entry ?h) (qs @ [t', n]) = map (entry h) ps @ [(t, v)]"
      using nd new fresh snoc d by (auto simp: entry_def heap_simps)
    ultimately have "queue_rep ?h (q\<lparr>q_tail := Some n, q_size := q_size q + 1\<rparr>) (ps @ [n]) (xs @ [(t, v)])"
      using rep fresh snoc size by (auto simp: queue_rep_def)
    moreover have "push h q n = Some (?h, q\<lparr>q_tail := Some n, q_size := q_size q + 1\<rparr>)"
      using a t nd lt by (simp add: push_def)
    ultimately show ?thesis using snoc by auto
  qed
qed

lemma pop_rep:
  assumes rep: "queue_rep h q (p # ps) (x # xs)"
  shows "\<exists>q'. pop h (Some q) = Some (h(p := None), Some q', 0) \<and>
    queue_rep (h(p := None)) q' ps xs \<and> q_tail q' = q_tail q"
proof -
  obtain nd where nd: "h p = Some nd" and hd: "q_head q = Some p" and ch: "chain h (q_next nd) ps"
    using rep by (auto simp: queue_rep_def split: option.splits)
  have "\<not> is_empty_queue (Some q)"
    using is_empty_queue_rep [OF rep] by simp
  then have "pop h (Some q) = Some (h(p := None), Some (q\<lparr>q_head := q_next nd, q_size := q_size q - 1\<rparr>), 0)"
    using nd hd by (simp add: pop_def)
  moreover have "sint (q_size q - 1) = int (length ps)"
    using rep sint_minus_one [of "q_size q"] by (simp add: queue_rep_def)
  ultimately show ?thesis
    using rep nd ch by (auto simp: queue_rep_def heap_simps)
qed

lemma free_nodes_chain:
  assumes "chain h p ps" and "distinct ps"
  shows "free_nodes h p = Some (\<lambda>a. if a \<in> set ps then None else h a)"
  using assms
proof (induction ps arbitrary: h p)
  case Nil
  then show ?case by (simp add: free_nodes.simps)
next
  case (Cons a as)
  then obtain nd where nd: "h a = Some nd" "chain h (q_next nd) as" and p: "p = Some a"
    by (auto split: option.splits)
  then have "free_nodes h p = free_nodes (h(a := None)) (q_next nd)"
    by (simp add: free_nodes.simps [of h "Some a"])
  moreover have "free_nodes (h(a := None)) (q_next nd) =
      Some (\<lambda>b. if b \<in> set as then None else (h(a := None)) b)"
  proof (rule Cons.IH)
    show "chain (h(a := None)) (q_next nd) as"
      using Cons.prems nd by (simp add: chain_frame)
    show "distinct as" using Cons.prems by simp
  qed
  ultimately show ?case using p by (auto simp: fun_eq_iff)
qed

lemma clear_queue_rep:
  assumes "queue_rep h q ps xs"
  shows "\<exists>q'. clear_queue h (Some q) = Some (\<lambda>a. if a \<in> set ps then None else h a, Some q') \<and>
    queue_rep h' q' [] []"
  using assms free_nodes_chain [of h "q_head q" ps]
  by (auto simp: clear_queue_def queue_rep_def)

section \<open>The interface\<close>

text \<open>
  A first-in first-out queue over a state: \<open>rep\<close> relates the state to the list it stands for,
  \<open>avail\<close> says that the allocator may hand out an address, \<open>room\<close> bounds the length.
\<close>

locale fifo =
  fixes rep :: "'s \<Rightarrow> 'a list \<Rightarrow> bool"
    and avail :: "'s \<Rightarrow> 'p \<Rightarrow> bool"
    and room :: nat
    and enq :: "'p \<Rightarrow> 'a \<Rightarrow> 's \<Rightarrow> 's option"
    and deq :: "'s \<Rightarrow> 's option"
    and peek :: "'s \<Rightarrow> 'a option"
    and clear :: "'s \<Rightarrow> 's option"
  assumes enq_rep: "rep s xs \<Longrightarrow> avail s p \<Longrightarrow> length xs < room \<Longrightarrow>
      \<exists>s'. enq p x s = Some s' \<and> rep s' (xs @ [x])"
    and deq_rep: "rep s (x # xs) \<Longrightarrow> \<exists>s'. deq s = Some s' \<and> rep s' xs"
    and peek_rep: "rep s xs \<Longrightarrow> peek s = (case xs of [] \<Rightarrow> None | x # _ \<Rightarrow> Some x)"
    and clear_rep: "rep s xs \<Longrightarrow> \<exists>s'. clear s = Some s' \<and> rep s' []"
begin

fun drain :: "nat \<Rightarrow> 's \<Rightarrow> ('a list \<times> 's) option" where
  "drain 0 s = Some ([], s)"
| "drain (Suc n) s =
     (case (peek s, deq s) of
        (Some x, Some s') \<Rightarrow> map_option (\<lambda>(xs, s''). (x # xs, s'')) (drain n s')
      | _ \<Rightarrow> None)"

text \<open>Taking \<open>n\<close> elements returns the oldest \<open>n\<close>, in order, and leaves the others.\<close>

lemma drain_oldest:
  "rep s xs \<Longrightarrow> n \<le> length xs \<Longrightarrow>
     \<exists>s'. drain n s = Some (take n xs, s') \<and> rep s' (drop n xs)"
proof (induction n arbitrary: s xs)
  case 0
  then show ?case by simp
next
  case (Suc n)
  then obtain x ys where xs: "xs = x # ys" by (cases xs) auto
  then obtain s1 where s1: "deq s = Some s1" "rep s1 ys"
    using deq_rep Suc.prems by metis
  obtain s2 where "drain n s1 = Some (take n ys, s2)" "rep s2 (drop n ys)"
    using Suc.IH [of s1 ys] Suc.prems xs s1 by auto
  then show ?case
    using s1 xs peek_rep [OF Suc.prems(1)] by auto
qed

end

text \<open>The linked queue: the state is the heap with one queue in it, and the nodes it owns.\<close>

definition lq_rep :: "node_heap \<times> link_queue \<Rightarrow> (time_t \<times> u32) list \<Rightarrow> bool" where
  "lq_rep s xs \<longleftrightarrow> (\<exists>ps. queue_rep (fst s) (snd s) ps xs)"

definition lq_enq :: "ptr \<Rightarrow> time_t \<times> u32 \<Rightarrow> node_heap \<times> link_queue \<Rightarrow> (node_heap \<times> link_queue) option" where
  "lq_enq p x s =
     (case node_create (fst s) (Some p) (fst x) (snd x) of
        (h, Some n) \<Rightarrow> push h (snd s) n
      | (h, None) \<Rightarrow> None)"

definition lq_deq :: "node_heap \<times> link_queue \<Rightarrow> (node_heap \<times> link_queue) option" where
  "lq_deq s =
     (case pop (fst s) (Some (snd s)) of
        Some (h, Some q, rc) \<Rightarrow> (if rc = 0 then Some (h, q) else None)
      | _ \<Rightarrow> None)"

definition lq_peek :: "node_heap \<times> link_queue \<Rightarrow> (time_t \<times> u32) option" where
  "lq_peek s = map_option (entry (fst s)) (front (Some (snd s)))"

definition lq_clear :: "node_heap \<times> link_queue \<Rightarrow> (node_heap \<times> link_queue) option" where
  "lq_clear s =
     (case clear_queue (fst s) (Some (snd s)) of Some (h, Some q) \<Rightarrow> Some (h, q) | _ \<Rightarrow> None)"

lemma queue_rep_length: "queue_rep h q ps xs \<Longrightarrow> length xs = length ps"
  by (simp add: queue_rep_def)

interpretation lq: fifo lq_rep "\<lambda>s p. fst s p = None" "2 ^ 31 - 1" lq_enq lq_deq lq_peek lq_clear
proof unfold_locales
  fix s :: "node_heap \<times> link_queue" and xs p x
  assume "lq_rep s xs" and free: "fst s p = None" and room: "length xs < 2 ^ 31 - 1"
  then obtain ps where rep: "queue_rep (fst s) (snd s) ps xs"
    by (auto simp: lq_rep_def)
  let ?h = "(fst s)(p \<mapsto> \<lparr>q_time = fst x, q_value = snd x, q_next = None\<rparr>)"
  have "queue_rep ?h (snd s) ps xs" and p: "p \<notin> set ps"
    using node_create_rep [OF rep free] by (auto simp: node_create_def)
  then show "\<exists>s'. lq_enq p x s = Some s' \<and> lq_rep s' (xs @ [x])"
    using push_rep [of ?h "snd s" ps xs p "fst x" "snd x"] room queue_rep_length [OF rep]
    by (auto simp: lq_enq_def node_create_def lq_rep_def)
next
  fix s :: "node_heap \<times> link_queue" and xs x
  assume "lq_rep s (x # xs)"
  then obtain p ps where rep: "queue_rep (fst s) (snd s) (p # ps) (x # xs)"
    by (auto simp: lq_rep_def queue_rep_def)
  then show "\<exists>s'. lq_deq s = Some s' \<and> lq_rep s' xs"
    using pop_rep [OF rep]
    by (auto simp: lq_deq_def lq_rep_def)
next
  fix s :: "node_heap \<times> link_queue" and xs
  assume "lq_rep s xs"
  then obtain ps where rep: "queue_rep (fst s) (snd s) ps xs"
    by (auto simp: lq_rep_def)
  then show "lq_peek s = (case xs of [] \<Rightarrow> None | x # _ \<Rightarrow> Some x)"
    using front_rep [OF rep] by (auto simp: lq_peek_def queue_rep_def split: list.splits)
  show "\<exists>s'. lq_clear s = Some s' \<and> lq_rep s' []"
    using clear_queue_rep [OF rep] by (fastforce simp: lq_clear_def lq_rep_def)
qed

text \<open>
  The linked queue is first in, first out: taking \<open>n\<close> entries returns the oldest \<open>n\<close> in the order they
  were put in, never fails, and leaves the others.
\<close>

theorem queue_drains_in_order:
  assumes "lq_rep s xs" and "n \<le> length xs"
  shows "\<exists>s'. lq.drain n s = Some (take n xs, s') \<and> lq_rep s' (drop n xs)"
  using assms by (rule lq.drain_oldest)

theorem queue_drains_in_order_witness:
  "\<exists>s s'. lq_rep s [(5, 1), (6, 2)] \<and> lq.drain 1 s = Some ([(5, 1)], s') \<and> lq_rep s' [(6, 2)]"
proof -
  let ?s = "([1 \<mapsto> \<lparr>q_time = 5, q_value = 1, q_next = Some 2\<rparr>, 2 \<mapsto> \<lparr>q_time = 6, q_value = 2, q_next = None\<rparr>],
    \<lparr>q_head = Some 1, q_tail = Some 2, q_size = 2\<rparr>)"
  have "lq_rep ?s [(5, 1), (6, 2)]"
    by (auto simp: lq_rep_def queue_rep_def entry_def intro!: exI [of _ "[1, 2]"])
  then show ?thesis using queue_drains_in_order [of ?s _ 1] by fastforce
qed

end
