(* ===== verification/Cpu_Isolation.thy ===== *)
theory Cpu_Isolation
  imports Queue C_Library
begin

text \<open>
  \<open>ras-cpu-isolation.c\<close>: CPUs whose corrected errors within a sliding window reach a threshold, or
  that report an uncorrected error, are taken offline, as long as not too many are offline already.
  The static variables of the file are the fields of \<open>cpu_sys\<close>; what the kernel answers is a
  \<open>cpu_env\<close>, one per event. Undefined behaviour of the C code is \<open>None\<close>.
\<close>

section \<open>The data\<close>

datatype cpu_state = CPU_OFFLINE | CPU_ONLINE | CPU_OFFLINE_FAILED | CPU_UNKNOWN

datatype error_handle_result = HANDLE_FAILED | HANDLE_SUCCEED | HANDLE_NOTHING

text \<open>An \<open>enum error_type\<close> holds any \<open>int\<close>; the values that are not named are \<open>OTHER_ERROR\<close>.\<close>

datatype error_type = CE | UCE | OTHER_ERROR

record isolation_param =
  ip_name :: string
  ip_units :: "(string \<times> u64) list"
  ip_value :: u64
  ip_limit :: u64

record cpu_info =
  uce_nums :: u64
  ce_nums :: u64
  ce_queue :: "link_queue option"
  cpu_state :: cpu_state

record error_info =
  err_nums :: u64
  err_time :: time_t
  err_type :: error_type

text \<open>
  \<open>offline_writes\<close> records the CPUs whose \<open>online\<close> file the program has written to; \<open>nodes\<close> is the
  heap of queue nodes. \<open>cpu_infos\<close> lists the entries that have been initialised.
\<close>

record cpu_sys =
  cpu_infos :: "cpu_info list"
  ncores :: u32
  enabled :: bool
  cpu_threshold :: isolation_param
  cpu_limit :: isolation_param
  cpu_cycle :: isolation_param
  nodes :: node_heap
  offline_writes :: "u32 list"

text \<open>
  What the system answers: the byte read from a CPU's \<open>online\<close> file before and after a write to it
  (\<open>None\<close> when it cannot be opened or read), the result of that write (\<open>None\<close> when the file cannot
  be opened for writing), \<open>sysconf (_SC_NPROCESSORS_ONLN)\<close> and the address \<open>malloc\<close> returns.
\<close>

record cpu_env =
  env_online :: "u32 \<Rightarrow> char option"
  env_online_after :: "u32 \<Rightarrow> char option"
  env_write :: "u32 \<Rightarrow> int option"
  env_nprocs :: u64
  env_malloc :: "ptr option"

definition normal_units :: "(string \<times> u64) list" where
  "normal_units = [('''', 1)]"

definition cpu_cycle_units :: "(string \<times> u64) list" where
  "cpu_cycle_units =
     [(''d'', 24 * 60 * 60), (''h'', 60 * 60), (''m'', 60), (''s'', 1)]"

definition cpu_sys0 :: cpu_sys where
  "cpu_sys0 =
     \<lparr>cpu_infos = [], ncores = 0, enabled = True,
      cpu_threshold = \<lparr>ip_name = ''CPU_CE_THRESHOLD'', ip_units = normal_units,
                        ip_value = 18, ip_limit = 10000\<rparr>,
      cpu_limit = \<lparr>ip_name = ''CPU_ISOLATION_LIMIT'', ip_units = normal_units,
                    ip_value = 0, ip_limit = 0\<rparr>,
      cpu_cycle = \<lparr>ip_name = ''CPU_ISOLATION_CYCLE'', ip_units = cpu_cycle_units,
                    ip_value = 24 * 60 * 60, ip_limit = 30 * 24 * 60 * 60\<rparr>,
      nodes = Map.empty, offline_writes = []\<rparr>"

section \<open>Configuration\<close>

text \<open>The loop over the digits: \<open>None\<close> is the \<open>return -1\<close> on a bad character or on overflow.\<close>

definition ULONG_MAX :: u64 where
  "ULONG_MAX = - 1"

fun parse_ul_digits :: "u64 \<Rightarrow> string \<Rightarrow> u64 option" where
  "parse_ul_digits value [] = Some value"
| "parse_ul_digits value (c # s) =
     (if isdigit c then
        (if value > ULONG_MAX div 10 \<or> (value = ULONG_MAX div 10 \<and> digit_num c > 5) then None
         else parse_ul_digits (10 * value + of_nat (digit_num c)) s)
      else None)"

fun apply_ul_unit :: "(string \<times> u64) list \<Rightarrow> string \<Rightarrow> u64 \<Rightarrow> u64 option" where
  "apply_ul_unit [] unit value = None"
| "apply_ul_unit ((name, factor) # units) unit value =
     (if strcasecmp_eq unit name then
        (if value > ULONG_MAX div factor then None else Some (value * factor))
      else apply_ul_unit units unit value)"

text \<open>\<open>Some v\<close> stands for \<open>return 0\<close> with \<open>*value = v\<close>, \<open>None\<close> for \<open>return -1\<close>.\<close>

definition parse_ul_config :: "isolation_param \<Rightarrow> string option \<Rightarrow> u64 \<Rightarrow> u64 option" where
  "parse_ul_config config env value =
     (case env of
        None \<Rightarrow> None
      | Some s \<Rightarrow>
          if s = [] then None
          else if isalpha (last s) then
            (if butlast s = [] then None
             else (case parse_ul_digits value (butlast s) of
                     None \<Rightarrow> None
                   | Some v \<Rightarrow> apply_ul_unit (ip_units config) [last s] v))
          else parse_ul_digits value s)"

definition check_config :: "isolation_param \<Rightarrow> isolation_param" where
  "check_config config =
     (if ip_value config > ip_limit config then config\<lparr>ip_value := ip_limit config\<rparr> else config)"

definition init_config :: "(string \<Rightarrow> string option) \<Rightarrow> isolation_param \<Rightarrow> isolation_param" where
  "init_config getenv config =
     (case parse_ul_config config (getenv (ip_name config)) 0 of
        None \<Rightarrow> config
      | Some value \<Rightarrow> check_config (config\<lparr>ip_value := value\<rparr>))"

definition check_config_status :: "(string \<Rightarrow> string option) \<Rightarrow> int" where
  "check_config_status getenv =
     (case getenv ''CPU_ISOLATION_ENABLE'' of
        None \<Rightarrow> - 1
      | Some env \<Rightarrow> if strcasecmp_eq env ''yes'' then 0 else - 1)"

section \<open>Initialisation\<close>

text \<open>The byte of the \<open>online\<close> file, scanned with \<open>%d\<close>; a number above 3 is unknown.\<close>

definition get_cpu_status :: "char option \<Rightarrow> cpu_state" where
  "get_cpu_status byte =
     (case byte of
        None \<Rightarrow> CPU_UNKNOWN
      | Some c \<Rightarrow>
          if c = CHR ''0'' then CPU_OFFLINE
          else if c = CHR ''1'' then CPU_ONLINE
          else if c = CHR ''2'' then CPU_OFFLINE_FAILED
          else CPU_UNKNOWN)"

text \<open>
  The loop of \<open>init_cpu_info\<close> over the CPUs \<open>i, i + 1, \<dots>\<close> (\<open>n\<close> of them left); \<open>qmem i\<close> says whether
  the allocation of queue \<open>i\<close> succeeds. The result says whether the loop ended without an error.
\<close>

fun init_cpu_infos :: "(u32 \<Rightarrow> char option) \<Rightarrow> (nat \<Rightarrow> bool) \<Rightarrow> nat \<Rightarrow> nat \<Rightarrow> cpu_info list \<times> bool" where
  "init_cpu_infos online qmem i 0 = ([], True)"
| "init_cpu_infos online qmem i (Suc n) =
     (let info = \<lparr>uce_nums = 0, ce_nums = 0, ce_queue = init_queue (qmem i),
                   cpu_state = get_cpu_status (online (of_nat i))\<rparr>
      in if ce_queue info = None then ([info], False)
         else (let (infos, ok) = init_cpu_infos online qmem (Suc i) n in (info # infos, ok)))"

definition init_cpu_info ::
  "(u32 \<Rightarrow> char option) \<Rightarrow> bool \<Rightarrow> (nat \<Rightarrow> bool) \<Rightarrow> u32 \<Rightarrow> cpu_sys \<Rightarrow> cpu_sys \<times> int" where
  "init_cpu_info online mem qmem cpus s =
     (let s1 = s\<lparr>ncores := cpus\<rparr>
      in if \<not> mem then (s1\<lparr>cpu_infos := []\<rparr>, - 1)
         else (let (infos, ok) = init_cpu_infos online qmem 0 (unat cpus);
                   s2 = s1\<lparr>cpu_infos := infos\<rparr>
               in if \<not> ok then (s2, - 1)
                  else (s2\<lparr>cpu_limit := (cpu_limit s2)\<lparr>ip_limit := ucast (cpus - 1), ip_value := 0\<rparr>\<rparr>, 0)))"

definition ras_cpu_isolation_init ::
  "(string \<Rightarrow> string option) \<Rightarrow> (u32 \<Rightarrow> char option) \<Rightarrow> bool \<Rightarrow> (nat \<Rightarrow> bool) \<Rightarrow> u32 \<Rightarrow>
   cpu_sys \<Rightarrow> cpu_sys" where
  "ras_cpu_isolation_init getenv online mem qmem cpus s =
     (let (s1, rc) = init_cpu_info online mem qmem cpus s
      in if rc < 0 \<or> check_config_status getenv < 0 then s1\<lparr>enabled := False\<rparr>
         else s1\<lparr>cpu_threshold := init_config getenv (cpu_threshold s1),
                 cpu_limit := init_config getenv (cpu_limit s1),
                 cpu_cycle := init_config getenv (cpu_cycle s1)\<rparr>)"

section \<open>Handling an error\<close>

text \<open>Every access to \<open>cpu_infos[cpu]\<close> is checked.\<close>

definition get_info :: "cpu_sys \<Rightarrow> u32 \<Rightarrow> cpu_info option" where
  "get_info s cpu = lookup (cpu_infos s) (unat cpu)"

definition set_info :: "cpu_sys \<Rightarrow> u32 \<Rightarrow> cpu_info \<Rightarrow> cpu_sys" where
  "set_info s cpu info = s\<lparr>cpu_infos := (cpu_infos s)[unat cpu := info]\<rparr>"

definition do_cpu_offline :: "cpu_env \<Rightarrow> u32 \<Rightarrow> cpu_sys \<Rightarrow> (cpu_sys \<times> error_handle_result) option" where
  "do_cpu_offline env cpu s =
     do { info \<leftarrow> get_info s cpu;
          let s1 = set_info s cpu (info\<lparr>cpu_state := CPU_OFFLINE_FAILED\<rparr>);
          (case env_write env cpu of
             None \<Rightarrow> Some (s1, HANDLE_FAILED)
           | Some rc \<Rightarrow>
               let s2 = s1\<lparr>offline_writes := offline_writes s1 @ [cpu]\<rparr>
               in if rc < 0 then Some (s2, HANDLE_FAILED)
                  else let st = get_cpu_status (env_online_after env cpu);
                           s3 = set_info s2 cpu (info\<lparr>cpu_state := st\<rparr>)
                       in Some (s3, if st = CPU_OFFLINE then HANDLE_SUCCEED else HANDLE_FAILED)) }"

text \<open>
  The loop of \<open>do_ce_handler\<close> that drops the entries older than the cycle. The difference of the
  times is compared as an \<open>unsigned long\<close>; a failing \<open>pop\<close> would repeat the loop for ever.
\<close>

partial_function (option) expire ::
  "u64 \<Rightarrow> node_heap \<Rightarrow> link_queue \<Rightarrow> u64 \<Rightarrow> (node_heap \<times> link_queue \<times> u64) option" where
  "expire cycle h q nums =
     (case (q_head q, q_tail q) of
        (Some hp, Some tp) \<Rightarrow>
          do { t \<leftarrow> h tp;
               f \<leftarrow> h hp;
               if q_time t - q_time f > cycle
               then do { (h', q', rc) \<leftarrow> pop h (Some q);
                         q'' \<leftarrow> q';
                         expire cycle h' q'' (if rc = 0 then nums - ucast (q_value f) else nums) }
               else Some (h, q, nums) }
      | _ \<Rightarrow> Some (h, q, nums))"

declare expire.simps [code]

definition do_ce_handler :: "cpu_env \<Rightarrow> u32 \<Rightarrow> cpu_sys \<Rightarrow> (cpu_sys \<times> error_handle_result) option" where
  "do_ce_handler env cpu s =
     do { info \<leftarrow> get_info s cpu;
          q \<leftarrow> ce_queue info;
          (h', q', nums) \<leftarrow> expire (ip_value (cpu_cycle s)) (nodes s) q (ce_nums info);
          let s1 = (set_info s cpu (info\<lparr>ce_queue := Some q', ce_nums := nums\<rparr>))\<lparr>nodes := h'\<rparr>;
          if nums \<ge> ip_value (cpu_threshold s) then do_cpu_offline env cpu s1
          else Some (s1, HANDLE_NOTHING) }"

definition do_uce_handler :: "cpu_env \<Rightarrow> u32 \<Rightarrow> cpu_sys \<Rightarrow> (cpu_sys \<times> error_handle_result) option" where
  "do_uce_handler env cpu s =
     do { info \<leftarrow> get_info s cpu;
          if uce_nums info > 0 then do_cpu_offline env cpu s else Some (s, HANDLE_NOTHING) }"

definition error_handler ::
  "cpu_env \<Rightarrow> u32 \<Rightarrow> error_info \<Rightarrow> cpu_sys \<Rightarrow> (cpu_sys \<times> error_handle_result) option" where
  "error_handler env cpu err s =
     (case err_type err of
        CE \<Rightarrow> do_ce_handler env cpu s
      | UCE \<Rightarrow> do_uce_handler env cpu s
      | OTHER_ERROR \<Rightarrow> Some (s, HANDLE_NOTHING))"

text \<open>The number of errors is an \<open>unsigned long\<close>, but \<open>node_create\<close> takes an \<open>unsigned int\<close>.\<close>

definition record_error_info :: "cpu_env \<Rightarrow> u32 \<Rightarrow> error_info \<Rightarrow> cpu_sys \<Rightarrow> cpu_sys option" where
  "record_error_info env cpu err s =
     (case err_type err of
        CE \<Rightarrow>
          (case node_create (nodes s) (env_malloc env) (err_time err) (ucast (err_nums err)) of
             (h, None) \<Rightarrow> Some s
           | (h, Some node) \<Rightarrow>
               do { info \<leftarrow> get_info s cpu;
                    q \<leftarrow> ce_queue info;
                    (h', q') \<leftarrow> push h q node;
                    Some ((set_info s cpu (info\<lparr>ce_queue := Some q',
                              ce_nums := ce_nums info + err_nums err\<rparr>))\<lparr>nodes := h'\<rparr>) })
      | UCE \<Rightarrow>
          do { info \<leftarrow> get_info s cpu;
               Some (set_info s cpu (info\<lparr>uce_nums := uce_nums info + 1\<rparr>)) }
      | OTHER_ERROR \<Rightarrow> Some s)"

text \<open>
  The number of CPUs that are offline, \<open>ncores - sysconf (\<dots>)\<close>, is a \<open>long\<close> compared as unsigned.
\<close>

definition over_limit :: "cpu_env \<Rightarrow> cpu_sys \<Rightarrow> bool" where
  "over_limit env s \<longleftrightarrow> ucast (ncores s) - env_nprocs env \<ge> ip_value (cpu_limit s)"

definition ras_record_cpu_error :: "cpu_env \<Rightarrow> error_info \<Rightarrow> s32 \<Rightarrow> cpu_sys \<Rightarrow> cpu_sys option" where
  "ras_record_cpu_error env err cpu s =
     (if \<not> enabled s then Some s
      else if cpu \<ge> ncores s \<or> sint cpu < 0 then Some s
      else do {
        info \<leftarrow> get_info s cpu;
        let st = get_cpu_status (env_online env cpu);
        let s1 = set_info s cpu (info\<lparr>cpu_state := st\<rparr>);
        if st \<noteq> CPU_ONLINE then Some s1
        else do {
          s2 \<leftarrow> record_error_info env cpu err s1;
          if over_limit env s2 then Some s2
          else do {
            (s3, ret) \<leftarrow> error_handler env cpu err s2;
            (case ret of
               HANDLE_NOTHING \<Rightarrow> Some s3
             | HANDLE_SUCCEED \<Rightarrow>
                 do { info3 \<leftarrow> get_info s3 cpu;
                      (h', q') \<leftarrow> clear_queue (nodes s3) (ce_queue info3);
                      Some ((set_info s3 cpu (info3\<lparr>ce_queue := q', ce_nums := 0, uce_nums := 0\<rparr>))
                              \<lparr>nodes := h'\<rparr>) }
             | HANDLE_FAILED \<Rightarrow> Some s3) } } })"

text \<open>\<open>cpu_infos_free\<close> frees the queue of each of the \<open>ncores\<close> entries.\<close>

fun free_queues :: "node_heap \<Rightarrow> cpu_info list \<Rightarrow> nat \<Rightarrow> node_heap option" where
  "free_queues h infos 0 = Some h"
| "free_queues h [] (Suc n) = None"
| "free_queues h (info # infos) (Suc n) =
     do { h' \<leftarrow> free_queue h (ce_queue info); free_queues h' infos n }"

definition cpu_infos_free :: "cpu_sys \<Rightarrow> node_heap option" where
  "cpu_infos_free s =
     (if cpu_infos s = [] then Some (nodes s)
      else free_queues (nodes s) (cpu_infos s) (unat (ncores s)))"

section \<open>Reading a configuration value\<close>

text \<open>
  What a value of the configuration means: a decimal number, or a decimal number and a letter that
  names a unit. Nothing else has a meaning.
\<close>

definition config_meaning :: "(string \<times> u64) list \<Rightarrow> string \<Rightarrow> nat option" where
  "config_meaning units s =
     (if s \<noteq> [] \<and> list_all isdigit s then Some (dec_value s)
      else if s \<noteq> [] \<and> isalpha (last s) \<and> butlast s \<noteq> [] \<and> list_all isdigit (butlast s)
      then map_option (\<lambda>f. dec_value (butlast s) * unat f) (unit_factor units [last s])
      else None)"

lemma ULONG_MAX_div_10: "unat (ULONG_MAX div 10) = 1844674407370955161"
  by (simp add: ULONG_MAX_def unat_div)

text \<open>The guard of the loop is exactly the overflow of \<open>10 * v + digit\<close>.\<close>

lemma ul_guard_iff:
  assumes "d < 10"
  shows "(v > ULONG_MAX div 10 \<or> (v = ULONG_MAX div 10 \<and> d > 5)) \<longleftrightarrow>
    \<not> 10 * unat v + d < 2 ^ 64"
proof -
  have "v > ULONG_MAX div 10 \<longleftrightarrow> unat v > 1844674407370955161"
    by (metis ULONG_MAX_div_10 word_less_nat_alt)
  moreover have "v = ULONG_MAX div 10 \<longleftrightarrow> unat v = 1844674407370955161"
    by (metis ULONG_MAX_div_10 word_unat_eq_iff)
  ultimately show ?thesis using assms by auto
qed

lemma unat_ul_step:
  fixes v :: u64
  assumes "10 * unat v + d < 2 ^ 64"
  shows "unat (10 * v + of_nat d) = 10 * unat v + d"
proof -
  have "unat (10 * v) = 10 * unat v"
    using assms unat_mult_no_wrap [of "10 :: u64" v] by simp
  moreover have "unat (of_nat d :: u64) = d"
    using assms by (simp add: unat_of_nat)
  ultimately show ?thesis
    using assms unat_add_no_wrap [of "10 * v" "of_nat d"] by simp
qed

lemma parse_ul_digits_spec:
  "parse_ul_digits v s =
     (if list_all isdigit s \<and> unat v * 10 ^ length s + dec_value s < 2 ^ 64
      then Some (of_nat (unat v * 10 ^ length s + dec_value s)) else None)"
proof (induction s arbitrary: v)
  case Nil
  then show ?case by (simp add: dec_value_def)
next
  case (Cons c s)
  show ?case
  proof (cases "isdigit c")
    case False
    then show ?thesis by simp
  next
    case True
    let ?d = "digit_num c"
    have d: "?d < 10" using True by simp
    have ce_total: "unat v * 10 ^ length (c # s) + dec_value (c # s) =
        (10 * unat v + ?d) * 10 ^ length s + dec_value s"
      by (simp add: dec_value_Cons algebra_simps)
    show ?thesis
    proof (cases "10 * unat v + ?d < 2 ^ 64")
      case True
      then show ?thesis
        using Cons.IH [of "10 * v + of_nat ?d"] \<open>isdigit c\<close> ul_guard_iff [OF d] unat_ul_step ce_total
        by simp
    next
      case False
      have "10 * unat v + ?d \<le> (10 * unat v + ?d) * 10 ^ length s + dec_value s"
        by (simp add: trans_le_add1)
      then have "\<not> unat v * 10 ^ length (c # s) + dec_value (c # s) < 2 ^ 64"
        using False ce_total by linarith
      then show ?thesis using False \<open>isdigit c\<close> ul_guard_iff [OF d] by simp
    qed
  qed
qed

lemma ul_unit_guard_iff:
  assumes "factor \<noteq> 0"
  shows "v > ULONG_MAX div factor \<longleftrightarrow> \<not> unat v * unat factor < 2 ^ 64"
proof -
  have f: "0 < unat factor" using assms by (simp add: unat_gt_0)
  have max: "unat ULONG_MAX = 2 ^ 64 - 1" by (simp add: ULONG_MAX_def unsigned_minus_1_eq_mask mask_eq_exp_minus_1)
  have "v > ULONG_MAX div factor \<longleftrightarrow> (2 ^ 64 - 1) div unat factor < unat v"
    by (simp add: word_less_nat_alt unat_div max)
  also have "\<dots> \<longleftrightarrow> 2 ^ 64 - 1 < unat v * unat factor"
    using f by (simp add: div_less_iff_less_mult)
  finally show ?thesis by auto
qed

lemma apply_ul_unit_spec:
  assumes "list_all (\<lambda>(n, f). f \<noteq> 0) units"
  shows "apply_ul_unit units u v =
    (case unit_factor units u of
       None \<Rightarrow> None
     | Some f \<Rightarrow> if unat v * unat f < 2 ^ 64 then Some (of_nat (unat v * unat f)) else None)"
  using assms
proof (induction units u v rule: apply_ul_unit.induct)
  case (2 name factor units unit v)
  have "v * factor = of_nat (unat v * unat factor)" by simp
  then show ?case using 2 ul_unit_guard_iff [of factor v] by simp
qed simp

lemma unit_factor_pos:
  "list_all (\<lambda>(n, f). f \<noteq> 0) units \<Longrightarrow> unit_factor units u = Some f \<Longrightarrow> 0 < unat f"
  by (induction units u rule: unit_factor.induct) (auto simp: unat_gt_0 split: if_splits)

text \<open>
  C12: a value of the configuration is accepted exactly when it has a meaning that fits in 64 bits, and it
  is read as this meaning: the overflow tests of the loop over the digits and of the unit are exact.
\<close>

theorem parse_ul_config_exact:
  assumes "list_all (\<lambda>(n, f). f \<noteq> 0) (ip_units config)"
  shows "parse_ul_config config (Some s) 0 =
    (case config_meaning (ip_units config) s of
       None \<Rightarrow> None
     | Some n \<Rightarrow> if n < 2 ^ 64 then Some (of_nat n) else None)"
proof (cases "s = []")
  case True
  then show ?thesis by (simp add: parse_ul_config_def config_meaning_def)
next
  case False
  then have s: "s = butlast s @ [last s]" by simp
  show ?thesis
  proof (cases "isalpha (last s)")
    case False
    then show ?thesis using \<open>s \<noteq> []\<close>
      by (simp only: parse_ul_config_def config_meaning_def parse_ul_digits_spec) simp
  next
    case True
    then have nodigit: "\<not> list_all isdigit s"
      using \<open>s \<noteq> []\<close> isdigit_not_alpha last_in_set [of s]
      by (metis list_all_iff)
    let ?v = "dec_value (butlast s)"
    show ?thesis
    proof (cases "butlast s \<noteq> [] \<and> list_all isdigit (butlast s)")
      case False
      then show ?thesis using \<open>s \<noteq> []\<close> True nodigit
        by (simp only: parse_ul_config_def config_meaning_def parse_ul_digits_spec) auto
    next
      case digits: True
      have parse: "parse_ul_config config (Some s) 0 =
          (if ?v < 2 ^ 64 then apply_ul_unit (ip_units config) [last s] (of_nat ?v) else None)"
        using digits \<open>s \<noteq> []\<close> True
        by (simp only: parse_ul_config_def parse_ul_digits_spec) simp
      have meaning: "config_meaning (ip_units config) s =
          map_option (\<lambda>f. ?v * unat f) (unit_factor (ip_units config) [last s])"
        using digits \<open>s \<noteq> []\<close> True nodigit by (simp only: config_meaning_def) simp
      show ?thesis
      proof (cases "unit_factor (ip_units config) [last s]")
        case None
        then show ?thesis using parse meaning apply_ul_unit_spec [OF assms] by simp
      next
        case (Some f)
        have le: "?v \<le> ?v * unat f" using unit_factor_pos [OF assms Some] by simp
        have "\<not> ?v * unat f < 2 ^ 64" if "\<not> ?v < 2 ^ 64"
          using le that by linarith
        moreover have "unat (of_nat ?v :: u64) = ?v" if "?v < 2 ^ 64"
          using that by (simp add: unat_of_nat)
        ultimately show ?thesis
          using Some parse meaning apply_ul_unit_spec [OF assms, of "[last s]" "of_nat ?v"]
          by (cases "?v < 2 ^ 64") simp_all
      qed
    qed
  qed
qed

theorem parse_ul_config_exact_witness:
  "list_all (\<lambda>(n, f). f \<noteq> 0) (ip_units (cpu_cycle cpu_sys0)) \<and>
   parse_ul_config (cpu_cycle cpu_sys0) (Some ''2h'') 0 = Some 7200"
proof -
  have units: "list_all (\<lambda>(n, f). f \<noteq> 0) (ip_units (cpu_cycle cpu_sys0))"
    by (simp add: cpu_sys0_def cpu_cycle_units_def)
  moreover have "config_meaning (ip_units (cpu_cycle cpu_sys0)) ''2h'' = Some 7200"
    by code_simp
  ultimately show ?thesis using parse_ul_config_exact [OF units, of "''2h''"] by simp
qed

section \<open>The errors of a CPU, abstractly\<close>

text \<open>
  What the model keeps per CPU: the list \<open>X i\<close> of the recorded errors (time and number), oldest
  first, held by the nodes \<open>P i\<close>. The counter is the sum of the numbers, and the nodes of different
  CPUs are different.
\<close>

definition ce_total :: "(time_t \<times> u32) list \<Rightarrow> u64" where
  "ce_total xs = sum_list (map (\<lambda>x. ucast (snd x)) xs)"

definition info_rep :: "node_heap \<Rightarrow> cpu_info \<Rightarrow> ptr list \<Rightarrow> (time_t \<times> u32) list \<Rightarrow> bool" where
  "info_rep h info ps xs \<longleftrightarrow>
     (\<exists>q. ce_queue info = Some q \<and> queue_rep h q ps xs) \<and> ce_nums info = ce_total xs"

definition cpu_rep :: "cpu_sys \<Rightarrow> (nat \<Rightarrow> ptr list) \<Rightarrow> (nat \<Rightarrow> (time_t \<times> u32) list) \<Rightarrow> bool" where
  "cpu_rep s P X \<longleftrightarrow>
     length (cpu_infos s) = unat (ncores s) \<and>
     (\<forall>i < unat (ncores s). info_rep (nodes s) (cpu_infos s ! i) (P i) (X i)) \<and>
     (\<forall>i < unat (ncores s). \<forall>j < unat (ncores s). i \<noteq> j \<longrightarrow> set (P i) \<inter> set (P j) = {})"

text \<open>The sliding window: the entries not older than \<open>cycle\<close>, seen from the newest.\<close>

definition window :: "u64 \<Rightarrow> (time_t \<times> u32) list \<Rightarrow> (time_t \<times> u32) list" where
  "window cycle xs = dropWhile (\<lambda>x. fst (last xs) - fst x > cycle) xs"

text \<open>The outcome of an attempt to take a CPU offline, from what the system answers.\<close>

definition offline_outcome :: "cpu_env \<Rightarrow> u32 \<Rightarrow> error_handle_result" where
  "offline_outcome env cpu =
     (case env_write env cpu of
        None \<Rightarrow> HANDLE_FAILED
      | Some rc \<Rightarrow>
          if rc < 0 \<or> get_cpu_status (env_online_after env cpu) \<noteq> CPU_OFFLINE
          then HANDLE_FAILED else HANDLE_SUCCEED)"

text \<open>
  The specification of one event on a CPU that is online. \<open>xs\<close> are the errors recorded so far; the
  result is the errors kept and whether an attempt is made to take the CPU offline.
\<close>

definition recorded :: "cpu_env \<Rightarrow> error_info \<Rightarrow> (time_t \<times> u32) list \<Rightarrow> (time_t \<times> u32) list" where
  "recorded env err xs =
     (if err_type err = CE \<and> env_malloc env \<noteq> None
      then xs @ [(err_time err, ucast (err_nums err))] else xs)"

definition kept :: "u64 \<Rightarrow> error_info \<Rightarrow> (time_t \<times> u32) list \<Rightarrow> (time_t \<times> u32) list" where
  "kept cycle err xs = (if err_type err = CE then window cycle xs else xs)"

definition reaches :: "u64 \<Rightarrow> error_info \<Rightarrow> u64 \<Rightarrow> (time_t \<times> u32) list \<Rightarrow> bool" where
  "reaches thr err uces xs =
     (case err_type err of CE \<Rightarrow> ce_total xs \<ge> thr | UCE \<Rightarrow> uces > 0 | OTHER_ERROR \<Rightarrow> False)"

subsection \<open>Frames\<close>

lemma queue_rep_agree:
  assumes "\<forall>a \<in> set ps. h' a = h a"
  shows "queue_rep h' q ps xs = queue_rep h q ps xs"
proof -
  have "chain h' p ps = chain h p ps" for p
    using assms by (induction ps arbitrary: p) (auto split: option.splits)
  moreover have "map (entry h') ps = map (entry h) ps"
    using assms by (auto simp: entry_def)
  ultimately show ?thesis by (simp only: queue_rep_def)
qed

lemma ce_total_append [simp]: "ce_total (xs @ ys) = ce_total xs + ce_total ys"
  by (simp add: ce_total_def)

lemma ce_total_Cons [simp]: "ce_total (x # xs) = ucast (snd x) + ce_total xs"
  by (simp add: ce_total_def)

lemma ce_total_Nil [simp]: "ce_total [] = 0"
  by (simp add: ce_total_def)

text \<open>Replacing the entry of one CPU, and changing the heap at most at nodes of its own.\<close>

lemma cpu_rep_update:
  assumes rep: "cpu_rep s P X" and i: "unat cpu < unat (ncores s)"
    and info: "info_rep h' info' ps' xs'"
    and frame: "\<forall>a. a \<notin> set (P (unat cpu)) \<union> N \<longrightarrow> h' a = nodes s a"
    and ps': "set ps' \<subseteq> set (P (unat cpu)) \<union> N"
    and fresh: "\<forall>a \<in> N. nodes s a = None"
  shows "cpu_rep ((set_info s cpu info')\<lparr>nodes := h'\<rparr>) (P(unat cpu := ps')) (X(unat cpu := xs'))"
proof -
  let ?n = "unat (ncores s)"
  have alloc: "N \<inter> set (P j) = {}" if "j < ?n" for j
  proof -
    from rep that obtain q where "queue_rep (nodes s) q (P j) (X j)"
      by (auto simp: cpu_rep_def info_rep_def)
    then have "\<forall>a \<in> set (P j). nodes s a \<noteq> None"
      using chain_allocated [of "nodes s" "q_head q" "P j"] by (simp add: queue_rep_def)
    then show ?thesis using fresh by fastforce
  qed
  have disj: "set ps' \<inter> set (P j) = {}" if "j < ?n" "j \<noteq> unat cpu" for j
    using rep i that ps' alloc [of j] unfolding cpu_rep_def by blast
  have "info_rep h' (cpu_infos s ! j) (P j) (X j)" if "j < ?n" "j \<noteq> unat cpu" for j
  proof -
    have "\<forall>a \<in> set (P j). h' a = nodes s a"
      using rep i that frame alloc [of j] unfolding cpu_rep_def by blast
    then show ?thesis
      using rep that queue_rep_agree [of "P j" h' "nodes s"] by (simp add: cpu_rep_def info_rep_def)
  qed
  then show ?thesis
    using rep i info disj by (auto simp: cpu_rep_def set_info_def nth_list_update)
qed

lemma cpu_rep_same:
  assumes "cpu_rep s P X" and "unat cpu < unat (ncores s)"
    and "ce_queue info' = ce_queue (cpu_infos s ! unat cpu)"
    and "ce_nums info' = ce_nums (cpu_infos s ! unat cpu)"
  shows "cpu_rep (set_info s cpu info') P X"
  using assms by (auto simp: cpu_rep_def info_rep_def set_info_def nth_list_update)

lemma cpu_rep_writes [simp]: "cpu_rep (s\<lparr>offline_writes := w\<rparr>) P X = cpu_rep s P X"
  by (simp add: cpu_rep_def)

lemma get_info_rep:
  "cpu_rep s P X \<Longrightarrow> unat cpu < unat (ncores s) \<Longrightarrow> get_info s cpu = Some (cpu_infos s ! unat cpu)"
  by (simp add: cpu_rep_def get_info_def)

text \<open>The fields that handling an event never changes.\<close>

definition same_config :: "cpu_sys \<Rightarrow> cpu_sys \<Rightarrow> bool" where
  "same_config s t \<longleftrightarrow>
     ncores t = ncores s \<and> enabled t = enabled s \<and> cpu_threshold t = cpu_threshold s \<and>
     cpu_limit t = cpu_limit s \<and> cpu_cycle t = cpu_cycle s"

lemma same_config_set_info [simp]:
  "same_config s (set_info t cpu info) = same_config s t"
  "same_config s (t\<lparr>nodes := h\<rparr>) = same_config s t"
  "same_config s (t\<lparr>offline_writes := w\<rparr>) = same_config s t"
  by (simp_all add: same_config_def set_info_def)

lemma set_info_simps [simp]:
  "nodes (set_info s cpu info) = nodes s"
  "offline_writes (set_info s cpu info) = offline_writes s"
  "ncores (set_info s cpu info) = ncores s"
  "enabled (set_info s cpu info) = enabled s"
  "cpu_threshold (set_info s cpu info) = cpu_threshold s"
  "cpu_limit (set_info s cpu info) = cpu_limit s"
  "cpu_cycle (set_info s cpu info) = cpu_cycle s"
  "length (cpu_infos (set_info s cpu info)) = length (cpu_infos s)"
  "unat cpu < length (cpu_infos s) \<Longrightarrow> cpu_infos (set_info s cpu info) ! unat cpu = info"
  by (simp_all add: set_info_def)

subsection \<open>The loop\<close>

lemma expire_window:
  assumes "queue_rep h q ps xs" and "xs \<noteq> []"
  shows "\<exists>h' q' ps'. expire cycle h q nums =
      Some (h', q', nums - (ce_total xs - ce_total (window cycle xs))) \<and>
    queue_rep h' q' ps' (window cycle xs) \<and> set ps' \<subseteq> set ps \<and>
    (\<forall>a. a \<notin> set ps \<longrightarrow> h' a = h a)"
  using assms
proof (induction xs arbitrary: h q ps nums)
  case Nil
  then show ?case by simp
next
  case (Cons x xs)
  then obtain p qs where ps: "ps = p # qs" by (cases ps) (auto simp: queue_rep_def)
  with Cons.prems obtain f where f: "h p = Some f" and hd: "q_head q = Some p"
    and x: "x = (q_time f, q_value f)"
    by (auto simp: queue_rep_def entry_def split: option.splits)
  have tl: "q_tail q = Some (last ps)" and "h (last ps) \<noteq> None"
    using Cons.prems(1) ps chain_allocated [of h "q_head q" ps "last ps"]
    by (simp_all add: queue_rep_def)
  then obtain t where t: "h (last ps) = Some t" by blast
  have last: "fst (last (x # xs)) = q_time t"
  proof -
    have "last (x # xs) = entry h (last ps)"
      using Cons.prems(1) ps by (metis last_map list.discI queue_rep_def)
    then show ?thesis using t by (simp add: entry_def)
  qed
  show ?case
  proof (cases "q_time t - q_time f > cycle")
    case False
    then have "window cycle (x # xs) = x # xs"
      using last x by (simp add: window_def)
    moreover have "expire cycle h q nums = Some (h, q, nums)"
      using False f hd t tl by (simp add: expire.simps [of cycle h])
    ultimately show ?thesis using Cons.prems ps by auto
  next
    case True
    then have xs: "xs \<noteq> []" using last x by auto
    then have win: "window cycle (x # xs) = window cycle xs"
      using True last x by (simp add: window_def)
    obtain q1 where q1: "pop h (Some q) = Some (h(p := None), Some q1, 0)"
      and rep1: "queue_rep (h(p := None)) q1 qs xs"
      using pop_rep [of h q p qs x xs] Cons.prems(1) ps by auto
    have "expire cycle h q nums = expire cycle (h(p := None)) q1 (nums - ucast (q_value f))"
      using True f hd t tl q1 by (simp add: expire.simps [of cycle h])
    moreover obtain h' q' ps' where "expire cycle (h(p := None)) q1 (nums - ucast (q_value f)) =
        Some (h', q', nums - ucast (q_value f) - (ce_total xs - ce_total (window cycle xs)))"
      and "queue_rep h' q' ps' (window cycle xs)" and "set ps' \<subseteq> set qs"
      and "\<forall>a. a \<notin> set qs \<longrightarrow> h' a = (h(p := None)) a"
      using Cons.IH [OF rep1 xs] by blast
    ultimately show ?thesis
      using x win ps by (intro exI [of _ h'] exI [of _ q'] exI [of _ ps']) (auto simp: algebra_simps)
  qed
qed

lemma expire_empty: "queue_rep h q [] [] \<Longrightarrow> expire cycle h q nums = Some (h, q, nums)"
  by (simp add: queue_rep_def chain_head_None expire.simps [of cycle h])

lemma expire_rep:
  assumes "queue_rep h q ps xs"
  shows "\<exists>h' q' ps'. expire cycle h q (ce_total xs) = Some (h', q', ce_total (window cycle xs)) \<and>
    queue_rep h' q' ps' (window cycle xs) \<and> set ps' \<subseteq> set ps \<and>
    (\<forall>a. a \<notin> set ps \<longrightarrow> h' a = h a)"
proof (cases "xs = []")
  case True
  then show ?thesis using assms expire_empty [of h q]
    by (auto simp: queue_rep_def window_def)
next
  case False
  then show ?thesis using expire_window [OF assms False, of cycle "ce_total xs"] by auto
qed

subsection \<open>The handlers\<close>

lemma do_cpu_offline_rep:
  assumes "cpu_rep s P X" and "unat cpu < unat (ncores s)"
  shows "\<exists>s'. do_cpu_offline env cpu s = Some (s', offline_outcome env cpu) \<and>
    cpu_rep s' P X \<and> same_config s s' \<and> nodes s' = nodes s \<and>
    offline_writes s' = offline_writes s @ (if env_write env cpu = None then [] else [cpu])"
proof -
  let ?info = "cpu_infos s ! unat cpu"
  let ?s1 = "set_info s cpu (?info\<lparr>cpu_state := CPU_OFFLINE_FAILED\<rparr>)"
  have info: "get_info s cpu = Some ?info" using assms by (rule get_info_rep)
  have same: "same_config s s" by (simp add: same_config_def)
  have s1: "cpu_rep ?s1 P X" using assms by (intro cpu_rep_same) auto
  have s3: "cpu_rep (set_info (?s1\<lparr>offline_writes := w\<rparr>) cpu (?info\<lparr>cpu_state := st\<rparr>)) P X" for w st
    using assms s1 by (intro cpu_rep_same) (auto simp: cpu_rep_def set_info_def)
  show ?thesis
    using info same s1 s3
    by (auto simp: do_cpu_offline_def offline_outcome_def Let_def split: option.splits)
qed

lemma record_error_info_rep:
  assumes rep: "cpu_rep s P X" and i: "unat cpu < unat (ncores s)"
    and fresh: "\<forall>p. env_malloc env = Some p \<longrightarrow> nodes s p = None"
    and nums: "err_type err = CE \<longrightarrow> unat (err_nums err) < 2 ^ 32"
    and room: "length (X (unat cpu)) < 2 ^ 31 - 1"
  shows "\<exists>s' P'. record_error_info env cpu err s = Some s' \<and>
    cpu_rep s' P' (X(unat cpu := recorded env err (X (unat cpu)))) \<and> same_config s s' \<and>
    offline_writes s' = offline_writes s \<and>
    uce_nums (cpu_infos s' ! unat cpu) =
      uce_nums (cpu_infos s ! unat cpu) + (if err_type err = UCE then 1 else 0)"
proof -
  let ?info = "cpu_infos s ! unat cpu" and ?i = "unat cpu"
  have info: "get_info s cpu = Some ?info" using rep i by (rule get_info_rep)
  have same: "same_config s s" by (simp add: same_config_def)
  have len: "?i < length (cpu_infos s)" using rep i by (simp add: cpu_rep_def)
  show ?thesis
  proof (cases "err_type err = CE \<and> env_malloc env \<noteq> None")
    case True
    then obtain p where p: "env_malloc env = Some p" and ce: "err_type err = CE" by auto
    obtain q where q: "ce_queue ?info = Some q" and qrep: "queue_rep (nodes s) q (P ?i) (X ?i)"
      and sum: "ce_nums ?info = ce_total (X ?i)"
      using rep i by (auto simp: cpu_rep_def info_rep_def)
    let ?new = "\<lparr>q_time = err_time err, q_value = ucast (err_nums err), q_next = None\<rparr>"
    let ?h = "(nodes s)(p \<mapsto> ?new)"
    have p_new: "nodes s p = None" using fresh p by simp
    then have "queue_rep ?h q (P ?i) (X ?i)" and notin: "p \<notin> set (P ?i)"
      using node_create_rep [OF qrep, of p] by (auto simp: node_create_def)
    then obtain h' q' where push: "push ?h q p = Some (h', q')"
      and rep': "queue_rep h' q' (P ?i @ [p]) (X ?i @ [(err_time err, ucast (err_nums err))])"
      and frame: "\<forall>a. a \<notin> set (P ?i) \<longrightarrow> h' a = ?h a"
      using push_rep [of ?h q "P ?i" "X ?i" p "err_time err" "ucast (err_nums err)"]
        queue_rep_length [OF qrep] room by auto
    let ?info' = "?info\<lparr>ce_queue := Some q', ce_nums := ce_nums ?info + err_nums err\<rparr>"
    have "ucast (ucast (err_nums err) :: u32) = err_nums err"
      using nums ce by (simp add: ucast_ucast_u32)
    then have "info_rep h' ?info' (P ?i @ [p]) (X ?i @ [(err_time err, ucast (err_nums err))])"
      using rep' sum by (simp add: info_rep_def)
    then have "cpu_rep ((set_info s cpu ?info')\<lparr>nodes := h'\<rparr>) (P(?i := P ?i @ [p]))
        (X(?i := X ?i @ [(err_time err, ucast (err_nums err))]))"
      using frame p_new by (intro cpu_rep_update [OF rep i, where N = "{p}"]) auto
    then show ?thesis
      using info q push ce p same len
      by (auto simp: record_error_info_def recorded_def node_create_def)
  next
    case False
    then have "recorded env err (X ?i) = X ?i" by (auto simp: recorded_def)
    moreover have "cpu_rep (set_info s cpu (?info\<lparr>uce_nums := uce_nums ?info + 1\<rparr>)) P X"
      using rep i by (intro cpu_rep_same) auto
    ultimately show ?thesis
      using False info same rep len
      by (cases "err_type err") (auto simp: record_error_info_def node_create_def)
  qed
qed

lemma error_handler_rep:
  fixes err :: error_info
  assumes rep: "cpu_rep s P X" and i: "unat cpu < unat (ncores s)"
  defines "xs \<equiv> kept (ip_value (cpu_cycle s)) err (X (unat cpu))"
  defines "hit \<equiv> reaches (ip_value (cpu_threshold s)) err (uce_nums (cpu_infos s ! unat cpu)) xs"
  shows "\<exists>s' P'. error_handler env cpu err s =
      Some (s', if hit then offline_outcome env cpu else HANDLE_NOTHING) \<and>
    cpu_rep s' P' (X(unat cpu := xs)) \<and> same_config s s' \<and>
    offline_writes s' = offline_writes s @ (if hit \<and> env_write env cpu \<noteq> None then [cpu] else [])"
proof -
  let ?info = "cpu_infos s ! unat cpu" and ?i = "unat cpu"
  have info: "get_info s cpu = Some ?info" using rep i by (rule get_info_rep)
  have same: "same_config s s" by (simp add: same_config_def)
  show ?thesis
  proof (cases "err_type err")
    case CE
    obtain q where q: "ce_queue ?info = Some q" and qrep: "queue_rep (nodes s) q (P ?i) (X ?i)"
      and sum: "ce_nums ?info = ce_total (X ?i)"
      using rep i by (auto simp: cpu_rep_def info_rep_def)
    have xs: "xs = window (ip_value (cpu_cycle s)) (X ?i)" using CE by (simp add: xs_def kept_def)
    obtain h' q' ps' where ex: "expire (ip_value (cpu_cycle s)) (nodes s) q (ce_nums ?info) =
        Some (h', q', ce_total xs)"
      and rep': "queue_rep h' q' ps' xs" and ps': "set ps' \<subseteq> set (P ?i)"
      and frame: "\<forall>a. a \<notin> set (P ?i) \<longrightarrow> h' a = nodes s a"
      using expire_rep [OF qrep, of "ip_value (cpu_cycle s)"] sum xs by auto
    let ?s1 = "(set_info s cpu (?info\<lparr>ce_queue := Some q', ce_nums := ce_total xs\<rparr>))\<lparr>nodes := h'\<rparr>"
    have s1: "cpu_rep ?s1 (P(?i := ps')) (X(?i := xs))"
      using rep' frame ps' by (intro cpu_rep_update [OF rep i, where N = "{}"]) (auto simp: info_rep_def)
    have hit: "hit \<longleftrightarrow> ce_total xs \<ge> ip_value (cpu_threshold s)"
      using CE by (simp add: hit_def reaches_def)
    have "unat cpu < unat (ncores ?s1)" using i by simp
    from do_cpu_offline_rep [OF s1 this, of env] show ?thesis
      using CE info q ex hit s1 same
      by (auto simp: error_handler_def do_ce_handler_def Let_def same_config_def)
  next
    case UCE
    then have "xs = X ?i" and "hit \<longleftrightarrow> uce_nums ?info > 0"
      by (simp_all add: xs_def kept_def hit_def reaches_def)
    then show ?thesis
      using UCE info rep same do_cpu_offline_rep [OF rep i, of env]
      by (auto simp: error_handler_def do_uce_handler_def)
  next
    case OTHER_ERROR
    then have "xs = X ?i" and "\<not> hit"
      by (simp_all add: xs_def kept_def hit_def reaches_def)
    then show ?thesis using OTHER_ERROR rep same by (auto simp: error_handler_def)
  qed
qed

lemma clear_info_rep:
  assumes rep: "cpu_rep s P X" and i: "unat cpu < unat (ncores s)"
  shows "\<exists>h' q'. clear_queue (nodes s) (ce_queue (cpu_infos s ! unat cpu)) = Some (h', q') \<and>
    cpu_rep ((set_info s cpu ((cpu_infos s ! unat cpu)\<lparr>ce_queue := q', ce_nums := 0, uce_nums := 0\<rparr>))
      \<lparr>nodes := h'\<rparr>) (P(unat cpu := [])) (X(unat cpu := []))"
proof -
  let ?info = "cpu_infos s ! unat cpu" and ?i = "unat cpu"
  obtain q where q: "ce_queue ?info = Some q" and qrep: "queue_rep (nodes s) q (P ?i) (X ?i)"
    using rep i by (auto simp: cpu_rep_def info_rep_def)
  let ?h = "\<lambda>a. if a \<in> set (P ?i) then None else nodes s a"
  obtain q' where cl: "clear_queue (nodes s) (Some q) = Some (?h, Some q')"
    and rep': "queue_rep ?h q' [] []"
    using clear_queue_rep [OF qrep] by blast
  have "cpu_rep ((set_info s cpu (?info\<lparr>ce_queue := Some q', ce_nums := 0, uce_nums := 0\<rparr>))
      \<lparr>nodes := ?h\<rparr>) (P(?i := [])) (X(?i := []))"
    using rep' by (intro cpu_rep_update [OF rep i, where N = "{}"]) (auto simp: info_rep_def)
  then show ?thesis using q cl by auto
qed

lemma over_limit_same: "same_config s t \<Longrightarrow> over_limit env t = over_limit env s"
  by (simp add: same_config_def over_limit_def)

text \<open>
  The refinement: on a CPU that is online, one event does to the lists exactly what the
  specification says, without undefined behaviour, and writes to the \<open>online\<close> file of this CPU only,
  when the specification asks for it.
\<close>

definition event_hits :: "cpu_env \<Rightarrow> error_info \<Rightarrow> u32 \<Rightarrow> cpu_sys \<Rightarrow> (time_t \<times> u32) list \<Rightarrow> bool" where
  "event_hits env err cpu s xs \<longleftrightarrow>
     \<not> over_limit env s \<and>
     reaches (ip_value (cpu_threshold s)) err
       (uce_nums (cpu_infos s ! unat cpu) + (if err_type err = UCE then 1 else 0))
       (kept (ip_value (cpu_cycle s)) err (recorded env err xs))"

definition event_list :: "cpu_env \<Rightarrow> error_info \<Rightarrow> u32 \<Rightarrow> cpu_sys \<Rightarrow> (time_t \<times> u32) list \<Rightarrow> (time_t \<times> u32) list" where
  "event_list env err cpu s xs =
     (if over_limit env s then recorded env err xs
      else if event_hits env err cpu s xs \<and> offline_outcome env cpu = HANDLE_SUCCEED then []
      else kept (ip_value (cpu_cycle s)) err (recorded env err xs))"

lemma ras_record_cpu_error_online:
  assumes rep: "cpu_rep s P X" and "enabled s" and cpu: "cpu < ncores s" "0 \<le> sint cpu"
    and online: "get_cpu_status (env_online env cpu) = CPU_ONLINE"
    and fresh: "\<forall>p. env_malloc env = Some p \<longrightarrow> nodes s p = None"
    and nums: "err_type err = CE \<longrightarrow> unat (err_nums err) < 2 ^ 32"
    and room: "length (X (unat cpu)) < 2 ^ 31 - 1"
  shows "\<exists>s' P'. ras_record_cpu_error env err cpu s = Some s' \<and>
    cpu_rep s' P' (X(unat cpu := event_list env err cpu s (X (unat cpu)))) \<and> same_config s s' \<and>
    offline_writes s' = offline_writes s @
      (if event_hits env err cpu s (X (unat cpu)) \<and> env_write env cpu \<noteq> None then [cpu] else [])"
proof -
  let ?i = "unat cpu" and ?info = "cpu_infos s ! unat cpu"
  have i: "?i < unat (ncores s)" using cpu by (simp add: word_less_nat_alt)
  have len: "?i < length (cpu_infos s)" using rep i by (simp add: cpu_rep_def)
  have guard: "\<not> (cpu \<ge> ncores s \<or> sint cpu < 0)" using cpu by auto
  have info: "get_info s cpu = Some ?info" using rep i by (rule get_info_rep)
  let ?s1 = "set_info s cpu (?info\<lparr>cpu_state := CPU_ONLINE\<rparr>)"
  have s1: "cpu_rep ?s1 P X" using rep i by (intro cpu_rep_same) auto
  have same1: "same_config s ?s1" by (simp add: same_config_def set_info_def)
  obtain s2 P2 where s2: "record_error_info env cpu err ?s1 = Some s2"
    and rep2: "cpu_rep s2 P2 (X(?i := recorded env err (X ?i)))"
    and same2: "same_config s s2" and w2: "offline_writes s2 = offline_writes s"
    and uce2: "uce_nums (cpu_infos s2 ! ?i) = uce_nums ?info + (if err_type err = UCE then 1 else 0)"
    using record_error_info_rep [OF s1, of cpu env err] i fresh nums room len same1
    by (auto simp: same_config_def)
  show ?thesis
  proof (cases "over_limit env s")
    case True
    then show ?thesis
      using assms(2) guard info online s2 rep2 same2 w2 over_limit_same [OF same2, of env]
      by (auto simp: ras_record_cpu_error_def event_list_def event_hits_def)
  next
    case False
    let ?xs = "kept (ip_value (cpu_cycle s)) err (recorded env err (X ?i))"
    have i2: "?i < unat (ncores s2)" using i same2 by (simp add: same_config_def)
    have hits: "reaches (ip_value (cpu_threshold s2)) err (uce_nums (cpu_infos s2 ! ?i)) ?xs \<longleftrightarrow>
        event_hits env err cpu s (X ?i)"
      using False same2 uce2 by (auto simp: event_hits_def same_config_def)
    obtain s3 P3 where s3: "error_handler env cpu err s2 =
        Some (s3, if event_hits env err cpu s (X ?i) then offline_outcome env cpu else HANDLE_NOTHING)"
      and rep3: "cpu_rep s3 P3 (X(?i := ?xs))" and same3: "same_config s2 s3"
      and w3: "offline_writes s3 = offline_writes s @
        (if event_hits env err cpu s (X ?i) \<and> env_write env cpu \<noteq> None then [cpu] else [])"
      using error_handler_rep [OF rep2 i2, of env err] same2 w2 hits
      by (auto simp: same_config_def)
    have i3: "?i < unat (ncores s3)" using i2 same3 by (simp add: same_config_def)
    have same: "same_config s s3" using same2 same3 by (simp add: same_config_def)
    have step: "ras_record_cpu_error env err cpu s =
        (case (if event_hits env err cpu s (X ?i) then offline_outcome env cpu else HANDLE_NOTHING) of
           HANDLE_SUCCEED \<Rightarrow>
             do { info3 \<leftarrow> get_info s3 cpu;
                  (h', q') \<leftarrow> clear_queue (nodes s3) (ce_queue info3);
                  Some ((set_info s3 cpu (info3\<lparr>ce_queue := q', ce_nums := 0, uce_nums := 0\<rparr>))
                          \<lparr>nodes := h'\<rparr>) }
         | _ \<Rightarrow> Some s3)"
      using assms(2) guard info online s2 s3 False over_limit_same [OF same2, of env]
      by (auto simp: ras_record_cpu_error_def split: error_handle_result.splits)
    show ?thesis
      using step rep3 same w3 False clear_info_rep [OF rep3 i3] get_info_rep [OF rep3 i3]
      by (fastforce simp: event_list_def split: error_handle_result.splits)
  qed
qed

section \<open>Properties\<close>

lemma ras_record_cpu_error_ignored:
  assumes "\<not> (enabled s \<and> cpu < ncores s \<and> 0 \<le> sint cpu \<and>
      get_cpu_status (env_online env cpu) = CPU_ONLINE)"
    and rep: "cpu_rep s P X"
  shows "\<exists>s'. ras_record_cpu_error env err cpu s = Some s' \<and> cpu_rep s' P X \<and>
    same_config s s' \<and> offline_writes s' = offline_writes s"
proof (cases "enabled s \<and> cpu < ncores s \<and> 0 \<le> sint cpu")
  case True
  then have i: "unat cpu < unat (ncores s)" by (simp add: word_less_nat_alt)
  have guard: "\<not> (cpu \<ge> ncores s \<or> sint cpu < 0)" using True by auto
  let ?s1 = "set_info s cpu ((cpu_infos s ! unat cpu)\<lparr>cpu_state := get_cpu_status (env_online env cpu)\<rparr>)"
  have "cpu_rep ?s1 P X" using rep i by (intro cpu_rep_same) auto
  moreover have "ras_record_cpu_error env err cpu s = Some ?s1"
    using assms True guard get_info_rep [OF rep i] by (auto simp: ras_record_cpu_error_def)
  ultimately show ?thesis by (simp add: same_config_def)
next
  case False
  then have "ras_record_cpu_error env err cpu s = Some s"
    by (auto simp: ras_record_cpu_error_def)
  then show ?thesis using rep by (simp add: same_config_def)
qed

subsection \<open>Reachable states\<close>

text \<open>
  The states of the running daemon: it is initialised with the memory it asks for, then handles
  events. \<open>malloc\<close> never returns memory that is in use, an event reports fewer than \<open>2 ^ 32\<close> errors,
  and a queue stays shorter than \<open>INT_MAX\<close>.
\<close>

definition event_ok :: "cpu_env \<Rightarrow> error_info \<Rightarrow> cpu_sys \<Rightarrow> bool" where
  "event_ok env err s \<longleftrightarrow>
     (\<forall>p. env_malloc env = Some p \<longrightarrow> nodes s p = None) \<and> unat (err_nums err) < 2 ^ 32 \<and>
     (\<forall>info \<in> set (cpu_infos s). \<forall>q. ce_queue info = Some q \<longrightarrow> sint (q_size q) < 2 ^ 31 - 1)"

inductive cpu_reach :: "cpu_sys \<Rightarrow> bool" where
  init: "cpu_reach (ras_cpu_isolation_init getenv online True (\<lambda>_. True) cpus cpu_sys0)"
| event: "cpu_reach s \<Longrightarrow> event_ok env err s \<Longrightarrow> ras_record_cpu_error env err cpu s = Some s' \<Longrightarrow>
    cpu_reach s'"

inductive_cases cpu_reachE: "cpu_reach s"

lemma init_cpu_infos_all:
  "\<exists>infos. init_cpu_infos online (\<lambda>_. True) i n = (infos, True) \<and> length infos = n \<and>
     (\<forall>info \<in> set infos. ce_nums info = 0 \<and> uce_nums info = 0 \<and> ce_queue info = init_queue True)"
proof (induction n arbitrary: i)
  case 0
  then show ?case by simp
next
  case (Suc n)
  from Suc.IH [of "Suc i"] show ?case by (auto simp: init_queue_def Let_def)
qed

lemma init_cpu_info_rep:
  assumes "init_cpu_info online True (\<lambda>_. True) cpus s = (s', rc)"
  shows "rc = 0" and "cpu_rep s' (\<lambda>_. []) (\<lambda>_. [])"
proof -
  obtain infos where infos: "init_cpu_infos online (\<lambda>_. True) 0 (unat cpus) = (infos, True)"
    "length infos = unat cpus" "\<forall>info \<in> set infos. ce_nums info = 0 \<and> ce_queue info = init_queue True"
    using init_cpu_infos_all [of online 0 "unat cpus"] by blast
  then show "rc = 0" using assms by (auto simp: init_cpu_info_def Let_def)
  have "info_rep h (infos ! i) [] []" if "i < unat cpus" for i h
  proof -
    have "infos ! i \<in> set infos" using infos that by simp
    then have "ce_nums (infos ! i) = 0" and "ce_queue (infos ! i) = init_queue True"
      using infos by auto
    then show ?thesis
      using init_queue_rep [of _ h] by (auto simp: info_rep_def init_queue_def)
  qed
  then show "cpu_rep s' (\<lambda>_. []) (\<lambda>_. [])"
    using assms infos by (auto simp: init_cpu_info_def Let_def cpu_rep_def)
qed

lemma ras_cpu_isolation_init_rep:
  "cpu_rep (ras_cpu_isolation_init getenv online True (\<lambda>_. True) cpus s) (\<lambda>_. []) (\<lambda>_. [])"
proof -
  obtain s1 rc where s1: "init_cpu_info online True (\<lambda>_. True) cpus s = (s1, rc)"
    by fastforce
  have "cpu_rep s1 (\<lambda>_. []) (\<lambda>_. [])" by (rule init_cpu_info_rep [OF s1])
  then show ?thesis using s1 by (simp add: ras_cpu_isolation_init_def cpu_rep_def)
qed

lemma event_ok_room:
  assumes "cpu_rep s P X" and "event_ok env err s" and "i < unat (ncores s)"
  shows "length (X i) < 2 ^ 31 - 1"
proof -
  obtain q where q: "ce_queue (cpu_infos s ! i) = Some q" and rep: "queue_rep (nodes s) q (P i) (X i)"
    using assms by (auto simp: cpu_rep_def info_rep_def)
  moreover have "cpu_infos s ! i \<in> set (cpu_infos s)" using assms by (simp add: cpu_rep_def)
  ultimately have "sint (q_size q) < 2 ^ 31 - 1" using assms(2) by (auto simp: event_ok_def)
  then show ?thesis using rep by (auto simp: queue_rep_def)
qed

lemma event_step:
  assumes rep: "cpu_rep s P X" and ok: "event_ok env err s"
  shows "\<exists>s' P' X'. ras_record_cpu_error env err cpu s = Some s' \<and> cpu_rep s' P' X' \<and> same_config s s' \<and>
    (\<forall>i. i \<noteq> unat cpu \<longrightarrow> X' i = X i) \<and> (over_limit env s \<longrightarrow> offline_writes s' = offline_writes s)"
proof (cases "enabled s \<and> cpu < ncores s \<and> 0 \<le> sint cpu \<and>
    get_cpu_status (env_online env cpu) = CPU_ONLINE")
  case True
  then have "unat cpu < unat (ncores s)" by (simp add: word_less_nat_alt)
  then have "length (X (unat cpu)) < 2 ^ 31 - 1" using event_ok_room [OF rep ok] by blast
  then show ?thesis
    using ras_record_cpu_error_online [OF rep, of cpu env err] True ok
    by (fastforce simp: event_ok_def event_hits_def)
next
  case False
  then show ?thesis using ras_record_cpu_error_ignored [OF False rep, of err] by blast
qed

lemma cpu_reach_rep: "cpu_reach s \<Longrightarrow> \<exists>P X. cpu_rep s P X"
proof (induction rule: cpu_reach.induct)
  case (init getenv online cpus)
  then show ?case using ras_cpu_isolation_init_rep by blast
next
  case (event s env err cpu s')
  then show ?case using event_step by (metis option.inject)
qed

subsection \<open>The sliding window\<close>

lemma dropWhile_filter:
  "(\<forall>i j. i < j \<longrightarrow> j < length xs \<longrightarrow> P (xs ! j) \<longrightarrow> P (xs ! i)) \<Longrightarrow>
     dropWhile P xs = filter (\<lambda>x. \<not> P x) xs"
proof (induction xs)
  case Nil
  then show ?case by simp
next
  case (Cons x xs)
  have "\<forall>i j. i < j \<longrightarrow> j < length xs \<longrightarrow> P (xs ! j) \<longrightarrow> P (xs ! i)"
    using Cons.prems by (metis Suc_less_eq length_Cons nth_Cons_Suc)
  moreover have "P (xs ! j) \<longrightarrow> P x" if "j < length xs" for j
    using Cons.prems that by (metis Suc_less_eq length_Cons nth_Cons_0 nth_Cons_Suc zero_less_Suc)
  then have "\<not> P x \<Longrightarrow> \<forall>y \<in> set xs. \<not> P y" by (metis in_set_conv_nth)
  ultimately show ?case using Cons.IH by (cases "P x") (auto simp: filter_id_conv)
qed

lemma window_sorted:
  assumes "sorted (map fst xs)"
  shows "window cycle xs = filter (\<lambda>x. fst (last xs) - fst x \<le> cycle) xs"
proof -
  have "fst (last xs) - fst (xs ! i) > cycle"
    if "i < j" "j < length xs" "fst (last xs) - fst (xs ! j) > cycle" for i j
  proof -
    have "fst (xs ! i) \<le> fst (xs ! j)"
      using assms that by (simp add: sorted_iff_nth_mono_less)
    moreover have "fst (xs ! j) \<le> fst (last xs)"
    proof (cases "j = length xs - 1")
      case True
      moreover have "xs \<noteq> []" using that by auto
      ultimately show ?thesis by (simp add: last_conv_nth)
    next
      case False
      have "xs \<noteq> []" using that by auto
      then show ?thesis using assms that False
        by (simp add: last_conv_nth sorted_iff_nth_mono)
    qed
    ultimately have "fst (last xs) - fst (xs ! j) \<le> fst (last xs) - fst (xs ! i)"
      by (simp add: word_le_nat_alt unat_sub)
    then show ?thesis using that(3) by (rule less_le_trans [rotated])
  qed
  then show ?thesis
    unfolding window_def by (subst dropWhile_filter) (auto simp: not_less)
qed

subsection \<open>What holds of the handler\<close>

text \<open>
  C3: in every state the program can reach, an event is handled without undefined behaviour, and the
  counter of each CPU is again the sum of the entries of its queue.
\<close>

theorem cpu_counter_is_queue_sum:
  assumes "cpu_reach s" and "event_ok env err s"
  shows "\<exists>P X s' P' X'. cpu_rep s P X \<and> ras_record_cpu_error env err cpu s = Some s' \<and>
    cpu_rep s' P' X' \<and> (\<forall>i. i \<noteq> unat cpu \<longrightarrow> X' i = X i)"
proof -
  obtain P X where "cpu_rep s P X" using cpu_reach_rep [OF assms(1)] by blast
  then show ?thesis using event_step [OF _ assms(2), of P X cpu] by blast
qed

text \<open>A concrete run: one CPU, isolation enabled by the environment.\<close>

definition demo_env :: "string \<Rightarrow> string option" where
  "demo_env v =
     (if v = ''CPU_ISOLATION_ENABLE'' then Some ''yes''
      else if v = ''CPU_ISOLATION_LIMIT'' then Some ''1''
      else if v = ''CPU_CE_THRESHOLD'' then Some ''2'' else None)"

definition demo_cpu0 :: cpu_sys where
  "demo_cpu0 = ras_cpu_isolation_init demo_env (\<lambda>_. Some (CHR ''1'')) True (\<lambda>_. True) 2 cpu_sys0"

definition demo_answers :: "ptr \<Rightarrow> cpu_env" where
  "demo_answers p =
     \<lparr>env_online = (\<lambda>_. Some (CHR ''1'')), env_online_after = (\<lambda>_. Some (CHR ''0'')),
      env_write = (\<lambda>_. Some 1), env_nprocs = 2, env_malloc = Some p\<rparr>"

definition demo_ce :: "time_t \<Rightarrow> error_info" where
  "demo_ce t = \<lparr>err_nums = 1, err_time = t, err_type = CE\<rparr>"

lemma demo_cpu0_reach: "cpu_reach demo_cpu0"
  unfolding demo_cpu0_def by (rule cpu_reach.init)

lemma demo_cpu0_state:
  "ncores demo_cpu0 = 2" "enabled demo_cpu0"
  "ip_value (cpu_limit demo_cpu0) = 1" "ip_value (cpu_threshold demo_cpu0) = 2"
  "ip_value (cpu_cycle demo_cpu0) = 86400"
  "\<forall>info \<in> set (cpu_infos demo_cpu0). ce_queue info = init_queue True"
  by (code_simp)+

lemma init_nodes: "nodes (ras_cpu_isolation_init getenv online mem qmem cpus s) = nodes s"
  by (auto simp: ras_cpu_isolation_init_def init_cpu_info_def Let_def split: prod.splits if_splits)

lemma demo_cpu0_nodes: "nodes demo_cpu0 = Map.empty"
  unfolding demo_cpu0_def init_nodes by (simp add: cpu_sys0_def)

lemma demo_cpu0_rep: "cpu_rep demo_cpu0 (\<lambda>_. []) (\<lambda>_. [])"
  unfolding demo_cpu0_def by (rule ras_cpu_isolation_init_rep)

lemma demo_event_ok: "event_ok (demo_answers p) (demo_ce t) demo_cpu0"
  using demo_cpu0_state demo_cpu0_nodes by (auto simp: event_ok_def demo_answers_def demo_ce_def init_queue_def)

theorem cpu_counter_is_queue_sum_witness:
  "cpu_reach demo_cpu0 \<and> event_ok (demo_answers 7) (demo_ce 100) demo_cpu0 \<and>
   ras_record_cpu_error (demo_answers 7) (demo_ce 100) 0 demo_cpu0 \<noteq> None"
  using cpu_counter_is_queue_sum [OF demo_cpu0_reach demo_event_ok, of 7 100 0]
    demo_cpu0_reach demo_event_ok by auto

text \<open>
  C1: when corrected errors of an online CPU arrive in the order of time, its file is written exactly when
  the errors that are not older than the cycle, the new ones included, reach the threshold.
\<close>

theorem cpu_ce_threshold_exact:
  assumes "cpu_rep s P X" and "event_ok env err s" and "enabled s"
    and "cpu < ncores s" and "0 \<le> sint cpu"
    and "get_cpu_status (env_online env cpu) = CPU_ONLINE" and "\<not> over_limit env s"
    and "err_type err = CE" and "env_malloc env = Some p" and "env_write env cpu = Some rc"
    and "sorted (map fst (X (unat cpu) @ [(err_time err, ucast (err_nums err))]))"
  shows "\<exists>s' P' X'. ras_record_cpu_error env err cpu s = Some s' \<and> cpu_rep s' P' X' \<and>
    offline_writes s' = offline_writes s @
      (if ce_total (filter (\<lambda>x. err_time err - fst x \<le> ip_value (cpu_cycle s))
             (X (unat cpu) @ [(err_time err, ucast (err_nums err))])) \<ge> ip_value (cpu_threshold s)
       then [cpu] else [])"
proof -
  let ?xs = "X (unat cpu) @ [(err_time err, ucast (err_nums err))]"
  have "unat cpu < unat (ncores s)" using assms(4) by (simp add: word_less_nat_alt)
  then have room: "length (X (unat cpu)) < 2 ^ 31 - 1" using event_ok_room [OF assms(1,2)] by blast
  have "kept (ip_value (cpu_cycle s)) err (recorded env err (X (unat cpu))) =
      filter (\<lambda>x. err_time err - fst x \<le> ip_value (cpu_cycle s)) ?xs"
    using assms(8,9) window_sorted [OF assms(11), of "ip_value (cpu_cycle s)"]
    by (simp add: kept_def recorded_def)
  then have "event_hits env err cpu s (X (unat cpu)) \<longleftrightarrow>
      ce_total (filter (\<lambda>x. err_time err - fst x \<le> ip_value (cpu_cycle s)) ?xs)
        \<ge> ip_value (cpu_threshold s)"
    using assms(7,8) by (simp only: event_hits_def reaches_def) simp
  then show ?thesis
    using ras_record_cpu_error_online [OF assms(1,3-6)] assms(2,10) room
    by (fastforce simp: event_ok_def)
qed

theorem cpu_ce_threshold_exact_witness:
  "\<exists>s'. ras_record_cpu_error (demo_answers 7) ((demo_ce 100)\<lparr>err_nums := 2\<rparr>) 1 demo_cpu0 = Some s' \<and>
     offline_writes s' = offline_writes demo_cpu0 @ [1]"
proof -
  let ?err = "(demo_ce 100)\<lparr>err_nums := 2\<rparr>"
  have ok: "event_ok (demo_answers 7) ?err demo_cpu0"
    using demo_event_ok [of 7 100] by (simp add: event_ok_def demo_ce_def)
  have online: "get_cpu_status (env_online (demo_answers 7) 1) = CPU_ONLINE"
    by (simp add: demo_answers_def get_cpu_status_def)
  have below: "\<not> over_limit (demo_answers 7) demo_cpu0"
    by (simp add: over_limit_def demo_cpu0_state demo_answers_def)
  show ?thesis
    using cpu_ce_threshold_exact [OF demo_cpu0_rep ok demo_cpu0_state(2) _ _ online below, of 7 1]
    by (auto simp: demo_cpu0_state demo_answers_def demo_ce_def)
qed

text \<open>
  C2: in every state the program can reach, an event writes at most to the file of the CPU it is about,
  and only when isolation is enabled, the CPU is online, not too many CPUs are offline already, and either
  the error is an uncorrected one or it is a corrected one and the corrected errors of the CPU that are not
  older than the cycle reach the threshold. The errors counted are those in the queue of the CPU, and the
  new ones unless there was no memory for them.
\<close>

theorem cpu_offline_only_when_due:
  assumes "cpu_reach s" and "event_ok env err s" and "ras_record_cpu_error env err cpu s = Some s'"
    and "offline_writes s' \<noteq> offline_writes s"
  shows "offline_writes s' = offline_writes s @ [cpu] \<and> enabled s \<and> unat cpu < unat (ncores s) \<and>
    get_cpu_status (env_online env cpu) = CPU_ONLINE \<and>
    ip_value (cpu_limit s) > ucast (ncores s) - env_nprocs env \<and>
    (\<exists>P X. cpu_rep s P X \<and>
      (case err_type err of
         UCE \<Rightarrow> True
       | CE \<Rightarrow> ip_value (cpu_threshold s) \<le>
           ce_total (window (ip_value (cpu_cycle s))
             (X (unat cpu) @ (if env_malloc env = None then [] else [(err_time err, ucast (err_nums err))])))
       | OTHER_ERROR \<Rightarrow> False))"
proof -
  obtain P X where rep: "cpu_rep s P X" using cpu_reach_rep [OF assms(1)] by blast
  have "offline_writes s' = offline_writes s @ [cpu] \<and> enabled s \<and> unat cpu < unat (ncores s) \<and>
    get_cpu_status (env_online env cpu) = CPU_ONLINE \<and> event_hits env err cpu s (X (unat cpu))"
  proof (cases "enabled s \<and> cpu < ncores s \<and> 0 \<le> sint cpu \<and>
      get_cpu_status (env_online env cpu) = CPU_ONLINE")
    case True
    then have i: "unat cpu < unat (ncores s)" by (simp add: word_less_nat_alt)
    then have "length (X (unat cpu)) < 2 ^ 31 - 1" using event_ok_room [OF rep assms(2)] by blast
    then have "event_hits env err cpu s (X (unat cpu))" and "offline_writes s' = offline_writes s @ [cpu]"
      using ras_record_cpu_error_online [OF rep, of cpu env err] True assms(2-4)
      by (auto simp: event_ok_def split: if_splits)
    then show ?thesis using True i by simp
  next
    case False
    then show ?thesis
      using ras_record_cpu_error_ignored [OF False rep, of err] assms(3,4) by auto
  qed
  then show ?thesis
    using rep
    by (auto simp: event_hits_def over_limit_def reaches_def kept_def recorded_def not_le
        split: error_type.split intro!: exI [of _ P] exI [of _ X])
qed

theorem cpu_offline_only_when_due_witness:
  "\<exists>s'. ras_record_cpu_error (demo_answers 7) ((demo_ce 100)\<lparr>err_nums := 2\<rparr>) 1 demo_cpu0 = Some s' \<and>
     1 > ucast (2 :: u32) - env_nprocs (demo_answers 7)"
proof -
  let ?err = "(demo_ce 100)\<lparr>err_nums := 2\<rparr>"
  have ok: "event_ok (demo_answers 7) ?err demo_cpu0"
    using demo_event_ok [of 7 100] by (simp add: event_ok_def demo_ce_def)
  have "(case ras_record_cpu_error (demo_answers 7) ?err 1 demo_cpu0 of
      None \<Rightarrow> False | Some s' \<Rightarrow> offline_writes s' = [1])"
    by code_simp
  moreover have "offline_writes demo_cpu0 = []" by code_simp
  ultimately obtain s' where "ras_record_cpu_error (demo_answers 7) ?err 1 demo_cpu0 = Some s'"
    and "offline_writes s' \<noteq> offline_writes demo_cpu0"
    by (auto split: option.splits)
  with cpu_offline_only_when_due [OF demo_cpu0_reach ok this] show ?thesis
    by (simp add: demo_cpu0_state)
qed

end
