(* ===== verification/Arm_Handler.thy ===== *)
theory Arm_Handler
  imports Cpu_Isolation Raw_Data
begin

text \<open>
  \<open>ras-arm-handler.c\<close>, built without the decoder for Ampere processors: the handler of ARM processor
  errors. It prints the records of the event and, when it is built with the isolation of CPUs, hands the
  number of errors to \<open>Cpu_Isolation\<close>.
\<close>

section \<open>The data\<close>

record ras_arm_err_info =
  ai_version :: u8
  ai_length :: u8
  ai_validation_bits :: "16 word"
  ai_type :: u8
  ai_multiple_error :: "16 word"
  ai_flags :: u8
  ai_error_info :: u64
  ai_virt_fault_addr :: u64
  ai_physical_fault_addr :: u64

definition err_info_size :: nat where "err_info_size = 32"

definition err_info_of_bytes :: "u8 list \<Rightarrow> ras_arm_err_info" where
  "err_info_of_bytes bs =
     \<lparr>ai_version = ucast (at_offset 0 1 bs), ai_length = ucast (at_offset 1 1 bs),
      ai_validation_bits = ucast (at_offset 2 2 bs), ai_type = ucast (at_offset 4 1 bs),
      ai_multiple_error = ucast (at_offset 5 2 bs), ai_flags = ucast (at_offset 7 1 bs),
      ai_error_info = at_offset 8 8 bs, ai_virt_fault_addr = at_offset 16 8 bs,
      ai_physical_fault_addr = at_offset 24 8 bs\<rparr>"

record ras_arm_event =
  ar_timestamp :: string
  ar_error_count :: s32
  ar_affinity :: "8 word"
  ar_mpidr :: u64
  ar_midr :: u64
  ar_running_state :: s32
  ar_psci_state :: s32
  ar_pei_error :: "u8 list"
  ar_pei_len :: u32
  ar_ctx_error :: "u8 list"
  ar_ctx_len :: u32
  ar_vsei_error :: "u8 list"
  ar_oem_len :: u32
  ar_error_types :: string
  ar_error_flags :: string
  ar_error_info :: u64
  ar_virt_fault_addr :: u64
  ar_phy_fault_addr :: u64

text \<open>Bits and fields of the error information.\<close>

definition ARM_CACHE_ERROR :: nat where "ARM_CACHE_ERROR = 1"
definition ARM_TLB_ERROR :: nat where "ARM_TLB_ERROR = 2"
definition ARM_BUS_ERROR :: nat where "ARM_BUS_ERROR = 3"
definition ARM_VENDOR_ERROR :: nat where "ARM_VENDOR_ERROR = 4"

definition arm_field :: "u64 \<Rightarrow> nat \<Rightarrow> nat \<Rightarrow> nat" where
  "arm_field error_info shift width = unat (drop_bit shift error_info AND mask width)"

definition arm_proc_error_type_strs :: "string list" where
  "arm_proc_error_type_strs =
     [[], ''cache error'', ''TLB error'', ''bus error'', ''micro-architectural error'']"

definition arm_proc_error_flags_strs :: "string list" where
  "arm_proc_error_flags_strs = [''first error '', ''last error'', ''propagated error'', ''overflow'']"

definition arm_err_trans_type_strs :: "string list" where
  "arm_err_trans_type_strs = [''Instruction'', ''Data Access'', ''Generic'']"

definition arm_bus_err_op_strs :: "string list" where
  "arm_bus_err_op_strs =
     [''Generic error (type cannot be determined)'',
      ''Generic read (type of instruction or data request cannot be determined)'',
      ''Generic write (type of instruction of data request cannot be determined)'',
      ''Data read'', ''Data write'', ''Instruction fetch'', ''Prefetch'']"

definition arm_cache_err_op_strs :: "string list" where
  "arm_cache_err_op_strs =
     [''Generic error (type cannot be determined)'',
      ''Generic read (type of instruction or data request cannot be determined)'',
      ''Generic write (type of instruction of data request cannot be determined)'',
      ''Data read'', ''Data write'', ''Instruction fetch'', ''Prefetch'', ''Eviction'',
      ''Snooping (processor initiated a cache snoop that resulted in an error)'',
      ''Snooped (processor raised a cache error caused by another processor or device snooping its cache)'',
      ''Management'']"

definition arm_tlb_err_op_strs :: "string list" where
  "arm_tlb_err_op_strs =
     [''Generic error (type cannot be determined)'',
      ''Generic read (type of instruction or data request cannot be determined)'',
      ''Generic write (type of instruction of data request cannot be determined)'',
      ''Data read'', ''Data write'', ''Instruction fetch'', ''Prefetch'',
      ''Local management operation (processor initiated a TLB management operation that resulted in an error)'',
      ''External management operation (processor raised a TLB error caused by another processor or device broadcasting TLB operations)'']"

definition arm_bus_err_part_type_strs :: "string list" where
  "arm_bus_err_part_type_strs =
     [''Local processor originated request'', ''Local processor responded to request'',
      ''Local processor observed'', ''Generic'']"

definition arm_bus_err_addr_space_strs :: "string list" where
  "arm_bus_err_addr_space_strs =
     [''External Memory Access'', ''Internal Memory Access'', ''Unknown'', ''Device Memory Access'']"

section \<open>Printing\<close>

text \<open>
  The names of the bits, appended with \<open>mce_snprintf\<close>. The macro takes the size of its argument, which is
  here a pointer of eight bytes and not the array it points to.
\<close>

definition pointer_add :: "string \<Rightarrow> string \<Rightarrow> string" where
  "pointer_add s buf =
     (let len = 8 - length buf
      in if len = 0 then buf
         else if buf = [] then take (len - 1) s
         else if len = 1 then buf
         else buf @ '' '' @ take (len - 2) s)"

primrec decode_err_data_bits :: "u8 \<Rightarrow> string list \<Rightarrow> nat \<Rightarrow> string \<Rightarrow> string" where
  "decode_err_data_bits data [] i buf = buf"
| "decode_err_data_bits data (s # strs) i buf =
     decode_err_data_bits data strs (Suc i) (if bit data i then pointer_add ('' '' @ s) buf else buf)"

definition arm_text :: "string \<Rightarrow> string list \<Rightarrow> nat \<Rightarrow> string" where
  "arm_text before t i = (if i < length t then before @ t ! i else [])"

definition when_bit :: "u64 \<Rightarrow> nat \<Rightarrow> string \<Rightarrow> string" where
  "when_bit w i s = (if bit w i then s else [])"

definition arm_operation :: "u8 \<Rightarrow> nat \<Rightarrow> string" where
  "arm_operation type op =
     (if bit type ARM_CACHE_ERROR then arm_text '' cache error, operation type:'' arm_cache_err_op_strs op else []) @
     (if bit type ARM_TLB_ERROR then arm_text '' TLB error, operation type: '' arm_tlb_err_op_strs op else []) @
     (if bit type ARM_BUS_ERROR then arm_text '' bus error, operation type: '' arm_bus_err_op_strs op else [])"

definition arm_level :: "u8 \<Rightarrow> nat \<Rightarrow> string" where
  "arm_level type l =
     (if bit type ARM_CACHE_ERROR then '' cache level: '' @ to_base 10 l else []) @
     (if bit type ARM_TLB_ERROR then '' TLB level: '' @ to_base 10 l else []) @
     (if bit type ARM_BUS_ERROR then '' affinity level at which the bus error occurred: '' @ to_base 10 l else [])"

text \<open>The fields that only a bus error has.\<close>

definition arm_bus_info :: "u64 \<Rightarrow> string" where
  "arm_bus_info ei =
     when_bit ei 7 (arm_text '' participation type: '' arm_bus_err_part_type_strs (arm_field ei 29 2)) @
     when_bit ei 8 (if arm_field ei 31 1 \<noteq> 0 then '' request timed out'' else []) @
     when_bit ei 9 (arm_text '' address space: '' arm_bus_err_addr_space_strs (arm_field ei 32 2)) @
     when_bit ei 10 ('' memory access attributes:0x'' @ to_base 16 (arm_field ei 34 9)) @
     when_bit ei 11 (if arm_field ei 43 1 \<noteq> 0 then '' access mode: normal'' else '' access mode: secure'')"

definition parse_arm_err_info :: "u8 \<Rightarrow> u64 \<Rightarrow> string" where
  "parse_arm_err_info type ei =
     (if bit type ARM_VENDOR_ERROR then []
      else
        when_bit ei 0 (arm_text '' transaction type:'' arm_err_trans_type_strs (arm_field ei 16 2)) @
        when_bit ei 1 (arm_operation type (arm_field ei 18 4)) @
        when_bit ei 2 (arm_level type (arm_field ei 22 3)) @
        when_bit ei 3 (if arm_field ei 25 1 \<noteq> 0 then '' processor context corrupted''
          else '' processor context not corrupted'') @
        when_bit ei 4 (if arm_field ei 26 1 \<noteq> 0 then '' the error has been corrected''
          else '' the error has not been corrected'') @
        when_bit ei 5 (if arm_field ei 27 1 \<noteq> 0 then '' PC is precise'' else '' PC is imprecise'') @
        when_bit ei 6 (if arm_field ei 28 1 \<noteq> 0 then '' Program execution can be restartable reliably at the PC''
          else []) @
        (if type \<noteq> push_bit ARM_BUS_ERROR 1 then [] else arm_bus_info ei))"

text \<open>One record: what is printed of it, and the event with what it says.\<close>

definition arm_err_info_step :: "ras_arm_err_info \<Rightarrow> ras_arm_event \<Rightarrow> ras_arm_event \<times> string" where
  "arm_err_info_step ai ev =
     (let v = ai_validation_bits ai;
          ev = ev\<lparr>ar_error_types := decode_err_data_bits (ai_type ai) arm_proc_error_type_strs 0 (ar_error_types ev)\<rparr>;
          out = '' error_types:'' @ ar_error_types ev;
          ev = (if bit v 0 then ev\<lparr>ar_error_count := ucast (ai_multiple_error ai) + 1\<rparr> else ev);
          out = out @ (if bit v 0 then '' error_count:'' @ fmt_d (ar_error_count ev) else []);
          ev = (if bit v 1 then ev\<lparr>ar_error_flags :=
                  decode_err_data_bits (ai_flags ai) arm_proc_error_flags_strs 0 (ar_error_flags ev)\<rparr> else ev);
          out = out @ (if bit v 1 then '' error_flags:'' @ ar_error_flags ev else []);
          ev = (if bit v 2 then ev\<lparr>ar_error_info := ai_error_info ai\<rparr> else ev);
          out = out @ (if bit v 2 then '' error_info: 0x'' @ pad0 16 (fmt_x (ar_error_info ev)) @
                  parse_arm_err_info (ai_type ai) (ar_error_info ev) else []);
          ev = (if bit v 3 then ev\<lparr>ar_virt_fault_addr := ai_virt_fault_addr ai\<rparr> else ev);
          out = out @ (if bit v 3 then '' virtual fault address: 0x'' @ pad0 16 (fmt_x (ai_virt_fault_addr ai)) else []);
          ev = (if bit v 4 then ev\<lparr>ar_phy_fault_addr := ai_physical_fault_addr ai\<rparr> else ev);
          out = out @ (if bit v 4 then '' physical fault address: 0x'' @
                  pad0 16 (fmt_x (ai_physical_fault_addr ai)) else [])
      in (ev, out @ [CHR 0x0A]))"

primrec arm_err_info_loop :: "ras_arm_err_info list \<Rightarrow> ras_arm_event \<Rightarrow> ras_arm_event \<times> string" where
  "arm_err_info_loop [] ev = (ev, [])"
| "arm_err_info_loop (ai # ais) ev =
     (let (ev, out) = arm_err_info_step ai ev; (ev, out') = arm_err_info_loop ais ev in (ev, out @ out'))"

text \<open>The records of the event: \<open>None\<close> inside when the length is no multiple of their size.\<close>

definition arm_err_infos :: "u8 list \<Rightarrow> u32 \<Rightarrow> ras_arm_err_info list option option" where
  "arm_err_infos bs len =
     (if unat len mod err_info_size \<noteq> 0 then Some None
      else if length bs < unat len then None
      else Some (Some (map (\<lambda>i. err_info_of_bytes (drop (i * err_info_size) bs)) [0..<unat len div err_info_size])))"

definition parse_arm_processor_err_info :: "ras_arm_event \<Rightarrow> (ras_arm_event \<times> string) option" where
  "parse_arm_processor_err_info ev =
     map_option (\<lambda>ais. case ais of
         None \<Rightarrow> (ev, [])
       | Some ais \<Rightarrow> (let (ev, out) = arm_err_info_loop ais ev
                     in (ev, [CHR 0x0A] @ ''ARM processor error info:'' @ [CHR 0x0A] @ out)))
       (arm_err_infos (ar_pei_error ev) (ar_pei_len ev))"

section \<open>Counting errors for the isolation of CPUs\<close>

definition is_core_failure :: "ras_arm_err_info \<Rightarrow> bool" where
  "is_core_failure ai =
     (if bit (ai_validation_bits ai) 1 then ai_flags ai AND 0xf \<noteq> 0 \<and> ai_flags ai AND push_bit 2 1 = 0 else False)"

definition arm_error_count :: "u64 \<Rightarrow> ras_arm_err_info \<Rightarrow> nat" where
  "arm_error_count sev ai =
     (if sev = GHES_SEV_RECOVERABLE \<and> \<not> is_core_failure ai then 0
      else if bit (ai_validation_bits ai) 0 then unat (ai_multiple_error ai) + 1 else 1)"

text \<open>The sum is an \<open>int\<close> of the code: \<open>None\<close> when it overflows.\<close>

definition count_errors :: "ras_arm_event \<Rightarrow> u64 \<Rightarrow> nat option" where
  "count_errors ev sev =
     (case arm_err_infos (ar_pei_error ev) (ar_pei_len ev) of
        None \<Rightarrow> None
      | Some None \<Rightarrow> Some 0
      | Some (Some ais) \<Rightarrow>
          (let n = sum_list (map (arm_error_count sev) ais) in if n < 2 ^ 31 then Some n else None))"

text \<open>The output, whether it succeeds, and the state of the isolation.\<close>

definition ras_handle_cpu_error ::
  "cpu_env \<Rightarrow> trace_event \<Rightarrow> ras_arm_event \<Rightarrow> time_t \<Rightarrow> cpu_sys \<Rightarrow> (string \<times> bool \<times> cpu_sys) option" where
  "ras_handle_cpu_error env e ev now s =
     (case field_val e ''cpu'' of
        None \<Rightarrow> Some (complaint e ''cpu'', False, s)
      | Some v \<Rightarrow>
          let cpu = (ucast v :: s32); out = [CHR 0x0A] @ '' cpu: '' @ fmt_d cpu
          in case field_val e ''sev'' of
            None \<Rightarrow> Some (out @ complaint e ''sev'', False, s)
          | Some sev \<Rightarrow>
              let out = out @ [CHR 0x0A] @ '' severity: '' @ ghes_severity sev
              in if sev = GHES_SEV_CORRECTED \<or> sev = GHES_SEV_RECOVERABLE then do {
                   n \<leftarrow> count_errors ev sev;
                   s \<leftarrow> (if n > 0 then ras_record_cpu_error env
                           \<lparr>err_nums = of_nat n, err_time = now,
                            err_type = (if sev = GHES_SEV_CORRECTED then CE else UCE)\<rparr> cpu s
                         else Some s);
                   Some (out, True, s)
                 }
                 else Some (out, True, s))"


section \<open>The handler\<close>

record arm_env =
  arm_clock :: clock
  have_cpu_isolation :: bool
  arm_cpu :: cpu_env

definition arm_event0 :: "string \<Rightarrow> ras_arm_event" where
  "arm_event0 stamp =
     \<lparr>ar_timestamp = stamp, ar_error_count = 0, ar_affinity = 0, ar_mpidr = 0, ar_midr = 0, ar_running_state = 0,
      ar_psci_state = 0, ar_pei_error = [], ar_pei_len = 0, ar_ctx_error = [], ar_ctx_len = 0, ar_vsei_error = [],
      ar_oem_len = 0, ar_error_types = [], ar_error_flags = [], ar_error_info = 0, ar_virt_fault_addr = 0,
      ar_phy_fault_addr = 0\<rparr>"

text \<open>A dump that leaves its array is undefined behaviour.\<close>

definition dumped :: "u8 list \<Rightarrow> u32 \<Rightarrow> (string \<Rightarrow> 'a handled) \<Rightarrow> 'a handled" where
  "dumped bs n k = (case display_raw_data bs n of None \<Rightarrow> None | Some t \<Rightarrow> k t)"

text \<open>The three arrays of an event, whose names differ in an older kernel patch.\<close>

definition arm_raw_parts ::
  "arm_env \<Rightarrow> trace_event \<Rightarrow> string \<Rightarrow> time_t \<Rightarrow> bool \<Rightarrow> u8 list \<Rightarrow> ras_arm_event \<Rightarrow> cpu_sys \<Rightarrow>
     (ras_arm_event \<times> cpu_sys) handled" where
  "arm_raw_parts env e out now legacy_patch pei ev s =
     (let ev = ev\<lparr>ar_pei_error := pei\<rparr> in
      dumped pei (ar_pei_len ev) (\<lambda>d.
      let out = out @ d in
      case parse_arm_processor_err_info ev of None \<Rightarrow> None | Some (ev, t) \<Rightarrow>
      let out = out @ t in
      get_val e out ''ctx_len'' (\<lambda>n.
      let ev = ev\<lparr>ar_ctx_len := ucast n\<rparr>;
          out = out @ '' ARM Processor Err Context Info data len: '' @ fmt_d (ar_ctx_len ev) @ [CHR 0x0A] in
      get_raw e out (if legacy_patch then ''buf1'' else ''ctx_buf'') (\<lambda>ctx.
      let ev = ev\<lparr>ar_ctx_error := ctx\<rparr> in
      dumped ctx (ar_ctx_len ev) (\<lambda>d.
      let out = out @ d in
      get_val e out ''oem_len'' (\<lambda>n.
      let ev = ev\<lparr>ar_oem_len := ucast n\<rparr>;
          out = out @ '' Vendor Specific Err Info data len: '' @ fmt_d (ar_oem_len ev) @ [CHR 0x0A] in
      get_raw e out (if legacy_patch then ''buf2'' else ''oem_buf'') (\<lambda>vsei.
      let ev = ev\<lparr>ar_vsei_error := vsei\<rparr> in
      dumped vsei (ar_oem_len ev) (\<lambda>d.
      let out = out @ d in
      if have_cpu_isolation env then
        (case ras_handle_cpu_error (arm_cpu env) e ev now s of
           None \<Rightarrow> None
         | Some (t, ok, s) \<Rightarrow> Some (out @ t, Some (ev, s)))
      else Some (out, Some (ev, s))))))))))"

definition ras_arm_event_handler ::
  "arm_env \<Rightarrow> trace_event \<Rightarrow> cpu_sys \<Rightarrow> (ras_arm_event \<times> cpu_sys) handled" where
  "ras_arm_event_handler env e s =
     (let now = event_time (arm_clock env);
          stamp = (case strf (arm_clock env) now of None \<Rightarrow> [] | Some t \<Rightarrow> t);
          ev = arm_event0 stamp;
          out = loglevel_str LOGLEVEL_ERR @ '' '' @ stamp in
      get_val e out ''affinity'' (\<lambda>v.
      let ev = ev\<lparr>ar_affinity := ucast v\<rparr>; out = out @ '' affinity: '' @ fmt_d (ar_affinity ev) in
      get_val e out ''mpidr'' (\<lambda>v.
      let ev = ev\<lparr>ar_mpidr := v\<rparr>; out = out @ '' MPIDR: 0x'' @ fmt_x (ar_mpidr ev) in
      get_val e out ''midr'' (\<lambda>v.
      let ev = ev\<lparr>ar_midr := v\<rparr>; out = out @ '' MIDR: 0x'' @ fmt_x (ar_midr ev) in
      get_val e out ''running_state'' (\<lambda>v.
      let ev = ev\<lparr>ar_running_state := ucast v\<rparr>; out = out @ '' running_state: '' @ fmt_d (ar_running_state ev) in
      get_val e out ''psci_state'' (\<lambda>v.
      let ev = ev\<lparr>ar_psci_state := ucast v\<rparr>; out = out @ '' psci_state: '' @ fmt_d (ar_psci_state ev) in
      case field_val e ''pei_len'' of
        None \<Rightarrow> Some (out, Some (ev, s))
      | Some n \<Rightarrow>
          let ev = ev\<lparr>ar_pei_len := ucast n\<rparr>;
              out = out @ '' ARM Processor Err Info data len: '' @ fmt_d (ar_pei_len ev) @ [CHR 0x0A]
          in case field_bytes e ''pei_buf'' of
            Some (pei, _) \<Rightarrow> arm_raw_parts env e out now False pei ev s
          | None \<Rightarrow>
              get_raw e (out @ complaint e ''pei_buf'') ''buf'' (\<lambda>pei.
              arm_raw_parts env e (out @ complaint e ''pei_buf'') now True pei ev s)))))))"

section \<open>The names of the error types are cut\<close>

lemma length_pointer_add: "length buf \<le> 7 \<Longrightarrow> length (pointer_add s buf) \<le> 7"
  by (auto simp: pointer_add_def Let_def)

lemma length_decode_err_data_bits:
  "length buf \<le> 7 \<Longrightarrow> length (decode_err_data_bits data strs i buf) \<le> 7"
  by (induction strs arbitrary: i buf) (simp_all add: length_pointer_add)

text \<open>
  Of the error types of a record, whose buffer has 512 bytes, at most seven characters are kept, with
  those of the records before it; a cache error that comes first is printed as \<open> cache \<close>.
\<close>

theorem arm_error_types_cut:
  "length (ar_error_types (fst (arm_err_info_loop ais (arm_event0 stamp)))) \<le> 7 \<and>
   length (ar_error_flags (fst (arm_err_info_loop ais (arm_event0 stamp)))) \<le> 7 \<and>
   decode_err_data_bits 2 arm_proc_error_type_strs 0 [] = '' cache ''"
proof -
  have "length (ar_error_types (fst (arm_err_info_loop ais ev))) \<le> 7 \<and>
      length (ar_error_flags (fst (arm_err_info_loop ais ev))) \<le> 7"
    if "length (ar_error_types ev) \<le> 7" "length (ar_error_flags ev) \<le> 7" for ev
    using that
  proof (induction ais arbitrary: ev)
    case (Cons ai ais)
    have "length (ar_error_types (fst (arm_err_info_step ai ev))) \<le> 7"
      "length (ar_error_flags (fst (arm_err_info_step ai ev))) \<le> 7"
      using Cons.prems by (simp_all add: arm_err_info_step_def Let_def length_decode_err_data_bits)
    then show ?case using Cons.IH [of "fst (arm_err_info_step ai ev)"] by (simp add: split_beta Let_def)
  qed simp
  moreover have "decode_err_data_bits 2 arm_proc_error_type_strs 0 [] = '' cache ''" by code_simp
  ultimately show ?thesis by (simp add: arm_event0_def)
qed


section \<open>What reaches the isolation of CPUs\<close>

lemma dumped_Some_iff: "dumped bs n k = Some r \<longleftrightarrow> (\<exists>t. display_raw_data bs n = Some t \<and> k t = Some r)"
  by (auto simp: dumped_def split: option.splits)

lemma arm_info_loop_keeps:
  "ar_pei_error (fst (arm_err_info_loop ais ev)) = ar_pei_error ev \<and>
   ar_pei_len (fst (arm_err_info_loop ais ev)) = ar_pei_len ev"
proof (induction ais arbitrary: ev)
  case (Cons ai ais)
  then show ?case using Cons.IH [of "fst (arm_err_info_step ai ev)"] by (simp add: split_beta arm_err_info_step_def Let_def)
qed simp

lemma parse_keeps:
  assumes "parse_arm_processor_err_info ev = Some (ev', t)"
  shows "ar_pei_error ev' = ar_pei_error ev \<and> ar_pei_len ev' = ar_pei_len ev"
proof -
  obtain ais where "arm_err_infos (ar_pei_error ev) (ar_pei_len ev) = Some ais"
    using assms by (auto simp: parse_arm_processor_err_info_def)
  then show ?thesis
    using assms arm_info_loop_keeps [of "the ais" ev]
    by (cases ais) (auto simp: parse_arm_processor_err_info_def split_beta)
qed

text \<open>The isolation gets the errors of the event, or is left alone.\<close>

definition arm_isolates :: "arm_env \<Rightarrow> trace_event \<Rightarrow> ras_arm_event \<Rightarrow> cpu_sys \<Rightarrow> cpu_sys \<Rightarrow> bool" where
  "arm_isolates env e ev s s' \<longleftrightarrow>
     (case (field_val e ''cpu'', field_val e ''sev'') of
        (Some cpu, Some sev) \<Rightarrow>
          if sev = GHES_SEV_CORRECTED \<or> sev = GHES_SEV_RECOVERABLE then
            (case count_errors ev sev of
               None \<Rightarrow> False
             | Some n \<Rightarrow>
                 if n = 0 then s' = s
                 else ras_record_cpu_error (arm_cpu env)
                   \<lparr>err_nums = of_nat n, err_time = event_time (arm_clock env),
                    err_type = (if sev = GHES_SEV_CORRECTED then CE else UCE)\<rparr> (ucast cpu) s = Some s')
          else s' = s
      | _ \<Rightarrow> s' = s)"

lemma handle_cpu_error_isolates:
  assumes "ras_handle_cpu_error (arm_cpu env) e ev (event_time (arm_clock env)) s = Some (t, ok, s')"
  shows "arm_isolates env e ev s s'"
  using assms
  by (auto simp: ras_handle_cpu_error_def arm_isolates_def Let_def bind_eq_Some_conv split: option.splits if_splits)

lemma raw_parts_isolates:
  assumes "arm_raw_parts env e out (event_time (arm_clock env)) lp pei ev s = Some (out', Some (ev', s'))"
  shows "if have_cpu_isolation env then arm_isolates env e ev' s s' else s' = s"
  using assms
  by (auto simp: arm_raw_parts_def Let_def dumped_Some_iff get_Some_iff handle_cpu_error_isolates
      split: option.splits if_splits prod.splits)

lemma arm_isolates_reach:
  assumes "arm_isolates env e ev s s'" and "cpu_reach s"
    and "\<forall>p. env_malloc (arm_cpu env) = Some p \<longrightarrow> nodes s p = None"
    and "\<forall>info \<in> set (cpu_infos s). \<forall>q. ce_queue info = Some q \<longrightarrow> sint (q_size q) < 2 ^ 31 - 1"
  shows "cpu_reach s'"
proof (cases "s' = s")
  case False
  then obtain cpu sev n where sev: "count_errors ev sev = Some n"
    "ras_record_cpu_error (arm_cpu env) \<lparr>err_nums = of_nat n, err_time = event_time (arm_clock env),
       err_type = (if sev = GHES_SEV_CORRECTED then CE else UCE)\<rparr> (ucast (cpu :: u64)) s = Some s'"
    using assms(1) by (auto simp: arm_isolates_def split: option.splits if_splits)
  have "n < 2 ^ 31" using sev(1) by (auto simp: count_errors_def Let_def split: option.splits if_splits)
  then have "event_ok (arm_cpu env) \<lparr>err_nums = of_nat n, err_time = event_time (arm_clock env),
       err_type = (if sev = GHES_SEV_CORRECTED then CE else UCE)\<rparr> s"
    using assms(3,4) by (simp add: event_ok_def unat_of_nat)
  then show ?thesis by (rule cpu_reach.event [OF assms(2) _ sev(2)])
qed (use assms(2) in simp)

text \<open>
  C26: an event of an ARM processor reaches the isolation of CPUs at most once, with the number of errors of
  its records that count for its severity, and not at all when the program is built without it, the event
  has no records, or the severity is another one.
\<close>

theorem arm_event_isolates:
  assumes "ras_arm_event_handler env e s = Some (out, Some (ev, s'))"
  shows "if have_cpu_isolation env \<and> field_val e ''pei_len'' \<noteq> None then arm_isolates env e ev s s' else s' = s"
proof (cases "field_val e ''pei_len''")
  case None
  then show ?thesis using assms by (auto simp: ras_arm_event_handler_def Let_def get_Some_iff)
next
  case len: (Some n)
  show ?thesis
  proof (cases "field_bytes e ''pei_buf''")
    case None
    then show ?thesis
      using assms len
      by (auto simp: ras_arm_event_handler_def Let_def get_Some_iff simp del: if_split dest!: raw_parts_isolates)
  next
    case (Some p)
    then show ?thesis
      using assms len
      by (cases p) (auto simp: ras_arm_event_handler_def Let_def get_Some_iff simp del: if_split dest!: raw_parts_isolates)
  qed
qed


text \<open>An event with one corrected error of CPU 0 on the example configuration.\<close>

definition demo_arm_event :: trace_event where
  "demo_arm_event =
     \<lparr>field_val = \<lambda>f. Some (if f = ''pei_len'' then 32 else if f = ''sev'' then 1 else 0), field_str = \<lambda>_. None,
      field_words = \<lambda>f. Some (if f = ''pei_buf'' then [0, 32, 1, 0, 2] @ replicate 27 0 else [], 32),
      complaint = \<lambda>_. []\<rparr>"

definition demo_arm_env :: arm_env where
  "demo_arm_env =
     \<lparr>arm_clock = \<lparr>use_uptime = False, ts = 0, user_hz = 100, uptime_diff = 0, time_now = 100, strf = \<lambda>_. None\<rparr>,
      have_cpu_isolation = True, arm_cpu = demo_answers 7\<rparr>"

lemma raw_parts_end:
  assumes len: "unat (ar_pei_len ev) \<le> length pei"
    and fields: "field_val e ''ctx_len'' = Some 0" "field_bytes e ''ctx_buf'' = Some (ctx, n)"
      "field_val e ''oem_len'' = Some 0" "field_bytes e ''oem_buf'' = Some (vsei, m)"
    and iso: "\<And>ev'. ar_pei_error ev' = pei \<Longrightarrow> ar_pei_len ev' = ar_pei_len ev \<Longrightarrow>
      ras_handle_cpu_error (arm_cpu env) e ev' now s \<noteq> None"
  shows "\<exists>out' ev' s'. arm_raw_parts env e out now False pei ev s = Some (out', Some (ev', s')) \<and>
    ar_pei_error ev' = pei \<and> ar_pei_len ev' = ar_pei_len ev"
proof -
  let ?ev = "ev\<lparr>ar_pei_error := pei\<rparr>"
  have "4 * (unat (ar_pei_len ev) div 4) \<le> length pei"
    using len times_div_less_eq_dividend [of 4 "unat (ar_pei_len ev)"] by (rule le_trans [rotated])
  then obtain d where d: "display_raw_data pei (ar_pei_len ev) = Some d"
    using display_raw_data_defined [of pei "ar_pei_len ev"] by auto
  obtain d0 d1 where z: "display_raw_data ctx 0 = Some d0" "display_raw_data vsei 0 = Some d1"
    using display_raw_data_defined [of ctx 0] display_raw_data_defined [of vsei 0] by auto
  have "parse_arm_processor_err_info ?ev \<noteq> None"
    using len by (simp add: parse_arm_processor_err_info_def arm_err_infos_def)
  then obtain ev1 t where p: "parse_arm_processor_err_info ?ev = Some (ev1, t)" by auto
  let ?ev' = "ev1\<lparr>ar_ctx_len := 0, ar_ctx_error := ctx, ar_oem_len := 0, ar_vsei_error := vsei\<rparr>"
  have k: "ar_pei_error ?ev' = pei" "ar_pei_len ?ev' = ar_pei_len ev" using parse_keeps [OF p] by simp_all
  obtain t' ok s' where h: "ras_handle_cpu_error (arm_cpu env) e ?ev' now s = Some (t', ok, s')"
    using iso [OF k] by auto
  show ?thesis
    using k h p d z fields
    by (simp add: arm_raw_parts_def dumped_def get_val_def get_raw_def Let_def del: if_split split: if_split)
qed

lemma demo_arm_runs:
  "\<exists>out ev s'. ras_arm_event_handler demo_arm_env demo_arm_event demo_cpu0 = Some (out, Some (ev, s')) \<and>
     count_errors ev 1 = Some 1"
proof -
  let ?pei = "[0, 32, 1, 0, 2] @ replicate 27 0 :: u8 list"
  have z: "le_value (replicate k 0) = 0" for k by (induction k) simp_all
  have v: "arm_error_count 1 (err_info_of_bytes (0 # 32 # 1 # 0 # 2 # replicate 27 0)) = Suc 0"
    by (simp add: err_info_of_bytes_def at_offset_def arm_error_count_def GHES_SEV_RECOVERABLE_def take_replicate z)
  have "count_errors ((arm_event0 [])\<lparr>ar_pei_error := ?pei, ar_pei_len := 32\<rparr>) 1 = Some 1"
    by (simp add: count_errors_def arm_err_infos_def err_info_size_def v)
  then have count: "count_errors ev 1 = Some 1" if "ar_pei_error ev = ?pei" "ar_pei_len ev = 32" for ev
    using that by (simp add: count_errors_def)
  have iso: "ras_handle_cpu_error (demo_answers 7) demo_arm_event ev 100 demo_cpu0 \<noteq> None"
    if "ar_pei_error ev = ?pei" "ar_pei_len ev = 32" for ev
    using event_step [OF demo_cpu0_rep demo_event_ok, of 7 100 0] count [OF that]
    by (auto simp: ras_handle_cpu_error_def demo_arm_event_def GHES_SEV_CORRECTED_def demo_ce_def Let_def)
  have f: "field_bytes demo_arm_event ''ctx_buf'' = Some ([], 32)" "field_bytes demo_arm_event ''oem_buf'' = Some ([], 32)"
    "field_bytes demo_arm_event ''pei_buf'' = Some (?pei, 32)"
    by (simp_all add: field_bytes_def demo_arm_event_def)
  let ?ev = "(arm_event0 [])\<lparr>ar_affinity := 0, ar_mpidr := 0, ar_midr := 0, ar_running_state := 0,
    ar_psci_state := 0, ar_pei_len := 32\<rparr>"
  have "\<exists>out' ev' s'. arm_raw_parts demo_arm_env demo_arm_event out 100 False ?pei ?ev demo_cpu0 =
      Some (out', Some (ev', s')) \<and> ar_pei_error ev' = ?pei \<and> ar_pei_len ev' = ar_pei_len ?ev" for out
    by (rule raw_parts_end [OF _ _ f(1) _ f(2)])
      (use iso in \<open>simp_all add: demo_arm_event_def demo_arm_env_def\<close>)
  then show ?thesis
    using count f(3)
    by (simp add: ras_arm_event_handler_def get_val_def demo_arm_env_def demo_arm_event_def event_time_def Let_def)
      blast
qed

theorem arm_event_isolates_witness:
  "\<exists>out ev s'. ras_arm_event_handler demo_arm_env demo_arm_event demo_cpu0 = Some (out, Some (ev, s')) \<and>
     ras_record_cpu_error (demo_answers 7) (demo_ce 100) 0 demo_cpu0 = Some s'"
proof -
  obtain out ev s' where r: "ras_arm_event_handler demo_arm_env demo_arm_event demo_cpu0 = Some (out, Some (ev, s'))"
    "count_errors ev 1 = Some 1"
    using demo_arm_runs by blast
  show ?thesis
    using arm_event_isolates [OF r(1)] r
    by (auto simp: arm_isolates_def demo_arm_env_def demo_arm_event_def GHES_SEV_CORRECTED_def demo_ce_def event_time_def)
qed

end
