(* ===== verification/Non_Standard.thy ===== *)
theory Non_Standard
  imports Raw_Data
begin

text \<open>
  \<open>ras-non-standard-handler.c\<close>: the registry of vendor decoders and the handler that dispatches an event
  to the decoder of its section type. The list of decoders is a static variable linked through the
  decoders themselves, its reference count a field of the first of them.
\<close>

section \<open>The data\<close>

record ras_non_standard_event =
  ne_timestamp :: string
  ne_sec_type :: "u8 list"
  ne_fru_id :: "u8 list"
  ne_fru_text :: string
  ne_severity :: string
  ne_error :: "u8 list"
  ne_length :: u32

text \<open>
  A decoder: its section type as text, whether it has a function that adds tables, the function that
  decodes, if it has one, and whether it holds a statement of the database. A decoder prints; the tables
  it fills are not part of the result.
\<close>

record ns_decoder =
  ns_sec_type :: string
  ns_adds_table :: bool
  ns_decode :: "(ras_non_standard_event \<Rightarrow> string option) option"
  ns_stmt :: bool

record ns_sys =
  ns_list :: "ns_decoder list"
  ns_ref_count :: "16 word"

definition ns_sys0 :: ns_sys where
  "ns_sys0 = \<lparr>ns_list = [], ns_ref_count = 0\<rparr>"

section \<open>The registry\<close>

definition register_ns_ev_decoder :: "ns_decoder option \<Rightarrow> ns_sys \<Rightarrow> int \<times> ns_sys" where
  "register_ns_ev_decoder d s =
     (case d of
        None \<Rightarrow> (- 1, s)
      | Some d \<Rightarrow>
          let d = d\<lparr>ns_stmt := False\<rparr>
          in (0, if ns_list s = [] then \<lparr>ns_list = [d], ns_ref_count = 0\<rparr>
                 else s\<lparr>ns_list := ns_list s @ [d]\<rparr>))"

text \<open>
  Adding the tables of a decoder is a function of the database: its result, and whether the decoder then
  holds a statement.
\<close>

primrec add_tables :: "(string \<Rightarrow> int \<times> bool) \<Rightarrow> ns_decoder list \<Rightarrow> bool \<times> ns_decoder list" where
  "add_tables db [] = (True, [])"
| "add_tables db (d # ds) =
     (if ns_adds_table d \<and> \<not> ns_stmt d then
        let (rc, st) = db (ns_sec_type d); d = d\<lparr>ns_stmt := st\<rparr>
        in if rc \<noteq> 0 then (False, d # ds) else (let (ok, ds) = add_tables db ds in (ok, d # ds))
      else (let (ok, ds) = add_tables db ds in (ok, d # ds)))"

definition ras_ns_add_vendor_tables :: "bool \<Rightarrow> (string \<Rightarrow> int \<times> bool) \<Rightarrow> ns_sys \<Rightarrow> int \<times> ns_sys" where
  "ras_ns_add_vendor_tables ras db s =
     (if \<not> ras then (- 1, s)
      else
        let rc' = (if ns_list s \<noteq> [] then ns_ref_count s + 1 else ns_ref_count s);
            (ok, ds) = add_tables db (ns_list s)
        in (if ok then 0 else - 1, \<lparr>ns_list = ds, ns_ref_count = rc'\<rparr>))"

text \<open>The section type is formatted anew for each decoder.\<close>

primrec find_in :: "u8 list \<Rightarrow> ns_decoder list \<Rightarrow> ns_decoder option option" where
  "find_in sec_type [] = Some None"
| "find_in sec_type (d # ds) =
     (case uuid_le sec_type of
        None \<Rightarrow> None
      | Some u \<Rightarrow> if u = ns_sec_type d then Some (Some d) else find_in sec_type ds)"

definition find_ns_ev_decoder :: "u8 list \<Rightarrow> ns_sys \<Rightarrow> ns_decoder option option" where
  "find_ns_ev_decoder sec_type s = find_in sec_type (ns_list s)"

text \<open>Finalizing: the state and the decoders whose statement is finalized.\<close>

definition ras_ns_finalize_vendor_tables :: "ns_sys \<Rightarrow> ns_sys \<times> string list" where
  "ras_ns_finalize_vendor_tables s =
     (if ns_list s = [] \<or> ns_ref_count s = 0 then (s, [])
      else
        let s = s\<lparr>ns_ref_count := ns_ref_count s - 1\<rparr>
        in if ns_ref_count s > 0 then (s, [])
           else (s\<lparr>ns_list := map (\<lambda>d. d\<lparr>ns_stmt := False\<rparr>) (ns_list s)\<rparr>,
                 map ns_sec_type (filter ns_stmt (ns_list s))))"

definition unregister_ns_ev_decoder :: "ns_sys \<Rightarrow> ns_sys \<times> string list" where
  "unregister_ns_ev_decoder s =
     (if ns_list s = [] then (s, [])
      else (ns_sys0, snd (ras_ns_finalize_vendor_tables (s\<lparr>ns_ref_count := 1\<rparr>))))"

section \<open>The handler\<close>

definition ampere_uuid :: string where
  "ampere_uuid = ''e8ed898d-df16-43cc-8ecc-54f060ef157f''"

definition of_defined :: "'b option \<Rightarrow> ('b \<Rightarrow> 'a handled) \<Rightarrow> 'a handled" where
  "of_defined x k = (case x of None \<Rightarrow> None | Some y \<Rightarrow> k y)"

text \<open>The text of an event that no decoder takes: its length is compared as a signed number.\<close>

definition undecoded_text :: "ras_non_standard_event \<Rightarrow> string option" where
  "undecoded_text ev =
     map_option (\<lambda>t. '' error:'' @ [CHR 0x0A] @ t)
       (display_raw_data (ne_error ev) (if sint (ne_length ev) < 0 then 0 else ne_length ev))"

definition ns_event_text :: "ras_non_standard_event \<Rightarrow> ns_sys \<Rightarrow> string option" where
  "ns_event_text ev s =
     (case find_ns_ev_decoder (ne_sec_type ev) s of
        None \<Rightarrow> None
      | Some None \<Rightarrow> undecoded_text ev
      | Some (Some d) \<Rightarrow> (case ns_decode d of None \<Rightarrow> undecoded_text ev | Some f \<Rightarrow> f ev))"

definition ras_non_standard_event_handler ::
  "clock \<Rightarrow> trace_event \<Rightarrow> ns_sys \<Rightarrow> ras_non_standard_event handled" where
  "ras_non_standard_event_handler ck e s =
     stamped ck (\<lambda>stamp.
     let out = stamp @ '' '' in
     get_val e out ''sev'' (\<lambda>sev.
     let out = out @ '' '' @ ghes_severity sev in
     get_raw e out ''sec_type'' (\<lambda>sec_type.
     of_defined (uuid_le sec_type) (\<lambda>u.
     let out = out @ '' section type: '' @ (if u = ampere_uuid then ''Ampere Specific Error'' else u);
         fru_text = field_str e ''fru_text''; fru_id = map_option fst (field_bytes e ''fru_id'') in
     of_defined fru_text (\<lambda>fru_text.
     of_defined fru_id (\<lambda>fru_id.
     of_defined (uuid_le fru_id) (\<lambda>fru.
     let out = out @ '' fru text: '' @ fru_text @ '' fru id: '' @ fru @ '' '' in
     get_val e out ''len'' (\<lambda>len.
     let out = out @ '' length: '' @ fmt_d (ucast len :: u32) in
     get_raw e out ''buf'' (\<lambda>buf.
     let ev = \<lparr>ne_timestamp = stamp, ne_sec_type = sec_type, ne_fru_id = fru_id, ne_fru_text = fru_text,
           ne_severity = ghes_severity sev, ne_error = buf, ne_length = ucast len\<rparr> in
     of_defined (ns_event_text ev s) (\<lambda>t. Some (out @ t, Some ev)))))))))))"

section \<open>An event reaches the decoder of its section type\<close>

lemma uuid_order_less: "i < 16 \<Longrightarrow> uuid_order ! i < 16"
proof -
  have "list_all (\<lambda>i. uuid_order ! i < 16) [0..<16]" by code_simp
  then show "i < 16 \<Longrightarrow> uuid_order ! i < 16" by (simp only: list_all_iff set_upt) simp
qed

lemma find_in_uuid:
  assumes "16 \<le> length v"
  shows "find_in v ds = Some (List.find (\<lambda>d. ns_sec_type d = uuid_text v) ds)"
  using assms by (induction ds) (auto simp: uuid_le_def)

lemma uuid_text_take: "uuid_text (take 16 v) = uuid_text v"
  unfolding uuid_text_def
proof (rule arg_cong [where f = concat], rule map_cong [OF refl])
  fix i assume "i \<in> set [0..<16]"
  then have "i < 16" by (simp only: set_upt atLeastLessThan_iff)
  then have eq: "take 16 v ! (uuid_order ! i) = v ! (uuid_order ! i)" using uuid_order_less by simp
  show "hex2 (take 16 v ! (uuid_order ! i)) @ (if i \<in> {3, 5, 7, 9} then ''-'' else []) =
      hex2 (v ! (uuid_order ! i)) @ (if i \<in> {3, 5, 7, 9} then ''-'' else [])"
    unfolding eq by (rule refl)
qed

lemma find_registered:
  assumes "distinct (map ns_sec_type (ns_list s))" and "d \<in> set (ns_list s)" and "ns_sec_type d = uuid_text u"
    and "length u = 16" and "16 \<le> length v"
  shows "find_ns_ev_decoder v s = Some (Some d) \<longleftrightarrow> take 16 v = u"
proof
  assume "find_ns_ev_decoder v s = Some (Some d)"
  then have "uuid_text v = uuid_text u"
    using assms(3) find_in_uuid [OF assms(5)] by (auto simp: find_ns_ev_decoder_def find_Some_iff)
  then have "\<forall>j < 16. v ! j = u ! j" by (rule uuid_text_inject)
  then show "take 16 v = u" using assms(4,5) by (intro nth_equalityI) simp_all
next
  assume u: "take 16 v = u"
  have "uuid_text v = uuid_text u" unfolding u [symmetric] by (rule uuid_text_take [symmetric])
  moreover have "List.find (\<lambda>d. ns_sec_type d = uuid_text u) (ns_list s) = Some d"
  proof -
    have "List.find (\<lambda>d. ns_sec_type d = uuid_text u) (ns_list s) \<noteq> None"
      using assms(2,3) by (auto simp: find_None_iff)
    then obtain d' where d': "List.find (\<lambda>d. ns_sec_type d = uuid_text u) (ns_list s) = Some d'"
      by blast
    then have "d' \<in> set (ns_list s)" "ns_sec_type d' = ns_sec_type d"
      using assms(3) by (auto simp: find_Some_iff)
    then have "d' = d" using assms(1,2) by (simp add: distinct_map inj_on_def)
    then show ?thesis using d' by simp
  qed
  ultimately show "find_ns_ev_decoder v s = Some (Some d)"
    using find_in_uuid [OF assms(5)] by (simp add: find_ns_ev_decoder_def)
qed

lemma length_uuid_text: "length (uuid_text v) = 36"
  by (simp add: uuid_text_def length_concat comp_def upt_rec)

lemma not_printed_not_found:
  assumes "length (ns_sec_type d) \<noteq> 36"
  shows "find_ns_ev_decoder v s \<noteq> Some (Some d)"
proof (cases "16 \<le> length v")
  case True
  then show ?thesis
    using assms length_uuid_text [of v] find_in_uuid [OF True, of "ns_list s"]
    by (auto simp: find_ns_ev_decoder_def find_Some_iff)
next
  case False
  then show ?thesis
    by (cases "ns_list s") (auto simp: find_ns_ev_decoder_def uuid_le_def)
qed

lemma ns_handler_text:
  assumes "ras_non_standard_event_handler ck e s = Some (out, Some ev)"
  shows "16 \<le> length (ne_sec_type ev) \<and> (\<exists>before t. ns_event_text ev s = Some t \<and> out = before @ t)"
  using assms
  by (auto simp: ras_non_standard_event_handler_def stamped_def get_val_def get_raw_def failed_def of_defined_def
      uuid_le_def Let_def split: option.splits if_splits)

text \<open>
  C27: when the decoders are registered for different section types, an event is given to a decoder
  registered for the text of an identifier \<open>u\<close> exactly when the sixteen bytes of its section type are those
  of \<open>u\<close>, and its output ends with what this decoder prints of it; neither two types that are printed alike
  nor the order of the decoders matters. An event of which no decoder is found is dumped. A decoder that
  is registered for a text which is not 36 characters long, as that of Ampere is without the dashes, is never
  given an event.
\<close>

theorem ns_decoder_dispatch:
  assumes "distinct (map ns_sec_type (ns_list s))"
    and "ras_non_standard_event_handler ck e s = Some (out, Some ev)"
  shows "(\<forall>d \<in> set (ns_list s). \<forall>u. length u = 16 \<and> ns_sec_type d = uuid_text u \<longrightarrow>
       (find_ns_ev_decoder (ne_sec_type ev) s = Some (Some d)) = (take 16 (ne_sec_type ev) = u) \<and>
       (take 16 (ne_sec_type ev) = u \<longrightarrow>
          (\<exists>before t. (case ns_decode d of None \<Rightarrow> undecoded_text ev | Some decode \<Rightarrow> decode ev) = Some t \<and>
             out = before @ t))) \<and>
    (\<forall>d \<in> set (ns_list s). length (ns_sec_type d) \<noteq> 36 \<longrightarrow>
       find_ns_ev_decoder (ne_sec_type ev) s \<noteq> Some (Some d)) \<and>
    ((\<forall>d \<in> set (ns_list s). \<forall>u. length u = 16 \<and> ns_sec_type d = uuid_text u \<longrightarrow> take 16 (ne_sec_type ev) \<noteq> u) \<longrightarrow>
       (\<exists>before t. undecoded_text ev = Some t \<and> out = before @ t))"
proof (intro conjI ballI allI impI)
  note ends = ns_handler_text [OF assms(2)]
  fix d assume d: "d \<in> set (ns_list s)"
  show "find_ns_ev_decoder (ne_sec_type ev) s \<noteq> Some (Some d)" if "length (ns_sec_type d) \<noteq> 36"
    using that by (rule not_printed_not_found)
  fix u assume u: "length u = 16 \<and> ns_sec_type d = uuid_text u"
  then show found: "(find_ns_ev_decoder (ne_sec_type ev) s = Some (Some d)) = (take 16 (ne_sec_type ev) = u)"
    using find_registered [OF assms(1) d] ends by blast
  show "\<exists>before t. (case ns_decode d of None \<Rightarrow> undecoded_text ev | Some decode \<Rightarrow> decode ev) = Some t \<and>
      out = before @ t" if "take 16 (ne_sec_type ev) = u"
    using ends found that by (auto simp: ns_event_text_def)
next
  note ends = ns_handler_text [OF assms(2)]
  let ?v = "ne_sec_type ev"
  assume none: "\<forall>d \<in> set (ns_list s). \<forall>u. length u = 16 \<and> ns_sec_type d = uuid_text u \<longrightarrow> take 16 ?v \<noteq> u"
  have "uuid_text (take 16 ?v) = uuid_text ?v" by (rule uuid_text_take)
  then have "ns_sec_type d \<noteq> uuid_text ?v" if "d \<in> set (ns_list s)" for d
    using none that ends by (metis length_take min.absorb2)
  then have "find_ns_ev_decoder ?v s = Some None"
    using find_in_uuid [of ?v "ns_list s"] ends by (auto simp: find_ns_ev_decoder_def find_None_iff)
  then show "\<exists>before t. undecoded_text ev = Some t \<and> out = before @ t"
    using ends by (auto simp: ns_event_text_def)
qed

section \<open>No statement is left open\<close>

text \<open>The states that the registration, and fewer than \<open>2 ^ 16\<close> openings of the database, lead to.\<close>

inductive ns_reach :: "ns_sys \<Rightarrow> bool" where
  start: "ns_reach ns_sys0"
| register: "ns_reach s \<Longrightarrow> ns_reach (snd (register_ns_ev_decoder d s))"
| add: "ns_reach s \<Longrightarrow> ns_ref_count s \<noteq> 2 ^ 16 - 1 \<Longrightarrow> ns_reach (snd (ras_ns_add_vendor_tables ras db s))"
| finalize: "ns_reach s \<Longrightarrow> ns_reach (fst (ras_ns_finalize_vendor_tables s))"
| unregister: "ns_reach s \<Longrightarrow> ns_reach (fst (unregister_ns_ev_decoder s))"


lemma add_tables_Nil: "add_tables db ds = (ok, ds') \<Longrightarrow> ds' = [] \<longleftrightarrow> ds = []"
  by (cases ds) (auto simp: Let_def split: prod.splits if_splits)

lemma ns_reach_closed: "ns_reach s \<Longrightarrow> ns_ref_count s = 0 \<Longrightarrow> \<forall>d \<in> set (ns_list s). \<not> ns_stmt d"
proof (induction rule: ns_reach.induct)
  case (register s d)
  then show ?case by (auto simp: register_ns_ev_decoder_def Let_def split: option.splits if_splits)
next
  case (add s ras db)
  moreover have "(65535 :: 16 word) = - 1" by simp
  ultimately have "ns_ref_count s + 1 \<noteq> 0"
    unfolding eq_neg_iff_add_eq_0 [symmetric] by simp
  then show ?case
    using add by (auto simp: ras_ns_add_vendor_tables_def Let_def split: prod.splits if_splits)
next
  case (finalize s)
  then show ?case by (auto simp: ras_ns_finalize_vendor_tables_def Let_def split: if_splits)
next
  case (unregister s)
  then show ?case by (auto simp: unregister_ns_ev_decoder_def ns_sys0_def split: if_splits)
qed (simp add: ns_sys0_def)

text \<open>
  C28: in every state reached, a decoder holds a statement of the database only while the tables are in
  use, and the end of the program finalizes the statement of every decoder that holds one, and only those.
\<close>

theorem ns_statements_finalized:
  assumes "ns_reach s"
  shows "(if ns_ref_count s = 0 then filter ns_stmt (ns_list s) = [] else True) \<and>
    snd (unregister_ns_ev_decoder s) = map ns_sec_type (filter ns_stmt (ns_list s)) \<and>
    ns_list (fst (unregister_ns_ev_decoder s)) = []"
  using ns_reach_closed [OF assms]
  by (auto simp: unregister_ns_ev_decoder_def ras_ns_finalize_vendor_tables_def ns_sys0_def Let_def filter_empty_conv)

text \<open>Two decoders, the second of which adds a table, on an open database.\<close>

definition demo_ns_decoder :: "u8 list \<Rightarrow> ns_decoder" where
  "demo_ns_decoder u = \<lparr>ns_sec_type = uuid_text u, ns_adds_table = True, ns_decode = Some (\<lambda>_. Some []), ns_stmt = False\<rparr>"

definition demo_ns_sys :: ns_sys where
  "demo_ns_sys =
     snd (ras_ns_add_vendor_tables True (\<lambda>_. (0, True))
       (snd (register_ns_ev_decoder (Some (demo_ns_decoder (replicate 16 2)))
         (snd (register_ns_ev_decoder (Some (demo_ns_decoder (replicate 16 1))) ns_sys0)))))"

lemma demo_ns_sys_eq:
  "demo_ns_sys = \<lparr>ns_list = [(demo_ns_decoder (replicate 16 1))\<lparr>ns_stmt := True\<rparr>,
     (demo_ns_decoder (replicate 16 2))\<lparr>ns_stmt := True\<rparr>], ns_ref_count = 1\<rparr>"
  by (simp add: demo_ns_sys_def ras_ns_add_vendor_tables_def register_ns_ev_decoder_def ns_sys0_def
      demo_ns_decoder_def Let_def)

lemma demo_ns_reach: "ns_reach demo_ns_sys"
  unfolding demo_ns_sys_def
  by (intro ns_reach.intros) (simp add: register_ns_ev_decoder_def ns_sys0_def Let_def)

theorem ns_statements_finalized_witness:
  "ns_reach demo_ns_sys \<and>
   snd (unregister_ns_ev_decoder demo_ns_sys) = [uuid_text (replicate 16 1), uuid_text (replicate 16 2)]"
  using ns_statements_finalized [OF demo_ns_reach] demo_ns_reach
  by (simp add: demo_ns_sys_eq demo_ns_decoder_def)

definition demo_ns_clock :: clock where
  "demo_ns_clock = \<lparr>use_uptime = True, ts = 0, user_hz = 100, uptime_diff = 0, time_now = 0, strf = \<lambda>_. Some ''now''\<rparr>"

definition demo_ns_event :: trace_event where
  "demo_ns_event = \<lparr>field_val = \<lambda>_. Some 0, field_str = \<lambda>_. Some [],
     field_words = \<lambda>f. Some (replicate 16 (if f = ''sec_type'' then 2 else 0), 16), complaint = \<lambda>_. []\<rparr>"

theorem ns_decoder_dispatch_witness:
  "\<exists>out ev. ras_non_standard_event_handler demo_ns_clock demo_ns_event demo_ns_sys = Some (out, Some ev) \<and>
     find_ns_ev_decoder (ne_sec_type ev) demo_ns_sys =
       Some (Some ((demo_ns_decoder (replicate 16 2))\<lparr>ns_stmt := True\<rparr>))"
proof -
  have ne: "uuid_text (replicate 16 1) \<noteq> uuid_text (replicate 16 2)"
  proof
    assume "uuid_text (replicate 16 1) = uuid_text (replicate 16 2)"
    from spec [OF uuid_text_inject [OF this], of 0] show False by simp
  qed
  have bytes: "field_bytes demo_ns_event f = Some (replicate 16 (if f = ''sec_type'' then 2 else 0), 16)" for f
    by (simp add: field_bytes_def demo_ns_event_def)
  obtain out ev where run: "ras_non_standard_event_handler demo_ns_clock demo_ns_event demo_ns_sys = Some (out, Some ev)"
    and ev: "ne_sec_type ev = replicate 16 2"
    using ne
    by (simp add: ras_non_standard_event_handler_def stamped_def get_val_def get_raw_def of_defined_def uuid_le_def
        bytes demo_ns_clock_def event_time_def ns_event_text_def find_ns_ev_decoder_def find_in_uuid demo_ns_sys_eq
        Let_def) (simp add: demo_ns_event_def demo_ns_decoder_def uuid_le_def)
  have "distinct (map ns_sec_type (ns_list demo_ns_sys))"
    using ne by (simp add: demo_ns_sys_eq demo_ns_decoder_def)
  from conjunct1 [OF ns_decoder_dispatch [OF this run]]
  show ?thesis
    using run ev by (auto simp: demo_ns_sys_eq demo_ns_decoder_def)
qed

end
