(* ===== verification/Handler_Script.thy ===== *)
theory Handler_Script
  imports Raw_Data
begin

text \<open>
  Handlers that are straight sequences of a few kinds of statement: read a field of the record, keep it in
  the event, print it, and leave with an error when the record does not have it. \<open>run\<close> executes such a
  sequence; \<open>needed\<close> and \<open>effect\<close> say, without the output and the ways out, which fields it reads and what
  it makes of the event, and \<open>run_outcome\<close> relates the two.
\<close>

section \<open>Statements\<close>

text \<open>
  A field with a number, a string or an array of at least so many bytes, with what is kept of it and then
  printed; a statement that reads no field; a block under a condition. The output is never full, so that
  printing does not fail.
\<close>

datatype 'e stmt =
    Number string "u64 \<Rightarrow> 'e \<Rightarrow> 'e" "'e \<Rightarrow> string"
  | Text string "string \<Rightarrow> 'e \<Rightarrow> 'e" "'e \<Rightarrow> string"
  | Bytes string nat "u8 list \<Rightarrow> 'e \<Rightarrow> 'e" "'e \<Rightarrow> string"
  | Also "'e \<Rightarrow> 'e" "'e \<Rightarrow> string"
  | When "'e \<Rightarrow> bool" "'e stmt list"

fun run :: "trace_event \<Rightarrow> 'e stmt \<Rightarrow> string \<Rightarrow> 'e \<Rightarrow> 'e handled"
  and runs :: "trace_event \<Rightarrow> 'e stmt list \<Rightarrow> string \<Rightarrow> 'e \<Rightarrow> 'e handled" where
  "run e (Number f keep print) out ev = get_val e out f (\<lambda>v. Some (out @ print (keep v ev), Some (keep v ev)))"
| "run e (Text f keep print) out ev = get_str e out f (\<lambda>t. Some (out @ print (keep t ev), Some (keep t ev)))"
| "run e (Bytes f n keep print) out ev =
     get_raw e out f (\<lambda>bs. if n \<le> length bs then Some (out @ print (keep bs ev), Some (keep bs ev)) else None)"
| "run e (Also keep print) out ev = Some (out @ print (keep ev), Some (keep ev))"
| "run e (When c ss) out ev = (if c ev then runs e ss out ev else Some (out, Some ev))"
| "runs e [] out ev = Some (out, Some ev)"
| "runs e (s # ss) out ev =
     (case run e s out ev of
        None \<Rightarrow> None
      | Some (out, None) \<Rightarrow> failed out
      | Some (out, Some ev) \<Rightarrow> runs e ss out ev)"

section \<open>What a sequence reads and what it keeps\<close>

text \<open>A field that is missing counts as zero, an empty string or an array of zeros; it is then needed.\<close>

definition num :: "trace_event \<Rightarrow> string \<Rightarrow> u64" where
  "num e f = (case field_val e f of None \<Rightarrow> 0 | Some v \<Rightarrow> v)"

definition str :: "trace_event \<Rightarrow> string \<Rightarrow> string" where
  "str e f = (case field_str e f of None \<Rightarrow> [] | Some t \<Rightarrow> t)"

definition raw :: "trace_event \<Rightarrow> string \<Rightarrow> nat \<Rightarrow> u8 list" where
  "raw e f n = (case field_bytes e f of None \<Rightarrow> replicate n 0 | Some (bs, _) \<Rightarrow> bs)"

fun effect :: "trace_event \<Rightarrow> 'e stmt \<Rightarrow> 'e \<Rightarrow> 'e"
  and effects :: "trace_event \<Rightarrow> 'e stmt list \<Rightarrow> 'e \<Rightarrow> 'e" where
  "effect e (Number f keep print) ev = keep (num e f) ev"
| "effect e (Text f keep print) ev = keep (str e f) ev"
| "effect e (Bytes f n keep print) ev = keep (raw e f n) ev"
| "effect e (Also keep print) ev = keep ev"
| "effect e (When c ss) ev = (if c ev then effects e ss ev else ev)"
| "effects e [] ev = ev"
| "effects e (s # ss) ev = effects e ss (effect e s ev)"

text \<open>The statements themselves are not simplified while a sequence is evaluated.\<close>

lemma effect_cong: "ev = ev' \<Longrightarrow> effect e s ev = effect e s ev'"
  "ev = ev' \<Longrightarrow> effects e ss ev = effects e ss ev'"
  by simp_all

text \<open>The needed fields; an array has the bytes the code reads of it.\<close>

definition has_bytes :: "trace_event \<Rightarrow> string \<Rightarrow> nat \<Rightarrow> bool" where
  "has_bytes e f n = (case field_bytes e f of None \<Rightarrow> False | Some (bs, _) \<Rightarrow> n \<le> length bs)"

definition short_bytes :: "trace_event \<Rightarrow> string \<Rightarrow> nat \<Rightarrow> bool" where
  "short_bytes e f n = (case field_bytes e f of None \<Rightarrow> False | Some (bs, _) \<Rightarrow> length bs < n)"

fun needed :: "trace_event \<Rightarrow> 'e stmt \<Rightarrow> 'e \<Rightarrow> bool"
  and needs_met :: "trace_event \<Rightarrow> 'e stmt list \<Rightarrow> 'e \<Rightarrow> bool" where
  "needed e (Number f keep print) ev \<longleftrightarrow> field_val e f \<noteq> None"
| "needed e (Text f keep print) ev \<longleftrightarrow> field_str e f \<noteq> None"
| "needed e (Bytes f n keep print) ev \<longleftrightarrow> has_bytes e f n"
| "needed e (Also keep print) ev \<longleftrightarrow> True"
| "needed e (When c ss) ev \<longleftrightarrow> (c ev \<longrightarrow> needs_met e ss ev)"
| "needs_met e [] ev \<longleftrightarrow> True"
| "needs_met e (s # ss) ev \<longleftrightarrow> needed e s ev \<and> needs_met e ss (effect e s ev)"

lemma needed_cong: "ev = ev' \<Longrightarrow> needed e s ev = needed e s ev'"
  "ev = ev' \<Longrightarrow> needs_met e ss ev = needs_met e ss ev'"
  by simp_all

lemmas stmt_cong = effect_cong needed_cong

fun lacks_bytes :: "trace_event \<Rightarrow> 'e stmt \<Rightarrow> bool"
  and lack_bytes :: "trace_event \<Rightarrow> 'e stmt list \<Rightarrow> bool" where
  "lacks_bytes e (Number f keep print) \<longleftrightarrow> False"
| "lacks_bytes e (Text f keep print) \<longleftrightarrow> False"
| "lacks_bytes e (Bytes f n keep print) \<longleftrightarrow> short_bytes e f n"
| "lacks_bytes e (Also keep print) \<longleftrightarrow> False"
| "lacks_bytes e (When c ss) \<longleftrightarrow> lack_bytes e ss"
| "lack_bytes e [] \<longleftrightarrow> False"
| "lack_bytes e (s # ss) \<longleftrightarrow> lacks_bytes e s \<or> lack_bytes e ss"

text \<open>
  A sequence succeeds exactly when its fields are there, and then has its effect. It fails when one is
  missing, unless an array is shorter than the code takes it to be.
\<close>

lemma run_Some:
  "run e s out ev = Some (out', Some x) \<Longrightarrow> needed e s ev \<and> x = effect e s ev"
  "runs e ss out ev = Some (out', Some x) \<Longrightarrow> needs_met e ss ev \<and> x = effects e ss ev"
  by (induction e s out ev and e ss out ev arbitrary: x out' and x out' rule: run_runs.induct)
    (fastforce simp: get_Some_iff has_bytes_def num_def str_def raw_def failed_def split: if_splits option.splits)+

lemma run_needed:
  "needed e s ev \<Longrightarrow> \<exists>out'. run e s out ev = Some (out', Some (effect e s ev))"
  "needs_met e ss ev \<Longrightarrow> \<exists>out'. runs e ss out ev = Some (out', Some (effects e ss ev))"
proof (induction e s out ev and e ss out ev rule: run_runs.induct)
  case (7 e s ss out ev)
  then obtain out1 where "run e s out ev = Some (out1, Some (effect e s ev))" by auto
  with 7 show ?case by simp
qed (auto simp: get_val_def get_str_def get_raw_def has_bytes_def num_def str_def raw_def split: option.splits)

lemma run_None:
  "run e s out ev = None \<Longrightarrow> lacks_bytes e s"
  "runs e ss out ev = None \<Longrightarrow> lack_bytes e ss"
  by (induction e s out ev and e ss out ev rule: run_runs.induct)
    (auto simp: get_val_def get_str_def get_raw_def failed_def short_bytes_def split: option.splits prod.splits if_splits)

lemma runs_Some_iff:
  "(\<exists>out'. runs e ss out ev = Some (out', Some x)) \<longleftrightarrow> needs_met e ss ev \<and> x = effects e ss ev"
  by (auto dest: run_Some(2) run_needed(2))

lemma runs_outcome:
  assumes "\<not> lack_bytes e ss"
  shows "\<exists>out'. runs e ss out ev =
    (if needs_met e ss ev then Some (out', Some (effects e ss ev)) else failed out')"
proof (cases "runs e ss out ev")
  case None
  then show ?thesis using assms by (auto dest: run_None(2))
next
  case (Some r)
  obtain out' x where r: "r = (out', x)" by fastforce
  show ?thesis
  proof (cases x)
    case None
    then have "\<not> needs_met e ss ev" using Some r run_needed(2) [of e ss ev out] by auto
    then show ?thesis using Some r None by (simp add: failed_def)
  next
    case (Some y)
    then show ?thesis using \<open>runs e ss out ev = Some r\<close> r run_Some(2) [of e ss out ev out' y] by auto
  qed
qed

end
