(* ===== verification/Cxl_Events.thy ===== *)
theory Cxl_Events
  imports Handler_Script
begin

text \<open>
  The events of CXL memory devices: the records of \<open>ras-record.h\<close>, and the printers and tables of
  \<open>ras-cxl-handler.c\<close> that the handlers share.
\<close>

section \<open>Times, flags, UUIDs and names\<close>

definition epoch :: string where
  "epoch = ''1970-01-01 00:00:00 +0000''"

definition convert_timestamp :: "clock \<Rightarrow> u64 \<Rightarrow> string" where
  "convert_timestamp ck v =
     (case strf ck (v div 1000000000) of
        None \<Rightarrow> epoch
      | Some t \<Rightarrow> if v = 0 then epoch else t)"

text \<open>The uptime clock, whether or not the kernel has one.\<close>

definition get_timestamp :: "clock \<Rightarrow> string" where
  "get_timestamp ck =
     (case strf ck (ts ck div user_hz ck + uptime_diff ck) of None \<Rightarrow> epoch | Some t \<Rightarrow> t)"

definition quoted :: "string \<Rightarrow> string" where
  "quoted t = [CHR 0x27] @ t @ [CHR 0x27] @ '' ''"

text \<open>The names of the bits of a table that are set. The bits are given by their number.\<close>

definition decode_cxl_event_flags :: "u32 \<Rightarrow> (nat \<times> string) list \<Rightarrow> string" where
  "decode_cxl_event_flags flags t = concat (map (\<lambda>(i, name). if bit flags i then quoted name else []) t)"

definition decode_cxl_error_status :: "u32 \<Rightarrow> (nat \<times> string) list \<Rightarrow> string" where
  "decode_cxl_error_status st t = concat (map (\<lambda>(i, name). if bit st i then quoted name else []) t)"

text \<open>All groups in the order of memory.\<close>

definition uuid_be_text :: "u8 list \<Rightarrow> string" where
  "uuid_be_text uu = concat (map (\<lambda>i. hex2 (uu ! i) @ (if i \<in> {3, 5, 7, 9} then ''-'' else [])) [0..<16])"

definition get_cxl_type_str :: "string list \<Rightarrow> u8 \<Rightarrow> string" where
  "get_cxl_type_str t type = (if length t \<le> unat type then ''Unknown'' else t ! unat type)"

definition cxl_event_log_type_str :: "u32 \<Rightarrow> string" where
  "cxl_event_log_type_str log_type =
     (if log_type = 0 then ''Informational''
      else if log_type = 1 then ''Warning''
      else if log_type = 2 then ''Failure''
      else if log_type = 3 then ''Fatal''
      else ''Unknown'')"

definition hex_bytes :: "u8 list \<Rightarrow> string" where
  "hex_bytes bs = concat (map (\<lambda>b. hex2 b @ '' '') bs)"

section \<open>The sizes of the arrays\<close>

definition CXL_HEADERLOG_SIZE :: nat where "CXL_HEADERLOG_SIZE = 512"
definition CXL_EVENT_RECORD_DATA_LENGTH :: nat where "CXL_EVENT_RECORD_DATA_LENGTH = 0x50"
definition CXL_EVENT_GEN_MED_COMP_ID_SIZE :: nat where "CXL_EVENT_GEN_MED_COMP_ID_SIZE = 0x10"
definition CXL_EVENT_DER_CORRECTION_MASK_SIZE :: nat where "CXL_EVENT_DER_CORRECTION_MASK_SIZE = 0x20"
definition CXL_PLDM_ENTITY_ID_LEN :: nat where "CXL_PLDM_ENTITY_ID_LEN = 6"
definition CXL_PLDM_RES_ID_LEN :: nat where "CXL_PLDM_RES_ID_LEN = 4"

lemmas cxl_sizes =
  CXL_HEADERLOG_SIZE_def CXL_EVENT_RECORD_DATA_LENGTH_def CXL_EVENT_GEN_MED_COMP_ID_SIZE_def
  CXL_EVENT_DER_CORRECTION_MASK_SIZE_def CXL_PLDM_ENTITY_ID_LEN_def CXL_PLDM_RES_ID_LEN_def

section \<open>The events\<close>

record ras_cxl_poison_event =
  cp_timestamp :: string
  cp_memdev :: string
  cp_host :: string
  cp_serial :: u64
  cp_trace_type :: string
  cp_region :: string
  cp_uuid :: string
  cp_hpa :: u64
  cp_hpa_alias0 :: u64
  cp_dpa :: u64
  cp_dpa_length :: u32
  cp_source :: string
  cp_flags :: u8
  cp_overflow_ts :: string

record ras_cxl_aer_ue_event =
  cu_timestamp :: string
  cu_memdev :: string
  cu_host :: string
  cu_serial :: u64
  cu_error_status :: u32
  cu_first_error :: u32
  cu_header_log :: "u32 list"

record ras_cxl_aer_ce_event =
  cc_timestamp :: string
  cc_memdev :: string
  cc_host :: string
  cc_serial :: u64
  cc_error_status :: u32

record ras_cxl_overflow_event =
  co_timestamp :: string
  co_memdev :: string
  co_host :: string
  co_serial :: u64
  co_log_type :: string
  co_first_ts :: string
  co_last_ts :: string
  co_count :: u16

text \<open>
  \<open>uuid_be\<close> returns a pointer to its static buffer, so that the two UUIDs an event may hold are pointers
  into one buffer. The buffer is kept with the header, which every event of this kind starts with, and a
  pointer is null or points to it; \<open>uuid_at\<close> is what the pointer shows when the event is stored.
\<close>

datatype uuid_ptr = Null | Uuid_buffer

record ras_cxl_event_common_hdr =
  h_timestamp :: string
  h_memdev :: string
  h_host :: string
  h_serial :: u64
  h_log_type :: string
  h_hdr_uuid :: uuid_ptr
  h_hdr_flags :: u32
  h_hdr_handle :: u16
  h_hdr_related_handle :: u16
  h_hdr_timestamp :: string
  h_hdr_length :: u8
  h_hdr_maint_op_class :: u8
  h_hdr_maint_op_sub_class :: u8
  h_hdr_ld_id :: u16
  h_hdr_head_id :: u8
  h_uuid_buffer :: string

definition uuid_at :: "uuid_ptr \<Rightarrow> ras_cxl_event_common_hdr \<Rightarrow> string option" where
  "uuid_at p h = (case p of Null \<Rightarrow> None | Uuid_buffer \<Rightarrow> Some (h_uuid_buffer h))"

text \<open>An array that the event does not have is a null pointer, here \<open>None\<close>.\<close>

record ras_cxl_generic_event =
  cg_hdr :: ras_cxl_event_common_hdr
  cg_data :: "u8 list option"

record ras_cxl_general_media_event =
  gm_hdr :: ras_cxl_event_common_hdr
  gm_dpa :: u64
  gm_dpa_flags :: u8
  gm_descriptor :: u8
  gm_type :: u8
  gm_sub_type :: u8
  gm_transaction_type :: u8
  gm_channel :: u8
  gm_rank :: u8
  gm_device :: u32
  gm_comp_id :: "u8 list option"
  gm_entity_id :: "u8 list"
  gm_res_id :: "u8 list"
  gm_validity_flags :: u16
  gm_hpa :: u64
  gm_hpa_alias0 :: u64
  gm_region :: string
  gm_region_uuid :: uuid_ptr
  gm_cme_threshold_ev_flags :: u8
  gm_cme_count :: u32

record ras_cxl_dram_event =
  dr_hdr :: ras_cxl_event_common_hdr
  dr_dpa :: u64
  dr_dpa_flags :: u8
  dr_descriptor :: u8
  dr_type :: u8
  dr_sub_type :: u8
  dr_transaction_type :: u8
  dr_channel :: u8
  dr_sub_channel :: u8
  dr_rank :: u8
  dr_nibble_mask :: u32
  dr_bank_group :: u8
  dr_bank :: u8
  dr_row :: u32
  dr_column :: u16
  dr_cor_mask :: "u8 list option"
  dr_validity_flags :: u16
  dr_hpa :: u64
  dr_hpa_alias0 :: u64
  dr_region :: string
  dr_region_uuid :: uuid_ptr
  dr_comp_id :: "u8 list option"
  dr_entity_id :: "u8 list"
  dr_res_id :: "u8 list"
  dr_cme_threshold_ev_flags :: u8
  dr_cvme_count :: u32

record ras_cxl_memory_module_event =
  mm_hdr :: ras_cxl_event_common_hdr
  mm_event_type :: u8
  mm_event_sub_type :: u8
  mm_health_status :: u8
  mm_media_status :: u8
  mm_life_used :: u8
  mm_dirty_shutdown_cnt :: u32
  mm_cor_vol_err_cnt :: u32
  mm_cor_per_err_cnt :: u32
  mm_device_temp :: "16 word"
  mm_add_status :: u8
  mm_validity_flags :: u16
  mm_comp_id :: "u8 list option"
  mm_entity_id :: "u8 list"
  mm_res_id :: "u8 list"

record ras_cxl_memory_sparing_event =
  ms_hdr :: ras_cxl_event_common_hdr
  ms_flags :: u8
  ms_result :: u8
  ms_validity_flags :: u16
  ms_res_avail :: u16
  ms_channel :: u8
  ms_rank :: u8
  ms_nibble_mask :: u32
  ms_bank_group :: u8
  ms_bank :: u8
  ms_row :: u32
  ms_column :: u16
  ms_sub_channel :: u8
  ms_comp_id :: "u8 list option"
  ms_entity_id :: "u8 list"
  ms_res_id :: "u8 list"

section \<open>The tables\<close>

definition cxl_aer_ue :: "(nat \<times> string) list" where
  "cxl_aer_ue =
     [(0, ''Cache Data Parity Error''), (1, ''Cache Address Parity Error''),
      (2, ''Cache Byte Enable Parity Error''), (3, ''Cache Data ECC Error''),
      (4, ''Memory Data Parity Error''), (5, ''Memory Address Parity Error''),
      (6, ''Memory Byte Enable Parity Error''), (7, ''Memory Data ECC Error''),
      (8, ''REINIT Threshold Hit''), (9, ''Received Unrecognized Encoding''),
      (10, ''Received Poison From Peer''), (11, ''Receiver Overflow''),
      (14, ''Component Specific Error''), (15, ''IDE Tx Error''), (16, ''IDE Rx Error'')]"

definition cxl_aer_ce :: "(nat \<times> string) list" where
  "cxl_aer_ce =
     [(0, ''Cache Data ECC Error''), (1, ''Memory Data ECC Error''), (2, ''CRC Threshold Hit''),
      (3, ''Retry Threshold''), (4, ''Received Cache Poison From Peer''),
      (5, ''Received Memory Poison From Peer''), (6, ''Received Error From Physical Layer'')]"

definition cxl_pldm_comp_id_flags :: "(nat \<times> string) list" where
  "cxl_pldm_comp_id_flags = [(0, ''PLDM Entity ID''), (1, ''Resource ID'')]"

definition cxl_hdr_flags :: "(nat \<times> string) list" where
  "cxl_hdr_flags =
     [(2, ''PERMANENT_CONDITION''), (3, ''MAINTENANCE_NEEDED''), (4, ''PERFORMANCE_DEGRADED''),
      (5, ''HARDWARE_REPLACEMENT_NEEDED''), (6, ''MAINT_OP_SUB_CLASS_VALID''),
      (7, ''LOGICAL_DEV_ID_VALID''), (8, ''DEV_HEAD_ID_VALID'')]"

definition cxl_dpa_flags :: "(nat \<times> string) list" where
  "cxl_dpa_flags = [(0, ''VOLATILE''), (1, ''NOT_REPAIRABLE'')]"

definition cxl_mem_event_sub_type :: "string list" where
  "cxl_mem_event_sub_type =
     [''Not Reported'', ''Internal Datapath Error'', ''Media Link Command Training Error'',
      ''Media Link Control Training Error'', ''Media Link Data Training Error'', ''Media Link CRC Error'']"

definition cxl_cme_threshold_ev_flags :: "(nat \<times> string) list" where
  "cxl_cme_threshold_ev_flags =
     [(0, ''Corrected Memory Errors in Multiple Media Components''), (1, ''Exceeded Programmable Threshold'')]"

definition cxl_gmer_event_desc_flags :: "(nat \<times> string) list" where
  "cxl_gmer_event_desc_flags =
     [(0, ''UNCORRECTABLE EVENT''), (1, ''THRESHOLD EVENT''), (2, ''POISON LIST OVERFLOW'')]"

definition cxl_gmer_mem_event_type :: "string list" where
  "cxl_gmer_mem_event_type =
     [''ECC Error'', ''Invalid Address'', ''Data Path Error'', ''TE State Violation'',
      ''Scrub Media ECC Error'', ''Advanced Programmable CME Counter Expiration'', ''CKID Violation'']"

definition cxl_gmer_trans_type :: "string list" where
  "cxl_gmer_trans_type =
     [''Unknown'', ''Host Read'', ''Host Write'', ''Host Scan Media'', ''Host Inject Poison'',
      ''Internal Media Scrub'', ''Internal Media Management'', ''Internal Media Error Check Scrub'',
      ''Media Initialization'']"

definition cxl_der_mem_event_type :: "string list" where
  "cxl_der_mem_event_type =
     [''Media ECC Error'', ''Scrub Media ECC Error'', ''Invalid Address'', ''Data Path Error'',
      ''TE State Violation'', ''Advanced Programmable CME Counter Expiration'', ''CKID Violation'']"

definition cxl_dev_evt_type :: "string list" where
  "cxl_dev_evt_type =
     [''Health Status Change'', ''Media Status Change'', ''Life Used Change'', ''Temperature Change'',
      ''Data Path Error'', ''LSA Error'', ''Unrecoverable Internal Sideband Bus Error'',
      ''Memory Media FRU Error'', ''Power Management Fault'']"

definition cxl_dev_evt_sub_type :: "string list" where
  "cxl_dev_evt_sub_type =
     [''Not Reported'', ''Invalid Config Data'', ''Unsupported Config Data'', ''Unsupported Memory Media FRU'']"

definition cxl_health_status :: "(nat \<times> string) list" where
  "cxl_health_status =
     [(0, ''MAINTENANCE_NEEDED''), (1, ''PERFORMANCE_DEGRADED''), (2, ''REPLACEMENT_NEEDED''),
      (3, ''MEM_CAPACITY_DEGRADED'')]"

definition cxl_media_status :: "string list" where
  "cxl_media_status =
     [''Normal'', ''Not Ready'', ''Write Persistency Lost'', ''All Data Lost'',
      ''Write Persistency Loss in the Event of Power Loss'', ''Write Persistency Loss in Event of Shutdown'',
      ''Write Persistency Loss Imminent'', ''All Data Loss in Event of Power Loss'',
      ''All Data loss in the Event of Shutdown'', ''All Data Loss Imminent'']"

definition cxl_two_bit_status :: "string list" where
  "cxl_two_bit_status = [''Normal'', ''Warning'', ''Critical'']"

definition cxl_one_bit_status :: "string list" where
  "cxl_one_bit_status = [''Normal'', ''Warning'']"

definition CXL_DHI_AS_LIFE_USED :: "u8 \<Rightarrow> u8" where "CXL_DHI_AS_LIFE_USED as' = and as' 0x3"
definition CXL_DHI_AS_DEV_TEMP :: "u8 \<Rightarrow> u8" where "CXL_DHI_AS_DEV_TEMP as' = drop_bit 2 (and as' 0xC)"
definition CXL_DHI_AS_COR_VOL_ERR_CNT :: "u8 \<Rightarrow> u8" where "CXL_DHI_AS_COR_VOL_ERR_CNT as' = drop_bit 4 (and as' 0x10)"
definition CXL_DHI_AS_COR_PER_ERR_CNT :: "u8 \<Rightarrow> u8" where "CXL_DHI_AS_COR_PER_ERR_CNT as' = drop_bit 5 (and as' 0x20)"

definition cxl_mser_flags :: "(nat \<times> string) list" where
  "cxl_mser_flags = [(0, ''QUERY_RESOURCES''), (1, ''HARD_SPARING''), (2, ''DEVICE_INITIATED'')]"

end
