(* ===== verification/Cxl_Handler.thy ===== *)
theory Cxl_Handler
  imports Cxl_Events Page_Isolation
begin

text \<open>
  The handlers of \<open>ras-cxl-handler.c\<close>. A handler is the sequence of its statements after the level and, for
  the events with a common header, after the header; \<open>None\<close> is a read past the end of an array. The
  handler of DRAM events takes a page offline in between.
\<close>

section \<open>Parts that handlers share\<close>

text \<open>The result of a first part and what follows it.\<close>

definition and_then :: "'a handled \<Rightarrow> (string \<Rightarrow> 'a \<Rightarrow> 'b handled) \<Rightarrow> 'b handled" where
  "and_then r k =
     (case r of None \<Rightarrow> None | Some (out, None) \<Rightarrow> failed out | Some (out, Some x) \<Rightarrow> k out x)"

definition leveled :: "nat \<Rightarrow> string" where
  "leveled l = loglevel_str l @ '' ''"

section \<open>Poison\<close>

definition poison_trace_type :: "u64 \<Rightarrow> string" where
  "poison_trace_type v =
     (if v = 0 then ''List'' else if v = 1 then ''Inject'' else if v = 2 then ''Clear'' else ''Invalid'')"

definition poison_source :: "u64 \<Rightarrow> string" where
  "poison_source v =
     (if v = 0 then ''Unknown'' else if v = 1 then ''External'' else if v = 2 then ''Internal''
      else if v = 3 then ''Injected'' else if v = 7 then ''Vendor'' else ''Invalid'')"

definition cxl_poison_event0 :: ras_cxl_poison_event where
  "cxl_poison_event0 =
     \<lparr>cp_timestamp = [], cp_memdev = [], cp_host = [], cp_serial = 0, cp_trace_type = [], cp_region = [],
      cp_uuid = [], cp_hpa = 0, cp_hpa_alias0 = 0, cp_dpa = 0, cp_dpa_length = 0, cp_source = [],
      cp_flags = 0, cp_overflow_ts = []\<rparr>"

definition cxl_poison_stmts :: "clock \<Rightarrow> ras_cxl_poison_event stmt list" where
  "cxl_poison_stmts ck =
     [Also (cp_timestamp_update (\<lambda>_. get_timestamp ck)) (\<lambda>ev. cp_timestamp ev @ '' ''),
      Text ''memdev'' (\<lambda>t. cp_memdev_update (\<lambda>_. t)) (\<lambda>ev. ''memdev:'' @ cp_memdev ev @ '' ''),
      Text ''host'' (\<lambda>t. cp_host_update (\<lambda>_. t)) (\<lambda>ev. ''host:'' @ cp_host ev @ '' ''),
      Number ''serial'' (\<lambda>v. cp_serial_update (\<lambda>_. v)) (\<lambda>ev. ''serial:0x'' @ fmt_x (cp_serial ev) @ '' ''),
      Number ''trace_type'' (\<lambda>v. cp_trace_type_update (\<lambda>_. poison_trace_type v))
        (\<lambda>ev. ''trace_type:'' @ cp_trace_type ev @ '' ''),
      Text ''region'' (\<lambda>t. cp_region_update (\<lambda>_. t)) (\<lambda>ev. ''region:'' @ cp_region ev @ '' ''),
      Text ''uuid'' (\<lambda>t. cp_uuid_update (\<lambda>_. t)) (\<lambda>ev. ''region_uuid:'' @ cp_uuid ev @ '' ''),
      Number ''hpa'' (\<lambda>v. cp_hpa_update (\<lambda>_. v)) (\<lambda>ev. ''hpa:0x'' @ fmt_x (cp_hpa ev) @ '' ''),
      Number ''hpa_alias0'' (\<lambda>v. cp_hpa_alias0_update (\<lambda>_. v))
        (\<lambda>ev. ''hpa_alias0:0x'' @ fmt_x (cp_hpa_alias0 ev) @ '' ''),
      Number ''dpa'' (\<lambda>v. cp_dpa_update (\<lambda>_. v)) (\<lambda>ev. ''dpa:0x'' @ fmt_x (cp_dpa ev) @ '' ''),
      Number ''dpa_length'' (\<lambda>v. cp_dpa_length_update (\<lambda>_. ucast v))
        (\<lambda>ev. ''dpa_length:0x'' @ fmt_x (cp_dpa_length ev) @ '' ''),
      Number ''source'' (\<lambda>v. cp_source_update (\<lambda>_. poison_source v)) (\<lambda>ev. ''source:'' @ cp_source ev @ '' ''),
      Number ''flags'' (\<lambda>v. cp_flags_update (\<lambda>_. ucast v)) (\<lambda>ev. ''flags:'' @ fmt_u (cp_flags ev) @ '' ''),
      When (\<lambda>ev. bit (cp_flags ev) 1)
        [Number ''overflow_ts'' (\<lambda>v. cp_overflow_ts_update (\<lambda>_. convert_timestamp ck v)) (\<lambda>_. [])],
      When (\<lambda>ev. \<not> bit (cp_flags ev) 1) [Also (cp_overflow_ts_update (\<lambda>_. epoch)) (\<lambda>_. [])],
      Also id (\<lambda>ev. ''overflow timestamp:'' @ cp_overflow_ts ev @ [CHR 0x0A])]"

definition ras_cxl_poison_event_handler :: "clock \<Rightarrow> trace_event \<Rightarrow> ras_cxl_poison_event handled" where
  "ras_cxl_poison_event_handler ck e = runs e (cxl_poison_stmts ck) (leveled LOGLEVEL_ERR) cxl_poison_event0"

section \<open>Errors of the protocol\<close>

text \<open>The words of the header log on a little-endian machine, and the change of their byte order.\<close>

definition le_words :: "nat \<Rightarrow> u8 list \<Rightarrow> u32 list" where
  "le_words n bs = map (\<lambda>i. ucast (at_offset (4 * i) 4 bs)) [0..<n]"

definition htobe32 :: "u32 \<Rightarrow> u32" where
  "htobe32 w = ucast (le_value (rev (le_bytes 4 (ucast w))))"

text \<open>A line ends after the words 20, 40 and so on, so that the first line has one word more.\<close>

definition header_log_text :: "u32 list \<Rightarrow> string" where
  "header_log_text ws =
     concat (map (\<lambda>i. pad0 8 (fmt_x (ws ! i)) @ '' '' @ (if 0 < i \<and> i mod 20 = 0 then [CHR 0x0A] else []))
       [0..<length ws])"

definition cxl_aer_ue_event0 :: ras_cxl_aer_ue_event where
  "cxl_aer_ue_event0 =
     \<lparr>cu_timestamp = [], cu_memdev = [], cu_host = [], cu_serial = 0, cu_error_status = 0, cu_first_error = 0,
      cu_header_log = []\<rparr>"

definition cxl_aer_ue_stmts :: "clock \<Rightarrow> ras_cxl_aer_ue_event stmt list" where
  "cxl_aer_ue_stmts ck =
     [Also (cu_timestamp_update (\<lambda>_. get_timestamp ck)) (\<lambda>ev. cu_timestamp ev @ '' ''),
      Text ''memdev'' (\<lambda>t. cu_memdev_update (\<lambda>_. t)) (\<lambda>ev. ''memdev:'' @ cu_memdev ev @ '' ''),
      Text ''host'' (\<lambda>t. cu_host_update (\<lambda>_. t)) (\<lambda>ev. ''host:'' @ cu_host ev @ '' ''),
      Number ''serial'' (\<lambda>v. cu_serial_update (\<lambda>_. v)) (\<lambda>ev. ''serial:0x'' @ fmt_x (cu_serial ev) @ '' ''),
      Number ''status'' (\<lambda>v. cu_error_status_update (\<lambda>_. ucast v))
        (\<lambda>ev. ''error status:'' @ decode_cxl_error_status (cu_error_status ev) cxl_aer_ue),
      Number ''first_error'' (\<lambda>v. cu_first_error_update (\<lambda>_. ucast v))
        (\<lambda>ev. ''first error:'' @ decode_cxl_error_status (cu_first_error ev) cxl_aer_ue),
      Bytes ''header_log'' CXL_HEADERLOG_SIZE
        (\<lambda>bs. cu_header_log_update (\<lambda>_. le_words (CXL_HEADERLOG_SIZE div 4) bs))
        (\<lambda>ev. ''header log:'' @ [CHR 0x0A] @ header_log_text (cu_header_log ev)),
      Also (cu_header_log_update (map htobe32)) (\<lambda>_. [])]"

definition ras_cxl_aer_ue_event_handler :: "clock \<Rightarrow> trace_event \<Rightarrow> ras_cxl_aer_ue_event handled" where
  "ras_cxl_aer_ue_event_handler ck e = runs e (cxl_aer_ue_stmts ck) (leveled LOGLEVEL_CRIT) cxl_aer_ue_event0"

definition cxl_aer_ce_event0 :: ras_cxl_aer_ce_event where
  "cxl_aer_ce_event0 = \<lparr>cc_timestamp = [], cc_memdev = [], cc_host = [], cc_serial = 0, cc_error_status = 0\<rparr>"

definition cxl_aer_ce_stmts :: "clock \<Rightarrow> ras_cxl_aer_ce_event stmt list" where
  "cxl_aer_ce_stmts ck =
     [Also (cc_timestamp_update (\<lambda>_. get_timestamp ck)) (\<lambda>ev. cc_timestamp ev @ '' ''),
      Text ''memdev'' (\<lambda>t. cc_memdev_update (\<lambda>_. t)) (\<lambda>ev. ''memdev:'' @ cc_memdev ev @ '' ''),
      Text ''host'' (\<lambda>t. cc_host_update (\<lambda>_. t)) (\<lambda>ev. ''host:'' @ cc_host ev @ '' ''),
      Number ''serial'' (\<lambda>v. cc_serial_update (\<lambda>_. v)) (\<lambda>ev. ''serial:0x'' @ fmt_x (cc_serial ev) @ '' ''),
      Number ''status'' (\<lambda>v. cc_error_status_update (\<lambda>_. ucast v))
        (\<lambda>ev. ''error status:'' @ decode_cxl_error_status (cc_error_status ev) cxl_aer_ce)]"

definition ras_cxl_aer_ce_event_handler :: "clock \<Rightarrow> trace_event \<Rightarrow> ras_cxl_aer_ce_event handled" where
  "ras_cxl_aer_ce_event_handler ck e = runs e (cxl_aer_ce_stmts ck) (leveled LOGLEVEL_ERR) cxl_aer_ce_event0"

section \<open>Overflow of a log\<close>

definition cxl_overflow_event0 :: ras_cxl_overflow_event where
  "cxl_overflow_event0 =
     \<lparr>co_timestamp = [], co_memdev = [], co_host = [], co_serial = 0, co_log_type = [], co_first_ts = [],
      co_last_ts = [], co_count = 0\<rparr>"

definition cxl_overflow_stmts :: "clock \<Rightarrow> ras_cxl_overflow_event stmt list" where
  "cxl_overflow_stmts ck =
     [Also (co_timestamp_update (\<lambda>_. get_timestamp ck)) (\<lambda>ev. co_timestamp ev @ '' ''),
      Text ''memdev'' (\<lambda>t. co_memdev_update (\<lambda>_. t)) (\<lambda>ev. ''memdev:'' @ co_memdev ev @ '' ''),
      Text ''host'' (\<lambda>t. co_host_update (\<lambda>_. t)) (\<lambda>ev. ''host:'' @ co_host ev @ '' ''),
      Number ''serial'' (\<lambda>v. co_serial_update (\<lambda>_. v)) (\<lambda>ev. ''serial:0x'' @ fmt_x (co_serial ev) @ '' ''),
      Number ''log'' (\<lambda>v. co_log_type_update (\<lambda>_. cxl_event_log_type_str (ucast v)))
        (\<lambda>ev. ''log type:'' @ co_log_type ev @ '' ''),
      Number ''count'' (\<lambda>v. co_count_update (\<lambda>_. ucast v)) (\<lambda>_. []),
      Number ''first_ts'' (\<lambda>v. co_first_ts_update (\<lambda>_. convert_timestamp ck v)) (\<lambda>_. []),
      Number ''last_ts'' (\<lambda>v. co_last_ts_update (\<lambda>_. convert_timestamp ck v))
        (\<lambda>ev. if co_count ev \<noteq> 0
              then fmt_u (co_count ev) @ '' errors from '' @ co_first_ts ev @ '' to '' @ co_last_ts ev @ [CHR 0x0A]
              else [])]"

definition ras_cxl_overflow_event_handler :: "clock \<Rightarrow> trace_event \<Rightarrow> ras_cxl_overflow_event handled" where
  "ras_cxl_overflow_event_handler ck e = runs e (cxl_overflow_stmts ck) (leveled LOGLEVEL_ERR) cxl_overflow_event0"

section \<open>The common header\<close>

definition cxl_common_hdr0 :: ras_cxl_event_common_hdr where
  "cxl_common_hdr0 =
     \<lparr>h_timestamp = [], h_memdev = [], h_host = [], h_serial = 0, h_log_type = [], h_hdr_uuid = Null,
      h_hdr_flags = 0, h_hdr_handle = 0, h_hdr_related_handle = 0, h_hdr_timestamp = [], h_hdr_length = 0,
      h_hdr_maint_op_class = 0, h_hdr_maint_op_sub_class = 0, h_hdr_ld_id = 0, h_hdr_head_id = 0,
      h_uuid_buffer = []\<rparr>"

definition uuid_be :: "u8 list \<Rightarrow> ras_cxl_event_common_hdr \<Rightarrow> ras_cxl_event_common_hdr" where
  "uuid_be uu h = h\<lparr>h_uuid_buffer := uuid_be_text uu\<rparr>"

definition cxl_common_hdr_stmts :: "clock \<Rightarrow> ras_cxl_event_common_hdr stmt list" where
  "cxl_common_hdr_stmts ck =
     [Also (h_timestamp_update (\<lambda>_. get_timestamp ck)) (\<lambda>h. h_timestamp h @ '' ''),
      Text ''memdev'' (\<lambda>t. h_memdev_update (\<lambda>_. t)) (\<lambda>h. ''memdev:'' @ h_memdev h @ '' ''),
      Text ''host'' (\<lambda>t. h_host_update (\<lambda>_. t)) (\<lambda>h. ''host:'' @ h_host h @ '' ''),
      Number ''serial'' (\<lambda>v. h_serial_update (\<lambda>_. v)) (\<lambda>h. ''serial:0x'' @ fmt_x (h_serial h) @ '' ''),
      Number ''log'' (\<lambda>v. h_log_type_update (\<lambda>_. cxl_event_log_type_str (ucast v)))
        (\<lambda>h. ''log type:'' @ h_log_type h @ '' ''),
      Bytes ''hdr_uuid'' 16 (\<lambda>uu h. (uuid_be uu h)\<lparr>h_hdr_uuid := Uuid_buffer\<rparr>)
        (\<lambda>h. ''hdr_uuid:'' @ h_uuid_buffer h @ '' ''),
      Number ''hdr_flags'' (\<lambda>v. h_hdr_flags_update (\<lambda>_. ucast v))
        (\<lambda>h. decode_cxl_event_flags (h_hdr_flags h) cxl_hdr_flags),
      Number ''hdr_handle'' (\<lambda>v. h_hdr_handle_update (\<lambda>_. ucast v))
        (\<lambda>h. ''hdr_handle:0x'' @ fmt_x (h_hdr_handle h) @ '' ''),
      Number ''hdr_related_handle'' (\<lambda>v. h_hdr_related_handle_update (\<lambda>_. ucast v))
        (\<lambda>h. ''hdr_related_handle:0x'' @ fmt_x (h_hdr_related_handle h) @ '' ''),
      Number ''hdr_timestamp'' (\<lambda>v. h_hdr_timestamp_update (\<lambda>_. convert_timestamp ck v))
        (\<lambda>h. ''hdr_timestamp:'' @ h_hdr_timestamp h @ '' ''),
      Number ''hdr_length'' (\<lambda>v. h_hdr_length_update (\<lambda>_. ucast v))
        (\<lambda>h. ''hdr_length:'' @ fmt_u (h_hdr_length h) @ '' ''),
      Number ''hdr_maint_op_class'' (\<lambda>v. h_hdr_maint_op_class_update (\<lambda>_. ucast v))
        (\<lambda>h. ''hdr_maint_op_class:'' @ fmt_u (h_hdr_maint_op_class h) @ '' ''),
      When (\<lambda>h. bit (h_hdr_flags h) 6)
        [Number ''hdr_maint_op_sub_class'' (\<lambda>v. h_hdr_maint_op_sub_class_update (\<lambda>_. ucast v))
           (\<lambda>h. ''hdr_maint_op_sub_class:'' @ fmt_u (h_hdr_maint_op_sub_class h) @ '' '')],
      When (\<lambda>h. bit (h_hdr_flags h) 7)
        [Number ''hdr_ld_id'' (\<lambda>v. h_hdr_ld_id_update (\<lambda>_. ucast v))
           (\<lambda>h. ''hdr_ld_id:0x'' @ fmt_x (h_hdr_ld_id h) @ '' '')],
      When (\<lambda>h. bit (h_hdr_flags h) 8)
        [Number ''hdr_head_id'' (\<lambda>v. h_hdr_head_id_update (\<lambda>_. ucast v))
           (\<lambda>h. ''hdr_head_id:0x'' @ fmt_x (h_hdr_head_id h) @ '' '')]]"

definition handle_ras_cxl_common_hdr :: "clock \<Rightarrow> trace_event \<Rightarrow> string \<Rightarrow> ras_cxl_event_common_hdr handled" where
  "handle_ras_cxl_common_hdr ck e out = runs e (cxl_common_hdr_stmts ck) out cxl_common_hdr0"

section \<open>Generic events\<close>

definition data_text :: "u8 list \<Rightarrow> string" where
  "data_text bs =
     concat (map (\<lambda>k. (if 0 < k \<and> 4 * k mod 16 = 0 then [CHR 0x0A] @ dump_offset (4 * k) else []) @
         hex2 (bs ! (4 * k)) @ hex2 (bs ! (4 * k + 1)) @ hex2 (bs ! (4 * k + 2)) @ hex2 (bs ! (4 * k + 3)) @ '' '')
       [0..<CXL_EVENT_RECORD_DATA_LENGTH div 4])"

definition cxl_generic_stmts :: "ras_cxl_generic_event stmt list" where
  "cxl_generic_stmts =
     [Bytes ''data'' CXL_EVENT_RECORD_DATA_LENGTH (\<lambda>bs. cg_data_update (\<lambda>_. Some bs))
        (\<lambda>ev. [CHR 0x0A] @ ''data:'' @ [CHR 0x0A] @ dump_offset 0 @ data_text (the (cg_data ev)))]"

definition ras_cxl_generic_event_handler :: "clock \<Rightarrow> trace_event \<Rightarrow> ras_cxl_generic_event handled" where
  "ras_cxl_generic_event_handler ck e =
     and_then (handle_ras_cxl_common_hdr ck e (leveled LOGLEVEL_ERR))
       (\<lambda>out h. runs e cxl_generic_stmts out \<lparr>cg_hdr = h, cg_data = None\<rparr>)"

section \<open>The identifier of a component\<close>

definition ras_cxl_print_component_id ::
  "('e \<Rightarrow> u8 list) \<Rightarrow> (u8 list \<Rightarrow> 'e \<Rightarrow> 'e) \<Rightarrow> (u8 list \<Rightarrow> 'e \<Rightarrow> 'e) \<Rightarrow> 'e stmt list" where
  "ras_cxl_print_component_id comp_id set_entity_id set_res_id =
     [When (\<lambda>ev. bit (comp_id ev ! 0) 0)
        [Also (\<lambda>ev. set_entity_id (take CXL_PLDM_ENTITY_ID_LEN (drop 1 (comp_id ev))) ev)
           (\<lambda>ev. ''PLDM Entity ID:'' @ hex_bytes (take 6 (drop 1 (comp_id ev))))],
      When (\<lambda>ev. bit (comp_id ev ! 0) 1)
        [Also (\<lambda>ev. set_res_id (take CXL_PLDM_RES_ID_LEN (drop 7 (comp_id ev))) ev)
           (\<lambda>ev. ''Resource ID:'' @ hex_bytes (take 4 (drop 7 (comp_id ev))))]]"

text \<open>The block that the handlers have in common, with the two bits that say what is valid.\<close>

definition cxl_component_id ::
  "('e \<Rightarrow> bool) \<Rightarrow> ('e \<Rightarrow> bool) \<Rightarrow> ('e \<Rightarrow> u8 list option) \<Rightarrow> (u8 list \<Rightarrow> 'e \<Rightarrow> 'e) \<Rightarrow>
   (u8 list \<Rightarrow> 'e \<Rightarrow> 'e) \<Rightarrow> (u8 list \<Rightarrow> 'e \<Rightarrow> 'e) \<Rightarrow> 'e stmt" where
  "cxl_component_id valid valid_format comp_id set_comp_id set_entity_id set_res_id =
     When valid
       [Bytes ''comp_id'' CXL_EVENT_GEN_MED_COMP_ID_SIZE set_comp_id
          (\<lambda>ev. ''comp_id:'' @ hex_bytes (take CXL_EVENT_GEN_MED_COMP_ID_SIZE (the (comp_id ev)))),
        When valid_format
          (Also id (\<lambda>ev. ''comp_id_pldm_valid_flags:'' @
             decode_cxl_event_flags (ucast (the (comp_id ev) ! 0)) cxl_pldm_comp_id_flags) #
           ras_cxl_print_component_id (the \<circ> comp_id) set_entity_id set_res_id)]"

section \<open>General media events\<close>

definition cxl_general_media_event0 :: "ras_cxl_event_common_hdr \<Rightarrow> ras_cxl_general_media_event" where
  "cxl_general_media_event0 h =
     \<lparr>gm_hdr = h, gm_dpa = 0, gm_dpa_flags = 0, gm_descriptor = 0, gm_type = 0, gm_sub_type = 0,
      gm_transaction_type = 0, gm_channel = 0, gm_rank = 0, gm_device = 0, gm_comp_id = None,
      gm_entity_id = replicate 6 0, gm_res_id = replicate 4 0, gm_validity_flags = 0, gm_hpa = 0,
      gm_hpa_alias0 = 0, gm_region = [], gm_region_uuid = Null, gm_cme_threshold_ev_flags = 0,
      gm_cme_count = 0\<rparr>"

definition cxl_general_media_stmts :: "ras_cxl_general_media_event stmt list" where
  "cxl_general_media_stmts =
     [Number ''dpa'' (\<lambda>v. gm_dpa_update (\<lambda>_. v)) (\<lambda>ev. ''dpa:0x'' @ fmt_x (gm_dpa ev) @ '' ''),
      Number ''dpa_flags'' (\<lambda>v. gm_dpa_flags_update (\<lambda>_. ucast v))
        (\<lambda>ev. ''dpa_flags:'' @ decode_cxl_event_flags (ucast (gm_dpa_flags ev)) cxl_dpa_flags),
      Number ''descriptor'' (\<lambda>v. gm_descriptor_update (\<lambda>_. ucast v))
        (\<lambda>ev. ''descriptor:'' @ decode_cxl_event_flags (ucast (gm_descriptor ev)) cxl_gmer_event_desc_flags),
      Number ''type'' (\<lambda>v. gm_type_update (\<lambda>_. ucast v))
        (\<lambda>ev. ''memory_event_type:'' @ get_cxl_type_str cxl_gmer_mem_event_type (gm_type ev) @ '' ''),
      Number ''sub_type'' (\<lambda>v. gm_sub_type_update (\<lambda>_. ucast v))
        (\<lambda>ev. ''memory_event_sub_type:'' @ get_cxl_type_str cxl_mem_event_sub_type (gm_sub_type ev) @ '' ''),
      Number ''transaction_type'' (\<lambda>v. gm_transaction_type_update (\<lambda>_. ucast v))
        (\<lambda>ev. ''transaction_type:'' @ get_cxl_type_str cxl_gmer_trans_type (gm_transaction_type ev) @ '' ''),
      Number ''hpa'' (\<lambda>v. gm_hpa_update (\<lambda>_. v)) (\<lambda>ev. ''hpa:0x'' @ fmt_x (gm_hpa ev) @ '' ''),
      Number ''hpa_alias0'' (\<lambda>v. gm_hpa_alias0_update (\<lambda>_. v)) (\<lambda>ev. ''hpa_alias0:0x'' @ fmt_x (gm_hpa_alias0 ev) @ '' ''),
      Text ''region_name'' (\<lambda>t. gm_region_update (\<lambda>_. t)) (\<lambda>ev. ''region:'' @ gm_region ev @ '' ''),
      Bytes ''region_uuid'' 16 (\<lambda>uu ev. ev\<lparr>gm_hdr := uuid_be uu (gm_hdr ev), gm_region_uuid := Uuid_buffer\<rparr>)
        (\<lambda>ev. ''region_uuid:'' @ h_uuid_buffer (gm_hdr ev) @ '' ''),
      Number ''validity_flags'' (\<lambda>v. gm_validity_flags_update (\<lambda>_. ucast v)) (\<lambda>_. []),
      When (\<lambda>ev. bit (gm_validity_flags ev) 0)
        [Number ''channel'' (\<lambda>v. gm_channel_update (\<lambda>_. ucast v)) (\<lambda>ev. ''channel:'' @ fmt_u (gm_channel ev) @ '' '')],
      When (\<lambda>ev. bit (gm_validity_flags ev) 1)
        [Number ''rank'' (\<lambda>v. gm_rank_update (\<lambda>_. ucast v)) (\<lambda>ev. ''rank:'' @ fmt_u (gm_rank ev) @ '' '')],
      When (\<lambda>ev. bit (gm_validity_flags ev) 2)
        [Number ''device'' (\<lambda>v. gm_device_update (\<lambda>_. ucast v)) (\<lambda>ev. ''device:'' @ fmt_x (gm_device ev) @ '' '')],
      cxl_component_id (\<lambda>ev. bit (gm_validity_flags ev) 3) (\<lambda>ev. bit (gm_validity_flags ev) 4) gm_comp_id
        (\<lambda>bs. gm_comp_id_update (\<lambda>_. Some bs)) (\<lambda>bs. gm_entity_id_update (\<lambda>_. bs)) (\<lambda>bs. gm_res_id_update (\<lambda>_. bs)),
      When (\<lambda>ev. bit (gm_descriptor ev) 1)
        [Number ''cme_threshold_ev_flags'' (\<lambda>v. gm_cme_threshold_ev_flags_update (\<lambda>_. ucast v))
           (\<lambda>ev. ''Advanced Programmable CME threshold Event Flags:'' @
              decode_cxl_event_flags (ucast (gm_cme_threshold_ev_flags ev)) cxl_cme_threshold_ev_flags),
         Number ''cme_count'' (\<lambda>v. gm_cme_count_update (\<lambda>_. ucast v))
           (\<lambda>ev. ''Corrected Memory Error Count:'' @ fmt_u (gm_cme_count ev) @ '' '')]]"

definition ras_cxl_general_media_event_handler :: "clock \<Rightarrow> trace_event \<Rightarrow> ras_cxl_general_media_event handled" where
  "ras_cxl_general_media_event_handler ck e =
     and_then (handle_ras_cxl_common_hdr ck e (leveled LOGLEVEL_ERR))
       (\<lambda>out h. runs e cxl_general_media_stmts out (cxl_general_media_event0 h))"

section \<open>DRAM events\<close>

definition cxl_dram_event0 :: "ras_cxl_event_common_hdr \<Rightarrow> ras_cxl_dram_event" where
  "cxl_dram_event0 h =
     \<lparr>dr_hdr = h, dr_dpa = 0, dr_dpa_flags = 0, dr_descriptor = 0, dr_type = 0, dr_sub_type = 0,
      dr_transaction_type = 0, dr_channel = 0, dr_sub_channel = 0, dr_rank = 0, dr_nibble_mask = 0,
      dr_bank_group = 0, dr_bank = 0, dr_row = 0, dr_column = 0, dr_cor_mask = None,
      dr_validity_flags = 0, dr_hpa = 0, dr_hpa_alias0 = 0, dr_region = [], dr_region_uuid = Null,
      dr_comp_id = None, dr_entity_id = replicate 6 0, dr_res_id = replicate 4 0,
      dr_cme_threshold_ev_flags = 0, dr_cvme_count = 0\<rparr>"

text \<open>What comes before the page is taken offline, and what comes after.\<close>

definition cxl_dram_stmts :: "ras_cxl_dram_event stmt list" where
  "cxl_dram_stmts =
     [Number ''dpa'' (\<lambda>v. dr_dpa_update (\<lambda>_. v)) (\<lambda>ev. ''dpa:0x'' @ fmt_x (dr_dpa ev) @ '' ''),
      Number ''dpa_flags'' (\<lambda>v. dr_dpa_flags_update (\<lambda>_. ucast v))
        (\<lambda>ev. ''dpa_flags:'' @ decode_cxl_event_flags (ucast (dr_dpa_flags ev)) cxl_dpa_flags),
      Number ''descriptor'' (\<lambda>v. dr_descriptor_update (\<lambda>_. ucast v))
        (\<lambda>ev. ''descriptor:'' @ decode_cxl_event_flags (ucast (dr_descriptor ev)) cxl_gmer_event_desc_flags),
      Number ''type'' (\<lambda>v. dr_type_update (\<lambda>_. ucast v))
        (\<lambda>ev. ''memory_event_type:'' @ get_cxl_type_str cxl_der_mem_event_type (dr_type ev) @ '' ''),
      Number ''sub_type'' (\<lambda>v. dr_sub_type_update (\<lambda>_. ucast v))
        (\<lambda>ev. ''memory_event_sub_type:'' @ get_cxl_type_str cxl_mem_event_sub_type (dr_sub_type ev) @ '' ''),
      Number ''transaction_type'' (\<lambda>v. dr_transaction_type_update (\<lambda>_. ucast v))
        (\<lambda>ev. ''transaction_type:'' @ get_cxl_type_str cxl_gmer_trans_type (dr_transaction_type ev) @ '' ''),
      Number ''hpa'' (\<lambda>v. dr_hpa_update (\<lambda>_. v)) (\<lambda>ev. ''hpa:0x'' @ fmt_x (dr_hpa ev) @ '' ''),
      Number ''hpa_alias0'' (\<lambda>v. dr_hpa_alias0_update (\<lambda>_. v)) (\<lambda>ev. ''hpa_alias0:0x'' @ fmt_x (dr_hpa_alias0 ev) @ '' ''),
      Text ''region_name'' (\<lambda>t. dr_region_update (\<lambda>_. t)) (\<lambda>ev. ''region:'' @ dr_region ev @ '' ''),
      Bytes ''region_uuid'' 16 (\<lambda>uu ev. ev\<lparr>dr_hdr := uuid_be uu (dr_hdr ev), dr_region_uuid := Uuid_buffer\<rparr>)
        (\<lambda>ev. ''region_uuid:'' @ h_uuid_buffer (dr_hdr ev) @ '' ''),
      Number ''validity_flags'' (\<lambda>v. dr_validity_flags_update (\<lambda>_. ucast v)) (\<lambda>_. []),
      When (\<lambda>ev. bit (dr_validity_flags ev) 0)
        [Number ''channel'' (\<lambda>v. dr_channel_update (\<lambda>_. ucast v)) (\<lambda>ev. ''channel:'' @ fmt_u (dr_channel ev) @ '' '')],
      When (\<lambda>ev. bit (dr_validity_flags ev) 10)
        [Number ''sub_channel'' (\<lambda>v. dr_sub_channel_update (\<lambda>_. ucast v)) (\<lambda>ev. ''sub_channel:'' @ fmt_u (dr_sub_channel ev) @ '' '')],
      When (\<lambda>ev. bit (dr_validity_flags ev) 1)
        [Number ''rank'' (\<lambda>v. dr_rank_update (\<lambda>_. ucast v)) (\<lambda>ev. ''rank:'' @ fmt_u (dr_rank ev) @ '' '')],
      When (\<lambda>ev. bit (dr_validity_flags ev) 2)
        [Number ''nibble_mask'' (\<lambda>v. dr_nibble_mask_update (\<lambda>_. ucast v)) (\<lambda>ev. ''nibble_mask:'' @ fmt_u (dr_nibble_mask ev) @ '' '')],
      When (\<lambda>ev. bit (dr_validity_flags ev) 3)
        [Number ''bank_group'' (\<lambda>v. dr_bank_group_update (\<lambda>_. ucast v)) (\<lambda>ev. ''bank_group:'' @ fmt_u (dr_bank_group ev) @ '' '')],
      When (\<lambda>ev. bit (dr_validity_flags ev) 4)
        [Number ''bank'' (\<lambda>v. dr_bank_update (\<lambda>_. ucast v)) (\<lambda>ev. ''bank:'' @ fmt_u (dr_bank ev) @ '' '')],
      When (\<lambda>ev. bit (dr_validity_flags ev) 5)
        [Number ''row'' (\<lambda>v. dr_row_update (\<lambda>_. ucast v)) (\<lambda>ev. ''row:'' @ fmt_u (dr_row ev) @ '' '')],
      When (\<lambda>ev. bit (dr_validity_flags ev) 6)
        [Number ''column'' (\<lambda>v. dr_column_update (\<lambda>_. ucast v)) (\<lambda>ev. ''column:'' @ fmt_u (dr_column ev) @ '' '')],
      When (\<lambda>ev. bit (dr_validity_flags ev) 7)
        [Bytes ''cor_mask'' CXL_EVENT_DER_CORRECTION_MASK_SIZE (\<lambda>bs. dr_cor_mask_update (\<lambda>_. Some bs))
           (\<lambda>ev. ''correction_mask:'' @
              hex_bytes (take CXL_EVENT_DER_CORRECTION_MASK_SIZE (the (dr_cor_mask ev))))]]"

definition cxl_dram_rest :: "ras_cxl_dram_event stmt list" where
  "cxl_dram_rest =
     [cxl_component_id (\<lambda>ev. bit (dr_validity_flags ev) 8) (\<lambda>ev. bit (dr_validity_flags ev) 9) dr_comp_id
        (\<lambda>bs. dr_comp_id_update (\<lambda>_. Some bs)) (\<lambda>bs. dr_entity_id_update (\<lambda>_. bs)) (\<lambda>bs. dr_res_id_update (\<lambda>_. bs)),
      When (\<lambda>ev. bit (dr_descriptor ev) 1)
        [Number ''cme_threshold_ev_flags'' (\<lambda>v. dr_cme_threshold_ev_flags_update (\<lambda>_. ucast v))
           (\<lambda>ev. ''Advanced Programmable CME threshold Event Flags:'' @
              decode_cxl_event_flags (ucast (dr_cme_threshold_ev_flags ev)) cxl_cme_threshold_ev_flags),
         Number ''cvme_count'' (\<lambda>v. dr_cvme_count_update (\<lambda>_. ucast v))
           (\<lambda>ev. ''CVME Count:'' @ fmt_u (dr_cvme_count ev) @ '' '')]]"

text \<open>
  The handler with its effect on the pages: a threshold event that is not uncorrectable takes the page of
  its host address offline when the program is built with page isolation.
\<close>

definition cxl_dram_offline ::
  "bool \<Rightarrow> page_env \<Rightarrow> time_t \<Rightarrow> ras_cxl_dram_event \<Rightarrow> page_sys \<Rightarrow> page_sys option" where
  "cxl_dram_offline have_pfa env now ev s =
     (if have_pfa \<and> \<not> bit (dr_descriptor ev) 0 \<and> bit (dr_descriptor ev) 1
      then ras_hw_threshold_pageoffline env (dr_hpa ev) now s
      else Some s)"

definition ras_cxl_dram_event_handler ::
  "bool \<Rightarrow> page_env \<Rightarrow> time_t \<Rightarrow> clock \<Rightarrow> trace_event \<Rightarrow> page_sys \<Rightarrow>
   ((string \<times> ras_cxl_dram_event option) \<times> page_sys) option" where
  "ras_cxl_dram_event_handler have_pfa env now ck e s =
     (case and_then (handle_ras_cxl_common_hdr ck e (leveled LOGLEVEL_ERR))
             (\<lambda>out h. runs e cxl_dram_stmts out (cxl_dram_event0 h)) of
        None \<Rightarrow> None
      | Some (out, None) \<Rightarrow> Some ((out, None), s)
      | Some (out, Some ev) \<Rightarrow> do {
          s \<leftarrow> cxl_dram_offline have_pfa env now ev s;
          r \<leftarrow> runs e cxl_dram_rest out ev;
          Some (r, s)
        })"

section \<open>Memory module events\<close>

definition cxl_memory_module_event0 :: "ras_cxl_event_common_hdr \<Rightarrow> ras_cxl_memory_module_event" where
  "cxl_memory_module_event0 h =
     \<lparr>mm_hdr = h, mm_event_type = 0, mm_event_sub_type = 0, mm_health_status = 0,
      mm_media_status = 0, mm_life_used = 0, mm_dirty_shutdown_cnt = 0, mm_cor_vol_err_cnt = 0,
      mm_cor_per_err_cnt = 0, mm_device_temp = 0, mm_add_status = 0, mm_validity_flags = 0,
      mm_comp_id = None, mm_entity_id = replicate 6 0, mm_res_id = replicate 4 0\<rparr>"

text \<open>The temperature is signed and is printed as an unsigned number. No level is printed.\<close>

definition cxl_memory_module_stmts :: "ras_cxl_memory_module_event stmt list" where
  "cxl_memory_module_stmts =
     [Number ''event_type'' (\<lambda>v. mm_event_type_update (\<lambda>_. ucast v))
        (\<lambda>ev. ''event_type:'' @ get_cxl_type_str cxl_dev_evt_type (mm_event_type ev) @ '' ''),
      Number ''event_sub_type'' (\<lambda>v. mm_event_sub_type_update (\<lambda>_. ucast v))
        (\<lambda>ev. ''event_sub_type:'' @ get_cxl_type_str cxl_dev_evt_sub_type (mm_event_sub_type ev) @ '' ''),
      Number ''health_status'' (\<lambda>v. mm_health_status_update (\<lambda>_. ucast v))
        (\<lambda>ev. ''health_status:'' @ decode_cxl_event_flags (ucast (mm_health_status ev)) cxl_health_status),
      Number ''media_status'' (\<lambda>v. mm_media_status_update (\<lambda>_. ucast v))
        (\<lambda>ev. ''media_status:'' @ get_cxl_type_str cxl_media_status (mm_media_status ev) @ '' ''),
      Number ''add_status'' (\<lambda>v. mm_add_status_update (\<lambda>_. ucast v))
        (\<lambda>ev. ''as_life_used:'' @ get_cxl_type_str cxl_two_bit_status (CXL_DHI_AS_LIFE_USED (mm_add_status ev)) @
           '' as_dev_temp:'' @ get_cxl_type_str cxl_two_bit_status (CXL_DHI_AS_DEV_TEMP (mm_add_status ev)) @
           '' as_cor_vol_err_cnt:'' @ get_cxl_type_str cxl_one_bit_status (CXL_DHI_AS_COR_VOL_ERR_CNT (mm_add_status ev)) @
           '' as_cor_per_err_cnt:'' @ get_cxl_type_str cxl_one_bit_status (CXL_DHI_AS_COR_PER_ERR_CNT (mm_add_status ev)) @ '' ''),
      Number ''life_used'' (\<lambda>v. mm_life_used_update (\<lambda>_. ucast v))
        (\<lambda>ev. ''life_used:'' @ fmt_u (mm_life_used ev) @ '' ''),
      Number ''device_temp'' (\<lambda>v. mm_device_temp_update (\<lambda>_. ucast v))
        (\<lambda>ev. ''device_temp:'' @ fmt_u (scast (mm_device_temp ev) :: u32) @ '' ''),
      Number ''dirty_shutdown_cnt'' (\<lambda>v. mm_dirty_shutdown_cnt_update (\<lambda>_. ucast v))
        (\<lambda>ev. ''dirty_shutdown_cnt:'' @ fmt_u (mm_dirty_shutdown_cnt ev) @ '' ''),
      Number ''cor_vol_err_cnt'' (\<lambda>v. mm_cor_vol_err_cnt_update (\<lambda>_. ucast v))
        (\<lambda>ev. ''cor_vol_err_cnt:'' @ fmt_u (mm_cor_vol_err_cnt ev) @ '' ''),
      Number ''cor_per_err_cnt'' (\<lambda>v. mm_cor_per_err_cnt_update (\<lambda>_. ucast v))
        (\<lambda>ev. ''cor_per_err_cnt:'' @ fmt_u (mm_cor_per_err_cnt ev) @ '' ''),
      Number ''validity_flags'' (\<lambda>v. mm_validity_flags_update (\<lambda>_. ucast v)) (\<lambda>_. []),
      cxl_component_id (\<lambda>ev. bit (mm_validity_flags ev) 0) (\<lambda>ev. bit (mm_validity_flags ev) 1) mm_comp_id
        (\<lambda>bs. mm_comp_id_update (\<lambda>_. Some bs)) (\<lambda>bs. mm_entity_id_update (\<lambda>_. bs)) (\<lambda>bs. mm_res_id_update (\<lambda>_. bs))]"

definition ras_cxl_memory_module_event_handler :: "clock \<Rightarrow> trace_event \<Rightarrow> ras_cxl_memory_module_event handled" where
  "ras_cxl_memory_module_event_handler ck e =
     and_then (handle_ras_cxl_common_hdr ck e [])
       (\<lambda>out h. runs e cxl_memory_module_stmts out (cxl_memory_module_event0 h))"

section \<open>Memory sparing events\<close>

text \<open>These are printed only; there is no table and no report for them.\<close>

definition cxl_memory_sparing_event0 :: "ras_cxl_event_common_hdr \<Rightarrow> ras_cxl_memory_sparing_event" where
  "cxl_memory_sparing_event0 h =
     \<lparr>ms_hdr = h, ms_flags = 0, ms_result = 0, ms_validity_flags = 0, ms_res_avail = 0,
      ms_channel = 0, ms_rank = 0, ms_nibble_mask = 0, ms_bank_group = 0, ms_bank = 0, ms_row = 0,
      ms_column = 0, ms_sub_channel = 0, ms_comp_id = None, ms_entity_id = replicate 6 0,
      ms_res_id = replicate 4 0\<rparr>"

definition cxl_memory_sparing_stmts :: "ras_cxl_memory_sparing_event stmt list" where
  "cxl_memory_sparing_stmts =
     [Number ''flags'' (\<lambda>v. ms_flags_update (\<lambda>_. ucast v))
        (\<lambda>ev. ''flags:0x'' @ fmt_x (ms_flags ev) @ '' '' @ decode_cxl_event_flags (ucast (ms_flags ev)) cxl_mser_flags),
      Number ''result'' (\<lambda>v. ms_result_update (\<lambda>_. ucast v))
        (\<lambda>ev. ''result:0x'' @ fmt_x (ms_result ev) @ '' ''),
      Number ''validity_flags'' (\<lambda>v. ms_validity_flags_update (\<lambda>_. ucast v)) (\<lambda>_. []),
      Number ''res_avail'' (\<lambda>v. ms_res_avail_update (\<lambda>_. ucast v))
        (\<lambda>ev. ''spare resources available:'' @ fmt_u (ms_res_avail ev) @ '' ''),
      When (\<lambda>ev. bit (ms_validity_flags ev) 0)
        [Number ''channel'' (\<lambda>v. ms_channel_update (\<lambda>_. ucast v)) (\<lambda>ev. ''channel:'' @ fmt_u (ms_channel ev) @ '' '')],
      When (\<lambda>ev. bit (ms_validity_flags ev) 9)
        [Number ''sub_channel'' (\<lambda>v. ms_sub_channel_update (\<lambda>_. ucast v)) (\<lambda>ev. ''sub_channel:'' @ fmt_u (ms_sub_channel ev) @ '' '')],
      When (\<lambda>ev. bit (ms_validity_flags ev) 1)
        [Number ''rank'' (\<lambda>v. ms_rank_update (\<lambda>_. ucast v)) (\<lambda>ev. ''rank:'' @ fmt_u (ms_rank ev) @ '' '')],
      When (\<lambda>ev. bit (ms_validity_flags ev) 2)
        [Number ''nibble_mask'' (\<lambda>v. ms_nibble_mask_update (\<lambda>_. ucast v)) (\<lambda>ev. ''nibble_mask:'' @ fmt_u (ms_nibble_mask ev) @ '' '')],
      When (\<lambda>ev. bit (ms_validity_flags ev) 3)
        [Number ''bank_group'' (\<lambda>v. ms_bank_group_update (\<lambda>_. ucast v)) (\<lambda>ev. ''bank_group:'' @ fmt_u (ms_bank_group ev) @ '' '')],
      When (\<lambda>ev. bit (ms_validity_flags ev) 4)
        [Number ''bank'' (\<lambda>v. ms_bank_update (\<lambda>_. ucast v)) (\<lambda>ev. ''bank:'' @ fmt_u (ms_bank ev) @ '' '')],
      When (\<lambda>ev. bit (ms_validity_flags ev) 5)
        [Number ''row'' (\<lambda>v. ms_row_update (\<lambda>_. ucast v)) (\<lambda>ev. ''row:'' @ fmt_u (ms_row ev) @ '' '')],
      When (\<lambda>ev. bit (ms_validity_flags ev) 6)
        [Number ''column'' (\<lambda>v. ms_column_update (\<lambda>_. ucast v)) (\<lambda>ev. ''column:'' @ fmt_u (ms_column ev) @ '' '')],
      cxl_component_id (\<lambda>ev. bit (ms_validity_flags ev) 7) (\<lambda>ev. bit (ms_validity_flags ev) 8) ms_comp_id
        (\<lambda>bs. ms_comp_id_update (\<lambda>_. Some bs)) (\<lambda>bs. ms_entity_id_update (\<lambda>_. bs)) (\<lambda>bs. ms_res_id_update (\<lambda>_. bs))]"

definition ras_cxl_memory_sparing_event_handler :: "clock \<Rightarrow> trace_event \<Rightarrow> ras_cxl_memory_sparing_event handled" where
  "ras_cxl_memory_sparing_event_handler ck e =
     and_then (handle_ras_cxl_common_hdr ck e [])
       (\<lambda>out h. runs e cxl_memory_sparing_stmts out (cxl_memory_sparing_event0 h))"

end
