(* ===== verification/Cxl_Facts.thy ===== *)
theory Cxl_Facts
  imports Cxl_Handler
begin

text \<open>
  What the handlers of CXL events store. The specification of an event gives every field by the field of the
  record it comes from, and zero where the validity flags say that there is none.
\<close>

section \<open>The header\<close>

text \<open>A value that depends on a flag; the simplifier leaves it as it is.\<close>

definition pick :: "bool \<Rightarrow> 'a \<Rightarrow> 'a \<Rightarrow> 'a" where
  "pick c x y = (if c then x else y)"

lemma pick_simps [simp]: "pick True x y = x" "pick False x y = y" "pick c x x = x"
  by (simp_all add: pick_def)

definition cxl_hdr_of :: "clock \<Rightarrow> trace_event \<Rightarrow> ras_cxl_event_common_hdr" where
  "cxl_hdr_of ck e =
     (let flags = ucast (num e ''hdr_flags'') in
      \<lparr>h_timestamp = get_timestamp ck, h_memdev = str e ''memdev'', h_host = str e ''host'',
       h_serial = num e ''serial'', h_log_type = cxl_event_log_type_str (ucast (num e ''log'')),
       h_hdr_uuid = Uuid_buffer, h_hdr_flags = flags, h_hdr_handle = ucast (num e ''hdr_handle''),
       h_hdr_related_handle = ucast (num e ''hdr_related_handle''),
       h_hdr_timestamp = convert_timestamp ck (num e ''hdr_timestamp''),
       h_hdr_length = ucast (num e ''hdr_length''), h_hdr_maint_op_class = ucast (num e ''hdr_maint_op_class''),
       h_hdr_maint_op_sub_class = pick (bit flags 6) (ucast (num e ''hdr_maint_op_sub_class'')) 0,
       h_hdr_ld_id = pick (bit flags 7) (ucast (num e ''hdr_ld_id'')) 0,
       h_hdr_head_id = pick (bit flags 8) (ucast (num e ''hdr_head_id'')) 0,
       h_uuid_buffer = uuid_be_text (raw e ''hdr_uuid'' 16)\<rparr>)"

definition cxl_hdr_complete :: "trace_event \<Rightarrow> bool" where
  "cxl_hdr_complete e \<longleftrightarrow>
     list_all (present e)
       [Str ''memdev'', Str ''host'', Val ''serial'', Val ''log'', Val ''hdr_flags'', Val ''hdr_handle'',
        Val ''hdr_related_handle'', Val ''hdr_timestamp'', Val ''hdr_length'', Val ''hdr_maint_op_class''] \<and>
     has_bytes e ''hdr_uuid'' 16 \<and>
     (bit (num e ''hdr_flags'') 6 \<longrightarrow> present e (Val ''hdr_maint_op_sub_class'')) \<and>
     (bit (num e ''hdr_flags'') 7 \<longrightarrow> present e (Val ''hdr_ld_id'')) \<and>
     (bit (num e ''hdr_flags'') 8 \<longrightarrow> present e (Val ''hdr_head_id''))"

lemma cxl_hdr_effects: "effects e (cxl_common_hdr_stmts ck) cxl_common_hdr0 = cxl_hdr_of ck e"
  by (simp add: cxl_common_hdr_stmts_def cxl_common_hdr0_def cxl_hdr_of_def uuid_be_def Let_def pick_def)

lemma cxl_hdr_needs: "needs_met e (cxl_common_hdr_stmts ck) cxl_common_hdr0 \<longleftrightarrow> cxl_hdr_complete e"
  by (simp add: cxl_common_hdr_stmts_def cxl_common_hdr0_def cxl_hdr_complete_def present_def uuid_be_def
      bit_ucast_iff) blast

lemma cxl_hdr_exact:
  "(\<exists>out'. handle_ras_cxl_common_hdr ck e out = Some (out', Some h)) \<longleftrightarrow> cxl_hdr_complete e \<and> h = cxl_hdr_of ck e"
  by (simp add: handle_ras_cxl_common_hdr_def runs_Some_iff cxl_hdr_needs cxl_hdr_effects)

lemma and_then_Some_iff:
  "and_then r k = Some (out, Some x) \<longleftrightarrow> (\<exists>out' y. r = Some (out', Some y) \<and> k out' y = Some (out, Some x))"
  by (auto simp: and_then_def failed_def split: option.splits)

section \<open>DRAM events\<close>

text \<open>The two fields of the component identifier that its first byte announces.\<close>

definition cxl_entity_id :: "bool \<Rightarrow> trace_event \<Rightarrow> u8 list" where
  "cxl_entity_id c e =
     pick (c \<and> bit (raw e ''comp_id'' 16 ! 0) 0) (take 6 (drop 1 (raw e ''comp_id'' 16))) (replicate 6 0)"

definition cxl_res_id :: "bool \<Rightarrow> trace_event \<Rightarrow> u8 list" where
  "cxl_res_id c e =
     pick (c \<and> bit (raw e ''comp_id'' 16 ! 0) 1) (take 4 (drop 7 (raw e ''comp_id'' 16))) (replicate 4 0)"

definition cxl_dram_of :: "clock \<Rightarrow> trace_event \<Rightarrow> ras_cxl_dram_event" where
  "cxl_dram_of ck e =
     (let valid = (ucast (num e ''validity_flags'') :: u16); d = (ucast (num e ''descriptor'') :: u8) in
      \<lparr>dr_hdr = uuid_be (raw e ''region_uuid'' 16) (cxl_hdr_of ck e), dr_dpa = num e ''dpa'',
       dr_dpa_flags = ucast (num e ''dpa_flags''), dr_descriptor = d, dr_type = ucast (num e ''type''),
       dr_sub_type = ucast (num e ''sub_type''), dr_transaction_type = ucast (num e ''transaction_type''),
       dr_channel = pick (bit valid 0) (ucast (num e ''channel'')) 0,
       dr_sub_channel = pick (bit valid 10) (ucast (num e ''sub_channel'')) 0,
       dr_rank = pick (bit valid 1) (ucast (num e ''rank'')) 0,
       dr_nibble_mask = pick (bit valid 2) (ucast (num e ''nibble_mask'')) 0,
       dr_bank_group = pick (bit valid 3) (ucast (num e ''bank_group'')) 0,
       dr_bank = pick (bit valid 4) (ucast (num e ''bank'')) 0,
       dr_row = pick (bit valid 5) (ucast (num e ''row'')) 0,
       dr_column = pick (bit valid 6) (ucast (num e ''column'')) 0,
       dr_cor_mask = pick (bit valid 7) (Some (raw e ''cor_mask'' 32)) None, dr_validity_flags = valid,
       dr_hpa = num e ''hpa'', dr_hpa_alias0 = num e ''hpa_alias0'', dr_region = str e ''region_name'',
       dr_region_uuid = Uuid_buffer,
       dr_comp_id = pick (bit valid 8) (Some (raw e ''comp_id'' 16)) None,
       dr_entity_id = cxl_entity_id (bit valid 8 \<and> bit valid 9) e,
       dr_res_id = cxl_res_id (bit valid 8 \<and> bit valid 9) e,
       dr_cme_threshold_ev_flags = pick (bit d 1) (ucast (num e ''cme_threshold_ev_flags'')) 0,
       dr_cvme_count = pick (bit d 1) (ucast (num e ''cvme_count'')) 0\<rparr>)"

text \<open>What is read before the page is accounted for, and what is read after that.\<close>

definition cxl_dram_early :: "trace_event \<Rightarrow> bool" where
  "cxl_dram_early e \<longleftrightarrow>
     cxl_hdr_complete e \<and>
     list_all (present e)
       [Val ''dpa'', Val ''dpa_flags'', Val ''descriptor'', Val ''type'', Val ''sub_type'', Val ''transaction_type'',
        Val ''hpa'', Val ''hpa_alias0'', Str ''region_name'', Val ''validity_flags''] \<and>
     has_bytes e ''region_uuid'' 16 \<and>
     list_all (\<lambda>(i, f). bit (num e ''validity_flags'') i \<longrightarrow> present e (Val f))
       [(0, ''channel''), (10, ''sub_channel''), (1, ''rank''), (2, ''nibble_mask''), (3, ''bank_group''),
        (4, ''bank''), (5, ''row''), (6, ''column'')] \<and>
     (bit (num e ''validity_flags'') 7 \<longrightarrow> has_bytes e ''cor_mask'' 32)"

definition cxl_dram_complete :: "trace_event \<Rightarrow> bool" where
  "cxl_dram_complete e \<longleftrightarrow>
     cxl_dram_early e \<and>
     (bit (num e ''validity_flags'') 8 \<longrightarrow> has_bytes e ''comp_id'' 16) \<and>
     (bit (num e ''descriptor'') 1 \<longrightarrow> list_all (present e) [Val ''cme_threshold_ev_flags'', Val ''cvme_count''])"

text \<open>An array of the record has fewer bytes than the code takes it to have.\<close>

definition cxl_dram_short :: "trace_event \<Rightarrow> bool" where
  "cxl_dram_short e \<longleftrightarrow>
     short_bytes e ''hdr_uuid'' 16 \<or> short_bytes e ''region_uuid'' 16 \<or> short_bytes e ''cor_mask'' 32 \<or>
     short_bytes e ''comp_id'' 16"

lemmas cxl_stmt_defs =
  cxl_component_id_def ras_cxl_print_component_id_def cxl_sizes

text \<open>A conditional statement is an update by a conditional value.\<close>

lemma dr_when:
  "effect e (When c [Number f (\<lambda>v. dr_channel_update (\<lambda>_. ucast v)) pr]) ev =
     ev\<lparr>dr_channel := pick (c ev) (ucast (num e f)) (dr_channel ev)\<rparr>"
  "effect e (When c [Number f (\<lambda>v. dr_sub_channel_update (\<lambda>_. ucast v)) pr]) ev =
     ev\<lparr>dr_sub_channel := pick (c ev) (ucast (num e f)) (dr_sub_channel ev)\<rparr>"
  "effect e (When c [Number f (\<lambda>v. dr_rank_update (\<lambda>_. ucast v)) pr]) ev =
     ev\<lparr>dr_rank := pick (c ev) (ucast (num e f)) (dr_rank ev)\<rparr>"
  "effect e (When c [Number f (\<lambda>v. dr_nibble_mask_update (\<lambda>_. ucast v)) pr]) ev =
     ev\<lparr>dr_nibble_mask := pick (c ev) (ucast (num e f)) (dr_nibble_mask ev)\<rparr>"
  "effect e (When c [Number f (\<lambda>v. dr_bank_group_update (\<lambda>_. ucast v)) pr]) ev =
     ev\<lparr>dr_bank_group := pick (c ev) (ucast (num e f)) (dr_bank_group ev)\<rparr>"
  "effect e (When c [Number f (\<lambda>v. dr_bank_update (\<lambda>_. ucast v)) pr]) ev =
     ev\<lparr>dr_bank := pick (c ev) (ucast (num e f)) (dr_bank ev)\<rparr>"
  "effect e (When c [Number f (\<lambda>v. dr_row_update (\<lambda>_. ucast v)) pr]) ev =
     ev\<lparr>dr_row := pick (c ev) (ucast (num e f)) (dr_row ev)\<rparr>"
  "effect e (When c [Number f (\<lambda>v. dr_column_update (\<lambda>_. ucast v)) pr]) ev =
     ev\<lparr>dr_column := pick (c ev) (ucast (num e f)) (dr_column ev)\<rparr>"
  "effect e (cxl_component_id c c' dr_comp_id (\<lambda>bs. dr_comp_id_update (\<lambda>_. Some bs)) (\<lambda>bs. dr_entity_id_update (\<lambda>_. bs))
       (\<lambda>bs. dr_res_id_update (\<lambda>_. bs))) ev =
     ev\<lparr>dr_comp_id := pick (c ev) (Some (raw e ''comp_id'' 16)) (dr_comp_id ev),
       dr_entity_id := pick (c ev \<and> c' (ev\<lparr>dr_comp_id := Some (raw e ''comp_id'' 16)\<rparr>) \<and> bit (raw e ''comp_id'' 16 ! 0) 0)
         (take 6 (drop 1 (raw e ''comp_id'' 16))) (dr_entity_id ev),
       dr_res_id := pick (c ev \<and> c' (ev\<lparr>dr_comp_id := Some (raw e ''comp_id'' 16)\<rparr>) \<and> bit (raw e ''comp_id'' 16 ! 0) 1)
         (take 4 (drop 7 (raw e ''comp_id'' 16))) (dr_res_id ev)\<rparr>"
  "effect e (When c [Number f (\<lambda>v. dr_cme_threshold_ev_flags_update (\<lambda>_. ucast v)) pr,
       Number g (\<lambda>v. dr_cvme_count_update (\<lambda>_. ucast v)) pr']) ev =
     ev\<lparr>dr_cme_threshold_ev_flags := pick (c ev) (ucast (num e f)) (dr_cme_threshold_ev_flags ev),
       dr_cvme_count := pick (c ev) (ucast (num e g)) (dr_cvme_count ev)\<rparr>"
  "effect e (When c [Bytes f n (\<lambda>bs. dr_cor_mask_update (\<lambda>_. Some bs)) pr]) ev =
     ev\<lparr>dr_cor_mask := pick (c ev) (Some (raw e f n)) (dr_cor_mask ev)\<rparr>"
  by (simp_all add: cxl_stmt_defs pick_def)

lemma cxl_dram_part:
  "dr_descriptor (effects e cxl_dram_stmts (cxl_dram_event0 h)) = ucast (num e ''descriptor'')"
  "dr_hpa (effects e cxl_dram_stmts (cxl_dram_event0 h)) = num e ''hpa''"
  "effects e cxl_dram_rest (effects e cxl_dram_stmts (cxl_dram_event0 (cxl_hdr_of ck e))) = cxl_dram_of ck e"
  unfolding cxl_dram_stmts_def cxl_dram_rest_def
  by (simp_all add: cxl_dram_event0_def cxl_dram_of_def Let_def cxl_entity_id_def cxl_res_id_def dr_when
      cxl_sizes del: effect.simps(5) if_split cong: stmt_cong)

lemma cxl_component_needs:
  "needed e (cxl_component_id c c' g k k' k'') ev \<longleftrightarrow> (c ev \<longrightarrow> has_bytes e ''comp_id'' 16)"
  by (auto simp: cxl_stmt_defs)

lemma cxl_dram_stmts_needs:
  "needs_met e cxl_dram_stmts (cxl_dram_event0 (cxl_hdr_of ck e)) \<and> cxl_hdr_complete e \<longleftrightarrow> cxl_dram_early e"
  unfolding cxl_dram_stmts_def
  by (simp add: cxl_dram_event0_def cxl_dram_early_def present_def dr_when cxl_sizes
      bit_ucast_iff del: effect.simps(5) if_split cong: stmt_cong) blast

lemma cxl_dram_rest_needs:
  "needs_met e cxl_dram_rest (effects e cxl_dram_stmts (cxl_dram_event0 (cxl_hdr_of ck e))) \<and> cxl_dram_early e
   \<longleftrightarrow> cxl_dram_complete e"
  unfolding cxl_dram_stmts_def cxl_dram_rest_def
  by (simp add: cxl_dram_event0_def cxl_dram_complete_def present_def dr_when cxl_sizes cxl_component_needs
      bit_ucast_iff del: effect.simps(5) if_split cong: stmt_cong) blast

lemma cxl_dram_lacks:
  "\<not> cxl_dram_short e \<Longrightarrow>
     \<not> lack_bytes e (cxl_common_hdr_stmts ck) \<and> \<not> lack_bytes e cxl_dram_stmts \<and> \<not> lack_bytes e cxl_dram_rest"
  by (simp add: cxl_dram_short_def cxl_common_hdr_stmts_def cxl_dram_stmts_def cxl_dram_rest_def cxl_stmt_defs)

text \<open>The page that is accounted for before the event is complete is that of the complete event.\<close>

lemma cxl_dram_offline_mid:
  "cxl_dram_offline pfa env now (effects e cxl_dram_stmts (cxl_dram_event0 (cxl_hdr_of ck e))) s =
   cxl_dram_offline pfa env now (cxl_dram_of ck e) s"
  using cxl_dram_part(1,2) [of e "cxl_hdr_of ck e"] by (simp add: cxl_dram_offline_def cxl_dram_of_def Let_def)

lemma cxl_dram_outcome:
  assumes "\<not> cxl_dram_short e"
  shows "if cxl_dram_early e
    then case cxl_dram_offline pfa env now (cxl_dram_of ck e) s of
        None \<Rightarrow> ras_cxl_dram_event_handler pfa env now ck e s = None
      | Some s' \<Rightarrow> \<exists>out. ras_cxl_dram_event_handler pfa env now ck e s =
          Some ((out, if cxl_dram_complete e then Some (cxl_dram_of ck e) else None), s')
    else \<exists>out. ras_cxl_dram_event_handler pfa env now ck e s = Some ((out, None), s)"
proof -
  let ?h = "cxl_hdr_of ck e"
  let ?mid = "effects e cxl_dram_stmts (cxl_dram_event0 ?h)"
  note lacks = cxl_dram_lacks [OF assms, of ck]
  obtain out1 where hdr: "handle_ras_cxl_common_hdr ck e (leveled LOGLEVEL_ERR) =
      (if cxl_hdr_complete e then Some (out1, Some ?h) else failed out1)"
    using runs_outcome [of e "cxl_common_hdr_stmts ck" "leveled LOGLEVEL_ERR" cxl_common_hdr0,
        unfolded cxl_hdr_needs cxl_hdr_effects] lacks
    unfolding handle_ras_cxl_common_hdr_def by blast
  obtain out2 where stmts: "runs e cxl_dram_stmts out1 (cxl_dram_event0 ?h) =
      (if needs_met e cxl_dram_stmts (cxl_dram_event0 ?h) then Some (out2, Some ?mid) else failed out2)"
    using runs_outcome [of e cxl_dram_stmts out1 "cxl_dram_event0 ?h"] lacks by blast
  obtain out3 where rest: "runs e cxl_dram_rest out2 ?mid =
      (if needs_met e cxl_dram_rest ?mid then Some (out3, Some (cxl_dram_of ck e)) else failed out3)"
    using runs_outcome [of e cxl_dram_rest out2 ?mid, unfolded cxl_dram_part(3)] lacks by blast
  show ?thesis
  proof (cases "cxl_dram_early e")
    case True
    then have "and_then (handle_ras_cxl_common_hdr ck e (leveled LOGLEVEL_ERR))
        (\<lambda>out h. runs e cxl_dram_stmts out (cxl_dram_event0 h)) = Some (out2, Some ?mid)"
      using cxl_dram_stmts_needs [of e ck] hdr stmts by (auto simp: and_then_def)
    then show ?thesis
      using True rest cxl_dram_rest_needs [of e ck] cxl_dram_offline_mid [of pfa env now e ck s]
      by (auto simp: ras_cxl_dram_event_handler_def failed_def split: option.split)
  next
    case False
    then have "\<exists>out. and_then (handle_ras_cxl_common_hdr ck e (leveled LOGLEVEL_ERR))
        (\<lambda>out h. runs e cxl_dram_stmts out (cxl_dram_event0 h)) = Some (out, None)"
      using cxl_dram_stmts_needs [of e ck] hdr stmts by (auto simp: and_then_def failed_def)
    then show ?thesis using False by (auto simp: ras_cxl_dram_event_handler_def)
  qed
qed

lemma cxl_dram_exact:
  "(\<exists>out. ras_cxl_dram_event_handler pfa env now ck e s = Some ((out, Some ev), s')) \<longleftrightarrow>
     cxl_dram_complete e \<and> ev = cxl_dram_of ck e \<and> cxl_dram_offline pfa env now ev s = Some s'"
proof -
  let ?mid = "effects e cxl_dram_stmts (cxl_dram_event0 (cxl_hdr_of ck e))"
  have same: "cxl_dram_offline pfa env now ?mid s = cxl_dram_offline pfa env now (cxl_dram_of ck e) s"
    by (rule cxl_dram_offline_mid)
  have "(\<exists>out. ras_cxl_dram_event_handler pfa env now ck e s = Some ((out, Some ev), s')) \<longleftrightarrow>
    (\<exists>out mid h out1 out2. handle_ras_cxl_common_hdr ck e (leveled LOGLEVEL_ERR) = Some (out1, Some h) \<and>
       runs e cxl_dram_stmts out1 (cxl_dram_event0 h) = Some (out2, Some mid) \<and>
       cxl_dram_offline pfa env now mid s = Some s' \<and> runs e cxl_dram_rest out2 mid = Some (out, Some ev))"
    by (auto simp: ras_cxl_dram_event_handler_def and_then_def failed_def bind_eq_Some_conv split: option.splits)
  also have "\<dots> \<longleftrightarrow> cxl_hdr_complete e \<and> needs_met e cxl_dram_stmts (cxl_dram_event0 (cxl_hdr_of ck e)) \<and>
      needs_met e cxl_dram_rest ?mid \<and> ev = effects e cxl_dram_rest ?mid \<and>
      cxl_dram_offline pfa env now ?mid s = Some s'" (is "?l \<longleftrightarrow> ?r")
  proof
    assume ?l
    then obtain out mid h out1 out2 where
      "handle_ras_cxl_common_hdr ck e (leveled LOGLEVEL_ERR) = Some (out1, Some h)"
      "runs e cxl_dram_stmts out1 (cxl_dram_event0 h) = Some (out2, Some mid)"
      "cxl_dram_offline pfa env now mid s = Some s'" "runs e cxl_dram_rest out2 mid = Some (out, Some ev)" by blast
    then show ?r
      using cxl_hdr_exact [of ck e "leveled LOGLEVEL_ERR" h] run_Some(2) [of e cxl_dram_stmts out1 _ out2 mid]
        run_Some(2) [of e cxl_dram_rest out2 mid out ev] by auto
  next
    assume ?r
    then show ?l using cxl_hdr_exact [of ck e "leveled LOGLEVEL_ERR"] by (metis run_needed(2))
  qed
  also have "\<dots> \<longleftrightarrow> cxl_dram_complete e \<and> ev = cxl_dram_of ck e \<and> cxl_dram_offline pfa env now ev s = Some s'"
    using cxl_dram_stmts_needs [of e ck] cxl_dram_rest_needs [of e ck] same cxl_dram_part(3) [of e ck] by auto
  finally show ?thesis .
qed

text \<open>
  C29: what the handler of a DRAM event does with a record whose arrays have the bytes that the code takes
  them to have. If a field is missing that is read before the page is accounted for, it fails and accounts
  for nothing. Otherwise the page of a threshold event that is not uncorrectable is accounted for, and only
  if that is undefined is the handler undefined. Then the event is stored if the record also has the
  identifier and the counters that its flags announce, with each field as the record has it and zero where
  it is not announced; if not, the handler fails although the page has been accounted for.
\<close>

theorem cxl_dram_event_exact:
  assumes "\<not> cxl_dram_short e"
  shows "if cxl_dram_early e
    then case cxl_dram_offline pfa env now (cxl_dram_of ck e) s of
        None \<Rightarrow> ras_cxl_dram_event_handler pfa env now ck e s = None
      | Some s' \<Rightarrow> \<exists>out. ras_cxl_dram_event_handler pfa env now ck e s =
          Some ((out, if cxl_dram_complete e then Some (cxl_dram_of ck e) else None), s')
    else \<exists>out. ras_cxl_dram_event_handler pfa env now ck e s = Some ((out, None), s)"
  by (rule cxl_dram_outcome [OF assms])

section \<open>General media events\<close>

definition cxl_general_media_of :: "clock \<Rightarrow> trace_event \<Rightarrow> ras_cxl_general_media_event" where
  "cxl_general_media_of ck e =
     (let valid = (ucast (num e ''validity_flags'') :: u16); d = (ucast (num e ''descriptor'') :: u8) in
      \<lparr>gm_hdr = uuid_be (raw e ''region_uuid'' 16) (cxl_hdr_of ck e), gm_dpa = num e ''dpa'',
       gm_dpa_flags = ucast (num e ''dpa_flags''), gm_descriptor = d, gm_type = ucast (num e ''type''),
       gm_sub_type = ucast (num e ''sub_type''), gm_transaction_type = ucast (num e ''transaction_type''),
       gm_channel = pick (bit valid 0) (ucast (num e ''channel'')) 0,
       gm_rank = pick (bit valid 1) (ucast (num e ''rank'')) 0,
       gm_device = pick (bit valid 2) (ucast (num e ''device'')) 0,
       gm_comp_id = pick (bit valid 3) (Some (raw e ''comp_id'' 16)) None,
       gm_entity_id = cxl_entity_id (bit valid 3 \<and> bit valid 4) e,
       gm_res_id = cxl_res_id (bit valid 3 \<and> bit valid 4) e, gm_validity_flags = valid,
       gm_hpa = num e ''hpa'', gm_hpa_alias0 = num e ''hpa_alias0'', gm_region = str e ''region_name'',
       gm_region_uuid = Uuid_buffer,
       gm_cme_threshold_ev_flags = pick (bit d 1) (ucast (num e ''cme_threshold_ev_flags'')) 0,
       gm_cme_count = pick (bit d 1) (ucast (num e ''cme_count'')) 0\<rparr>)"

lemma gm_when:
  "effect e (When c [Number f (\<lambda>v. gm_channel_update (\<lambda>_. ucast v)) pr]) ev =
     ev\<lparr>gm_channel := pick (c ev) (ucast (num e f)) (gm_channel ev)\<rparr>"
  "effect e (When c [Number f (\<lambda>v. gm_rank_update (\<lambda>_. ucast v)) pr]) ev =
     ev\<lparr>gm_rank := pick (c ev) (ucast (num e f)) (gm_rank ev)\<rparr>"
  "effect e (cxl_component_id c c' gm_comp_id (\<lambda>bs. gm_comp_id_update (\<lambda>_. Some bs)) (\<lambda>bs. gm_entity_id_update (\<lambda>_. bs))
       (\<lambda>bs. gm_res_id_update (\<lambda>_. bs))) ev =
     ev\<lparr>gm_comp_id := pick (c ev) (Some (raw e ''comp_id'' 16)) (gm_comp_id ev),
       gm_entity_id := pick (c ev \<and> c' (ev\<lparr>gm_comp_id := Some (raw e ''comp_id'' 16)\<rparr>) \<and> bit (raw e ''comp_id'' 16 ! 0) 0)
         (take 6 (drop 1 (raw e ''comp_id'' 16))) (gm_entity_id ev),
       gm_res_id := pick (c ev \<and> c' (ev\<lparr>gm_comp_id := Some (raw e ''comp_id'' 16)\<rparr>) \<and> bit (raw e ''comp_id'' 16 ! 0) 1)
         (take 4 (drop 7 (raw e ''comp_id'' 16))) (gm_res_id ev)\<rparr>"
  "effect e (When c [Number f (\<lambda>v. gm_cme_threshold_ev_flags_update (\<lambda>_. ucast v)) pr,
       Number g (\<lambda>v. gm_cme_count_update (\<lambda>_. ucast v)) pr']) ev =
     ev\<lparr>gm_cme_threshold_ev_flags := pick (c ev) (ucast (num e f)) (gm_cme_threshold_ev_flags ev),
       gm_cme_count := pick (c ev) (ucast (num e g)) (gm_cme_count ev)\<rparr>"
  "effect e (When c [Number f (\<lambda>v. gm_device_update (\<lambda>_. ucast v)) pr]) ev =
     ev\<lparr>gm_device := pick (c ev) (ucast (num e f)) (gm_device ev)\<rparr>"
  by (simp_all add: cxl_stmt_defs pick_def)

lemma cxl_general_media_effects:
  "effects e cxl_general_media_stmts (cxl_general_media_event0 (cxl_hdr_of ck e)) = cxl_general_media_of ck e"
  unfolding cxl_general_media_stmts_def
  by (simp add: cxl_general_media_event0_def cxl_general_media_of_def Let_def cxl_entity_id_def cxl_res_id_def gm_when
      cxl_sizes del: effect.simps(5) if_split cong: stmt_cong)

lemma cxl_general_media_stored:
  assumes "ras_cxl_general_media_event_handler ck e = Some (out, Some ev)"
  shows "ev = cxl_general_media_of ck e"
proof -
  obtain out' h where h: "handle_ras_cxl_common_hdr ck e (leveled LOGLEVEL_ERR) = Some (out', Some h)"
    and run: "runs e cxl_general_media_stmts out' (cxl_general_media_event0 h) = Some (out, Some ev)"
    using assms by (auto simp: ras_cxl_general_media_event_handler_def and_then_Some_iff)
  have "h = cxl_hdr_of ck e" using cxl_hdr_exact h by blast
  then show ?thesis using run_Some(2) [OF run] by (simp add: cxl_general_media_effects)
qed

text \<open>
  C31: in every general media and every DRAM event that is stored, the UUID of the header is that of the
  region, because both are pointers to the buffer of \<open>uuid_be\<close>. The UUID of the header, which says what
  kind of event it is, is lost after it has been printed.
\<close>

theorem cxl_header_uuid_lost:
  "(\<forall>out ev. ras_cxl_general_media_event_handler ck e = Some (out, Some ev) \<longrightarrow>
      uuid_at (h_hdr_uuid (gm_hdr ev)) (gm_hdr ev) = Some (uuid_be_text (raw e ''region_uuid'' 16)) \<and>
      uuid_at (gm_region_uuid ev) (gm_hdr ev) = Some (uuid_be_text (raw e ''region_uuid'' 16))) \<and>
   (\<forall>out ev s'. ras_cxl_dram_event_handler pfa env now ck e s = Some ((out, Some ev), s') \<longrightarrow>
      uuid_at (h_hdr_uuid (dr_hdr ev)) (dr_hdr ev) = Some (uuid_be_text (raw e ''region_uuid'' 16)) \<and>
      uuid_at (dr_region_uuid ev) (dr_hdr ev) = Some (uuid_be_text (raw e ''region_uuid'' 16)))"
proof -
  have "ev = cxl_dram_of ck e" if "ras_cxl_dram_event_handler pfa env now ck e s = Some ((out, Some ev), s')" for out ev s'
    using cxl_dram_exact that by blast
  then show ?thesis
    by (auto dest!: cxl_general_media_stored
        simp: cxl_general_media_of_def cxl_dram_of_def Let_def uuid_be_def uuid_at_def cxl_hdr_of_def)
qed

section \<open>The header log\<close>

lemma le_bytes_take: "n \<le> m \<Longrightarrow> le_bytes n (take_bit (8 * m) w) = le_bytes n w"
proof (induction n arbitrary: m w)
  case (Suc n)
  then obtain m' where m: "m = Suc m'" by (cases m) auto
  have "drop_bit 8 (take_bit (8 * m) w) = take_bit (8 * m') (drop_bit 8 w)"
    unfolding m by (rule bit_word_eqI) (auto simp: bit_simps)
  moreover have "(ucast (take_bit (8 * m) w) :: u8) = ucast w"
    unfolding m by (rule bit_word_eqI) (auto simp: bit_simps)
  ultimately show ?case using Suc m by simp
qed simp

lemma le_bytes_word: "length bs = n \<Longrightarrow> n \<le> 8 \<Longrightarrow> le_bytes n (le_value bs) = bs"
proof (induction n arbitrary: bs)
  case (Suc n)
  then obtain b bs' where bs: "bs = b # bs'" by (cases bs) auto
  have "drop_bit 8 (ucast b OR push_bit 8 (le_value bs')) = take_bit (8 * 7) (le_value bs')"
    by (rule bit_word_eqI) (auto simp: bit_simps dest: bit_imp_le_length)
  moreover have "(ucast (ucast b OR push_bit 8 (le_value bs') :: u64) :: u8) = b"
    by (rule bit_word_eqI) (auto simp: bit_simps)
  ultimately show ?case using Suc bs le_bytes_take [of n 7 "le_value bs'"] by simp
qed simp

lemma le_bytes_32: "le_bytes 4 (ucast (ucast w :: u32)) = le_bytes 4 w"
proof -
  have "ucast (ucast w :: u32) = take_bit (8 * 4) w" by (rule bit_word_eqI) (auto simp: bit_simps)
  then show ?thesis using le_bytes_take [of 4 4 w] by simp
qed

text \<open>
  The words of the header log are stored so that their bytes in memory are those of the record with
  each word reversed, that is in big-endian order, and there are 128 of them.
\<close>

theorem cxl_header_log_big_endian:
  "case ras_cxl_aer_ue_event_handler ck e of
     Some (out, Some ev) \<Rightarrow>
       length (cu_header_log ev) = 128 \<and>
       concat (map (\<lambda>w. le_bytes 4 (ucast w)) (cu_header_log ev)) =
         concat (map (\<lambda>i. rev (take 4 (drop (4 * i) (raw e ''header_log'' 512)))) [0..<128])
   | _ \<Rightarrow> True"
proof -
  have "length (cu_header_log ev) = 128 \<and>
       concat (map (\<lambda>w. le_bytes 4 (ucast w)) (cu_header_log ev)) =
         concat (map (\<lambda>i. rev (take 4 (drop (4 * i) (raw e ''header_log'' 512)))) [0..<128])"
    if "ras_cxl_aer_ue_event_handler ck e = Some (out, Some ev)" for out ev
  proof -
    have run: "has_bytes e ''header_log'' 512 \<and>
        cu_header_log ev = map htobe32 (le_words 128 (raw e ''header_log'' 512))"
      using run_Some(2) [OF that [unfolded ras_cxl_aer_ue_event_handler_def]]
      by (simp add: cxl_aer_ue_stmts_def cxl_sizes)
    then have "512 \<le> length (raw e ''header_log'' 512)"
      by (auto simp: has_bytes_def raw_def split: option.splits)
    then have bytes: "le_bytes 4 (ucast (htobe32 (ucast (at_offset (4 * i) 4 (raw e ''header_log'' 512))))) =
        rev (take 4 (drop (4 * i) (raw e ''header_log'' 512)))" if "i < 128" for i
      using that by (simp add: htobe32_def le_bytes_32 at_offset_def le_bytes_word)
    then show ?thesis using run by (auto simp: le_words_def comp_def intro!: arg_cong [of _ _ concat])
  qed
  then show ?thesis by (simp split: option.split)
qed

section \<open>Threshold events and the pages\<close>

text \<open>The error that the device reports is corrected and has reached its threshold.\<close>

definition cxl_threshold_event :: "trace_event \<Rightarrow> bool" where
  "cxl_threshold_event e \<longleftrightarrow> \<not> bit (num e ''descriptor'') 0 \<and> bit (num e ''descriptor'') 1"

text \<open>What the kernel is asked for one page.\<close>

abbreviation page_requests :: "page_env \<Rightarrow> page_sys \<Rightarrow> u64 \<Rightarrow> writes" where
  "page_requests env s a \<equiv> map (write_of a) (attempts env (offline_action s) a)"

lemma page_refresh_count: "page_refresh cyc thr time pr = Some pr' \<Longrightarrow> pr_count pr' \<le> pr_count pr"
  by (auto simp: page_refresh_def Let_def not_less word_sub_le split: if_splits bind_splits)

lemma threshold_reached:
  assumes "count_page s env (ucast (iso_val (threshold s))) now pr = Some (pr', w')"
    and "pr_count pr < iso_val (threshold s) \<or> iso_val (threshold s) = 0" and "iso_val (threshold s) < 2 ^ 32"
    and "OFFLINE_ACCOUNT < offline_action s" and "pr_offlined pr \<noteq> PAGE_OFFLINE"
  shows "w' = page_writes s @ page_requests env s (pr_addr pr)"
proof -
  let ?thr = "iso_val (threshold s)"
  obtain pr1 where pr1: "page_refresh (iso_val (cycle s)) ?thr now pr = Some pr1"
    using assms(1) by (auto simp: page_count_def split: bind_splits)
  have same: "ucast (ucast ?thr :: u32) = ?thr"
    using ucast_ucast_u32 assms(3) by (simp add: word_less_nat_alt)
  have small: "unat ?thr < 2 ^ 32" using assms(3) by (simp add: word_less_nat_alt)
  have "unat (pr_count pr1) \<le> unat ?thr \<or> ?thr = 0"
    using page_refresh_count [OF pr1] assms(2) by (auto simp: word_le_nat_alt word_less_nat_alt)
  then have "?thr \<le> pr_count pr1 + ?thr"
  proof
    assume "unat (pr_count pr1) \<le> unat ?thr"
    then have "unat (pr_count pr1) + unat ?thr < 2 ^ 64" using small by simp
    then show ?thesis by (simp add: word_le_nat_alt unat_add_no_wrap)
  qed simp
  then have "w' = snd (page_offline env (offline_action s)
      (pr1\<lparr>pr_excess := pr_excess pr1 + (pr_count pr1 + ?thr), pr_count := 0\<rparr>, page_writes s))"
    using assms(1) pr1 same by (auto simp: page_count_def Let_def)
  then show ?thesis
    using page_refresh_offlined [OF pr1] page_refresh_addr [OF pr1] assms(4,5) by (simp add: page_offline_attempts)
qed

lemma hw_threshold_writes:
  assumes inv: "page_inv s m" and new: "page_calloc env = Some p" "pages s p = None"
    and event: "ras_hw_threshold_pageoffline env addr now s = Some s'" and a: "a = addr AND PAGE_MASK"
    and thr: "iso_val (threshold s) < 2 ^ 32" and action: "OFFLINE_ACCOUNT < offline_action s"
    and fresh: "\<forall>t. write_of a t \<notin> set (page_writes s)"
  shows "page_writes s' = page_writes s @ page_requests env s a"
proof -
  have rep: "page_rep s m" and on: "offline_action s \<noteq> OFFLINE_OFF"
    using inv action by (auto simp: page_inv_def)
  have mem: "m a = None \<Longrightarrow> \<exists>p. page_calloc env = Some p \<and> p \<notin> dom (pages s)" using new by auto
  let ?pr = "started now (pg.current m a)" and ?n = "ucast (iso_val (threshold s)) :: u32"
  obtain pr' w' where count: "count_page s env ?n now ?pr = Some (pr', w')"
    using record_page_error_eq [OF rep on a mem, where count = ?n and time = now] event
    by (cases "count_page s env ?n now ?pr") (auto simp: ras_hw_threshold_pageoffline_def)
  have "page_writes s' = w'"
    using record_page_error_step [OF rep on a mem count] event by (auto simp: ras_hw_threshold_pageoffline_def)
  moreover have "record_ok s r" if "m a = Some r" for r using inv that by (auto simp: page_inv_def)
  then have ok: "record_ok s r \<and> pr_addr r = a" if "m a = Some r" for r using page_rep_get [OF rep] that by auto
  have "pr_count ?pr < iso_val (threshold s) \<or> iso_val (threshold s) = 0"
    using ok by (fastforce simp: pg.current_def started_def new_record_def record_ok_def word_gt_0 split: option.split)
  moreover have "pr_offlined ?pr \<noteq> PAGE_OFFLINE"
  proof (cases "m a")
    case (Some r)
    then show ?thesis using ok [OF Some] fresh by (auto simp: pg.current_def started_def record_ok_def)
  qed (simp add: pg.current_def started_def new_record_def)
  moreover have "pr_addr ?pr = a" using pg.key_current [OF rep, of a] by simp
  ultimately show ?thesis using threshold_reached [OF count _ thr action] by simp
qed

lemma dram_handler_offlines:
  assumes "ras_cxl_dram_event_handler pfa env now ck e s = Some ((out, r), s')"
  shows "s' = s \<and> r = None \<or>
    (\<exists>ev. dr_descriptor ev = ucast (num e ''descriptor'') \<and> dr_hpa ev = num e ''hpa'' \<and>
       cxl_dram_offline pfa env now ev s = Some s')"
  using assms
  by (auto simp: ras_cxl_dram_event_handler_def and_then_def failed_def bind_eq_Some_conv split: option.splits
      dest!: run_Some(2)) (metis cxl_dram_part(1,2))+

text \<open>
  C30: a DRAM event keeps the accounting of pages in the states it can reach. It asks the kernel for nothing,
  or, if it is a threshold event, for the page of its host address; and a threshold event that is stored
  does so at once for a page that the kernel has not been asked for, when the configuration takes pages
  offline and the threshold fits 32 bits.
\<close>

theorem cxl_threshold_offlines_page:
  assumes "page_reach s" and "page_calloc env = Some p" and "pages s p = None"
    and "ras_cxl_dram_event_handler True env now ck e s = Some ((out, r), s')"
    and "a = num e ''hpa'' AND PAGE_MASK"
  shows "page_reach s' \<and>
    (page_writes s' = page_writes s \<or>
       cxl_threshold_event e \<and> page_writes s' = page_writes s @ page_requests env s a) \<and>
    (r \<noteq> None \<and> cxl_threshold_event e \<and> OFFLINE_ACCOUNT < offline_action s \<and>
       iso_val (threshold s) < 2 ^ 32 \<and> (\<forall>t. write_of a t \<notin> set (page_writes s)) \<longrightarrow>
       page_writes s' = page_writes s @ page_requests env s a)"
proof (cases "s' = s \<and> r = None")
  case True
  then show ?thesis using assms(1) by simp
next
  case False
  then obtain ev where ev: "dr_descriptor ev = ucast (num e ''descriptor'')" "dr_hpa ev = num e ''hpa''"
    "cxl_dram_offline True env now ev s = Some s'"
    using dram_handler_offlines [OF assms(4)] by blast
  obtain m where m: "page_inv s m" using page_reach_inv [OF assms(1)] by blast
  have new: "\<forall>p. page_calloc env = Some p \<longrightarrow> pages s p = None" using assms(2,3) by simp
  show ?thesis
  proof (cases "cxl_threshold_event e")
    case True
    then have call: "ras_hw_threshold_pageoffline env (num e ''hpa'') now s = Some s'"
      using ev by (simp add: cxl_dram_offline_def cxl_threshold_event_def bit_ucast_iff)
    then have "page_reach s'"
      using assms(1) new by (auto simp: ras_hw_threshold_pageoffline_def intro: page_reach.event)
    moreover have "page_writes s' = page_writes s \<or> page_writes s' = page_writes s @ page_requests env s a"
      using page_event_attempts [OF _ new] m call assms(5)
      by (fastforce simp: page_inv_def ras_hw_threshold_pageoffline_def)
    ultimately show ?thesis
      using True hw_threshold_writes [OF m assms(2,3) call assms(5)] by blast
  next
    case no: False
    then have "s' = s" using ev by (auto simp: cxl_dram_offline_def cxl_threshold_event_def bit_ucast_iff)
    then show ?thesis using no assms(1) by simp
  qed
qed

definition demo_cxl_record :: trace_event where
  "demo_cxl_record =
     \<lparr>field_val = (\<lambda>f. Some (if f = ''descriptor'' then 2 else if f = ''hpa'' then 0x12345678 else 0)),
      field_str = (\<lambda>_. Some []), field_words = (\<lambda>_. Some (replicate 32 0, 32)), complaint = (\<lambda>_. [])\<rparr>"

definition demo_cxl_clock :: clock where
  "demo_cxl_clock =
     \<lparr>use_uptime = True, ts = 0, user_hz = 1, uptime_diff = 0, time_now = 0, strf = Map.empty\<rparr>"

lemma demo_cxl_fields:
  "num demo_cxl_record f = (if f = ''descriptor'' then 2 else if f = ''hpa'' then 0x12345678 else 0)"
  "present demo_cxl_record n" "has_bytes demo_cxl_record f 16" "has_bytes demo_cxl_record f 32"
  "\<not> cxl_dram_short demo_cxl_record"
  by (auto simp: num_def demo_cxl_record_def present_def has_bytes_def short_bytes_def cxl_dram_short_def
      field_bytes_def split: need.split)

lemma demo_cxl_runs:
  "\<exists>out ev s'. ras_cxl_dram_event_handler True (demo_answer rc) 1000 ck demo_cxl_record demo_sys =
     Some ((out, Some ev), s')"
proof -
  have "cxl_dram_complete demo_cxl_record"
    by (simp add: cxl_dram_complete_def cxl_dram_early_def cxl_hdr_complete_def demo_cxl_fields)
  moreover obtain s' where "ras_record_page_error (demo_answer rc) 0x12345678 50 1000 demo_sys = Some s'"
    using demo_event by blast
  then have "cxl_dram_offline True (demo_answer rc) 1000 (cxl_dram_of ck demo_cxl_record) demo_sys = Some s'"
    by (simp add: cxl_dram_offline_def cxl_dram_of_def Let_def demo_cxl_fields ras_hw_threshold_pageoffline_def
        demo_sys_def)
  ultimately show ?thesis using cxl_dram_exact by blast
qed

theorem cxl_threshold_offlines_page_witness:
  "\<exists>out ev s'. ras_cxl_dram_event_handler True (demo_answer (Some 10)) 1000 demo_cxl_clock demo_cxl_record demo_sys =
     Some ((out, Some ev), s') \<and>
   page_writes s' = [(''/sys/devices/system/memory/soft_offline_page'', fmt_alt_x (0x12345000 :: u64))]"
proof -
  obtain out ev s' where run: "ras_cxl_dram_event_handler True (demo_answer (Some 10)) 1000 demo_cxl_clock
      demo_cxl_record demo_sys = Some ((out, Some ev), s')" using demo_cxl_runs by blast
  have "page_calloc (demo_answer (Some 10)) = Some 7" "pages demo_sys 7 = None"
    by (simp_all add: demo_answer_def demo_sys_def page_sys0_def)
  from cxl_threshold_offlines_page [OF demo_sys_reach this run refl]
  have "page_writes s' = page_requests (demo_answer (Some 10)) demo_sys 0x12345000"
    by (simp add: demo_cxl_fields PAGE_MASK_num cxl_threshold_event_def demo_sys_def page_sys0_def)
  then show ?thesis
    using run by (auto simp: demo_answer_def demo_sys_def page_sys0_def attempts_def write_of_def)
qed

theorem cxl_header_uuid_lost_witness:
  "\<exists>out ev s'. ras_cxl_dram_event_handler True (demo_answer (Some 10)) 1000 demo_cxl_clock
     demo_cxl_record demo_sys = Some ((out, Some ev), s') \<and>
   uuid_at (h_hdr_uuid (dr_hdr ev)) (dr_hdr ev) = Some ''00000000-0000-0000-0000-000000000000''"
proof -
  have "uuid_be_text (raw demo_cxl_record ''region_uuid'' 16) = ''00000000-0000-0000-0000-000000000000''"
    by code_simp
  then show ?thesis using demo_cxl_runs [of "Some 10" demo_cxl_clock] cxl_header_uuid_lost by metis
qed

text \<open>
  The record with the counters of its threshold left out: the handler fails, and the kernel has been asked
  for the page.
\<close>

theorem cxl_dram_event_exact_witness:
  "\<exists>out s'. ras_cxl_dram_event_handler True (demo_answer (Some 10)) 1000 demo_cxl_clock
      (demo_cxl_record\<lparr>field_val := (field_val demo_cxl_record)(''cvme_count'' := None)\<rparr>) demo_sys =
    Some ((out, None), s') \<and>
    cxl_dram_offline True (demo_answer (Some 10)) 1000 (cxl_dram_of demo_cxl_clock demo_cxl_record) demo_sys = Some s'"
proof -
  let ?e = "demo_cxl_record\<lparr>field_val := (field_val demo_cxl_record)(''cvme_count'' := None)\<rparr>"
  have fields: "num ?e f = num demo_cxl_record f" "present ?e n \<longleftrightarrow> n \<noteq> Val ''cvme_count''"
    "has_bytes ?e f n' = has_bytes demo_cxl_record f n'" "short_bytes ?e f n' = short_bytes demo_cxl_record f n'" for f n n'
    by (auto simp: num_def demo_cxl_record_def present_def has_bytes_def short_bytes_def field_bytes_def
        split: need.split option.split)
  then have "\<not> cxl_dram_short ?e" using demo_cxl_fields(5) by (simp add: cxl_dram_short_def)
  moreover have "cxl_dram_early ?e" "\<not> cxl_dram_complete ?e"
    by (simp_all add: cxl_dram_early_def cxl_dram_complete_def cxl_hdr_complete_def fields demo_cxl_fields)
  moreover have same: "cxl_dram_offline True env now (cxl_dram_of ck ?e) s =
      cxl_dram_offline True env now (cxl_dram_of ck demo_cxl_record) s" for env now ck s
    by (simp add: cxl_dram_offline_def cxl_dram_of_def Let_def fields)
  moreover obtain s' where
    "cxl_dram_offline True (demo_answer (Some 10)) 1000 (cxl_dram_of demo_cxl_clock demo_cxl_record) demo_sys = Some s'"
    using demo_cxl_runs [of "Some 10" demo_cxl_clock] cxl_dram_exact by metis
  ultimately show ?thesis
    using cxl_dram_event_exact [of ?e True "demo_answer (Some 10)" 1000 demo_cxl_clock demo_sys] by simp
qed

end
