(* ===== verification/Db_Schema.thy ===== *)
theory Db_Schema
  imports String_Copy "HOL-Library.Monad_Syntax"
begin

text \<open>
  The schema of \<open>ras-record.c\<close>: the description of every table with its columns and their types, and the SQL
  statements that are put together from a description in a buffer of 1024 bytes.
\<close>

section \<open>The tables\<close>

record db_table =
  tab_name :: string
  tab_fields :: "(string \<times> string) list"

definition mc_event_fields :: "(string \<times> string) list" where
  "mc_event_fields =
    [(''id'', ''INTEGER PRIMARY KEY''), (''timestamp'', ''TEXT''), (''err_count'', ''INTEGER''),
     (''err_type'', ''TEXT''), (''err_msg'', ''TEXT''), (''label'', ''TEXT''), (''mc'', ''INTEGER''),
     (''top_layer'', ''INTEGER''), (''middle_layer'', ''INTEGER''), (''lower_layer'', ''INTEGER''),
     (''address'', ''INTEGER''), (''grain'', ''INTEGER''), (''syndrome'', ''INTEGER''),
     (''driver_detail'', ''TEXT'')]"

definition mc_event_tab :: db_table where
  "mc_event_tab = \<lparr>tab_name = ''mc_event'', tab_fields = mc_event_fields\<rparr>"

definition aer_event_fields :: "(string \<times> string) list" where
  "aer_event_fields =
    [(''id'', ''INTEGER PRIMARY KEY''), (''timestamp'', ''TEXT''), (''dev_name'', ''TEXT''),
     (''err_type'', ''TEXT''), (''err_msg'', ''TEXT'')]"

definition aer_event_tab :: db_table where
  "aer_event_tab = \<lparr>tab_name = ''aer_event'', tab_fields = aer_event_fields\<rparr>"

definition non_standard_event_fields :: "(string \<times> string) list" where
  "non_standard_event_fields =
    [(''id'', ''INTEGER PRIMARY KEY''), (''timestamp'', ''TEXT''), (''sec_type'', ''BLOB''),
     (''fru_id'', ''BLOB''), (''fru_text'', ''TEXT''), (''severity'', ''TEXT''), (''error'', ''BLOB'')]"

definition non_standard_event_tab :: db_table where
  "non_standard_event_tab = \<lparr>tab_name = ''non_standard_event'', tab_fields = non_standard_event_fields\<rparr>"

definition arm_event_fields :: "(string \<times> string) list" where
  "arm_event_fields =
    [(''id'', ''INTEGER PRIMARY KEY''), (''timestamp'', ''TEXT''), (''error_count'', ''INTEGER''),
     (''affinity'', ''INTEGER''), (''mpidr'', ''INTEGER''), (''running_state'', ''INTEGER''),
     (''psci_state'', ''INTEGER''), (''err_info'', ''BLOB''), (''context_info'', ''BLOB''),
     (''vendor_info'', ''BLOB''), (''error_type'', ''TEXT''), (''error_flags'', ''TEXT''),
     (''error_info'', ''INTEGER''), (''virt_fault_addr'', ''INTEGER''), (''phy_fault_addr'', ''INTEGER'')]"

definition arm_event_tab :: db_table where
  "arm_event_tab = \<lparr>tab_name = ''arm_event'', tab_fields = arm_event_fields\<rparr>"

definition extlog_event_fields :: "(string \<times> string) list" where
  "extlog_event_fields =
    [(''id'', ''INTEGER PRIMARY KEY''), (''timestamp'', ''TEXT''), (''etype'', ''INTEGER''),
     (''error_count'', ''INTEGER''), (''severity'', ''INTEGER''), (''address'', ''INTEGER''),
     (''fru_id'', ''BLOB''), (''fru_text'', ''TEXT''), (''cper_data'', ''BLOB'')]"

definition extlog_event_tab :: db_table where
  "extlog_event_tab = \<lparr>tab_name = ''extlog_event'', tab_fields = extlog_event_fields\<rparr>"

definition mce_record_fields :: "(string \<times> string) list" where
  "mce_record_fields =
    [(''id'', ''INTEGER PRIMARY KEY''), (''timestamp'', ''TEXT''), (''mcgcap'', ''INTEGER''),
     (''mcgstatus'', ''INTEGER''), (''status'', ''INTEGER''), (''addr'', ''INTEGER''),
     (''misc'', ''INTEGER''), (''ip'', ''INTEGER''), (''tsc'', ''INTEGER''), (''walltime'', ''INTEGER''),
     (''ppin'', ''INTEGER''), (''cpu'', ''INTEGER''), (''cpuid'', ''INTEGER''), (''apicid'', ''INTEGER''),
     (''socketid'', ''INTEGER''), (''cs'', ''INTEGER''), (''bank'', ''INTEGER''),
     (''cpuvendor'', ''INTEGER''), (''microcode'', ''INTEGER''), (''bank_name'', ''TEXT''),
     (''error_msg'', ''TEXT''), (''mcgstatus_msg'', ''TEXT''), (''mcistatus_msg'', ''TEXT''),
     (''mcastatus_msg'', ''TEXT''), (''user_action'', ''TEXT''), (''mc_location'', ''TEXT'')]"

definition mce_record_tab :: db_table where
  "mce_record_tab = \<lparr>tab_name = ''mce_record'', tab_fields = mce_record_fields\<rparr>"

definition devlink_event_fields :: "(string \<times> string) list" where
  "devlink_event_fields =
    [(''id'', ''INTEGER PRIMARY KEY''), (''timestamp'', ''TEXT''), (''bus_name'', ''TEXT''),
     (''dev_name'', ''TEXT''), (''driver_name'', ''TEXT''), (''reporter_name'', ''TEXT''),
     (''msg'', ''TEXT'')]"

definition devlink_event_tab :: db_table where
  "devlink_event_tab = \<lparr>tab_name = ''devlink_event'', tab_fields = devlink_event_fields\<rparr>"

definition diskerror_event_fields :: "(string \<times> string) list" where
  "diskerror_event_fields =
    [(''id'', ''INTEGER PRIMARY KEY''), (''timestamp'', ''TEXT''), (''dev'', ''TEXT''),
     (''sector'', ''INTEGER''), (''nr_sector'', ''INTEGER''), (''error'', ''TEXT''), (''rwbs'', ''TEXT''),
     (''cmd'', ''TEXT'')]"

definition diskerror_event_tab :: db_table where
  "diskerror_event_tab = \<lparr>tab_name = ''disk_errors'', tab_fields = diskerror_event_fields\<rparr>"

definition mf_event_fields :: "(string \<times> string) list" where
  "mf_event_fields =
    [(''id'', ''INTEGER PRIMARY KEY''), (''timestamp'', ''TEXT''), (''pfn'', ''TEXT''),
     (''page_type'', ''TEXT''), (''action_result'', ''TEXT'')]"

definition mf_event_tab :: db_table where
  "mf_event_tab = \<lparr>tab_name = ''memory_failure_event'', tab_fields = mf_event_fields\<rparr>"

definition cxl_poison_event_fields :: "(string \<times> string) list" where
  "cxl_poison_event_fields =
    [(''id'', ''INTEGER PRIMARY KEY''), (''timestamp'', ''TEXT''), (''memdev'', ''TEXT''),
     (''host'', ''TEXT''), (''serial'', ''INTEGER''), (''trace_type'', ''TEXT''), (''region'', ''TEXT''),
     (''region_uuid'', ''TEXT''), (''hpa'', ''INTEGER''), (''dpa'', ''INTEGER''),
     (''dpa_length'', ''INTEGER''), (''source'', ''TEXT''), (''flags'', ''INTEGER''),
     (''overflow_ts'', ''TEXT''), (''hpa_alias0'', ''INTEGER'')]"

definition cxl_poison_event_tab :: db_table where
  "cxl_poison_event_tab = \<lparr>tab_name = ''cxl_poison_event'', tab_fields = cxl_poison_event_fields\<rparr>"

definition cxl_aer_ue_event_fields :: "(string \<times> string) list" where
  "cxl_aer_ue_event_fields =
    [(''id'', ''INTEGER PRIMARY KEY''), (''timestamp'', ''TEXT''), (''memdev'', ''TEXT''),
     (''host'', ''TEXT''), (''serial'', ''INTEGER''), (''error_status'', ''INTEGER''),
     (''first_error'', ''INTEGER''), (''header_log'', ''BLOB'')]"

definition cxl_aer_ue_event_tab :: db_table where
  "cxl_aer_ue_event_tab = \<lparr>tab_name = ''cxl_aer_ue_event'', tab_fields = cxl_aer_ue_event_fields\<rparr>"

definition cxl_aer_ce_event_fields :: "(string \<times> string) list" where
  "cxl_aer_ce_event_fields =
    [(''id'', ''INTEGER PRIMARY KEY''), (''timestamp'', ''TEXT''), (''memdev'', ''TEXT''),
     (''host'', ''TEXT''), (''serial'', ''INTEGER''), (''error_status'', ''INTEGER'')]"

definition cxl_aer_ce_event_tab :: db_table where
  "cxl_aer_ce_event_tab = \<lparr>tab_name = ''cxl_aer_ce_event'', tab_fields = cxl_aer_ce_event_fields\<rparr>"

definition cxl_overflow_event_fields :: "(string \<times> string) list" where
  "cxl_overflow_event_fields =
    [(''id'', ''INTEGER PRIMARY KEY''), (''timestamp'', ''TEXT''), (''memdev'', ''TEXT''),
     (''host'', ''TEXT''), (''serial'', ''INTEGER''), (''log_type'', ''TEXT''), (''count'', ''INTEGER''),
     (''first_ts'', ''TEXT''), (''last_ts'', ''TEXT'')]"

definition cxl_overflow_event_tab :: db_table where
  "cxl_overflow_event_tab = \<lparr>tab_name = ''cxl_overflow_event'', tab_fields = cxl_overflow_event_fields\<rparr>"

definition cxl_generic_event_fields :: "(string \<times> string) list" where
  "cxl_generic_event_fields =
    [(''id'', ''INTEGER PRIMARY KEY''), (''timestamp'', ''TEXT''), (''memdev'', ''TEXT''),
     (''host'', ''TEXT''), (''serial'', ''INTEGER''), (''log_type'', ''TEXT''), (''hdr_uuid'', ''TEXT''),
     (''hdr_flags'', ''INTEGER''), (''hdr_handle'', ''INTEGER''), (''hdr_related_handle'', ''INTEGER''),
     (''hdr_ts'', ''TEXT''), (''hdr_length'', ''INTEGER''), (''hdr_maint_op_class'', ''INTEGER''),
     (''hdr_maint_op_sub_class'', ''INTEGER''), (''hdr_ld_id'', ''INTEGER''), (''hdr_head_id'', ''INTEGER''),
     (''data'', ''BLOB'')]"

definition cxl_generic_event_tab :: db_table where
  "cxl_generic_event_tab = \<lparr>tab_name = ''cxl_generic_event'', tab_fields = cxl_generic_event_fields\<rparr>"

definition cxl_general_media_event_fields :: "(string \<times> string) list" where
  "cxl_general_media_event_fields =
    [(''id'', ''INTEGER PRIMARY KEY''), (''timestamp'', ''TEXT''), (''memdev'', ''TEXT''),
     (''host'', ''TEXT''), (''serial'', ''INTEGER''), (''log_type'', ''TEXT''), (''hdr_uuid'', ''TEXT''),
     (''hdr_flags'', ''INTEGER''), (''hdr_handle'', ''INTEGER''), (''hdr_related_handle'', ''INTEGER''),
     (''hdr_ts'', ''TEXT''), (''hdr_length'', ''INTEGER''), (''hdr_maint_op_class'', ''INTEGER''),
     (''hdr_maint_op_sub_class'', ''INTEGER''), (''hdr_ld_id'', ''INTEGER''), (''hdr_head_id'', ''INTEGER''),
     (''dpa'', ''INTEGER''), (''dpa_flags'', ''INTEGER''), (''descriptor'', ''INTEGER''),
     (''type'', ''INTEGER''), (''transaction_type'', ''INTEGER''), (''channel'', ''INTEGER''),
     (''rank'', ''INTEGER''), (''device'', ''INTEGER''), (''comp_id'', ''BLOB''), (''hpa'', ''INTEGER''),
     (''region'', ''TEXT''), (''region_uuid'', ''TEXT''), (''pldm_entity_id'', ''BLOB''),
     (''pldm_resource_id'', ''BLOB''), (''sub_type'', ''INTEGER''), (''cme_threshold_ev_flags'', ''INTEGER''),
     (''cme_count'', ''INTEGER''), (''hpa_alias0'', ''INTEGER'')]"

definition cxl_general_media_event_tab :: db_table where
  "cxl_general_media_event_tab = \<lparr>tab_name = ''cxl_general_media_event'', tab_fields = cxl_general_media_event_fields\<rparr>"

definition cxl_dram_event_fields :: "(string \<times> string) list" where
  "cxl_dram_event_fields =
    [(''id'', ''INTEGER PRIMARY KEY''), (''timestamp'', ''TEXT''), (''memdev'', ''TEXT''),
     (''host'', ''TEXT''), (''serial'', ''INTEGER''), (''log_type'', ''TEXT''), (''hdr_uuid'', ''TEXT''),
     (''hdr_flags'', ''INTEGER''), (''hdr_handle'', ''INTEGER''), (''hdr_related_handle'', ''INTEGER''),
     (''hdr_ts'', ''TEXT''), (''hdr_length'', ''INTEGER''), (''hdr_maint_op_class'', ''INTEGER''),
     (''hdr_maint_op_sub_class'', ''INTEGER''), (''hdr_ld_id'', ''INTEGER''), (''hdr_head_id'', ''INTEGER''),
     (''dpa'', ''INTEGER''), (''dpa_flags'', ''INTEGER''), (''descriptor'', ''INTEGER''),
     (''type'', ''INTEGER''), (''transaction_type'', ''INTEGER''), (''channel'', ''INTEGER''),
     (''rank'', ''INTEGER''), (''nibble_mask'', ''INTEGER''), (''bank_group'', ''INTEGER''),
     (''bank'', ''INTEGER''), (''row'', ''INTEGER''), (''column'', ''INTEGER''), (''cor_mask'', ''BLOB''),
     (''hpa'', ''INTEGER''), (''region'', ''TEXT''), (''region_uuid'', ''TEXT''), (''comp_id'', ''BLOB''),
     (''pldm_entity_id'', ''BLOB''), (''pldm_resource_id'', ''BLOB''), (''sub_type'', ''INTEGER''),
     (''sub_channel'', ''INTEGER''), (''cme_threshold_ev_flags'', ''INTEGER''), (''cvme_count'', ''INTEGER''),
     (''hpa_alias0'', ''INTEGER'')]"

definition cxl_dram_event_tab :: db_table where
  "cxl_dram_event_tab = \<lparr>tab_name = ''cxl_dram_event'', tab_fields = cxl_dram_event_fields\<rparr>"

definition cxl_memory_module_event_fields :: "(string \<times> string) list" where
  "cxl_memory_module_event_fields =
    [(''id'', ''INTEGER PRIMARY KEY''), (''timestamp'', ''TEXT''), (''memdev'', ''TEXT''),
     (''host'', ''TEXT''), (''serial'', ''INTEGER''), (''log_type'', ''TEXT''), (''hdr_uuid'', ''TEXT''),
     (''hdr_flags'', ''INTEGER''), (''hdr_handle'', ''INTEGER''), (''hdr_related_handle'', ''INTEGER''),
     (''hdr_ts'', ''TEXT''), (''hdr_length'', ''INTEGER''), (''hdr_maint_op_class'', ''INTEGER''),
     (''hdr_maint_op_sub_class'', ''INTEGER''), (''hdr_ld_id'', ''INTEGER''), (''hdr_head_id'', ''INTEGER''),
     (''event_type'', ''INTEGER''), (''health_status'', ''INTEGER''), (''media_status'', ''INTEGER''),
     (''life_used'', ''INTEGER''), (''dirty_shutdown_cnt'', ''INTEGER''), (''cor_vol_err_cnt'', ''INTEGER''),
     (''cor_per_err_cnt'', ''INTEGER''), (''device_temp'', ''INTEGER''), (''add_status'', ''INTEGER''),
     (''event_sub_type'', ''INTEGER''), (''comp_id'', ''BLOB''), (''pldm_entity_id'', ''BLOB''),
     (''pldm_resource_id'', ''BLOB'')]"

definition cxl_memory_module_event_tab :: db_table where
  "cxl_memory_module_event_tab = \<lparr>tab_name = ''cxl_memory_module_event'', tab_fields = cxl_memory_module_event_fields\<rparr>"

definition signal_event_fields :: "(string \<times> string) list" where
  "signal_event_fields =
    [(''id'', ''INTEGER PRIMARY KEY''), (''timestamp'', ''TEXT''), (''sig'', ''INTEGER''),
     (''errorno'', ''INTEGER''), (''code'', ''INTEGER''), (''comm'', ''TEXT''), (''pid'', ''INTEGER''),
     (''grp'', ''INTEGER''), (''res'', ''INTEGER'')]"

definition signal_event_tab :: db_table where
  "signal_event_tab = \<lparr>tab_name = ''signal_event'', tab_fields = signal_event_fields\<rparr>"

definition reri_event_fields :: "(string \<times> string) list" where
  "reri_event_fields =
    [(''id'', ''INTEGER PRIMARY KEY''), (''timestamp'', ''TEXT''), (''err_src_id'', ''INTEGER''),
     (''source_type'', ''INTEGER''), (''severity'', ''INTEGER''), (''hart_id'', ''INTEGER''),
     (''cluster_id'', ''INTEGER''), (''status'', ''INTEGER''), (''addr_info'', ''INTEGER''),
     (''info'', ''INTEGER''), (''suppl_info'', ''INTEGER''), (''timestamp_val'', ''INTEGER'')]"

definition reri_event_tab :: db_table where
  "reri_event_tab = \<lparr>tab_name = ''reri_event'', tab_fields = reri_event_fields\<rparr>"

definition all_tables :: "db_table list" where
  "all_tables =
    [mc_event_tab, aer_event_tab, non_standard_event_tab, arm_event_tab, extlog_event_tab,
     mce_record_tab, devlink_event_tab, diskerror_event_tab, mf_event_tab,
     cxl_poison_event_tab, cxl_aer_ue_event_tab, cxl_aer_ce_event_tab, cxl_overflow_event_tab,
     cxl_generic_event_tab, cxl_general_media_event_tab, cxl_dram_event_tab,
     cxl_memory_module_event_tab, signal_event_tab, reri_event_tab]"

section \<open>Statements\<close>

text \<open>
  The buffer with what it reads as, and the offset of \<open>p\<close>. \<open>snprintf\<close> moves \<open>p\<close> by the length of the text
  whether or not it fits: once \<open>p\<close> is past the end, \<open>end - p\<close> is a huge size and the next call is undefined,
  \<open>None\<close>.
\<close>

type_synonym sql_buf = "string \<times> nat"

definition SQL_SIZE :: nat where "SQL_SIZE = 1024"

definition sql_put :: "string \<Rightarrow> sql_buf \<Rightarrow> sql_buf option" where
  "sql_put s b =
     (case b of (t, p) \<Rightarrow>
        if SQL_SIZE < p then None
        else Some (if p = SQL_SIZE then t else take (SQL_SIZE - 1) (t @ s), p + length s))"

text \<open>The columns of a table, each printed by \<open>f\<close>, with commas between them.\<close>

fun sql_columns :: "(string \<times> string \<Rightarrow> string) \<Rightarrow> (string \<times> string) list \<Rightarrow> sql_buf \<Rightarrow> sql_buf option" where
  "sql_columns f [] b = Some b"
| "sql_columns f [x] b = sql_put (f x) b"
| "sql_columns f (x # xs) b = do { b \<leftarrow> sql_put (f x) b; b \<leftarrow> sql_put '', '' b; sql_columns f xs b }"

definition column_def :: "string \<times> string \<Rightarrow> string" where
  "column_def c = fst c @ '' '' @ snd c"

definition create_sql :: "db_table \<Rightarrow> string option" where
  "create_sql tab = do {
     b \<leftarrow> sql_put (''CREATE TABLE IF NOT EXISTS '' @ tab_name tab @ '' ('') ([], 0);
     b \<leftarrow> sql_columns column_def (tab_fields tab) b;
     b \<leftarrow> sql_put '')'' b;
     Some (fst b)
   }"

text \<open>
  The parameters are appended with \<open>strscat\<close>, which looks for the end of the string itself: after \<open>i\<close> columns,
  one parameter for each of the others but the first, whose value is \<open>NULL\<close>.
\<close>

definition sql_cat :: "string \<Rightarrow> string \<Rightarrow> string" where
  "sql_cat t s = take (SQL_SIZE - 1) (t @ s)"

definition sql_params :: "nat \<Rightarrow> string \<Rightarrow> string" where
  "sql_params n t = fold (\<lambda>i t. sql_cat t (if i < n - 1 then ''?, '' else ''?)'')) [1..<n] t"

definition insert_sql :: "db_table \<Rightarrow> string option" where
  "insert_sql tab = do {
     b \<leftarrow> sql_put (''INSERT INTO '' @ tab_name tab @ '' ('') ([], 0);
     b \<leftarrow> sql_columns fst (tab_fields tab) b;
     b \<leftarrow> sql_put '') VALUES ( NULL, '' b;
     Some (sql_params (length (tab_fields tab)) (fst b))
   }"

definition select_sql :: "db_table \<Rightarrow> string option" where
  "select_sql tab = map_option fst (sql_put (''SELECT * FROM '' @ tab_name tab) ([], 0))"

definition alter_sql :: "db_table \<Rightarrow> string \<times> string \<Rightarrow> string option" where
  "alter_sql tab c = do {
     b \<leftarrow> sql_put (''ALTER TABLE '' @ tab_name tab @ '' ADD '') ([], 0);
     b \<leftarrow> sql_put (column_def c) b;
     Some (fst b)
   }"

section \<open>What they read\<close>

text \<open>Texts separated by commas.\<close>

definition comma_list :: "string list \<Rightarrow> string" where
  "comma_list ts = concat (case ts of [] \<Rightarrow> [] | t # us \<Rightarrow> t # map (\<lambda>u. '', '' @ u) us)"

definition create_text :: "db_table \<Rightarrow> string" where
  "create_text tab =
     ''CREATE TABLE IF NOT EXISTS '' @ tab_name tab @ '' ('' @ comma_list (map column_def (tab_fields tab)) @ '')''"

definition insert_text :: "db_table \<Rightarrow> string" where
  "insert_text tab =
     ''INSERT INTO '' @ tab_name tab @ '' ('' @ comma_list (map fst (tab_fields tab)) @ '') VALUES ( NULL, '' @
       comma_list (replicate (length (tab_fields tab) - 1) ''?'') @ '')''"

definition alter_text :: "db_table \<Rightarrow> string \<times> string \<Rightarrow> string" where
  "alter_text tab c = ''ALTER TABLE '' @ tab_name tab @ '' ADD '' @ column_def c"

lemma sql_put_fits [simp]:
  "length t + length s < SQL_SIZE \<Longrightarrow> sql_put s (t, length t) = Some (t @ s, length (t @ s))"
  by (auto simp: sql_put_def SQL_SIZE_def)

lemma comma_list_simps [simp]:
  "comma_list [] = []" "comma_list [t] = t" "comma_list (t # u # us) = t @ '', '' @ comma_list (u # us)"
  by (simp_all add: comma_list_def)

lemma sql_columns_fits:
  "length t + length (comma_list (map f cs)) < SQL_SIZE \<Longrightarrow>
   sql_columns f cs (t, length t) = Some (t @ comma_list (map f cs), length (t @ comma_list (map f cs)))"
proof (induction f cs "(t, length t)" arbitrary: t rule: sql_columns.induct)
  case (3 f x y ys)
  let ?u = "(t @ f x) @ '', ''"
  have room: "length t + length (f x) + 2 + length (comma_list (map f (y # ys))) < SQL_SIZE"
    using 3(2) by simp
  have put: "sql_put (f x) (t, length t) = Some (t @ f x, length (t @ f x))"
    using room by (intro sql_put_fits) linarith
  have comma: "sql_put '', '' (t @ f x, length (t @ f x)) = Some (?u, length ?u)"
    using room by (intro sql_put_fits) simp
  have "sql_columns f (y # ys) (?u, length ?u) =
      Some (?u @ comma_list (map f (y # ys)), length (?u @ comma_list (map f (y # ys))))"
    using 3(1) [OF put comma] room by simp
  then show ?case using put comma by simp
qed auto


lemma create_sql_fits: "length (create_text tab) < SQL_SIZE \<Longrightarrow> create_sql tab = Some (create_text tab)"
  using sql_columns_fits [of "''CREATE TABLE IF NOT EXISTS '' @ tab_name tab @ '' (''" column_def "tab_fields tab"]
    sql_put_fits [of "[]" "''CREATE TABLE IF NOT EXISTS '' @ tab_name tab @ '' (''"]
    sql_put_fits [of "(''CREATE TABLE IF NOT EXISTS '' @ tab_name tab @ '' ('') @ comma_list (map column_def (tab_fields tab))" "'')''"]
  by (simp add: create_sql_def create_text_def del: sql_put_fits)

lemma alter_sql_fits: "length (alter_text tab c) < SQL_SIZE \<Longrightarrow> alter_sql tab c = Some (alter_text tab c)"
  using sql_put_fits [of "[]" "''ALTER TABLE '' @ tab_name tab @ '' ADD ''"]
    sql_put_fits [of "''ALTER TABLE '' @ tab_name tab @ '' ADD ''" "column_def c"]
  by (simp add: alter_sql_def alter_text_def del: sql_put_fits)

lemma sql_cat_fits [simp]: "length t + length s < SQL_SIZE \<Longrightarrow> sql_cat t s = t @ s"
  by (simp add: sql_cat_def)

lemma comma_list_snoc: "ts \<noteq> [] \<Longrightarrow> comma_list (ts @ [t]) = comma_list ts @ '', '' @ t"
  by (cases ts) (simp_all add: comma_list_def)

lemma length_params: "length (comma_list (replicate (Suc k) ''?'')) = 3 * k + 1"
proof (induction k)
  case (Suc k)
  then show ?case by (cases k) simp_all
qed simp

lemma sql_params_fits:
  assumes "2 \<le> n" and "length t + 3 * (n - 1) \<le> SQL_SIZE"
  shows "sql_params n t = t @ comma_list (replicate (n - 1) ''?'') @ '')''"
proof -
  have part: "fold (\<lambda>i t. sql_cat t (if i < n - 1 then ''?, '' else ''?)'')) [1..<Suc k] t =
      t @ concat (replicate k ''?, '')" if "k < n - 1" for k
    using that
  proof (induction k)
    case (Suc k)
    have [simp]: "length (concat (replicate k ''?, '')) = 3 * k" by (induction k) simp_all
    have snoc: "concat (replicate k ''?, '') @ ''?, '' = concat (replicate (Suc k) ''?, '')"
      by (simp flip: replicate_append_same)
    show ?case using Suc assms(2) snoc by simp
  qed simp
  obtain k where n: "n = Suc (Suc k)" using assms(1) by (metis add_2_eq_Suc le_Suc_ex)
  have len: "length (concat (replicate k ''?, '')) = 3 * k" by (induction k) simp_all
  have "sql_params n t = sql_cat (t @ concat (replicate k ''?, '')) ''?)''"
    unfolding sql_params_def using part [of k] by (simp add: n)
  also have "\<dots> = t @ concat (replicate k ''?, '') @ ''?)''"
    using assms(2) len by (simp add: n)
  also have "concat (replicate k ''?, '') @ ''?)'' = comma_list (replicate (Suc k) ''?'') @ '')''"
    by (induction k) simp_all
  finally show ?thesis by (simp add: n)
qed

lemma insert_sql_fits:
  assumes "2 \<le> length (tab_fields tab)" and "length (insert_text tab) < SQL_SIZE"
  shows "insert_sql tab = Some (insert_text tab)"
proof -
  let ?n = "length (tab_fields tab)"
  let ?a = "''INSERT INTO '' @ tab_name tab @ '' (''" and ?c = "comma_list (map fst (tab_fields tab))"
  let ?h = "(?a @ ?c) @ '') VALUES ( NULL, ''"
  obtain k where k: "?n = Suc (Suc k)" using assms(1) by (metis add_2_eq_Suc le_Suc_ex)
  have insert: "insert_text tab = ?h @ comma_list (replicate (?n - 1) ''?'') @ '')''"
    by (simp add: insert_text_def)
  have room: "length ?h + 3 * (?n - 1) \<le> SQL_SIZE"
    using assms(2) length_params [of k] unfolding insert by (simp add: k SQL_SIZE_def)
  have "sql_put ?a ([], 0) = Some (?a, length ?a)"
    using sql_put_fits [of "[]" ?a] room by simp
  moreover have "sql_columns fst (tab_fields tab) (?a, length ?a) = Some (?a @ ?c, length (?a @ ?c))"
    using room by (intro sql_columns_fits) simp
  moreover have "sql_put '') VALUES ( NULL, '' (?a @ ?c, length (?a @ ?c)) = Some (?h, length ?h)"
    using room by (intro sql_put_fits) (simp add: k)
  ultimately show ?thesis
    using sql_params_fits [OF assms(1) room] insert by (simp add: insert_sql_def)
qed

section \<open>No statement of the schema is cut\<close>

definition texts_fit :: "db_table \<Rightarrow> bool" where
  "texts_fit tab \<longleftrightarrow>
     2 \<le> length (tab_fields tab) \<and> length (create_text tab) < SQL_SIZE \<and> length (insert_text tab) < SQL_SIZE \<and>
     list_all (\<lambda>c. length (alter_text tab c) < SQL_SIZE) (tab_fields tab)"

lemmas schema_defs =
  mc_event_fields_def mc_event_tab_def aer_event_fields_def aer_event_tab_def
  non_standard_event_fields_def non_standard_event_tab_def arm_event_fields_def arm_event_tab_def
  extlog_event_fields_def extlog_event_tab_def mce_record_fields_def mce_record_tab_def
  devlink_event_fields_def devlink_event_tab_def diskerror_event_fields_def diskerror_event_tab_def
  mf_event_fields_def mf_event_tab_def cxl_poison_event_fields_def cxl_poison_event_tab_def
  cxl_aer_ue_event_fields_def cxl_aer_ue_event_tab_def cxl_aer_ce_event_fields_def
  cxl_aer_ce_event_tab_def cxl_overflow_event_fields_def cxl_overflow_event_tab_def
  cxl_generic_event_fields_def cxl_generic_event_tab_def cxl_general_media_event_fields_def
  cxl_general_media_event_tab_def cxl_dram_event_fields_def cxl_dram_event_tab_def
  cxl_memory_module_event_fields_def cxl_memory_module_event_tab_def signal_event_fields_def
  signal_event_tab_def reri_event_fields_def reri_event_tab_def

lemma texts_fit_all: "list_all texts_fit all_tables"
  by (simp add: all_tables_def texts_fit_def schema_defs SQL_SIZE_def create_text_def insert_text_def alter_text_def
      column_def_def comma_list_def)

text \<open>The append is that of \<open>strscat\<close> on the buffer.\<close>

lemma sql_cat_strscat:
  assumes "holds_str src s" and "NUL \<notin> set t" and "buf = t @ NUL # rest" and "length buf = SQL_SIZE"
  shows "\<exists>buf' r. strscat buf src SQL_SIZE = Some (buf', r) \<and> length buf' = SQL_SIZE \<and> c_str buf' = sql_cat t s"
  using strscat_appends [OF assms(1-3), of SQL_SIZE] assms(3,4) by (auto simp: sql_cat_def SQL_SIZE_def)

text \<open>
  C37: no statement that the program puts together for one of its tables is cut by the buffer of 1024 bytes.
  The statement that creates a table lists every column with its type, the one that adds a column names the
  table, the column and the type, and the one that inserts an event lists every column, with a value for the
  first and one parameter for each of the others.
\<close>

theorem sql_statements_exact:
  "list_all (\<lambda>tab. create_sql tab = Some (create_text tab) \<and> insert_sql tab = Some (insert_text tab) \<and>
     list_all (\<lambda>c. alter_sql tab c = Some (alter_text tab c)) (tab_fields tab)) all_tables"
  using texts_fit_all
  by (auto simp: list_all_iff texts_fit_def intro: create_sql_fits insert_sql_fits alter_sql_fits)

end
