(* ===== verification/Reri_Handler.thy ===== *)
theory Reri_Handler
  imports Raw_Data Cpu_Isolation
begin

text \<open>
  The errors of a RISC-V machine: \<open>ras-reri-handler.c\<close>, with its effect on the isolation of CPUs. The handler
  passes a null pointer in the place of the error, and \<open>None\<close> is the read through it.
\<close>

section \<open>The status register\<close>

definition RERI_GET_FIELD :: "u64 \<Rightarrow> nat \<Rightarrow> u64 \<Rightarrow> u64" where
  "RERI_GET_FIELD val offset m = and (drop_bit offset val) m"

definition RERI_STATUS_GET_CE :: "u64 \<Rightarrow> u8" where "RERI_STATUS_GET_CE x = ucast (RERI_GET_FIELD x 1 0x1)"
definition RERI_STATUS_GET_UED :: "u64 \<Rightarrow> u8" where "RERI_STATUS_GET_UED x = ucast (RERI_GET_FIELD x 2 0x1)"
definition RERI_STATUS_GET_UEC :: "u64 \<Rightarrow> u8" where "RERI_STATUS_GET_UEC x = ucast (RERI_GET_FIELD x 3 0x1)"
definition RERI_STATUS_GET_TT :: "u64 \<Rightarrow> u8" where "RERI_STATUS_GET_TT x = ucast (RERI_GET_FIELD x 8 0x7)"
definition RERI_STATUS_GET_IV :: "u64 \<Rightarrow> u64" where "RERI_STATUS_GET_IV x = RERI_GET_FIELD x 11 0x1"
definition RERI_STATUS_GET_AIT :: "u64 \<Rightarrow> u8" where "RERI_STATUS_GET_AIT x = ucast (RERI_GET_FIELD x 12 0xF)"
definition RERI_STATUS_GET_SIV :: "u64 \<Rightarrow> u64" where "RERI_STATUS_GET_SIV x = RERI_GET_FIELD x 16 0x1"
definition RERI_STATUS_GET_TSV :: "u64 \<Rightarrow> u64" where "RERI_STATUS_GET_TSV x = RERI_GET_FIELD x 17 0x1"
definition RERI_STATUS_GET_EC :: "u64 \<Rightarrow> u8" where "RERI_STATUS_GET_EC x = ucast (RERI_GET_FIELD x 24 0xFF)"

lemmas reri_status_defs =
  RERI_STATUS_GET_CE_def RERI_STATUS_GET_UED_def RERI_STATUS_GET_UEC_def RERI_GET_FIELD_def

section \<open>Names\<close>

definition RERI_SOURCE_TYPE_CPU :: u8 where "RERI_SOURCE_TYPE_CPU = 0"
definition RERI_AIT_NONE :: u8 where "RERI_AIT_NONE = 0"
definition RERI_SEV_INFORMATIONAL :: u8 where "RERI_SEV_INFORMATIONAL = 0"
definition RERI_SEV_CORRECTED :: u8 where "RERI_SEV_CORRECTED = 1"
definition RERI_SEV_RECOVERABLE :: u8 where "RERI_SEV_RECOVERABLE = 2"
definition RERI_SEV_FATAL :: u8 where "RERI_SEV_FATAL = 3"

lemmas reri_sev_defs =
  RERI_SEV_INFORMATIONAL_def RERI_SEV_CORRECTED_def RERI_SEV_RECOVERABLE_def RERI_SEV_FATAL_def

definition reri_error_code_str :: "string list" where
  "reri_error_code_str =
     [''No error'', ''Other unspecified error'', ''Corrupted data access'', ''Cache block data error'',
      ''Cache scrubbing detected'', ''Cache address/state error'', ''Cache unspecified error'',
      ''Snoop-filter/directory error'', ''Snoop-filter/directory unspecified error'',
      ''TLB/Page-walk cache data error'', ''TLB/Page-walk address control error'',
      ''TLB/Page-walk unknown error'', ''Hart state error'', ''Interrupt controller state error'',
      ''Interconnect data error'', ''Interconnection other error'', ''Internal watchdog error'',
      ''Internal datapath/execution unit error'', ''System memory bus error'',
      ''System memory unspecified error'', ''System memory data error'',
      ''System memory scrubbing detected'', ''Protocol error illegal IO'', ''Protocol error unexpected state'',
      ''Protocol error timeout'', ''System internal controller error'',
      ''Deferred error passthrough not supported'', ''PCI/CXL detected error'']"

definition reri_transaction_type_str :: "string list" where
  "reri_transaction_type_str =
     [''Unspecified'', ''Custom'', ''Reserved'', ''Reserved'', ''Explicit Read'', ''Explicit Write'',
      ''Implicit Read'', ''Implicit Write'']"

definition reri_ait_str :: "string list" where
  "reri_ait_str = [''None'', ''Supervisor Physical Address'', ''Guest Physical Address'', ''Virtual Address'']"

definition reri_source_type_str :: "string list" where
  "reri_source_type_str = [''CPU'', ''IOMMU'', ''Unknown'']"

definition reri_severity_str :: "string list" where
  "reri_severity_str = [''Informational'', ''Corrected'', ''Recoverable'', ''Fatal'']"

definition GET_STR_FROM_ARRAY :: "u8 \<Rightarrow> string list \<Rightarrow> string \<Rightarrow> string" where
  "GET_STR_FROM_ARRAY i t default_str = (if unat i < length t then t ! unat i else default_str)"

definition get_error_code_str :: "u8 \<Rightarrow> string" where
  "get_error_code_str ec = GET_STR_FROM_ARRAY ec reri_error_code_str ''Unknown error code''"

definition get_transaction_type_str :: "u8 \<Rightarrow> string" where
  "get_transaction_type_str tt = GET_STR_FROM_ARRAY tt reri_transaction_type_str ''Unknown transaction type''"

definition get_ait_str :: "u8 \<Rightarrow> string" where
  "get_ait_str ait = GET_STR_FROM_ARRAY ait reri_ait_str ''Unknown''"

definition get_source_type_str :: "u8 \<Rightarrow> string" where
  "get_source_type_str t = GET_STR_FROM_ARRAY t reri_source_type_str ''Unknown''"

definition get_severity_str :: "u8 \<Rightarrow> string" where
  "get_severity_str sev = GET_STR_FROM_ARRAY sev reri_severity_str ''Unknown''"

definition get_error_type_category :: "u8 \<Rightarrow> string" where
  "get_error_type_category ec =
     (if ec \<in> {3, 5, 4, 6, 2} then ''Cache''
      else if ec \<in> {9, 10, 11} then ''TLB''
      else if ec = 18 then ''Bus''
      else if ec \<in> {12, 14, 15, 16, 17, 7, 19, 20, 21, 22, 23, 24, 25} then ''Microarchitecture''
      else ''Unknown'')"

section \<open>The handler\<close>

record ras_reri_event =
  rr_timestamp :: string
  rr_err_src_id :: u16
  rr_source_type :: u8
  rr_severity :: u8
  rr_hart_id :: u32
  rr_cluster_id :: u32
  rr_status :: u64
  rr_addr_info :: u64
  rr_info :: u64
  rr_suppl_info :: u64
  rr_timestamp_val :: u64

definition ras_reri_event0 :: ras_reri_event where
  "ras_reri_event0 =
     \<lparr>rr_timestamp = [], rr_err_src_id = 0, rr_source_type = 0, rr_severity = 0, rr_hart_id = 0, rr_cluster_id = 0,
      rr_status = 0, rr_addr_info = 0, rr_info = 0, rr_suppl_info = 0, rr_timestamp_val = 0\<rparr>"

text \<open>
  A field that may be missing, for a CPU its number and that of its cluster. A number that is too large
  for its field is an error, and the handler has then returned.
\<close>

definition reri_hart :: "trace_event \<Rightarrow> string \<Rightarrow> ras_reri_event \<Rightarrow> string \<times> (ras_reri_event \<times> bool) option" where
  "reri_hart e out ev =
     (case field_val e ''hart_id'' of
        None \<Rightarrow> (out @ complaint e ''hart_id'', Some (ev, False))
      | Some v \<Rightarrow>
          if v > 0xFFFFFFFF then (out, None)
          else (out @ '' hart_id: '' @ fmt_u (ucast v :: u32), Some (ev\<lparr>rr_hart_id := ucast v\<rparr>, True)))"

definition reri_cluster :: "trace_event \<Rightarrow> string \<Rightarrow> ras_reri_event \<Rightarrow> string \<times> ras_reri_event option" where
  "reri_cluster e out ev =
     (case field_val e ''cluster_id'' of
        None \<Rightarrow> (out @ complaint e ''cluster_id'', Some ev)
      | Some v \<Rightarrow>
          if v > 0xFFFFFFFF then (out, None)
          else (out @ '' cluster_id: '' @ fmt_u (ucast v :: u32), Some (ev\<lparr>rr_cluster_id := ucast v\<rparr>)))"

definition reri_place :: "trace_event \<Rightarrow> string \<Rightarrow> ras_reri_event \<Rightarrow> string \<times> (ras_reri_event \<times> bool) option" where
  "reri_place e out ev =
     (if rr_source_type ev \<noteq> RERI_SOURCE_TYPE_CPU then (out, Some (ev, False))
      else case reri_hart e out ev of
        (out, None) \<Rightarrow> (out, None)
      | (out, Some (ev, valid)) \<Rightarrow>
          (case reri_cluster e out ev of
             (out, None) \<Rightarrow> (out, None)
           | (out, Some ev) \<Rightarrow> (out, Some (ev, valid))))"

definition reri_severity :: "u64 \<Rightarrow> u8" where
  "reri_severity st =
     (if RERI_STATUS_GET_UEC st \<noteq> 0 then RERI_SEV_FATAL
      else if RERI_STATUS_GET_UED st \<noteq> 0 then RERI_SEV_RECOVERABLE
      else if RERI_STATUS_GET_CE st \<noteq> 0 then RERI_SEV_CORRECTED
      else RERI_SEV_INFORMATIONAL)"

text \<open>A register that the status says is valid, kept and printed if the record has it.\<close>

definition reri_register ::
  "bool \<Rightarrow> trace_event \<Rightarrow> string \<Rightarrow> (u64 \<Rightarrow> ras_reri_event \<Rightarrow> ras_reri_event) \<Rightarrow> (u64 \<Rightarrow> string) \<Rightarrow>
   string \<times> ras_reri_event \<Rightarrow> string \<times> ras_reri_event" where
  "reri_register valid e f keep print x =
     (case x of (out, ev) \<Rightarrow>
        if \<not> valid then (out, ev)
        else case field_val e f of
          None \<Rightarrow> (out @ complaint e f, ev)
        | Some v \<Rightarrow> (out @ print v, keep v ev))"

definition reri_line :: "string \<Rightarrow> string" where
  "reri_line t = CHR 0x0A # '' '' @ t"

definition reri_decode :: "trace_event \<Rightarrow> string \<Rightarrow> ras_reri_event \<Rightarrow> string \<times> ras_reri_event" where
  "reri_decode e out ev =
     (let st = rr_status ev; ait = RERI_STATUS_GET_AIT st; tt = RERI_STATUS_GET_TT st; ec = RERI_STATUS_GET_EC st;
          ev = ev\<lparr>rr_severity := reri_severity st\<rparr>;
          out = out @ reri_line (''severity: '' @ get_severity_str (rr_severity ev)) @
            reri_line (''error_type: '' @ get_error_type_category ec) @
            reri_line (''error_code: 0x'' @ hex2 ec @ '' ('' @ get_error_code_str ec @ '')'') @
            (if tt \<noteq> 0 then reri_line (''transaction_type: 0x'' @ hex2 tt @ '' ('' @ get_transaction_type_str tt @ '')'')
             else []);
          (out, ev) = reri_register (RERI_STATUS_GET_TSV st \<noteq> 0) e ''timestamp_val'' (\<lambda>v. rr_timestamp_val_update (\<lambda>_. v))
              (\<lambda>v. reri_line (''hw_timestamp: 0x'' @ fmt_x v))
            (reri_register (RERI_STATUS_GET_SIV st \<noteq> 0) e ''suppl_info'' (\<lambda>v. rr_suppl_info_update (\<lambda>_. v))
              (\<lambda>v. reri_line (''suppl_info: 0x'' @ fmt_x v))
            (reri_register (RERI_STATUS_GET_IV st \<noteq> 0) e ''info'' (\<lambda>v. rr_info_update (\<lambda>_. v))
              (\<lambda>v. reri_line (''info: 0x'' @ fmt_x v))
            (reri_register (ait \<noteq> RERI_AIT_NONE) e ''addr_info'' (\<lambda>v. rr_addr_info_update (\<lambda>_. v))
              (\<lambda>v. reri_line (''address_type: '' @ get_ait_str ait) @ reri_line (''address: 0x'' @ fmt_x v))
            (out, ev))))
      in (out @ reri_line (''status_reg: 0x'' @ fmt_x st) @ [CHR 0x0A], ev))"

text \<open>
  \<open>ras_record_cpu_error\<close> called with a null pointer: the tests before the error is looked at are those of
  any error, and then it is read.
\<close>

definition record_null_cpu_error :: "cpu_env \<Rightarrow> s32 \<Rightarrow> cpu_sys \<Rightarrow> cpu_sys option" where
  "record_null_cpu_error env cpu s =
     (if \<not> enabled s then Some s
      else if cpu \<ge> ncores s \<or> sint cpu < 0 then Some s
      else do {
        info \<leftarrow> get_info s cpu;
        let st = get_cpu_status (env_online env cpu);
        if st \<noteq> CPU_ONLINE then Some (set_info s cpu (info\<lparr>cpu_state := st\<rparr>)) else None
      })"

definition reri_isolate :: "bool \<Rightarrow> cpu_env \<Rightarrow> ras_reri_event \<Rightarrow> bool \<Rightarrow> cpu_sys \<Rightarrow> cpu_sys option" where
  "reri_isolate have_isolation env ev hart_id_valid s =
     (if have_isolation \<and> rr_source_type ev = RERI_SOURCE_TYPE_CPU \<and>
         (rr_severity ev = RERI_SEV_FATAL \<or> rr_severity ev = RERI_SEV_RECOVERABLE) \<and> hart_id_valid
      then record_null_cpu_error env (rr_hart_id ev) s
      else Some s)"

definition ras_reri_event_handler ::
  "bool \<Rightarrow> cpu_env \<Rightarrow> clock \<Rightarrow> trace_event \<Rightarrow> cpu_sys \<Rightarrow> ((string \<times> ras_reri_event option) \<times> cpu_sys) option" where
  "ras_reri_event_handler have_isolation env ck e s =
     (let stamp = (case strf ck (event_time ck) of None \<Rightarrow> [] | Some t \<Rightarrow> t);
          out = loglevel_str LOGLEVEL_ERR @ '' '' @ stamp;
          ev = ras_reri_event0\<lparr>rr_timestamp := stamp\<rparr>
      in case field_val e ''err_src_id'' of
        None \<Rightarrow> Some ((out @ complaint e ''err_src_id'', None), s)
      | Some v \<Rightarrow> if v > 0xFFFF then Some ((out, None), s) else
      let ev = ev\<lparr>rr_err_src_id := ucast v\<rparr>; out = out @ '' err_src_id: 0x'' @ fmt_x (rr_err_src_id ev)
      in case field_val e ''source_type'' of
        None \<Rightarrow> Some ((out @ complaint e ''source_type'', None), s)
      | Some v \<Rightarrow> if v > 0xFF then Some ((out, None), s) else
      let ev = ev\<lparr>rr_source_type := ucast v\<rparr>; out = out @ '' source: '' @ get_source_type_str (rr_source_type ev)
      in case reri_place e out ev of
        (out, None) \<Rightarrow> Some ((out, None), s)
      | (out, Some (ev, valid)) \<Rightarrow>
      (case field_val e ''status'' of
        None \<Rightarrow> Some ((out @ complaint e ''status'', None), s)
      | Some v \<Rightarrow>
      let (out, ev) = reri_decode e out (ev\<lparr>rr_status := v\<rparr>)
      in map_option (Pair (out, Some ev)) (reri_isolate have_isolation env ev valid s)))"

section \<open>When it is defined\<close>

text \<open>The null pointer changes nothing on the paths that do not read it.\<close>

lemma record_null_same: "record_null_cpu_error env cpu s = Some s' \<Longrightarrow> ras_record_cpu_error env err cpu s = Some s'"
  by (auto simp: record_null_cpu_error_def ras_record_cpu_error_def Let_def split: if_splits bind_splits)

lemma reri_register_keeps:
  "(\<And>v ev. g (keep v ev) = g ev) \<Longrightarrow> g (snd (reri_register valid e f keep p x)) = g (snd x)"
  by (cases x) (simp add: reri_register_def split: option.split)

lemma reri_decode_fields:
  "rr_severity (snd (reri_decode e out ev)) = reri_severity (rr_status ev)"
  "rr_source_type (snd (reri_decode e out ev)) = rr_source_type ev"
  "rr_hart_id (snd (reri_decode e out ev)) = rr_hart_id ev"
  by (simp_all add: reri_decode_def Let_def case_prod_beta reri_register_keeps)

lemma one_bit: "(ucast (and (drop_bit n w) 0x1) :: u8) \<noteq> 0 \<longleftrightarrow> bit (w :: u64) n"
proof -
  have "and (drop_bit n w) 1 = of_bool (bit w n)" by (simp add: and_one_eq mod_2_eq_odd bit_iff_odd_drop_bit)
  then show ?thesis by simp
qed

lemma reri_uncorrected:
  "reri_severity st = RERI_SEV_FATAL \<or> reri_severity st = RERI_SEV_RECOVERABLE \<longleftrightarrow> bit st 2 \<or> bit st 3"
  by (simp add: reri_severity_def reri_status_defs one_bit reri_sev_defs)

lemma record_null_undefined:
  "record_null_cpu_error env cpu s = None \<longleftrightarrow>
     enabled s \<and> cpu < ncores s \<and> 0 \<le> sint cpu \<and>
     (get_info s cpu = None \<or> get_cpu_status (env_online env cpu) = CPU_ONLINE)"
  by (cases "get_info s cpu") (auto simp: record_null_cpu_error_def Let_def not_le)

text \<open>
  C32: with CPU fault isolation built in, the handler has undefined behaviour exactly when the record is one
  of an uncorrected error of a CPU (bit 2 or 3 of its status), its numbers fit their fields, and isolation
  is enabled and finds that CPU online: instead of counting the error, and taking the CPU offline, the
  program reads through a null pointer.
\<close>

theorem reri_isolation_undefined:
  "ras_reri_event_handler True env ck e s = None \<longleftrightarrow>
     (\<exists>src hart st. field_val e ''err_src_id'' = Some src \<and> src \<le> 0xFFFF \<and>
        field_val e ''source_type'' = Some 0 \<and> field_val e ''hart_id'' = Some hart \<and> hart \<le> 0xFFFFFFFF \<and>
        (case field_val e ''cluster_id'' of None \<Rightarrow> True | Some c \<Rightarrow> c \<le> 0xFFFFFFFF) \<and>
        field_val e ''status'' = Some st \<and> (bit st 2 \<or> bit st 3) \<and>
        enabled s \<and> ucast hart < ncores s \<and> 0 \<le> sint (ucast hart :: s32) \<and>
        (get_info s (ucast hart) = None \<or> get_cpu_status (env_online env (ucast hart)) = CPU_ONLINE))"
proof -
  have small: "ucast t = (0 :: u8) \<longleftrightarrow> t = 0" if "t \<le> 0xFF" for t :: u64
  proof -
    have "unat t < 2 ^ 8" using that by (simp add: word_le_nat_alt)
    then show ?thesis by (simp add: word_unat_eq_iff unsigned_ucast_eq unsigned_take_bit_eq take_bit_nat_eq_self)
  qed
  have iso: "reri_isolate True env (snd (reri_decode e out ev)) valid s = None \<longleftrightarrow>
      rr_source_type ev = 0 \<and> valid \<and> (bit (rr_status ev) 2 \<or> bit (rr_status ev) 3) \<and>
      record_null_cpu_error env (rr_hart_id ev) s = None" for out ev valid
    using reri_uncorrected [of "rr_status ev"]
    by (auto simp: reri_isolate_def RERI_SOURCE_TYPE_CPU_def reri_decode_fields)
  have place: "snd (reri_place e out ev) =
      (if rr_source_type ev \<noteq> 0 then Some (ev, False)
       else case field_val e ''hart_id'' of
         None \<Rightarrow> map_option (\<lambda>ev. (ev, False)) (snd (reri_cluster e [] ev))
       | Some h \<Rightarrow> if h > 0xFFFFFFFF then None
           else map_option (\<lambda>ev. (ev, True)) (snd (reri_cluster e [] (ev\<lparr>rr_hart_id := ucast h\<rparr>))))" for out ev
    by (simp add: reri_place_def reri_hart_def reri_cluster_def RERI_SOURCE_TYPE_CPU_def split: option.split)
  have cluster: "snd (reri_cluster e [] ev) =
      (case field_val e ''cluster_id'' of None \<Rightarrow> Some ev
       | Some c \<Rightarrow> if c > 0xFFFFFFFF then None else Some (ev\<lparr>rr_cluster_id := ucast c\<rparr>))" for ev
    by (simp add: reri_cluster_def split: option.split)
  show ?thesis
  proof (cases "\<exists>src sty st. field_val e ''err_src_id'' = Some src \<and> src \<le> 0xFFFF \<and>
      field_val e ''source_type'' = Some sty \<and> sty \<le> 0xFF \<and> field_val e ''status'' = Some st")
    case True
    then obtain src sty st where f: "field_val e ''err_src_id'' = Some src" "src \<le> 0xFFFF"
      "field_val e ''source_type'' = Some sty" "sty \<le> 0xFF" "field_val e ''status'' = Some st" by blast
    then show ?thesis
      by (cases "field_val e ''hart_id''"; cases "field_val e ''cluster_id''")
        (simp_all add: ras_reri_event_handler_def Let_def case_prod_beta place cluster iso small
          record_null_undefined not_less [symmetric] del: not_less not_None_eq)
  next
    case False
    then show ?thesis
      by (auto simp: ras_reri_event_handler_def Let_def case_prod_beta not_le not_less split: option.splits)
  qed
qed

end
