(* ===== verification/Db_Store.thy ===== *)
theory Db_Store
  imports Db_Schema Mc_Handler Aer_Handler Event_Handlers Arm_Handler Non_Standard Cxl_Events Reri_Handler
begin

text \<open>
  How \<open>ras-record.c\<close> stores an event: the values it binds to the parameters of the statement of the table,
  and the step. SQLite itself is a parameter. A statement is known by its SQL text, and null is \<open>None\<close>.
\<close>

section \<open>SQLite\<close>

datatype sql_value = V_null | V_text string | V_integer int | V_blob "u8 list"

record 'd sqlite =
  sq_exec :: "string \<Rightarrow> 'd \<Rightarrow> int \<times> 'd"
  sq_prepare :: "string \<Rightarrow> 'd \<Rightarrow> int"
  sq_column_names :: "string \<Rightarrow> 'd \<Rightarrow> string list"
  sq_step :: "string \<Rightarrow> (nat \<times> sql_value) list \<Rightarrow> 'd \<Rightarrow> int \<times> 'd"
  sq_reset :: "string \<Rightarrow> 'd \<Rightarrow> int"

definition SQLITE_OK :: int where "SQLITE_OK = 0"
definition SQLITE_BUSY :: int where "SQLITE_BUSY = 5"
definition SQLITE_DONE :: int where "SQLITE_DONE = 101"

text \<open>The statements of the tables.\<close>

record sqlite3_priv =
  stmt_mc_event :: "string option"
  stmt_aer_event :: "string option"
  stmt_mce_record :: "string option"
  stmt_extlog_record :: "string option"
  stmt_non_standard_record :: "string option"
  stmt_arm_record :: "string option"
  stmt_devlink_event :: "string option"
  stmt_diskerror_event :: "string option"
  stmt_mf_event :: "string option"
  stmt_cxl_poison_event :: "string option"
  stmt_cxl_aer_ue_event :: "string option"
  stmt_cxl_aer_ce_event :: "string option"
  stmt_cxl_overflow_event :: "string option"
  stmt_cxl_generic_event :: "string option"
  stmt_cxl_general_media_event :: "string option"
  stmt_cxl_dram_event :: "string option"
  stmt_cxl_memory_module_event :: "string option"
  stmt_signal_event :: "string option"
  stmt_reri_event :: "string option"

definition sqlite3_priv0 :: sqlite3_priv where
  "sqlite3_priv0 =
     \<lparr>stmt_mc_event = None, stmt_aer_event = None, stmt_mce_record = None, stmt_extlog_record = None,
      stmt_non_standard_record = None, stmt_arm_record = None, stmt_devlink_event = None,
      stmt_diskerror_event = None, stmt_mf_event = None, stmt_cxl_poison_event = None,
      stmt_cxl_aer_ue_event = None, stmt_cxl_aer_ce_event = None,
      stmt_cxl_overflow_event = None, stmt_cxl_generic_event = None,
      stmt_cxl_general_media_event = None, stmt_cxl_dram_event = None,
      stmt_cxl_memory_module_event = None, stmt_signal_event = None,
      stmt_reri_event = None\<rparr>"

section \<open>Binding and storing\<close>

text \<open>
  The calls of \<open>sqlite3_bind_text\<close>, \<open>sqlite3_bind_int\<close>, \<open>sqlite3_bind_int64\<close> and \<open>sqlite3_bind_blob\<close> with the
  number of the parameter. A null pointer binds null. The length of a blob is its last argument; if it is
  negative, or greater than that of the array, the call is undefined.
\<close>

datatype bind = Bind_text "string option" | Bind_int s32 | Bind_int64 u64 | Bind_blob "u8 list option" int

fun bound :: "bind \<Rightarrow> sql_value option" where
  "bound (Bind_text None) = Some V_null"
| "bound (Bind_text (Some t)) = Some (V_text t)"
| "bound (Bind_int w) = Some (V_integer (sint w))"
| "bound (Bind_int64 w) = Some (V_integer (sint w))"
| "bound (Bind_blob None n) = Some V_null"
| "bound (Bind_blob (Some bs) n) = (if n < 0 \<or> int (length bs) < n then None else Some (V_blob (take (nat n) bs)))"

fun bound_all :: "(nat \<times> bind) list \<Rightarrow> (nat \<times> sql_value) list option" where
  "bound_all [] = Some []"
| "bound_all ((i, b) # bs) = do { v \<leftarrow> bound b; vs \<leftarrow> bound_all bs; Some ((i, v) # vs) }"

definition numbered :: "nat \<Rightarrow> bind list \<Rightarrow> (nat \<times> bind) list" where
  "numbered idx bs = zip [idx..<idx + length bs] bs"

text \<open>An array that a record of the trace does not have; it is then empty in the event.\<close>

definition pointer :: "u8 list \<Rightarrow> u8 list option" where
  "pointer bs = (if bs = [] then None else Some bs)"

definition words_memory :: "u32 list \<Rightarrow> u8 list" where
  "words_memory ws = concat (map (\<lambda>w. le_bytes 4 (ucast w)) ws)"

text \<open>
  What the functions have in common: nothing without a statement, otherwise a step with what is bound. The
  result is that of the reset.
\<close>

definition store ::
  "'d sqlite \<Rightarrow> int \<Rightarrow> string option \<Rightarrow> (nat \<times> bind) list \<Rightarrow> 'd \<Rightarrow> (int \<times> 'd) option" where
  "store sq absent st bs d =
     (case st of
        None \<Rightarrow> Some (absent, d)
      | Some st \<Rightarrow> do {
          vs \<leftarrow> bound_all bs;
          let (rc, d) = sq_step sq st vs d;
          Some (sq_reset sq st d, d)
        })"

section \<open>The events\<close>

definition mc_event_binds :: "ras_mc_event \<Rightarrow> (nat \<times> bind) list" where
  "mc_event_binds ev =
     [(1, Bind_text (Some (mc_timestamp ev))), (2, Bind_int (error_count ev)),
      (3, Bind_text (Some (error_type ev))), (4, Bind_text (Some (mc_msg ev))),
      (5, Bind_text (Some (mc_label ev))), (6, Bind_int (ucast (mc_index ev))),
      (7, Bind_int (scast (top_layer ev))), (8, Bind_int (scast (middle_layer ev))),
      (9, Bind_int (scast (lower_layer ev))), (10, Bind_int64 (mc_address ev)), (11, Bind_int64 (grain ev)),
      (12, Bind_int64 (syndrome ev)), (13, Bind_text (Some (driver_detail ev)))]"

definition ras_store_mc_event ::
  "'d sqlite \<Rightarrow> sqlite3_priv option \<Rightarrow> ras_mc_event \<Rightarrow> 'd \<Rightarrow> (int \<times> 'd) option" where
  "ras_store_mc_event sq priv ev d =
     store sq 0 (Option.bind priv stmt_mc_event) (mc_event_binds ev) d"

definition aer_event_binds :: "ras_aer_event \<Rightarrow> (nat \<times> bind) list" where
  "aer_event_binds ev =
     [(1, Bind_text (Some (aer_timestamp ev))), (2, Bind_text (Some (aer_dev_name ev))),
      (3, Bind_text (Some (aer_error_type ev))), (4, Bind_text (Some (aer_msg ev)))]"

definition ras_store_aer_event ::
  "'d sqlite \<Rightarrow> sqlite3_priv option \<Rightarrow> ras_aer_event \<Rightarrow> 'd \<Rightarrow> (int \<times> 'd) option" where
  "ras_store_aer_event sq priv ev d =
     store sq 0 (Option.bind priv stmt_aer_event) (aer_event_binds ev) d"

definition non_standard_record_binds :: "ras_non_standard_event \<Rightarrow> (nat \<times> bind) list" where
  "non_standard_record_binds ev =
     [(1, Bind_text (Some (ne_timestamp ev))), (2, Bind_blob (Some (ne_sec_type ev)) (- 1)),
      (3, Bind_blob (Some (ne_fru_id ev)) 16), (4, Bind_text (Some (ne_fru_text ev))),
      (5, Bind_text (Some (ne_severity ev))), (6, Bind_blob (Some (ne_error ev)) (sint (ne_length ev)))]"

definition ras_store_non_standard_record ::
  "'d sqlite \<Rightarrow> sqlite3_priv option \<Rightarrow> ras_non_standard_event \<Rightarrow> 'd \<Rightarrow> (int \<times> 'd) option" where
  "ras_store_non_standard_record sq priv ev d =
     store sq 0 (Option.bind priv stmt_non_standard_record) (non_standard_record_binds ev) d"

definition arm_record_binds :: "ras_arm_event \<Rightarrow> (nat \<times> bind) list" where
  "arm_record_binds ev =
     [(1, Bind_text (Some (ar_timestamp ev))), (2, Bind_int (ar_error_count ev)),
      (3, Bind_int (scast (ar_affinity ev))), (4, Bind_int64 (ar_mpidr ev)),
      (5, Bind_int (ar_running_state ev)), (6, Bind_int (ar_psci_state ev)),
      (7, Bind_blob (pointer (ar_pei_error ev)) (sint (ar_pei_len ev))),
      (8, Bind_blob (pointer (ar_ctx_error ev)) (sint (ar_ctx_len ev))),
      (9, Bind_blob (pointer (ar_vsei_error ev)) (sint (ar_oem_len ev))),
      (10, Bind_text (Some (ar_error_types ev))), (11, Bind_text (Some (ar_error_flags ev))),
      (12, Bind_int64 (ar_error_info ev)), (13, Bind_int64 (ar_virt_fault_addr ev)),
      (14, Bind_int64 (ar_phy_fault_addr ev))]"

definition ras_store_arm_record ::
  "'d sqlite \<Rightarrow> sqlite3_priv option \<Rightarrow> ras_arm_event \<Rightarrow> 'd \<Rightarrow> (int \<times> 'd) option" where
  "ras_store_arm_record sq priv ev d =
     store sq 0 (Option.bind priv stmt_arm_record) (arm_record_binds ev) d"

definition extlog_mem_record_binds :: "ras_extlog_event \<Rightarrow> (nat \<times> bind) list" where
  "extlog_mem_record_binds ev =
     [(1, Bind_text (Some (el_timestamp ev))), (2, Bind_int (scast (el_etype ev))),
      (3, Bind_int (el_error_seq ev)), (4, Bind_int (scast (el_severity ev))),
      (5, Bind_int64 (el_address ev)), (6, Bind_blob (el_fru_id ev) 16), (7, Bind_text (el_fru_text ev)),
      (8, Bind_blob (el_cper_data ev) (int (unat (el_cper_data_length ev))))]"

definition ras_store_extlog_mem_record ::
  "'d sqlite \<Rightarrow> sqlite3_priv option \<Rightarrow> ras_extlog_event \<Rightarrow> 'd \<Rightarrow> (int \<times> 'd) option" where
  "ras_store_extlog_mem_record sq priv ev d =
     store sq 0 (Option.bind priv stmt_extlog_record) (extlog_mem_record_binds ev) d"

definition mce_record_binds :: "string \<Rightarrow> mce_event \<Rightarrow> (nat \<times> bind) list" where
  "mce_record_binds stamp ev =
     [(1, Bind_text (Some stamp)), (2, Bind_int (ucast (mcgcap ev))), (3, Bind_int (ucast (mcgstatus ev))),
      (4, Bind_int64 (status ev)), (5, Bind_int64 (addr ev)), (6, Bind_int64 (misc ev)),
      (7, Bind_int64 (ip ev)), (8, Bind_int64 (tsc ev)), (9, Bind_int64 (walltime ev)),
      (10, Bind_int64 (ppin ev)), (11, Bind_int (cpu ev)), (12, Bind_int (cpuid ev)),
      (13, Bind_int (apicid ev)), (14, Bind_int (socketid ev)), (15, Bind_int (ucast (cs ev))),
      (16, Bind_int (ucast (bank ev))), (17, Bind_int (ucast (cpuvendor ev))), (18, Bind_int (microcode ev)),
      (19, Bind_text (Some (bank_name ev))), (20, Bind_text (Some (error_msg ev))),
      (21, Bind_text (Some (mcgstatus_msg ev))), (22, Bind_text (Some (mcistatus_msg ev))),
      (23, Bind_text (Some (mcastatus_msg ev))), (24, Bind_text (Some (user_action ev))),
      (25, Bind_text (Some (mc_location ev)))]"

definition ras_store_mce_record ::
  "'d sqlite \<Rightarrow> sqlite3_priv option \<Rightarrow> string \<Rightarrow> mce_event \<Rightarrow> 'd \<Rightarrow> (int \<times> 'd) option" where
  "ras_store_mce_record sq priv stamp ev d =
     store sq 0 (Option.bind priv stmt_mce_record) (mce_record_binds stamp ev) d"

definition devlink_event_binds :: "devlink_event \<Rightarrow> (nat \<times> bind) list" where
  "devlink_event_binds ev =
     [(1, Bind_text (Some (dl_timestamp ev))), (2, Bind_text (Some (dl_bus_name ev))),
      (3, Bind_text (Some (dl_dev_name ev))), (4, Bind_text (Some (dl_driver_name ev))),
      (5, Bind_text (Some (dl_reporter_name ev))), (6, Bind_text (Some (dl_msg ev)))]"

definition ras_store_devlink_event ::
  "'d sqlite \<Rightarrow> sqlite3_priv option \<Rightarrow> devlink_event \<Rightarrow> 'd \<Rightarrow> (int \<times> 'd) option" where
  "ras_store_devlink_event sq priv ev d =
     store sq 0 (Option.bind priv stmt_devlink_event) (devlink_event_binds ev) d"

definition diskerror_event_binds :: "diskerror_event \<Rightarrow> (nat \<times> bind) list" where
  "diskerror_event_binds ev =
     [(1, Bind_text (Some (dk_timestamp ev))), (2, Bind_text (Some (dk_dev ev))),
      (3, Bind_int64 (dk_sector ev)), (4, Bind_int (dk_nr_sector ev)), (5, Bind_text (Some (dk_error ev))),
      (6, Bind_text (Some (dk_rwbs ev))), (7, Bind_text (Some (dk_cmd ev)))]"

definition ras_store_diskerror_event ::
  "'d sqlite \<Rightarrow> sqlite3_priv option \<Rightarrow> diskerror_event \<Rightarrow> 'd \<Rightarrow> (int \<times> 'd) option" where
  "ras_store_diskerror_event sq priv ev d =
     store sq 0 (Option.bind priv stmt_diskerror_event) (diskerror_event_binds ev) d"

definition mf_event_binds :: "ras_mf_event \<Rightarrow> (nat \<times> bind) list" where
  "mf_event_binds ev =
     [(1, Bind_text (Some (mf_timestamp ev))), (2, Bind_text (Some (mf_pfn ev))),
      (3, Bind_text (Some (mf_page_type ev))), (4, Bind_text (Some (mf_action_result ev)))]"

definition ras_store_mf_event ::
  "'d sqlite \<Rightarrow> sqlite3_priv option \<Rightarrow> ras_mf_event \<Rightarrow> 'd \<Rightarrow> (int \<times> 'd) option" where
  "ras_store_mf_event sq priv ev d =
     store sq 0 (Option.bind priv stmt_mf_event) (mf_event_binds ev) d"

definition cxl_poison_event_binds :: "ras_cxl_poison_event \<Rightarrow> (nat \<times> bind) list" where
  "cxl_poison_event_binds ev =
     [(1, Bind_text (Some (cp_timestamp ev))), (2, Bind_text (Some (cp_memdev ev))),
      (3, Bind_text (Some (cp_host ev))), (4, Bind_int64 (cp_serial ev)),
      (5, Bind_text (Some (cp_trace_type ev))), (6, Bind_text (Some (cp_region ev))),
      (7, Bind_text (Some (cp_uuid ev))), (8, Bind_int64 (cp_hpa ev)), (9, Bind_int64 (cp_dpa ev)),
      (10, Bind_int (cp_dpa_length ev)), (11, Bind_text (Some (cp_source ev))),
      (12, Bind_int (ucast (cp_flags ev))), (13, Bind_text (Some (cp_overflow_ts ev))),
      (14, Bind_int64 (cp_hpa_alias0 ev))]"

definition ras_store_cxl_poison_event ::
  "'d sqlite \<Rightarrow> sqlite3_priv option \<Rightarrow> ras_cxl_poison_event \<Rightarrow> 'd \<Rightarrow> (int \<times> 'd) option" where
  "ras_store_cxl_poison_event sq priv ev d =
     store sq 0 (Option.bind priv stmt_cxl_poison_event) (cxl_poison_event_binds ev) d"

definition cxl_aer_ue_event_binds :: "ras_cxl_aer_ue_event \<Rightarrow> (nat \<times> bind) list" where
  "cxl_aer_ue_event_binds ev =
     [(1, Bind_text (Some (cu_timestamp ev))), (2, Bind_text (Some (cu_memdev ev))),
      (3, Bind_text (Some (cu_host ev))), (4, Bind_int64 (cu_serial ev)), (5, Bind_int (cu_error_status ev)),
      (6, Bind_int (cu_first_error ev)),
      (7, Bind_blob (Some (words_memory (cu_header_log ev))) (int CXL_HEADERLOG_SIZE))]"

definition ras_store_cxl_aer_ue_event ::
  "'d sqlite \<Rightarrow> sqlite3_priv option \<Rightarrow> ras_cxl_aer_ue_event \<Rightarrow> 'd \<Rightarrow> (int \<times> 'd) option" where
  "ras_store_cxl_aer_ue_event sq priv ev d =
     store sq 0 (Option.bind priv stmt_cxl_aer_ue_event) (cxl_aer_ue_event_binds ev) d"

definition cxl_aer_ce_event_binds :: "ras_cxl_aer_ce_event \<Rightarrow> (nat \<times> bind) list" where
  "cxl_aer_ce_event_binds ev =
     [(1, Bind_text (Some (cc_timestamp ev))), (2, Bind_text (Some (cc_memdev ev))),
      (3, Bind_text (Some (cc_host ev))), (4, Bind_int64 (cc_serial ev)), (5, Bind_int (cc_error_status ev))]"

definition ras_store_cxl_aer_ce_event ::
  "'d sqlite \<Rightarrow> sqlite3_priv option \<Rightarrow> ras_cxl_aer_ce_event \<Rightarrow> 'd \<Rightarrow> (int \<times> 'd) option" where
  "ras_store_cxl_aer_ce_event sq priv ev d =
     store sq 0 (Option.bind priv stmt_cxl_aer_ce_event) (cxl_aer_ce_event_binds ev) d"

definition cxl_overflow_event_binds :: "ras_cxl_overflow_event \<Rightarrow> (nat \<times> bind) list" where
  "cxl_overflow_event_binds ev =
     [(1, Bind_text (Some (co_timestamp ev))), (2, Bind_text (Some (co_memdev ev))),
      (3, Bind_text (Some (co_host ev))), (4, Bind_int64 (co_serial ev)),
      (5, Bind_text (Some (co_log_type ev))), (6, Bind_int (ucast (co_count ev))),
      (7, Bind_text (Some (co_first_ts ev))), (8, Bind_text (Some (co_last_ts ev)))]"

definition ras_store_cxl_overflow_event ::
  "'d sqlite \<Rightarrow> sqlite3_priv option \<Rightarrow> ras_cxl_overflow_event \<Rightarrow> 'd \<Rightarrow> (int \<times> 'd) option" where
  "ras_store_cxl_overflow_event sq priv ev d =
     store sq 0 (Option.bind priv stmt_cxl_overflow_event) (cxl_overflow_event_binds ev) d"

definition ras_store_cxl_common_hdr :: "ras_cxl_event_common_hdr \<Rightarrow> (nat \<times> bind) list" where
  "ras_store_cxl_common_hdr h = numbered 1
     [Bind_text (Some (h_timestamp h)), Bind_text (Some (h_memdev h)), Bind_text (Some (h_host h)),
      Bind_int64 (h_serial h), Bind_text (Some (h_log_type h)), Bind_text (uuid_at (h_hdr_uuid h) h),
      Bind_int (h_hdr_flags h), Bind_int (ucast (h_hdr_handle h)), Bind_int (ucast (h_hdr_related_handle h)),
      Bind_text (Some (h_hdr_timestamp h)), Bind_int (ucast (h_hdr_length h)),
      Bind_int (ucast (h_hdr_maint_op_class h)), Bind_int (ucast (h_hdr_maint_op_sub_class h)),
      Bind_int (ucast (h_hdr_ld_id h)), Bind_int (ucast (h_hdr_head_id h))]"

definition cxl_generic_event_binds :: "ras_cxl_generic_event \<Rightarrow> (nat \<times> bind) list" where
  "cxl_generic_event_binds ev =
     (let hdr = ras_store_cxl_common_hdr (cg_hdr ev) in hdr @ numbered (1 + length hdr)
       [Bind_blob (cg_data ev) (int CXL_EVENT_RECORD_DATA_LENGTH)])"

definition ras_store_cxl_generic_event ::
  "'d sqlite \<Rightarrow> sqlite3_priv option \<Rightarrow> ras_cxl_generic_event \<Rightarrow> 'd \<Rightarrow> (int \<times> 'd) option" where
  "ras_store_cxl_generic_event sq priv ev d =
     store sq (- 1) (Option.bind priv stmt_cxl_generic_event) (cxl_generic_event_binds ev) d"

definition cxl_general_media_event_binds :: "ras_cxl_general_media_event \<Rightarrow> (nat \<times> bind) list" where
  "cxl_general_media_event_binds ev =
     (let hdr = ras_store_cxl_common_hdr (gm_hdr ev) in hdr @ numbered (1 + length hdr)
       [Bind_int64 (gm_dpa ev), Bind_int (ucast (gm_dpa_flags ev)), Bind_int (ucast (gm_descriptor ev)),
        Bind_int (ucast (gm_type ev)), Bind_int (ucast (gm_transaction_type ev)),
        Bind_int (ucast (gm_channel ev)), Bind_int (ucast (gm_rank ev)), Bind_int (gm_device ev),
        Bind_blob (gm_comp_id ev) (int CXL_EVENT_GEN_MED_COMP_ID_SIZE), Bind_int64 (gm_hpa ev),
        Bind_text (Some (gm_region ev)), Bind_text (uuid_at (gm_region_uuid ev) (gm_hdr ev)),
        Bind_blob (Some (gm_entity_id ev)) (int CXL_PLDM_ENTITY_ID_LEN),
        Bind_blob (Some (gm_res_id ev)) (int CXL_PLDM_RES_ID_LEN), Bind_int (ucast (gm_sub_type ev)),
        Bind_int (ucast (gm_cme_threshold_ev_flags ev)), Bind_int (gm_cme_count ev),
        Bind_int64 (gm_hpa_alias0 ev)])"

definition ras_store_cxl_general_media_event ::
  "'d sqlite \<Rightarrow> sqlite3_priv option \<Rightarrow> ras_cxl_general_media_event \<Rightarrow> 'd \<Rightarrow> (int \<times> 'd) option" where
  "ras_store_cxl_general_media_event sq priv ev d =
     store sq (- 1) (Option.bind priv stmt_cxl_general_media_event) (cxl_general_media_event_binds ev) d"

definition cxl_dram_event_binds :: "ras_cxl_dram_event \<Rightarrow> (nat \<times> bind) list" where
  "cxl_dram_event_binds ev =
     (let hdr = ras_store_cxl_common_hdr (dr_hdr ev) in hdr @ numbered (1 + length hdr)
       [Bind_int64 (dr_dpa ev), Bind_int (ucast (dr_dpa_flags ev)), Bind_int (ucast (dr_descriptor ev)),
        Bind_int (ucast (dr_type ev)), Bind_int (ucast (dr_transaction_type ev)),
        Bind_int (ucast (dr_channel ev)), Bind_int (ucast (dr_rank ev)), Bind_int (dr_nibble_mask ev),
        Bind_int (ucast (dr_bank_group ev)), Bind_int (ucast (dr_bank ev)), Bind_int (dr_row ev),
        Bind_int (ucast (dr_column ev)), Bind_blob (dr_cor_mask ev) (int CXL_EVENT_DER_CORRECTION_MASK_SIZE),
        Bind_int64 (dr_hpa ev), Bind_text (Some (dr_region ev)),
        Bind_text (uuid_at (dr_region_uuid ev) (dr_hdr ev)),
        Bind_blob (dr_comp_id ev) (int CXL_EVENT_GEN_MED_COMP_ID_SIZE),
        Bind_blob (Some (dr_entity_id ev)) (int CXL_PLDM_ENTITY_ID_LEN),
        Bind_blob (Some (dr_res_id ev)) (int CXL_PLDM_RES_ID_LEN), Bind_int (ucast (dr_sub_type ev)),
        Bind_int (ucast (dr_sub_channel ev)), Bind_int (ucast (dr_cme_threshold_ev_flags ev)),
        Bind_int (dr_cvme_count ev), Bind_int64 (dr_hpa_alias0 ev)])"

definition ras_store_cxl_dram_event ::
  "'d sqlite \<Rightarrow> sqlite3_priv option \<Rightarrow> ras_cxl_dram_event \<Rightarrow> 'd \<Rightarrow> (int \<times> 'd) option" where
  "ras_store_cxl_dram_event sq priv ev d =
     store sq (- 1) (Option.bind priv stmt_cxl_dram_event) (cxl_dram_event_binds ev) d"

definition cxl_memory_module_event_binds :: "ras_cxl_memory_module_event \<Rightarrow> (nat \<times> bind) list" where
  "cxl_memory_module_event_binds ev =
     (let hdr = ras_store_cxl_common_hdr (mm_hdr ev) in hdr @ numbered (1 + length hdr)
       [Bind_int (ucast (mm_event_type ev)), Bind_int (ucast (mm_health_status ev)),
        Bind_int (ucast (mm_media_status ev)), Bind_int (ucast (mm_life_used ev)),
        Bind_int (mm_dirty_shutdown_cnt ev), Bind_int (mm_cor_vol_err_cnt ev),
        Bind_int (mm_cor_per_err_cnt ev), Bind_int (scast (mm_device_temp ev)),
        Bind_int (ucast (mm_add_status ev)), Bind_int (ucast (mm_event_sub_type ev)),
        Bind_blob (mm_comp_id ev) (int CXL_EVENT_GEN_MED_COMP_ID_SIZE),
        Bind_blob (Some (mm_entity_id ev)) (int CXL_PLDM_ENTITY_ID_LEN),
        Bind_blob (Some (mm_res_id ev)) (int CXL_PLDM_RES_ID_LEN)])"

definition ras_store_cxl_memory_module_event ::
  "'d sqlite \<Rightarrow> sqlite3_priv option \<Rightarrow> ras_cxl_memory_module_event \<Rightarrow> 'd \<Rightarrow> (int \<times> 'd) option" where
  "ras_store_cxl_memory_module_event sq priv ev d =
     store sq (- 1) (Option.bind priv stmt_cxl_memory_module_event) (cxl_memory_module_event_binds ev) d"

definition signal_event_binds :: "ras_signal_event \<Rightarrow> (nat \<times> bind) list" where
  "signal_event_binds ev =
     [(1, Bind_text (Some (sg_timestamp ev))), (2, Bind_int (sg_sig ev)), (3, Bind_int (sg_error_no ev)),
      (4, Bind_int (sg_code ev)), (5, Bind_text (Some (sg_comm ev))), (6, Bind_int (sg_pid ev)),
      (7, Bind_int (sg_group ev)), (8, Bind_int (sg_result ev))]"

definition ras_store_signal_event ::
  "'d sqlite \<Rightarrow> sqlite3_priv option \<Rightarrow> ras_signal_event \<Rightarrow> 'd \<Rightarrow> (int \<times> 'd) option" where
  "ras_store_signal_event sq priv ev d =
     store sq (- 1) (Option.bind priv stmt_signal_event) (signal_event_binds ev) d"

definition reri_event_binds :: "ras_reri_event \<Rightarrow> (nat \<times> bind) list" where
  "reri_event_binds ev =
     [(1, Bind_text (Some (rr_timestamp ev))), (2, Bind_int (ucast (rr_err_src_id ev))),
      (3, Bind_int (ucast (rr_source_type ev))), (4, Bind_int (ucast (rr_severity ev))),
      (5, Bind_int (rr_hart_id ev)), (6, Bind_int (rr_cluster_id ev)), (7, Bind_int64 (rr_status ev)),
      (8, Bind_int64 (rr_addr_info ev)), (9, Bind_int64 (rr_info ev)), (10, Bind_int64 (rr_suppl_info ev)),
      (11, Bind_int64 (rr_timestamp_val ev))]"

definition ras_store_reri_event ::
  "'d sqlite \<Rightarrow> sqlite3_priv option \<Rightarrow> ras_reri_event \<Rightarrow> 'd \<Rightarrow> (int \<times> 'd) option" where
  "ras_store_reri_event sq priv ev d =
     store sq 0 (Option.bind priv stmt_reri_event) (reri_event_binds ev) d"

lemmas bind_defs =
  mc_event_binds_def aer_event_binds_def non_standard_record_binds_def arm_record_binds_def
  extlog_mem_record_binds_def mce_record_binds_def devlink_event_binds_def diskerror_event_binds_def
  mf_event_binds_def cxl_poison_event_binds_def cxl_aer_ue_event_binds_def cxl_aer_ce_event_binds_def
  cxl_overflow_event_binds_def ras_store_cxl_common_hdr_def cxl_generic_event_binds_def
  cxl_general_media_event_binds_def cxl_dram_event_binds_def cxl_memory_module_event_binds_def
  signal_event_binds_def reri_event_binds_def

section \<open>The events fit the tables\<close>

text \<open>An event of any kind, its table, its statement, and the call that stores it.\<close>

datatype db_event =
    Mc_event ras_mc_event
  | Aer_event ras_aer_event
  | Non_standard_event ras_non_standard_event
  | Arm_event ras_arm_event
  | Extlog_event ras_extlog_event
  | Mce_record string mce_event
  | Devlink_event devlink_event
  | Diskerror_event diskerror_event
  | Mf_event ras_mf_event
  | Cxl_poison_event ras_cxl_poison_event
  | Cxl_aer_ue_event ras_cxl_aer_ue_event
  | Cxl_aer_ce_event ras_cxl_aer_ce_event
  | Cxl_overflow_event ras_cxl_overflow_event
  | Cxl_generic_event ras_cxl_generic_event
  | Cxl_general_media_event ras_cxl_general_media_event
  | Cxl_dram_event ras_cxl_dram_event
  | Cxl_memory_module_event ras_cxl_memory_module_event
  | Signal_event ras_signal_event
  | Reri_event ras_reri_event

fun event_table :: "db_event \<Rightarrow> db_table" where
  "event_table (Mc_event ev) = mc_event_tab"
| "event_table (Aer_event ev) = aer_event_tab"
| "event_table (Non_standard_event ev) = non_standard_event_tab"
| "event_table (Arm_event ev) = arm_event_tab"
| "event_table (Extlog_event ev) = extlog_event_tab"
| "event_table (Mce_record stamp ev) = mce_record_tab"
| "event_table (Devlink_event ev) = devlink_event_tab"
| "event_table (Diskerror_event ev) = diskerror_event_tab"
| "event_table (Mf_event ev) = mf_event_tab"
| "event_table (Cxl_poison_event ev) = cxl_poison_event_tab"
| "event_table (Cxl_aer_ue_event ev) = cxl_aer_ue_event_tab"
| "event_table (Cxl_aer_ce_event ev) = cxl_aer_ce_event_tab"
| "event_table (Cxl_overflow_event ev) = cxl_overflow_event_tab"
| "event_table (Cxl_generic_event ev) = cxl_generic_event_tab"
| "event_table (Cxl_general_media_event ev) = cxl_general_media_event_tab"
| "event_table (Cxl_dram_event ev) = cxl_dram_event_tab"
| "event_table (Cxl_memory_module_event ev) = cxl_memory_module_event_tab"
| "event_table (Signal_event ev) = signal_event_tab"
| "event_table (Reri_event ev) = reri_event_tab"

fun event_statement :: "db_event \<Rightarrow> sqlite3_priv \<Rightarrow> string option" where
  "event_statement (Mc_event ev) = stmt_mc_event"
| "event_statement (Aer_event ev) = stmt_aer_event"
| "event_statement (Non_standard_event ev) = stmt_non_standard_record"
| "event_statement (Arm_event ev) = stmt_arm_record"
| "event_statement (Extlog_event ev) = stmt_extlog_record"
| "event_statement (Mce_record stamp ev) = stmt_mce_record"
| "event_statement (Devlink_event ev) = stmt_devlink_event"
| "event_statement (Diskerror_event ev) = stmt_diskerror_event"
| "event_statement (Mf_event ev) = stmt_mf_event"
| "event_statement (Cxl_poison_event ev) = stmt_cxl_poison_event"
| "event_statement (Cxl_aer_ue_event ev) = stmt_cxl_aer_ue_event"
| "event_statement (Cxl_aer_ce_event ev) = stmt_cxl_aer_ce_event"
| "event_statement (Cxl_overflow_event ev) = stmt_cxl_overflow_event"
| "event_statement (Cxl_generic_event ev) = stmt_cxl_generic_event"
| "event_statement (Cxl_general_media_event ev) = stmt_cxl_general_media_event"
| "event_statement (Cxl_dram_event ev) = stmt_cxl_dram_event"
| "event_statement (Cxl_memory_module_event ev) = stmt_cxl_memory_module_event"
| "event_statement (Signal_event ev) = stmt_signal_event"
| "event_statement (Reri_event ev) = stmt_reri_event"

fun store_event :: "'d sqlite \<Rightarrow> sqlite3_priv option \<Rightarrow> db_event \<Rightarrow> 'd \<Rightarrow> (int \<times> 'd) option" where
  "store_event sq priv (Mc_event ev) d = ras_store_mc_event sq priv ev d"
| "store_event sq priv (Aer_event ev) d = ras_store_aer_event sq priv ev d"
| "store_event sq priv (Non_standard_event ev) d = ras_store_non_standard_record sq priv ev d"
| "store_event sq priv (Arm_event ev) d = ras_store_arm_record sq priv ev d"
| "store_event sq priv (Extlog_event ev) d = ras_store_extlog_mem_record sq priv ev d"
| "store_event sq priv (Mce_record stamp ev) d = ras_store_mce_record sq priv stamp ev d"
| "store_event sq priv (Devlink_event ev) d = ras_store_devlink_event sq priv ev d"
| "store_event sq priv (Diskerror_event ev) d = ras_store_diskerror_event sq priv ev d"
| "store_event sq priv (Mf_event ev) d = ras_store_mf_event sq priv ev d"
| "store_event sq priv (Cxl_poison_event ev) d = ras_store_cxl_poison_event sq priv ev d"
| "store_event sq priv (Cxl_aer_ue_event ev) d = ras_store_cxl_aer_ue_event sq priv ev d"
| "store_event sq priv (Cxl_aer_ce_event ev) d = ras_store_cxl_aer_ce_event sq priv ev d"
| "store_event sq priv (Cxl_overflow_event ev) d = ras_store_cxl_overflow_event sq priv ev d"
| "store_event sq priv (Cxl_generic_event ev) d = ras_store_cxl_generic_event sq priv ev d"
| "store_event sq priv (Cxl_general_media_event ev) d = ras_store_cxl_general_media_event sq priv ev d"
| "store_event sq priv (Cxl_dram_event ev) d = ras_store_cxl_dram_event sq priv ev d"
| "store_event sq priv (Cxl_memory_module_event ev) d = ras_store_cxl_memory_module_event sq priv ev d"
| "store_event sq priv (Signal_event ev) d = ras_store_signal_event sq priv ev d"
| "store_event sq priv (Reri_event ev) d = ras_store_reri_event sq priv ev d"

text \<open>The arrays of an event that are stored and the lengths they are stored with.\<close>

fun event_arrays :: "db_event \<Rightarrow> (u8 list option \<times> int) list" where
  "event_arrays (Non_standard_event ev) =
     [(Some (ne_sec_type ev), - 1), (Some (ne_fru_id ev), 16), (Some (ne_error ev), sint (ne_length ev))]"
| "event_arrays (Arm_event ev) =
     [(pointer (ar_pei_error ev), sint (ar_pei_len ev)), (pointer (ar_ctx_error ev), sint (ar_ctx_len ev)),
      (pointer (ar_vsei_error ev), sint (ar_oem_len ev))]"
| "event_arrays (Extlog_event ev) = [(el_fru_id ev, 16), (el_cper_data ev, int (unat (el_cper_data_length ev)))]"
| "event_arrays (Cxl_aer_ue_event ev) = [(Some (words_memory (cu_header_log ev)), 512)]"
| "event_arrays (Cxl_generic_event ev) = [(cg_data ev, 80)]"
| "event_arrays (Cxl_general_media_event ev) =
     [(gm_comp_id ev, 16), (Some (gm_entity_id ev), 6), (Some (gm_res_id ev), 4)]"
| "event_arrays (Cxl_dram_event ev) =
     [(dr_cor_mask ev, 32), (dr_comp_id ev, 16), (Some (dr_entity_id ev), 6), (Some (dr_res_id ev), 4)]"
| "event_arrays (Cxl_memory_module_event ev) =
     [(mm_comp_id ev, 16), (Some (mm_entity_id ev), 6), (Some (mm_res_id ev), 4)]"
| "event_arrays _ = []"

text \<open>An array is null or has the bytes it is stored with; a length below zero is never right.\<close>

definition array_ok :: "u8 list option \<times> int \<Rightarrow> bool" where
  "array_ok a = (case a of (None, n) \<Rightarrow> True | (Some bs, n) \<Rightarrow> 0 \<le> n \<and> n \<le> int (length bs))"

text \<open>A value that a column of the type is declared for, and a row for the columns after the first.\<close>

fun value_fits :: "string \<Rightarrow> sql_value \<Rightarrow> bool" where
  "value_fits ty V_null \<longleftrightarrow> True"
| "value_fits ty (V_text t) \<longleftrightarrow> ty = ''TEXT''"
| "value_fits ty (V_integer i) \<longleftrightarrow> ty = ''INTEGER''"
| "value_fits ty (V_blob bs) \<longleftrightarrow> ty = ''BLOB''"

definition row_fits :: "db_table \<Rightarrow> (nat \<times> sql_value) list \<Rightarrow> bool" where
  "row_fits tab vs \<longleftrightarrow>
     map fst vs = [1..<length (tab_fields tab)] \<and> list_all2 value_fits (map snd (tl (tab_fields tab))) (map snd vs)"

text \<open>The type of the columns that a call to bind is made for, and the array it is given.\<close>

fun call_type :: "bind \<Rightarrow> string" where
  "call_type (Bind_text t) = ''TEXT''"
| "call_type (Bind_int w) = ''INTEGER''"
| "call_type (Bind_int64 w) = ''INTEGER''"
| "call_type (Bind_blob bs n) = ''BLOB''"

fun call_array :: "bind \<Rightarrow> (u8 list option \<times> int) list" where
  "call_array (Bind_blob bs n) = [(bs, n)]"
| "call_array _ = []"

lemma bound_value: "bound b = Some v \<Longrightarrow> value_fits (call_type b) v"
  by (induction b rule: bound.induct) (auto split: if_splits)

lemma bound_iff: "bound b \<noteq> None \<longleftrightarrow> list_all array_ok (call_array b)"
  by (induction b rule: bound.induct) (auto simp: array_ok_def)

lemma bound_all_iff: "bound_all bs \<noteq> None \<longleftrightarrow> list_all array_ok (concat (map (call_array \<circ> snd) bs))"
proof (induction bs)
  case (Cons x bs)
  obtain i b where x: "x = (i, b)" by fastforce
  then show ?case using Cons bound_iff [of b] by (auto simp: list_all_append)
qed simp

lemma bound_all_fits:
  "bound_all bs = Some vs \<Longrightarrow> map fst vs = map fst bs \<and> list_all2 value_fits (map (call_type \<circ> snd) bs) (map snd vs)"
proof (induction bs arbitrary: vs)
  case (Cons x bs)
  then show ?case by (cases x) (auto simp: bind_eq_Some_conv dest: bound_value)
qed simp

text \<open>What is called for an event: one value for each column after the first, in the order of the columns.\<close>

fun event_calls :: "db_event \<Rightarrow> (nat \<times> bind) list" where
  "event_calls (Mc_event ev) = mc_event_binds ev"
| "event_calls (Aer_event ev) = aer_event_binds ev"
| "event_calls (Non_standard_event ev) = non_standard_record_binds ev"
| "event_calls (Arm_event ev) = arm_record_binds ev"
| "event_calls (Extlog_event ev) = extlog_mem_record_binds ev"
| "event_calls (Mce_record stamp ev) = mce_record_binds stamp ev"
| "event_calls (Devlink_event ev) = devlink_event_binds ev"
| "event_calls (Diskerror_event ev) = diskerror_event_binds ev"
| "event_calls (Mf_event ev) = mf_event_binds ev"
| "event_calls (Cxl_poison_event ev) = cxl_poison_event_binds ev"
| "event_calls (Cxl_aer_ue_event ev) = cxl_aer_ue_event_binds ev"
| "event_calls (Cxl_aer_ce_event ev) = cxl_aer_ce_event_binds ev"
| "event_calls (Cxl_overflow_event ev) = cxl_overflow_event_binds ev"
| "event_calls (Cxl_generic_event ev) = cxl_generic_event_binds ev"
| "event_calls (Cxl_general_media_event ev) = cxl_general_media_event_binds ev"
| "event_calls (Cxl_dram_event ev) = cxl_dram_event_binds ev"
| "event_calls (Cxl_memory_module_event ev) = cxl_memory_module_event_binds ev"
| "event_calls (Signal_event ev) = signal_event_binds ev"
| "event_calls (Reri_event ev) = reri_event_binds ev"

definition calls_fit :: "db_event \<Rightarrow> (nat \<times> bind) list \<Rightarrow> bool" where
  "calls_fit ev bs \<longleftrightarrow>
     map fst bs = [1..<length (tab_fields (event_table ev))] \<and>
     map (call_type \<circ> snd) bs = map snd (tl (tab_fields (event_table ev))) \<and>
     concat (map (call_array \<circ> snd) bs) = event_arrays ev"

lemma event_calls_fit: "calls_fit ev (event_calls ev)"
  by (cases ev; simp add: calls_fit_def schema_defs bind_defs cxl_sizes numbered_def upt_rec Let_def)

lemmas store_defs =
  ras_store_mc_event_def ras_store_aer_event_def ras_store_non_standard_record_def ras_store_arm_record_def ras_store_extlog_mem_record_def ras_store_mce_record_def ras_store_devlink_event_def ras_store_diskerror_event_def ras_store_mf_event_def ras_store_cxl_poison_event_def ras_store_cxl_aer_ue_event_def ras_store_cxl_aer_ce_event_def ras_store_cxl_overflow_event_def ras_store_cxl_generic_event_def ras_store_cxl_general_media_event_def ras_store_cxl_dram_event_def ras_store_cxl_memory_module_event_def ras_store_signal_event_def ras_store_reri_event_def

lemma store_event_calls:
  "\<exists>absent. store_event sq priv ev d = store sq absent (Option.bind priv (event_statement ev)) (event_calls ev) d"
  by (cases ev; auto simp: store_defs)

lemma store_defined:
  "store sq absent (Some st) bs d = map_option (\<lambda>vs. let d' = snd (sq_step sq st vs d) in (sq_reset sq st d', d')) (bound_all bs)"
  by (cases "bound_all bs") (simp_all add: store_def case_prod_beta Let_def)

text \<open>
  C33: storing an event of any kind, once there is a statement for it, is undefined exactly when one of its
  arrays is shorter than the length it is stored with or that length is negative, as it always is for the
  section type of a non-standard event. Otherwise the statement is stepped once with a row that has one value
  for each column of the table after the first, in the order of the columns and each null or of the type
  of its column, so that no value is used that an earlier event left bound; and the answer is that of
  the reset.
\<close>

theorem stores_fit_tables:
  assumes "Option.bind priv (event_statement ev) = Some st"
  shows "(store_event sq priv ev d = None \<longleftrightarrow> \<not> list_all array_ok (event_arrays ev)) \<and>
    (\<forall>rc d'. store_event sq priv ev d = Some (rc, d') \<longrightarrow>
       (\<exists>vs. row_fits (event_table ev) vs \<and> d' = snd (sq_step sq st vs d) \<and> rc = sq_reset sq st d'))"
proof -
  let ?bs = "event_calls ev"
  have calls: "calls_fit ev ?bs" by (rule event_calls_fit)
  obtain absent where run: "store_event sq priv ev d = store sq absent (Some st) ?bs d"
    using store_event_calls [of sq priv ev d] assms by metis
  have "row_fits (event_table ev) vs" if "bound_all ?bs = Some vs" for vs
    using bound_all_fits [OF that] calls by (simp add: row_fits_def calls_fit_def)
  moreover have "bound_all ?bs = None \<longleftrightarrow> \<not> list_all array_ok (event_arrays ev)"
    using bound_all_iff [of ?bs] calls by (auto simp: calls_fit_def simp del: not_None_eq)
  ultimately show ?thesis by (auto simp: run store_defined Let_def)
qed

text \<open>A non-standard event with all its bytes, and an event of PCI Express.\<close>

definition demo_row_sqlite :: "(nat \<times> sql_value) list sqlite" where
  "demo_row_sqlite =
     \<lparr>sq_exec = (\<lambda>_ d. (0, d)), sq_prepare = (\<lambda>_ _. 0), sq_column_names = (\<lambda>_ _. []),
      sq_step = (\<lambda>_ vs _. (SQLITE_DONE, vs)), sq_reset = (\<lambda>_ _. 0)\<rparr>"

definition demo_row_priv :: sqlite3_priv where
  "demo_row_priv = sqlite3_priv0\<lparr>stmt_non_standard_record := Some ''INSERT'', stmt_aer_event := Some ''INSERT''\<rparr>"

definition demo_ns_row :: db_event where
  "demo_ns_row = Non_standard_event
     \<lparr>ne_timestamp = [], ne_sec_type = replicate 16 0, ne_fru_id = replicate 16 0, ne_fru_text = [],
      ne_severity = [], ne_error = [1, 2], ne_length = 2\<rparr>"

definition demo_aer_row :: db_event where
  "demo_aer_row = Aer_event
     \<lparr>aer_timestamp = [], aer_error_type = ''Corrected'', aer_dev_name = ''0000:00:01.0'', tlp_header_valid = 0,
      tlp_header = [], aer_msg = []\<rparr>"

theorem stores_fit_tables_witness:
  "store_event demo_row_sqlite (Some demo_row_priv) demo_ns_row [] = None \<and>
   (\<exists>vs. store_event demo_row_sqlite (Some demo_row_priv) demo_aer_row [] = Some (0, vs) \<and> map fst vs = [1, 2, 3, 4])"
proof -
  have ns: "Option.bind (Some demo_row_priv) (event_statement demo_ns_row) = Some ''INSERT''"
    and aer: "Option.bind (Some demo_row_priv) (event_statement demo_aer_row) = Some ''INSERT''"
    by (simp_all add: demo_row_priv_def demo_ns_row_def demo_aer_row_def)
  have "\<not> list_all array_ok (event_arrays demo_ns_row)" by (simp add: demo_ns_row_def array_ok_def)
  moreover have "list_all array_ok (event_arrays demo_aer_row)" by (simp add: demo_aer_row_def)
  moreover have "map fst vs = [1, 2, 3, 4]" if "row_fits (event_table demo_aer_row) vs" for vs
    using that by (simp add: row_fits_def demo_aer_row_def aer_event_tab_def aer_event_fields_def upt_rec)
  ultimately show ?thesis
    using stores_fit_tables [OF ns, of demo_row_sqlite "[]"] stores_fit_tables [OF aer, of demo_row_sqlite "[]"]
    by (fastforce simp: demo_row_sqlite_def)
qed

section \<open>What is undefined and what is lost\<close>

text \<open>
  A non-standard event is never stored: once the statement exists, its section type is bound with a
  length of -1, which \<open>sqlite3_bind_blob\<close> does not define, and without the statement nothing is done.
\<close>

theorem non_standard_store_undefined:
  "ras_store_non_standard_record sq priv ev d = None \<longleftrightarrow>
     (\<exists>p st. priv = Some p \<and> stmt_non_standard_record p = Some st)"
  by (cases priv) (auto simp: ras_store_non_standard_record_def store_def non_standard_record_binds_def
      split: option.splits)

text \<open>What the row of an event has in a column.\<close>

definition column_number :: "db_table \<Rightarrow> string \<Rightarrow> nat" where
  "column_number tab c = length (takeWhile (\<lambda>x. fst x \<noteq> c) (tab_fields tab))"

definition stored :: "db_table \<Rightarrow> (nat \<times> bind) list \<Rightarrow> string \<Rightarrow> sql_value option" where
  "stored tab bs c = Option.bind (map_of bs (column_number tab c)) bound"

text \<open>A reader of the database that takes an integer of a row for a register.\<close>

fun register :: "sql_value \<Rightarrow> u64" where
  "register (V_integer i) = word_of_int i"
| "register _ = 0"

lemma mce_columns:
  "map (column_number mce_record_tab)
     [''mcgcap'', ''mcgstatus'', ''status'', ''addr'', ''misc'', ''ip'', ''tsc'', ''walltime'', ''ppin''] =
   [2, 3, 4, 5, 6, 7, 8, 9, 10]"
  by code_simp

text \<open>
  The registers of a machine check are read back from the columns of their names, except for
  \<open>MCGCAP\<close> and \<open>MCGSTATUS\<close>, of which only the lower 32 bits are stored, as a signed number: they are read
  back exactly when they are the sign extension of these bits.
\<close>

theorem mce_registers_read_back:
  "map (\<lambda>c. map_option register (stored mce_record_tab (mce_record_binds stamp ev) c))
     [''status'', ''addr'', ''misc'', ''ip'', ''tsc'', ''walltime'', ''ppin''] =
   map Some [status ev, addr ev, misc ev, ip ev, tsc ev, walltime ev, ppin ev] \<and>
   (map_option register (stored mce_record_tab (mce_record_binds stamp ev) ''mcgcap'') = Some (mcgcap ev) \<longleftrightarrow>
     scast (ucast (mcgcap ev) :: s32) = mcgcap ev) \<and>
   (map_option register (stored mce_record_tab (mce_record_binds stamp ev) ''mcgstatus'') = Some (mcgstatus ev) \<longleftrightarrow>
     scast (ucast (mcgstatus ev) :: s32) = mcgstatus ev)"
  using mce_columns by (simp add: stored_def mce_record_binds_def)

end
