(* ===== verification/Db_Open.thy ===== *)
theory Db_Open
  imports Db_Store "HOL-Library.Multiset"
begin

text \<open>
  Opening and closing the database in \<open>ras-record.c\<close>: creating the tables, preparing the statements, adding
  the columns that an older database lacks, the reference count, and the tables of the vendors. The state
  keeps which statements SQLite holds and how many connections, so that what is never released shows.
  \<open>sqlite3_close_v2\<close> keeps a connection until the last of its statements is finalized.
\<close>

section \<open>Statements of a connection\<close>

record 'd db_conn =
  db_data :: 'd
  db_live :: "string list"

definition sqlite3_prepare :: "'d sqlite \<Rightarrow> string \<Rightarrow> 'd db_conn \<Rightarrow> int \<times> string option \<times> 'd db_conn" where
  "sqlite3_prepare sq sql c =
     (let rc = sq_prepare sq sql (db_data c)
      in if rc = SQLITE_OK then (rc, Some sql, c\<lparr>db_live := sql # db_live c\<rparr>) else (rc, None, c))"

definition sqlite3_exec :: "'d sqlite \<Rightarrow> string \<Rightarrow> 'd db_conn \<Rightarrow> int \<times> 'd db_conn" where
  "sqlite3_exec sq sql c = (case sq_exec sq sql (db_data c) of (rc, d) \<Rightarrow> (rc, c\<lparr>db_data := d\<rparr>))"

text \<open>\<open>__ras_mc_prepare_stmt\<close>. Preparing a statement that SQLite rejects gives null.\<close>

definition prepare_insert ::
  "'d sqlite \<Rightarrow> db_table \<Rightarrow> 'd db_conn \<Rightarrow> (int \<times> string option \<times> 'd db_conn) option" where
  "prepare_insert sq tab c = map_option (\<lambda>sql. sqlite3_prepare sq sql c) (insert_sql tab)"

definition ras_mc_create_table :: "'d sqlite \<Rightarrow> db_table \<Rightarrow> 'd db_conn \<Rightarrow> (int \<times> 'd db_conn) option" where
  "ras_mc_create_table sq tab c = map_option (\<lambda>sql. sqlite3_exec sq sql c) (create_sql tab)"

text \<open>The loop over the columns of the description, with the names of those of the table.\<close>

fun alter_columns ::
  "'d sqlite \<Rightarrow> db_table \<Rightarrow> string list \<Rightarrow> (string \<times> string) list \<Rightarrow> int \<Rightarrow> 'd db_conn \<Rightarrow>
   (int \<times> 'd db_conn) option" where
  "alter_columns sq tab names [] rc c = Some (rc, c)"
| "alter_columns sq tab names (x # xs) rc c =
     (if fst x \<in> set names then alter_columns sq tab names xs rc c
      else case alter_sql tab x of
        None \<Rightarrow> None
      | Some sql \<Rightarrow>
          (case sqlite3_exec sq sql c of (rc, c) \<Rightarrow>
             if rc \<noteq> SQLITE_OK then Some (rc, c) else alter_columns sq tab names xs rc c))"

definition ras_mc_alter_table ::
  "'d sqlite \<Rightarrow> db_table \<Rightarrow> 'd db_conn \<Rightarrow> (int \<times> string option \<times> 'd db_conn) option" where
  "ras_mc_alter_table sq tab c =
     (case select_sql tab of
        None \<Rightarrow> None
      | Some sql \<Rightarrow>
          (case sqlite3_prepare sq sql c of (rc, st, c) \<Rightarrow>
             if rc \<noteq> SQLITE_OK then Some (rc, st, c)
             else map_option (\<lambda>(rc, c). (rc, st, c))
               (alter_columns sq tab (sq_column_names sq sql (db_data c)) (tab_fields tab) rc c)))"

text \<open>
  \<open>ras_mc_prepare_stmt\<close>. The statement that read the names of the columns is not finalized; the one that is
  prepared next takes its place. Setting \<open>stmt\<close> to null changes the parameter only.
\<close>

definition ras_mc_prepare_stmt ::
  "'d sqlite \<Rightarrow> db_table \<Rightarrow> 'd db_conn \<Rightarrow> (int \<times> string option \<times> 'd db_conn) option" where
  "ras_mc_prepare_stmt sq tab c =
     (case prepare_insert sq tab c of
        None \<Rightarrow> None
      | Some (rc, st, c) \<Rightarrow>
          if rc = SQLITE_OK then Some (rc, st, c)
          else case ras_mc_alter_table sq tab c of
            None \<Rightarrow> None
          | Some (rc, st, c) \<Rightarrow>
              if rc \<noteq> SQLITE_OK \<and> rc \<noteq> SQLITE_DONE then Some (rc, st, c) else prepare_insert sq tab c)"

section \<open>The tables of the program\<close>

record db_build =
  have_aer :: bool
  have_extlog :: bool
  have_mce :: bool
  have_non_standard :: bool
  have_arm :: bool
  have_devlink :: bool
  have_diskerror :: bool
  have_memory_failure :: bool
  have_cxl :: bool
  have_signal :: bool
  have_reri :: bool

type_synonym db_step =
  "db_table \<times> (sqlite3_priv \<Rightarrow> string option) \<times> (string option \<Rightarrow> sqlite3_priv \<Rightarrow> sqlite3_priv)"

definition db_steps :: "db_build \<Rightarrow> (bool \<times> db_step) list" where
  "db_steps b =
     [(True, mc_event_tab, stmt_mc_event, \<lambda>v. stmt_mc_event_update (\<lambda>_. v)),
      (have_aer b, aer_event_tab, stmt_aer_event, \<lambda>v. stmt_aer_event_update (\<lambda>_. v)),
      (have_extlog b, extlog_event_tab, stmt_extlog_record, \<lambda>v. stmt_extlog_record_update (\<lambda>_. v)),
      (have_mce b, mce_record_tab, stmt_mce_record, \<lambda>v. stmt_mce_record_update (\<lambda>_. v)),
      (have_non_standard b, non_standard_event_tab, stmt_non_standard_record,
        \<lambda>v. stmt_non_standard_record_update (\<lambda>_. v)),
      (have_arm b, arm_event_tab, stmt_arm_record, \<lambda>v. stmt_arm_record_update (\<lambda>_. v)),
      (have_devlink b, devlink_event_tab, stmt_devlink_event, \<lambda>v. stmt_devlink_event_update (\<lambda>_. v)),
      (have_diskerror b, diskerror_event_tab, stmt_diskerror_event, \<lambda>v. stmt_diskerror_event_update (\<lambda>_. v)),
      (have_memory_failure b, mf_event_tab, stmt_mf_event, \<lambda>v. stmt_mf_event_update (\<lambda>_. v)),
      (have_cxl b, cxl_poison_event_tab, stmt_cxl_poison_event, \<lambda>v. stmt_cxl_poison_event_update (\<lambda>_. v)),
      (have_cxl b, cxl_aer_ue_event_tab, stmt_cxl_aer_ue_event, \<lambda>v. stmt_cxl_aer_ue_event_update (\<lambda>_. v)),
      (have_cxl b, cxl_aer_ce_event_tab, stmt_cxl_aer_ce_event, \<lambda>v. stmt_cxl_aer_ce_event_update (\<lambda>_. v)),
      (have_cxl b, cxl_overflow_event_tab, stmt_cxl_overflow_event, \<lambda>v. stmt_cxl_overflow_event_update (\<lambda>_. v)),
      (have_cxl b, cxl_generic_event_tab, stmt_cxl_generic_event, \<lambda>v. stmt_cxl_generic_event_update (\<lambda>_. v)),
      (have_cxl b, cxl_general_media_event_tab, stmt_cxl_general_media_event,
        \<lambda>v. stmt_cxl_general_media_event_update (\<lambda>_. v)),
      (have_cxl b, cxl_dram_event_tab, stmt_cxl_dram_event, \<lambda>v. stmt_cxl_dram_event_update (\<lambda>_. v)),
      (have_cxl b, cxl_memory_module_event_tab, stmt_cxl_memory_module_event,
        \<lambda>v. stmt_cxl_memory_module_event_update (\<lambda>_. v)),
      (have_signal b, signal_event_tab, stmt_signal_event, \<lambda>v. stmt_signal_event_update (\<lambda>_. v)),
      (have_reri b, reri_event_tab, stmt_reri_event, \<lambda>v. stmt_reri_event_update (\<lambda>_. v))]"

text \<open>
  The steps that the build has, one after the other: a table that cannot be created is passed over without a
  word, a statement that cannot be prepared ends it.
\<close>

fun open_tables ::
  "'d sqlite \<Rightarrow> db_step list \<Rightarrow> sqlite3_priv \<Rightarrow> 'd db_conn \<Rightarrow> (bool \<times> sqlite3_priv \<times> 'd db_conn) option" where
  "open_tables sq [] priv c = Some (True, priv, c)"
| "open_tables sq ((tab, get, put) # steps) priv c =
     (case ras_mc_create_table sq tab c of
        None \<Rightarrow> None
      | Some (rc, c) \<Rightarrow>
          if rc \<noteq> SQLITE_OK then open_tables sq steps priv c
          else case ras_mc_prepare_stmt sq tab c of
            None \<Rightarrow> None
          | Some (rc, st, c) \<Rightarrow>
              if rc \<noteq> SQLITE_OK then Some (False, put st priv, c)
              else open_tables sq steps (put st priv) c)"

section \<open>Opening and closing\<close>

text \<open>
  \<open>sqlite3_open_v2\<close> is called until it does not answer that the database is busy: the result is its last
  answer and how often it was called. It gives a connection with every answer, and only that of the last
  call is kept.
\<close>

partial_function (option) open_loop :: "(nat \<Rightarrow> int) \<Rightarrow> nat \<Rightarrow> (int \<times> nat) option" where
  "open_loop answers n =
     (if answers n = SQLITE_BUSY then open_loop answers (n + 1) else Some (answers n, n + 1))"

datatype state_dir = Dir_present | Dir_missing | Dir_unreadable

record 'd db_env =
  db_build :: db_build
  db_calloc :: bool
  db_dir :: state_dir
  db_mkdir :: bool
  db_initialize :: int
  db_open :: "nat \<Rightarrow> int"
  db_sqlite :: "'d sqlite"

text \<open>
  How many connections SQLite holds, the statements of connections that the program has no more, the
  connection it has or had last, and whether that one is closed but kept for its statements.
\<close>

record 'd ras_db =
  db_ref_count :: s32
  db_priv :: "sqlite3_priv option"
  db_handles :: nat
  db_left :: "string list"
  db_conn :: "'d db_conn"
  db_zombie :: bool

definition new_connections :: "nat \<Rightarrow> 'd ras_db \<Rightarrow> 'd ras_db" where
  "new_connections n r =
     r\<lparr>db_handles := db_handles r + n, db_left := db_live (db_conn r) @ db_left r,
       db_conn := (db_conn r)\<lparr>db_live := []\<rparr>, db_zombie := False\<rparr>"

definition state_dir_ready :: "'d db_env \<Rightarrow> bool" where
  "state_dir_ready env =
     (case db_dir env of Dir_present \<Rightarrow> True | Dir_missing \<Rightarrow> db_mkdir env | Dir_unreadable \<Rightarrow> False)"

definition ras_mc_event_opendb :: "'d db_env \<Rightarrow> 'd ras_db \<Rightarrow> (int \<times> 'd ras_db) option" where
  "ras_mc_event_opendb env r =
     (if db_ref_count r = 0x7FFFFFFF then None
      else let r = r\<lparr>db_ref_count := db_ref_count r + 1\<rparr> in
      if sint (db_ref_count r) > 1 then Some (0, r)
      else let r = r\<lparr>db_priv := None\<rparr> in
      if \<not> db_calloc env \<or> \<not> state_dir_ready env \<or> db_initialize env \<noteq> SQLITE_OK then Some (- 1, r)
      else case open_loop (db_open env) 0 of
        None \<Rightarrow> None
      | Some (rc, n) \<Rightarrow>
      let r = new_connections n r in
      if rc \<noteq> SQLITE_OK then Some (- 1, r)
      else case open_tables (db_sqlite env) (map snd (filter fst (db_steps (db_build env)))) sqlite3_priv0 (db_conn r) of
        None \<Rightarrow> None
      | Some (ok, priv, c) \<Rightarrow>
          Some (if ok then (0, r\<lparr>db_priv := Some priv, db_conn := c\<rparr>) else (- 1, r\<lparr>db_conn := c\<rparr>)))"

definition priv_stmts :: "sqlite3_priv \<Rightarrow> string option list" where
  "priv_stmts p =
     [stmt_mc_event p, stmt_aer_event p, stmt_extlog_record p, stmt_mce_record p, stmt_non_standard_record p,
      stmt_arm_record p, stmt_devlink_event p, stmt_diskerror_event p, stmt_mf_event p, stmt_cxl_poison_event p,
      stmt_cxl_aer_ue_event p, stmt_cxl_aer_ce_event p, stmt_cxl_overflow_event p, stmt_cxl_generic_event p,
      stmt_cxl_general_media_event p, stmt_cxl_dram_event p, stmt_cxl_memory_module_event p,
      stmt_signal_event p, stmt_reri_event p]"

definition sqlite3_finalize :: "string option \<Rightarrow> 'd db_conn \<Rightarrow> 'd db_conn" where
  "sqlite3_finalize st c = (case st of None \<Rightarrow> c | Some st \<Rightarrow> c\<lparr>db_live := remove1 st (db_live c)\<rparr>)"

text \<open>A connection with a statement that is not finalized is kept.\<close>

definition sqlite3_close :: "'d ras_db \<Rightarrow> 'd ras_db" where
  "sqlite3_close r =
     (if db_live (db_conn r) = [] then r\<lparr>db_handles := db_handles r - 1\<rparr> else r\<lparr>db_zombie := True\<rparr>)"

text \<open>What finalizing, closing and shutting down answer is only logged.\<close>

definition ras_mc_event_closedb :: "'d ras_db \<Rightarrow> int \<times> 'd ras_db" where
  "ras_mc_event_closedb r =
     (if sint (db_ref_count r) \<le> 0 then (- 1, r)
      else let r = r\<lparr>db_ref_count := db_ref_count r - 1\<rparr> in
      if sint (db_ref_count r) > 0 then (0, r)
      else case db_priv r of
        None \<Rightarrow> (- 1, r)
      | Some priv \<Rightarrow> (0, sqlite3_close (r\<lparr>db_conn := fold sqlite3_finalize (priv_stmts priv) (db_conn r)\<rparr>)\<lparr>db_priv := None\<rparr>))"

section \<open>Tables of the vendors\<close>

definition ras_mc_add_vendor_table ::
  "'d sqlite \<Rightarrow> db_table \<Rightarrow> string option \<Rightarrow> 'd ras_db \<Rightarrow> (int \<times> string option \<times> 'd ras_db) option" where
  "ras_mc_add_vendor_table sq tab st r =
     (if db_priv r = None then Some (- 1, st, r)
      else case ras_mc_create_table sq tab (db_conn r) of
        None \<Rightarrow> None
      | Some (rc, c) \<Rightarrow>
          if rc \<noteq> SQLITE_OK then Some (rc, st, r\<lparr>db_conn := c\<rparr>)
          else map_option (\<lambda>(rc, st, c). (rc, st, r\<lparr>db_conn := c\<rparr>)) (ras_mc_prepare_stmt sq tab c))"

definition ras_mc_finalize_vendor_table :: "string option \<Rightarrow> 'd ras_db \<Rightarrow> 'd ras_db" where
  "ras_mc_finalize_vendor_table st r =
     (let c = sqlite3_finalize st (db_conn r); last = (db_zombie r \<and> db_live (db_conn r) \<noteq> [] \<and> db_live c = [])
      in r\<lparr>db_conn := c, db_handles := if last then db_handles r - 1 else db_handles r,
           db_zombie := db_zombie r \<and> \<not> last\<rparr>)"

section \<open>Waiting for the database\<close>

lemma open_loop_busy: "answers n = SQLITE_BUSY \<Longrightarrow> open_loop answers n = open_loop answers (Suc n)"
  by (subst open_loop.simps) simp

lemma open_loop_last: "answers n \<noteq> SQLITE_BUSY \<Longrightarrow> open_loop answers n = Some (answers n, Suc n)"
  by (subst open_loop.simps) simp

lemma open_loop_result:
  assumes "open_loop answers n = Some r"
  shows "n < snd r \<and> answers (snd r - 1) = fst r \<and> fst r \<noteq> SQLITE_BUSY \<and>
     (\<forall>i. n \<le> i \<and> i < snd r - 1 \<longrightarrow> answers i = SQLITE_BUSY)"
  using assms
proof (induction rule: open_loop.raw_induct [rotated, consumes 1, case_names loop])
  case (loop f answers n r)
  show ?case
  proof (cases "answers n = SQLITE_BUSY")
    case True
    then have "f answers (n + 1) = Some r" using loop(2) by simp
    from loop(1) [OF this] True show ?thesis
      by (metis Suc_eq_plus1 Suc_leI Suc_lessD le_neq_implies_less)
  qed (use loop(2) in auto)
qed

lemma open_loop_finds:
  assumes "answers (n + k) \<noteq> SQLITE_BUSY"
  shows "open_loop answers n \<noteq> None"
  using assms
proof (induction k arbitrary: n)
  case (Suc k)
  then have "open_loop answers (Suc n) \<noteq> None" by simp
  then show ?case
    by (cases "answers n = SQLITE_BUSY") (simp_all add: open_loop_busy open_loop_last)
qed (simp add: open_loop_last)

lemma open_loop_returns: "open_loop answers 0 \<noteq> None \<longleftrightarrow> (\<exists>n. answers n \<noteq> SQLITE_BUSY)"
  using open_loop_result open_loop_finds [of answers 0] by fastforce

section \<open>The tables of the program fit\<close>

lemma all_tables_fit:
  assumes "tab \<in> set all_tables"
  shows "create_sql tab = Some (create_text tab)" and "insert_sql tab = Some (insert_text tab)"
    and "x \<in> set (tab_fields tab) \<Longrightarrow> alter_sql tab x = Some (alter_text tab x)"
  using texts_fit_all assms
  by (auto simp: list_all_iff texts_fit_def intro: create_sql_fits insert_sql_fits alter_sql_fits)

definition select_text :: "db_table \<Rightarrow> string" where
  "select_text tab = ''SELECT * FROM '' @ tab_name tab"

lemma all_tables_select: "tab \<in> set all_tables \<Longrightarrow> select_sql tab = Some (select_text tab)"
  using texts_fit_all sql_put_fits [of "[]" "select_text tab"]
  by (auto simp: list_all_iff texts_fit_def select_sql_def select_text_def create_text_def simp del: sql_put_fits)

lemmas table_sql = all_tables_fit all_tables_select

lemma alter_columns_defined:
  "tab \<in> set all_tables \<Longrightarrow> set xs \<subseteq> set (tab_fields tab) \<Longrightarrow> alter_columns sq tab names xs rc c \<noteq> None"
  by (induction xs arbitrary: rc c) (auto simp: table_sql split: prod.splits)

lemma ras_mc_alter_table_defined: "tab \<in> set all_tables \<Longrightarrow> ras_mc_alter_table sq tab c \<noteq> None"
  using alter_columns_defined [of tab "tab_fields tab" sq]
  by (simp add: ras_mc_alter_table_def table_sql case_prod_beta del: not_None_eq)

lemma prepare_insert_table:
  "tab \<in> set all_tables \<Longrightarrow> prepare_insert sq tab c = Some (sqlite3_prepare sq (insert_text tab) c)"
  by (simp add: prepare_insert_def table_sql)

lemma ras_mc_prepare_stmt_defined: "tab \<in> set all_tables \<Longrightarrow> ras_mc_prepare_stmt sq tab c \<noteq> None"
  using ras_mc_alter_table_defined [of tab sq "snd (snd (sqlite3_prepare sq (insert_text tab) c))"]
  by (simp add: ras_mc_prepare_stmt_def prepare_insert_table case_prod_beta split: option.split del: not_None_eq)

lemma db_steps_tables: "(u, tab, get, put) \<in> set (db_steps b) \<Longrightarrow> tab \<in> set all_tables"
  unfolding db_steps_def all_tables_def by auto

lemma open_tables_defined:
  "\<forall>x \<in> set steps. fst x \<in> set all_tables \<Longrightarrow> open_tables sq steps priv c \<noteq> None"
proof (induction steps arbitrary: priv c)
  case (Cons x steps)
  obtain tab get put where x: "x = (tab, get, put)" using prod_cases3 by blast
  have all: "tab \<in> set all_tables" using Cons.prems x by simp
  have rest: "open_tables sq steps priv' c' \<noteq> None" for priv' c'
    using Cons by simp
  show ?case
    using ras_mc_prepare_stmt_defined [OF all, of sq] rest
    by (simp add: x ras_mc_create_table_def table_sql [OF all] case_prod_beta split: option.split del: not_None_eq)
qed simp

section \<open>Opening returns\<close>

definition reaches_open :: "'d db_env \<Rightarrow> 'd ras_db \<Rightarrow> bool" where
  "reaches_open env r \<longleftrightarrow>
     \<not> sint (db_ref_count r + 1) > 1 \<and> db_calloc env \<and> state_dir_ready env \<and> db_initialize env = SQLITE_OK"

lemma open_steps_defined: "open_tables sq (map snd (filter fst (db_steps b))) priv c \<noteq> None"
  by (rule open_tables_defined) (auto dest: db_steps_tables)

text \<open>
  C34: opening the database returns, whatever SQLite answers to the statements, unless the reference count
  overflows or the call gets as far as opening the file and the file is busy for ever: one other answer,
  however late, ends the loop.
\<close>

theorem opendb_returns:
  "ras_mc_event_opendb env r = None \<longleftrightarrow>
     db_ref_count r = 0x7FFFFFFF \<or> reaches_open env r \<and> (\<forall>n. db_open env n = SQLITE_BUSY)"
  using open_loop_returns [of "db_open env"]
  by (auto simp: ras_mc_event_opendb_def reaches_open_def Let_def open_steps_defined
      split: option.split_asm prod.split_asm if_split_asm)

section \<open>Adding the columns that are missing\<close>

text \<open>
  What SQLite documents of the statements for one table, with \<open>cols\<close> the columns that the table has. Any
  statement may be refused, for a lock for example. If the query is prepared it has the columns of the table;
  an insertion is prepared only if the table has the columns it names; a column that is added is a new one,
  is not a primary key and comes after the others; and a refused statement leaves the table as it is.
\<close>

definition primary_key :: "string \<times> string \<Rightarrow> bool" where
  "primary_key x \<longleftrightarrow> snd x = ''INTEGER PRIMARY KEY''"

definition sqlite_documented :: "'d sqlite \<Rightarrow> db_table \<Rightarrow> ('d \<Rightarrow> string list) \<Rightarrow> bool" where
  "sqlite_documented sq tab cols \<longleftrightarrow>
     (\<forall>d. (sq_prepare sq (select_text tab) d = SQLITE_OK \<longrightarrow> sq_column_names sq (select_text tab) d = cols d) \<and>
        (sq_prepare sq (insert_text tab) d = SQLITE_OK \<longrightarrow> set (map fst (tab_fields tab)) \<subseteq> set (cols d)) \<and>
        (\<forall>x \<in> set (tab_fields tab). \<forall>rc d'. sq_exec sq (alter_text tab x) d = (rc, d') \<longrightarrow>
           (if rc = SQLITE_OK then \<not> primary_key x \<and> fst x \<notin> set (cols d) \<and> cols d' = cols d @ [fst x]
            else cols d' = cols d)))"

text \<open>An SQLite that refuses nothing of what is needed to add the columns \<open>xs\<close>.\<close>

definition sqlite_grants :: "'d sqlite \<Rightarrow> db_table \<Rightarrow> ('d \<Rightarrow> string list) \<Rightarrow> (string \<times> string) list \<Rightarrow> bool" where
  "sqlite_grants sq tab cols xs \<longleftrightarrow>
     (\<forall>d. sq_prepare sq (select_text tab) d = SQLITE_OK \<and>
        (set (map fst (tab_fields tab)) \<subseteq> set (cols d) \<longrightarrow> sq_prepare sq (insert_text tab) d = SQLITE_OK) \<and>
        (\<forall>x \<in> set xs. fst x \<notin> set (cols d) \<longrightarrow> fst (sq_exec sq (alter_text tab x) d) = SQLITE_OK))"

text \<open>The columns of the description that a table lacks.\<close>

definition missing :: "string list \<Rightarrow> (string \<times> string) list \<Rightarrow> (string \<times> string) list" where
  "missing names xs = filter (\<lambda>x. fst x \<notin> set names) xs"

lemma missing_Cons: "missing names (x # xs) = (if fst x \<in> set names then missing names xs else x # missing names xs)"
  by (simp add: missing_def)

lemma alter_columns_adds:
  assumes "sqlite_documented sq tab cols" and "tab \<in> set all_tables" and "set xs \<subseteq> set (tab_fields tab)"
    and "distinct (map fst xs)" and "alter_columns sq tab names xs SQLITE_OK c = Some (rc, c')"
  shows "\<exists>k \<le> length (missing names xs).
    cols (db_data c') = cols (db_data c) @ map fst (take k (missing names xs)) \<and>
    list_all (\<lambda>x. \<not> primary_key x) (take k (missing names xs)) \<and>
    (rc = SQLITE_OK \<longrightarrow> k = length (missing names xs)) \<and> (missing names xs = [] \<longrightarrow> rc = SQLITE_OK \<and> c' = c) \<and>
    ((\<forall>x \<in> set xs. fst x \<in> set names \<longleftrightarrow> fst x \<in> set (cols (db_data c))) \<and>
      sqlite_grants sq tab cols (missing names xs) \<longrightarrow> rc = SQLITE_OK)"
  using assms(3-)
proof (induction xs arbitrary: c)
  case Nil
  then show ?case by (simp add: missing_def)
next
  case (Cons x xs)
  show ?case
  proof (cases "fst x \<in> set names")
    case True
    then show ?thesis using Cons.IH [of c] Cons.prems by (auto simp: missing_Cons)
  next
    case False
    obtain rc1 d1 where exec: "sq_exec sq (alter_text tab x) (db_data c) = (rc1, d1)" by fastforce
    have doc: "if rc1 = SQLITE_OK then \<not> primary_key x \<and> fst x \<notin> set (cols (db_data c)) \<and> cols d1 = cols (db_data c) @ [fst x]
        else cols d1 = cols (db_data c)"
      using assms(1) Cons.prems(1) exec unfolding sqlite_documented_def by auto
    have step: "sqlite3_exec sq (alter_text tab x) c = (rc1, c\<lparr>db_data := d1\<rparr>)" by (simp add: sqlite3_exec_def exec)
    have sql: "alter_sql tab x = Some (alter_text tab x)" using Cons.prems(1) assms(2) by (simp add: table_sql)
    show ?thesis
    proof (cases "rc1 = SQLITE_OK")
      case ok: True
      have "alter_columns sq tab names xs SQLITE_OK (c\<lparr>db_data := d1\<rparr>) = Some (rc, c')"
        using Cons.prems(3) False sql step ok by simp
      from Cons.IH [OF _ _ this] Cons.prems(1,2) obtain k where k: "k \<le> length (missing names xs)"
        "cols (db_data c') = cols d1 @ map fst (take k (missing names xs))"
        "list_all (\<lambda>x. \<not> primary_key x) (take k (missing names xs))"
        "rc = SQLITE_OK \<longrightarrow> k = length (missing names xs)"
        "(\<forall>x \<in> set xs. fst x \<in> set names \<longleftrightarrow> fst x \<in> set (cols d1)) \<and>
          sqlite_grants sq tab cols (missing names xs) \<longrightarrow> rc = SQLITE_OK" by auto
      have "fst y \<noteq> fst x" if "y \<in> set xs" for y using Cons.prems(2) that by (auto simp: rev_image_eqI)
      then have "(\<forall>y \<in> set (x # xs). fst y \<in> set names \<longleftrightarrow> fst y \<in> set (cols (db_data c))) \<and>
          sqlite_grants sq tab cols (missing names (x # xs)) \<longrightarrow> rc = SQLITE_OK"
        using k(5) doc ok False by (auto simp: missing_Cons sqlite_grants_def)
      then show ?thesis using k(1-4) doc ok False by (intro exI [of _ "Suc k"]) (simp add: missing_Cons)
    next
      case no: False
      then have "rc = rc1" "c' = c\<lparr>db_data := d1\<rparr>" using Cons.prems(3) False sql step by simp_all
      moreover have "\<not> ((\<forall>y \<in> set (x # xs). fst y \<in> set names \<longleftrightarrow> fst y \<in> set (cols (db_data c))) \<and>
          sqlite_grants sq tab cols (missing names (x # xs)))"
        using False no exec by (auto simp: missing_Cons sqlite_grants_def)
      ultimately show ?thesis using doc no False by (intro exI [of _ 0]) (auto simp: missing_Cons)
    qed
  qed
qed

lemma distinct_columns: "tab \<in> set all_tables \<Longrightarrow> distinct (map fst (tab_fields tab))"
proof -
  have "list_all (\<lambda>tab. distinct (map fst (tab_fields tab))) all_tables"
    by (simp add: all_tables_def schema_defs)
  then show "tab \<in> set all_tables \<Longrightarrow> distinct (map fst (tab_fields tab))" by (auto simp: list_all_iff)
qed

lemma key_first: "tab \<in> set all_tables \<Longrightarrow> \<exists>xs. tab_fields tab = (''id'', ''INTEGER PRIMARY KEY'') # xs"
proof -
  have "list_all (\<lambda>tab. \<exists>xs. tab_fields tab = (''id'', ''INTEGER PRIMARY KEY'') # xs) all_tables"
    by (simp add: all_tables_def schema_defs)
  then show "tab \<in> set all_tables \<Longrightarrow> \<exists>xs. tab_fields tab = (''id'', ''INTEGER PRIMARY KEY'') # xs"
    by (auto simp: list_all_iff)
qed

lemma prepare_adds:
  assumes "sqlite_documented sq tab cols" and "tab \<in> set all_tables"
    and "ras_mc_prepare_stmt sq tab c = Some (rc, st, c')" and "lacks = missing (cols (db_data c)) (tab_fields tab)"
  shows "\<exists>k \<le> length lacks. cols (db_data c') = cols (db_data c) @ map fst (take k lacks) \<and>
    (rc = SQLITE_OK \<longrightarrow> k = length lacks \<and> st = Some (insert_text tab)) \<and>
    (lacks = [] \<longrightarrow> db_data c' = db_data c) \<and>
    (''id'' \<notin> set (cols (db_data c)) \<longrightarrow> k = 0 \<and> rc \<noteq> SQLITE_OK) \<and>
    (sqlite_grants sq tab cols lacks \<longrightarrow> rc = SQLITE_OK)"
proof -
  let ?ins = "insert_text tab" and ?sel = "select_text tab" and ?names = "cols (db_data c)"
  have all: "set (map fst (tab_fields tab)) \<subseteq> set ?names \<longleftrightarrow> lacks = []"
    by (auto simp: assms(4) missing_def filter_empty_conv)
  have key: "\<exists>ls. lacks = (''id'', ''INTEGER PRIMARY KEY'') # ls" if "''id'' \<notin> set ?names"
    using key_first [OF assms(2)] that by (auto simp: assms(4) missing_Cons)
  have doc: "sq_prepare sq ?ins d = SQLITE_OK \<Longrightarrow> set (map fst (tab_fields tab)) \<subseteq> set (cols d)" for d
    using assms(1) by (simp add: sqlite_documented_def)
  have grants: "sqlite_grants sq tab cols lacks \<Longrightarrow> sq_prepare sq ?sel d = SQLITE_OK"
    "sqlite_grants sq tab cols lacks \<Longrightarrow> set (map fst (tab_fields tab)) \<subseteq> set (cols d) \<Longrightarrow>
      sq_prepare sq ?ins d = SQLITE_OK" for d
    by (simp_all add: sqlite_grants_def)
  note def = ras_mc_prepare_stmt_def ras_mc_alter_table_def prepare_insert_table [OF assms(2)] table_sql [OF assms(2)]
    sqlite3_prepare_def Let_def
  show ?thesis
  proof (cases "sq_prepare sq ?ins (db_data c) = SQLITE_OK")
    case True
    then show ?thesis using assms(3) doc [OF True] all key by (auto simp: def intro!: exI [of _ 0])
  next
    case no: False
    show ?thesis
    proof (cases "sq_prepare sq ?sel (db_data c) = SQLITE_OK")
      case False
      then have same: "db_data c' = db_data c \<and> (rc = SQLITE_OK \<longrightarrow> False)"
        using assms(3) no by (auto simp: def split: if_splits)
      then show ?thesis using grants(1) [of "db_data c"] False by (intro exI [of _ 0]) auto
    next
      case True
      let ?c = "c\<lparr>db_live := ?sel # db_live c\<rparr>"
      have names: "sq_column_names sq ?sel (db_data c) = ?names" using assms(1) True by (simp add: sqlite_documented_def)
      obtain rc1 c1 where alter: "alter_columns sq tab ?names (tab_fields tab) SQLITE_OK ?c = Some (rc1, c1)"
        using alter_columns_defined [OF assms(2), of "tab_fields tab" sq ?names SQLITE_OK ?c] by fastforce
      obtain k where k: "k \<le> length lacks" "cols (db_data c1) = ?names @ map fst (take k lacks)"
          "list_all (\<lambda>x. \<not> primary_key x) (take k lacks)" "rc1 = SQLITE_OK \<longrightarrow> k = length lacks"
          "lacks = [] \<longrightarrow> rc1 = SQLITE_OK \<and> c1 = ?c" "sqlite_grants sq tab cols lacks \<longrightarrow> rc1 = SQLITE_OK"
        using alter_columns_adds [OF assms(1,2) _ distinct_columns [OF assms(2)] alter] by (auto simp: assms(4))
      have none: "k = 0" if "''id'' \<notin> set ?names"
        using key [OF that] k(3) by (cases k) (auto simp: primary_key_def)
      have full: "k = length lacks" if "sq_prepare sq ?ins (db_data c1) = SQLITE_OK"
      proof (rule ccontr)
        assume "k \<noteq> length lacks"
        then have "lacks ! k \<in> set lacks" "k < length lacks" using k(1) by auto
        then have "fst (lacks ! k) \<notin> set ?names" "lacks ! k \<in> set (tab_fields tab)"
          by (auto simp: assms(4) missing_def)
        then have "fst (lacks ! k) \<in> fst ` set (take k lacks)" using doc [OF that] k(2) by auto
        then obtain i where i: "i < k" "fst (lacks ! i) = fst (lacks ! k)" using \<open>k < length lacks\<close>
          by (auto simp: in_set_conv_nth)
        moreover have "distinct (map fst lacks)"
          using distinct_columns [OF assms(2)] by (simp add: assms(4) missing_def distinct_map_filter)
        ultimately show False using \<open>k < length lacks\<close> by (auto simp: distinct_conv_nth)
      qed
      have data: "db_data c' = db_data c1 \<and> (rc = SQLITE_OK \<longrightarrow> sq_prepare sq ?ins (db_data c1) = SQLITE_OK \<and> st = Some ?ins) \<and>
          (rc1 = SQLITE_OK \<and> sq_prepare sq ?ins (db_data c1) = SQLITE_OK \<longrightarrow> rc = SQLITE_OK)"
        using assms(3) no True alter names
        by (auto simp: def split: if_splits)
      have granted: "rc = SQLITE_OK" if g: "sqlite_grants sq tab cols lacks"
      proof -
        have "k = length lacks" using k(4,6) g by simp
        then have "set (map fst (tab_fields tab)) \<subseteq> set (cols (db_data c1))"
          using k(2) by (auto simp: assms(4) missing_def)
        then show ?thesis using grants(2) [OF g] data k(6) g by simp
      qed
      have kept: "k = 0 \<and> rc \<noteq> SQLITE_OK" if "''id'' \<notin> set ?names"
        using none [OF that] key [OF that] full data by auto
      have cols: "cols (db_data c') = ?names @ map fst (take k lacks)" using data k(2) by simp
      have same: "lacks = [] \<longrightarrow> db_data c' = db_data c" using data k(5) by simp
      have ok: "rc = SQLITE_OK \<longrightarrow> k = length lacks \<and> st = Some ?ins" using data full by blast
      show ?thesis using k(1) cols ok same kept granted by blast
    qed
  qed
qed

text \<open>
  C35: what preparing the insertion into a table does to the table, with an SQLite that may refuse any
  statement. The columns of the description that the table lacks are added in their order after those it has,
  up to the first that is refused, and no other. It succeeds only if the table then has them all, and it does
  succeed if SQLite refuses nothing that is needed. A table without its primary key is never repaired,
  and one that lacks nothing is not touched.
\<close>

theorem prepare_adds_missing_columns:
  assumes "sqlite_documented sq tab cols" and "tab \<in> set all_tables"
    and "ras_mc_prepare_stmt sq tab c = Some (rc, st, c')" and "lacks = missing (cols (db_data c)) (tab_fields tab)"
  shows "\<exists>k \<le> length lacks. cols (db_data c') = cols (db_data c) @ map fst (take k lacks) \<and>
    (rc = SQLITE_OK \<longrightarrow> k = length lacks \<and> st = Some (insert_text tab)) \<and>
    (lacks = [] \<longrightarrow> db_data c' = db_data c) \<and>
    (''id'' \<notin> set (cols (db_data c)) \<longrightarrow> k = 0 \<and> rc \<noteq> SQLITE_OK) \<and>
    (sqlite_grants sq tab cols lacks \<longrightarrow> rc = SQLITE_OK)"
  by (rule prepare_adds [OF assms])

section \<open>What closing releases\<close>

definition present :: "string option list \<Rightarrow> string multiset" where
  "present sts = mset (map the (filter (\<lambda>st. st \<noteq> None) sts))"

lemma present_Cons [simp]: "present (st # sts) = (case st of None \<Rightarrow> {#} | Some x \<Rightarrow> {#x#}) + present sts"
  by (cases st) (simp_all add: present_def)

lemma present_Nil [simp]: "present [] = {#}"
  by (simp add: present_def)

lemma finalize_live: "mset (db_live (fold sqlite3_finalize sts c)) = mset (db_live c) - present sts"
proof (induction sts arbitrary: c)
  case (Cons st sts)
  then show ?case by (cases st) (simp_all add: sqlite3_finalize_def)
qed simp

text \<open>A step writes a field of its own, which holds nothing yet.\<close>

definition step_ok :: "db_step \<Rightarrow> bool" where
  "step_ok s = (case s of (tab, get, put) \<Rightarrow>
     tab \<in> set all_tables \<and>
     (\<forall>p st. get p = None \<longrightarrow>
        present (priv_stmts (put st p)) = present (priv_stmts p) + (case st of None \<Rightarrow> {#} | Some x \<Rightarrow> {#x#})))"

fun steps_ok :: "db_step list \<Rightarrow> bool" where
  "steps_ok [] \<longleftrightarrow> True"
| "steps_ok (s # ss) \<longleftrightarrow>
     step_ok s \<and> list_all (\<lambda>s'. \<forall>p st. fst (snd s') (snd (snd s) st p) = fst (snd s') p) ss \<and> steps_ok ss"

lemma steps_ok_filter: "steps_ok (map snd us) \<Longrightarrow> steps_ok (map snd (filter fst us))"
  by (induction us) (auto simp: list_all_iff)

lemma db_steps_ok: "steps_ok (map snd (filter fst (db_steps b)))"
  by (rule steps_ok_filter)
    (simp add: db_steps_def step_ok_def priv_stmts_def all_tables_def ac_simps split: option.split)

lemma alter_columns_live: "alter_columns sq tab names xs rc c = Some (rc', c') \<Longrightarrow> db_live c' = db_live c"
proof (induction xs arbitrary: rc c)
  case (Cons x xs)
  have "db_live d' = db_live d" if "sqlite3_exec sq sql d = (rc', d')" for sql d rc' d'
    using that by (auto simp: sqlite3_exec_def split: prod.splits)
  then show ?case
    using Cons by (fastforce split: if_splits option.splits prod.splits)
qed simp

lemma sqlite3_prepare_live:
  "sqlite3_prepare sq sql c = (rc, st, c') \<Longrightarrow>
     mset (db_live c') = mset (db_live c) + (case st of None \<Rightarrow> {#} | Some x \<Rightarrow> {#x#}) \<and> st \<in> {None, Some sql}"
  by (auto simp: sqlite3_prepare_def Let_def split: if_splits)

lemma altered_live:
  assumes "ras_mc_alter_table sq tab c = Some (rc, st, c')" and "tab \<in> set all_tables"
  shows "\<exists>leaks. mset (db_live c') = mset (db_live c) + leaks \<and> set_mset leaks \<subseteq> {select_text tab}"
proof -
  obtain rc' st' d where prep: "sqlite3_prepare sq (select_text tab) c = (rc', st', d)" using prod_cases3 by blast
  then have "db_live c' = db_live d"
    using assms alter_columns_live
    by (fastforce simp: ras_mc_alter_table_def table_sql [OF assms(2)] split: if_splits)
  then show ?thesis
    using sqlite3_prepare_live [OF prep] by (intro exI [of _ "case st' of None \<Rightarrow> {#} | Some x \<Rightarrow> {#x#}"]) auto
qed

lemma prepared_live:
  assumes "ras_mc_prepare_stmt sq tab c = Some (SQLITE_OK, st, c')" and "tab \<in> set all_tables"
  shows "\<exists>leaks. mset (db_live c') = mset (db_live c) + (case st of None \<Rightarrow> {#} | Some x \<Rightarrow> {#x#}) + leaks \<and>
    set_mset leaks \<subseteq> {select_text tab}"
proof -
  obtain rc1 st1 c1 where first: "sqlite3_prepare sq (insert_text tab) c = (rc1, st1, c1)" using prod_cases3 by blast
  show ?thesis
  proof (cases "rc1 = SQLITE_OK")
    case True
    then have "sqlite3_prepare sq (insert_text tab) c = (SQLITE_OK, st, c')"
      using assms(1) first by (simp add: ras_mc_prepare_stmt_def prepare_insert_table [OF assms(2)])
    from sqlite3_prepare_live [OF this] show ?thesis by (intro exI [of _ "{#}"]) simp
  next
    case False
    then have c1: "c1 = c" using first by (auto simp: sqlite3_prepare_def Let_def split: if_splits)
    have "SQLITE_DONE \<noteq> SQLITE_OK" by (simp add: SQLITE_DONE_def SQLITE_OK_def)
    then obtain rc2 st2 c2 where alter: "ras_mc_alter_table sq tab c = Some (rc2, st2, c2)"
      and again: "sqlite3_prepare sq (insert_text tab) c2 = (SQLITE_OK, st, c')"
      using assms(1) False first
      by (auto simp: ras_mc_prepare_stmt_def prepare_insert_table [OF assms(2)] c1 split: option.splits if_splits)
    from altered_live [OF alter assms(2)] sqlite3_prepare_live [OF again] show ?thesis by auto
  qed
qed

lemma open_tables_live:
  assumes "open_tables sq steps p c = Some (True, p', c')" and "steps_ok steps"
    and "\<forall>s \<in> set steps. fst (snd s) p = None"
  shows "\<exists>leaks. mset (db_live c') + present (priv_stmts p) =
      mset (db_live c) + present (priv_stmts p') + leaks \<and> set_mset leaks \<subseteq> select_text ` set all_tables"
  using assms
proof (induction steps arbitrary: p c)
  case Nil
  then show ?case by (auto intro: exI [of _ "{#}"])
next
  case (Cons s steps)
  obtain tab get put where s: "s = (tab, get, put)" using prod_cases3 by blast
  have all: "tab \<in> set all_tables" using Cons.prems(2) by (simp add: s step_ok_def)
  obtain rc d where create: "ras_mc_create_table sq tab c = Some (rc, d)" and live: "db_live d = db_live c"
    by (cases "sqlite3_exec sq (create_text tab) c")
      (auto simp: ras_mc_create_table_def table_sql [OF all] sqlite3_exec_def split: prod.splits)
  show ?case
  proof (cases "rc = SQLITE_OK")
    case False
    then show ?thesis using Cons.IH [of p d] Cons.prems create live by (simp add: s)
  next
    case True
    then obtain st d' where prep: "ras_mc_prepare_stmt sq tab d = Some (SQLITE_OK, st, d')"
      and rest: "open_tables sq steps (put st p) d' = Some (True, p', c')"
      using Cons.prems(1) create by (auto simp: s split: option.splits if_splits)
    obtain l1 where l1: "mset (db_live d') = mset (db_live c) + (case st of None \<Rightarrow> {#} | Some x \<Rightarrow> {#x#}) + l1"
        "set_mset l1 \<subseteq> {select_text tab}"
      using prepared_live [OF prep all] live by auto
    have "steps_ok steps" "\<forall>s \<in> set steps. fst (snd s) (put st p) = None"
      using Cons.prems(2,3) by (auto simp: s list_all_iff)
    from Cons.IH [OF rest this] obtain l2 where l2: "mset (db_live c') + present (priv_stmts (put st p)) =
        mset (db_live d') + present (priv_stmts p') + l2" "set_mset l2 \<subseteq> select_text ` set all_tables" by blast
    have "present (priv_stmts (put st p)) = present (priv_stmts p) + (case st of None \<Rightarrow> {#} | Some x \<Rightarrow> {#x#})"
      using Cons.prems(2,3) by (simp add: s step_ok_def)
    then have "mset (db_live c') + present (priv_stmts p) = mset (db_live c) + present (priv_stmts p') + (l1 + l2)"
      using l1(1) l2(1) by (simp add: ac_simps)
    moreover have "set_mset (l1 + l2) \<subseteq> select_text ` set all_tables" using l1(2) l2(2) all by auto
    ultimately show ?thesis by blast
  qed
qed

lemma open_close_state:
  assumes "ras_mc_event_opendb env r = Some (0, r')" and "db_ref_count r = 0"
  shows "\<exists>n c p. db_open env n = SQLITE_OK \<and> (\<forall>i < n. db_open env i = SQLITE_BUSY) \<and>
    db_ref_count r' = 1 \<and> db_priv r' = Some p \<and> db_conn r' = c \<and> db_handles r' = db_handles r + n + 1 \<and>
    db_left r' = db_live (db_conn r) @ db_left r \<and> \<not> db_zombie r' \<and>
    set (db_live (fold sqlite3_finalize (priv_stmts p) c)) \<subseteq> select_text ` set all_tables"
proof -
  obtain n p c where loop: "open_loop (db_open env) 0 = Some (SQLITE_OK, n)"
    and tables: "open_tables (db_sqlite env) (map snd (filter fst (db_steps (db_build env)))) sqlite3_priv0
      ((db_conn r)\<lparr>db_live := []\<rparr>) = Some (True, p, c)"
    and r': "r' = (new_connections n r)\<lparr>db_ref_count := 1, db_priv := Some p, db_conn := c\<rparr>"
    using assms
    by (auto simp: ras_mc_event_opendb_def new_connections_def Let_def split: if_splits option.splits)
  have "\<forall>s \<in> set (map snd (filter fst (db_steps (db_build env)))). fst (snd s) sqlite3_priv0 = None"
    by (auto simp: db_steps_def sqlite3_priv0_def)
  from open_tables_live [OF tables db_steps_ok this]
  obtain leaks where l: "mset (db_live c) = present (priv_stmts p) + leaks"
      "set_mset leaks \<subseteq> select_text ` set all_tables"
    by (auto simp: sqlite3_priv0_def priv_stmts_def)
  have "mset (db_live (fold sqlite3_finalize (priv_stmts p) c)) = leaks"
    by (simp add: finalize_live l(1))
  then have "set (db_live (fold sqlite3_finalize (priv_stmts p) c)) \<subseteq> select_text ` set all_tables"
    using l(2) by (metis set_mset_mset)
  moreover have "0 < n" "db_open env (n - 1) = SQLITE_OK" "\<forall>i < n - 1. db_open env i = SQLITE_BUSY"
    using open_loop_result [OF loop] by auto
  ultimately show ?thesis
    by (intro exI [of _ "n - 1"] exI [of _ c] exI [of _ p]) (simp add: r' new_connections_def)
qed

text \<open>
  C36: closing the last reference to a database that was opened finalizes every statement that opening
  prepared, but the queries of the tables that had to be altered. It releases its connection exactly if there
  is no such query; a connection with one is kept for ever, as are those of the calls that answered that the
  database was busy. So these are all that is ever left of a database that is opened and closed, and SQLite
  is shut down with them open.
\<close>

theorem open_close_releases:
  assumes "ras_mc_event_opendb env r = Some (0, r')" and "db_ref_count r = 0"
    and "r'' = snd (ras_mc_event_closedb r')"
  shows "fst (ras_mc_event_closedb r') = 0 \<and> db_ref_count r'' = 0 \<and> db_priv r'' = None \<and>
    db_left r'' = db_live (db_conn r) @ db_left r \<and>
    set (db_live (db_conn r'')) \<subseteq> select_text ` set all_tables \<and>
    (db_zombie r'' \<longleftrightarrow> db_live (db_conn r'') \<noteq> []) \<and>
    (\<exists>n. db_open env n = SQLITE_OK \<and> (\<forall>i < n. db_open env i = SQLITE_BUSY) \<and>
       db_handles r'' = db_handles r + n + (if db_zombie r'' then 1 else 0))"
proof -
  obtain n c p where state: "db_open env n = SQLITE_OK" "\<forall>i < n. db_open env i = SQLITE_BUSY"
      "db_ref_count r' = 1" "db_priv r' = Some p" "db_conn r' = c" "db_handles r' = db_handles r + n + 1"
      "db_left r' = db_live (db_conn r) @ db_left r" "\<not> db_zombie r'"
      "set (db_live (fold sqlite3_finalize (priv_stmts p) c)) \<subseteq> select_text ` set all_tables"
    using open_close_state [OF assms(1,2)] by blast
  then show ?thesis
    by (cases "db_live (fold sqlite3_finalize (priv_stmts p) c) = []")
      (auto simp: ras_mc_event_closedb_def sqlite3_close_def Let_def assms(3))
qed

text \<open>
  When the first call fails to open the database, the reference count keeps it: every later call reports
  success and opens nothing, and events are then dropped without an error.
\<close>

theorem failed_open_hides:
  assumes "ras_mc_event_opendb env r = Some (- 1, r')" and "db_ref_count r = 0"
  shows "db_priv r' = None \<and> ras_mc_event_opendb env' r' = Some (0, r'\<lparr>db_ref_count := 2\<rparr>) \<and>
    ras_store_mc_event sq (db_priv r') ev d = Some (0, d)"
proof -
  have "db_priv r' = None \<and> db_ref_count r' = 1"
    using assms by (auto simp: ras_mc_event_opendb_def new_connections_def Let_def split: if_splits option.splits)
  then show ?thesis by (simp add: ras_mc_event_opendb_def ras_store_mc_event_def store_def)
qed

section \<open>Instances\<close>

definition demo_db_build :: db_build where
  "demo_db_build =
     \<lparr>have_aer = True, have_extlog = False, have_mce = False, have_non_standard = False, have_arm = False,
      have_devlink = False, have_diskerror = False, have_memory_failure = False, have_cxl = False,
      have_signal = False, have_reri = False\<rparr>"

text \<open>An SQLite that keeps the columns of the table of PCI Express errors and adds new ones that are no keys.\<close>

definition demo_add :: "string \<Rightarrow> string list \<Rightarrow> int \<times> string list" where
  "demo_add def d =
     (let name = takeWhile (\<lambda>c. c \<noteq> CHR '' '') def in
      if drop (length name) def = '' INTEGER PRIMARY KEY'' \<or> name \<in> set d then (1, d) else (SQLITE_OK, d @ [name]))"

definition demo_sqlite :: "string list sqlite" where
  "demo_sqlite =
     \<lparr>sq_exec = (\<lambda>sql d. if take 26 sql = ''ALTER TABLE aer_event ADD '' then demo_add (drop 26 sql) d else (SQLITE_OK, d)),
      sq_prepare = (\<lambda>sql d.
        if sql = insert_text aer_event_tab \<and> \<not> set (map fst (tab_fields aer_event_tab)) \<subseteq> set d then 1 else SQLITE_OK),
      sq_column_names = (\<lambda>_ d. d), sq_step = (\<lambda>_ _ d. (SQLITE_DONE, d)), sq_reset = (\<lambda>_ _. SQLITE_OK)\<rparr>"

definition demo_db_env :: "bool \<Rightarrow> string list db_env" where
  "demo_db_env mkdir_ok =
     \<lparr>db_build = demo_db_build, db_calloc = True, db_dir = Dir_missing, db_mkdir = mkdir_ok, db_initialize = SQLITE_OK,
      db_open = (\<lambda>n. if n = 0 then SQLITE_BUSY else SQLITE_OK), db_sqlite = demo_sqlite\<rparr>"

definition demo_db :: "string list ras_db" where
  "demo_db =
     \<lparr>db_ref_count = 0, db_priv = None, db_handles = 0, db_left = [],
      db_conn = \<lparr>db_data = [''id'', ''timestamp''], db_live = []\<rparr>, db_zombie = False\<rparr>"

lemma aer_table: "aer_event_tab \<in> set all_tables" and mc_table: "mc_event_tab \<in> set all_tables"
  by (simp_all add: all_tables_def)

lemma demo_alter:
  "take 26 (alter_text aer_event_tab x) = ''ALTER TABLE aer_event ADD ''"
  "drop 26 (alter_text aer_event_tab x) = column_def x"
  by (simp_all add: alter_text_def aer_event_tab_def)

lemma demo_add_column:
  assumes "x \<in> set (tab_fields aer_event_tab)"
  shows "demo_add (column_def x) d =
    (if primary_key x \<or> fst x \<in> set d then (1, d) else (SQLITE_OK, d @ [fst x]))"
  using assms by (auto simp: demo_add_def column_def_def aer_event_tab_def aer_event_fields_def primary_key_def)

lemma demo_texts:
  "insert_text aer_event_tab \<noteq> select_text aer_event_tab" "insert_text mc_event_tab \<noteq> insert_text aer_event_tab"
  "take 26 (create_text tab) \<noteq> ''ALTER TABLE aer_event ADD ''"
  by (simp_all add: insert_text_def select_text_def mc_event_tab_def aer_event_tab_def create_text_def)

lemma demo_exec:
  "x \<in> set (tab_fields aer_event_tab) \<Longrightarrow> sq_exec demo_sqlite (alter_text aer_event_tab x) d =
     (if primary_key x \<or> fst x \<in> set d then (1, d) else (SQLITE_OK, d @ [fst x]))"
  by (simp add: demo_sqlite_def demo_alter demo_add_column)

lemma demo_prepare:
  "sq_prepare demo_sqlite (select_text aer_event_tab) d = SQLITE_OK"
  "sq_prepare demo_sqlite (insert_text mc_event_tab) d = SQLITE_OK"
  "sq_prepare demo_sqlite (insert_text aer_event_tab) d = SQLITE_OK \<longleftrightarrow>
     set (map fst (tab_fields aer_event_tab)) \<subseteq> set d"
  "sq_column_names demo_sqlite sql d = d" "sq_exec demo_sqlite (create_text tab) d = (SQLITE_OK, d)"
  using demo_texts demo_texts(1,2) [symmetric] by (simp_all add: demo_sqlite_def SQLITE_OK_def)

lemma demo_documented: "sqlite_documented demo_sqlite aer_event_tab id"
proof -
  have "if rc = SQLITE_OK then \<not> primary_key x \<and> fst x \<notin> set d \<and> d' = d @ [fst x] else d' = d"
    if "x \<in> set (tab_fields aer_event_tab)" "sq_exec demo_sqlite (alter_text aer_event_tab x) d = (rc, d')" for x d rc d'
    using that(2) demo_exec [OF that(1), of d] by (auto simp: SQLITE_OK_def split: if_splits)
  then show ?thesis unfolding sqlite_documented_def demo_prepare by simp
qed

abbreviation demo_lacks :: "(string \<times> string) list" where
  "demo_lacks \<equiv> [(''dev_name'', ''TEXT''), (''err_type'', ''TEXT''), (''err_msg'', ''TEXT'')]"

lemma demo_columns: "x \<in> set demo_lacks \<Longrightarrow> x \<in> set (tab_fields aer_event_tab) \<and> \<not> primary_key x"
  by (auto simp: aer_event_tab_def aer_event_fields_def primary_key_def)

lemma demo_grants: "sqlite_grants demo_sqlite aer_event_tab id demo_lacks"
  using demo_columns by (auto simp: sqlite_grants_def demo_exec demo_prepare)

lemma demo_missing: "missing (cols (db_data (db_conn demo_db))) (tab_fields aer_event_tab) =
demo_lacks" if "cols = id"
  using that by (simp add: missing_def demo_db_def aer_event_tab_def aer_event_fields_def)

theorem prepare_adds_missing_columns_witness:
  "\<exists>c'. ras_mc_prepare_stmt demo_sqlite aer_event_tab (db_conn demo_db) =
       Some (SQLITE_OK, Some (insert_text aer_event_tab), c') \<and>
     db_data c' = [''id'', ''timestamp'', ''dev_name'', ''err_type'', ''err_msg'']"
proof -
  obtain rc st c' where run: "ras_mc_prepare_stmt demo_sqlite aer_event_tab (db_conn demo_db) = Some (rc, st, c')"
    using ras_mc_prepare_stmt_defined [OF aer_table] by (metis not_None_eq prod_cases3)
  from prepare_adds_missing_columns [OF demo_documented aer_table run demo_missing [symmetric, OF refl]]
  show ?thesis using run demo_grants by (auto simp: demo_db_def id_def)
qed

theorem failed_open_hides_witness:
  "\<exists>r'. ras_mc_event_opendb (demo_db_env False) demo_db = Some (- 1, r') \<and>
     ras_mc_event_opendb (demo_db_env True) r' = Some (0, r'\<lparr>db_ref_count := 2\<rparr>)"
proof -
  have zero: "db_ref_count demo_db = 0" by (simp add: demo_db_def)
  then obtain r' where r': "ras_mc_event_opendb (demo_db_env False) demo_db = Some (- 1, r')"
    by (simp add: ras_mc_event_opendb_def demo_db_env_def state_dir_ready_def)
  then show ?thesis using failed_open_hides [OF r' zero, THEN conjunct2, THEN conjunct1] r' by blast
qed

lemma demo_opens:
  "\<exists>r'. ras_mc_event_opendb (demo_db_env True) demo_db = Some (0, r') \<and>
     db_live (db_conn (snd (ras_mc_event_closedb r'))) = [select_text aer_event_tab]"
proof -
  have loop: "open_loop (db_open (demo_db_env True)) 0 = Some (SQLITE_OK, 2)"
    using open_loop_busy [of "db_open (demo_db_env True)" 0] open_loop_last [of "db_open (demo_db_env True)" 1]
    by (simp add: demo_db_env_def SQLITE_OK_def SQLITE_BUSY_def)
  let ?c = "\<lparr>db_data = [''id'', ''timestamp''], db_live = [insert_text mc_event_tab]\<rparr>"
  let ?d = "[''id'', ''timestamp'', ''dev_name'', ''err_type'', ''err_msg'']"
  have mc: "ras_mc_prepare_stmt demo_sqlite mc_event_tab \<lparr>db_data = [''id'', ''timestamp''], db_live = []\<rparr> =
      Some (SQLITE_OK, Some (insert_text mc_event_tab), ?c)"
    by (simp add: ras_mc_prepare_stmt_def prepare_insert_table [OF mc_table] sqlite3_prepare_def demo_prepare)
  have lacks: "\<not> set (map fst (tab_fields aer_event_tab)) \<subseteq> set [''id'', ''timestamp'']"
      "set (map fst (tab_fields aer_event_tab)) \<subseteq> set ?d"
    by (simp_all add: aer_event_tab_def aer_event_fields_def)
  have "alter_columns demo_sqlite aer_event_tab [''id'', ''timestamp''] (tab_fields aer_event_tab) SQLITE_OK
      (?c\<lparr>db_live := [select_text aer_event_tab, insert_text mc_event_tab]\<rparr>) =
    Some (SQLITE_OK, \<lparr>db_data = ?d, db_live = [select_text aer_event_tab, insert_text mc_event_tab]\<rparr>)"
  proof -
    have fields: "tab_fields aer_event_tab = (''id'', ''INTEGER PRIMARY KEY'') # (''timestamp'', ''TEXT'') # demo_lacks"
      by (simp add: aer_event_tab_def aer_event_fields_def)
    show ?thesis
      unfolding fields using demo_columns table_sql(3) [OF aer_table]
      by (simp add: sqlite3_exec_def demo_exec fields del: fields)
  qed
  then have aer: "ras_mc_prepare_stmt demo_sqlite aer_event_tab ?c = Some (SQLITE_OK, Some (insert_text aer_event_tab),
      \<lparr>db_data = ?d, db_live = [insert_text aer_event_tab, select_text aer_event_tab, insert_text mc_event_tab]\<rparr>)"
    using lacks by (simp add: ras_mc_prepare_stmt_def prepare_insert_table [OF aer_table] ras_mc_alter_table_def
        table_sql(4) [OF aer_table] sqlite3_prepare_def demo_prepare)
  show ?thesis
    using loop mc aer
    by (simp add: ras_mc_event_opendb_def demo_db_env_def demo_db_def state_dir_ready_def demo_db_build_def db_steps_def
        ras_mc_create_table_def table_sql [OF mc_table] table_sql [OF aer_table] sqlite3_exec_def demo_prepare
        new_connections_def ras_mc_event_closedb_def sqlite3_close_def priv_stmts_def sqlite3_priv0_def
        sqlite3_finalize_def demo_texts)
qed

theorem open_close_releases_witness:
  "\<exists>r'. ras_mc_event_opendb (demo_db_env True) demo_db = Some (0, r') \<and>
     fst (ras_mc_event_closedb r') = 0 \<and> db_handles (snd (ras_mc_event_closedb r')) = 2"
proof -
  obtain r' where r': "ras_mc_event_opendb (demo_db_env True) demo_db = Some (0, r')"
    and live: "db_live (db_conn (snd (ras_mc_event_closedb r'))) = [select_text aer_event_tab]" using demo_opens by blast
  have "n = 1" if "db_open (demo_db_env True) n = SQLITE_OK" "\<forall>i < n. db_open (demo_db_env True) i = SQLITE_BUSY" for n
  proof -
    have "n \<noteq> 0" using that(1) by (cases n) (auto simp: demo_db_env_def SQLITE_OK_def SQLITE_BUSY_def)
    moreover have "\<not> 1 < n" using that(2) by (auto simp: demo_db_env_def SQLITE_OK_def SQLITE_BUSY_def)
    ultimately show ?thesis by linarith
  qed
  note one = this
  have "db_ref_count demo_db = 0" "db_handles demo_db = 0" by (simp_all add: demo_db_def)
  from open_close_releases [OF r' this(1) refl] this(2) live obtain n where
    "fst (ras_mc_event_closedb r') = 0" "db_open (demo_db_env True) n = SQLITE_OK"
    "\<forall>i < n. db_open (demo_db_env True) i = SQLITE_BUSY" "db_handles (snd (ras_mc_event_closedb r')) = n + 1" by auto
  then show ?thesis using r' one by auto
qed

end
