(* ===== verification/Report.thy ===== *)
theory Report
  imports Cxl_Events Reri_Handler Mc_Handler Aer_Handler Event_Handlers Arm_Handler Non_Standard String_Copy
begin

text \<open>
  \<open>ras-report.c\<close>: the report of an event to the daemon of ABRT through a socket. What is written to the
  socket, how often it is written and with which result are explicit; the answers of the system are a
  parameter.
\<close>

section \<open>The socket\<close>

text \<open>
  Whether the socket is opened and connected, the release of the kernel, the number of the process, and what
  \<open>write\<close> answers to the \<open>k\<close>-th buffer, as the \<open>int\<close> that the program keeps.
\<close>

record report_env =
  report_socket :: bool
  report_uname :: "string option"
  report_pid :: s32
  report_write :: "nat \<Rightarrow> string \<Rightarrow> s32"

definition MAX_BACKTRACE_SIZE :: nat where "MAX_BACKTRACE_SIZE = 1024 * 1024"
definition INPUT_BUFFER_SIZE :: nat where "INPUT_BUFFER_SIZE = 8 * 1024"

text \<open>
  Buffers written one after the other, up to the first whose result is less than its length. The length is a
  \<open>size_t\<close>, so the comparison is one of unsigned numbers. The result says whether none was short, with the
  last result and all that was written.
\<close>

fun send_each :: "report_env \<Rightarrow> string list \<Rightarrow> s32 \<Rightarrow> string list \<Rightarrow> bool \<times> s32 \<times> string list" where
  "send_each env [] rc sent = (True, rc, sent)"
| "send_each env (b # bs) rc sent =
     (let rc = report_write env (length sent) b; sent = sent @ [b]
      in if (scast rc :: u64) < of_nat (length b) then (False, rc, sent) else send_each env bs rc sent)"

section \<open>The preamble\<close>

definition basic_texts :: "s32 \<Rightarrow> string \<Rightarrow> string list" where
  "basic_texts pid release =
     [''PUT / HTTP/1.1'' @ [CHR 0x0D, CHR 0x0A, CHR 0x0D, CHR 0x0A],
      ''PID='' @ fmt_d pid @ [NUL],
      take (INPUT_BUFFER_SIZE - 1) (''EXECUTABLE=/boot/vmlinuz-'' @ release) @ [NUL],
      ''TYPE=ras'' @ [NUL]]"

definition commit_report_basic :: "report_env \<Rightarrow> string list \<Rightarrow> s32 \<times> string list" where
  "commit_report_basic env sent =
     (case report_uname env of
        None \<Rightarrow> (- 1, sent)
      | Some release \<Rightarrow>
          (case send_each env (basic_texts (report_pid env) release) 0 sent of
             (ok, rc, sent) \<Rightarrow> (if ok then 0 else - 1, sent)))"

section \<open>The backtrace\<close>

text \<open>
  The text of an event in the buffer of a mebibyte, as the C string that the buffer then holds: it ends at
  the first NUL.
\<close>

definition report_text :: "(string \<times> string) list \<Rightarrow> string" where
  "report_text fs = ''BACKTRACE='' @ concat (map (\<lambda>(k, v). k @ ''='' @ v @ [CHR 0x0A]) fs)"

definition backtrace :: "(string \<times> string) list \<Rightarrow> string" where
  "backtrace fs = c_str (take (MAX_BACKTRACE_SIZE - 1) (report_text fs))"

text \<open>What \<open>printf\<close> prints for a pointer to a string.\<close>

definition text_of :: "string option \<Rightarrow> string" where
  "text_of p = (case p of None \<Rightarrow> ''(null)'' | Some t \<Rightarrow> t)"

definition set_mc_event_backtrace :: "ras_mc_event \<Rightarrow> string" where
  "set_mc_event_backtrace ev = backtrace
     [(''timestamp'', mc_timestamp ev), (''error_count'', fmt_d (error_count ev)),
      (''error_type'', error_type ev), (''msg'', mc_msg ev), (''label'', mc_label ev),
      (''mc_index'', [char_of (unat (mc_index ev))]), (''top_layer'', [char_of (unat (top_layer ev))]),
      (''middle_layer'', [char_of (unat (middle_layer ev))]),
      (''lower_layer'', [char_of (unat (lower_layer ev))]), (''address'', fmt_u (mc_address ev)),
      (''grain'', fmt_u (grain ev)), (''syndrome'', fmt_u (syndrome ev)), (''driver_detail'', driver_detail ev)]"

definition set_mce_event_backtrace :: "string \<Rightarrow> mce_event \<Rightarrow> string" where
  "set_mce_event_backtrace stamp ev = backtrace
     [(''timestamp'', stamp), (''bank_name'', bank_name ev), (''error_msg'', error_msg ev),
      (''mcgstatus_msg'', mcgstatus_msg ev), (''mcistatus_msg'', mcistatus_msg ev),
      (''mcastatus_msg'', mcastatus_msg ev), (''user_action'', user_action ev),
      (''mc_location'', mc_location ev), (''mcgcap'', fmt_u (mcgcap ev)), (''mcgstatus'', fmt_u (mcgstatus ev)),
      (''status'', fmt_u (status ev)), (''addr'', fmt_u (addr ev)), (''misc'', fmt_u (misc ev)),
      (''ip'', fmt_u (ip ev)), (''tsc'', fmt_u (tsc ev)), (''walltime'', fmt_u (walltime ev)),
      (''cpu'', fmt_u (cpu ev)), (''cpuid'', fmt_u (cpuid ev)), (''apicid'', fmt_u (apicid ev)),
      (''socketid'', fmt_u (socketid ev)), (''cs'', fmt_u (cs ev)), (''bank'', fmt_u (bank ev)),
      (''cpuvendor'', fmt_u (cpuvendor ev))]"

definition set_aer_event_backtrace :: "ras_aer_event \<Rightarrow> string" where
  "set_aer_event_backtrace ev = backtrace
     [(''timestamp'', aer_timestamp ev), (''error_type'', aer_error_type ev), (''dev_name'', aer_dev_name ev),
      (''msg'', aer_msg ev)]"

definition set_non_standard_event_backtrace :: "ras_non_standard_event \<Rightarrow> string" where
  "set_non_standard_event_backtrace ev = backtrace
     [(''timestamp'', ne_timestamp ev), (''severity'', ne_severity ev), (''length'', fmt_d (ne_length ev))]"

definition set_arm_event_backtrace :: "ras_arm_event \<Rightarrow> string" where
  "set_arm_event_backtrace ev = backtrace
     [(''timestamp'', ar_timestamp ev), (''error_count'', fmt_d (ar_error_count ev)),
      (''affinity'', fmt_d (ar_affinity ev)), (''mpidr'', ''0x'' @ fmt_x (ar_mpidr ev)),
      (''midr'', ''0x'' @ fmt_x (ar_midr ev)), (''running_state'', fmt_d (ar_running_state ev)),
      (''psci_state'', fmt_d (ar_psci_state ev))]"

definition set_devlink_event_backtrace :: "devlink_event \<Rightarrow> string" where
  "set_devlink_event_backtrace ev = backtrace
     [(''timestamp'', dl_timestamp ev), (''bus_name'', dl_bus_name ev), (''dev_name'', dl_dev_name ev),
      (''driver_name'', dl_driver_name ev), (''reporter_name'', dl_reporter_name ev), (''msg'', dl_msg ev)]"

definition set_diskerror_event_backtrace :: "diskerror_event \<Rightarrow> string" where
  "set_diskerror_event_backtrace ev = backtrace
     [(''timestamp'', dk_timestamp ev), (''dev'', dk_dev ev), (''sector'', fmt_u (dk_sector ev)),
      (''nr_sector'', fmt_u (dk_nr_sector ev)), (''error'', dk_error ev), (''rwbs'', dk_rwbs ev),
      (''cmd'', dk_cmd ev)]"

definition set_mf_event_backtrace :: "ras_mf_event \<Rightarrow> string" where
  "set_mf_event_backtrace ev = backtrace
     [(''timestamp'', mf_timestamp ev), (''pfn'', mf_pfn ev), (''page_type'', mf_page_type ev),
      (''action_result'', mf_action_result ev)]"

definition set_cxl_poison_event_backtrace :: "ras_cxl_poison_event \<Rightarrow> string" where
  "set_cxl_poison_event_backtrace ev = backtrace
     [(''timestamp'', cp_timestamp ev), (''memdev'', cp_memdev ev), (''host'', cp_host ev),
      (''serial'', ''0x'' @ fmt_x (cp_serial ev)), (''trace_type'', cp_trace_type ev),
      (''region'', cp_region ev), (''region_uuid'', cp_uuid ev), (''hpa'', ''0x'' @ fmt_x (cp_hpa ev)),
      (''hpa_alias0'', ''0x'' @ fmt_x (cp_hpa_alias0 ev)), (''dpa'', ''0x'' @ fmt_x (cp_dpa ev)),
      (''dpa_length'', ''0x'' @ fmt_x (cp_dpa_length ev)), (''source'', cp_source ev),
      (''flags'', fmt_u (cp_flags ev)), (''overflow_timestamp'', cp_overflow_ts ev)]"

definition set_cxl_aer_ue_event_backtrace :: "ras_cxl_aer_ue_event \<Rightarrow> string" where
  "set_cxl_aer_ue_event_backtrace ev = backtrace
     [(''timestamp'', cu_timestamp ev), (''memdev'', cu_memdev ev), (''host'', cu_host ev),
      (''serial'', ''0x'' @ fmt_x (cu_serial ev)), (''error_status'', fmt_u (cu_error_status ev)),
      (''first_error'', fmt_u (cu_first_error ev))]"

definition set_cxl_aer_ce_event_backtrace :: "ras_cxl_aer_ce_event \<Rightarrow> string" where
  "set_cxl_aer_ce_event_backtrace ev = backtrace
     [(''timestamp'', cc_timestamp ev), (''memdev'', cc_memdev ev), (''host'', cc_host ev),
      (''serial'', ''0x'' @ fmt_x (cc_serial ev)), (''error_status'', fmt_u (cc_error_status ev))]"

definition set_cxl_overflow_event_backtrace :: "ras_cxl_overflow_event \<Rightarrow> string" where
  "set_cxl_overflow_event_backtrace ev = backtrace
     [(''timestamp'', co_timestamp ev), (''memdev'', co_memdev ev), (''host'', co_host ev),
      (''serial'', ''0x'' @ fmt_x (co_serial ev)), (''log_type'', co_log_type ev),
      (''count'', fmt_u (co_count ev)), (''first_ts'', co_first_ts ev), (''last_ts'', co_last_ts ev)]"

definition set_cxl_generic_event_backtrace :: "ras_cxl_generic_event \<Rightarrow> string" where
  "set_cxl_generic_event_backtrace ev = backtrace
     [(''timestamp'', h_timestamp (cg_hdr ev)), (''memdev'', h_memdev (cg_hdr ev)),
      (''host'', h_host (cg_hdr ev)), (''serial'', ''0x'' @ fmt_x (h_serial (cg_hdr ev))),
      (''log_type'', h_log_type (cg_hdr ev)),
      (''hdr_uuid'', text_of (uuid_at (h_hdr_uuid (cg_hdr ev)) (cg_hdr ev))),
      (''hdr_flags'', ''0x'' @ fmt_x (h_hdr_flags (cg_hdr ev))),
      (''hdr_handle'', ''0x'' @ fmt_x (h_hdr_handle (cg_hdr ev))),
      (''hdr_related_handle'', ''0x'' @ fmt_x (h_hdr_related_handle (cg_hdr ev))),
      (''hdr_timestamp'', h_hdr_timestamp (cg_hdr ev)), (''hdr_length'', fmt_u (h_hdr_length (cg_hdr ev))),
      (''hdr_maint_op_class'', fmt_u (h_hdr_maint_op_class (cg_hdr ev))),
      (''hdr_maint_op_sub_class'', fmt_u (h_hdr_maint_op_sub_class (cg_hdr ev))),
      (''hdr_ld_id'', ''0x'' @ fmt_x (h_hdr_ld_id (cg_hdr ev))),
      (''hdr_head_id'', ''0x'' @ fmt_x (h_hdr_head_id (cg_hdr ev)))]"

definition set_cxl_general_media_event_backtrace :: "ras_cxl_general_media_event \<Rightarrow> string" where
  "set_cxl_general_media_event_backtrace ev = backtrace
     [(''timestamp'', h_timestamp (gm_hdr ev)), (''memdev'', h_memdev (gm_hdr ev)),
      (''host'', h_host (gm_hdr ev)), (''serial'', ''0x'' @ fmt_x (h_serial (gm_hdr ev))),
      (''log_type'', h_log_type (gm_hdr ev)),
      (''hdr_uuid'', text_of (uuid_at (h_hdr_uuid (gm_hdr ev)) (gm_hdr ev))),
      (''hdr_flags'', ''0x'' @ fmt_x (h_hdr_flags (gm_hdr ev))),
      (''hdr_handle'', ''0x'' @ fmt_x (h_hdr_handle (gm_hdr ev))),
      (''hdr_related_handle'', ''0x'' @ fmt_x (h_hdr_related_handle (gm_hdr ev))),
      (''hdr_timestamp'', h_hdr_timestamp (gm_hdr ev)), (''hdr_length'', fmt_u (h_hdr_length (gm_hdr ev))),
      (''hdr_maint_op_class'', fmt_u (h_hdr_maint_op_class (gm_hdr ev))),
      (''hdr_maint_op_sub_class'', fmt_u (h_hdr_maint_op_sub_class (gm_hdr ev))),
      (''hdr_ld_id'', ''0x'' @ fmt_x (h_hdr_ld_id (gm_hdr ev))),
      (''hdr_head_id'', ''0x'' @ fmt_x (h_hdr_head_id (gm_hdr ev))), (''dpa'', ''0x'' @ fmt_x (gm_dpa ev)),
      (''dpa_flags'', fmt_u (gm_dpa_flags ev)), (''descriptor'', fmt_u (gm_descriptor ev)),
      (''type'', fmt_u (gm_type ev)), (''sub_type'', ''0x'' @ fmt_x (gm_sub_type ev)),
      (''transaction_type'', fmt_u (gm_transaction_type ev)), (''hpa'', ''0x'' @ fmt_x (gm_hpa ev)),
      (''hpa_alias0'', ''0x'' @ fmt_x (gm_hpa_alias0 ev)), (''region'', gm_region ev),
      (''region_uuid'', text_of (uuid_at (gm_region_uuid ev) (gm_hdr ev))),
      (''channel'', fmt_u (gm_channel ev)), (''rank'', fmt_u (gm_rank ev)),
      (''device'', ''0x'' @ fmt_x (gm_device ev)),
      (''cme_threshold_ev_flags'', ''0x'' @ fmt_x (gm_cme_threshold_ev_flags ev)),
      (''cme_count'', ''0x'' @ fmt_x (gm_cme_count ev))]"

definition set_cxl_dram_event_backtrace :: "ras_cxl_dram_event \<Rightarrow> string" where
  "set_cxl_dram_event_backtrace ev = backtrace
     [(''timestamp'', h_timestamp (dr_hdr ev)), (''memdev'', h_memdev (dr_hdr ev)),
      (''host'', h_host (dr_hdr ev)), (''serial'', ''0x'' @ fmt_x (h_serial (dr_hdr ev))),
      (''log_type'', h_log_type (dr_hdr ev)),
      (''hdr_uuid'', text_of (uuid_at (h_hdr_uuid (dr_hdr ev)) (dr_hdr ev))),
      (''hdr_flags'', ''0x'' @ fmt_x (h_hdr_flags (dr_hdr ev))),
      (''hdr_handle'', ''0x'' @ fmt_x (h_hdr_handle (dr_hdr ev))),
      (''hdr_related_handle'', ''0x'' @ fmt_x (h_hdr_related_handle (dr_hdr ev))),
      (''hdr_timestamp'', h_hdr_timestamp (dr_hdr ev)), (''hdr_length'', fmt_u (h_hdr_length (dr_hdr ev))),
      (''hdr_maint_op_class'', fmt_u (h_hdr_maint_op_class (dr_hdr ev))),
      (''hdr_maint_op_sub_class'', fmt_u (h_hdr_maint_op_sub_class (dr_hdr ev))),
      (''hdr_ld_id'', ''0x'' @ fmt_x (h_hdr_ld_id (dr_hdr ev))),
      (''hdr_head_id'', ''0x'' @ fmt_x (h_hdr_head_id (dr_hdr ev))), (''dpa'', ''0x'' @ fmt_x (dr_dpa ev)),
      (''dpa_flags'', fmt_u (dr_dpa_flags ev)), (''descriptor'', fmt_u (dr_descriptor ev)),
      (''type'', fmt_u (dr_type ev)), (''sub_type'', ''0x'' @ fmt_x (dr_sub_type ev)),
      (''transaction_type'', fmt_u (dr_transaction_type ev)), (''hpa'', ''0x'' @ fmt_x (dr_hpa ev)),
      (''hpa_alias0'', ''0x'' @ fmt_x (dr_hpa_alias0 ev)), (''region'', dr_region ev),
      (''region_uuid'', text_of (uuid_at (dr_region_uuid ev) (dr_hdr ev))),
      (''channel'', fmt_u (dr_channel ev)), (''sub_channel'', fmt_u (dr_sub_channel ev)),
      (''rank'', fmt_u (dr_rank ev)), (''nibble_mask'', fmt_u (dr_nibble_mask ev)),
      (''bank_group'', fmt_u (dr_bank_group ev)), (''bank'', fmt_u (dr_bank ev)), (''row'', fmt_u (dr_row ev)),
      (''column'', fmt_u (dr_column ev)),
      (''cme_threshold_ev_flags'', ''0x'' @ fmt_x (dr_cme_threshold_ev_flags ev)),
      (''cvme_count'', ''0x'' @ fmt_x (dr_cvme_count ev))]"

definition set_cxl_memory_module_event_backtrace :: "ras_cxl_memory_module_event \<Rightarrow> string" where
  "set_cxl_memory_module_event_backtrace ev = backtrace
     [(''timestamp'', h_timestamp (mm_hdr ev)), (''memdev'', h_memdev (mm_hdr ev)),
      (''host'', h_host (mm_hdr ev)), (''serial'', ''0x'' @ fmt_x (h_serial (mm_hdr ev))),
      (''log_type'', h_log_type (mm_hdr ev)),
      (''hdr_uuid'', text_of (uuid_at (h_hdr_uuid (mm_hdr ev)) (mm_hdr ev))),
      (''hdr_flags'', ''0x'' @ fmt_x (h_hdr_flags (mm_hdr ev))),
      (''hdr_handle'', ''0x'' @ fmt_x (h_hdr_handle (mm_hdr ev))),
      (''hdr_related_handle'', ''0x'' @ fmt_x (h_hdr_related_handle (mm_hdr ev))),
      (''hdr_timestamp'', h_hdr_timestamp (mm_hdr ev)), (''hdr_length'', fmt_u (h_hdr_length (mm_hdr ev))),
      (''hdr_maint_op_class'', fmt_u (h_hdr_maint_op_class (mm_hdr ev))),
      (''hdr_maint_op_sub_class'', fmt_u (h_hdr_maint_op_sub_class (mm_hdr ev))),
      (''hdr_ld_id'', ''0x'' @ fmt_x (h_hdr_ld_id (mm_hdr ev))),
      (''hdr_head_id'', ''0x'' @ fmt_x (h_hdr_head_id (mm_hdr ev))), (''event_type'', fmt_u (mm_event_type ev)),
      (''event_sub_type'', ''0x'' @ fmt_x (mm_event_sub_type ev)),
      (''health_status'', fmt_u (mm_health_status ev)), (''media_status'', fmt_u (mm_media_status ev)),
      (''life_used'', fmt_u (mm_life_used ev)), (''dirty_shutdown_cnt'', fmt_u (mm_dirty_shutdown_cnt ev)),
      (''cor_vol_err_cnt'', fmt_u (mm_cor_vol_err_cnt ev)),
      (''cor_per_err_cnt'', fmt_u (mm_cor_per_err_cnt ev)), (''device_temp'', fmt_d (mm_device_temp ev)),
      (''add_status'', fmt_u (mm_add_status ev))]"

definition set_signal_event_backtrace :: "ras_signal_event \<Rightarrow> string" where
  "set_signal_event_backtrace ev = backtrace
     [(''timestamp'', sg_timestamp ev), (''signal'', fmt_d (sg_sig ev)), (''errorno'', fmt_d (sg_error_no ev)),
      (''code'', fmt_d (sg_code ev)), (''comm'', sg_comm ev), (''grp'', fmt_d (sg_group ev)),
      (''res'', fmt_d (sg_result ev))]"

section \<open>The kinds of events\<close>

text \<open>The number of the kind with the event that the pointer is cast to. The last kind has no case.\<close>

datatype report_event =
  MC_EVENT ras_mc_event
| MCE_EVENT string mce_event
| AER_EVENT ras_aer_event
| NON_STANDARD_EVENT ras_non_standard_event
| ARM_EVENT ras_arm_event
| DEVLINK_EVENT devlink_event
| DISKERROR_EVENT diskerror_event
| MF_EVENT ras_mf_event
| CXL_POISON_EVENT ras_cxl_poison_event
| CXL_AER_UE_EVENT ras_cxl_aer_ue_event
| CXL_AER_CE_EVENT ras_cxl_aer_ce_event
| CXL_OVERFLOW_EVENT ras_cxl_overflow_event
| CXL_GENERIC_EVENT ras_cxl_generic_event
| CXL_GENERAL_MEDIA_EVENT ras_cxl_general_media_event
| CXL_DRAM_EVENT ras_cxl_dram_event
| CXL_MEMORY_MODULE_EVENT ras_cxl_memory_module_event
| SIGNAL_EVENT ras_signal_event
| RERI_EVENT ras_reri_event

fun event_backtrace :: "report_event \<Rightarrow> string option" where
  "event_backtrace (MC_EVENT ev) = Some (set_mc_event_backtrace ev)"
| "event_backtrace (MCE_EVENT stamp ev) = Some (set_mce_event_backtrace stamp ev)"
| "event_backtrace (AER_EVENT ev) = Some (set_aer_event_backtrace ev)"
| "event_backtrace (NON_STANDARD_EVENT ev) = Some (set_non_standard_event_backtrace ev)"
| "event_backtrace (ARM_EVENT ev) = Some (set_arm_event_backtrace ev)"
| "event_backtrace (DEVLINK_EVENT ev) = Some (set_devlink_event_backtrace ev)"
| "event_backtrace (DISKERROR_EVENT ev) = Some (set_diskerror_event_backtrace ev)"
| "event_backtrace (MF_EVENT ev) = Some (set_mf_event_backtrace ev)"
| "event_backtrace (CXL_POISON_EVENT ev) = Some (set_cxl_poison_event_backtrace ev)"
| "event_backtrace (CXL_AER_UE_EVENT ev) = Some (set_cxl_aer_ue_event_backtrace ev)"
| "event_backtrace (CXL_AER_CE_EVENT ev) = Some (set_cxl_aer_ce_event_backtrace ev)"
| "event_backtrace (CXL_OVERFLOW_EVENT ev) = Some (set_cxl_overflow_event_backtrace ev)"
| "event_backtrace (CXL_GENERIC_EVENT ev) = Some (set_cxl_generic_event_backtrace ev)"
| "event_backtrace (CXL_GENERAL_MEDIA_EVENT ev) = Some (set_cxl_general_media_event_backtrace ev)"
| "event_backtrace (CXL_DRAM_EVENT ev) = Some (set_cxl_dram_event_backtrace ev)"
| "event_backtrace (CXL_MEMORY_MODULE_EVENT ev) = Some (set_cxl_memory_module_event_backtrace ev)"
| "event_backtrace (SIGNAL_EVENT ev) = Some (set_signal_event_backtrace ev)"
| "event_backtrace (RERI_EVENT ev) = None"

text \<open>
  The text in pieces of one less than the size of the buffer of the reader, the last with its NUL. The
  results are compared as signed numbers.
\<close>

function send_chunks :: "report_env \<Rightarrow> string \<Rightarrow> string list \<Rightarrow> s32 \<times> string list" where
  "send_chunks env t sent =
     (if length t > INPUT_BUFFER_SIZE - 1 then
        (let b = take (INPUT_BUFFER_SIZE - 1) t
         in if sint (report_write env (length sent) b) < int (INPUT_BUFFER_SIZE - 1) then (- 1, sent @ [b])
            else send_chunks env (drop (INPUT_BUFFER_SIZE - 1) t) (sent @ [b]))
      else
        (let b = t @ [NUL]
         in (if sint (report_write env (length sent) b) < int (length t) then - 1 else 0, sent @ [b])))"
  by pat_completeness auto
termination
  by (relation "measure (\<lambda>(env, t, sent). length t)") (auto simp: INPUT_BUFFER_SIZE_def)

declare send_chunks.simps [simp del]

definition commit_report_backtrace :: "report_env \<Rightarrow> report_event \<Rightarrow> string list \<Rightarrow> s32 \<times> string list" where
  "commit_report_backtrace env e sent =
     (case event_backtrace e of None \<Rightarrow> (- 1, sent) | Some t \<Rightarrow> send_chunks env t sent)"

section \<open>The reports\<close>

definition closing_texts :: "string \<Rightarrow> string \<Rightarrow> string list" where
  "closing_texts analyzer reason = [''ANALYZER='' @ analyzer @ [NUL], ''REASON='' @ reason @ [NUL]]"

text \<open>The result and what was written. The functions of the second form return the last result of \<open>write\<close>.\<close>

definition report_done :: "report_env \<Rightarrow> report_event \<Rightarrow> string \<Rightarrow> string \<Rightarrow> s32 \<times> string list" where
  "report_done env e analyzer reason =
     (if \<not> report_socket env then (- 1, [])
      else case commit_report_basic env [] of (rc, sent) \<Rightarrow>
      if sint rc < 0 then (- 1, sent)
      else case commit_report_backtrace env e sent of (rc, sent) \<Rightarrow>
      if sint rc < 0 then (- 1, sent)
      else case send_each env (closing_texts analyzer reason) rc sent of (ok, rc, sent) \<Rightarrow>
      (if ok then 0 else - 1, sent))"

definition report_rc :: "report_env \<Rightarrow> report_event \<Rightarrow> string \<Rightarrow> string \<Rightarrow> s32 \<times> string list" where
  "report_rc env e analyzer reason =
     (if \<not> report_socket env then (- 1, [])
      else case commit_report_basic env [] of (rc, sent) \<Rightarrow>
      if sint rc < 0 then (rc, sent)
      else case commit_report_backtrace env e sent of (rc, sent) \<Rightarrow>
      if sint rc < 0 then (rc, sent)
      else case send_each env (closing_texts analyzer reason) rc sent of (ok, rc, sent) \<Rightarrow>
      (if ok then 0 else rc, sent))"

definition ras_report_mc_event :: "report_env \<Rightarrow> ras_mc_event \<Rightarrow> s32 \<times> string list" where
  "ras_report_mc_event env ev =
     report_done env (MC_EVENT ev)
       ''rasdaemon-mc'' ''EDAC driver report problem''"

definition ras_report_aer_event :: "report_env \<Rightarrow> ras_aer_event \<Rightarrow> s32 \<times> string list" where
  "ras_report_aer_event env ev =
     report_done env (AER_EVENT ev)
       ''rasdaemon-aer'' ''PCIe AER driver report problem''"

definition ras_report_non_standard_event :: "report_env \<Rightarrow> ras_non_standard_event \<Rightarrow> s32 \<times> string list" where
  "ras_report_non_standard_event env ev =
     report_rc env (NON_STANDARD_EVENT ev)
       ''rasdaemon-non-standard'' ''Unknown CPER section problem''"

definition ras_report_arm_event :: "report_env \<Rightarrow> ras_arm_event \<Rightarrow> s32 \<times> string list" where
  "ras_report_arm_event env ev =
     report_rc env (ARM_EVENT ev)
       ''rasdaemon-arm'' ''ARM CPU report problem''"

definition ras_report_mce_event :: "report_env \<Rightarrow> string \<Rightarrow> mce_event \<Rightarrow> s32 \<times> string list" where
  "ras_report_mce_event env stamp ev =
     report_done env (MCE_EVENT stamp ev)
       ''rasdaemon-mce'' ''Machine Check driver report problem''"

definition ras_report_devlink_event :: "report_env \<Rightarrow> devlink_event \<Rightarrow> s32 \<times> string list" where
  "ras_report_devlink_event env ev =
     report_done env (DEVLINK_EVENT ev)
       ''rasdaemon-devlink'' ''devlink health report problem''"

definition ras_report_diskerror_event :: "report_env \<Rightarrow> diskerror_event \<Rightarrow> s32 \<times> string list" where
  "ras_report_diskerror_event env ev =
     report_done env (DISKERROR_EVENT ev)
       ''rasdaemon-diskerror'' ''disk I/O error''"

definition ras_report_mf_event :: "report_env \<Rightarrow> ras_mf_event \<Rightarrow> s32 \<times> string list" where
  "ras_report_mf_event env ev =
     report_done env (MF_EVENT ev)
       ''rasdaemon-memory_failure'' ''memory failure problem''"

definition ras_report_cxl_poison_event :: "report_env \<Rightarrow> ras_cxl_poison_event \<Rightarrow> s32 \<times> string list" where
  "ras_report_cxl_poison_event env ev =
     report_done env (CXL_POISON_EVENT ev)
       ''rasdaemon-cxl-poison'' ''CXL poison''"

definition ras_report_cxl_aer_ue_event :: "report_env \<Rightarrow> ras_cxl_aer_ue_event \<Rightarrow> s32 \<times> string list" where
  "ras_report_cxl_aer_ue_event env ev =
     report_done env (CXL_AER_UE_EVENT ev)
       ''rasdaemon-cxl-aer-uncorrectable-error'' ''CXL AER uncorrectable error''"

definition ras_report_cxl_aer_ce_event :: "report_env \<Rightarrow> ras_cxl_aer_ce_event \<Rightarrow> s32 \<times> string list" where
  "ras_report_cxl_aer_ce_event env ev =
     report_done env (CXL_AER_CE_EVENT ev)
       ''rasdaemon-cxl-aer-correctable-error'' ''CXL AER correctable error''"

definition ras_report_cxl_overflow_event :: "report_env \<Rightarrow> ras_cxl_overflow_event \<Rightarrow> s32 \<times> string list" where
  "ras_report_cxl_overflow_event env ev =
     report_done env (CXL_OVERFLOW_EVENT ev)
       ''rasdaemon-cxl-overflow'' ''CXL overflow''"

definition ras_report_cxl_generic_event :: "report_env \<Rightarrow> ras_cxl_generic_event \<Rightarrow> s32 \<times> string list" where
  "ras_report_cxl_generic_event env ev =
     report_done env (CXL_GENERIC_EVENT ev)
       ''rasdaemon-cxl_generic_event'' ''CXL Generic Event ''"

definition ras_report_cxl_general_media_event :: "report_env \<Rightarrow> ras_cxl_general_media_event \<Rightarrow> s32 \<times> string list" where
  "ras_report_cxl_general_media_event env ev =
     report_done env (CXL_GENERAL_MEDIA_EVENT ev)
       ''rasdaemon-cxl_general_media_event'' ''CXL General Media Event''"

definition ras_report_cxl_dram_event :: "report_env \<Rightarrow> ras_cxl_dram_event \<Rightarrow> s32 \<times> string list" where
  "ras_report_cxl_dram_event env ev =
     report_done env (CXL_DRAM_EVENT ev)
       ''rasdaemon-cxl_dram_event'' ''CXL DRAM Event''"

definition ras_report_cxl_memory_module_event :: "report_env \<Rightarrow> ras_cxl_memory_module_event \<Rightarrow> s32 \<times> string list" where
  "ras_report_cxl_memory_module_event env ev =
     report_done env (CXL_MEMORY_MODULE_EVENT ev)
       ''rasdaemon-cxl_memory_module_event'' ''CXL Memory Module Event''"

definition ras_report_signal_event :: "report_env \<Rightarrow> ras_signal_event \<Rightarrow> s32 \<times> string list" where
  "ras_report_signal_event env ev =
     report_done env (SIGNAL_EVENT ev)
       ''rasdaemon-signal_event'' ''SIGBUS for Hardware error''"

definition ras_report_reri_event :: "report_env \<Rightarrow> ras_reri_event \<Rightarrow> s32 \<times> string list" where
  "ras_report_reri_event env ev =
     report_rc env (RERI_EVENT ev)
       ''rasdaemon-reri'' ''RISC-V RERI error report''"

section \<open>What is compared\<close>

lemma int_of_size: "n < 2 ^ 31 \<Longrightarrow> sint (of_nat n :: s32) = int n"
  by (simp add: sint_uint unsigned_of_nat take_bit_nat_eq_self signed_take_bit_int_eq_self)

lemma uint_scast: "uint (scast (rc :: s32) :: u64) = sint rc mod 2 ^ 64"
proof -
  have "uint (word_of_int (sint rc) :: u64) = sint rc mod 2 ^ 64" by (subst uint_word_of_int) simp
  then show ?thesis unfolding scast_eq .
qed

text \<open>The comparison with a length is false for a negative result.\<close>

lemma unsigned_compare:
  assumes "n < 2 ^ 31"
  shows "(scast (rc :: s32) :: u64) < of_nat n \<longleftrightarrow> 0 \<le> sint rc \<and> sint rc < int n"
proof -
  have n: "uint (of_nat n :: u64) = int n"
    using assms by (simp add: unsigned_of_nat take_bit_nat_eq_self)
  have b: "- (2 ^ 31) \<le> sint rc" "sint rc < 2 ^ 31" using sint_ge [of rc] sint_lt [of rc] by simp_all
  have m: "sint rc mod 2 ^ 64 = (if 0 \<le> sint rc then sint rc else sint rc + 2 ^ 64)"
  proof (cases "0 \<le> sint rc")
    case False
    then have "(sint rc + 2 ^ 64) mod 2 ^ 64 = sint rc + 2 ^ 64" using b by (intro mod_pos_pos_trivial) auto
    then show ?thesis using False by simp
  qed (use b in \<open>simp add: mod_pos_pos_trivial\<close>)
  show ?thesis using assms b unfolding word_less_def uint_scast n m by auto
qed

definition taken_for_sent :: "s32 \<Rightarrow> string \<Rightarrow> bool" where
  "taken_for_sent rc b \<longleftrightarrow> sint rc < 0 \<or> int (length b) \<le> sint rc"

lemma list_all_upt_Suc: "list_all P [0..<Suc n] \<longleftrightarrow> P 0 \<and> list_all (\<lambda>i. P (Suc i)) [0..<n]"
  by (simp add: upt_conv_Cons list.pred_map comp_def flip: map_Suc_upt del: upt_Suc)

lemma send_each_ok:
  "list_all (\<lambda>b. length b < 2 ^ 31) bs \<Longrightarrow>
     fst (send_each env bs rc sent) \<longleftrightarrow>
       list_all (\<lambda>i. taken_for_sent (report_write env (length sent + i) (bs ! i)) (bs ! i)) [0..<length bs]"
proof (induction bs arbitrary: rc sent)
  case (Cons b bs)
  let ?rc = "report_write env (length sent) b"
  have "length b < 2 ^ 31" using Cons.prems by simp
  then have "(scast ?rc :: u64) < of_nat (length b) \<longleftrightarrow> \<not> taken_for_sent ?rc b"
    by (auto simp: unsigned_compare taken_for_sent_def)
  then show ?case
    using Cons.IH [of ?rc "sent @ [b]"] Cons.prems
    by (simp add: Let_def list_all_upt_Suc del: upt_Suc)
qed simp

lemma length_fmt_d32: "length (fmt_d (w :: s32)) \<le> 11"
proof -
  have b: "- (2 ^ 31) \<le> sint w" "sint w < 2 ^ 31" using sint_ge [of w] sint_lt [of w] by simp_all
  then have "length (to_base 10 (nat \<bar>sint w\<bar>)) \<le> Suc 9" by (intro length_to_base) auto
  then show ?thesis by (auto simp: fmt_d_def fmt_int_def abs_if split: if_splits)
qed

lemma basic_texts_short: "list_all (\<lambda>b. length b < 2 ^ 31) (basic_texts pid rel)"
  using length_fmt_d32 [of pid] by (simp add: basic_texts_def INPUT_BUFFER_SIZE_def)

text \<open>
  C39: the preamble of a report is taken for sent exactly when each of its four buffers is written as a whole
  or is not written at all with an error: the result of \<open>write\<close>, compared with a length that is unsigned, is
  a huge number when it is -1.
\<close>

theorem preamble_misses_errors:
  "fst (commit_report_basic env sent) = 0 \<longleftrightarrow>
     (\<exists>release. report_uname env = Some release \<and>
        list_all (\<lambda>i. let b = basic_texts (report_pid env) release ! i; rc = report_write env (length sent + i) b
           in sint rc < 0 \<or> int (length b) \<le> sint rc) [0..<4])"
proof (cases "report_uname env")
  case (Some release)
  have "length (basic_texts (report_pid env) release) = 4" by (simp add: basic_texts_def)
  then show ?thesis
    using send_each_ok [OF basic_texts_short [of "report_pid env" release], of env 0 sent] Some
    by (simp add: commit_report_basic_def taken_for_sent_def Let_def case_prod_beta)
qed (simp add: commit_report_basic_def)

text \<open>
  An event of a RISC-V hart is never reported: its kind has no case in the function that sends the text of
  an event, so that the report ends after the preamble with an error, whatever the socket does.
\<close>

theorem reri_never_reported:
  "ras_report_reri_event env ev =
     (- 1, if report_socket env then snd (commit_report_basic env []) else [])"
  by (auto simp: ras_report_reri_event_def report_rc_def commit_report_backtrace_def commit_report_basic_def
      split: option.split prod.split)

section \<open>The pieces of a text\<close>

text \<open>A socket that takes every buffer of the size of that of the reader.\<close>

definition writes_all :: "report_env \<Rightarrow> bool" where
  "writes_all env \<longleftrightarrow> (\<forall>k b. length b \<le> INPUT_BUFFER_SIZE \<longrightarrow> report_write env k b = of_nat (length b))"

lemma send_chunks_spec:
  "\<exists>cs. snd (send_chunks env t sent) = sent @ cs \<and> list_all (\<lambda>c. length c \<le> INPUT_BUFFER_SIZE) cs \<and>
     (\<exists>rest. concat cs @ rest = t @ [NUL] \<and> (fst (send_chunks env t sent) = 0 \<longrightarrow> rest = []))"
proof (induction env t sent rule: send_chunks.induct)
  case (1 env t sent)
  let ?n = "INPUT_BUFFER_SIZE - 1"
  let ?b = "take ?n t" and ?rest = "drop ?n t"
  let ?rc = "sint (report_write env (length sent) ?b)"
  consider (last) "\<not> length t > ?n" | (short) "length t > ?n" "?rc < int ?n" | (more) "length t > ?n" "\<not> ?rc < int ?n"
    by blast
  then show ?case
  proof cases
    case last
    then show ?thesis
      by (subst (1 2) send_chunks.simps) (auto simp: Let_def INPUT_BUFFER_SIZE_def intro!: exI [of _ "[t @ [NUL]]"])
  next
    case short
    then have "send_chunks env t sent = (- 1, sent @ [?b])" by (subst send_chunks.simps) (simp add: Let_def)
    then show ?thesis
      by (auto simp: INPUT_BUFFER_SIZE_def intro!: exI [of _ "[?b]"] exI [of _ "?rest @ [NUL]"])
  next
    case more
    then have eq: "send_chunks env t sent = send_chunks env ?rest (sent @ [?b])"
      by (subst send_chunks.simps) (simp add: Let_def)
    from 1 [OF more(1) refl] more(2) obtain cs rest where cs:
      "snd (send_chunks env ?rest (sent @ [?b])) = (sent @ [?b]) @ cs"
      "list_all (\<lambda>c. length c \<le> INPUT_BUFFER_SIZE) cs" "concat cs @ rest = ?rest @ [NUL]"
      "fst (send_chunks env ?rest (sent @ [?b])) = 0 \<longrightarrow> rest = []" by blast
    have "concat (?b # cs) @ rest = t @ [NUL]" using cs(3) by (metis append.assoc append_take_drop_id concat.simps(2))
    moreover have "length ?b \<le> INPUT_BUFFER_SIZE" by simp
    ultimately show ?thesis using cs unfolding eq
      by (intro exI [of _ "?b # cs"]) (auto intro!: exI [of _ rest])
  qed
qed

lemma send_chunks_all: "writes_all env \<Longrightarrow> fst (send_chunks env t sent) = 0"
proof (induction env t sent rule: send_chunks.induct)
  case (1 env t sent)
  have full: "sint (report_write env k b) = int (length b)" if "length b \<le> INPUT_BUFFER_SIZE" for k b
    using 1(2) that by (simp add: writes_all_def int_of_size INPUT_BUFFER_SIZE_def)
  show ?case
  proof (cases "length t > INPUT_BUFFER_SIZE - 1")
    case True
    then show ?thesis
      using 1(1) [OF True refl] 1(2) full [of "take (INPUT_BUFFER_SIZE - 1) t"]
      by (subst send_chunks.simps) (simp add: Let_def)
  next
    case False
    then show ?thesis
      using full [of "t @ [NUL]"] by (subst send_chunks.simps) (auto simp: Let_def INPUT_BUFFER_SIZE_def)
  qed
qed

lemma send_each_all:
  "writes_all env \<Longrightarrow> list_all (\<lambda>b. length b \<le> INPUT_BUFFER_SIZE) bs \<Longrightarrow>
     \<exists>rc'. send_each env bs rc sent = (True, rc', sent @ bs)"
proof (induction bs arbitrary: rc sent)
  case (Cons b bs)
  let ?rc = "report_write env (length sent) b"
  have "\<not> (scast ?rc :: u64) < of_nat (length b)"
    using Cons.prems by (simp add: writes_all_def unsigned_compare int_of_size INPUT_BUFFER_SIZE_def)
  then show ?case using Cons.IH [of ?rc "sent @ [b]"] Cons.prems by (simp add: Let_def)
qed simp

text \<open>
  C38: on a socket that takes every buffer, a report of an event whose kind has a text succeeds, and what is
  received is the preamble, the text of the event with its NUL, however long it is, and the two closing
  lines.
\<close>

theorem report_received:
  assumes "writes_all env" and "report_socket env" and "report_uname env = Some release"
    and "event_backtrace e = Some t" and "length analyzer \<le> 8000" and "length reason \<le> 8000"
  shows "fst (report_done env e analyzer reason) = 0 \<and>
    concat (snd (report_done env e analyzer reason)) =
      concat (basic_texts (report_pid env) release) @ t @ [NUL] @ concat (closing_texts analyzer reason)"
proof -
  let ?bs = "basic_texts (report_pid env) release"
  have "list_all (\<lambda>b. length b \<le> INPUT_BUFFER_SIZE) ?bs"
    using length_fmt_d32 [of "report_pid env"] by (simp add: basic_texts_def INPUT_BUFFER_SIZE_def)
  then have basic: "commit_report_basic env [] = (0, ?bs)"
    using send_each_all [OF assms(1), of ?bs 0 "[]"] assms(3) by (auto simp: commit_report_basic_def)
  obtain cs where cs: "send_chunks env t ?bs = (0, ?bs @ cs)" "concat cs = t @ [NUL]"
    using send_chunks_spec [of env t ?bs] send_chunks_all [OF assms(1), of t ?bs]
    by (cases "send_chunks env t ?bs") auto
  have "list_all (\<lambda>b. length b \<le> INPUT_BUFFER_SIZE) (closing_texts analyzer reason)"
    using assms(5,6) by (simp add: closing_texts_def INPUT_BUFFER_SIZE_def)
  then obtain rc' where
    "send_each env (closing_texts analyzer reason) 0 (?bs @ cs) = (True, rc', (?bs @ cs) @ closing_texts analyzer reason)"
    using send_each_all [OF assms(1)] by blast
  then show ?thesis
    using assms(2,4) basic cs by (simp add: report_done_def commit_report_backtrace_def)
qed

section \<open>The report of a memory error is cut\<close>

lemma digit_char_no_NUL: "d < 16 \<Longrightarrow> digit_char d \<noteq> NUL"
proof
  assume "d < 16" and "digit_char d = NUL"
  then have "of_char (digit_char d) = (0 :: nat)" by simp
  then show False using \<open>d < 16\<close> by (auto simp: digit_char_def split: if_splits)
qed

lemma to_base_no_NUL: "2 \<le> b \<Longrightarrow> b \<le> 16 \<Longrightarrow> NUL \<notin> set (to_base b n)"
proof (induction b n rule: to_base.induct)
  case (1 b n)
  have "n mod b < 16" using mod_less_divisor [of b n] 1(2,3) by linarith
  then have "NUL \<noteq> digit_char (n mod b)" using digit_char_no_NUL by metis
  moreover have "n < b \<Longrightarrow> NUL \<noteq> digit_char n" using digit_char_no_NUL [of n] 1(3) by auto
  ultimately show ?case using 1 by (subst to_base.simps) auto
qed

lemma fmt_d_no_NUL: "NUL \<notin> set (fmt_d (w :: 'a::len word))"
  by (simp add: fmt_d_def fmt_int_def to_base_no_NUL)

lemma c_str_NUL: "NUL \<notin> set t \<Longrightarrow> c_str (take n (t @ NUL # u)) = take n t"
  by (induction t arbitrary: n) (auto simp: c_str_def take_Cons split: nat.split)

text \<open>
  C40: the number of the memory controller and the layers are printed as characters. The text of an error of
  controller 0 ends where the number of the controller should be, and nothing that follows, the layers, the
  address and the syndrome among it, is reported.
\<close>

theorem mc_report_cut:
  assumes "mc_index ev = 0"
    and "NUL \<notin> set (mc_timestamp ev @ error_type ev @ mc_msg ev @ mc_label ev)"
    and "length (mc_timestamp ev @ error_type ev @ mc_msg ev @ mc_label ev) < 1000000"
  shows "set_mc_event_backtrace ev = report_text
     [(''timestamp'', mc_timestamp ev), (''error_count'', fmt_d (error_count ev)),
      (''error_type'', error_type ev), (''msg'', mc_msg ev), (''label'', mc_label ev)] @ ''mc_index=''"
proof -
  let ?fs = "[(''timestamp'', mc_timestamp ev), (''error_count'', fmt_d (error_count ev)),
      (''error_type'', error_type ev), (''msg'', mc_msg ev), (''label'', mc_label ev)]"
  let ?t = "report_text ?fs @ ''mc_index=''"
  have char: "char_of (0 :: nat) = NUL" by (simp add: char_of_def)
  have digits: "NUL \<notin> set (fmt_d (error_count ev))" by (rule fmt_d_no_NUL)
  then have "NUL \<notin> set ?t" using assms(2) by (auto simp: report_text_def)
  moreover have "length ?t \<le> MAX_BACKTRACE_SIZE - 1"
    using assms(3) length_fmt_d32 [of "error_count ev"] by (simp add: report_text_def MAX_BACKTRACE_SIZE_def)
  moreover have "report_text (?fs @ (''mc_index'', [NUL]) # fs) =
      ?t @ NUL # [CHR 0x0A] @ concat (map (\<lambda>(k, v). k @ ''='' @ v @ [CHR 0x0A]) fs)" for fs
    by (simp add: report_text_def)
  ultimately show ?thesis
    using c_str_NUL [of ?t "MAX_BACKTRACE_SIZE - 1"] assms(1) char
    by (simp add: set_mc_event_backtrace_def backtrace_def)
qed

section \<open>Instances\<close>

definition demo_report_env :: report_env where
  "demo_report_env =
     \<lparr>report_socket = True, report_uname = Some ''6.10'', report_pid = 7, report_write = (\<lambda>k b. of_nat (length b))\<rparr>"

definition demo_report_event :: ras_mc_event where
  "demo_report_event =
     \<lparr>mc_timestamp = ''now'', error_count = 3, error_type = ''Corrected'', mc_msg = ''read'', mc_label = ''DIMM'',
      mc_index = 0, top_layer = 1, middle_layer = 2, lower_layer = - 1, mc_address = 4096, grain = 8, syndrome = 0,
      driver_detail = []\<rparr>"

theorem mc_report_cut_witness:
  "mc_address demo_report_event = 4096 \<and>
   set_mc_event_backtrace demo_report_event = report_text
     [(''timestamp'', ''now''), (''error_count'', ''3''), (''error_type'', ''Corrected''), (''msg'', ''read''),
      (''label'', ''DIMM'')] @ ''mc_index=''"
proof -
  have "fmt_d (3 :: s32) = ''3''" by code_simp
  then show ?thesis
    using mc_report_cut [of demo_report_event] by (simp add: demo_report_event_def)
qed

theorem report_received_witness:
  "fst (ras_report_mc_event demo_report_env demo_report_event) = 0 \<and>
   concat (snd (ras_report_mc_event demo_report_env demo_report_event)) =
     concat (basic_texts 7 ''6.10'') @ set_mc_event_backtrace demo_report_event @ [NUL] @
     concat (closing_texts ''rasdaemon-mc'' ''EDAC driver report problem'')"
proof -
  have "writes_all demo_report_env" by (simp add: writes_all_def demo_report_env_def)
  from report_received [OF this, of "''6.10''" "MC_EVENT demo_report_event" "set_mc_event_backtrace demo_report_event"
      "''rasdaemon-mc''" "''EDAC driver report problem''"]
  show ?thesis by (simp add: ras_report_mc_event_def demo_report_env_def)
qed

end
