(* ===== verification/Spec2Isabelle.thy ===== *)
theory Spec2Isabelle
  imports String_Copy Mc_Handler Erst Aer_Handler Event_Handlers Arm_Handler Non_Standard Cxl_Facts Db_Open Report
begin

text \<open>
  A verification development for rasdaemon, a daemon that reads hardware error events from the kernel's
  trace buffers, decodes them, stores and reports them, and takes failing memory pages, memory rows and
  CPUs offline. File and function names below are those under \<open>src/\<close>.

  \<^bold>\<open>The parts and how they interact.\<close> The main loop (\<open>ras-events.c\<close>) hands each trace record to the handler
  of its event. A handler reads the fields of the record, prints a line, stores a row in the database,
  and may call an accounting part: \<open>ras-mc-handler.c\<close> feeds corrected memory errors to the page and row
  accounting of \<open>ras-page-isolation.c\<close>, \<open>ras-arm-handler.c\<close> feeds CPU errors to \<open>ras-cpu-isolation.c\<close>, and
  \<open>ras-mce-handler.c\<close> hands x86 machine checks to the decoder of the CPU it detected.

  \<^bold>\<open>Conventions.\<close> A static variable of a file is a field of the state record of its theory. What the
  kernel, the file system, the tracing library, the clock and the allocator answer are parameters, so
  that a theorem holds for every answer. \<open>None\<close> is undefined behaviour of the C code (a null or dangling
  pointer, an index out of range, an uninitialised read, a shift that is too wide, a signed overflow, a
  conversion out of range) except where a theory says otherwise; errors the code returns are values.
  Machine integers are words of their width. The difference of two time stamps, as of the queue of a CPU or
  of a cycle, is computed on words as well: it is the signed difference of the program for stamps that are
  not negative, as those of the clock and of the events are, since it then cannot overflow.
  A string is the list of its characters.

  \<^bold>\<open>Theories.\<close>
  \<^item> \<open>Prelude\<close>, \<open>C_Library\<close>: integer types, tables read by index, characters, number parsers and printers of
    the C library, with the lemmas on parsing what was printed.
  \<^item> \<open>String_Copy\<close>: \<open>strscpy\<close> and \<open>strscat\<close> of \<open>types.h\<close> on explicit buffers.
  \<^item> \<open>Queue\<close>: the linked queue of \<open>queue.c\<close> over a heap of nodes. The locale \<open>fifo\<close> states the laws of a
    queue, and it is interpreted on the linked queue.
  \<^item> \<open>Cpu_Isolation\<close>: \<open>ras-cpu-isolation.c\<close>. Configuration, the sliding window of corrected errors of a CPU,
    and the decision to take a CPU offline; \<open>cpu_reach\<close> is the set of states reached by events.
  \<^item> \<open>Rbtree\<close>: insertion of \<open>rbtree.c\<close> as pointer code, related to trees of addresses.
  \<^item> \<open>Isolation_Env\<close>, \<open>Soft_Double\<close>, \<open>Page_Isolation\<close>, \<open>Row_Isolation\<close>: \<open>ras-page-isolation.c\<close>. The configuration,
    the rounding of the floating point numbers it uses, the accounting of pages and of rows. The locale
    \<open>record_index\<close> is the interface between the tree and the accounting; its interpretation on the
    red-black tree discharges the laws. \<open>page_reach\<close> and \<open>row_reach\<close> are the states reached by events.
  \<^item> \<open>Mce_Types\<close>: the machine check event of \<open>ras-mce-handler.h\<close>, its messages and the notion of a decoder
    that is in order: \<open>decodes e r\<close> holds when the decoder run on \<open>e\<close> is defined, changes no register of
    the event and keeps every message inside its buffer. The collection \<open>decodes_intros\<close> proves it along
    the structure of a decoder.
  \<^item> \<open>Bitfield\<close>: the printers of \<open>bitfield.c\<close> and what they print.
  \<^item> \<open>Mce_Intel_P6\<close>, \<open>Mce_Intel_Xeon\<close>, \<open>Mce_Intel_Server\<close>: the tables and decoders of the Intel families.
  \<^item> \<open>Mce_Intel\<close>, \<open>Mce_Amd\<close>, \<open>Mce_Smca\<close>, \<open>Mce_Zhaoxin\<close>: the decoders for a vendor.
  \<^item> \<open>Trace_Event\<close>, \<open>Event_Reader\<close>, \<open>Byte_Layout\<close>, \<open>Raw_Data\<close>, \<open>Uuid\<close>, \<open>Trigger\<close>: what the handlers share: the
    fields of a record, the clock, the log levels; reading field by field and giving up at the first field
    that is missing; structures as bytes; the dump of raw data, the text of an identifier, and \<open>trigger.c\<close>.
    The type \<open>handled\<close> is the end of a handler: its output, and what it hands to the database and the
    reports, or nothing when it returned an error.
  \<^item> \<open>Mce_Handler\<close>, \<open>Mce_Offline\<close>: \<open>ras-mce-handler.c\<close>. CPU detection from \<open>/proc/cpuinfo\<close>, registration, the
    handler of machine checks, and the decoder for registers given on the command line of \<open>rasdaemon.c\<close>.
  \<^item> \<open>Mc_Handler\<close>: \<open>ras-mc-handler.c\<close>, composed with the accounting of pages and of rows.
  \<^item> \<open>Erst\<close>: \<open>ras-erst.c\<close>, the machine checks kept by the firmware, over the decoder of \<open>Mce_Handler\<close>.
  \<^item> \<open>Aer_Handler\<close>, \<open>Unified_Sel\<close>: \<open>ras-aer-handler.c\<close> and the entries \<open>unified-sel.c\<close> makes for it.
  \<^item> \<open>Event_Handlers\<close>: \<open>ras-devlink-handler.c\<close>, \<open>ras-diskerror-handler.c\<close>, \<open>ras-memory-failure-handler.c\<close>,
    \<open>ras-poison-page-stat.c\<close>, \<open>ras-signal-handler.c\<close> and \<open>ras-extlog-handler.c\<close>.
  \<^item> \<open>Arm_Handler\<close>: \<open>ras-arm-handler.c\<close>, composed with the isolation of CPUs.
  \<^item> \<open>Non_Standard\<close>: the registry of vendor decoders of \<open>ras-non-standard-handler.c\<close>.
  \<^item> \<open>Handler_Script\<close>: handlers that are straight sequences of a few kinds of statement, their execution
    \<open>run\<close> and what it comes to without the output (\<open>needed\<close>, \<open>effect\<close>).
  \<^item> \<open>Cxl_Events\<close>, \<open>Cxl_Handler\<close>, \<open>Cxl_Facts\<close>: \<open>ras-cxl-handler.c\<close>, composed with the isolation of pages.
  \<^item> \<open>Reri_Handler\<close>: \<open>ras-reri-handler.c\<close>, composed with the isolation of CPUs.
  \<^item> \<open>Db_Schema\<close>, \<open>Db_Store\<close>, \<open>Db_Open\<close>: \<open>ras-record.c\<close>. The tables and the SQL text put together for them,
    the values bound for each event, and opening, upgrading and closing the database. What SQLite answers
    is a parameter; which statements and connections it holds is part of the state, and a connection that
    is closed is held until the last of its statements is finalized. What is assumed of SQLite is
    \<open>sqlite_documented\<close>.
  \<^item> \<open>Report\<close>: \<open>ras-report.c\<close>. The text of every report, the buffers it is cut to, and what is written to the
    socket.

  \<^bold>\<open>What the theorems show.\<close> For the accounting parts: the invariants of every reachable state, that
  counting is exact over its window or cycle, that the kernel is asked to take something offline only
  when the configuration and the count say so, and what a second request does. For the configuration:
  which strings are accepted and what value they get. For the decoders: on which events they are defined,
  what they print, and that messages stay in their buffers. For the handlers: the result, the output and
  what is stored, on every path, and which page, row or CPU goes offline for it. For the database: when
  storing an event is defined, and that its row then has a value of the type of each column; that opening
  returns for every answer of SQLite but a lock that is held for ever; which columns are added to a table of
  an older version when SQLite may refuse any statement; and what closing leaves held. For
  the reports: what the other side receives, and how much of it.
  Where the code does not do what its comments or names say, the theorem
  states what it does; the manifest lists these as findings.

  \<^bold>\<open>Termination and fuel.\<close> The loops are recursions on lists or words. The mask loop of \<open>bitfield.c\<close>, the
  rotation loop of the red-black tree and the loop that opens the database may run for ever in general, and
  are partial functions; it is proved that they end where the program calls them.

  \<^bold>\<open>Not modelled.\<close> The main loop of \<open>ras-events.c\<close> sets up tracing through files of the kernel, threads and
  signals; what it hands to the handlers is the record they take here. Of \<open>rasdaemon.c\<close> only the options of
  the offline decoder are modelled, the rest is the option parser of the C library. The vendor decoders
  \<open>non-standard-*.c\<close> are a parameter of the registry. Of \<open>rbtree.c\<close> the erasure and the iterators are left
  out, which no part of the program calls. \<open>ras-logger.h\<close> passes on to the system log. The scripts, labels
  and manuals are not C code.
\<close>

end
